(* ===== verification/Prelude.thy ===== *)
theory Prelude
  imports Main "HOL-Library.Multiset"
begin

text \<open>
  Shared ground of the development: the errors the services raise, the way an asynchronous
  method is written down (a function from the state to a result or an error and the state it
  leaves), the JavaScript operations the source uses (template strings over integers,
  \<open>Math.round\<close>, property lookup in an object literal), and generic lemmas on lists that
  several components use.

  A method of type \<open>('s, 'a) prog\<close> is read as the source reads: \<open>await m (\<lambda>x. k)\<close> is
  \<open>const x = await m; k\<close>, \<open>throw e\<close> is \<open>throw e\<close>, \<open>try_catch m h\<close> is
  \<open>try m catch (e) h e\<close>. An error keeps the state reached when it was raised; only
  \<open>transaction\<close> (theory \<open>Tables\<close>) takes database changes back.
\<close>

section \<open>Errors\<close>

text \<open>
  One constructor per exception class the source raises or relies on. The Spanish message of an
  HTTP exception is replaced by a short tag that names the throw site. \<open>ThrottlerException\<close> is what
  the rate limiter throws, \<open>UniqueViolation\<close> is
  Prisma's error P2002 (a unique constraint of the schema), \<open>RecordNotFound\<close> is P2025
  (\<open>findUniqueOrThrow\<close> or \<open>update\<close> on a missing row), \<open>IntegerOutOfRange\<close> is
  PostgreSQL's error for a value outside an INTEGER column.
\<close>

datatype exn =
    NotFoundException string
  | BadRequestException string
  | UnauthorizedException string
  | ForbiddenException string
  | ConflictException string
  | ThrottlerException
  | ReadingAlreadySubmittedError
  | UniqueViolation
  | RecordNotFound
  | IntegerOutOfRange
  | TypeError string
  | PlainError string

text \<open>\<open>isUniqueConstraintViolation\<close>, declared alike in the services that need it.\<close>

definition isUniqueConstraintViolation :: "exn \<Rightarrow> bool" where
  "isUniqueConstraintViolation e = (e = UniqueViolation)"

section \<open>Asynchronous methods\<close>

type_synonym ('s, 'a) prog = "'s \<Rightarrow> (exn + 'a) \<times> 's"

named_theorems prog "unfolding of the program combinators and of the table operations"

definition ret :: "'a \<Rightarrow> ('s, 'a) prog" where
  "ret x = (\<lambda>s. (Inr x, s))"

definition throw :: "exn \<Rightarrow> ('s, 'a) prog" where
  "throw e = (\<lambda>s. (Inl e, s))"

definition await :: "('s, 'a) prog \<Rightarrow> ('a \<Rightarrow> ('s, 'b) prog) \<Rightarrow> ('s, 'b) prog" where
  "await m k = (\<lambda>s. case m s of
       (Inl e, s') \<Rightarrow> (Inl e, s')
     | (Inr x, s') \<Rightarrow> k x s')"

definition andthen :: "('s, 'a) prog \<Rightarrow> ('s, 'b) prog \<Rightarrow> ('s, 'b) prog" where
  "andthen m k = await m (\<lambda>_. k)"

definition try_catch :: "('s, 'a) prog \<Rightarrow> (exn \<Rightarrow> ('s, 'a) prog) \<Rightarrow> ('s, 'a) prog" where
  "try_catch m h = (\<lambda>s. case m s of
       (Inl e, s') \<Rightarrow> h e s'
     | (Inr x, s') \<Rightarrow> (Inr x, s'))"

definition gets :: "('s \<Rightarrow> 'a) \<Rightarrow> ('s, 'a) prog" where
  "gets f = (\<lambda>s. (Inr (f s), s))"

definition modify :: "('s \<Rightarrow> 's) \<Rightarrow> ('s, unit) prog" where
  "modify f = (\<lambda>s. (Inr (), f s))"

definition throw_if :: "bool \<Rightarrow> exn \<Rightarrow> ('s, unit) prog" where
  "throw_if c e = (if c then throw e else ret ())"

text \<open>A \<open>for (const x of xs) { await body(x) }\<close> loop: it stops at the first error.\<close>

fun for_each :: "('a \<Rightarrow> ('s, unit) prog) \<Rightarrow> 'a list \<Rightarrow> ('s, unit) prog" where
  "for_each body [] = ret ()"
| "for_each body (x # xs) = andthen (body x) (for_each body xs)"

text \<open>\<open>xs.map(async ...)\<close> awaited element by element, in order.\<close>

fun map_each :: "('a \<Rightarrow> ('s, 'b) prog) \<Rightarrow> 'a list \<Rightarrow> ('s, 'b list) prog" where
  "map_each body [] = ret []"
| "map_each body (x # xs) = await (body x) (\<lambda>y. await (map_each body xs) (\<lambda>ys. ret (y # ys)))"

lemma ret_run [simp, prog]: "ret x s = (Inr x, s)"
  by (simp add: ret_def)

lemma throw_run [simp, prog]: "throw e s = (Inl e, s)"
  by (simp add: throw_def)

lemma gets_run [simp, prog]: "gets f s = (Inr (f s), s)"
  by (simp add: gets_def)

lemma modify_run [simp, prog]: "modify f s = (Inr (), f s)"
  by (simp add: modify_def)

lemma throw_if_run [simp, prog]: "throw_if c e s = (if c then (Inl e, s) else (Inr (), s))"
  by (simp add: throw_if_def)

lemma await_ok: "m s = (Inr x, s') \<Longrightarrow> await m k s = k x s'"
  by (simp add: await_def)

lemma await_err: "m s = (Inl e, s') \<Longrightarrow> await m k s = (Inl e, s')"
  by (simp add: await_def)

text \<open>
  Inversion of a run: a chain that returned went through all its links; a chain that failed
  failed at one of them.
\<close>

lemma await_Inr_iff:
  "await m k s = (Inr y, t) \<longleftrightarrow> (\<exists>x u. m s = (Inr x, u) \<and> k x u = (Inr y, t))"
  by (auto simp: await_def split: prod.splits sum.splits)

lemma await_Inl_iff:
  "await m k s = (Inl e, t) \<longleftrightarrow>
     m s = (Inl e, t) \<or> (\<exists>x u. m s = (Inr x, u) \<and> k x u = (Inl e, t))"
  by (auto simp: await_def split: prod.splits sum.splits)

lemma andthen_Inr_iff:
  "andthen m k s = (Inr y, t) \<longleftrightarrow> (\<exists>x u. m s = (Inr x, u) \<and> k u = (Inr y, t))"
  by (simp add: andthen_def await_Inr_iff)

lemma andthen_Inl_iff:
  "andthen m k s = (Inl e, t) \<longleftrightarrow>
     m s = (Inl e, t) \<or> (\<exists>x u. m s = (Inr x, u) \<and> k u = (Inl e, t))"
  by (simp add: andthen_def await_Inl_iff)

lemma try_catch_Inr_iff:
  "try_catch m h s = (Inr y, t) \<longleftrightarrow>
     m s = (Inr y, t) \<or> (\<exists>e u. m s = (Inl e, u) \<and> h e u = (Inr y, t))"
  by (auto simp: try_catch_def split: prod.splits sum.splits)

lemma try_catch_Inl_iff:
  "try_catch m h s = (Inl e, t) \<longleftrightarrow> (\<exists>e' u. m s = (Inl e', u) \<and> h e' u = (Inl e, t))"
  by (auto simp: try_catch_def split: prod.splits sum.splits)

text \<open>A conditional program does what the chosen branch does.\<close>

lemma if_Inr_iff:
  "(if c then m else k) s = (Inr y, t) \<longleftrightarrow> (c \<longrightarrow> m s = (Inr y, t)) \<and> (\<not> c \<longrightarrow> k s = (Inr y, t))"
  by simp

lemma if_Inl_iff:
  "(if c then m else k) s = (Inl e, t) \<longleftrightarrow> (c \<longrightarrow> m s = (Inl e, t)) \<and> (\<not> c \<longrightarrow> k s = (Inl e, t))"
  by simp

lemma case_option_Inr_iff:
  "(case x of None \<Rightarrow> m | Some z \<Rightarrow> k z) s = (Inr y, t) \<longleftrightarrow>
     (x = None \<and> m s = (Inr y, t)) \<or> (\<exists>z. x = Some z \<and> k z s = (Inr y, t))"
  by (cases x) auto

lemma case_option_Inl_iff:
  "(case x of None \<Rightarrow> m | Some z \<Rightarrow> k z) s = (Inl e, t) \<longleftrightarrow>
     (x = None \<and> m s = (Inl e, t)) \<or> (\<exists>z. x = Some z \<and> k z s = (Inl e, t))"
  by (cases x) auto

lemmas prog_inv = if_Inr_iff if_Inl_iff case_option_Inr_iff case_option_Inl_iff await_Inr_iff await_Inl_iff andthen_Inr_iff andthen_Inl_iff
  try_catch_Inr_iff try_catch_Inl_iff

lemma await_InrE:
  assumes "await m k s = (Inr y, t)"
  obtains x u where "m s = (Inr x, u)" "k x u = (Inr y, t)"
  using assms by (auto simp: await_Inr_iff)

lemma andthen_InrE:
  assumes "andthen m k s = (Inr y, t)"
  obtains x u where "m s = (Inr x, u)" "k u = (Inr y, t)"
  using assms by (auto simp: andthen_Inr_iff)

text \<open>Monad laws: sequencing has \<open>ret\<close> as unit and is associative.\<close>

lemma await_ret_left [simp]: "await (ret x) k = k x"
  by (simp add: await_def ret_def)

lemma await_throw_left [simp]: "await (throw e) k = throw e"
  by (simp add: await_def throw_def)

lemma await_assoc: "await (await m k) h = await m (\<lambda>x. await (k x) h)"
  by (rule ext) (simp add: await_def split: prod.splits sum.splits)

lemma await_if: "await (if c then m else n) k = (if c then await m k else await n k)"
  by simp

section \<open>JavaScript values\<close>

text \<open>Decimal digits of a number, as a template string writes them.\<close>

definition digit_char :: "int \<Rightarrow> char" where
  "digit_char k = char_of (48 + nat k)"

function digits :: "int \<Rightarrow> string" where
  "digits n = (if n < 10 then [digit_char n] else digits (n div 10) @ [digit_char (n mod 10)])"
  by pat_completeness auto
termination
  by (relation "measure nat") auto

declare digits.simps [simp del]

definition string_of_int :: "int \<Rightarrow> string" where
  "string_of_int i = (if i < 0 then CHR ''-'' # digits (- i) else digits i)"

text \<open>\<open>text.replace(/c/g, r)\<close>.\<close>

definition replace_char :: "char \<Rightarrow> string \<Rightarrow> string \<Rightarrow> string" where
  "replace_char c r s = concat (map (\<lambda>x. if x = c then r else [x]) s)"

text \<open>
  \<open>Math.round(n / d)\<close> for an integer \<open>n\<close> and a positive integer \<open>d\<close>: the nearest
  integer, and the larger one at a tie.
\<close>

definition math_round_div :: "int \<Rightarrow> int \<Rightarrow> int" where
  "math_round_div n d = (2 * n + d) div (2 * d)"

lemma math_round_div_bounds:
  assumes "0 < d"
  shows "2 * n - d < 2 * d * math_round_div n d" and "2 * d * math_round_div n d \<le> 2 * n + d"
proof -
  have eq: "2 * d * math_round_div n d = 2 * n + d - (2 * n + d) mod (2 * d)"
    by (simp add: math_round_div_def minus_mod_eq_mult_div [symmetric])
  have "0 \<le> (2 * n + d) mod (2 * d)" and "(2 * n + d) mod (2 * d) < 2 * d"
    using assms by (simp_all add: pos_mod_bound pos_mod_sign)
  with eq show "2 * n - d < 2 * d * math_round_div n d" and "2 * d * math_round_div n d \<le> 2 * n + d"
    by linarith+
qed

text \<open>
  Reading \<open>obj[key]\<close> of an object literal: the literal's own properties come first, then those
  every object inherits from \<open>Object.prototype\<close>, then \<open>undefined\<close>. The \<open>in\<close> operator
  sees inherited properties too.
\<close>

definition object_prototype_keys :: "string list" where
  "object_prototype_keys =
     [''constructor'', ''__defineGetter__'', ''__defineSetter__'', ''hasOwnProperty'',
      ''__lookupGetter__'', ''__lookupSetter__'', ''isPrototypeOf'', ''propertyIsEnumerable'',
      ''toString'', ''valueOf'', ''__proto__'', ''toLocaleString'']"

datatype 'v property = Undefined | Own 'v | Inherited

definition js_get :: "(string \<times> 'v) list \<Rightarrow> string \<Rightarrow> 'v property" where
  "js_get obj key = (case map_of obj key of
       Some v \<Rightarrow> Own v
     | None \<Rightarrow> (if key \<in> set object_prototype_keys then Inherited else Undefined))"

definition js_in :: "string \<Rightarrow> (string \<times> 'v) list \<Rightarrow> bool" where
  "js_in key obj = (js_get obj key \<noteq> Undefined)"

text \<open>
  \<open>toLowerCase\<close> and \<open>trim\<close>; \<open>is_blank\<close> is \<open>\s\<close> of a regular expression, which is the white space \<open>trim\<close> removes.
\<close>

definition lower_char :: "char \<Rightarrow> char" where
  "lower_char c = (let n = (of_char c :: nat) in
     if (65 \<le> n \<and> n \<le> 90) \<or> (192 \<le> n \<and> n \<le> 222 \<and> n \<noteq> 215) then char_of (n + 32) else c)"

definition is_blank :: "char \<Rightarrow> bool" where
  "is_blank c = (let n = (of_char c :: nat) in (9 \<le> n \<and> n \<le> 13) \<or> n = 32 \<or> n = 160)"

definition js_trim :: "string \<Rightarrow> string" where
  "js_trim s = rev (dropWhile is_blank (rev (dropWhile is_blank s)))"

text \<open>PostgreSQL INTEGER: a 32-bit signed value.\<close>

definition int4 :: "int \<Rightarrow> bool" where
  "int4 n = (- (2 ^ 31) \<le> n \<and> n < 2 ^ 31)"

text \<open>
  \<open>skip\<close> and \<open>take\<close> of a page: rows \<open>(page - 1) * pageSize\<close> up to
  \<open>page * pageSize\<close> of an ordered result.
\<close>

definition page_of :: "nat \<Rightarrow> nat \<Rightarrow> 'a list \<Rightarrow> 'a list" where
  "page_of page pageSize xs = take pageSize (drop ((page - 1) * pageSize) xs)"

text \<open>
  \<open>orderBy: { key: 'desc' }\<close>: newest first. Rows with equal keys may come in any order; the
  model keeps the later inserted row first.
\<close>

definition order_desc :: "('a \<Rightarrow> int) \<Rightarrow> 'a list \<Rightarrow> 'a list" where
  "order_desc key xs = rev (sort_key key xs)"

lemma set_order_desc [simp]: "set (order_desc key xs) = set xs"
  by (simp add: order_desc_def)

lemma length_order_desc [simp]: "length (order_desc key xs) = length xs"
  by (simp add: order_desc_def)

lemma order_desc_Nil_iff [simp]: "order_desc key xs = [] \<longleftrightarrow> xs = []"
  by (metis length_0_conv length_order_desc)

lemma mset_order_desc [simp]: "mset (order_desc key xs) = mset xs"
  by (simp add: order_desc_def)

lemma first_desc_SomeD:
  assumes "(case order_desc key (filter P xs) of [] \<Rightarrow> None | r # _ \<Rightarrow> Some r) = Some x"
  shows "x \<in> set xs \<and> P x"
proof -
  have "x \<in> set (order_desc key (filter P xs))"
    using assms by (simp split: list.splits del: set_order_desc)
  then show ?thesis by simp
qed

lemma order_desc_head_max:
  assumes "x \<in> set xs"
  shows "key x \<le> key (hd (order_desc key xs))"
proof -
  have "x \<in> set (sort_key key xs)" using assms by simp
  then have ne: "sort_key key xs \<noteq> []" by (cases "sort_key key xs") auto
  have "sorted (map key (sort_key key xs))" by simp
  moreover obtain i where "i < length (sort_key key xs)" "sort_key key xs ! i = x"
    using \<open>x \<in> set (sort_key key xs)\<close> by (metis in_set_conv_nth)
  ultimately have "key x \<le> key (last (sort_key key xs))"
    using ne by (auto simp: last_conv_nth sorted_iff_nth_mono)
  then show ?thesis by (simp add: order_desc_def hd_rev)
qed

text \<open>The pages of an ordered result, put together, are the result.\<close>

lemma page_of_length: "length (page_of page pageSize xs) \<le> pageSize"
  by (simp add: page_of_def)

lemma pages_concat:
  assumes "0 < pageSize" and "length xs \<le> n * pageSize"
  shows "concat (map (\<lambda>p. page_of (Suc p) pageSize xs) [0..<n]) = xs"
proof -
  have "concat (map (\<lambda>p. page_of (Suc p) pageSize xs) [0..<n]) = take (n * pageSize) xs" for n
  proof (induction n)
    case (Suc n)
    then show ?case by (simp add: page_of_def take_add add.commute [of pageSize])
  qed simp
  with assms show ?thesis by simp
qed

section \<open>Lists of rows\<close>

lemma find_by_same_key: "(\<And>x. key (g x) = key x) \<Longrightarrow> find (\<lambda>x. key x = k) (map g xs) = map_option g (find (\<lambda>x. key x = k) xs)"
  by (induction xs) simp_all

lemma find_SomeD: "find P xs = Some x \<Longrightarrow> x \<in> set xs \<and> P x"
  by (auto simp: find_Some_iff)

lemma find_NoneD: "find P xs = None \<Longrightarrow> x \<in> set xs \<Longrightarrow> \<not> P x"
  by (auto simp: find_None_iff)

lemma find_append: "find P (xs @ ys) = (case find P xs of None \<Rightarrow> find P ys | Some x \<Rightarrow> Some x)"
  by (induction xs) auto

lemma find_SomeI_unique:
  assumes "x \<in> set xs" "P x" "\<And>y. y \<in> set xs \<Longrightarrow> P y \<Longrightarrow> y = x"
  shows "find P xs = Some x"
proof (cases "find P xs")
  case None
  with assms(1,2) show ?thesis by (auto simp: find_None_iff)
next
  case (Some y)
  with assms(3) show ?thesis by (auto dest!: find_SomeD)
qed

lemma find_key_eq:
  assumes "distinct (map key xs)" "x \<in> set xs"
  shows "find (\<lambda>y. key y = key x) xs = Some x"
  using assms by (intro find_SomeI_unique) (auto simp: distinct_map inj_on_def)

lemma find_map_update:
  "(\<And>x. P (f x) = P x) \<Longrightarrow> find P (map f xs) = map_option f (find P xs)"
  by (induction xs) auto

lemma map_update_same:
  "(\<And>x. x \<in> set xs \<Longrightarrow> P x \<Longrightarrow> g (f x) = g x) \<Longrightarrow>
   map g (map (\<lambda>x. if P x then f x else x) xs) = map g xs"
  by (induction xs) auto

lemma filter_update_same:
  "(\<And>x. x \<in> set xs \<Longrightarrow> P x \<Longrightarrow> Q (f x) = Q x) \<Longrightarrow>
   map g (filter Q (map (\<lambda>x. if P x then f x else x) xs)) =
   map (\<lambda>x. g (if P x then f x else x)) (filter Q xs)"
  by (induction xs) auto

lemma map_update_memD:
  "y \<in> set (map (\<lambda>x. if P x then f x else x) xs) \<Longrightarrow> \<exists>x \<in> set xs. y = (if P x then f x else x)"
  by (simp only: set_map image_iff)

lemma bex_map_update:
  "(\<exists>y \<in> set (map (\<lambda>x. if P x then f x else x) xs). Q y) \<longleftrightarrow>
   (\<exists>x \<in> set xs. if P x then Q (f x) else Q x)"
  by (induction xs) auto

lemma ball_map_update:
  "(\<forall>y \<in> set (map (\<lambda>x. if P x then f x else x) xs). Q y) \<longleftrightarrow>
   (\<forall>x \<in> set xs. if P x then Q (f x) else Q x)"
  by (induction xs) auto

lemma length_filter_eq_0: "length (filter P xs) = 0 \<longleftrightarrow> (\<forall>x \<in> set xs. \<not> P x)"
  by (simp add: filter_empty_conv)

lemma distinct_key_snoc:
  "distinct (map key (xs @ [x])) \<longleftrightarrow> distinct (map key xs) \<and> (\<forall>y \<in> set xs. key y \<noteq> key x)"
  by (auto simp: image_iff)

lemma distinct_key_unique:
  "distinct (map key xs) \<Longrightarrow> x \<in> set xs \<Longrightarrow> y \<in> set xs \<Longrightarrow> key x = key y \<Longrightarrow> x = y"
  by (auto simp: distinct_map inj_on_def)

lemma distinct_subset_length:
  assumes "distinct xs" "set xs \<subseteq> set ys"
  shows "length xs \<le> length ys"
proof -
  have "length xs = card (set xs)" using assms(1) by (simp add: distinct_card)
  also have "\<dots> \<le> card (set ys)" using assms(2) by (simp add: card_mono)
  also have "\<dots> \<le> length ys" by (rule card_length)
  finally show ?thesis .
qed

end
