(* ===== verification/Schema.thy ===== *)
theory Schema
  imports Prelude
begin

text \<open>
  The data model of \<open>prisma/schema.prisma\<close>: one record per model, one datatype per enum, the
  database as a record of tables. A table is the list of its rows in the order of insertion. The
  table descriptors and the state around the database are in theory \<open>Tables\<close>.

  Times are milliseconds since the epoch, the cost of an AI call is in millionths of a dollar (the
  column has six decimals). Strings are lists of characters; code units
  above 255 are outside the model. Columns that nothing reads are left out: \<open>updatedAt\<close> (apart from the one of
  \<open>Service\<close>), the \<open>createdAt\<close> of the tables no listing orders or shows by it, and the raw payload of a payment.
\<close>

section \<open>JSON values\<close>

text \<open>
  A parsed JSON value. A number that is an integer is \<open>JNumber\<close>; any other is kept by the text
  JavaScript prints for it (\<open>JDecimal\<close>). The keys of an object are distinct.
\<close>

datatype json =
    JNull
  | JBool bool
  | JNumber int
  | JDecimal string
  | JString string
  | JArray "json list"
  | JObject "(string \<times> json) list"

section \<open>Enums\<close>

datatype userStatus = ACTIVE_USER | BLOCKED_USER | DELETED_USER

datatype verificationPurpose = EMAIL_VERIFICATION | PASSWORD_RESET

datatype arcanaType = MAJOR | MINOR

datatype minorSuit = WANDS | CUPS | SWORDS | PENTACLES

datatype readingStatus =
  DRAFT | PENDING | PROCESSING | COMPLETED | FAILED | REFUNDED | CANCELLED

datatype cardOrientation = UPRIGHT | REVERSED

datatype palmImageStatus = UPLOADED | PENDING_REVIEW | VALID | INVALID

datatype promptVersionStatus = PV_DRAFT | PV_PUBLISHED | PV_ARCHIVED

datatype aiExecutionStatus = AI_PENDING | AI_COMPLETED | AI_FAILED

datatype walletTransactionType =
  PURCHASE | RESERVATION | CONSUMPTION | RELEASE | REFUND | BONUS | PROMOTION | REFERRAL | ADJUSTMENT

datatype reservationStatus = RES_ACTIVE | RES_CONSUMED | RES_RELEASED

datatype orderStatus = ORD_PENDING | ORD_PAID | ORD_CANCELLED | ORD_REFUNDED

datatype paymentStatus = PAY_PENDING | PAY_APPROVED | PAY_DECLINED | PAY_FAILED | PAY_REFUNDED

datatype shareImageStatus = IMG_PENDING | IMG_READY | IMG_FAILED

datatype rewardType = DAILY_CARD_UNLOCK | TAROT_READING_UNLOCK | FLASH_OFFER_UNLOCK

datatype rewardSessionStatus =
  RS_CREATED | RS_STARTED | RS_COMPLETED | RS_EXPIRED | RS_FAILED | RS_REJECTED

section \<open>Rows\<close>

record user =
  u_id :: string
  u_email :: string
  u_name :: string
  u_passwordHash :: string
  u_status :: userStatus
  u_emailVerifiedAt :: "int option"
  u_createdAt :: int
  u_deletedAt :: "int option"

record role =
  ro_id :: string
  ro_code :: string
  ro_name :: string

record userRole =
  ur_userId :: string
  ur_roleId :: string

record refreshToken =
  rt_id :: string
  rt_userId :: string
  rt_tokenHash :: string
  rt_expiresAt :: int
  rt_revokedAt :: "int option"
  rt_replacedBy :: "string option"

record verificationToken =
  vt_id :: string
  vt_userId :: string
  vt_purpose :: verificationPurpose
  vt_tokenHash :: string
  vt_expiresAt :: int
  vt_usedAt :: "int option"

record service =
  s_id :: string
  s_code :: string
  s_name :: string
  s_description :: "string option"
  s_creditCost :: int
  s_isActive :: bool
  s_createdAt :: int
  s_updatedAt :: int

record serviceForm =
  sf_id :: string
  sf_serviceId :: string
  sf_version :: int
  sf_schema :: json
  sf_isActive :: bool

record tarotDeck =
  td_id :: string
  td_code :: string
  td_name :: string
  td_isActive :: bool

record tarotCard =
  tc_id :: string
  tc_deckId :: string
  tc_code :: string
  tc_name :: string
  tc_arcana :: arcanaType
  tc_suit :: "minorSuit option"
  tc_numberInSuit :: "int option"
  tc_orderIndex :: int
  tc_uprightMeaning :: string
  tc_reversedMeaning :: string
  tc_imageUrl :: "string option"

record tarotSpread =
  ts_id :: string
  ts_code :: string
  ts_name :: string
  ts_isActive :: bool

record spreadPosition =
  sp_id :: string
  sp_spreadId :: string
  sp_code :: string
  sp_label :: string
  sp_orderIndex :: int

record reading =
  r_id :: string
  r_userId :: string
  r_serviceId :: string
  r_spreadId :: "string option"
  r_promptVersionId :: "string option"
  r_status :: readingStatus
  r_submittedAt :: "int option"
  r_createdAt :: int

record palmImage =
  pi_id :: string
  pi_readingId :: string
  pi_storageKey :: string
  pi_status :: palmImageStatus
  pi_mimeType :: "string option"
  pi_sizeBytes :: "int option"
  pi_widthPx :: "int option"
  pi_heightPx :: "int option"
  pi_validationError :: "string option"
  pi_consentAt :: "int option"
  pi_expiresAt :: "int option"
  pi_deletedAt :: "int option"
  pi_createdAt :: int

record readingInput =
  in_id :: string
  in_readingId :: string
  in_formVersion :: int
  in_answers :: json

record tarotDrawRow =
  dr_id :: string
  dr_readingId :: string
  dr_position :: string
  dr_cardId :: string
  dr_orientation :: cardOrientation

record promptRow =
  pr_id :: string
  pr_code :: string
  pr_name :: string
  pr_createdAt :: int

record promptVersion =
  pv_id :: string
  pv_promptId :: string
  pv_version :: int
  pv_systemPrompt :: string
  pv_userPromptTemplate :: string
  pv_model :: string
  pv_temperature :: "string option"
  pv_maxOutputTokens :: "int option"
  pv_outputSchema :: json
  pv_status :: promptVersionStatus
  pv_authorId :: "string option"
  pv_publishedAt :: "int option"
  pv_createdAt :: int

record aiExecution =
  ai_id :: string
  ai_promptVersionId :: string
  ai_readingId :: "string option"
  ai_provider :: string
  ai_model :: string
  ai_status :: aiExecutionStatus
  ai_inputSummary :: "(string \<times> string) list"
  ai_outputJson :: "json option"
  ai_tokensInput :: "int option"
  ai_tokensOutput :: "int option"
  ai_latencyMs :: "int option"
  ai_costEstimate :: "int option"
  ai_errorMessage :: "string option"
  ai_createdAt :: int

record wallet =
  w_id :: string
  w_userId :: string
  w_balance :: int

record walletTransaction =
  t_id :: string
  t_walletId :: string
  t_type :: walletTransactionType
  t_amount :: int
  t_balanceAfter :: int
  t_idempotencyKey :: string
  t_readingId :: "string option"
  t_orderId :: "string option"
  t_createdAt :: int

record creditReservation =
  cr_id :: string
  cr_walletId :: string
  cr_readingId :: string
  cr_amount :: int
  cr_status :: reservationStatus

record creditPackage =
  cp_id :: string
  cp_code :: string
  cp_name :: string
  cp_description :: "string option"
  cp_credits :: int
  cp_priceCents :: int
  cp_currency :: string
  cp_isActive :: bool
  cp_isRecommended :: bool

record orderRow =
  o_id :: string
  o_userId :: string
  o_creditPackageId :: string
  o_credits :: int
  o_priceCents :: int
  o_discountAppliedPercent :: "int option"
  o_currency :: string
  o_status :: orderStatus
  o_createdAt :: int

record payment =
  p_id :: string
  p_orderId :: string
  p_provider :: string
  p_providerReference :: string
  p_providerTransactionId :: "string option"
  p_status :: paymentStatus
  p_amountCents :: int
  p_currency :: string
  p_createdAt :: int

record webhookEvent =
  we_id :: string
  we_provider :: string
  we_eventId :: string
  we_eventType :: string
  we_payload :: json

record shareLink =
  sl_id :: string
  sl_readingId :: string
  sl_imageKey :: "string option"
  sl_imageStatus :: shareImageStatus
  sl_revokedAt :: "int option"

record analyticsEvent =
  ae_id :: string
  ae_type :: string
  ae_shareLinkId :: "string option"
  ae_userId :: "string option"
  ae_metadata :: "(string \<times> string) list"

record auditLog =
  al_id :: string
  al_actorUserId :: "string option"
  al_action :: string
  al_targetType :: "string option"
  al_targetId :: "string option"
  al_reason :: string
  al_metadata :: "json option"
  al_createdAt :: int

record rewardSession =
  rs_id :: string
  rs_userId :: string
  rs_rewardType :: rewardType
  rs_provider :: string
  rs_status :: rewardSessionStatus
  rs_idempotencyKey :: string
  rs_completedAt :: "int option"
  rs_expiresAt :: int

record rewardTransaction =
  rx_id :: string
  rx_userId :: string
  rx_rewardSessionId :: string
  rx_rewardType :: rewardType
  rx_rewardAmount :: int
  rx_provider :: string
  rx_createdAt :: int

record rewardProgress =
  rp_id :: string
  rp_userId :: string
  rp_rewardType :: rewardType
  rp_currentCount :: int

record flashOfferUnlock =
  fo_id :: string
  fo_userId :: string
  fo_packageCode :: string
  fo_discountPercent :: int
  fo_expiresAt :: int
  fo_consumedAt :: "int option"
  fo_createdAt :: int

section \<open>The database\<close>

record database =
  users :: "user list"
  roles :: "role list"
  userRoles :: "userRole list"
  refreshTokens :: "refreshToken list"
  verificationTokens :: "verificationToken list"
  services :: "service list"
  serviceForms :: "serviceForm list"
  tarotDecks :: "tarotDeck list"
  tarotCards :: "tarotCard list"
  tarotSpreads :: "tarotSpread list"
  spreadPositions :: "spreadPosition list"
  readings :: "reading list"
  palmImages :: "palmImage list"
  readingInputs :: "readingInput list"
  tarotDraws :: "tarotDrawRow list"
  prompts :: "promptRow list"
  promptVersions :: "promptVersion list"
  aiExecutions :: "aiExecution list"
  wallets :: "wallet list"
  walletTransactions :: "walletTransaction list"
  creditReservations :: "creditReservation list"
  creditPackages :: "creditPackage list"
  orders :: "orderRow list"
  payments :: "payment list"
  webhookEvents :: "webhookEvent list"
  shareLinks :: "shareLink list"
  analyticsEvents :: "analyticsEvent list"
  auditLogs :: "auditLog list"
  rewardSessions :: "rewardSession list"
  rewardTransactions :: "rewardTransaction list"
  rewardProgresses :: "rewardProgress list"
  flashOfferUnlocks :: "flashOfferUnlock list"

definition empty_database :: database where
  "empty_database = \<lparr>users = [], roles = [], userRoles = [], refreshTokens = [],
     verificationTokens = [], services = [], serviceForms = [], tarotDecks = [], tarotCards = [],
     tarotSpreads = [], spreadPositions = [], readings = [], palmImages = [], readingInputs = [],
     tarotDraws = [], prompts = [], promptVersions = [], aiExecutions = [], wallets = [],
     walletTransactions = [], creditReservations = [], creditPackages = [], orders = [],
     payments = [], webhookEvents = [], shareLinks = [], analyticsEvents = [], auditLogs = [],
     rewardSessions = [], rewardTransactions = [], rewardProgresses = [], flashOfferUnlocks = []\<rparr>"

end
