(* ===== verification/Tables.thy ===== *)
theory Tables
  imports Schema
begin

text \<open>
  The state around the database, the table descriptors of the schema, and the Prisma calls the
  services make, as programs over that state: \<open>findUnique\<close> and \<open>findFirst\<close>
  (\<open>find_first\<close>), \<open>findMany\<close>, \<open>count\<close>, \<open>create\<close>, \<open>update\<close>
  (\<open>update_row\<close>), \<open>updateMany\<close> (\<open>update_many\<close>), \<open>delete\<close>
  (\<open>delete_many\<close>) and \<open>$transaction\<close>. The \<open>where\<close> and \<open>data\<close> clauses are
  those of the source: a predicate on rows and a row update. A \<open>create\<close> that breaks a unique
  constraint of the schema fails with P2002, a value outside an INTEGER column fails, and a failed
  transaction leaves the database as it was. Statements and transactions are atomic: PostgreSQL's
  row locks make the guarded updates of this program behave so.

  Foreign keys are not checked: every reference the services write was read in the same handler.

  The locale \<open>table\<close> is the contract of one table; the calculus \<open>keeps\<close>,
  \<open>keeps_ok\<close> carries invariants of the database through a program.
\<close>

section \<open>The world\<close>

text \<open>A BullMQ job: its queue, its name, the id its data holds and its custom job id.\<close>

record job =
  j_queue :: string
  j_name :: string
  j_data :: string
  j_jobId :: string

text \<open>A mail as the API of Resend gets it, and the lines the providers of mails log.\<close>

record resendMail =
  sm_from :: string
  sm_to :: string
  sm_subject :: string
  sm_html :: string

datatype logLine = LogLine string | WarnLine string | ErrorLine string

record world =
  db :: database
  jobs :: "job list"
  cache :: "string \<Rightarrow> (json \<times> int) option"
  bucket :: "string \<Rightarrow> nat list option"
  outbox :: "resendMail list"
  mailLog :: "logLine list"
  ticks :: nat
  uuids :: nat
  rolls :: nat
  storageCalls :: nat
  aiCalls :: nat
  mailCalls :: nat

record env =
  e_clock :: "nat \<Rightarrow> int"
  e_uuid :: "nat \<Rightarrow> string"
  e_randomInt :: "nat \<Rightarrow> nat \<Rightarrow> nat"
  e_sha256 :: "string \<Rightarrow> string"
  e_storageFails :: "nat \<Rightarrow> bool"
  e_nodeEnv :: string
  e_appUrl :: string
  e_apiUrl :: string
  e_bonusCredits :: int
  e_rewardsStubSecret :: string
  e_wompiIntegritySecret :: string
  e_wompiPublicKey :: string
  e_wompiEventsSecret :: string
  e_palmImageMaxSizeBytes :: int
  e_palmImageRetentionHours :: int
  e_localMidnight :: "int \<Rightarrow> int"
  e_hmacSha256 :: "string \<Rightarrow> string \<Rightarrow> nat list"
  e_dailyCardSecret :: string
  e_jsonParse :: "string \<Rightarrow> json option"
  e_imageSize :: "nat list \<Rightarrow> (int \<times> int) option"
  e_resendApiKey :: "string option"
  e_emailFrom :: string
  e_resend :: "nat \<Rightarrow> resendMail \<Rightarrow> string option"
  e_opaqueToken :: "nat \<Rightarrow> string"
  e_cookieDomain :: "string option"
  e_argonHash :: "nat \<Rightarrow> string \<Rightarrow> string"
  e_argonVerify :: "string \<Rightarrow> string \<Rightarrow> bool"
  e_signAccess :: "string \<Rightarrow> string list \<Rightarrow> int \<Rightarrow> string"
  e_signRefresh :: "string \<Rightarrow> string \<Rightarrow> int \<Rightarrow> string"
  e_verifyAccess :: "string \<Rightarrow> int \<Rightarrow> string option"
  e_verifyRefresh :: "string \<Rightarrow> int \<Rightarrow> string option"
  e_renderPng :: "string \<Rightarrow> nat list"
  e_appHost :: string
  e_signedUrl :: "string \<Rightarrow> string \<Rightarrow> int \<Rightarrow> string"
  e_base64 :: "nat list \<Rightarrow> string"
  e_usdToCopRate :: "int \<times> int"
  e_isEmail :: "string \<Rightarrow> bool"
  e_isUUID :: "string \<Rightarrow> bool"
  e_version :: string
  e_uptime :: "nat \<Rightarrow> string"

definition empty_world :: world where
  "empty_world = \<lparr>db = empty_database, jobs = [], cache = (\<lambda>_. None), bucket = (\<lambda>_. None),
     outbox = [], mailLog = [], ticks = 0, uuids = 0, rolls = 0, storageCalls = 0, aiCalls = 0, mailCalls = 0\<rparr>"

text \<open>\<open>Date.now()\<close>, \<open>randomUUID()\<close> and \<open>randomInt(n)\<close>: the next element of a supply.\<close>

definition date_now :: "env \<Rightarrow> (world, int) prog" where
  "date_now E = (\<lambda>w. (Inr (e_clock E (ticks w)), w\<lparr>ticks := Suc (ticks w)\<rparr>))"

definition random_uuid :: "env \<Rightarrow> (world, string) prog" where
  "random_uuid E = (\<lambda>w. (Inr (e_uuid E (uuids w)), w\<lparr>uuids := Suc (uuids w)\<rparr>))"

definition random_int :: "env \<Rightarrow> nat \<Rightarrow> (world, nat) prog" where
  "random_int E n = (\<lambda>w. (Inr (e_randomInt E (rolls w) n), w\<lparr>rolls := Suc (rolls w)\<rparr>))"

text \<open>\<open>queue.add\<close>: adding a job whose custom id the queue still holds changes nothing.\<close>

definition queue_add :: "job \<Rightarrow> (world, unit) prog" where
  "queue_add j = modify (\<lambda>w.
     if list_ex (\<lambda>k. j_queue k = j_queue j \<and> j_jobId k = j_jobId j) (jobs w) then w
     else w\<lparr>jobs := jobs w @ [j]\<rparr>)"

lemma date_now_run [simp, prog]:
  "date_now E w = (Inr (e_clock E (ticks w)), w\<lparr>ticks := Suc (ticks w)\<rparr>)"
  by (simp add: date_now_def)

lemma random_uuid_run [simp, prog]:
  "random_uuid E w = (Inr (e_uuid E (uuids w)), w\<lparr>uuids := Suc (uuids w)\<rparr>)"
  by (simp add: random_uuid_def)

lemma random_int_run [simp, prog]:
  "random_int E n w = (Inr (e_randomInt E (rolls w) n), w\<lparr>rolls := Suc (rolls w)\<rparr>)"
  by (simp add: random_int_def)

section \<open>Tables\<close>

record 'r table =
  rows :: "database \<Rightarrow> 'r list"
  set_rows :: "('r list \<Rightarrow> 'r list) \<Rightarrow> database \<Rightarrow> database"
  clash :: "'r \<Rightarrow> 'r \<Rightarrow> bool"
  check :: "'r \<Rightarrow> bool"

definition User :: "user table" where
  "User = \<lparr>rows = users, set_rows = (\<lambda>g d. d\<lparr>users := g (users d)\<rparr>),
     clash = (\<lambda>a b. u_id a = u_id b \<or> u_email a = u_email b),
     check = (\<lambda>_. True)\<rparr>"

definition Role :: "role table" where
  "Role = \<lparr>rows = roles, set_rows = (\<lambda>g d. d\<lparr>roles := g (roles d)\<rparr>),
     clash = (\<lambda>a b. ro_id a = ro_id b \<or> ro_code a = ro_code b),
     check = (\<lambda>_. True)\<rparr>"

definition UserRole :: "userRole table" where
  "UserRole = \<lparr>rows = userRoles, set_rows = (\<lambda>g d. d\<lparr>userRoles := g (userRoles d)\<rparr>),
     clash = (\<lambda>a b. ur_userId a = ur_userId b \<and> ur_roleId a = ur_roleId b),
     check = (\<lambda>_. True)\<rparr>"

definition RefreshToken :: "refreshToken table" where
  "RefreshToken = \<lparr>rows = refreshTokens, set_rows = (\<lambda>g d. d\<lparr>refreshTokens := g (refreshTokens d)\<rparr>),
     clash = (\<lambda>a b. rt_id a = rt_id b \<or> rt_tokenHash a = rt_tokenHash b \<or>
         (rt_replacedBy a = rt_replacedBy b \<and> rt_replacedBy a \<noteq> None)),
     check = (\<lambda>_. True)\<rparr>"

definition VerificationToken :: "verificationToken table" where
  "VerificationToken = \<lparr>rows = verificationTokens, set_rows = (\<lambda>g d. d\<lparr>verificationTokens := g (verificationTokens d)\<rparr>),
     clash = (\<lambda>a b. vt_id a = vt_id b \<or> vt_tokenHash a = vt_tokenHash b),
     check = (\<lambda>_. True)\<rparr>"

definition Service :: "service table" where
  "Service = \<lparr>rows = services, set_rows = (\<lambda>g d. d\<lparr>services := g (services d)\<rparr>),
     clash = (\<lambda>a b. s_id a = s_id b \<or> s_code a = s_code b),
     check = (\<lambda>r. int4 (s_creditCost r))\<rparr>"

definition ServiceForm :: "serviceForm table" where
  "ServiceForm = \<lparr>rows = serviceForms, set_rows = (\<lambda>g d. d\<lparr>serviceForms := g (serviceForms d)\<rparr>),
     clash = (\<lambda>a b. sf_id a = sf_id b \<or> (sf_serviceId a = sf_serviceId b \<and> sf_version a = sf_version b)),
     check = (\<lambda>r. int4 (sf_version r))\<rparr>"

definition TarotDeck :: "tarotDeck table" where
  "TarotDeck = \<lparr>rows = tarotDecks, set_rows = (\<lambda>g d. d\<lparr>tarotDecks := g (tarotDecks d)\<rparr>),
     clash = (\<lambda>a b. td_id a = td_id b \<or> td_code a = td_code b),
     check = (\<lambda>_. True)\<rparr>"

definition TarotCard :: "tarotCard table" where
  "TarotCard = \<lparr>rows = tarotCards, set_rows = (\<lambda>g d. d\<lparr>tarotCards := g (tarotCards d)\<rparr>),
     clash = (\<lambda>a b. tc_id a = tc_id b \<or> (tc_deckId a = tc_deckId b \<and> tc_code a = tc_code b)),
     check = (\<lambda>r. int4 (tc_orderIndex r))\<rparr>"

definition TarotSpread :: "tarotSpread table" where
  "TarotSpread = \<lparr>rows = tarotSpreads, set_rows = (\<lambda>g d. d\<lparr>tarotSpreads := g (tarotSpreads d)\<rparr>),
     clash = (\<lambda>a b. ts_id a = ts_id b \<or> ts_code a = ts_code b),
     check = (\<lambda>_. True)\<rparr>"

definition SpreadPosition :: "spreadPosition table" where
  "SpreadPosition = \<lparr>rows = spreadPositions, set_rows = (\<lambda>g d. d\<lparr>spreadPositions := g (spreadPositions d)\<rparr>),
     clash = (\<lambda>a b. sp_id a = sp_id b \<or> (sp_spreadId a = sp_spreadId b \<and> sp_code a = sp_code b)),
     check = (\<lambda>r. int4 (sp_orderIndex r))\<rparr>"

definition Reading :: "reading table" where
  "Reading = \<lparr>rows = readings, set_rows = (\<lambda>g d. d\<lparr>readings := g (readings d)\<rparr>),
     clash = (\<lambda>a b. r_id a = r_id b),
     check = (\<lambda>_. True)\<rparr>"

definition PalmImage :: "palmImage table" where
  "PalmImage = \<lparr>rows = palmImages, set_rows = (\<lambda>g d. d\<lparr>palmImages := g (palmImages d)\<rparr>),
     clash = (\<lambda>a b. pi_id a = pi_id b \<or> pi_storageKey a = pi_storageKey b),
     check = (\<lambda>r. pred_option int4 (pi_sizeBytes r))\<rparr>"

definition ReadingInput :: "readingInput table" where
  "ReadingInput = \<lparr>rows = readingInputs, set_rows = (\<lambda>g d. d\<lparr>readingInputs := g (readingInputs d)\<rparr>),
     clash = (\<lambda>a b. in_id a = in_id b \<or> in_readingId a = in_readingId b),
     check = (\<lambda>r. int4 (in_formVersion r))\<rparr>"

definition TarotDraw :: "tarotDrawRow table" where
  "TarotDraw = \<lparr>rows = tarotDraws, set_rows = (\<lambda>g d. d\<lparr>tarotDraws := g (tarotDraws d)\<rparr>),
     clash = (\<lambda>a b. dr_id a = dr_id b \<or> (dr_readingId a = dr_readingId b \<and> dr_position a = dr_position b)),
     check = (\<lambda>_. True)\<rparr>"

definition Prompt :: "promptRow table" where
  "Prompt = \<lparr>rows = prompts, set_rows = (\<lambda>g d. d\<lparr>prompts := g (prompts d)\<rparr>),
     clash = (\<lambda>a b. pr_id a = pr_id b \<or> pr_code a = pr_code b),
     check = (\<lambda>_. True)\<rparr>"

definition PromptVersion :: "promptVersion table" where
  "PromptVersion = \<lparr>rows = promptVersions, set_rows = (\<lambda>g d. d\<lparr>promptVersions := g (promptVersions d)\<rparr>),
     clash = (\<lambda>a b. pv_id a = pv_id b \<or> (pv_promptId a = pv_promptId b \<and> pv_version a = pv_version b)),
     check = (\<lambda>r. int4 (pv_version r) \<and> pred_option int4 (pv_maxOutputTokens r))\<rparr>"

definition AIExecution :: "aiExecution table" where
  "AIExecution = \<lparr>rows = aiExecutions, set_rows = (\<lambda>g d. d\<lparr>aiExecutions := g (aiExecutions d)\<rparr>),
     clash = (\<lambda>a b. ai_id a = ai_id b),
     check = (\<lambda>r. pred_option int4 (ai_tokensInput r) \<and> pred_option int4 (ai_tokensOutput r) \<and>
       pred_option int4 (ai_latencyMs r))\<rparr>"

definition Wallet :: "wallet table" where
  "Wallet = \<lparr>rows = wallets, set_rows = (\<lambda>g d. d\<lparr>wallets := g (wallets d)\<rparr>),
     clash = (\<lambda>a b. w_id a = w_id b \<or> w_userId a = w_userId b),
     check = (\<lambda>r. int4 (w_balance r))\<rparr>"

definition WalletTransaction :: "walletTransaction table" where
  "WalletTransaction = \<lparr>rows = walletTransactions, set_rows = (\<lambda>g d. d\<lparr>walletTransactions := g (walletTransactions d)\<rparr>),
     clash = (\<lambda>a b. t_id a = t_id b \<or> t_idempotencyKey a = t_idempotencyKey b),
     check = (\<lambda>r. int4 (t_amount r) \<and> int4 (t_balanceAfter r))\<rparr>"

definition CreditReservation :: "creditReservation table" where
  "CreditReservation = \<lparr>rows = creditReservations, set_rows = (\<lambda>g d. d\<lparr>creditReservations := g (creditReservations d)\<rparr>),
     clash = (\<lambda>a b. cr_id a = cr_id b \<or> cr_readingId a = cr_readingId b),
     check = (\<lambda>r. int4 (cr_amount r))\<rparr>"

definition CreditPackage :: "creditPackage table" where
  "CreditPackage = \<lparr>rows = creditPackages, set_rows = (\<lambda>g d. d\<lparr>creditPackages := g (creditPackages d)\<rparr>),
     clash = (\<lambda>a b. cp_id a = cp_id b \<or> cp_code a = cp_code b),
     check = (\<lambda>r. int4 (cp_credits r) \<and> int4 (cp_priceCents r))\<rparr>"

definition Order :: "orderRow table" where
  "Order = \<lparr>rows = orders, set_rows = (\<lambda>g d. d\<lparr>orders := g (orders d)\<rparr>),
     clash = (\<lambda>a b. o_id a = o_id b),
     check = (\<lambda>r. int4 (o_credits r) \<and> int4 (o_priceCents r))\<rparr>"

definition Payment :: "payment table" where
  "Payment = \<lparr>rows = payments, set_rows = (\<lambda>g d. d\<lparr>payments := g (payments d)\<rparr>),
     clash = (\<lambda>a b. p_id a = p_id b \<or>
         (p_provider a = p_provider b \<and> p_providerReference a = p_providerReference b)),
     check = (\<lambda>r. int4 (p_amountCents r))\<rparr>"

definition WebhookEvent :: "webhookEvent table" where
  "WebhookEvent = \<lparr>rows = webhookEvents, set_rows = (\<lambda>g d. d\<lparr>webhookEvents := g (webhookEvents d)\<rparr>),
     clash = (\<lambda>a b. we_id a = we_id b \<or> (we_provider a = we_provider b \<and> we_eventId a = we_eventId b)),
     check = (\<lambda>_. True)\<rparr>"

definition ShareLink :: "shareLink table" where
  "ShareLink = \<lparr>rows = shareLinks, set_rows = (\<lambda>g d. d\<lparr>shareLinks := g (shareLinks d)\<rparr>),
     clash = (\<lambda>a b. sl_id a = sl_id b),
     check = (\<lambda>_. True)\<rparr>"

definition AnalyticsEvent :: "analyticsEvent table" where
  "AnalyticsEvent = \<lparr>rows = analyticsEvents, set_rows = (\<lambda>g d. d\<lparr>analyticsEvents := g (analyticsEvents d)\<rparr>),
     clash = (\<lambda>a b. ae_id a = ae_id b),
     check = (\<lambda>_. True)\<rparr>"

definition AuditLog :: "auditLog table" where
  "AuditLog = \<lparr>rows = auditLogs, set_rows = (\<lambda>g d. d\<lparr>auditLogs := g (auditLogs d)\<rparr>),
     clash = (\<lambda>a b. al_id a = al_id b),
     check = (\<lambda>_. True)\<rparr>"

definition RewardSession :: "rewardSession table" where
  "RewardSession = \<lparr>rows = rewardSessions, set_rows = (\<lambda>g d. d\<lparr>rewardSessions := g (rewardSessions d)\<rparr>),
     clash = (\<lambda>a b. rs_id a = rs_id b \<or> rs_idempotencyKey a = rs_idempotencyKey b),
     check = (\<lambda>_. True)\<rparr>"

definition RewardTransaction :: "rewardTransaction table" where
  "RewardTransaction = \<lparr>rows = rewardTransactions, set_rows = (\<lambda>g d. d\<lparr>rewardTransactions := g (rewardTransactions d)\<rparr>),
     clash = (\<lambda>a b. rx_id a = rx_id b \<or> rx_rewardSessionId a = rx_rewardSessionId b),
     check = (\<lambda>r. int4 (rx_rewardAmount r))\<rparr>"

definition RewardProgress :: "rewardProgress table" where
  "RewardProgress = \<lparr>rows = rewardProgresses, set_rows = (\<lambda>g d. d\<lparr>rewardProgresses := g (rewardProgresses d)\<rparr>),
     clash = (\<lambda>a b. rp_id a = rp_id b \<or> (rp_userId a = rp_userId b \<and> rp_rewardType a = rp_rewardType b)),
     check = (\<lambda>r. int4 (rp_currentCount r))\<rparr>"

definition FlashOfferUnlock :: "flashOfferUnlock table" where
  "FlashOfferUnlock = \<lparr>rows = flashOfferUnlocks, set_rows = (\<lambda>g d. d\<lparr>flashOfferUnlocks := g (flashOfferUnlocks d)\<rparr>),
     clash = (\<lambda>a b. fo_id a = fo_id b),
     check = (\<lambda>r. int4 (fo_discountPercent r))\<rparr>"

lemmas table_defs =
  User_def Role_def UserRole_def RefreshToken_def
  VerificationToken_def Service_def ServiceForm_def TarotDeck_def
  TarotCard_def TarotSpread_def SpreadPosition_def Reading_def
  PalmImage_def ReadingInput_def TarotDraw_def Prompt_def
  PromptVersion_def AIExecution_def Wallet_def WalletTransaction_def
  CreditReservation_def CreditPackage_def Order_def Payment_def
  WebhookEvent_def ShareLink_def AnalyticsEvent_def AuditLog_def
  RewardSession_def RewardTransaction_def RewardProgress_def FlashOfferUnlock_def

section \<open>Prisma calls\<close>

definition find_first :: "'r table \<Rightarrow> ('r \<Rightarrow> bool) \<Rightarrow> (world, 'r option) prog" where
  "find_first T P = gets (\<lambda>w. find P (rows T (db w)))"

definition find_or_throw :: "'r table \<Rightarrow> ('r \<Rightarrow> bool) \<Rightarrow> (world, 'r) prog" where
  "find_or_throw T P = await (find_first T P) (\<lambda>x. case x of
       None \<Rightarrow> throw RecordNotFound
     | Some r \<Rightarrow> ret r)"

definition find_first_desc ::
  "'r table \<Rightarrow> ('r \<Rightarrow> int) \<Rightarrow> ('r \<Rightarrow> bool) \<Rightarrow> (world, 'r option) prog" where
  "find_first_desc T key P = gets (\<lambda>w.
     case order_desc key (filter P (rows T (db w))) of [] \<Rightarrow> None | r # _ \<Rightarrow> Some r)"

definition find_many :: "'r table \<Rightarrow> ('r \<Rightarrow> bool) \<Rightarrow> (world, 'r list) prog" where
  "find_many T P = gets (\<lambda>w. filter P (rows T (db w)))"

definition count_rows :: "'r table \<Rightarrow> ('r \<Rightarrow> bool) \<Rightarrow> (world, nat) prog" where
  "count_rows T P = gets (\<lambda>w. length (filter P (rows T (db w))))"

definition create :: "'r table \<Rightarrow> 'r \<Rightarrow> (world, 'r) prog" where
  "create T r = (\<lambda>w.
     if \<not> check T r then (Inl IntegerOutOfRange, w)
     else if list_ex (clash T r) (rows T (db w)) then (Inl UniqueViolation, w)
     else (Inr r, w\<lparr>db := set_rows T (\<lambda>rs. rs @ [r]) (db w)\<rparr>))"

definition update_many ::
  "'r table \<Rightarrow> ('r \<Rightarrow> bool) \<Rightarrow> ('r \<Rightarrow> 'r) \<Rightarrow> (world, nat) prog" where
  "update_many T P f = (\<lambda>w.
     if list_ex (\<lambda>r. P r \<and> \<not> check T (f r)) (rows T (db w)) then (Inl IntegerOutOfRange, w)
     else (Inr (length (filter P (rows T (db w)))),
           w\<lparr>db := set_rows T (map (\<lambda>r. if P r then f r else r)) (db w)\<rparr>))"

definition update_row :: "'r table \<Rightarrow> ('r \<Rightarrow> bool) \<Rightarrow> ('r \<Rightarrow> 'r) \<Rightarrow> (world, 'r) prog" where
  "update_row T P f = (\<lambda>w. case find P (rows T (db w)) of
       None \<Rightarrow> (Inl RecordNotFound, w)
     | Some r \<Rightarrow>
         if \<not> check T (f r) then (Inl IntegerOutOfRange, w)
         else (Inr (f r), w\<lparr>db := set_rows T (map (\<lambda>r. if P r then f r else r)) (db w)\<rparr>))"

definition delete_many :: "'r table \<Rightarrow> ('r \<Rightarrow> bool) \<Rightarrow> (world, unit) prog" where
  "delete_many T P = modify (\<lambda>w. w\<lparr>db := set_rows T (filter (\<lambda>r. \<not> P r)) (db w)\<rparr>)"

text \<open>\<open>$transaction\<close>: an error inside takes every database change back, and nothing else.\<close>

definition transaction :: "(world, 'a) prog \<Rightarrow> (world, 'a) prog" where
  "transaction m = (\<lambda>w. case m w of
       (Inl e, w') \<Rightarrow> (Inl e, w'\<lparr>db := db w\<rparr>)
     | (Inr x, w') \<Rightarrow> (Inr x, w'))"

lemma find_first_run [simp, prog]: "find_first T P w = (Inr (find P (rows T (db w))), w)"
  by (simp add: find_first_def)

lemma find_or_throw_run [prog]:
  "find_or_throw T P w = (case find P (rows T (db w)) of
       None \<Rightarrow> (Inl RecordNotFound, w)
     | Some r \<Rightarrow> (Inr r, w))"
  by (simp add: find_or_throw_def await_def split: option.splits)

lemma find_first_desc_run [simp, prog]:
  "find_first_desc T key P w =
     (Inr (case order_desc key (filter P (rows T (db w))) of [] \<Rightarrow> None | r # _ \<Rightarrow> Some r), w)"
  by (simp add: find_first_desc_def)

lemma find_many_run [simp, prog]: "find_many T P w = (Inr (filter P (rows T (db w))), w)"
  by (simp add: find_many_def)

lemma count_rows_run [simp, prog]:
  "count_rows T P w = (Inr (length (filter P (rows T (db w)))), w)"
  by (simp add: count_rows_def)

text \<open>Inversion of the calls that change the database.\<close>

lemma create_Inr_iff:
  "create T r w = (Inr x, w') \<longleftrightarrow>
     check T r \<and> \<not> list_ex (clash T r) (rows T (db w)) \<and> x = r \<and>
     w' = w\<lparr>db := set_rows T (\<lambda>rs. rs @ [r]) (db w)\<rparr>"
  by (auto simp: create_def)

lemma create_Inl_iff:
  "create T r w = (Inl e, w') \<longleftrightarrow> w' = w \<and>
     (\<not> check T r \<and> e = IntegerOutOfRange \<or>
      check T r \<and> list_ex (clash T r) (rows T (db w)) \<and> e = UniqueViolation)"
  by (auto simp: create_def)

lemma update_many_Inr_iff:
  "update_many T P f w = (Inr n, w') \<longleftrightarrow>
     \<not> list_ex (\<lambda>r. P r \<and> \<not> check T (f r)) (rows T (db w)) \<and>
     n = length (filter P (rows T (db w))) \<and>
     w' = w\<lparr>db := set_rows T (map (\<lambda>r. if P r then f r else r)) (db w)\<rparr>"
  by (auto simp: update_many_def)

lemma update_row_Inr_iff:
  "update_row T P f w = (Inr x, w') \<longleftrightarrow>
     (\<exists>r. find P (rows T (db w)) = Some r \<and> check T (f r) \<and> x = f r \<and>
          w' = w\<lparr>db := set_rows T (map (\<lambda>r. if P r then f r else r)) (db w)\<rparr>)"
  by (auto simp: update_row_def split: option.splits)

lemma find_or_throw_Inr_iff:
  "find_or_throw T P w = (Inr x, w') \<longleftrightarrow> find P (rows T (db w)) = Some x \<and> w' = w"
  by (auto simp: find_or_throw_run split: option.splits)

lemma transaction_Inr_iff: "transaction m w = (Inr x, w') \<longleftrightarrow> m w = (Inr x, w')"
  by (auto simp: transaction_def split: prod.splits sum.splits)

lemma transaction_Inl_iff:
  "transaction m w = (Inl e, w') \<longleftrightarrow> (\<exists>u. m w = (Inl e, u) \<and> w' = u\<lparr>db := db w\<rparr>)"
  by (auto simp: transaction_def split: prod.splits sum.splits)

lemma transaction_error_db: "transaction m w = (Inl e, w') \<Longrightarrow> db w' = db w"
  by (auto simp: transaction_Inl_iff)

lemmas db_inv = create_Inr_iff update_many_Inr_iff update_row_Inr_iff find_or_throw_Inr_iff
  transaction_Inr_iff

section \<open>The contract of a table\<close>

text \<open>Rows pairwise without a clash: the unique constraints of the schema hold.\<close>

definition unique_rows :: "'r table \<Rightarrow> database \<Rightarrow> bool" where
  "unique_rows T d = sorted_wrt (\<lambda>a b. \<not> clash T a b) (rows T d)"

lemma sorted_wrt_map_keep:
  assumes "sorted_wrt R xs" and "\<And>a b. R a b \<Longrightarrow> R (g a) (g b)"
  shows "sorted_wrt R (map g xs)"
  using assms(1) by (induction xs) (auto intro: assms(2))

text \<open>A unique column has pairwise distinct values.\<close>

lemma unique_rows_distinct:
  assumes "unique_rows T d" and "\<And>a b. key a = key b \<Longrightarrow> clash T a b"
  shows "distinct (map key (rows T d))"
proof -
  have "sorted_wrt (\<lambda>a b. \<not> clash T a b) xs \<Longrightarrow> distinct (map key xs)" for xs
    using assms(2) by (induction xs) fastforce+
  with assms(1) show ?thesis by (simp add: unique_rows_def)
qed

locale table =
  fixes T :: "'r table"
  assumes rows_set: "rows T (set_rows T g d) = g (rows T d)"
    and clash_sym: "clash T a b \<Longrightarrow> clash T b a"
begin

lemma create_rows: "create T r w = (Inr x, w') \<Longrightarrow> rows T (db w') = rows T (db w) @ [r]"
  by (auto simp: create_Inr_iff rows_set)

lemma create_keeps_unique:
  assumes "unique_rows T (db w)"
  shows "unique_rows T (db (snd (create T r w)))"
  using assms by (auto simp: create_def unique_rows_def rows_set sorted_wrt_append list_ex_iff
      dest: clash_sym)

lemma update_many_keeps_unique:
  assumes "unique_rows T (db w)" and "\<And>a b. clash T (f a) b = clash T a b"
    and "\<And>a b. clash T a (f b) = clash T a b"
  shows "unique_rows T (db (snd (update_many T P f w)))"
  using assms by (auto simp: update_many_def unique_rows_def rows_set intro!: sorted_wrt_map_keep
      split: if_splits)

lemma update_row_keeps_unique:
  assumes "unique_rows T (db w)" and "\<And>a b. clash T (f a) b = clash T a b"
    and "\<And>a b. clash T a (f b) = clash T a b"
  shows "unique_rows T (db (snd (update_row T P f w)))"
  using assms by (auto simp: update_row_def unique_rows_def rows_set intro!: sorted_wrt_map_keep
      split: option.splits if_splits)

lemma delete_many_keeps_unique:
  "unique_rows T (db w) \<Longrightarrow> unique_rows T (db (snd (delete_many T P w)))"
  by (simp add: delete_many_def unique_rows_def rows_set sorted_wrt_filter)

lemma unique_rows_clash_eq:
  assumes "unique_rows T d" "a \<in> set (rows T d)" "b \<in> set (rows T d)" "clash T a b"
  shows "a = b"
proof -
  obtain i j where ij: "i < length (rows T d)" "j < length (rows T d)"
    "a = rows T d ! i" "b = rows T d ! j"
    using assms(2,3) by (metis in_set_conv_nth)
  have "i = j"
  proof (rule ccontr)
    assume "i \<noteq> j"
    then consider "i < j" | "j < i" by linarith
    then show False
      using assms(1,4) ij clash_sym [of a b]
      by cases (auto simp: unique_rows_def sorted_wrt_iff_nth_less)
  qed
  with ij show ?thesis by simp
qed

end

text \<open>Every table of the schema meets the contract.\<close>

interpretation users_tbl: table User
  by unfold_locales (auto simp: User_def)

interpretation roles_tbl: table Role
  by unfold_locales (auto simp: Role_def)

interpretation userRoles_tbl: table UserRole
  by unfold_locales (auto simp: UserRole_def)

interpretation refreshTokens_tbl: table RefreshToken
  by unfold_locales (simp_all add: RefreshToken_def, metis)

interpretation verificationTokens_tbl: table VerificationToken
  by unfold_locales (auto simp: VerificationToken_def)

interpretation services_tbl: table Service
  by unfold_locales (auto simp: Service_def)

interpretation serviceForms_tbl: table ServiceForm
  by unfold_locales (auto simp: ServiceForm_def)

interpretation tarotDecks_tbl: table TarotDeck
  by unfold_locales (auto simp: TarotDeck_def)

interpretation tarotCards_tbl: table TarotCard
  by unfold_locales (auto simp: TarotCard_def)

interpretation tarotSpreads_tbl: table TarotSpread
  by unfold_locales (auto simp: TarotSpread_def)

interpretation spreadPositions_tbl: table SpreadPosition
  by unfold_locales (auto simp: SpreadPosition_def)

interpretation readings_tbl: table Reading
  by unfold_locales (auto simp: Reading_def)

interpretation palmImages_tbl: table PalmImage
  by unfold_locales (auto simp: PalmImage_def)

interpretation readingInputs_tbl: table ReadingInput
  by unfold_locales (auto simp: ReadingInput_def)

interpretation tarotDraws_tbl: table TarotDraw
  by unfold_locales (auto simp: TarotDraw_def)

interpretation prompts_tbl: table Prompt
  by unfold_locales (auto simp: Prompt_def)

interpretation promptVersions_tbl: table PromptVersion
  by unfold_locales (auto simp: PromptVersion_def)

interpretation aiExecutions_tbl: table AIExecution
  by unfold_locales (auto simp: AIExecution_def)

interpretation wallets_tbl: table Wallet
  by unfold_locales (auto simp: Wallet_def)

interpretation walletTransactions_tbl: table WalletTransaction
  by unfold_locales (auto simp: WalletTransaction_def)

interpretation creditReservations_tbl: table CreditReservation
  by unfold_locales (auto simp: CreditReservation_def)

interpretation creditPackages_tbl: table CreditPackage
  by unfold_locales (auto simp: CreditPackage_def)

interpretation orders_tbl: table Order
  by unfold_locales (auto simp: Order_def)

interpretation payments_tbl: table Payment
  by unfold_locales (auto simp: Payment_def)

interpretation webhookEvents_tbl: table WebhookEvent
  by unfold_locales (auto simp: WebhookEvent_def)

interpretation shareLinks_tbl: table ShareLink
  by unfold_locales (auto simp: ShareLink_def)

interpretation analyticsEvents_tbl: table AnalyticsEvent
  by unfold_locales (auto simp: AnalyticsEvent_def)

interpretation auditLogs_tbl: table AuditLog
  by unfold_locales (auto simp: AuditLog_def)

interpretation rewardSessions_tbl: table RewardSession
  by unfold_locales (auto simp: RewardSession_def)

interpretation rewardTransactions_tbl: table RewardTransaction
  by unfold_locales (auto simp: RewardTransaction_def)

interpretation rewardProgresses_tbl: table RewardProgress
  by unfold_locales (auto simp: RewardProgress_def)

interpretation flashOfferUnlocks_tbl: table FlashOfferUnlock
  by unfold_locales (auto simp: FlashOfferUnlock_def)

section \<open>Carrying an invariant of the database through a program\<close>

definition keeps :: "(database \<Rightarrow> bool) \<Rightarrow> (world, 'a) prog \<Rightarrow> bool" where
  "keeps I m = (\<forall>w. I (db w) \<longrightarrow> I (db (snd (m w))))"

definition keeps_ok :: "(database \<Rightarrow> bool) \<Rightarrow> (world, 'a) prog \<Rightarrow> bool" where
  "keeps_ok I m = (\<forall>w x w'. I (db w) \<longrightarrow> m w = (Inr x, w') \<longrightarrow> I (db w'))"

text \<open>An invariant that does not look at a table.\<close>

definition ignores :: "(database \<Rightarrow> bool) \<Rightarrow> 'r table \<Rightarrow> bool" where
  "ignores I T = (\<forall>g d. I (set_rows T g d) = I d)"

named_theorems keeps_intro "rules that carry an invariant through a program"

lemma keepsD: "keeps I m \<Longrightarrow> I (db w) \<Longrightarrow> I (db (snd (m w)))"
  by (simp add: keeps_def)

lemma keepsD_run: "keeps I m \<Longrightarrow> I (db w) \<Longrightarrow> m w = (r, w') \<Longrightarrow> I (db w')"
  by (metis keeps_def snd_conv)

lemma keeps_okD: "keeps_ok I m \<Longrightarrow> I (db w) \<Longrightarrow> m w = (Inr x, w') \<Longrightarrow> I (db w')"
  by (auto simp: keeps_ok_def)

lemma keepsI: "(\<And>w r w'. I (db w) \<Longrightarrow> m w = (r, w') \<Longrightarrow> I (db w')) \<Longrightarrow> keeps I m"
  by (simp add: keeps_def) (metis prod.collapse)

lemma keeps_okI: "(\<And>w x w'. I (db w) \<Longrightarrow> m w = (Inr x, w') \<Longrightarrow> I (db w')) \<Longrightarrow> keeps_ok I m"
  by (auto simp: keeps_ok_def)

lemma keeps_imp_ok: "keeps I m \<Longrightarrow> keeps_ok I m"
  by (auto simp: keeps_ok_def dest: keepsD_run)

lemma keeps_ret [keeps_intro]: "keeps I (ret x)"
  by (simp add: keeps_def)

lemma keeps_throw [keeps_intro]: "keeps I (throw e)"
  by (simp add: keeps_def)

lemma keeps_gets [keeps_intro]: "keeps I (gets f)"
  by (simp add: keeps_def)

lemma keeps_throw_if [keeps_intro]: "keeps I (throw_if c e)"
  by (simp add: keeps_def)

lemma keeps_modify: "(\<And>w. I (db w) \<Longrightarrow> I (db (f w))) \<Longrightarrow> keeps I (modify f)"
  by (simp add: keeps_def)

lemma keeps_await [keeps_intro]:
  assumes "keeps I m" and "\<And>x. keeps I (k x)"
  shows "keeps I (await m k)"
proof (rule keepsI)
  fix w r w' assume "I (db w)" and run: "await m k w = (r, w')"
  then have "I (db (snd (m w)))" using assms(1) by (simp add: keeps_def)
  with run assms(2) show "I (db w')"
    by (auto simp: await_def split: prod.splits sum.splits dest: keepsD_run)
qed

lemma keeps_andthen [keeps_intro]: "keeps I m \<Longrightarrow> keeps I k \<Longrightarrow> keeps I (andthen m k)"
  by (simp add: andthen_def keeps_await)

lemma keeps_try_catch [keeps_intro]:
  assumes "keeps I m" and "\<And>e. keeps I (h e)"
  shows "keeps I (try_catch m h)"
proof (rule keepsI)
  fix w r w' assume "I (db w)" and run: "try_catch m h w = (r, w')"
  then have "I (db (snd (m w)))" using assms(1) by (simp add: keeps_def)
  with run assms(2) show "I (db w')"
    by (auto simp: try_catch_def split: prod.splits sum.splits dest: keepsD_run)
qed

lemma keeps_if [keeps_intro]:
  "(c \<Longrightarrow> keeps I m) \<Longrightarrow> (\<not> c \<Longrightarrow> keeps I k) \<Longrightarrow> keeps I (if c then m else k)"
  by simp

lemma keeps_case_option [keeps_intro]:
  "(x = None \<Longrightarrow> keeps I m) \<Longrightarrow> (\<And>y. x = Some y \<Longrightarrow> keeps I (k y)) \<Longrightarrow>
   keeps I (case x of None \<Rightarrow> m | Some y \<Rightarrow> k y)"
  by (cases x) auto

lemma keeps_case_sum [keeps_intro]:
  "(\<And>y. x = Inl y \<Longrightarrow> keeps I (m y)) \<Longrightarrow> (\<And>y. x = Inr y \<Longrightarrow> keeps I (k y)) \<Longrightarrow>
   keeps I (case x of Inl y \<Rightarrow> m y | Inr y \<Rightarrow> k y)"
  by (cases x) auto

lemma keeps_case_prod [keeps_intro]:
  "(\<And>a b. x = (a, b) \<Longrightarrow> keeps I (k a b)) \<Longrightarrow> keeps I (case x of (a, b) \<Rightarrow> k a b)"
  by (cases x) auto

lemma keeps_let [keeps_intro]: "keeps I (k x) \<Longrightarrow> keeps I (let y = x in k y)"
  by simp

lemma keeps_for_each [keeps_intro]:
  "(\<And>x. keeps I (body x)) \<Longrightarrow> keeps I (for_each body xs)"
  by (induction xs) (auto intro: keeps_intro)

lemma keeps_map_each [keeps_intro]:
  "(\<And>x. keeps I (body x)) \<Longrightarrow> keeps I (map_each body xs)"
  by (induction xs) (auto intro!: keeps_intro)

lemma keeps_date_now [keeps_intro]: "keeps I (date_now E)"
  by (simp add: keeps_def)

lemma keeps_random_uuid [keeps_intro]: "keeps I (random_uuid E)"
  by (simp add: keeps_def)

lemma keeps_random_int [keeps_intro]: "keeps I (random_int E n)"
  by (simp add: keeps_def)

lemma keeps_queue_add [keeps_intro]: "keeps I (queue_add j)"
  by (simp add: keeps_def queue_add_def)

lemma keeps_find_first [keeps_intro]: "keeps I (find_first T P)"
  by (simp add: keeps_def)

lemma keeps_find_or_throw [keeps_intro]: "keeps I (find_or_throw T P)"
  by (simp add: keeps_def find_or_throw_run split: option.splits)

lemma keeps_find_first_desc [keeps_intro]: "keeps I (find_first_desc T key P)"
  by (simp add: keeps_def)

lemma keeps_find_many [keeps_intro]: "keeps I (find_many T P)"
  by (simp add: keeps_def)

lemma keeps_count_rows [keeps_intro]: "keeps I (count_rows T P)"
  by (simp add: keeps_def)

lemma keeps_transaction: "keeps_ok I m \<Longrightarrow> keeps I (transaction m)"
  by (auto simp: keeps_def keeps_ok_def transaction_def split: prod.splits sum.splits)

lemma keeps_transaction_keeps [keeps_intro]: "keeps I m \<Longrightarrow> keeps I (transaction m)"
  by (rule keeps_transaction [OF keeps_imp_ok])

lemma keeps_create [keeps_intro]: "ignores I T \<Longrightarrow> keeps I (create T r)"
  by (simp add: keeps_def ignores_def create_def)

lemma keeps_update_many [keeps_intro]: "ignores I T \<Longrightarrow> keeps I (update_many T P f)"
  by (simp add: keeps_def ignores_def update_many_def)

lemma keeps_update_row [keeps_intro]: "ignores I T \<Longrightarrow> keeps I (update_row T P f)"
  by (simp add: keeps_def ignores_def update_row_def split: option.splits)

lemma keeps_delete_many [keeps_intro]: "ignores I T \<Longrightarrow> keeps I (delete_many T P)"
  by (simp add: keeps_def ignores_def delete_many_def)

text \<open>The unique constraints hold after every call.\<close>

context table begin

lemma keeps_unique_create: "keeps (unique_rows T) (create T r)"
  by (simp add: keeps_def create_keeps_unique)

lemma keeps_unique_update_many:
  "(\<And>a b. clash T (f a) b = clash T a b) \<Longrightarrow> (\<And>a b. clash T a (f b) = clash T a b) \<Longrightarrow>
   keeps (unique_rows T) (update_many T P f)"
  by (simp add: keeps_def update_many_keeps_unique)

lemma keeps_unique_update_row:
  "(\<And>a b. clash T (f a) b = clash T a b) \<Longrightarrow> (\<And>a b. clash T a (f b) = clash T a b) \<Longrightarrow>
   keeps (unique_rows T) (update_row T P f)"
  by (simp add: keeps_def update_row_keeps_unique)

lemma keeps_unique_delete: "keeps (unique_rows T) (delete_many T P)"
  by (simp add: keeps_def delete_many_keeps_unique)

end

text \<open>
  The same for programs whose failure is taken back by a transaction: only the normal exit has to
  restore the invariant.
\<close>

lemma keeps_ok_await:
  "keeps_ok I m \<Longrightarrow> (\<And>x. keeps_ok I (k x)) \<Longrightarrow> keeps_ok I (await m k)"
  by (rule keeps_okI) (auto simp: await_Inr_iff dest: keeps_okD)

lemma keeps_ok_andthen: "keeps_ok I m \<Longrightarrow> keeps_ok I k \<Longrightarrow> keeps_ok I (andthen m k)"
  by (simp add: andthen_def keeps_ok_await)

lemma keeps_ok_if: "(c \<Longrightarrow> keeps_ok I m) \<Longrightarrow> (\<not> c \<Longrightarrow> keeps_ok I k) \<Longrightarrow> keeps_ok I (if c then m else k)"
  by simp

lemma keeps_ok_case_option:
  "(x = None \<Longrightarrow> keeps_ok I m) \<Longrightarrow> (\<And>y. x = Some y \<Longrightarrow> keeps_ok I (k y)) \<Longrightarrow>
   keeps_ok I (case x of None \<Rightarrow> m | Some y \<Rightarrow> k y)"
  by (cases x) auto

lemmas keeps_ok_intro = keeps_ok_await keeps_ok_andthen keeps_ok_if keeps_ok_case_option

lemma keeps_conj: "keeps I m \<Longrightarrow> keeps J m \<Longrightarrow> keeps (\<lambda>d. I d \<and> J d) m"
  by (simp add: keeps_def)

lemma ignores_conj: "ignores I T \<Longrightarrow> ignores J T \<Longrightarrow> ignores (\<lambda>d. I d \<and> J d) T"
  by (simp add: ignores_def)


section \<open>A concrete environment\<close>

text \<open>A small environment on which examples are evaluated.\<close>

definition example_env :: env where
  "example_env = \<lparr>e_clock = int, e_uuid = (\<lambda>n. replicate (Suc n) CHR ''u''),
     e_randomInt = (\<lambda>k n. k mod n), e_sha256 = rev, e_storageFails = (\<lambda>_. False),
     e_nodeEnv = ''local'', e_appUrl = ''https://app'', e_apiUrl = ''https://api'',
     e_bonusCredits = 5, e_rewardsStubSecret = ''stub'', e_wompiIntegritySecret = ''integrity'',
     e_wompiPublicKey = ''pub'', e_wompiEventsSecret = ''events'',
     e_palmImageMaxSizeBytes = 1000, e_palmImageRetentionHours = 24,
     e_localMidnight = (\<lambda>t. t div 86400000 * 86400000),
     e_hmacSha256 = (\<lambda>k s. map of_char (s @ k)), e_dailyCardSecret = ''secret'',
     e_jsonParse = (\<lambda>s. if s = ''true'' then Some (JBool True) else None), e_imageSize = (\<lambda>b. Some (640, 480)),
     e_resendApiKey = None, e_emailFrom = ''TAROTRIA'', e_resend = (\<lambda>_ _. None), e_opaqueToken = (\<lambda>n. replicate (Suc n) CHR ''t''), e_cookieDomain = None, e_argonHash = (\<lambda>k p. p @ ''#''), e_argonVerify = (\<lambda>h p. h = p @ ''#''),
     e_signAccess = (\<lambda>u rs t. ''a:'' @ u), e_signRefresh = (\<lambda>u j t. ''r:'' @ u @ j),
     e_verifyAccess = (\<lambda>s t. if take 2 s = ''a:'' then Some (drop 2 s) else None),
     e_verifyRefresh = (\<lambda>s t. if take 2 s = ''r:'' then Some (take 3 (drop 2 s)) else None),
     e_renderPng = (\<lambda>s. [137, length s]), e_appHost = ''app'', e_signedUrl = (\<lambda>k t n. ''https://bucket/'' @ k),
     e_base64 = map char_of, e_usdToCopRate = (4000, 1),
     e_isEmail = (\<lambda>s. CHR ''@'' \<in> set s), e_isUUID = (\<lambda>s. s \<noteq> []),
     e_version = ''0.0.1'', e_uptime = (\<lambda>k. ''1.5'')\<rparr>"

end
