(* ===== verification/WompiProvider.thy ===== *)
theory WompiProvider
  imports Tables
begin

text \<open>
  The interface of a payment provider (\<open>src/payments/payment-provider.interface.ts\<close>) and its
  implementation for Wompi (\<open>src/payments/providers/wompi.provider.ts\<close>): the signed checkout
  intent, the validation and signature check of a webhook, and the lookup of a transaction.

  SHA-256 is the function \<open>e_sha256\<close> of the environment. The HTTP call is an argument:
  \<open>http\<close> gives, for the state of the world at the call and the URL, what \<open>fetch\<close> did.
\<close>

section \<open>The interface\<close>

record checkoutIntent =
  ci_reference :: string
  ci_publicKey :: string
  ci_amountInCents :: int
  ci_currency :: string
  ci_integritySignature :: string
  ci_redirectUrl :: string

datatype transactionStatus = TX_PENDING | TX_APPROVED | TX_DECLINED | TX_ERROR | TX_VOIDED

record transactionResult =
  tr_reference :: string
  tr_providerTransactionId :: string
  tr_status :: transactionStatus
  tr_amountInCents :: int
  tr_currency :: string

record paymentProvider =
  pp_name :: string
  pp_buildCheckoutIntent :: "string \<Rightarrow> int \<Rightarrow> string \<Rightarrow> string \<Rightarrow> checkoutIntent"
  pp_verifyAndParseWebhook :: "json \<Rightarrow> (string \<times> transactionResult) option"
  pp_fetchTransaction :: "string \<Rightarrow> (world, transactionResult option) prog"

section \<open>JavaScript property reads on parsed data\<close>

text \<open>
  A value met while a dot-path is followed: JSON data, a function inherited from
  \<open>Object.prototype\<close>, or \<open>Object.prototype\<close> itself.
\<close>

datatype jsValue = JsUndefined | JsNull | JsData json | JsFunction string | JsPrototype

definition native_name :: "string \<Rightarrow> string" where
  "native_name key = (if key = ''constructor'' then ''Object'' else key)"

definition prototype_get :: "string \<Rightarrow> jsValue" where
  "prototype_get key = (if key = ''__proto__'' then JsNull
     else if key \<in> set object_prototype_keys then JsFunction (native_name key)
     else JsUndefined)"

definition object_get :: "(string \<times> json) list \<Rightarrow> string \<Rightarrow> jsValue" where
  "object_get obj key = (case js_get obj key of
       Undefined \<Rightarrow> JsUndefined
     | Own JNull \<Rightarrow> JsNull
     | Own v \<Rightarrow> JsData v
     | Inherited \<Rightarrow> (if key = ''__proto__'' then JsPrototype else JsFunction (native_name key)))"

text \<open>One step of the \<open>reduce\<close>: only objects are followed; the parsed data holds no arrays.\<close>

definition read_step :: "jsValue \<Rightarrow> string \<Rightarrow> jsValue" where
  "read_step acc key = (case acc of
       JsData (JObject obj) \<Rightarrow> object_get obj key
     | JsPrototype \<Rightarrow> prototype_get key
     | _ \<Rightarrow> JsUndefined)"

definition js_String :: "jsValue \<Rightarrow> string" where
  "js_String v = (case v of
       JsUndefined \<Rightarrow> ''''
     | JsNull \<Rightarrow> ''''
     | JsData (JString s) \<Rightarrow> s
     | JsData (JNumber n) \<Rightarrow> string_of_int n
     | JsData (JDecimal s) \<Rightarrow> s
     | JsData (JBool b) \<Rightarrow> (if b then ''true'' else ''false'')
     | JsData _ \<Rightarrow> ''[object Object]''
     | JsFunction name \<Rightarrow> ''function '' @ name @ ''() { [native code] }''
     | JsPrototype \<Rightarrow> ''[object Object]'')"

fun split_on :: "char \<Rightarrow> string \<Rightarrow> string list" where
  "split_on c [] = [[]]"
| "split_on c (x # xs) = (if x = c then [] # split_on c xs
     else case split_on c xs of [] \<Rightarrow> [[x]] | y # ys \<Rightarrow> (x # y) # ys)"

definition readByPath :: "json \<Rightarrow> string \<Rightarrow> string" where
  "readByPath source path = js_String (foldl read_step (JsData source) (split_on CHR ''.'' path))"

section \<open>Schemas\<close>

text \<open>Field readers of the zod schemas: \<open>None\<close> when the field does not validate.\<close>

fun field :: "json \<Rightarrow> string \<Rightarrow> json option" where
  "field (JObject obj) key = map_of obj key"
| "field _ key = None"

fun as_string :: "json \<Rightarrow> string option" where
  "as_string (JString s) = Some s"
| "as_string _ = None"

definition as_string_min1 :: "json \<Rightarrow> string option" where
  "as_string_min1 v = (case as_string v of
       Some s \<Rightarrow> (if s = [] then None else Some s)
     | None \<Rightarrow> None)"

fun as_int :: "json \<Rightarrow> int option" where
  "as_int (JNumber n) = (if \<bar>n\<bar> \<le> 2 ^ 53 - 1 then Some n else None)"
| "as_int _ = None"

fun as_number_text :: "json \<Rightarrow> string option" where
  "as_number_text (JNumber n) = Some (string_of_int n)"
| "as_number_text (JDecimal s) = Some s"
| "as_number_text _ = None"

definition as_status :: "json \<Rightarrow> transactionStatus option" where
  "as_status v = (case as_string v of
       None \<Rightarrow> None
     | Some s \<Rightarrow> map_of [(''PENDING'', TX_PENDING), (''APPROVED'', TX_APPROVED),
         (''DECLINED'', TX_DECLINED), (''ERROR'', TX_ERROR), (''VOIDED'', TX_VOIDED)] s)"

definition status_text :: "transactionStatus \<Rightarrow> string" where
  "status_text s = (case s of TX_PENDING \<Rightarrow> ''PENDING'' | TX_APPROVED \<Rightarrow> ''APPROVED''
     | TX_DECLINED \<Rightarrow> ''DECLINED'' | TX_ERROR \<Rightarrow> ''ERROR'' | TX_VOIDED \<Rightarrow> ''VOIDED'')"

definition parse_transaction :: "json \<Rightarrow> transactionResult option" where
  "parse_transaction v =
     Option.bind (Option.bind (field v ''id'') as_string_min1) (\<lambda>i.
     Option.bind (Option.bind (field v ''status'') as_status) (\<lambda>st.
     Option.bind (Option.bind (field v ''amount_in_cents'') as_int) (\<lambda>amount.
     Option.bind (Option.bind (field v ''reference'') as_string_min1) (\<lambda>reference.
     Option.bind (Option.bind (field v ''currency'') as_string_min1) (\<lambda>currency.
     Some \<lparr>tr_reference = reference, tr_providerTransactionId = i, tr_status = st,
           tr_amountInCents = amount, tr_currency = currency\<rparr>)))))"

text \<open>The object zod returns for \<open>data\<close>: unknown keys are stripped.\<close>

definition parsed_data :: "transactionResult \<Rightarrow> json" where
  "parsed_data t = JObject [(''transaction'', JObject
     [(''id'', JString (tr_providerTransactionId t)),
      (''status'', JString (status_text (tr_status t))),
      (''amount_in_cents'', JNumber (tr_amountInCents t)),
      (''reference'', JString (tr_reference t)),
      (''currency'', JString (tr_currency t))])]"

fun all_some :: "'a option list \<Rightarrow> 'a list option" where
  "all_some [] = Some []"
| "all_some (x # xs) = Option.bind x (\<lambda>y. map_option ((#) y) (all_some xs))"

definition parse_properties :: "json \<Rightarrow> string list option" where
  "parse_properties v = (case v of
       JArray (x # xs) \<Rightarrow> all_some (map as_string_min1 (x # xs))
     | _ \<Rightarrow> None)"

record webhookPayload =
  wp_transaction :: transactionResult
  wp_timestamp :: string
  wp_properties :: "string list"
  wp_checksum :: string

definition wompiWebhookSchema :: "json \<Rightarrow> webhookPayload option" where
  "wompiWebhookSchema body =
     Option.bind (Option.bind (field body ''event'') as_string) (\<lambda>_.
     Option.bind (Option.bind (field body ''data'') (\<lambda>d.
       Option.bind (field d ''transaction'') parse_transaction)) (\<lambda>t.
     Option.bind (Option.bind (field body ''timestamp'') as_number_text) (\<lambda>timestamp.
     Option.bind (field body ''signature'') (\<lambda>sg.
     Option.bind (Option.bind (field sg ''properties'') parse_properties) (\<lambda>props.
     Option.bind (Option.bind (field sg ''checksum'') as_string_min1) (\<lambda>checksum.
     Some \<lparr>wp_transaction = t, wp_timestamp = timestamp, wp_properties = props,
           wp_checksum = checksum\<rparr>))))))"

definition wompiTransactionResponseSchema :: "json \<Rightarrow> transactionResult option" where
  "wompiTransactionResponseSchema body = Option.bind (field body ''data'') parse_transaction"

section \<open>The provider\<close>

definition wompi_buildCheckoutIntent ::
  "env \<Rightarrow> string \<Rightarrow> int \<Rightarrow> string \<Rightarrow> string \<Rightarrow> checkoutIntent" where
  "wompi_buildCheckoutIntent E reference amountInCents currency redirectUrl =
     \<lparr>ci_reference = reference, ci_publicKey = e_wompiPublicKey E,
      ci_amountInCents = amountInCents, ci_currency = currency,
      ci_integritySignature = e_sha256 E
        (reference @ string_of_int amountInCents @ currency @ e_wompiIntegritySecret E),
      ci_redirectUrl = redirectUrl\<rparr>"

definition ascii_lower :: "char \<Rightarrow> char" where
  "ascii_lower c = (let n = (of_char c :: nat) in if 65 \<le> n \<and> n \<le> 90 then char_of (n + 32) else c)"

definition toLowerCase :: "string \<Rightarrow> string" where
  "toLowerCase s = map ascii_lower s"

definition expected_checksum :: "env \<Rightarrow> webhookPayload \<Rightarrow> string" where
  "expected_checksum E p = e_sha256 E
     (concat (map (readByPath (parsed_data (wp_transaction p))) (wp_properties p)) @
      wp_timestamp p @ e_wompiEventsSecret E)"

definition wompi_verifyAndParseWebhook ::
  "env \<Rightarrow> json \<Rightarrow> (string \<times> transactionResult) option" where
  "wompi_verifyAndParseWebhook E rawBody = (case wompiWebhookSchema rawBody of
       None \<Rightarrow> None
     | Some p \<Rightarrow>
         if toLowerCase (expected_checksum E p) \<noteq> toLowerCase (wp_checksum p) then None
         else Some (tr_providerTransactionId (wp_transaction p) @ ''-'' @
             status_text (tr_status (wp_transaction p)) @ ''-'' @ wp_timestamp p, wp_transaction p))"

text \<open>
  What \<open>fetch\<close> and \<open>response.json()\<close> did: they threw, the status was not 2xx, or the body.
\<close>

datatype httpResult = HttpThrows | HttpNotOk | HttpBody json

definition wompi_fetchTransaction ::
  "(world \<Rightarrow> string \<Rightarrow> httpResult) \<Rightarrow> string \<Rightarrow> string \<Rightarrow> (world, transactionResult option) prog" where
  "wompi_fetchTransaction http apiUrl providerTransactionId =
     gets (\<lambda>w. case http w (apiUrl @ ''/transactions/'' @ providerTransactionId) of
         HttpThrows \<Rightarrow> None
       | HttpNotOk \<Rightarrow> None
       | HttpBody body \<Rightarrow> wompiTransactionResponseSchema body)"

definition wompi :: "env \<Rightarrow> (world \<Rightarrow> string \<Rightarrow> httpResult) \<Rightarrow> string \<Rightarrow> paymentProvider" where
  "wompi E http apiUrl = \<lparr>pp_name = ''wompi'',
     pp_buildCheckoutIntent = wompi_buildCheckoutIntent E,
     pp_verifyAndParseWebhook = wompi_verifyAndParseWebhook E,
     pp_fetchTransaction = wompi_fetchTransaction http apiUrl\<rparr>"

end
