(* ===== verification/CacheService.thy ===== *)
theory CacheService
  imports Tables
begin

text \<open>
  The Redis cache (\<open>src/cache/cache.service.ts\<close>): values are JSON texts under a key with a time to
  live. The model keeps the JSON value and the time at which it expires; \<open>cache_get\<close> of an absent
  or expired key is \<open>None\<close>. \<open>cache_store\<close> is the contract its clients use.
\<close>

definition cache_get :: "env \<Rightarrow> string \<Rightarrow> (world, json option) prog" where
  "cache_get E key =
     await (date_now E) (\<lambda>now.
     gets (\<lambda>w. case cache w key of
         None \<Rightarrow> None
       | Some (v, expiry) \<Rightarrow> if now < expiry then Some v else None))"

definition cache_set :: "env \<Rightarrow> string \<Rightarrow> json \<Rightarrow> int \<Rightarrow> (world, unit) prog" where
  "cache_set E key val ttlSeconds =
     await (date_now E) (\<lambda>now.
     modify (\<lambda>w. w\<lparr>cache := (cache w)(key \<mapsto> (val, now + ttlSeconds * 1000))\<rparr>))"

definition cache_del :: "string \<Rightarrow> (world, unit) prog" where
  "cache_del key = modify (\<lambda>w. w\<lparr>cache := (cache w)(key := None)\<rparr>)"

lemma keeps_cache_get [keeps_intro]: "keeps I (cache_get E key)"
  unfolding cache_get_def by (intro keeps_intro)

lemma keeps_cache_set [keeps_intro]: "keeps I (cache_set E key v ttl)"
  unfolding cache_set_def by (intro keeps_intro keeps_modify) simp

lemma keeps_cache_del [keeps_intro]: "keeps I (cache_del key)"
  unfolding cache_del_def by (intro keeps_intro keeps_modify) simp

text \<open>
  What the services do with it: return the cached value if there is one, otherwise compute the
  value, store it and return it.
\<close>

definition remember ::
  "env \<Rightarrow> string \<Rightarrow> int \<Rightarrow> (world, json) prog \<Rightarrow> (world, json) prog" where
  "remember E key ttl compute =
     await (cache_get E key) (\<lambda>cached. case cached of
       Some v \<Rightarrow> ret v
     | None \<Rightarrow> await compute (\<lambda>v. andthen (cache_set E key v ttl) (ret v)))"

lemma keeps_remember [keeps_intro]: "keeps I compute \<Longrightarrow> keeps I (remember E key ttl compute)"
  unfolding remember_def by (intro keeps_intro)

locale cache_store =
  fixes get :: "string \<Rightarrow> (world, json option) prog"
    and put :: "string \<Rightarrow> json \<Rightarrow> int \<Rightarrow> (world, unit) prog"
    and del :: "string \<Rightarrow> (world, unit) prog"
    and holds :: "world \<Rightarrow> string \<Rightarrow> json option"
  assumes get_held: "get k w = (Inr (Some v), w') \<Longrightarrow> holds w k = Some v"
    and get_same: "get k w = (r, w') \<Longrightarrow> holds w' = holds w \<and> db w' = db w"
    and get_returns: "\<exists>r w'. get k w = (Inr r, w')"
    and put_law: "put k v ttl w = (u, w') \<Longrightarrow> holds w' = (holds w)(k \<mapsto> v) \<and> db w' = db w \<and> u = Inr ()"
    and del_law: "del k w = (u, w') \<Longrightarrow> holds w' = (holds w)(k := None) \<and> db w' = db w \<and> u = Inr ()"
begin

text \<open>What is kept under a key stays right: \<open>good\<close> holds of every value under it.\<close>

definition all_good :: "string \<Rightarrow> (json \<Rightarrow> bool) \<Rightarrow> world \<Rightarrow> bool" where
  "all_good k good w = (\<forall>v. holds w k = Some v \<longrightarrow> good v)"

lemma get_good: "all_good k good w \<Longrightarrow> get k w = (Inr (Some v), w') \<Longrightarrow> good v"
  using get_held by (auto simp: all_good_def)

lemma put_good:
  assumes "all_good k good w" "k' = k \<longrightarrow> good v" "put k' v ttl w = (r, w')"
  shows "all_good k good w'"
  using assms put_law [OF assms(3)] by (auto simp: all_good_def)

lemma del_good: "all_good k good w \<Longrightarrow> del k' w = (r, w') \<Longrightarrow> all_good k good w'"
  using del_law by (fastforce simp: all_good_def split: if_splits)

text \<open>After a deletion the next lookup finds nothing.\<close>

lemma get_after_del: "del k w = (r, w1) \<Longrightarrow> get k w1 = (Inr v, w2) \<Longrightarrow> v = None"
  using del_law [of k w r w1] get_held [of k w1 _ w2] by (cases v) auto

end

definition cache_holds :: "world \<Rightarrow> string \<Rightarrow> json option" where
  "cache_holds w = (\<lambda>k. map_option fst (cache w k))"

interpretation redis: cache_store "cache_get E" "cache_set E" cache_del cache_holds for E
proof unfold_locales
  fix k v ttl r u w w'
  show "cache_get E k w = (Inr (Some v), w') \<Longrightarrow> cache_holds w k = Some v"
    by (auto simp: cache_get_def await_def cache_holds_def split: option.splits if_splits)
  show "cache_get E k w = (r, w') \<Longrightarrow> cache_holds w' = cache_holds w \<and> db w' = db w"
    by (auto simp: cache_get_def await_def cache_holds_def)
  show "\<exists>r w'. cache_get E k w = (Inr r, w')"
    by (simp add: cache_get_def await_def)
  show "cache_set E k v ttl w = (u, w') \<Longrightarrow> cache_holds w' = (cache_holds w)(k \<mapsto> v) \<and> db w' = db w \<and> u = Inr ()"
    by (auto simp: cache_set_def await_def cache_holds_def)
  show "cache_del k w = (u, w') \<Longrightarrow> cache_holds w' = (cache_holds w)(k := None) \<and> db w' = db w \<and> u = Inr ()"
    by (auto simp: cache_del_def cache_holds_def)
qed

text \<open>A value served by \<open>remember\<close> is the one under the key, or the one just computed.\<close>

lemma remember_cases:
  assumes "remember E key ttl compute w = (Inr v, w')"
  shows "cache_holds w key = Some v \<and> db w' = db w \<or>
    (\<exists>w1 w2. db w1 = db w \<and> cache_holds w1 = cache_holds w \<and> compute w1 = (Inr v, w2) \<and> db w' = db w2 \<and>
       cache_holds w' = (cache_holds w2)(key \<mapsto> v))"
proof -
  from assms obtain c w1 where c: "cache_get E key w = (Inr c, w1)"
    and k: "(case c of Some v \<Rightarrow> ret v | None \<Rightarrow> await compute (\<lambda>v. andthen (cache_set E key v ttl) (ret v))) w1 = (Inr v, w')"
    by (auto simp: remember_def await_Inr_iff)
  note same = redis.get_same [OF c]
  show ?thesis
  proof (cases c)
    case (Some x)
    with k redis.get_held c same show ?thesis by auto
  next
    case None
    with k obtain w2 where "compute w1 = (Inr v, w2)" and s: "cache_set E key v ttl w2 = (Inr (), w')"
      by (auto simp: prog_inv)
    with redis.put_law [OF s] same show ?thesis by auto
  qed
qed

end
