(* ===== verification/WalletService.thy ===== *)
theory WalletService
  imports Tables
begin

text \<open>
  Wallets, the credit ledger and credit reservations (\<open>src/wallet/wallet.service.ts\<close>), with
  the audit record a manual adjustment writes (\<open>src/audit/audit.service.ts\<close>).

  The state is three tables: \<open>wallets\<close> (one row per user), \<open>walletTransactions\<close>
  (the ledger, append-only) and \<open>creditReservations\<close> (at most one per reading). The invariant
  \<open>wallet_inv\<close> says that the balance of every wallet is never negative and is the sum of
  its ledger, that every ledger line carries the running balance, and that a reservation and the
  ledger lines of its reading agree. Every operation keeps it.
\<close>

section \<open>Operations\<close>

subsection \<open>Audit log\<close>

definition audit_record ::
  "env \<Rightarrow> string \<Rightarrow> string \<Rightarrow> string \<Rightarrow> string option \<Rightarrow> string option \<Rightarrow> json option \<Rightarrow>
   (world, unit) prog" where
  "audit_record E actorUserId action reason targetType targetId metadata =
     await (random_uuid E) (\<lambda>i.
     await (date_now E) (\<lambda>now.
     andthen (create AuditLog \<lparr>al_id = i, al_actorUserId = Some actorUserId, al_action = action,
         al_targetType = targetType, al_targetId = targetId, al_reason = reason,
         al_metadata = metadata, al_createdAt = now\<rparr>)
       (ret ())))"

subsection \<open>Summaries\<close>

record walletSummary =
  ws_balance :: int

definition toWalletSummary :: "wallet \<Rightarrow> walletSummary" where
  "toWalletSummary wallet = \<lparr>ws_balance = w_balance wallet\<rparr>"

record walletTransactionSummary =
  wts_id :: string
  wts_type :: walletTransactionType
  wts_amount :: int
  wts_balanceAfter :: int
  wts_readingId :: "string option"
  wts_orderId :: "string option"
  wts_createdAt :: int

definition toWalletTransactionSummary :: "walletTransaction \<Rightarrow> walletTransactionSummary" where
  "toWalletTransactionSummary t = \<lparr>wts_id = t_id t, wts_type = t_type t, wts_amount = t_amount t,
     wts_balanceAfter = t_balanceAfter t, wts_readingId = t_readingId t, wts_orderId = t_orderId t,
     wts_createdAt = t_createdAt t\<rparr>"

record 'a paginated =
  pg_items :: "'a list"
  pg_total :: nat
  pg_page :: nat
  pg_pageSize :: nat

subsection \<open>The service\<close>

text \<open>\<open>tx.walletTransaction.create\<close>, with the defaults of the schema for \<open>id\<close> and \<open>createdAt\<close>.\<close>

definition ledger_create ::
  "env \<Rightarrow> string \<Rightarrow> walletTransactionType \<Rightarrow> int \<Rightarrow> int \<Rightarrow> string \<Rightarrow> string option \<Rightarrow> string option \<Rightarrow>
   (world, walletTransaction) prog" where
  "ledger_create E walletId type amount balanceAfter idempotencyKey readingId orderId =
     await (random_uuid E) (\<lambda>i.
     await (date_now E) (\<lambda>now.
     create WalletTransaction \<lparr>t_id = i, t_walletId = walletId, t_type = type, t_amount = amount,
         t_balanceAfter = balanceAfter, t_idempotencyKey = idempotencyKey,
         t_readingId = readingId, t_orderId = orderId, t_createdAt = now\<rparr>))"

definition createWalletWithBonus :: "env \<Rightarrow> string \<Rightarrow> (world, unit) prog" where
  "createWalletWithBonus E userId =
     transaction
       (await (random_uuid E) (\<lambda>i.
        await (create Wallet \<lparr>w_id = i, w_userId = userId, w_balance = e_bonusCredits E\<rparr>) (\<lambda>wallet.
        if 0 < e_bonusCredits E then
          andthen (ledger_create E (w_id wallet) BONUS (e_bonusCredits E) (e_bonusCredits E)
              (''bonus:'' @ userId) None None)
            (ret ())
        else ret ())))"

definition getWallet :: "string \<Rightarrow> (world, walletSummary) prog" where
  "getWallet userId =
     await (find_first Wallet (\<lambda>w. w_userId w = userId)) (\<lambda>wallet. case wallet of
       None \<Rightarrow> throw (NotFoundException ''wallet'')
     | Some w \<Rightarrow> ret (toWalletSummary w))"

definition listTransactions ::
  "string \<Rightarrow> nat \<Rightarrow> nat \<Rightarrow> (world, walletTransactionSummary paginated) prog" where
  "listTransactions userId page pageSize =
     await (find_first Wallet (\<lambda>w. w_userId w = userId)) (\<lambda>wallet. case wallet of
       None \<Rightarrow> throw (NotFoundException ''wallet'')
     | Some w \<Rightarrow>
         await (find_many WalletTransaction (\<lambda>t. t_walletId t = w_id w)) (\<lambda>items.
         await (count_rows WalletTransaction (\<lambda>t. t_walletId t = w_id w)) (\<lambda>total.
         ret \<lparr>pg_items = map toWalletTransactionSummary
                (page_of page pageSize (order_desc t_createdAt items)),
              pg_total = total, pg_page = page, pg_pageSize = pageSize\<rparr>)))"

definition reserveCreditsForReading ::
  "env \<Rightarrow> string \<Rightarrow> string \<Rightarrow> int \<Rightarrow> (world, unit) prog" where
  "reserveCreditsForReading E userId readingId amount =
     await (find_or_throw Wallet (\<lambda>w. w_userId w = userId)) (\<lambda>wallet.
     await (update_many Wallet (\<lambda>w. w_id w = w_id wallet \<and> amount \<le> w_balance w)
              (\<lambda>w. w\<lparr>w_balance := w_balance w - amount\<rparr>)) (\<lambda>debited.
     if debited = 0 then throw (BadRequestException ''insufficient balance'')
     else
       await (find_or_throw Wallet (\<lambda>w. w_id w = w_id wallet)) (\<lambda>updatedWallet.
       andthen
         (try_catch
           (await (random_uuid E) (\<lambda>i.
            create CreditReservation \<lparr>cr_id = i, cr_walletId = w_id wallet,
              cr_readingId = readingId, cr_amount = amount, cr_status = RES_ACTIVE\<rparr>))
           (\<lambda>e. if isUniqueConstraintViolation e then throw ReadingAlreadySubmittedError
                else throw e))
         (andthen
           (ledger_create E (w_id wallet) RESERVATION (- amount) (w_balance updatedWallet)
              (''reservation:'' @ readingId) (Some readingId) None)
           (ret ())))))"

definition confirmConsumption :: "env \<Rightarrow> string \<Rightarrow> (world, unit) prog" where
  "confirmConsumption E readingId =
     transaction
       (await (update_many CreditReservation
                 (\<lambda>r. cr_readingId r = readingId \<and> cr_status r = RES_ACTIVE)
                 (\<lambda>r. r\<lparr>cr_status := RES_CONSUMED\<rparr>)) (\<lambda>updated.
        if updated = 0 then ret ()
        else
          await (find_or_throw CreditReservation (\<lambda>r. cr_readingId r = readingId)) (\<lambda>reservation.
          await (find_or_throw Wallet (\<lambda>w. w_id w = cr_walletId reservation)) (\<lambda>wallet.
          andthen
            (ledger_create E (cr_walletId reservation) CONSUMPTION 0 (w_balance wallet)
               (''consumption:'' @ readingId) (Some readingId) None)
            (ret ())))))"

definition releaseReservation :: "env \<Rightarrow> string \<Rightarrow> (world, unit) prog" where
  "releaseReservation E readingId =
     transaction
       (await (update_many CreditReservation
                 (\<lambda>r. cr_readingId r = readingId \<and> cr_status r = RES_ACTIVE)
                 (\<lambda>r. r\<lparr>cr_status := RES_RELEASED\<rparr>)) (\<lambda>updated.
        if updated = 0 then ret ()
        else
          await (find_or_throw CreditReservation (\<lambda>r. cr_readingId r = readingId)) (\<lambda>reservation.
          await (update_row Wallet (\<lambda>w. w_id w = cr_walletId reservation)
                   (\<lambda>w. w\<lparr>w_balance := w_balance w + cr_amount reservation\<rparr>)) (\<lambda>updatedWallet.
          andthen
            (ledger_create E (cr_walletId reservation) RELEASE (cr_amount reservation)
               (w_balance updatedWallet) (''release:'' @ readingId) (Some readingId) None)
            (ret ())))))"

definition creditPurchase :: "env \<Rightarrow> string \<Rightarrow> string \<Rightarrow> int \<Rightarrow> (world, unit) prog" where
  "creditPurchase E userId orderId credits =
     await (find_or_throw Wallet (\<lambda>w. w_userId w = userId)) (\<lambda>wallet.
     await (update_row Wallet (\<lambda>w. w_id w = w_id wallet)
              (\<lambda>w. w\<lparr>w_balance := w_balance w + credits\<rparr>)) (\<lambda>updatedWallet.
     andthen
       (ledger_create E (w_id wallet) PURCHASE credits (w_balance updatedWallet)
          (''purchase:'' @ orderId) None (Some orderId))
       (ret ())))"

definition adjustBalance ::
  "env \<Rightarrow> string \<Rightarrow> int \<Rightarrow> string \<Rightarrow> string \<Rightarrow> (world, walletSummary) prog" where
  "adjustBalance E userId amount reason actorUserId =
     (if amount = 0 then throw (BadRequestException ''adjustment is zero'')
      else transaction
        (await (find_first Wallet (\<lambda>w. w_userId w = userId)) (\<lambda>found. case found of
           None \<Rightarrow> throw (NotFoundException ''wallet of user'')
         | Some wallet \<Rightarrow>
             await
               (if amount < 0 then
                  await (update_many Wallet (\<lambda>w. w_id w = w_id wallet \<and> - amount \<le> w_balance w)
                           (\<lambda>w. w\<lparr>w_balance := w_balance w - (- amount)\<rparr>)) (\<lambda>result.
                  if result = 0 then throw (BadRequestException ''adjustment below zero'')
                  else find_or_throw Wallet (\<lambda>w. w_id w = w_id wallet))
                else
                  update_row Wallet (\<lambda>w. w_id w = w_id wallet)
                    (\<lambda>w. w\<lparr>w_balance := w_balance w + amount\<rparr>)) (\<lambda>updatedWallet.
             await (random_uuid E) (\<lambda>key.
             andthen
               (ledger_create E (w_id wallet) ADJUSTMENT amount (w_balance updatedWallet)
                  (''adjustment:'' @ key) None None)
             (andthen
               (audit_record E actorUserId ''wallet.adjustment'' reason (Some ''User'') (Some userId)
                  (Some (JObject [(''amount'', JNumber amount),
                                  (''balanceAfter'', JNumber (w_balance updatedWallet))])))
               (ret (toWalletSummary updatedWallet))))))))"

end
