(* ===== verification/OrdersService.thy ===== *)
theory OrdersService
  imports CacheService WalletService
begin

text \<open>
  Credit packages (\<open>src/credit-packages\<close>) and orders (\<open>src/orders/orders.service.ts\<close>).
  An order freezes the price and the credits of its package when it is created. A live flash
  offer of the user for that package is consumed by the same transaction and lowers the price.
\<close>

section \<open>Credit packages\<close>

definition toCreditPackageSummary :: "creditPackage \<Rightarrow> json" where
  "toCreditPackageSummary pkg = JObject
     [(''code'', JString (cp_code pkg)),
      (''name'', JString (cp_name pkg)),
      (''description'', case cp_description pkg of None \<Rightarrow> JNull | Some d \<Rightarrow> JString d),
      (''credits'', JNumber (cp_credits pkg)),
      (''priceCents'', JNumber (cp_priceCents pkg)),
      (''currency'', JString (cp_currency pkg)),
      (''isRecommended'', JBool (cp_isRecommended pkg))]"

definition CREDIT_PACKAGES_LIST_CACHE_KEY :: string where
  "CREDIT_PACKAGES_LIST_CACHE_KEY = ''credit-packages:list''"

definition CREDIT_PACKAGES_LIST_CACHE_TTL_SECONDS :: int where
  "CREDIT_PACKAGES_LIST_CACHE_TTL_SECONDS = 5 * 60"

definition listActivePackages :: "env \<Rightarrow> (world, json) prog" where
  "listActivePackages E =
     remember E CREDIT_PACKAGES_LIST_CACHE_KEY CREDIT_PACKAGES_LIST_CACHE_TTL_SECONDS
       (await (find_many CreditPackage cp_isActive) (\<lambda>packages.
        ret (JArray (map toCreditPackageSummary (order_desc cp_priceCents packages)))))"

definition findActivePackageByCode :: "string \<Rightarrow> (world, creditPackage) prog" where
  "findActivePackageByCode code =
     await (find_first CreditPackage (\<lambda>p. cp_code p = code \<and> cp_isActive p)) (\<lambda>found. case found of
       None \<Rightarrow> throw (NotFoundException ''package'')
     | Some pkg \<Rightarrow> ret pkg)"

section \<open>Orders\<close>

record orderSummary =
  os_id :: string
  os_status :: orderStatus
  os_credits :: int
  os_priceCents :: int
  os_discountAppliedPercent :: "int option"
  os_currency :: string
  os_createdAt :: int

definition toOrderSummary :: "orderRow \<Rightarrow> orderSummary" where
  "toOrderSummary order = \<lparr>os_id = o_id order, os_status = o_status order,
     os_credits = o_credits order, os_priceCents = o_priceCents order,
     os_discountAppliedPercent = o_discountAppliedPercent order,
     os_currency = o_currency order, os_createdAt = o_createdAt order\<rparr>"

record adminOrderSummary = orderSummary +
  os_userId :: string

definition toAdminOrderSummary :: "orderRow \<Rightarrow> adminOrderSummary" where
  "toAdminOrderSummary order =
     orderSummary.extend (toOrderSummary order) (adminOrderSummary.fields (o_userId order))"

definition discounted :: "int \<Rightarrow> int \<Rightarrow> int" where
  "discounted priceCents percent = math_round_div (priceCents * (100 - percent)) 100"

definition orders_create :: "env \<Rightarrow> string \<Rightarrow> string \<Rightarrow> (world, orderSummary) prog" where
  "orders_create E userId packageCode =
     await (findActivePackageByCode packageCode) (\<lambda>pkg.
     await
       (transaction
         (await (date_now E) (\<lambda>now.
          await (find_first_desc FlashOfferUnlock fo_createdAt (\<lambda>f. fo_userId f = userId \<and>
                   fo_packageCode f = packageCode \<and> fo_consumedAt f = None \<and> now < fo_expiresAt f))
            (\<lambda>activeOffer.
          await
            (case activeOffer of
               None \<Rightarrow> ret (cp_priceCents pkg, None)
             | Some offer \<Rightarrow>
                 await (date_now E) (\<lambda>consumedAt.
                 await (update_many FlashOfferUnlock
                          (\<lambda>f. fo_id f = fo_id offer \<and> fo_consumedAt f = None)
                          (\<lambda>f. f\<lparr>fo_consumedAt := Some consumedAt\<rparr>)) (\<lambda>consumed.
                 if 0 < consumed
                 then ret (discounted (cp_priceCents pkg) (fo_discountPercent offer),
                           Some (fo_discountPercent offer))
                 else ret (cp_priceCents pkg, None))))
            (\<lambda>(priceCents, discountAppliedPercent).
          await (random_uuid E) (\<lambda>i.
          await (date_now E) (\<lambda>createdAt.
          create Order \<lparr>o_id = i, o_userId = userId, o_creditPackageId = cp_id pkg,
            o_credits = cp_credits pkg, o_priceCents = priceCents,
            o_discountAppliedPercent = discountAppliedPercent, o_currency = cp_currency pkg,
            o_status = ORD_PENDING, o_createdAt = createdAt\<rparr>)))))))
       (\<lambda>order. ret (toOrderSummary order)))"

definition findOneForUser :: "string \<Rightarrow> string \<Rightarrow> (world, orderSummary) prog" where
  "findOneForUser userId orderId =
     await (find_first Order (\<lambda>ord. o_id ord = orderId \<and> o_userId ord = userId)) (\<lambda>found. case found of
       None \<Rightarrow> throw (NotFoundException ''order'')
     | Some order \<Rightarrow> ret (toOrderSummary order))"

definition orders_listAll :: "nat \<Rightarrow> nat \<Rightarrow> (world, adminOrderSummary paginated) prog" where
  "orders_listAll page pageSize =
     await (find_many Order (\<lambda>_. True)) (\<lambda>items.
     await (count_rows Order (\<lambda>_. True)) (\<lambda>total.
     ret \<lparr>pg_items = map toAdminOrderSummary (page_of page pageSize (order_desc o_createdAt items)),
          pg_total = total, pg_page = page, pg_pageSize = pageSize\<rparr>))"

section \<open>Pricing\<close>

lemma discounted_bounds:
  assumes "0 \<le> p" "0 \<le> d" "d \<le> 100"
  shows "0 \<le> discounted p d" "discounted p d \<le> p"
proof -
  let ?n = "p * (100 - d)"
  have n: "0 \<le> ?n" "?n \<le> p * 100"
    using assms by (simp_all add: mult_left_mono)
  have "2 * ?n - 100 < 200 * discounted p d" "200 * discounted p d \<le> 2 * ?n + 100"
    using math_round_div_bounds [of 100 ?n] by (simp_all add: discounted_def)
  with n show "0 \<le> discounted p d" "discounted p d \<le> p" by linarith+
qed

text \<open>The live offer the order would use at time \<open>now\<close>.\<close>

definition live_offer :: "string \<Rightarrow> string \<Rightarrow> int \<Rightarrow> database \<Rightarrow> flashOfferUnlock option" where
  "live_offer u code now d = (case order_desc fo_createdAt (filter (\<lambda>f. fo_userId f = u \<and>
       fo_packageCode f = code \<and> fo_consumedAt f = None \<and> now < fo_expiresAt f) (flashOfferUnlocks d)) of
     [] \<Rightarrow> None | f # _ \<Rightarrow> Some f)"

lemma live_offerD:
  assumes "live_offer u code now d = Some f"
  shows "f \<in> set (flashOfferUnlocks d) \<and> fo_userId f = u \<and> fo_packageCode f = code \<and>
    fo_consumedAt f = None \<and> now < fo_expiresAt f"
  using first_desc_SomeD [OF assms [unfolded live_offer_def]] by simp

text \<open>Consuming an offer.\<close>

definition consume_offer :: "string \<Rightarrow> int \<Rightarrow> flashOfferUnlock list \<Rightarrow> flashOfferUnlock list" where
  "consume_offer i now fs =
     map (\<lambda>f. if fo_id f = i \<and> fo_consumedAt f = None then f\<lparr>fo_consumedAt := Some now\<rparr> else f) fs"

definition order_row ::
  "env \<Rightarrow> string \<Rightarrow> creditPackage \<Rightarrow> int \<Rightarrow> int option \<Rightarrow> string \<Rightarrow> int \<Rightarrow> orderRow" where
  "order_row E u pkg price discount i now = \<lparr>o_id = i, o_userId = u, o_creditPackageId = cp_id pkg,
     o_credits = cp_credits pkg, o_priceCents = price, o_discountAppliedPercent = discount,
     o_currency = cp_currency pkg, o_status = ORD_PENDING, o_createdAt = now\<rparr>"

lemma findActive_Inr_iff:
  "findActivePackageByCode code w = (Inr pkg, w') \<longleftrightarrow>
     find (\<lambda>p. cp_code p = code \<and> cp_isActive p) (creditPackages (db w)) = Some pkg \<and> w' = w"
  by (auto simp: findActivePackageByCode_def prog_inv CreditPackage_def)

lemma live_offer_run:
  "find_first_desc FlashOfferUnlock fo_createdAt (\<lambda>f. fo_userId f = u \<and>
     fo_packageCode f = code \<and> fo_consumedAt f = None \<and> now < fo_expiresAt f) w =
   (Inr (live_offer u code now (db w)), w)"
  by (simp add: live_offer_def FlashOfferUnlock_def)

lemma orders_create_Inr:
  assumes run: "orders_create E u code w = (Inr s, w')"
  obtains pkg i now where
    "find (\<lambda>p. cp_code p = code \<and> cp_isActive p) (creditPackages (db w)) = Some pkg"
    "\<forall>x \<in> set (orders (db w)). o_id x \<noteq> i"
    "case live_offer u code (e_clock E (ticks w)) (db w) of
       None \<Rightarrow> s = toOrderSummary (order_row E u pkg (cp_priceCents pkg) None i now) \<and>
         db w' = (db w)\<lparr>orders := orders (db w) @ [order_row E u pkg (cp_priceCents pkg) None i now]\<rparr>
     | Some f \<Rightarrow>
         let price = discounted (cp_priceCents pkg) (fo_discountPercent f);
             ord = order_row E u pkg price (Some (fo_discountPercent f)) i now in
         s = toOrderSummary ord \<and>
         db w' = (db w)\<lparr>flashOfferUnlocks := consume_offer (fo_id f) (e_clock E (Suc (ticks w))) (flashOfferUnlocks (db w)),
           orders := orders (db w) @ [ord]\<rparr>"
proof -
  obtain pkg w0 where "findActivePackageByCode code w = (Inr pkg, w0)"
    by (rule await_InrE [OF run [unfolded orders_create_def]])
  then have pkg: "find (\<lambda>p. cp_code p = code \<and> cp_isActive p) (creditPackages (db w)) = Some pkg"
    by (simp add: findActive_Inr_iff)
  have tbl: "rows Order = orders" "clash Order a b \<longleftrightarrow> o_id a = o_id b" "set_rows Order = (\<lambda>g d. d\<lparr>orders := g (orders d)\<rparr>)"
    "rows FlashOfferUnlock = flashOfferUnlocks"
    "set_rows FlashOfferUnlock = (\<lambda>g d. d\<lparr>flashOfferUnlocks := g (flashOfferUnlocks d)\<rparr>)" for a b
    by (simp_all add: Order_def FlashOfferUnlock_def)
  have found: "findActivePackageByCode code w = (Inr pkg, w)"
    using pkg by (simp add: findActive_Inr_iff)
  note step = orders_create_def transaction_def await_def found live_offer_run create_def update_many_def tbl
  show thesis
  proof (cases "live_offer u code (e_clock E (ticks w)) (db w)")
    case None
    show thesis
      by (rule that [OF pkg, of "e_uuid E (uuids w)" "e_clock E (Suc (ticks w))"])
        (use run None in \<open>auto simp: step order_row_def list_ex_iff simp del: find_first_desc_run split: if_splits\<close>)
  next
    case (Some f)
    have "filter (\<lambda>x. fo_id x = fo_id f \<and> fo_consumedAt x = None) (flashOfferUnlocks (db w)) \<noteq> []"
      using live_offerD [OF Some] by (auto simp: filter_empty_conv)
    with Some show thesis
      by (intro that [OF pkg, of "e_uuid E (uuids w)" "e_clock E (Suc (Suc (ticks w)))"])
        (use run in \<open>auto simp: step order_row_def consume_offer_def Let_def list_ex_iff simp del: find_first_desc_run split: if_splits\<close>)
  qed
qed

text \<open>
  C14. An order freezes its package at creation: credits, currency and package id are those of the
  active package, the status is PENDING, and the price is the package price, or, when the user has
  a live flash offer for that package, the discounted price rounded to the nearest cent, which is
  never negative and never above the package price. Exactly one order row is added.
\<close>

theorem order_frozen:
  assumes run: "orders_create E u code w = (Inr s, w')"
    and sane: "\<forall>p \<in> set (creditPackages (db w)). 0 \<le> cp_priceCents p"
      "\<forall>f \<in> set (flashOfferUnlocks (db w)). 0 \<le> fo_discountPercent f \<and> fo_discountPercent f \<le> 100"
  shows "\<exists>pkg ord. pkg \<in> set (creditPackages (db w)) \<and> cp_code pkg = code \<and> cp_isActive pkg \<and>
    orders (db w') = orders (db w) @ [ord] \<and> s = toOrderSummary ord \<and> o_userId ord = u \<and>
    o_creditPackageId ord = cp_id pkg \<and> o_credits ord = cp_credits pkg \<and> o_currency ord = cp_currency pkg \<and>
    o_status ord = ORD_PENDING \<and> 0 \<le> o_priceCents ord \<and> o_priceCents ord \<le> cp_priceCents pkg \<and>
    (case live_offer u code (e_clock E (ticks w)) (db w) of
       None \<Rightarrow> o_priceCents ord = cp_priceCents pkg \<and> o_discountAppliedPercent ord = None
     | Some f \<Rightarrow> o_priceCents ord = discounted (cp_priceCents pkg) (fo_discountPercent f) \<and>
         o_discountAppliedPercent ord = Some (fo_discountPercent f))"
proof -
  obtain pkg i now where pkg: "find (\<lambda>p. cp_code p = code \<and> cp_isActive p) (creditPackages (db w)) = Some pkg"
    and c: "case live_offer u code (e_clock E (ticks w)) (db w) of
       None \<Rightarrow> s = toOrderSummary (order_row E u pkg (cp_priceCents pkg) None i now) \<and>
         db w' = (db w)\<lparr>orders := orders (db w) @ [order_row E u pkg (cp_priceCents pkg) None i now]\<rparr>
     | Some f \<Rightarrow>
         let price = discounted (cp_priceCents pkg) (fo_discountPercent f);
             ord = order_row E u pkg price (Some (fo_discountPercent f)) i now in
         s = toOrderSummary ord \<and>
         db w' = (db w)\<lparr>flashOfferUnlocks := consume_offer (fo_id f) (e_clock E (Suc (ticks w))) (flashOfferUnlocks (db w)),
           orders := orders (db w) @ [ord]\<rparr>"
    by (rule orders_create_Inr [OF run])
  have p: "pkg \<in> set (creditPackages (db w))" "cp_code pkg = code" "cp_isActive pkg" "0 \<le> cp_priceCents pkg"
    using find_SomeD [OF pkg] sane(1) by auto
  show ?thesis
  proof (cases "live_offer u code (e_clock E (ticks w)) (db w)")
    case None
    with c p show ?thesis by (intro exI [of _ pkg]) (auto simp: order_row_def)
  next
    case (Some f)
    have "0 \<le> discounted (cp_priceCents pkg) (fo_discountPercent f)"
      "discounted (cp_priceCents pkg) (fo_discountPercent f) \<le> cp_priceCents pkg"
      using live_offerD [OF Some] sane(2) p(4) by (auto intro: discounted_bounds)
    with Some c p show ?thesis by (intro exI [of _ pkg]) (auto simp: order_row_def Let_def)
  qed
qed

definition example_shop :: world where
  "example_shop = empty_world\<lparr>db := empty_database
     \<lparr>creditPackages := [\<lparr>cp_id = ''p'', cp_code = ''BASICO_FUEGO'', cp_name = ''n'', cp_description = None,
        cp_credits = 15, cp_priceCents = 990, cp_currency = ''COP'', cp_isActive = True, cp_isRecommended = False\<rparr>],
      flashOfferUnlocks := [\<lparr>fo_id = ''f'', fo_userId = ''ana'', fo_packageCode = ''BASICO_FUEGO'',
        fo_discountPercent = 25, fo_expiresAt = 100, fo_consumedAt = None, fo_createdAt = 0\<rparr>]\<rparr>\<rparr>"

lemma order_frozen_witness:
  "\<exists>s w'. orders_create example_env ''ana'' ''BASICO_FUEGO'' example_shop = (Inr s, w') \<and>
     os_priceCents s = 743 \<and> os_credits s = 15 \<and> length (orders (db w')) = 1"
proof -
  let ?run = "orders_create example_env ''ana'' ''BASICO_FUEGO'' example_shop"
  have "case fst ?run of Inl _ \<Rightarrow> False | Inr s \<Rightarrow> os_priceCents s = 743" by code_simp
  then obtain s w' where run: "?run = (Inr s, w')" and s: "os_priceCents s = 743"
    by (cases ?run; cases "fst ?run") auto
  have p: "\<forall>p \<in> set (creditPackages (db example_shop)). 0 \<le> cp_priceCents p" by code_simp
  have f: "\<forall>f \<in> set (flashOfferUnlocks (db example_shop)). 0 \<le> fo_discountPercent f \<and> fo_discountPercent f \<le> 100"
    by code_simp
  have o: "orders (db example_shop) = []" "map cp_credits (creditPackages (db example_shop)) = [15]" by code_simp+
  from order_frozen [OF run p f] obtain pkg ord where "pkg \<in> set (creditPackages (db example_shop))"
    "orders (db w') = orders (db example_shop) @ [ord]" "s = toOrderSummary ord" "o_credits ord = cp_credits pkg"
    by blast
  moreover from this(1) o(2) have "cp_credits pkg = 15"
    by (metis (no_types, lifting) image_eqI set_map singletonD list.set(1,2) empty_set)
  ultimately show ?thesis using run s o by (auto simp: toOrderSummary_def)
qed

section \<open>A flash offer pays for one order\<close>

definition discounted_orders :: "database \<Rightarrow> nat" where
  "discounted_orders d = length (filter (\<lambda>ord. o_discountAppliedPercent ord \<noteq> None) (orders d))"

definition consumed_offers :: "database \<Rightarrow> nat" where
  "consumed_offers d = length (filter (\<lambda>f. fo_consumedAt f \<noteq> None) (flashOfferUnlocks d))"

lemma consume_ids [simp]: "map fo_id (consume_offer i now fs) = map fo_id fs"
  by (simp add: consume_offer_def)

lemma consume_absent:
  "\<forall>f \<in> set fs. fo_id f \<noteq> i \<Longrightarrow> consume_offer i now fs = fs"
  by (auto simp: consume_offer_def intro!: map_idI)

lemma consume_one:
  "distinct (map fo_id fs) \<Longrightarrow> f \<in> set fs \<Longrightarrow> fo_consumedAt f = None \<Longrightarrow>
   length (filter (\<lambda>f. fo_consumedAt f \<noteq> None) (consume_offer (fo_id f) now fs)) =
   Suc (length (filter (\<lambda>f. fo_consumedAt f \<noteq> None) fs))"
proof (induction fs)
  case (Cons x fs)
  show ?case
  proof (cases "x = f")
    case True
    with Cons.prems have "\<forall>g \<in> set fs. fo_id g \<noteq> fo_id f" by (auto simp: image_iff)
    from consume_absent [OF this, of now] True Cons.prems(3) show ?thesis
      by (simp add: consume_offer_def)
  next
    case False
    with Cons.prems have "f \<in> set fs" "fo_id x \<noteq> fo_id f" by auto
    with Cons show ?thesis by (simp add: consume_offer_def)
  qed
qed simp

lemma orders_create_Inl:
  "orders_create E u code w = (Inl e, w') \<Longrightarrow> db w' = db w"
  by (auto simp: orders_create_def await_Inl_iff findActivePackageByCode_def prog_inv
      dest!: transaction_error_db)

lemma order_counts:
  assumes "distinct (map fo_id (flashOfferUnlocks (db w)))" "orders_create E u code w = (r, w')"
  shows "discounted_orders (db w') + consumed_offers (db w) = discounted_orders (db w) + consumed_offers (db w')
    \<and> map fo_id (flashOfferUnlocks (db w')) = map fo_id (flashOfferUnlocks (db w))"
proof (cases r)
  case (Inl e)
  with orders_create_Inl assms(2) show ?thesis by fastforce
next
  case (Inr s)
  obtain pkg i now where c: "case live_offer u code (e_clock E (ticks w)) (db w) of
       None \<Rightarrow> s = toOrderSummary (order_row E u pkg (cp_priceCents pkg) None i now) \<and>
         db w' = (db w)\<lparr>orders := orders (db w) @ [order_row E u pkg (cp_priceCents pkg) None i now]\<rparr>
     | Some f \<Rightarrow>
         let price = discounted (cp_priceCents pkg) (fo_discountPercent f);
             ord = order_row E u pkg price (Some (fo_discountPercent f)) i now in
         s = toOrderSummary ord \<and>
         db w' = (db w)\<lparr>flashOfferUnlocks := consume_offer (fo_id f) (e_clock E (Suc (ticks w))) (flashOfferUnlocks (db w)),
           orders := orders (db w) @ [ord]\<rparr>"
    by (rule orders_create_Inr [OF assms(2) [unfolded Inr]])
  show ?thesis
  proof (cases "live_offer u code (e_clock E (ticks w)) (db w)")
    case None
    with c show ?thesis by (simp add: discounted_orders_def consumed_offers_def order_row_def)
  next
    case (Some f)
    with c consume_one [OF assms(1), of f] live_offerD [OF Some] show ?thesis
      by (simp add: discounted_orders_def consumed_offers_def order_row_def Let_def)
  qed
qed

definition place_orders :: "env \<Rightarrow> (string \<times> string) list \<Rightarrow> world \<Rightarrow> world" where
  "place_orders E cs w = fold (\<lambda>(u, code) w. snd (orders_create E u code w)) cs w"

text \<open>
  A flash offer pays for at most one order: over any sequence of order creations, by any users
  and for any packages, the number of new orders with a discount is exactly the number of offers
  newly marked as consumed.
\<close>

theorem flash_offer_used_once:
  assumes "distinct (map fo_id (flashOfferUnlocks (db w)))" "w' = place_orders E cs w"
  shows "discounted_orders (db w') + consumed_offers (db w) = discounted_orders (db w) + consumed_offers (db w')"
proof -
  have "discounted_orders (db (place_orders E cs w)) + consumed_offers (db w) =
      discounted_orders (db w) + consumed_offers (db (place_orders E cs w))"
    using assms(1)
  proof (induction cs arbitrary: w)
    case (Cons c cs)
    obtain u code where c: "c = (u, code)" by (cases c)
    let ?w = "snd (orders_create E u code w)"
    note step = order_counts [OF Cons.prems, OF surjective_pairing, of E u code]
    then have "distinct (map fo_id (flashOfferUnlocks (db ?w)))" using Cons.prems by simp
    from Cons.IH [OF this] step show ?case by (simp add: place_orders_def c)
  qed (simp add: place_orders_def)
  with assms(2) show ?thesis by simp
qed

lemma flash_offer_used_once_witness:
  "let w' = place_orders example_env [(''ana'', ''BASICO_FUEGO''), (''ana'', ''BASICO_FUEGO'')] example_shop in
   discounted_orders (db w') = 1 \<and> consumed_offers (db w') = 1 \<and> length (orders (db w')) = 2"
proof -
  let ?w = "place_orders example_env [(''ana'', ''BASICO_FUEGO''), (''ana'', ''BASICO_FUEGO'')] example_shop"
  have d: "distinct (map fo_id (flashOfferUnlocks (db example_shop)))" by code_simp
  have "discounted_orders (db example_shop) = 0" "consumed_offers (db example_shop) = 0"
    "consumed_offers (db ?w) = 1" "length (orders (db ?w)) = 2" by code_simp+
  with flash_offer_used_once [OF d refl, of example_env "[(''ana'', ''BASICO_FUEGO''), (''ana'', ''BASICO_FUEGO'')]"]
  show ?thesis by (simp add: Let_def)
qed

end
