(* ===== verification/WalletLaws.thy ===== *)
theory WalletLaws
  imports WalletService
begin

text \<open>
  What the wallet promises: the invariant \<open>wallet_inv\<close>, the effect of each operation on the
  balances, the ledger and the reservations, and the contract \<open>credit_service\<close> on which the
  orders, the payments, the readings and the worker rest.
\<close>

section \<open>The ledger\<close>

definition ledger_sum :: "string \<Rightarrow> walletTransaction list \<Rightarrow> int" where
  "ledger_sum wid ts = sum_list (map t_amount (filter (\<lambda>t. t_walletId t = wid) ts))"

text \<open>What a reading has cost so far: the ledger lines that name it, with the sign turned.\<close>

definition charged :: "string \<Rightarrow> walletTransaction list \<Rightarrow> int" where
  "charged rid ts = - sum_list (map t_amount (filter (\<lambda>t. t_readingId t = Some rid) ts))"

definition running_balances :: "walletTransaction list \<Rightarrow> bool" where
  "running_balances ts =
     (\<forall>i < length ts. t_balanceAfter (ts ! i) = ledger_sum (t_walletId (ts ! i)) (take (Suc i) ts))"

lemma ledger_sum_Nil [simp]: "ledger_sum wid [] = 0"
  by (simp add: ledger_sum_def)

lemma ledger_sum_snoc [simp]:
  "ledger_sum wid (ts @ [t]) = ledger_sum wid ts + (if t_walletId t = wid then t_amount t else 0)"
  by (simp add: ledger_sum_def)

lemma charged_Nil [simp]: "charged rid [] = 0"
  by (simp add: charged_def)

lemma charged_snoc [simp]:
  "charged rid (ts @ [t]) = charged rid ts - (if t_readingId t = Some rid then t_amount t else 0)"
  by (simp add: charged_def)

lemma running_balances_snoc [simp]:
  "running_balances (ts @ [t]) \<longleftrightarrow>
     running_balances ts \<and> t_balanceAfter t = ledger_sum (t_walletId t) ts + t_amount t"
  by (auto simp: running_balances_def nth_append less_Suc_eq all_conj_distrib)

lemma ledger_sum_absent: "(\<And>t. t \<in> set ts \<Longrightarrow> t_walletId t \<noteq> wid) \<Longrightarrow> ledger_sum wid ts = 0"
  by (induction ts rule: rev_induct) auto

lemma charged_absent: "(\<And>t. t \<in> set ts \<Longrightarrow> t_readingId t \<noteq> Some rid) \<Longrightarrow> charged rid ts = 0"
  by (induction ts rule: rev_induct) auto

section \<open>The invariant\<close>

definition money_ok :: "wallet list \<Rightarrow> walletTransaction list \<Rightarrow> bool" where
  "money_ok ws ts =
     (distinct (map w_id ws) \<and> distinct (map w_userId ws) \<and>
      (\<forall>w \<in> set ws. 0 \<le> w_balance w \<and> w_balance w = ledger_sum (w_id w) ts) \<and>
      (\<forall>t \<in> set ts. \<exists>w \<in> set ws. w_id w = t_walletId t) \<and>
      running_balances ts)"

text \<open>Each kind of ledger line has its own idempotency key, and names what it is about.\<close>

definition line_ok :: "creditReservation list \<Rightarrow> walletTransaction \<Rightarrow> bool" where
  "line_ok rs t = (case t_type t of
       BONUS \<Rightarrow> take 6 (t_idempotencyKey t) = ''bonus:'' \<and> t_readingId t = None \<and> t_orderId t = None
     | ADJUSTMENT \<Rightarrow> take 11 (t_idempotencyKey t) = ''adjustment:'' \<and>
         t_readingId t = None \<and> t_orderId t = None
     | PURCHASE \<Rightarrow> t_readingId t = None \<and>
         (case t_orderId t of None \<Rightarrow> False | Some oid \<Rightarrow> t_idempotencyKey t = ''purchase:'' @ oid)
     | RESERVATION \<Rightarrow> t_orderId t = None \<and>
         (\<exists>r \<in> set rs. t_readingId t = Some (cr_readingId r) \<and>
            t_idempotencyKey t = ''reservation:'' @ cr_readingId r)
     | CONSUMPTION \<Rightarrow> t_orderId t = None \<and>
         (\<exists>r \<in> set rs. t_readingId t = Some (cr_readingId r) \<and> cr_status r = RES_CONSUMED \<and>
            t_idempotencyKey t = ''consumption:'' @ cr_readingId r)
     | RELEASE \<Rightarrow> t_orderId t = None \<and>
         (\<exists>r \<in> set rs. t_readingId t = Some (cr_readingId r) \<and> cr_status r = RES_RELEASED \<and>
            t_idempotencyKey t = ''release:'' @ cr_readingId r)
     | _ \<Rightarrow> False)"

definition reservation_ok ::
  "wallet list \<Rightarrow> walletTransaction list \<Rightarrow> creditReservation \<Rightarrow> bool" where
  "reservation_ok ws ts r =
     (0 \<le> cr_amount r \<and> (\<exists>w \<in> set ws. w_id w = cr_walletId r) \<and>
      charged (cr_readingId r) ts = (if cr_status r = RES_RELEASED then 0 else cr_amount r))"

definition reservations_ok ::
  "wallet list \<Rightarrow> walletTransaction list \<Rightarrow> creditReservation list \<Rightarrow> bool" where
  "reservations_ok ws ts rs =
     (distinct (map cr_readingId rs) \<and> (\<forall>r \<in> set rs. reservation_ok ws ts r) \<and>
      (\<forall>t \<in> set ts. line_ok rs t))"

definition wallet_inv :: "database \<Rightarrow> bool" where
  "wallet_inv d =
     (money_ok (wallets d) (walletTransactions d) \<and>
      reservations_ok (wallets d) (walletTransactions d) (creditReservations d))"

text \<open>Moving \<open>a\<close> credits on one wallet.\<close>

definition bump :: "string \<Rightarrow> int \<Rightarrow> wallet list \<Rightarrow> wallet list" where
  "bump wid a ws = map (\<lambda>w. if w_id w = wid then w\<lparr>w_balance := w_balance w + a\<rparr> else w) ws"

lemma bump_ids [simp]: "map w_id (bump wid a ws) = map w_id ws"
  by (simp add: bump_def)

lemma bump_users [simp]: "map w_userId (bump wid a ws) = map w_userId ws"
  by (simp add: bump_def)

lemma bump_zero [simp]: "bump wid 0 ws = ws"
  by (induction ws) (simp_all add: bump_def)

lemma bump_wallet_iff: "(\<exists>w \<in> set (bump wid a ws). w_id w = x) \<longleftrightarrow> (\<exists>w \<in> set ws. w_id w = x)"
  unfolding bump_def bex_map_update by auto

text \<open>
  The step every movement of credits makes: one wallet moves by the amount of a new ledger line
  that carries the balance reached.
\<close>

lemma money_ok_move:
  assumes "money_ok ws ts" "w \<in> set ws" "0 \<le> w_balance w + t_amount t"
    and "t_walletId t = w_id w" "t_balanceAfter t = w_balance w + t_amount t"
  shows "money_ok (bump (w_id w) (t_amount t) ws) (ts @ [t])"
proof -
  have bal: "w_balance x = ledger_sum (w_id x) ts" "0 \<le> w_balance x" if "x \<in> set ws" for x
    using assms(1) that by (auto simp: money_ok_def)
  have same: "x = w" if "x \<in> set ws" "w_id x = w_id w" for x
    using assms(1,2) that distinct_key_unique [of w_id ws x w] by (auto simp: money_ok_def)
  have "0 \<le> w_balance y \<and> w_balance y = ledger_sum (w_id y) (ts @ [t])"
    if mem: "y \<in> set (bump (w_id w) (t_amount t) ws)" for y
  proof -
    obtain x where x: "x \<in> set ws"
      and "y = (if w_id x = w_id w then x\<lparr>w_balance := w_balance x + t_amount t\<rparr> else x)"
      using map_update_memD [OF mem [unfolded bump_def]] by blast
    with same have y: "y = (if x = w then w\<lparr>w_balance := w_balance w + t_amount t\<rparr> else x)"
      by auto
    show ?thesis
    proof (cases "x = w")
      case True
      then show ?thesis using y assms(3,4) bal [OF x] by simp
    next
      case False
      then have "w_id x \<noteq> w_id w" using same x by blast
      with False show ?thesis using y assms(4) bal [OF x] by simp
    qed
  qed
  then have bal': "\<forall>y \<in> set (bump (w_id w) (t_amount t) ws).
      0 \<le> w_balance y \<and> w_balance y = ledger_sum (w_id y) (ts @ [t])"
    by blast
  have own: "\<forall>x \<in> set (ts @ [t]). \<exists>y \<in> set (bump (w_id w) (t_amount t) ws). w_id y = t_walletId x"
    using assms(1,2,4) by (auto simp: bump_wallet_iff money_ok_def)
  have run: "running_balances (ts @ [t])"
    using assms(1,4,5) bal [OF assms(2)] by (simp add: money_ok_def)
  show ?thesis
    using assms(1) bal' own run unfolding money_ok_def bump_ids bump_users by blast
qed

lemma money_ok_new_wallet:
  assumes "money_ok ws ts" "w_balance w = 0"
    and "\<And>x. x \<in> set ws \<Longrightarrow> w_id x \<noteq> w_id w \<and> w_userId x \<noteq> w_userId w"
  shows "money_ok (ws @ [w]) ts"
proof -
  have "ledger_sum (w_id w) ts = 0"
    using assms(1,3) by (intro ledger_sum_absent) (force simp: money_ok_def)
  moreover have "w_id w \<notin> w_id ` set ws" "w_userId w \<notin> w_userId ` set ws"
    using assms(3) by (metis imageE)+
  ultimately show ?thesis using assms(1,2) by (auto simp: money_ok_def)
qed

lemma reservation_ok_bump [simp]:
  "reservation_ok (bump wid a ws) ts r = reservation_ok ws ts r"
  by (simp add: reservation_ok_def bump_wallet_iff)

lemma reservations_ok_bump [simp]:
  "reservations_ok (bump wid a ws) ts rs = reservations_ok ws ts rs"
  by (simp add: reservations_ok_def)

lemma reservation_ok_more_wallets:
  "reservation_ok ws ts r \<Longrightarrow> reservation_ok (ws @ [w]) ts r"
  by (auto simp: reservation_ok_def)

text \<open>A ledger line that names no reading leaves the reservations as they are.\<close>

lemma reservations_ok_line:
  assumes "reservations_ok ws ts rs" "line_ok rs t" "t_readingId t = None"
  shows "reservations_ok ws (ts @ [t]) rs"
  using assms by (auto simp: reservations_ok_def reservation_ok_def)

lemma line_ok_more: "line_ok rs t \<Longrightarrow> line_ok (rs @ [r]) t"
  by (auto simp: line_ok_def split: walletTransactionType.splits)

text \<open>A line names a reading only if that reading has a reservation.\<close>

lemma line_reading_reserved:
  "line_ok rs t \<Longrightarrow> t_readingId t = Some rid \<Longrightarrow> \<exists>r \<in> set rs. cr_readingId r = rid"
  by (auto simp: line_ok_def split: walletTransactionType.splits)

lemma reservations_ok_reserve:
  assumes "reservations_ok ws ts rs" "\<exists>w \<in> set ws. w_id w = cr_walletId r"
    and "\<And>x. x \<in> set rs \<Longrightarrow> cr_readingId x \<noteq> cr_readingId r"
    and "0 \<le> cr_amount r" "cr_status r = RES_ACTIVE"
    and "t_type t = RESERVATION" "t_amount t = - cr_amount r" "t_orderId t = None"
    and "t_readingId t = Some (cr_readingId r)" "t_idempotencyKey t = ''reservation:'' @ cr_readingId r"
  shows "reservations_ok ws (ts @ [t]) (rs @ [r])"
proof -
  have "charged (cr_readingId r) ts = 0"
    using assms(1,3) by (intro charged_absent) (metis line_reading_reserved reservations_ok_def)
  then have "reservation_ok ws (ts @ [t]) r"
    using assms by (simp add: reservation_ok_def)
  moreover have "line_ok (rs @ [r]) t"
    using assms by (simp add: line_ok_def)
  moreover have "reservation_ok ws (ts @ [t]) x" if "x \<in> set rs" for x
    using assms(1,9) assms(3) [OF that] that by (auto simp: reservations_ok_def reservation_ok_def)
  moreover have "cr_readingId r \<notin> cr_readingId ` set rs"
    using assms(3) by (metis imageE)
  ultimately show ?thesis
    using assms(1) by (auto simp: reservations_ok_def intro: line_ok_more)
qed

text \<open>Closing a reservation: its status changes and a line that settles the reading is added.\<close>

definition close_reservation ::
  "string \<Rightarrow> reservationStatus \<Rightarrow> creditReservation list \<Rightarrow> creditReservation list" where
  "close_reservation rid s rs =
     map (\<lambda>r. if cr_readingId r = rid \<and> cr_status r = RES_ACTIVE then r\<lparr>cr_status := s\<rparr> else r) rs"

lemma line_ok_close:
  assumes "line_ok rs t" "s \<noteq> RES_ACTIVE"
  shows "line_ok (close_reservation rid s rs) t"
proof -
  have keep: "(\<exists>r \<in> set (close_reservation rid s rs). Q (cr_readingId r) (cr_status r))"
    if "\<exists>r \<in> set rs. Q (cr_readingId r) (cr_status r)" "\<And>x y. Q x RES_ACTIVE \<Longrightarrow> Q x y" for Q
    using that unfolding close_reservation_def bex_map_update by force
  show ?thesis
    using assms keep [of "\<lambda>x _. t_readingId t = Some x \<and> t_idempotencyKey t = ''reservation:'' @ x"]
      keep [of "\<lambda>x s. t_readingId t = Some x \<and> s = RES_CONSUMED \<and>
                  t_idempotencyKey t = ''consumption:'' @ x"]
      keep [of "\<lambda>x s. t_readingId t = Some x \<and> s = RES_RELEASED \<and>
                  t_idempotencyKey t = ''release:'' @ x"]
    by (auto simp: line_ok_def split: walletTransactionType.splits)
qed

lemma reservations_ok_close:
  assumes ok: "reservations_ok ws ts rs" and r: "r \<in> set rs" "cr_status r = RES_ACTIVE"
    and s: "s = RES_CONSUMED \<and> t_type t = CONSUMPTION \<and> t_amount t = 0 \<and>
              t_idempotencyKey t = ''consumption:'' @ cr_readingId r \<or>
            s = RES_RELEASED \<and> t_type t = RELEASE \<and> t_amount t = cr_amount r \<and>
              t_idempotencyKey t = ''release:'' @ cr_readingId r"
    and t: "t_readingId t = Some (cr_readingId r)" "t_orderId t = None"
  shows "reservations_ok ws (ts @ [t]) (close_reservation (cr_readingId r) s rs)"
proof -
  let ?rs = "close_reservation (cr_readingId r) s rs"
  have same: "x = r" if "x \<in> set rs" "cr_readingId x = cr_readingId r" for x
    using ok r(1) that distinct_key_unique [of cr_readingId rs x r] by (auto simp: reservations_ok_def)
  have dist: "distinct (map cr_readingId ?rs)"
    using ok by (simp add: reservations_ok_def close_reservation_def map_update_same del: map_map)
  have res: "reservation_ok ws (ts @ [t]) y" if y: "y \<in> set ?rs" for y
  proof -
    obtain x where x: "x \<in> set rs" and
      "y = (if cr_readingId x = cr_readingId r \<and> cr_status x = RES_ACTIVE
            then x\<lparr>cr_status := s\<rparr> else x)"
      using map_update_memD [OF y [unfolded close_reservation_def]] by blast
    with same r have yx: "y = (if x = r then r\<lparr>cr_status := s\<rparr> else x)"
      by auto
    have "reservation_ok ws ts x" using ok x by (simp add: reservations_ok_def)
    then show ?thesis
      using yx s t r same [OF x] by (cases "x = r") (auto simp: reservation_ok_def)
  qed
  have new: "r\<lparr>cr_status := s\<rparr> \<in> set ?rs"
    using imageI [OF r(1), of "\<lambda>x. if cr_readingId x = cr_readingId r \<and> cr_status x = RES_ACTIVE
        then x\<lparr>cr_status := s\<rparr> else x"] r(2)
    by (simp add: close_reservation_def del: image_eqI)
  have "\<exists>x \<in> set ?rs. cr_readingId x = cr_readingId r \<and> cr_status x = s"
    by (rule bexI [OF _ new]) simp
  with s have "line_ok ?rs t"
    by (elim disjE) (simp_all add: line_ok_def t, metis+)
  moreover have "line_ok ?rs x" if "x \<in> set ts" for x
    using ok that s by (intro line_ok_close) (auto simp: reservations_ok_def)
  ultimately show ?thesis
    using dist res by (auto simp: reservations_ok_def)
qed

section \<open>What each operation does\<close>

text \<open>The new ledger line and the new reservation an operation writes.\<close>

definition new_line ::
  "string \<Rightarrow> string \<Rightarrow> walletTransactionType \<Rightarrow> int \<Rightarrow> int \<Rightarrow> string \<Rightarrow> string option \<Rightarrow>
   string option \<Rightarrow> int \<Rightarrow> walletTransaction" where
  "new_line i wid ty a b key rid oid now = \<lparr>t_id = i, t_walletId = wid, t_type = ty, t_amount = a,
     t_balanceAfter = b, t_idempotencyKey = key, t_readingId = rid, t_orderId = oid, t_createdAt = now\<rparr>"

lemma new_line_sel [simp]:
  "t_walletId (new_line i wid ty a b key rid oid now) = wid"
  "t_type (new_line i wid ty a b key rid oid now) = ty"
  "t_amount (new_line i wid ty a b key rid oid now) = a"
  "t_balanceAfter (new_line i wid ty a b key rid oid now) = b"
  "t_idempotencyKey (new_line i wid ty a b key rid oid now) = key"
  "t_readingId (new_line i wid ty a b key rid oid now) = rid"
  "t_orderId (new_line i wid ty a b key rid oid now) = oid"
  "t_createdAt (new_line i wid ty a b key rid oid now) = now"
  by (simp_all add: new_line_def)

lemma ledger_create_Inr_iff:
  "ledger_create E wid ty a b key rid oid w = (Inr x, w') \<longleftrightarrow>
     int4 a \<and> int4 b \<and>
     (\<forall>t \<in> set (walletTransactions (db w)). t_id t \<noteq> e_uuid E (uuids w) \<and> t_idempotencyKey t \<noteq> key) \<and>
     x = new_line (e_uuid E (uuids w)) wid ty a b key rid oid (e_clock E (ticks w)) \<and>
     w' = w\<lparr>uuids := Suc (uuids w), ticks := Suc (ticks w), db := (db w)\<lparr>walletTransactions :=
       walletTransactions (db w) @ [new_line (e_uuid E (uuids w)) wid ty a b key rid oid (e_clock E (ticks w))]\<rparr>\<rparr>"
  by (fastforce simp: ledger_create_def prog_inv db_inv WalletTransaction_def new_line_def list_ex_iff)

lemma bump_eq:
  assumes "distinct (map w_id ws)" "w \<in> set ws" "P w"
  shows "map (\<lambda>x. if w_id x = w_id w \<and> P x then x\<lparr>w_balance := w_balance x + a\<rparr> else x) ws =
         bump (w_id w) a ws"
  using assms unfolding bump_def by (intro map_cong refl) (auto dest: distinct_key_unique)

lemma find_bumped:
  assumes "distinct (map w_id ws)" "w \<in> set ws"
  shows "find (\<lambda>x. w_id x = w_id w) (bump (w_id w) a ws) = Some (w\<lparr>w_balance := w_balance w + a\<rparr>)"
proof (rule find_SomeI_unique)
  show "w\<lparr>w_balance := w_balance w + a\<rparr> \<in> set (bump (w_id w) a ws)"
    using imageI [OF assms(2), of "\<lambda>x. if w_id x = w_id w then x\<lparr>w_balance := w_balance x + a\<rparr> else x"]
    by (simp add: bump_def del: image_eqI)
next
  fix y assume y: "y \<in> set (bump (w_id w) a ws)" "w_id y = w_id w"
  obtain x where "x \<in> set ws"
    and x: "y = (if w_id x = w_id w then x\<lparr>w_balance := w_balance x + a\<rparr> else x)"
    using map_update_memD [OF y(1) [unfolded bump_def]] by blast
  with y(2) assms have "x = w" by (auto intro: distinct_key_unique split: if_splits)
  with x show "y = w\<lparr>w_balance := w_balance w + a\<rparr>" by simp
qed simp

lemma reserve_Inr:
  assumes run: "reserveCreditsForReading E u rid a w = (Inr x, w')"
    and ids: "distinct (map w_id (wallets (db w)))"
  obtains wal ri li now where "find (\<lambda>w. w_userId w = u) (wallets (db w)) = Some wal"
    "a \<le> w_balance wal" "\<forall>r \<in> set (creditReservations (db w)). cr_readingId r \<noteq> rid"
    "db w' = (db w)\<lparr>wallets := bump (w_id wal) (- a) (wallets (db w)),
       creditReservations := creditReservations (db w) @
         [\<lparr>cr_id = ri, cr_walletId = w_id wal, cr_readingId = rid, cr_amount = a, cr_status = RES_ACTIVE\<rparr>],
       walletTransactions := walletTransactions (db w) @
         [new_line li (w_id wal) RESERVATION (- a) (w_balance wal - a) (''reservation:'' @ rid) (Some rid) None now]\<rparr>"
proof -
  from run obtain wal where wal: "find (\<lambda>w. w_userId w = u) (wallets (db w)) = Some wal"
    by (auto simp: reserveCreditsForReading_def prog_inv db_inv Wallet_def)
  then have mem: "wal \<in> set (wallets (db w))" by (simp add: find_SomeD)
  have enough: "a \<le> w_balance wal"
  proof (rule ccontr)
    assume no: "\<not> a \<le> w_balance wal"
    have "filter (\<lambda>x. w_id x = w_id wal \<and> a \<le> w_balance x) (wallets (db w)) = []"
      using no ids mem by (auto simp: filter_empty_conv dest: distinct_key_unique)
    with run wal show False
      by (simp add: reserveCreditsForReading_def prog_inv db_inv Wallet_def)
  qed
  have mv: "map (\<lambda>x. if w_id x = w_id wal \<and> a \<le> w_balance x then x\<lparr>w_balance := w_balance x - a\<rparr> else x)
      (wallets (db w)) = bump (w_id wal) (- a) (wallets (db w))"
    using bump_eq [OF ids mem, of "\<lambda>x. a \<le> w_balance x" "- a"] enough
    unfolding diff_conv_add_uminus by simp
  note found = find_bumped [OF ids mem, of "- a"]
  show thesis
    using run
    by (auto simp: reserveCreditsForReading_def prog_inv db_inv Wallet_def CreditReservation_def
        ledger_create_Inr_iff list_ex_iff create_Inl_iff wal mv found split: if_splits
        intro!: that [OF wal enough])
qed


text \<open>The open reservation of a reading, if it has one.\<close>

definition active_reservation :: "string \<Rightarrow> database \<Rightarrow> creditReservation option" where
  "active_reservation rid d =
     find (\<lambda>r. cr_readingId r = rid \<and> cr_status r = RES_ACTIVE) (creditReservations d)"

lemma active_None_close:
  "active_reservation rid d = None \<Longrightarrow>
   close_reservation rid s (creditReservations d) = creditReservations d"
  by (auto simp: active_reservation_def close_reservation_def find_None_iff intro!: map_idI)

lemma active_None_filter:
  "filter (\<lambda>r. cr_readingId r = rid \<and> cr_status r = RES_ACTIVE) (creditReservations d) = [] \<longleftrightarrow>
   active_reservation rid d = None"
  by (auto simp: active_reservation_def find_None_iff filter_empty_conv)

lemma active_SomeD:
  "active_reservation rid d = Some r \<Longrightarrow>
   r \<in> set (creditReservations d) \<and> cr_readingId r = rid \<and> cr_status r = RES_ACTIVE"
  unfolding active_reservation_def by (drule find_SomeD) simp

lemma find_closed:
  assumes dist: "distinct (map cr_readingId (creditReservations d))"
    and r: "active_reservation rid d = Some r"
  shows "find (\<lambda>x. cr_readingId x = rid) (close_reservation rid s (creditReservations d)) =
     Some (r\<lparr>cr_status := s\<rparr>)"
proof (rule find_SomeI_unique)
  show "r\<lparr>cr_status := s\<rparr> \<in> set (close_reservation rid s (creditReservations d))"
    using active_SomeD [OF r] by (force simp: close_reservation_def image_iff)
next
  fix y assume y: "y \<in> set (close_reservation rid s (creditReservations d))" "cr_readingId y = rid"
  obtain x where "x \<in> set (creditReservations d)" and
    x: "y = (if cr_readingId x = rid \<and> cr_status x = RES_ACTIVE then x\<lparr>cr_status := s\<rparr> else x)"
    using map_update_memD [OF y(1) [unfolded close_reservation_def]] by blast
  with y(2) active_SomeD [OF r] have "x = r"
    using distinct_key_unique [OF dist, of x r] by (auto split: if_splits)
  with x active_SomeD [OF r] show "y = r\<lparr>cr_status := s\<rparr>" by simp
qed (use active_SomeD [OF r] in simp)

lemma confirm_Inr:
  assumes run: "confirmConsumption E rid w = (Inr x, w')"
    and ids: "distinct (map cr_readingId (creditReservations (db w)))"
  shows "active_reservation rid (db w) = None \<and> w' = w \<or>
    (\<exists>r wal li now. active_reservation rid (db w) = Some r \<and>
       find (\<lambda>x. w_id x = cr_walletId r) (wallets (db w)) = Some wal \<and>
       db w' = (db w)\<lparr>creditReservations := close_reservation rid RES_CONSUMED (creditReservations (db w)),
         walletTransactions := walletTransactions (db w) @
           [new_line li (cr_walletId r) CONSUMPTION 0 (w_balance wal) (''consumption:'' @ rid) (Some rid) None now]\<rparr>)"
proof (cases "active_reservation rid (db w)")
  case None
  then have "\<forall>x \<in> set (creditReservations (db w)). \<not> (cr_readingId x = rid \<and> cr_status x = RES_ACTIVE)"
    by (auto simp: active_reservation_def find_None_iff)
  then have upd: "creditReservations_update
      (\<lambda>_. map (\<lambda>r. if cr_readingId r = rid \<and> cr_status r = RES_ACTIVE then r\<lparr>cr_status := RES_CONSUMED\<rparr> else r) (creditReservations (db w))) (db w) = db w"
    by (intro database.equality) (auto intro!: map_idI)
  show ?thesis using run None
    by (auto simp: confirmConsumption_def prog_inv db_inv CreditReservation_def upd active_None_filter
        split: if_splits)
next
  case (Some r)
  have closed: "find (\<lambda>x. cr_readingId x = rid) (map (\<lambda>r. if cr_readingId r = rid \<and> cr_status r = RES_ACTIVE
      then r\<lparr>cr_status := RES_CONSUMED\<rparr> else r) (creditReservations (db w))) = Some (r\<lparr>cr_status := RES_CONSUMED\<rparr>)"
    using find_closed [OF ids Some] by (simp add: close_reservation_def)
  show ?thesis using run
    apply (auto simp: confirmConsumption_def prog_inv db_inv CreditReservation_def Wallet_def closed Some
        active_None_filter ledger_create_Inr_iff split: if_splits)
    apply (auto simp: close_reservation_def)
    done
qed


lemma bump_unfold:
  "map (\<lambda>x. if w_id x = wid then x\<lparr>w_balance := w_balance x + a\<rparr> else x) ws = bump wid a ws"
  by (simp add: bump_def)

lemma release_Inr:
  assumes run: "releaseReservation E rid w = (Inr x, w')"
    and ids: "distinct (map cr_readingId (creditReservations (db w)))"
  shows "active_reservation rid (db w) = None \<and> w' = w \<or>
    (\<exists>r wal li now. active_reservation rid (db w) = Some r \<and>
       find (\<lambda>x. w_id x = cr_walletId r) (wallets (db w)) = Some wal \<and>
       db w' = (db w)\<lparr>creditReservations := close_reservation rid RES_RELEASED (creditReservations (db w)),
         wallets := bump (cr_walletId r) (cr_amount r) (wallets (db w)),
         walletTransactions := walletTransactions (db w) @
           [new_line li (cr_walletId r) RELEASE (cr_amount r) (w_balance wal + cr_amount r)
              (''release:'' @ rid) (Some rid) None now]\<rparr>)"
proof (cases "active_reservation rid (db w)")
  case None
  then have "\<forall>x \<in> set (creditReservations (db w)). \<not> (cr_readingId x = rid \<and> cr_status x = RES_ACTIVE)"
    by (auto simp: active_reservation_def find_None_iff)
  then have upd: "creditReservations_update
      (\<lambda>_. map (\<lambda>r. if cr_readingId r = rid \<and> cr_status r = RES_ACTIVE then r\<lparr>cr_status := RES_RELEASED\<rparr> else r) (creditReservations (db w))) (db w) = db w"
    by (intro database.equality) (auto intro!: map_idI)
  show ?thesis using run None
    by (auto simp: releaseReservation_def prog_inv db_inv CreditReservation_def upd active_None_filter
        split: if_splits)
next
  case (Some r)
  have closed: "find (\<lambda>x. cr_readingId x = rid) (map (\<lambda>r. if cr_readingId r = rid \<and> cr_status r = RES_ACTIVE
      then r\<lparr>cr_status := RES_RELEASED\<rparr> else r) (creditReservations (db w))) = Some (r\<lparr>cr_status := RES_RELEASED\<rparr>)"
    using find_closed [OF ids Some] by (simp add: close_reservation_def)
  obtain wal where wal: "find (\<lambda>x. w_id x = cr_walletId r) (wallets (db w)) = Some wal"
    using run by (auto simp: releaseReservation_def prog_inv db_inv CreditReservation_def Wallet_def closed Some
        active_None_filter)
  have "db w' = (db w)\<lparr>creditReservations := close_reservation rid RES_RELEASED (creditReservations (db w)),
         wallets := bump (cr_walletId r) (cr_amount r) (wallets (db w)),
         walletTransactions := walletTransactions (db w) @
           [new_line (e_uuid E (uuids w)) (cr_walletId r) RELEASE (cr_amount r) (w_balance wal + cr_amount r)
              (''release:'' @ rid) (Some rid) None (e_clock E (ticks w))]\<rparr>"
    using run by (clarsimp simp: releaseReservation_def prog_inv db_inv CreditReservation_def Wallet_def closed Some
        active_None_filter wal ledger_create_Inr_iff close_reservation_def bump_def cong: if_cong)
  with Some wal show ?thesis by blast
qed

lemma credit_Inr:
  assumes run: "creditPurchase E u oid c w = (Inr x, w')"
    and ids: "distinct (map w_id (wallets (db w)))"
  obtains wal li now where "find (\<lambda>w. w_userId w = u) (wallets (db w)) = Some wal"
    "int4 (w_balance wal + c)" "\<forall>t \<in> set (walletTransactions (db w)). t_idempotencyKey t \<noteq> ''purchase:'' @ oid"
    "db w' = (db w)\<lparr>wallets := bump (w_id wal) c (wallets (db w)),
       walletTransactions := walletTransactions (db w) @
         [new_line li (w_id wal) PURCHASE c (w_balance wal + c) (''purchase:'' @ oid) None (Some oid) now]\<rparr>"
proof -
  from run obtain wal where wal: "find (\<lambda>w. w_userId w = u) (wallets (db w)) = Some wal"
    by (auto simp: creditPurchase_def prog_inv db_inv Wallet_def)
  then have "find (\<lambda>x. w_id x = w_id wal) (wallets (db w)) = Some wal"
    using ids by (simp add: find_key_eq find_SomeD)
  then show thesis
    using run wal
    by (auto simp: creditPurchase_def prog_inv db_inv Wallet_def ledger_create_Inr_iff bump_def
        intro!: that [OF wal])
qed

lemma create_wallet_Inr:
  assumes run: "createWalletWithBonus E u w = (Inr x, w')"
  obtains wid li now where
    "\<forall>x \<in> set (wallets (db w)). w_id x \<noteq> wid \<and> w_userId x \<noteq> u"
    "db w' = (db w)\<lparr>wallets := wallets (db w) @ [\<lparr>w_id = wid, w_userId = u, w_balance = e_bonusCredits E\<rparr>],
       walletTransactions := walletTransactions (db w) @
         (if 0 < e_bonusCredits E
          then [new_line li wid BONUS (e_bonusCredits E) (e_bonusCredits E) (''bonus:'' @ u) None None now]
          else [])\<rparr>"
proof (cases "0 < e_bonusCredits E")
  case True
  show thesis using run
    apply (simp add: createWalletWithBonus_def prog_inv db_inv Wallet_def list_ex_iff ledger_create_Inr_iff True)
    apply clarify
    apply (rule that [of "e_uuid E (uuids w)"])
     apply fastforce
    apply (simp add: True)
    done
next
  case False
  show thesis using run
    apply (simp add: createWalletWithBonus_def prog_inv db_inv Wallet_def list_ex_iff False)
    apply clarify
    apply (rule that [of "e_uuid E (uuids w)"])
     apply fastforce
    apply (simp add: False)
    done
qed

lemma audit_record_Inr:
  "audit_record E actor act reason tt ti md w = (Inr x, w') \<Longrightarrow>
   \<exists>l. db w' = (db w)\<lparr>auditLogs := auditLogs (db w) @ [l]\<rparr> \<and> al_actorUserId l = Some actor \<and>
     al_action l = act \<and> al_reason l = reason \<and> al_targetId l = ti \<and> al_metadata l = md"
  by (auto simp: audit_record_def prog_inv db_inv AuditLog_def)

lemma adjust_Inr:
  assumes run: "adjustBalance E u a reason actor w = (Inr x, w')"
    and ids: "distinct (map w_id (wallets (db w)))"
  obtains wal li key now l where "a \<noteq> 0" "find (\<lambda>w. w_userId w = u) (wallets (db w)) = Some wal"
    "a < 0 \<longrightarrow> 0 \<le> w_balance wal + a" "ws_balance x = w_balance wal + a"
    "db w' = (db w)\<lparr>wallets := bump (w_id wal) a (wallets (db w)),
       walletTransactions := walletTransactions (db w) @
         [new_line li (w_id wal) ADJUSTMENT a (w_balance wal + a) (''adjustment:'' @ key) None None now],
       auditLogs := auditLogs (db w) @ [l]\<rparr>"
    "al_actorUserId l = Some actor" "al_action l = ''wallet.adjustment''" "al_reason l = reason"
    "al_targetId l = Some u"
proof -
  have nz: "a \<noteq> 0" using run by (auto simp: adjustBalance_def)
  from run nz obtain wal where wal: "find (\<lambda>w. w_userId w = u) (wallets (db w)) = Some wal"
    by (auto simp: adjustBalance_def prog_inv db_inv Wallet_def split: option.splits)
  then have mem: "wal \<in> set (wallets (db w))" by (simp add: find_SomeD)
  have byid: "find (\<lambda>x. w_id x = w_id wal) (wallets (db w)) = Some wal"
    using ids mem by (simp add: find_key_eq)
  show thesis
  proof (cases "a < 0")
    case True
    have enough: "- a \<le> w_balance wal"
    proof (rule ccontr)
      assume no: "\<not> - a \<le> w_balance wal"
      have "filter (\<lambda>x. w_id x = w_id wal \<and> - a \<le> w_balance x) (wallets (db w)) = []"
        using no ids mem by (auto simp: filter_empty_conv dest: distinct_key_unique)
      with run wal nz True show False
        by (simp add: adjustBalance_def prog_inv db_inv Wallet_def)
    qed
    have mv: "map (\<lambda>x. if w_id x = w_id wal \<and> - a \<le> w_balance x then x\<lparr>w_balance := w_balance x + a\<rparr> else x)
        (wallets (db w)) = bump (w_id wal) a (wallets (db w))"
      using bump_eq [OF ids mem, of "\<lambda>x. - a \<le> w_balance x" a] enough by simp
    note found = find_bumped [OF ids mem, of a]
    show thesis
      using run nz True enough
      apply (simp add: adjustBalance_def prog_inv db_inv Wallet_def ledger_create_Inr_iff toWalletSummary_def
          wal mv found)
      apply (elim exE conjE)
      apply (drule audit_record_Inr)
      apply clarify
      apply (rule that [OF nz wal]; auto)
      done
  next
    case False
    then show thesis
      using run nz
      apply (simp add: adjustBalance_def prog_inv db_inv Wallet_def ledger_create_Inr_iff toWalletSummary_def
          wal byid)
      apply (elim exE conjE)
      apply (drule audit_record_Inr)
      apply (elim exE conjE)
      apply (rule that [OF nz wal]; auto simp: bump_def)
      done
  qed
qed


section \<open>The invariant is kept\<close>

lemma wallet_invD:
  assumes "wallet_inv d"
  shows "distinct (map w_id (wallets d))" "distinct (map cr_readingId (creditReservations d))"
    "money_ok (wallets d) (walletTransactions d)"
    "reservations_ok (wallets d) (walletTransactions d) (creditReservations d)"
  using assms by (auto simp: wallet_inv_def money_ok_def reservations_ok_def)

lemma wallet_inv_balance:
  "wallet_inv d \<Longrightarrow> w \<in> set (wallets d) \<Longrightarrow> 0 \<le> w_balance w"
  by (auto simp: wallet_inv_def money_ok_def)

lemma wallet_inv_plain_move:
  assumes inv: "wallet_inv d" and w: "w \<in> set (wallets d)" and "0 \<le> w_balance w + t_amount t"
    and "t_walletId t = w_id w" "t_balanceAfter t = w_balance w + t_amount t"
    and "line_ok (creditReservations d) t" "t_readingId t = None"
  shows "wallet_inv (d\<lparr>wallets := bump (w_id w) (t_amount t) (wallets d),
           walletTransactions := walletTransactions d @ [t]\<rparr>)"
  using assms wallet_invD [OF inv]
  by (simp add: wallet_inv_def money_ok_move reservations_ok_line)

lemma reserve_keeps_ok:
  assumes "0 \<le> a"
  shows "keeps_ok wallet_inv (reserveCreditsForReading E u rid a)"
proof (rule keeps_okI)
  fix w x w'
  assume inv: "wallet_inv (db w)" and run: "reserveCreditsForReading E u rid a w = (Inr x, w')"
  note I = wallet_invD [OF inv]
  obtain wal ri li now where wal: "find (\<lambda>w. w_userId w = u) (wallets (db w)) = Some wal"
    and enough: "a \<le> w_balance wal" and fresh: "\<forall>r \<in> set (creditReservations (db w)). cr_readingId r \<noteq> rid"
    and w': "db w' = (db w)\<lparr>wallets := bump (w_id wal) (- a) (wallets (db w)),
       creditReservations := creditReservations (db w) @
         [\<lparr>cr_id = ri, cr_walletId = w_id wal, cr_readingId = rid, cr_amount = a, cr_status = RES_ACTIVE\<rparr>],
       walletTransactions := walletTransactions (db w) @
         [new_line li (w_id wal) RESERVATION (- a) (w_balance wal - a) (''reservation:'' @ rid) (Some rid) None now]\<rparr>"
    by (rule reserve_Inr [OF run I(1)])
  have mem: "wal \<in> set (wallets (db w))" using wal by (simp add: find_SomeD)
  define t where "t = new_line li (w_id wal) RESERVATION (- a) (w_balance wal - a)
    (''reservation:'' @ rid) (Some rid) None now"
  define r where "r = \<lparr>cr_id = ri, cr_walletId = w_id wal, cr_readingId = rid, cr_amount = a, cr_status = RES_ACTIVE\<rparr>"
  have "money_ok (bump (w_id wal) (t_amount t) (wallets (db w))) (walletTransactions (db w) @ [t])"
    by (rule money_ok_move [OF I(3) mem]) (use enough in \<open>simp_all add: t_def\<close>)
  moreover have "reservations_ok (wallets (db w)) (walletTransactions (db w) @ [t]) (creditReservations (db w) @ [r])"
    by (rule reservations_ok_reserve [OF I(4)]) (use fresh mem assms in \<open>auto simp: t_def r_def\<close>)
  ultimately show "wallet_inv (db w')"
    by (simp add: w' wallet_inv_def t_def [symmetric] r_def [symmetric]) (simp add: t_def)
qed

lemma keeps_by_transaction:
  assumes "\<And>w x w'. I (db w) \<Longrightarrow> transaction m w = (Inr x, w') \<Longrightarrow> I (db w')"
  shows "keeps I (transaction m)"
proof (rule keepsI)
  fix w r w' assume "I (db w)" "transaction m w = (r, w')"
  then show "I (db w')"
    using assms by (cases r) (auto dest: transaction_error_db)
qed

lemma wallet_inv_close:
  assumes inv: "wallet_inv d" and r: "active_reservation rid d = Some r"
    and wal: "find (\<lambda>x. w_id x = cr_walletId r) (wallets d) = Some wal"
    and s: "s = RES_CONSUMED \<and> ty = CONSUMPTION \<and> a = 0 \<and> key = ''consumption:'' @ rid \<or>
            s = RES_RELEASED \<and> ty = RELEASE \<and> a = cr_amount r \<and> key = ''release:'' @ rid"
  shows "wallet_inv (d\<lparr>creditReservations := close_reservation rid s (creditReservations d),
      wallets := bump (cr_walletId r) a (wallets d),
      walletTransactions := walletTransactions d @
        [new_line li (cr_walletId r) ty a (w_balance wal + a) key (Some rid) None now]\<rparr>)"
proof -
  note I = wallet_invD [OF inv]
  have mem: "wal \<in> set (wallets d)" "w_id wal = cr_walletId r" using find_SomeD [OF wal] by auto
  have rs: "r \<in> set (creditReservations d)" "cr_readingId r = rid" "cr_status r = RES_ACTIVE"
    using active_SomeD [OF r] by auto
  define t where "t = new_line li (cr_walletId r) ty a (w_balance wal + a) key (Some rid) None now"
  have "0 \<le> a" using s I(4) rs by (auto simp: reservations_ok_def reservation_ok_def)
  then have "money_ok (bump (w_id wal) (t_amount t) (wallets d)) (walletTransactions d @ [t])"
    using wallet_inv_balance [OF inv mem(1)] mem(2)
    by (intro money_ok_move [OF I(3) mem(1)]) (simp_all add: t_def)
  moreover have "reservations_ok (wallets d) (walletTransactions d @ [t])
      (close_reservation (cr_readingId r) s (creditReservations d))"
    by (rule reservations_ok_close [OF I(4) rs(1,3)]) (use s rs in \<open>auto simp: t_def\<close>)
  ultimately show ?thesis
    using mem(2) rs(2) by (simp add: wallet_inv_def t_def [symmetric]) (simp add: t_def)
qed

lemma confirm_keeps [keeps_intro]: "keeps wallet_inv (confirmConsumption E rid)"
proof (rule keepsI)
  fix w r w' assume inv: "wallet_inv (db w)" and run: "confirmConsumption E rid w = (r, w')"
  show "wallet_inv (db w')"
  proof (cases r)
    case (Inl e)
    with run have "db w' = db w" by (auto simp: confirmConsumption_def dest: transaction_error_db)
    with inv show ?thesis by simp
  next
    case (Inr x)
    with confirm_Inr [OF run [unfolded Inr] wallet_invD(2) [OF inv]] inv show ?thesis
      using wallet_inv_close [OF inv, of rid _ _ RES_CONSUMED CONSUMPTION 0 "''consumption:'' @ rid"]
      by auto
  qed
qed

lemma release_keeps [keeps_intro]: "keeps wallet_inv (releaseReservation E rid)"
proof (rule keepsI)
  fix w r w' assume inv: "wallet_inv (db w)" and run: "releaseReservation E rid w = (r, w')"
  show "wallet_inv (db w')"
  proof (cases r)
    case (Inl e)
    with run have "db w' = db w" by (auto simp: releaseReservation_def dest: transaction_error_db)
    with inv show ?thesis by simp
  next
    case (Inr x)
    with release_Inr [OF run [unfolded Inr] wallet_invD(2) [OF inv]] inv show ?thesis
      using wallet_inv_close [OF inv, of rid _ _ RES_RELEASED RELEASE _ "''release:'' @ rid"]
      by auto
  qed
qed

lemma credit_keeps_ok:
  assumes "0 \<le> c"
  shows "keeps_ok wallet_inv (creditPurchase E u oid c)"
proof (rule keeps_okI)
  fix w x w'
  assume inv: "wallet_inv (db w)" and run: "creditPurchase E u oid c w = (Inr x, w')"
  obtain wal li now where wal: "find (\<lambda>w. w_userId w = u) (wallets (db w)) = Some wal"
    and w': "db w' = (db w)\<lparr>wallets := bump (w_id wal) c (wallets (db w)),
       walletTransactions := walletTransactions (db w) @
         [new_line li (w_id wal) PURCHASE c (w_balance wal + c) (''purchase:'' @ oid) None (Some oid) now]\<rparr>"
    by (rule credit_Inr [OF run wallet_invD(1) [OF inv]])
  have mem: "wal \<in> set (wallets (db w))" using wal by (simp add: find_SomeD)
  show "wallet_inv (db w')"
    using wallet_inv_plain_move [OF inv mem, of "new_line li (w_id wal) PURCHASE c (w_balance wal + c)
        (''purchase:'' @ oid) None (Some oid) now"] wallet_inv_balance [OF inv mem] assms
    by (simp add: w' line_ok_def)
qed

lemma create_wallet_keeps [keeps_intro]:
  assumes "0 \<le> e_bonusCredits E"
  shows "keeps wallet_inv (createWalletWithBonus E u)"
  unfolding createWalletWithBonus_def
proof (rule keeps_by_transaction, fold createWalletWithBonus_def)
  fix w x w' assume inv: "wallet_inv (db w)" and run: "createWalletWithBonus E u w = (Inr x, w')"
  let ?b = "e_bonusCredits E"
  obtain wid li now where fresh: "\<forall>x \<in> set (wallets (db w)). w_id x \<noteq> wid \<and> w_userId x \<noteq> u"
    and w': "db w' = (db w)\<lparr>wallets := wallets (db w) @ [\<lparr>w_id = wid, w_userId = u, w_balance = ?b\<rparr>],
       walletTransactions := walletTransactions (db w) @
         (if 0 < ?b then [new_line li wid BONUS ?b ?b (''bonus:'' @ u) None None now] else [])\<rparr>"
    by (rule create_wallet_Inr [OF run])
  define d where "d = (db w)\<lparr>wallets := wallets (db w) @ [\<lparr>w_id = wid, w_userId = u, w_balance = 0\<rparr>]\<rparr>"
  have inv0: "wallet_inv d"
    using inv fresh money_ok_new_wallet [of "wallets (db w)" "walletTransactions (db w)"
        "\<lparr>w_id = wid, w_userId = u, w_balance = 0\<rparr>"]
    by (simp add: d_def wallet_inv_def reservations_ok_def reservation_ok_more_wallets)
  have mem: "\<lparr>w_id = wid, w_userId = u, w_balance = 0\<rparr> \<in> set (wallets d)"
    by (simp add: d_def)
  have bumped: "bump wid ?b (wallets d) = wallets (db w) @ [\<lparr>w_id = wid, w_userId = u, w_balance = ?b\<rparr>]"
    using fresh by (auto simp: d_def bump_def intro!: map_idI)
  show "wallet_inv (db w')"
  proof (cases "0 < ?b")
    case True
    with wallet_inv_plain_move [OF inv0 mem, of "new_line li wid BONUS ?b ?b (''bonus:'' @ u) None None now"]
      bumped show ?thesis by (simp add: w' line_ok_def d_def)
  next
    case False
    with assms have "?b = 0" by simp
    with inv0 show ?thesis by (simp add: w' d_def)
  qed
qed

lemma adjust_keeps [keeps_intro]: "keeps wallet_inv (adjustBalance E u a reason actor)"
proof (rule keepsI)
  fix w r w' assume inv: "wallet_inv (db w)" and run: "adjustBalance E u a reason actor w = (r, w')"
  show "wallet_inv (db w')"
  proof (cases r)
    case (Inl e)
    with run have "db w' = db w"
      by (auto simp: adjustBalance_def split: if_splits dest: transaction_error_db)
    with inv show ?thesis by simp
  next
    case (Inr x)
    from run [unfolded Inr] wallet_invD(1) [OF inv] obtain wal li key now l
      where wal: "find (\<lambda>w. w_userId w = u) (wallets (db w)) = Some wal"
      and low: "a < 0 \<longrightarrow> 0 \<le> w_balance wal + a"
      and w': "db w' = (db w)\<lparr>wallets := bump (w_id wal) a (wallets (db w)),
       walletTransactions := walletTransactions (db w) @
         [new_line li (w_id wal) ADJUSTMENT a (w_balance wal + a) (''adjustment:'' @ key) None None now],
       auditLogs := auditLogs (db w) @ [l]\<rparr>"
      by (rule adjust_Inr)
    have mem: "wal \<in> set (wallets (db w))" using wal by (simp add: find_SomeD)
    have "0 \<le> w_balance wal + a"
      using wallet_inv_balance [OF inv mem] low by linarith
    with wallet_inv_plain_move [OF inv mem, of "new_line li (w_id wal) ADJUSTMENT a (w_balance wal + a)
        (''adjustment:'' @ key) None None now"] show ?thesis
      by (simp add: w' line_ok_def wallet_inv_def)
  qed
qed


section \<open>The contract of the wallet\<close>

text \<open>The balance of a user, and what a reading holds: the user who pays and the amount.\<close>

definition balance_of :: "string \<Rightarrow> database \<Rightarrow> int option" where
  "balance_of u d = map_option w_balance (find (\<lambda>w. w_userId w = u) (wallets d))"

definition held_by :: "string \<Rightarrow> database \<Rightarrow> (string \<times> int) option" where
  "held_by rid d = (case active_reservation rid d of
       None \<Rightarrow> None
     | Some r \<Rightarrow> (case find (\<lambda>w. w_id w = cr_walletId r) (wallets d) of
           None \<Rightarrow> None
         | Some w \<Rightarrow> Some (w_userId w, cr_amount r)))"

text \<open>
  \<open>credit_service\<close> is what the rest of the program uses of the wallet. \<open>balance\<close> and
  \<open>held\<close> are its abstract state; the laws say what an operation that returned did to it.
\<close>

text \<open>A settlement closes what a reading holds: \<open>True\<close> confirms, \<open>False\<close> releases.\<close>

definition settle ::
  "(string \<Rightarrow> (world, unit) prog) \<Rightarrow> (string \<Rightarrow> (world, unit) prog) \<Rightarrow> string \<Rightarrow> bool \<Rightarrow>
   (world, unit) prog" where
  "settle confirm release rid c = (if c then confirm rid else release rid)"

locale credit_service =
  fixes inv :: "database \<Rightarrow> bool"
    and balance :: "string \<Rightarrow> database \<Rightarrow> int option"
    and held :: "string \<Rightarrow> database \<Rightarrow> (string \<times> int) option"
    and reserve :: "string \<Rightarrow> string \<Rightarrow> int \<Rightarrow> (world, unit) prog"
    and confirm :: "string \<Rightarrow> (world, unit) prog"
    and release :: "string \<Rightarrow> (world, unit) prog"
    and credit :: "string \<Rightarrow> string \<Rightarrow> int \<Rightarrow> (world, unit) prog"
  assumes reserve_keeps: "0 \<le> a \<Longrightarrow> keeps_ok inv (reserve u rid a)"
    and confirm_keeps: "keeps inv (confirm rid)"
    and release_keeps: "keeps inv (release rid)"
    and credit_keeps: "0 \<le> a \<Longrightarrow> keeps_ok inv (credit u oid a)"
    and reserve_law: "inv (db w) \<Longrightarrow> reserve u rid a w = (Inr x, w') \<Longrightarrow>
      \<exists>b. balance u (db w) = Some b \<and> a \<le> b \<and> balance u (db w') = Some (b - a) \<and>
        held rid (db w) = None \<and> held rid (db w') = Some (u, a)"
    and confirm_law: "inv (db w) \<Longrightarrow> confirm rid w = (Inr x, w') \<Longrightarrow>
      held rid (db w') = None \<and> balance u (db w') = balance u (db w)"
    and release_law: "inv (db w) \<Longrightarrow> release rid w = (Inr x, w') \<Longrightarrow>
      held rid (db w') = None \<and> balance u (db w') = (case held rid (db w) of
          None \<Rightarrow> balance u (db w)
        | Some (v, a) \<Rightarrow> if v = u then map_option (\<lambda>b. b + a) (balance u (db w)) else balance u (db w))"
    and credit_law: "inv (db w) \<Longrightarrow> credit u oid a w = (Inr x, w') \<Longrightarrow>
      \<exists>b. balance u (db w) = Some b \<and> balance u (db w') = Some (b + a)"
begin

lemma settle_keeps: "keeps inv (settle confirm release rid c)"
  by (simp add: settle_def confirm_keeps release_keeps)

lemma settled_stays:
  assumes "inv (db w)" "held rid (db w) = None" "for_each (settle confirm release rid) cs w = (Inr x, w')"
  shows "balance u (db w') = balance u (db w)"
  using assms
proof (induction cs arbitrary: w)
  case (Cons c cs)
  from Cons.prems(3) obtain y w1 where 1: "settle confirm release rid c w = (Inr y, w1)"
    and 2: "for_each (settle confirm release rid) cs w1 = (Inr x, w')"
    by (auto simp: andthen_Inr_iff)
  have "inv (db w1)" using Cons.prems(1) 1 keepsD_run [OF settle_keeps] by blast
  moreover have "held rid (db w1) = None \<and> balance u (db w1) = balance u (db w)"
    using Cons.prems(1,2) 1 confirm_law [of w rid y w1 u] release_law [of w rid y w1 u]
    by (cases c) (simp_all add: settle_def)
  ultimately show ?case using Cons.IH 2 by auto
qed simp

lemma first_settlement_decides:
  assumes inv: "inv (db w)" and a: "0 \<le> a"
    and run: "andthen (reserve u rid a) (for_each (settle confirm release rid) (c # cs)) w = (Inr x, w')"
  shows "\<exists>b. balance u (db w) = Some b \<and> balance u (db w') = Some (if c then b - a else b)"
proof -
  from run obtain y w1 z w2 where 1: "reserve u rid a w = (Inr y, w1)" and 2: "settle confirm release rid c w1 = (Inr z, w2)"
    and 3: "for_each (settle confirm release rid) cs w2 = (Inr x, w')"
    by (auto simp: andthen_Inr_iff)
  obtain b where b: "balance u (db w) = Some b" "balance u (db w1) = Some (b - a)" "held rid (db w1) = Some (u, a)"
    using reserve_law [OF inv 1] by blast
  have i1: "inv (db w1)" using keeps_okD [OF reserve_keeps [OF a] inv 1] .
  have i2: "inv (db w2)" using keepsD_run [OF settle_keeps i1 2] .
  have "held rid (db w2) = None \<and> balance u (db w2) = Some (if c then b - a else b)"
    using 2 confirm_law [OF i1, of rid z w2 u] release_law [OF i1, of rid z w2 u] b
    by (cases c) (simp_all add: settle_def)
  with settled_stays [OF i2 _ 3, of u] b(1) show ?thesis by simp
qed

end

lemma balance_of_bump:
  assumes "distinct (map w_id (wallets d))" "distinct (map w_userId (wallets d))"
    and "wal \<in> set (wallets d)" "wallets d' = bump (w_id wal) a (wallets d)"
  shows "balance_of u d' = (if w_userId wal = u then map_option (\<lambda>b. b + a) (balance_of u d) else balance_of u d)"
proof -
  have "find (\<lambda>w. w_userId w = u) (bump (w_id wal) a (wallets d)) =
      map_option (\<lambda>w. if w_id w = w_id wal then w\<lparr>w_balance := w_balance w + a\<rparr> else w)
        (find (\<lambda>w. w_userId w = u) (wallets d))"
    unfolding bump_def by (rule find_map_update) simp
  moreover have "w_id x = w_id wal \<longleftrightarrow> w_userId wal = u"
    if f: "find (\<lambda>w. w_userId w = u) (wallets d) = Some x" for x
  proof -
    have "x \<in> set (wallets d)" "w_userId x = u" using find_SomeD [OF f] by auto
    then show ?thesis
      using assms(3) distinct_key_unique [OF assms(1)] distinct_key_unique [OF assms(2)] by metis
  qed
  moreover have "find (\<lambda>w. w_userId w = u) (wallets d) = None \<Longrightarrow> w_userId wal \<noteq> u"
    using find_NoneD assms(3) by fast
  ultimately show ?thesis
    by (cases "find (\<lambda>w. w_userId w = u) (wallets d)") (simp_all add: balance_of_def assms(4))
qed

lemma balance_of_same: "wallets d' = wallets d \<Longrightarrow> balance_of u d' = balance_of u d"
  by (simp add: balance_of_def)

lemma wallet_inv_users: "wallet_inv d \<Longrightarrow> distinct (map w_userId (wallets d))"
  by (simp add: wallet_inv_def money_ok_def)

lemma active_after_close:
  assumes "s \<noteq> RES_ACTIVE" "creditReservations d' = close_reservation rid s (creditReservations d)"
  shows "active_reservation rid d' = None"
proof -
  have "\<not> (cr_readingId y = rid \<and> cr_status y = RES_ACTIVE)"
    if y: "y \<in> set (close_reservation rid s (creditReservations d))" for y
  proof -
    obtain x where "y = (if cr_readingId x = rid \<and> cr_status x = RES_ACTIVE then x\<lparr>cr_status := s\<rparr> else x)"
      using map_update_memD [OF y [unfolded close_reservation_def]] by blast
    with assms(1) show ?thesis by (cases "cr_readingId x = rid \<and> cr_status x = RES_ACTIVE") auto
  qed
  then show ?thesis
    unfolding active_reservation_def find_None_iff assms(2) by blast
qed

lemma wallet_reserve_law:
  assumes inv: "wallet_inv (db w)" and run: "reserveCreditsForReading E u rid a w = (Inr x, w')"
  shows "\<exists>b. balance_of u (db w) = Some b \<and> a \<le> b \<and> balance_of u (db w') = Some (b - a) \<and>
        held_by rid (db w) = None \<and> held_by rid (db w') = Some (u, a)"
proof -
  obtain wal ri li now where wal: "find (\<lambda>w. w_userId w = u) (wallets (db w)) = Some wal"
    and enough: "a \<le> w_balance wal" and fresh: "\<forall>r \<in> set (creditReservations (db w)). cr_readingId r \<noteq> rid"
    and w': "db w' = (db w)\<lparr>wallets := bump (w_id wal) (- a) (wallets (db w)),
       creditReservations := creditReservations (db w) @
         [\<lparr>cr_id = ri, cr_walletId = w_id wal, cr_readingId = rid, cr_amount = a, cr_status = RES_ACTIVE\<rparr>],
       walletTransactions := walletTransactions (db w) @
         [new_line li (w_id wal) RESERVATION (- a) (w_balance wal - a) (''reservation:'' @ rid) (Some rid) None now]\<rparr>"
    by (rule reserve_Inr [OF run wallet_invD(1) [OF inv]])
  have mem: "wal \<in> set (wallets (db w))" "w_userId wal = u" using find_SomeD [OF wal] by auto
  have "balance_of u (db w') = map_option (\<lambda>b. b + - a) (balance_of u (db w))"
    using balance_of_bump [OF wallet_invD(1) [OF inv] wallet_inv_users [OF inv] mem(1), of "db w'" "- a" u] mem
    by (simp add: w')
  moreover have "active_reservation rid (db w) = None"
    using fresh by (auto simp: active_reservation_def find_None_iff)
  moreover have "active_reservation rid (db w') =
      Some \<lparr>cr_id = ri, cr_walletId = w_id wal, cr_readingId = rid, cr_amount = a, cr_status = RES_ACTIVE\<rparr>"
    using fresh unfolding active_reservation_def by (intro find_SomeI_unique) (auto simp: w')
  moreover have "find (\<lambda>x. w_id x = w_id wal) (wallets (db w')) = Some (wal\<lparr>w_balance := w_balance wal + - a\<rparr>)"
    using find_bumped [OF wallet_invD(1) [OF inv] mem(1), of "- a"] by (simp add: w')
  ultimately show ?thesis
    using wal enough mem by (simp add: held_by_def balance_of_def)
qed

lemma wallet_confirm_law:
  assumes inv: "wallet_inv (db w)" and run: "confirmConsumption E rid w = (Inr x, w')"
  shows "held_by rid (db w') = None \<and> balance_of u (db w') = balance_of u (db w)"
  using confirm_Inr [OF run wallet_invD(2) [OF inv]]
    active_after_close [of RES_CONSUMED "db w'" rid "db w"] balance_of_same [of "db w'" "db w" u]
  by (auto simp: held_by_def)

lemma wallet_release_law:
  assumes inv: "wallet_inv (db w)" and run: "releaseReservation E rid w = (Inr x, w')"
  shows "held_by rid (db w') = None \<and> balance_of u (db w') = (case held_by rid (db w) of
          None \<Rightarrow> balance_of u (db w)
        | Some (v, a) \<Rightarrow> if v = u then map_option (\<lambda>b. b + a) (balance_of u (db w)) else balance_of u (db w))"
  using release_Inr [OF run wallet_invD(2) [OF inv]]
proof (elim disjE exE conjE)
  assume "active_reservation rid (db w) = None" "w' = w"
  then show ?thesis by (simp add: held_by_def)
next
  fix r wal li now
  assume r: "active_reservation rid (db w) = Some r"
    and wal: "find (\<lambda>x. w_id x = cr_walletId r) (wallets (db w)) = Some wal"
    and w': "db w' = (db w)\<lparr>creditReservations := close_reservation rid RES_RELEASED (creditReservations (db w)),
         wallets := bump (cr_walletId r) (cr_amount r) (wallets (db w)),
         walletTransactions := walletTransactions (db w) @
           [new_line li (cr_walletId r) RELEASE (cr_amount r) (w_balance wal + cr_amount r)
              (''release:'' @ rid) (Some rid) None now]\<rparr>"
  have mem: "wal \<in> set (wallets (db w))" "w_id wal = cr_walletId r" using find_SomeD [OF wal] by auto
  have "active_reservation rid (db w') = None"
    by (rule active_after_close [of RES_RELEASED _ _ "db w"]) (simp_all add: w')
  moreover have "balance_of u (db w') = (if w_userId wal = u
      then map_option (\<lambda>b. b + cr_amount r) (balance_of u (db w)) else balance_of u (db w))"
    by (rule balance_of_bump [OF wallet_invD(1) [OF inv] wallet_inv_users [OF inv] mem(1)])
      (simp add: w' mem(2))
  ultimately show ?thesis by (simp add: held_by_def r wal)
qed

lemma wallet_credit_law:
  assumes inv: "wallet_inv (db w)" and run: "creditPurchase E u oid a w = (Inr x, w')"
  shows "\<exists>b. balance_of u (db w) = Some b \<and> balance_of u (db w') = Some (b + a)"
proof -
  obtain wal li now where wal: "find (\<lambda>w. w_userId w = u) (wallets (db w)) = Some wal"
    and w': "db w' = (db w)\<lparr>wallets := bump (w_id wal) a (wallets (db w)),
       walletTransactions := walletTransactions (db w) @
         [new_line li (w_id wal) PURCHASE a (w_balance wal + a) (''purchase:'' @ oid) None (Some oid) now]\<rparr>"
    by (rule credit_Inr [OF run wallet_invD(1) [OF inv]])
  have mem: "wal \<in> set (wallets (db w))" "w_userId wal = u" using find_SomeD [OF wal] by auto
  have "balance_of u (db w') = map_option (\<lambda>b. b + a) (balance_of u (db w))"
    using balance_of_bump [OF wallet_invD(1) [OF inv] wallet_inv_users [OF inv] mem(1), of "db w'" a u] mem
    by (simp add: w')
  with wal show ?thesis by (simp add: balance_of_def)
qed

interpretation credits: credit_service wallet_inv balance_of held_by "reserveCreditsForReading E"
  "confirmConsumption E" "releaseReservation E" "creditPurchase E" for E
  by unfold_locales
    (fact reserve_keeps_ok confirm_keeps release_keeps credit_keeps_ok wallet_reserve_law
      wallet_confirm_law wallet_release_law wallet_credit_law)+

end
