(* ===== verification/WalletProperties.thy ===== *)
theory WalletProperties
  imports WalletLaws
begin

text \<open>
  The properties of the wallet: histories of requests from an empty database, the outcome of each
  operation on every branch, and the listing of the ledger.
\<close>

section \<open>Histories\<close>

text \<open>
  The requests the wallet serves. A reservation and a purchase are composed into a transaction
  by their callers (\<open>ReadingsService\<close>, \<open>PaymentsService\<close>); the others open their own.
\<close>

datatype walletRequest =
    NewWallet string
  | Reserve string string int
  | Confirm string
  | Release string
  | Credit string string int
  | Adjust string int string string

fun serve :: "env \<Rightarrow> walletRequest \<Rightarrow> world \<Rightarrow> world" where
  "serve E (NewWallet u) w = snd (createWalletWithBonus E u w)"
| "serve E (Reserve u rid a) w = snd (transaction (reserveCreditsForReading E u rid a) w)"
| "serve E (Confirm rid) w = snd (confirmConsumption E rid w)"
| "serve E (Release rid) w = snd (releaseReservation E rid w)"
| "serve E (Credit u oid c) w = snd (transaction (creditPurchase E u oid c) w)"
| "serve E (Adjust u a reason actor) w = snd (adjustBalance E u a reason actor w)"

fun request_ok :: "walletRequest \<Rightarrow> bool" where
  "request_ok (Reserve u rid a) = (0 \<le> a)"
| "request_ok (Credit u oid c) = (0 \<le> c)"
| "request_ok _ = True"

definition serve_all :: "env \<Rightarrow> walletRequest list \<Rightarrow> world \<Rightarrow> world" where
  "serve_all E reqs w = fold (serve E) reqs w"

lemma serve_keeps:
  assumes "0 \<le> e_bonusCredits E" "request_ok req" "wallet_inv (db w)"
  shows "wallet_inv (db (serve E req w))"
  using assms
  by (cases req) (auto intro!: keepsD keeps_intro keeps_transaction reserve_keeps_ok credit_keeps_ok)

lemma serve_all_keeps:
  assumes "0 \<le> e_bonusCredits E" "\<forall>r \<in> set reqs. request_ok r" "wallet_inv (db w)"
  shows "wallet_inv (db (serve_all E reqs w))"
  using assms by (induction reqs arbitrary: w) (auto simp: serve_all_def serve_keeps)

lemma wallet_inv_empty: "wallet_inv (db empty_world)"
  by (simp add: wallet_inv_def money_ok_def reservations_ok_def running_balances_def
      empty_world_def empty_database_def)

text \<open>
  Whatever wallet requests arrive, in whatever order and whether they succeed or fail, the
  money adds up: no balance is ever negative, every balance is the sum of its ledger lines, every
  ledger line carries the running balance at its time, and what the ledger charges a reading is
  its reserved amount while the reservation is active or consumed, and zero once it is released.
\<close>

theorem wallet_history_consistent:
  assumes "0 \<le> e_bonusCredits E" and "\<forall>r \<in> set reqs. request_ok r"
    and "d = db (serve_all E reqs empty_world)"
  shows "(\<forall>w \<in> set (wallets d). 0 \<le> w_balance w \<and> w_balance w = ledger_sum (w_id w) (walletTransactions d)) \<and>
    running_balances (walletTransactions d) \<and>
    (\<forall>r \<in> set (creditReservations d). charged (cr_readingId r) (walletTransactions d) =
       (if cr_status r = RES_RELEASED then 0 else cr_amount r))"
  using serve_all_keeps [OF assms(1,2) wallet_inv_empty]
  unfolding assms(3) [symmetric] wallet_inv_def money_ok_def reservations_ok_def reservation_ok_def
  by blast

definition example_requests :: "walletRequest list" where
  "example_requests = [NewWallet ''ana'', Reserve ''ana'' ''r1'' 3, Reserve ''ana'' ''r2'' 3,
     Credit ''ana'' ''o1'' 10, Reserve ''ana'' ''r2'' 4, Confirm ''r1'', Release ''r2'', Release ''r2'',
     Adjust ''ana'' (- 50) ''x'' ''adm'', Adjust ''ana'' (- 2) ''x'' ''adm'']"

lemma wallet_history_consistent_witness:
  "let d = db (serve_all example_env example_requests empty_world) in
   map w_balance (wallets d) = [10] \<and> length (walletTransactions d) = 7 \<and>
   (\<forall>w \<in> set (wallets d). 0 \<le> w_balance w \<and> w_balance w = ledger_sum (w_id w) (walletTransactions d)) \<and>
   running_balances (walletTransactions d)"
proof -
  have b: "0 \<le> e_bonusCredits example_env" by (simp add: example_env_def)
  have r: "\<forall>r \<in> set example_requests. request_ok r" by (simp add: example_requests_def)
  have "map w_balance (wallets (db (serve_all example_env example_requests empty_world))) = [10]"
    by code_simp
  moreover have "length (walletTransactions (db (serve_all example_env example_requests empty_world))) = 7"
    by code_simp
  ultimately show ?thesis
    using wallet_history_consistent [OF b r refl] unfolding Let_def by blast
qed

section \<open>The idempotency keys\<close>

text \<open>What the invariant knows of a ledger line by its key.\<close>

lemma line_keys:
  assumes "line_ok rs t"
  shows "t_idempotencyKey t = ''reservation:'' @ rid \<Longrightarrow> \<exists>r \<in> set rs. cr_readingId r = rid"
    and "t_idempotencyKey t = ''release:'' @ rid \<Longrightarrow> \<exists>r \<in> set rs. cr_readingId r = rid \<and> cr_status r = RES_RELEASED"
    and "t_idempotencyKey t = ''consumption:'' @ rid \<Longrightarrow> \<exists>r \<in> set rs. cr_readingId r = rid \<and> cr_status r = RES_CONSUMED"
    and "t_idempotencyKey t = ''purchase:'' @ oid \<Longrightarrow> t_orderId t = Some oid"
  using assms by (auto simp: line_ok_def split: walletTransactionType.splits option.splits)

lemma key_unused_reserve:
  assumes "wallet_inv d" "\<forall>r \<in> set (creditReservations d). cr_readingId r \<noteq> rid" "t \<in> set (walletTransactions d)"
  shows "t_idempotencyKey t \<noteq> ''reservation:'' @ rid"
  using assms line_keys(1) [of "creditReservations d" t rid]
  by (auto simp: wallet_inv_def reservations_ok_def)

lemma key_unused_settle:
  assumes inv: "wallet_inv d" and r: "active_reservation rid d = Some r" and t: "t \<in> set (walletTransactions d)"
  shows "t_idempotencyKey t \<noteq> ''release:'' @ rid" "t_idempotencyKey t \<noteq> ''consumption:'' @ rid"
proof -
  have ok: "line_ok (creditReservations d) t" using inv t by (simp add: wallet_inv_def reservations_ok_def)
  have only: "cr_status x = RES_ACTIVE" if "x \<in> set (creditReservations d)" "cr_readingId x = rid" for x
    using that active_SomeD [OF r] distinct_key_unique [OF wallet_invD(2) [OF inv], of x r] by auto
  show "t_idempotencyKey t \<noteq> ''release:'' @ rid"
    using line_keys(2) [OF ok] only by force
  show "t_idempotencyKey t \<noteq> ''consumption:'' @ rid"
    using line_keys(3) [OF ok] only by force
qed

section \<open>Outcomes\<close>

lemma debit_run:
  assumes ids: "distinct (map w_id (wallets (db w)))" and mem: "wal \<in> set (wallets (db w))"
    and enough: "a \<le> w_balance wal" and int: "int4 (w_balance wal)" "0 \<le> a"
  shows "update_many Wallet (\<lambda>x. w_id x = w_id wal \<and> a \<le> w_balance x)
      (\<lambda>x. x\<lparr>w_balance := w_balance x - a\<rparr>) w =
    (Inr (length (filter (\<lambda>x. w_id x = w_id wal \<and> a \<le> w_balance x) (wallets (db w)))),
     w\<lparr>db := (db w)\<lparr>wallets := bump (w_id wal) (- a) (wallets (db w))\<rparr>\<rparr>)"
    and "filter (\<lambda>x. w_id x = w_id wal \<and> a \<le> w_balance x) (wallets (db w)) \<noteq> []"
proof -
  have "map (\<lambda>x. if w_id x = w_id wal \<and> a \<le> w_balance x then x\<lparr>w_balance := w_balance x - a\<rparr> else x)
      (wallets (db w)) = bump (w_id wal) (- a) (wallets (db w))"
    using bump_eq [OF ids mem, of "\<lambda>x. a \<le> w_balance x" "- a"] enough
    unfolding diff_conv_add_uminus by simp
  moreover have "int4 (w_balance wal - a)" using int enough by (auto simp: int4_def)
  then have "\<not> list_ex (\<lambda>r. (w_id r = w_id wal \<and> a \<le> w_balance r) \<and> \<not> int4 (w_balance r - a)) (wallets (db w))"
    using distinct_key_unique [OF ids _ mem] by (auto simp: list_ex_iff)
  ultimately show "update_many Wallet (\<lambda>x. w_id x = w_id wal \<and> a \<le> w_balance x)
      (\<lambda>x. x\<lparr>w_balance := w_balance x - a\<rparr>) w =
    (Inr (length (filter (\<lambda>x. w_id x = w_id wal \<and> a \<le> w_balance x) (wallets (db w)))),
     w\<lparr>db := (db w)\<lparr>wallets := bump (w_id wal) (- a) (wallets (db w))\<rparr>\<rparr>)"
    by (simp add: update_many_def Wallet_def)
  show "filter (\<lambda>x. w_id x = w_id wal \<and> a \<le> w_balance x) (wallets (db w)) \<noteq> []"
    using mem enough by (auto simp: filter_empty_conv)
qed

lemma reserve_poor:
  assumes inv: "wallet_inv (db w)" and wal: "find (\<lambda>x. w_userId x = u) (wallets (db w)) = Some wal"
    and poor: "w_balance wal < a"
  shows "transaction (reserveCreditsForReading E u rid a) w =
    (Inl (BadRequestException ''insufficient balance''), w)"
proof -
  have mem: "wal \<in> set (wallets (db w))" using find_SomeD [OF wal] by auto
  have none: "\<forall>x \<in> set (wallets (db w)). \<not> (w_id x = w_id wal \<and> a \<le> w_balance x)"
    using poor mem distinct_key_unique [OF wallet_invD(1) [OF inv]] by fastforce
  then have "filter (\<lambda>x. w_id x = w_id wal \<and> a \<le> w_balance x) (wallets (db w)) = []"
    by (simp add: filter_empty_conv)
  moreover have "map (\<lambda>x. if w_id x = w_id wal \<and> a \<le> w_balance x then x\<lparr>w_balance := w_balance x - a\<rparr>
      else x) (wallets (db w)) = wallets (db w)"
    using none by (intro map_idI) auto
  moreover have "\<not> list_ex (\<lambda>r. (w_id r = w_id wal \<and> a \<le> w_balance r) \<and> \<not> int4 (w_balance r - a)) (wallets (db w))"
    using none by (auto simp: list_ex_iff)
  ultimately show ?thesis
    by (simp add: transaction_def reserveCreditsForReading_def prog await_def update_many_def Wallet_def wal)
qed

lemma ledger_create_run:
  assumes "int4 a" "int4 b"
    and "\<forall>t \<in> set (walletTransactions (db w)). t_id t \<noteq> e_uuid E (uuids w) \<and> t_idempotencyKey t \<noteq> key"
  shows "fst (ledger_create E wid ty a b key rid oid w) =
    Inr (new_line (e_uuid E (uuids w)) wid ty a b key rid oid (e_clock E (ticks w)))"
proof -
  have "\<exists>w'. ledger_create E wid ty a b key rid oid w =
      (Inr (new_line (e_uuid E (uuids w)) wid ty a b key rid oid (e_clock E (ticks w))), w')"
    using assms unfolding ledger_create_Inr_iff by blast
  then show ?thesis by auto
qed

lemma fst_await_ret: "fst (await m (\<lambda>_. ret y) w) = (case fst (m w) of Inl e \<Rightarrow> Inl e | Inr _ \<Rightarrow> Inr y)"
  by (auto simp: await_def split: prod.splits sum.splits)

lemma fst_transaction: "fst (transaction m w) = fst (m w)"
  by (auto simp: transaction_def split: prod.splits sum.splits)

lemma reserve_rich:
  assumes inv: "wallet_inv (db w)" and wal: "find (\<lambda>x. w_userId x = u) (wallets (db w)) = Some wal"
    and rich: "a \<le> w_balance wal" and int: "int4 (w_balance wal)" "0 \<le> a"
    and ids: "\<forall>r \<in> set (creditReservations (db w)). cr_id r \<noteq> e_uuid E (uuids w)"
      "\<forall>t \<in> set (walletTransactions (db w)). t_id t \<noteq> e_uuid E (Suc (uuids w))"
  shows "fst (transaction (reserveCreditsForReading E u rid a) w) =
    (if \<exists>r \<in> set (creditReservations (db w)). cr_readingId r = rid
     then Inl ReadingAlreadySubmittedError else Inr ())"
proof -
  have mem: "wal \<in> set (wallets (db w))" using find_SomeD [OF wal] by auto
  note I = wallet_invD [OF inv]
  note run = debit_run [OF I(1) mem rich int]
  note found = find_bumped [OF I(1) mem, of "- a"]
  have i4: "int4 a" "int4 (- a)" "int4 (w_balance wal - a)" using int rich by (auto simp: int4_def)
  have key: "t_idempotencyKey t \<noteq> ''reservation:'' @ rid"
    if "\<forall>r \<in> set (creditReservations (db w)). cr_readingId r \<noteq> rid" "t \<in> set (walletTransactions (db w))" for t
    using key_unused_reserve [OF inv that] .
  show ?thesis
  proof (cases "\<exists>r \<in> set (creditReservations (db w)). cr_readingId r = rid")
    case True
    then have "list_ex (clash CreditReservation \<lparr>cr_id = e_uuid E (uuids w), cr_walletId = w_id wal,
        cr_readingId = rid, cr_amount = a, cr_status = RES_ACTIVE\<rparr>) (creditReservations (db w))"
      by (auto simp: CreditReservation_def list_ex_iff)
    moreover have "check CreditReservation \<lparr>cr_id = e_uuid E (uuids w), cr_walletId = w_id wal,
        cr_readingId = rid, cr_amount = a, cr_status = RES_ACTIVE\<rparr>"
      using i4 by (simp add: CreditReservation_def)
    moreover have "rows CreditReservation = creditReservations" by (simp add: CreditReservation_def)
    ultimately show ?thesis
      using True by (simp add: transaction_def reserveCreditsForReading_def prog await_def andthen_def run
          try_catch_def wal create_def isUniqueConstraintViolation_def Wallet_def [THEN arg_cong [of _ _ rows]] found)
  next
    case False
    then have "\<not> list_ex (clash CreditReservation \<lparr>cr_id = e_uuid E (uuids w), cr_walletId = w_id wal,
        cr_readingId = rid, cr_amount = a, cr_status = RES_ACTIVE\<rparr>) (creditReservations (db w))"
      using ids(1) by (auto simp: CreditReservation_def list_ex_iff)
    moreover have "check CreditReservation \<lparr>cr_id = e_uuid E (uuids w), cr_walletId = w_id wal,
        cr_readingId = rid, cr_amount = a, cr_status = RES_ACTIVE\<rparr>"
      using i4 by (simp add: CreditReservation_def)
    moreover have "rows CreditReservation = creditReservations"
      "set_rows CreditReservation = (\<lambda>g d. d\<lparr>creditReservations := g (creditReservations d)\<rparr>)"
      by (simp_all add: CreditReservation_def)
    ultimately show ?thesis
      using False key ids(2) i4
      by (auto simp: fst_transaction reserveCreditsForReading_def prog await_def andthen_def run
          try_catch_def wal create_def fst_await_ret [unfolded await_def] ledger_create_run
          Wallet_def [THEN arg_cong [of _ _ rows]] found split: prod.splits sum.splits)
  qed
qed

text \<open>
  Reserving credits inside its transaction has three outcomes. With too little balance it is
  refused and nothing at all changes. For a reading that already has a reservation it is refused
  as already submitted and the database is unchanged. Otherwise it returns, the balance is down by
  exactly the amount, and the reading holds that amount of that user. The two generated ids have
  to be unused, as UUIDs are.
\<close>

theorem reserve_outcome:
  assumes inv: "wallet_inv (db w)" and wal: "find (\<lambda>x. w_userId x = u) (wallets (db w)) = Some wal"
    and int: "int4 (w_balance wal)" "0 \<le> a"
    and ids: "\<forall>r \<in> set (creditReservations (db w)). cr_id r \<noteq> e_uuid E (uuids w)"
      "\<forall>t \<in> set (walletTransactions (db w)). t_id t \<noteq> e_uuid E (Suc (uuids w))"
    and run: "transaction (reserveCreditsForReading E u rid a) w = (r, w')"
  shows "if w_balance wal < a then r = Inl (BadRequestException ''insufficient balance'') \<and> w' = w
    else if \<exists>x \<in> set (creditReservations (db w)). cr_readingId x = rid
      then r = Inl ReadingAlreadySubmittedError \<and> db w' = db w
    else r = Inr () \<and> balance_of u (db w') = Some (w_balance wal - a) \<and> held_by rid (db w') = Some (u, a)"
proof (cases "w_balance wal < a")
  case True
  with reserve_poor [OF inv wal True, of E rid] run show ?thesis by simp
next
  case False
  then have r: "r = (if \<exists>x \<in> set (creditReservations (db w)). cr_readingId x = rid
      then Inl ReadingAlreadySubmittedError else Inr ())"
    using reserve_rich [OF inv wal _ int ids, of rid] run by simp
  show ?thesis
  proof (cases "\<exists>x \<in> set (creditReservations (db w)). cr_readingId x = rid")
    case True
    with r have "r = Inl ReadingAlreadySubmittedError" by simp
    with transaction_error_db run have "db w' = db w" by blast
    with True r False show ?thesis by simp
  next
    case no: False
    with r run have "reserveCreditsForReading E u rid a w = (Inr (), w')" by (simp add: transaction_Inr_iff)
    from wallet_reserve_law [OF inv this] wal no r False show ?thesis by (auto simp: balance_of_def)
  qed
qed

definition example_world :: world where
  "example_world = serve_all example_env
     [NewWallet ''ana'', Reserve ''ana'' ''r1'' 3, Credit ''ana'' ''o1'' 10] empty_world"

lemma example_world_inv: "wallet_inv (db example_world)"
  unfolding example_world_def by (rule serve_all_keeps) (simp_all add: example_env_def wallet_inv_empty)

lemma reserve_outcome_witness:
  "fst (transaction (reserveCreditsForReading example_env ''ana'' ''r2'' 12) example_world) = Inr () \<and>
   fst (transaction (reserveCreditsForReading example_env ''ana'' ''r2'' 13) example_world) =
     Inl (BadRequestException ''insufficient balance'') \<and>
   fst (transaction (reserveCreditsForReading example_env ''ana'' ''r1'' 1) example_world) =
     Inl ReadingAlreadySubmittedError"
proof -
  let ?w = example_world
  obtain wal where wal: "find (\<lambda>x. w_userId x = ''ana'') (wallets (db ?w)) = Some wal" "w_balance wal = 12"
  proof (rule that)
    show "find (\<lambda>x. w_userId x = ''ana'') (wallets (db ?w)) =
        Some \<lparr>w_id = ''u'', w_userId = ''ana'', w_balance = 12\<rparr>" by code_simp
  qed simp
  have i: "int4 (w_balance wal)" by (simp add: wal int4_def)
  have c: "\<forall>r \<in> set (creditReservations (db ?w)). cr_id r \<noteq> e_uuid example_env (uuids ?w)" by code_simp
  have t: "\<forall>t \<in> set (walletTransactions (db ?w)). t_id t \<noteq> e_uuid example_env (Suc (uuids ?w))" by code_simp
  have r: "\<exists>x \<in> set (creditReservations (db ?w)). cr_readingId x = ''r1''"
    "\<not> (\<exists>x \<in> set (creditReservations (db ?w)). cr_readingId x = ''r2'')" by code_simp+
  note out = reserve_outcome [OF example_world_inv wal(1) i _ c t surjective_pairing]
  show ?thesis using out [of 12 "''r2''"] out [of 13 "''r2''"] out [of 1 "''r1''"] wal(2) r by simp
qed

text \<open>
  The first settlement of a reading decides. After a reservation, any sequence of
  confirmations and releases of the same reading that runs through leaves the payer with the
  balance before the reservation if the first of them was a release, and with that balance less
  the amount if it was a confirmation. No later confirmation or release moves money again.
\<close>

theorem reading_charged_at_most_once:
  assumes "wallet_inv (db w)" "0 \<le> a"
    and "andthen (reserveCreditsForReading E u rid a)
      (for_each (settle (confirmConsumption E) (releaseReservation E) rid) (c # cs)) w = (Inr x, w')"
  shows "\<exists>b. balance_of u (db w) = Some b \<and> balance_of u (db w') = Some (if c then b - a else b)"
  using assms by (rule credits.first_settlement_decides)

lemma reading_charged_at_most_once_witness:
  "\<exists>w'. andthen (reserveCreditsForReading example_env ''ana'' ''r2'' 4)
      (for_each (settle (confirmConsumption example_env) (releaseReservation example_env) ''r2'')
        [False, True, False]) example_world = (Inr (), w') \<and> balance_of ''ana'' (db w') = Some 12"
proof -
  let ?run = "andthen (reserveCreditsForReading example_env ''ana'' ''r2'' 4)
      (for_each (settle (confirmConsumption example_env) (releaseReservation example_env) ''r2'')
        [False, True, False]) example_world"
  have "fst ?run = Inr ()" by code_simp
  then obtain w' where w': "?run = (Inr (), w')" by (metis prod.collapse)
  have "balance_of ''ana'' (db example_world) = Some 12" by code_simp
  with reading_charged_at_most_once [OF example_world_inv _ w'] w' show ?thesis by auto
qed

lemma release_run:
  assumes inv: "wallet_inv (db w)" and r: "active_reservation rid (db w) = Some r"
    and wal: "find (\<lambda>x. w_id x = cr_walletId r) (wallets (db w)) = Some wal"
    and int: "int4 (cr_amount r)" "int4 (w_balance wal + cr_amount r)"
    and ids: "\<forall>t \<in> set (walletTransactions (db w)). t_id t \<noteq> e_uuid E (uuids w)"
  shows "fst (releaseReservation E rid w) = Inr ()"
proof -
  note I = wallet_invD [OF inv]
  have rs: "r \<in> set (creditReservations (db w))" "cr_readingId r = rid" "cr_status r = RES_ACTIVE"
    using active_SomeD [OF r] by auto
  have none: "\<not> list_ex (\<lambda>x. (cr_readingId x = rid \<and> cr_status x = RES_ACTIVE) \<and>
      \<not> check CreditReservation (x\<lparr>cr_status := RES_RELEASED\<rparr>)) (creditReservations (db w))"
    using distinct_key_unique [OF I(2) _ rs(1)] rs(2) int(1) by (auto simp: CreditReservation_def list_ex_iff)
  have some: "filter (\<lambda>x. cr_readingId x = rid \<and> cr_status x = RES_ACTIVE) (creditReservations (db w)) \<noteq> []"
    using r by (simp add: active_None_filter)
  have closed: "find (\<lambda>x. cr_readingId x = rid) (map (\<lambda>r. if cr_readingId r = rid \<and> cr_status r = RES_ACTIVE
      then r\<lparr>cr_status := RES_RELEASED\<rparr> else r) (creditReservations (db w))) = Some (r\<lparr>cr_status := RES_RELEASED\<rparr>)"
    using find_closed [OF I(2) r] by (simp add: close_reservation_def)
  have tbl: "rows CreditReservation = creditReservations" "rows Wallet = wallets"
    "set_rows CreditReservation = (\<lambda>g d. d\<lparr>creditReservations := g (creditReservations d)\<rparr>)"
    "set_rows Wallet = (\<lambda>g d. d\<lparr>wallets := g (wallets d)\<rparr>)" "\<And>x. check Wallet x = int4 (w_balance x)"
    by (simp_all add: CreditReservation_def Wallet_def)
  show ?thesis
    using none some int ids key_unused_settle(1) [OF inv r]
    by (auto simp: fst_transaction releaseReservation_def prog await_def andthen_def update_many_def
        update_row_def tbl closed wal ledger_create_run split: prod.splits sum.splits
        dest!: arg_cong [of "ledger_create _ _ _ _ _ _ _ _ _" _ fst])
qed

text \<open>
  A failed reading gets its credits back: releasing an active reservation returns, closes it,
  and the payer's balance is up by exactly the reserved amount. Only a generated id already in
  use, or a balance over the INTEGER column, could stop it.
\<close>

theorem release_returns:
  assumes inv: "wallet_inv (db w)" and r: "active_reservation rid (db w) = Some r"
    and wal: "find (\<lambda>x. w_id x = cr_walletId r) (wallets (db w)) = Some wal"
    and int: "int4 (cr_amount r)" "int4 (w_balance wal + cr_amount r)"
    and ids: "\<forall>t \<in> set (walletTransactions (db w)). t_id t \<noteq> e_uuid E (uuids w)"
  shows "\<exists>w'. releaseReservation E rid w = (Inr (), w') \<and> active_reservation rid (db w') = None \<and>
    balance_of (w_userId wal) (db w') = Some (w_balance wal + cr_amount r)"
proof -
  obtain w' where w': "releaseReservation E rid w = (Inr (), w')"
    using release_run [OF assms] by (metis prod.collapse)
  have "held_by rid (db w) = Some (w_userId wal, cr_amount r)" by (simp add: held_by_def r wal)
  moreover have "balance_of (w_userId wal) (db w) = Some (w_balance wal)"
    using find_SomeD [OF wal] wallet_inv_users [OF inv] by (simp add: balance_of_def find_key_eq)
  ultimately have "balance_of (w_userId wal) (db w') = Some (w_balance wal + cr_amount r)"
    using wallet_release_law [OF inv w', of "w_userId wal"] by simp
  moreover have "active_reservation rid (db w') = None"
    using release_Inr [OF w' wallet_invD(2) [OF inv]] r
      active_after_close [of RES_RELEASED "db w'" rid "db w"] by auto
  ultimately show ?thesis using w' by blast
qed

lemma release_returns_witness:
  "\<exists>w'. releaseReservation example_env ''r1'' example_world = (Inr (), w') \<and>
     balance_of ''ana'' (db w') = Some 15"
proof -
  let ?d = "db example_world"
  have r: "active_reservation ''r1'' ?d = Some \<lparr>cr_id = ''uuu'', cr_walletId = ''u'', cr_readingId = ''r1'',
      cr_amount = 3, cr_status = RES_ACTIVE\<rparr>" by code_simp
  have wal: "find (\<lambda>x. w_id x = ''u'') (wallets ?d) = Some \<lparr>w_id = ''u'', w_userId = ''ana'', w_balance = 12\<rparr>"
    by code_simp
  have ids: "\<forall>t \<in> set (walletTransactions ?d). t_id t \<noteq> e_uuid example_env (uuids example_world)" by code_simp
  show ?thesis
    using release_returns [OF example_world_inv r _ _ _ ids, of "\<lparr>w_id = ''u'', w_userId = ''ana'', w_balance = 12\<rparr>"]
      wal by (auto simp: int4_def)
qed

definition page_items :: "string \<Rightarrow> nat \<Rightarrow> world \<Rightarrow> nat \<Rightarrow> walletTransactionSummary list" where
  "page_items u psize w p = (case fst (listTransactions u p psize w) of
       Inl _ \<Rightarrow> []
     | Inr pg \<Rightarrow> pg_items pg)"

lemma listTransactions_run:
  "find (\<lambda>w. w_userId w = u) (wallets (db w)) = Some wal \<Longrightarrow>
   listTransactions u p psize w =
     (Inr \<lparr>pg_items = map toWalletTransactionSummary (page_of p psize (order_desc t_createdAt
              (filter (\<lambda>t. t_walletId t = w_id wal) (walletTransactions (db w))))),
           pg_total = length (filter (\<lambda>t. t_walletId t = w_id wal) (walletTransactions (db w))),
           pg_page = p, pg_pageSize = psize\<rparr>, w)"
  by (simp add: listTransactions_def prog await_def Wallet_def WalletTransaction_def)

text \<open>
  The pages of the wallet history, put one after another, are the whole history of that
  wallet: every ledger line of the wallet once, no line of another wallet, newest first.
\<close>

theorem history_pages_complete:
  assumes "find (\<lambda>w. w_userId w = u) (wallets (db w)) = Some wal" "0 < psize"
    and "length (filter (\<lambda>t. t_walletId t = w_id wal) (walletTransactions (db w))) \<le> n * psize"
  shows "concat (map (\<lambda>p. page_items u psize w (Suc p)) [0..<n]) =
      map toWalletTransactionSummary (order_desc t_createdAt
        (filter (\<lambda>t. t_walletId t = w_id wal) (walletTransactions (db w))))"
proof -
  let ?h = "order_desc t_createdAt (filter (\<lambda>t. t_walletId t = w_id wal) (walletTransactions (db w)))"
  have "concat (map (\<lambda>p. page_items u psize w (Suc p)) [0..<n]) =
      map toWalletTransactionSummary (concat (map (\<lambda>p. page_of (Suc p) psize ?h) [0..<n]))"
    by (simp add: page_items_def listTransactions_run [OF assms(1)] map_concat o_def)
  then show ?thesis using assms(2,3) by (simp add: pages_concat)
qed

lemma history_pages_complete_witness:
  "concat (map (\<lambda>p. page_items ''ana'' 2 example_world (Suc p)) [0..<2]) =
     map toWalletTransactionSummary (order_desc t_createdAt (walletTransactions (db example_world))) \<and>
   map wts_amount (page_items ''ana'' 2 example_world 1) = [10, - 3]"
proof -
  let ?d = "db example_world"
  have wal: "find (\<lambda>x. w_userId x = ''ana'') (wallets ?d) = Some \<lparr>w_id = ''u'', w_userId = ''ana'', w_balance = 12\<rparr>"
    by code_simp
  have all: "filter (\<lambda>t. t_walletId t = ''u'') (walletTransactions ?d) = walletTransactions ?d"
    "length (walletTransactions ?d) = 3" by code_simp+
  have "map wts_amount (page_items ''ana'' 2 example_world 1) = [10, - 3]" by code_simp
  with history_pages_complete [OF wal, of 2 2] all show ?thesis by simp
qed

text \<open>
  A manual adjustment and its audit record exist together or not at all. If the adjustment
  fails, the database is unchanged. If it returns, the amount was not zero, the balance moved by
  exactly the amount, it is what the caller is told, and exactly one audit record was added, that
  names the administrator, the user and the reason.
\<close>

theorem adjustment_audited:
  assumes "wallet_inv (db w)" and run: "adjustBalance E u a reason actor w = (r, w')"
  shows "case r of
      Inl _ \<Rightarrow> db w' = db w
    | Inr s \<Rightarrow> a \<noteq> 0 \<and> 0 \<le> ws_balance s \<and> balance_of u (db w) = Some (ws_balance s - a) \<and>
        balance_of u (db w') = Some (ws_balance s) \<and>
        (\<exists>l. auditLogs (db w') = auditLogs (db w) @ [l] \<and> al_actorUserId l = Some actor \<and>
             al_targetId l = Some u \<and> al_reason l = reason \<and> al_action l = ''wallet.adjustment'')"
proof (cases r)
  case (Inl e)
  with run show ?thesis by (auto simp: adjustBalance_def split: if_splits dest: transaction_error_db)
next
  case (Inr s)
  note inv = assms(1)
  have inv': "wallet_inv (db w')" using keepsD_run [OF adjust_keeps inv run] .
  from run [unfolded Inr] wallet_invD(1) [OF inv] obtain wal li key now l
    where f: "a \<noteq> 0" "find (\<lambda>w. w_userId w = u) (wallets (db w)) = Some wal"
      "ws_balance s = w_balance wal + a"
    and w': "db w' = (db w)\<lparr>wallets := bump (w_id wal) a (wallets (db w)),
       walletTransactions := walletTransactions (db w) @
         [new_line li (w_id wal) ADJUSTMENT a (w_balance wal + a) (''adjustment:'' @ key) None None now],
       auditLogs := auditLogs (db w) @ [l]\<rparr>"
    and l: "al_actorUserId l = Some actor" "al_action l = ''wallet.adjustment''" "al_reason l = reason"
      "al_targetId l = Some u"
    by (rule adjust_Inr)
  have mem: "wal \<in> set (wallets (db w))" "w_userId wal = u" using find_SomeD [OF f(2)] by auto
  have b': "balance_of u (db w') = Some (w_balance wal + a)"
    using balance_of_bump [OF wallet_invD(1) [OF inv] wallet_inv_users [OF inv] mem(1), of "db w'" a u] mem f(2)
    by (simp add: w' balance_of_def)
  then obtain x where "x \<in> set (wallets (db w'))" "w_balance x = w_balance wal + a"
    by (auto simp: balance_of_def dest: find_SomeD)
  then have "0 \<le> w_balance wal + a" using wallet_inv_balance [OF inv'] by metis
  then show ?thesis using Inr f b' l by (simp add: w' balance_of_def)
qed

lemma adjustment_audited_witness:
  "let r = adjustBalance example_env ''ana'' (- 5) ''refund'' ''adm'' example_world in
   fst r = Inr \<lparr>ws_balance = 7\<rparr> \<and> balance_of ''ana'' (db (snd r)) = Some 7 \<and>
   map al_reason (auditLogs (db (snd r))) = [''refund'']"
proof -
  have f: "fst (adjustBalance example_env ''ana'' (- 5) ''refund'' ''adm'' example_world) =
      Inr \<lparr>ws_balance = 7\<rparr>" by code_simp
  have "auditLogs (db example_world) = []" by code_simp
  with adjustment_audited [OF example_world_inv surjective_pairing, of example_env "''ana''" "- 5" "''refund''" "''adm''"] f
  show ?thesis by (auto simp: Let_def)
qed

text \<open>The ledger only grows: \<open>ledger_from L\<close> says that the lines \<open>L\<close> are still its beginning.\<close>

definition ledger_from :: "walletTransaction list \<Rightarrow> database \<Rightarrow> bool" where
  "ledger_from L d = (\<exists>ts. walletTransactions d = L @ ts)"

lemma ledger_from_ignores:
  "ignores (ledger_from L) Wallet" "ignores (ledger_from L) CreditReservation" "ignores (ledger_from L) AuditLog"
  by (simp_all add: ignores_def ledger_from_def Wallet_def CreditReservation_def AuditLog_def)

lemma ledger_from_create: "keeps (ledger_from L) (create WalletTransaction t)"
  by (auto simp: keeps_def create_def ledger_from_def WalletTransaction_def)

lemma ledger_create_appends: "keeps (ledger_from L) (ledger_create E wid ty a b key rid oid)"
  unfolding ledger_create_def by (intro keeps_intro ledger_from_create)

lemma audit_record_appends: "keeps (ledger_from L) (audit_record E actor act reason tt ti md)"
  unfolding audit_record_def by (intro keeps_intro ledger_from_ignores)

lemmas appends = ledger_create_appends audit_record_appends ledger_from_ignores

lemma wallet_appends:
  "keeps (ledger_from L) (createWalletWithBonus E u)"
  "keeps (ledger_from L) (reserveCreditsForReading E u rid a)"
  "keeps (ledger_from L) (confirmConsumption E rid)"
  "keeps (ledger_from L) (releaseReservation E rid)"
  "keeps (ledger_from L) (creditPurchase E u oid c)"
  "keeps (ledger_from L) (adjustBalance E u a reason actor)"
  unfolding createWalletWithBonus_def reserveCreditsForReading_def confirmConsumption_def
    releaseReservation_def creditPurchase_def adjustBalance_def
  by (intro keeps_intro appends)+

lemma serve_appends: "ledger_from L (db w) \<Longrightarrow> ledger_from L (db (serve E req w))"
  by (cases req) (simp_all add: keepsD wallet_appends keeps_transaction_keeps)

lemma serve_all_appends: "ledger_from L (db w) \<Longrightarrow> ledger_from L (db (serve_all E reqs w))"
  by (induction reqs arbitrary: w) (simp_all add: serve_all_def serve_appends)

lemma creditPurchase_key:
  assumes "creditPurchase E u oid c w = (Inr x, w')"
  shows "\<forall>t \<in> set (walletTransactions (db w)). t_idempotencyKey t \<noteq> ''purchase:'' @ oid"
    and "\<exists>t \<in> set (walletTransactions (db w')). t_idempotencyKey t = ''purchase:'' @ oid"
proof -
  from assms obtain wid b w0 t where "ledger_create E wid PURCHASE c b (''purchase:'' @ oid) None (Some oid) w0 = (Inr t, w')"
    and "walletTransactions (db w0) = walletTransactions (db w)"
    by (auto simp: creditPurchase_def prog_inv db_inv Wallet_def)
  then show "\<forall>t \<in> set (walletTransactions (db w)). t_idempotencyKey t \<noteq> ''purchase:'' @ oid"
    "\<exists>t \<in> set (walletTransactions (db w')). t_idempotencyKey t = ''purchase:'' @ oid"
    by (simp_all add: ledger_create_Inr_iff)
qed

text \<open>
  An order is credited at most once: after a purchase of an order has been credited, whatever
  wallet requests come in between, crediting the same order again never returns, whoever is named
  as the buyer and whatever the amount.
\<close>

theorem purchase_credited_once:
  assumes "creditPurchase E u oid c w = (Inr x, w1)"
  shows "\<nexists>y w2. creditPurchase E' v oid c' (serve_all E reqs w1) = (Inr y, w2)"
proof
  assume "\<exists>y w2. creditPurchase E' v oid c' (serve_all E reqs w1) = (Inr y, w2)"
  then obtain y w2 where again: "creditPurchase E' v oid c' (serve_all E reqs w1) = (Inr y, w2)" by blast
  have "ledger_from (walletTransactions (db w1)) (db (serve_all E reqs w1))"
    by (rule serve_all_appends) (simp add: ledger_from_def)
  with creditPurchase_key(2) [OF assms] creditPurchase_key(1) [OF again] show False
    by (auto simp: ledger_from_def)
qed

lemma purchase_credited_once_witness:
  "\<exists>w1. creditPurchase example_env ''ana'' ''o2'' 10 example_world = (Inr (), w1) \<and>
     fst (creditPurchase example_env ''ana'' ''o2'' 10 (serve_all example_env [Release ''r1''] w1)) \<noteq> Inr ()"
proof -
  have "fst (creditPurchase example_env ''ana'' ''o2'' 10 example_world) = Inr ()" by code_simp
  then obtain w1 where w1: "creditPurchase example_env ''ana'' ''o2'' 10 example_world = (Inr (), w1)"
    by (metis prod.collapse)
  show ?thesis
    using w1 purchase_credited_once [OF w1, of example_env "''ana''" 10 "[Release ''r1'']"]
    by (metis prod.collapse)
qed

end
