(* ===== verification/PaymentsService.thy ===== *)
theory PaymentsService
  imports WompiProvider OrdersService WalletProperties
begin

text \<open>
  Payments (\<open>src/payments/payments.service.ts\<close>): the checkout of a pending order, the webhook of
  the provider, the confirmation when the user returns from it, and the two ways a payment ends.
  \<open>webhook_prepare\<close> and \<open>return_prepare\<close> are the handlers up to the point where they hold a
  payment, a transaction and a final status; \<open>settle_payment\<close> is the rest, a transaction.
  Between the two, other requests may run.
\<close>

section \<open>Operations\<close>

definition TERMINAL_STATUS_MAP :: "transactionStatus \<Rightarrow> paymentStatus option" where
  "TERMINAL_STATUS_MAP s = (case s of
       TX_PENDING \<Rightarrow> None
     | TX_APPROVED \<Rightarrow> Some PAY_APPROVED
     | TX_DECLINED \<Rightarrow> Some PAY_DECLINED
     | TX_ERROR \<Rightarrow> Some PAY_FAILED
     | TX_VOIDED \<Rightarrow> Some PAY_DECLINED)"

definition createCheckoutIntent ::
  "env \<Rightarrow> paymentProvider \<Rightarrow> string \<Rightarrow> string \<Rightarrow> (world, checkoutIntent) prog" where
  "createCheckoutIntent E P userId orderId =
     await (find_first Order (\<lambda>ord. o_id ord = orderId \<and> o_userId ord = userId)) (\<lambda>found. case found of
       None \<Rightarrow> throw (NotFoundException ''order'')
     | Some order \<Rightarrow>
         if o_status order \<noteq> ORD_PENDING then throw (BadRequestException ''order not pending'')
         else
           await (random_uuid E) (\<lambda>attempt.
           let reference = ''order-'' @ o_id order @ ''-'' @ attempt;
               intent = pp_buildCheckoutIntent P reference (o_priceCents order) (o_currency order)
                 (e_appUrl E @ ''/wallet/checkout/'' @ o_id order) in
           await (random_uuid E) (\<lambda>i.
           await (date_now E) (\<lambda>createdAt.
           andthen (create Payment \<lparr>p_id = i, p_orderId = o_id order, p_provider = pp_name P,
               p_providerReference = reference, p_providerTransactionId = None,
               p_status = PAY_PENDING, p_amountCents = o_priceCents order,
               p_currency = o_currency order, p_createdAt = createdAt\<rparr>)
             (ret intent)))))"

definition approvePayment ::
  "env \<Rightarrow> payment \<Rightarrow> transactionResult \<Rightarrow> paymentStatus \<Rightarrow> (world, unit) prog" where
  "approvePayment E payment tx status =
     transaction
       (await (update_many Payment (\<lambda>p. p_id p = p_id payment \<and> p_status p = PAY_PENDING)
                 (\<lambda>p. p\<lparr>p_status := status,
                        p_providerTransactionId := Some (tr_providerTransactionId tx)\<rparr>)) (\<lambda>updated.
        if updated = 0 then ret ()
        else
          await (find_or_throw Order (\<lambda>ord. o_id ord = p_orderId payment)) (\<lambda>order.
          andthen (update_row Order (\<lambda>ord. o_id ord = o_id order) (\<lambda>ord. ord\<lparr>o_status := ORD_PAID\<rparr>))
            (creditPurchase E (o_userId order) (o_id order) (o_credits order)))))"

definition markPaymentTerminal ::
  "payment \<Rightarrow> transactionResult \<Rightarrow> paymentStatus \<Rightarrow> (world, unit) prog" where
  "markPaymentTerminal payment tx status =
     transaction
       (await (update_many Payment (\<lambda>p. p_id p = p_id payment \<and> p_status p = PAY_PENDING)
                 (\<lambda>p. p\<lparr>p_status := status,
                        p_providerTransactionId := Some (tr_providerTransactionId tx)\<rparr>)) (\<lambda>updated.
        if updated = 0 then ret ()
        else
          andthen (update_many Order (\<lambda>ord. o_id ord = p_orderId payment \<and> o_status ord = ORD_PENDING)
                    (\<lambda>ord. ord\<lparr>o_status := ORD_CANCELLED\<rparr>))
            (ret ())))"

text \<open>What a handler holds once it has checked everything.\<close>

type_synonym settlement = "payment \<times> transactionResult \<times> paymentStatus"

definition settle_payment :: "env \<Rightarrow> settlement \<Rightarrow> (world, unit) prog" where
  "settle_payment E t = (case t of (payment, tx, status) \<Rightarrow>
     if status = PAY_APPROVED then approvePayment E payment tx status
     else markPaymentTerminal payment tx status)"

definition amounts_match :: "payment \<Rightarrow> transactionResult \<Rightarrow> bool" where
  "amounts_match payment tx =
     (p_amountCents payment = tr_amountInCents tx \<and> p_currency payment = tr_currency tx)"

definition return_prepare ::
  "paymentProvider \<Rightarrow> string \<Rightarrow> string \<Rightarrow> string \<Rightarrow> (world, settlement option) prog" where
  "return_prepare P userId orderId providerTransactionId =
     await (find_first Order (\<lambda>ord. o_id ord = orderId \<and> o_userId ord = userId)) (\<lambda>found. case found of
       None \<Rightarrow> throw (NotFoundException ''order'')
     | Some order \<Rightarrow>
         await (find_first_desc Payment p_createdAt (\<lambda>p. p_orderId p = o_id order \<and>
                  p_provider p = pp_name P \<and> p_status p = PAY_PENDING)) (\<lambda>pending. case pending of
           None \<Rightarrow> ret None
         | Some payment \<Rightarrow>
             await (pp_fetchTransaction P providerTransactionId) (\<lambda>fetched. case fetched of
               None \<Rightarrow> ret None
             | Some tx \<Rightarrow>
                 if tr_reference tx \<noteq> p_providerReference payment then ret None
                 else if \<not> amounts_match payment tx then ret None
                 else ret (map_option (\<lambda>status. (payment, tx, status)) (TERMINAL_STATUS_MAP (tr_status tx))))))"

definition webhook_prepare ::
  "env \<Rightarrow> paymentProvider \<Rightarrow> json \<Rightarrow> (world, settlement option) prog" where
  "webhook_prepare E P rawBody = (case pp_verifyAndParseWebhook P rawBody of
       None \<Rightarrow> throw (UnauthorizedException ''webhook signature'')
     | Some (eventId, tx) \<Rightarrow>
         await
           (try_catch
             (await (random_uuid E) (\<lambda>i.
              andthen (create WebhookEvent \<lparr>we_id = i, we_provider = pp_name P, we_eventId = eventId,
                  we_eventType = status_text (tr_status tx), we_payload = rawBody\<rparr>)
                (ret True)))
             (\<lambda>e. if isUniqueConstraintViolation e then ret False else throw e)) (\<lambda>fresh.
         if \<not> fresh then ret None
         else
           await (find_first Payment (\<lambda>p. p_provider p = pp_name P \<and>
                    p_providerReference p = tr_reference tx)) (\<lambda>found. case found of
             None \<Rightarrow> ret None
           | Some payment \<Rightarrow>
               if \<not> amounts_match payment tx then ret None
               else ret (map_option (\<lambda>status. (payment, tx, status)) (TERMINAL_STATUS_MAP (tr_status tx))))))"

definition settle_if :: "env \<Rightarrow> settlement option \<Rightarrow> (world, unit) prog" where
  "settle_if E t = (case t of None \<Rightarrow> ret () | Some s \<Rightarrow> settle_payment E s)"

definition confirmFromReturn ::
  "env \<Rightarrow> paymentProvider \<Rightarrow> string \<Rightarrow> string \<Rightarrow> string \<Rightarrow> (world, unit) prog" where
  "confirmFromReturn E P userId orderId providerTransactionId =
     await (return_prepare P userId orderId providerTransactionId) (settle_if E)"

definition handleWebhook :: "env \<Rightarrow> paymentProvider \<Rightarrow> json \<Rightarrow> (world, unit) prog" where
  "handleWebhook E P rawBody = await (webhook_prepare E P rawBody) (settle_if E)"

record adminPaymentSummary =
  ap_id :: string
  ap_orderId :: string
  ap_provider :: string
  ap_providerReference :: string
  ap_providerTransactionId :: "string option"
  ap_status :: paymentStatus
  ap_amountCents :: int
  ap_currency :: string
  ap_createdAt :: int

definition toAdminPaymentSummary :: "payment \<Rightarrow> adminPaymentSummary" where
  "toAdminPaymentSummary payment = \<lparr>ap_id = p_id payment, ap_orderId = p_orderId payment,
     ap_provider = p_provider payment, ap_providerReference = p_providerReference payment,
     ap_providerTransactionId = p_providerTransactionId payment, ap_status = p_status payment,
     ap_amountCents = p_amountCents payment, ap_currency = p_currency payment,
     ap_createdAt = p_createdAt payment\<rparr>"

definition payments_listAll :: "nat \<Rightarrow> nat \<Rightarrow> (world, adminPaymentSummary paginated) prog" where
  "payments_listAll page pageSize =
     await (find_many Payment (\<lambda>_. True)) (\<lambda>items.
     await (count_rows Payment (\<lambda>_. True)) (\<lambda>total.
     ret \<lparr>pg_items = map toAdminPaymentSummary (page_of page pageSize (order_desc p_createdAt items)),
          pg_total = total, pg_page = page, pg_pageSize = pageSize\<rparr>))"

end
