(* ===== verification/PaymentLaws.thy ===== *)
theory PaymentLaws
  imports PaymentsService
begin

text \<open>
  What the payments promise. \<open>pay_step\<close> interleaves the requests: between the moment a handler
  has read a payment and the moment it settles it, any other request may run, and a settlement may
  be tried more than once. The invariant \<open>payment_inv\<close> ties approved payments, paid orders and
  the purchase lines of the ledger together; it holds in every reachable state.
\<close>

section \<open>The invariant\<close>

definition purchases :: "database \<Rightarrow> walletTransaction list" where
  "purchases d = filter (\<lambda>t. t_type t = PURCHASE) (walletTransactions d)"

definition owners :: "database \<Rightarrow> (string \<times> string) set" where
  "owners d = set (map (\<lambda>w. (w_id w, w_userId w)) (wallets d))"

text \<open>The purchase line \<open>t\<close> pays out order \<open>ord\<close>.\<close>

definition pays_out :: "database \<Rightarrow> orderRow \<Rightarrow> walletTransaction \<Rightarrow> bool" where
  "pays_out d ord t = (t_orderId t = Some (o_id ord) \<and> t_amount t = o_credits ord \<and>
     (t_walletId t, o_userId ord) \<in> owners d)"

definition payment_inv :: "database \<Rightarrow> bool" where
  "payment_inv d =
     (distinct (map o_id (orders d)) \<and> distinct (map p_id (payments d)) \<and>
      (\<forall>p \<in> set (payments d). p_orderId p \<in> o_id ` set (orders d)) \<and>
      (\<forall>p \<in> set (payments d). p_status p = PAY_APPROVED \<longrightarrow>
         (\<exists>ord \<in> set (orders d). o_id ord = p_orderId p \<and> o_status ord = ORD_PAID \<and>
            (\<exists>t \<in> set (purchases d). pays_out d ord t))) \<and>
      (\<forall>t \<in> set (purchases d). \<exists>p \<in> set (payments d). p_status p = PAY_APPROVED \<and> t_orderId t = Some (p_orderId p)) \<and>
      (\<forall>p \<in> set (payments d). \<forall>q \<in> set (payments d). p_status p = PAY_APPROVED \<longrightarrow>
         p_status q = PAY_APPROVED \<longrightarrow> p_orderId p = p_orderId q \<longrightarrow> p = q) \<and>
      (\<forall>ord \<in> set (orders d). 0 \<le> o_credits ord) \<and>
      distinct (map t_idempotencyKey (walletTransactions d)))"

lemma payment_invD:
  assumes "payment_inv d"
  shows "distinct (map o_id (orders d))" "distinct (map p_id (payments d))"
    "p \<in> set (payments d) \<Longrightarrow> p_orderId p \<in> o_id ` set (orders d)"
    "p \<in> set (payments d) \<Longrightarrow> p_status p = PAY_APPROVED \<Longrightarrow>
       \<exists>ord \<in> set (orders d). o_id ord = p_orderId p \<and> o_status ord = ORD_PAID \<and> (\<exists>t \<in> set (purchases d). pays_out d ord t)"
    "t \<in> set (purchases d) \<Longrightarrow> \<exists>p \<in> set (payments d). p_status p = PAY_APPROVED \<and> t_orderId t = Some (p_orderId p)"
    "p \<in> set (payments d) \<Longrightarrow> q \<in> set (payments d) \<Longrightarrow> p_status p = PAY_APPROVED \<Longrightarrow>
       p_status q = PAY_APPROVED \<Longrightarrow> p_orderId p = p_orderId q \<Longrightarrow> p = q"
    "ord \<in> set (orders d) \<Longrightarrow> 0 \<le> o_credits ord"
    "distinct (map t_idempotencyKey (walletTransactions d))"
  using assms unfolding payment_inv_def by blast+

text \<open>What \<open>payment_inv\<close> looks at: more owners and other ledger lines do no harm.\<close>

lemma payment_inv_mono:
  assumes "payment_inv d" "orders d' = orders d" "payments d' = payments d" "purchases d' = purchases d"
    and "owners d \<subseteq> owners d'" "distinct (map t_idempotencyKey (walletTransactions d'))"
  shows "payment_inv d'"
proof -
  have "pays_out d ord t \<Longrightarrow> pays_out d' ord t" for ord t
    using assms(5) by (auto simp: pays_out_def)
  with assms(1) show ?thesis unfolding payment_inv_def assms(2-4) using assms(6) by meson
qed

lemma payment_ignores:
  "ignores payment_inv CreditReservation" "ignores payment_inv AuditLog" "ignores payment_inv WebhookEvent"
  "ignores payment_inv FlashOfferUnlock"
  by (simp_all add: ignores_def payment_inv_def purchases_def pays_out_def owners_def CreditReservation_def
      AuditLog_def WebhookEvent_def FlashOfferUnlock_def)

lemma payment_line [keeps_intro]:
  assumes "ty \<noteq> PURCHASE"
  shows "keeps payment_inv (ledger_create E wid ty a b key rid oid)"
proof (rule keepsI)
  fix w r w' assume inv: "payment_inv (db w)" and run: "ledger_create E wid ty a b key rid oid w = (r, w')"
  show "payment_inv (db w')"
  proof (cases r)
    case (Inl e)
    with run have "db w' = db w" by (auto simp: ledger_create_def prog_inv create_Inl_iff)
    with inv show ?thesis by simp
  next
    case (Inr x)
    with run have n: "\<forall>t \<in> set (walletTransactions (db w)). t_idempotencyKey t \<noteq> key"
      and w': "db w' = (db w)\<lparr>walletTransactions := walletTransactions (db w) @
         [new_line (e_uuid E (uuids w)) wid ty a b key rid oid (e_clock E (ticks w))]\<rparr>"
      by (simp_all add: ledger_create_Inr_iff)
    show ?thesis
      by (rule payment_inv_mono [OF inv])
        (use n assms payment_invD(8) [OF inv] in \<open>auto simp: w' purchases_def owners_def\<close>)
  qed
qed

lemma payment_wallet_update [keeps_intro]:
  assumes "\<And>x. w_id (f x) = w_id x \<and> w_userId (f x) = w_userId x"
  shows "keeps payment_inv (update_many Wallet P f)" "keeps payment_inv (update_row Wallet P f)"
proof -
  have "(\<lambda>w. (w_id w, w_userId w)) \<circ> (\<lambda>r. if P r then f r else r) = (\<lambda>w. (w_id w, w_userId w))"
    using assms by auto
  then have o: "owners (d\<lparr>wallets := map (\<lambda>r. if P r then f r else r) (wallets d)\<rparr>) = owners d" for d
    unfolding owners_def by (simp del: set_map)
  have "payment_inv (d\<lparr>wallets := map (\<lambda>r. if P r then f r else r) (wallets d)\<rparr>)" if "payment_inv d" for d
    by (rule payment_inv_mono [OF that]) (use o payment_invD(8) [OF that] in \<open>simp_all add: purchases_def\<close>)
  then show "keeps payment_inv (update_many Wallet P f)" "keeps payment_inv (update_row Wallet P f)"
    by (simp_all add: keeps_def update_many_def update_row_def Wallet_def split: option.splits)
qed

lemma payment_wallet_create [keeps_intro]: "keeps payment_inv (create Wallet x)"
proof -
  have "payment_inv (d\<lparr>wallets := wallets d @ [x]\<rparr>)" if "payment_inv d" for d
    by (rule payment_inv_mono [OF that]) (use payment_invD(8) [OF that] in \<open>auto simp: purchases_def owners_def\<close>)
  then show ?thesis by (simp add: keeps_def create_def Wallet_def)
qed

lemma payment_audit [keeps_intro]: "keeps payment_inv (audit_record E actor act reason tt ti md)"
  unfolding audit_record_def by (intro keeps_intro payment_ignores)

text \<open>No wallet request but a purchase concerns the payments.\<close>

lemma payment_wallet_ops:
  "keeps payment_inv (createWalletWithBonus E u)"
  "keeps payment_inv (reserveCreditsForReading E u rid a)"
  "keeps payment_inv (confirmConsumption E rid)"
  "keeps payment_inv (releaseReservation E rid)"
  "keeps payment_inv (adjustBalance E u a reason actor)"
  unfolding createWalletWithBonus_def reserveCreditsForReading_def confirmConsumption_def
    releaseReservation_def adjustBalance_def
  by (intro keeps_intro payment_ignores; simp)+

section \<open>Settling a payment\<close>

text \<open>Marking the payment a settlement is about, and an order.\<close>

definition mark_payment :: "payment \<Rightarrow> transactionResult \<Rightarrow> paymentStatus \<Rightarrow> payment list \<Rightarrow> payment list" where
  "mark_payment payment tx status ps =
     map (\<lambda>p. if p_id p = p_id payment \<and> p_status p = PAY_PENDING
          then p\<lparr>p_status := status, p_providerTransactionId := Some (tr_providerTransactionId tx)\<rparr> else p) ps"

definition mark_order :: "(orderRow \<Rightarrow> bool) \<Rightarrow> orderStatus \<Rightarrow> orderRow list \<Rightarrow> orderRow list" where
  "mark_order P status ords = map (\<lambda>ord. if P ord then ord\<lparr>o_status := status\<rparr> else ord) ords"

definition pending :: "payment \<Rightarrow> database \<Rightarrow> bool" where
  "pending payment d = (\<exists>p \<in> set (payments d). p_id p = p_id payment \<and> p_status p = PAY_PENDING)"

lemma mark_payment_keys [simp]:
  "map p_id (mark_payment payment tx status ps) = map p_id ps"
  "map p_orderId (mark_payment payment tx status ps) = map p_orderId ps"
  by (simp_all add: mark_payment_def)

lemma mark_payment_id:
  "\<forall>p \<in> set ps. \<not> (p_id p = p_id payment \<and> p_status p = PAY_PENDING) \<Longrightarrow> mark_payment payment tx status ps = ps"
  unfolding mark_payment_def by (intro map_idI) auto

lemma mark_order_keys [simp]:
  "map o_id (mark_order P status ords) = map o_id ords"
  "o_id ` set (mark_order P status ords) = o_id ` set ords"
proof -
  show "map o_id (mark_order P status ords) = map o_id ords" by (simp add: mark_order_def)
  then show "o_id ` set (mark_order P status ords) = o_id ` set ords" by (metis set_map)
qed

lemma mark_order_mem:
  assumes "ord \<in> set (mark_order P status ords)"
  obtains x where "x \<in> set ords" "ord = (if P x then x\<lparr>o_status := status\<rparr> else x)"
  using map_update_memD [OF assms [unfolded mark_order_def]] by blast

lemma mark_order_in:
  "x \<in> set ords \<Longrightarrow> (if P x then x\<lparr>o_status := status\<rparr> else x) \<in> set (mark_order P status ords)"
  unfolding mark_order_def set_map by (rule imageI)

lemma mark_payment_mem:
  assumes "p \<in> set (mark_payment payment tx status ps)"
  obtains q where "q \<in> set ps" "p_id p = p_id q" "p_orderId p = p_orderId q"
    "if p_id q = p_id payment \<and> p_status q = PAY_PENDING then p_status p = status else p = q"
proof -
  obtain q where q: "q \<in> set ps" "p = (if p_id q = p_id payment \<and> p_status q = PAY_PENDING
      then q\<lparr>p_status := status, p_providerTransactionId := Some (tr_providerTransactionId tx)\<rparr> else q)"
    using map_update_memD [OF assms [unfolded mark_payment_def]] by blast
  then show thesis by (intro that [OF q(1)]) auto
qed

text \<open>The outcomes of the two ways a payment ends.\<close>

lemma payment_tables:
  "rows Payment = payments" "set_rows Payment = (\<lambda>g d. d\<lparr>payments := g (payments d)\<rparr>)"
  "rows Order = orders" "set_rows Order = (\<lambda>g d. d\<lparr>orders := g (orders d)\<rparr>)"
  by (simp_all add: Payment_def Order_def)

lemma not_pending_filter:
  "filter (\<lambda>p. p_id p = p_id payment \<and> p_status p = PAY_PENDING) (payments d) = [] \<longleftrightarrow> \<not> pending payment d"
  by (auto simp: pending_def filter_empty_conv)

lemma update_payment_run:
  assumes "update_many Payment (\<lambda>p. p_id p = p_id payment \<and> p_status p = PAY_PENDING)
      (\<lambda>p. p\<lparr>p_status := status, p_providerTransactionId := Some (tr_providerTransactionId tx)\<rparr>) w = (Inr n, w')"
  shows "n = 0 \<longleftrightarrow> \<not> pending payment (db w)"
    and "db w' = (db w)\<lparr>payments := mark_payment payment tx status (payments (db w))\<rparr>"
    and "\<not> pending payment (db w) \<Longrightarrow> db w' = db w"
proof -
  from assms have n: "n = length (filter (\<lambda>p. p_id p = p_id payment \<and> p_status p = PAY_PENDING) (payments (db w)))"
    and w': "db w' = (db w)\<lparr>payments := mark_payment payment tx status (payments (db w))\<rparr>"
    by (auto simp: update_many_Inr_iff payment_tables mark_payment_def)
  show "n = 0 \<longleftrightarrow> \<not> pending payment (db w)" by (simp add: n not_pending_filter)
  show "db w' = (db w)\<lparr>payments := mark_payment payment tx status (payments (db w))\<rparr>" by (fact w')
  show "db w' = db w" if "\<not> pending payment (db w)"
    using that w' mark_payment_id [of "payments (db w)" payment tx status] by (auto simp: pending_def)
qed

lemma approve_Inr:
  assumes run: "approvePayment E payment tx status w = (Inr x, w')"
  shows "\<not> pending payment (db w) \<and> db w' = db w \<or>
    pending payment (db w) \<and> (\<exists>ord w1. find (\<lambda>y. o_id y = p_orderId payment) (orders (db w)) = Some ord \<and>
       db w1 = (db w)\<lparr>payments := mark_payment payment tx status (payments (db w)),
                       orders := mark_order (\<lambda>y. o_id y = o_id ord) ORD_PAID (orders (db w))\<rparr> \<and>
       creditPurchase E (o_userId ord) (o_id ord) (o_credits ord) w1 = (Inr x, w'))"
proof -
  from run have "await (update_many Payment (\<lambda>p. p_id p = p_id payment \<and> p_status p = PAY_PENDING)
      (\<lambda>p. p\<lparr>p_status := status, p_providerTransactionId := Some (tr_providerTransactionId tx)\<rparr>)) (\<lambda>updated.
        if updated = 0 then ret ()
        else await (find_or_throw Order (\<lambda>ord. o_id ord = p_orderId payment)) (\<lambda>order.
          andthen (update_row Order (\<lambda>ord. o_id ord = o_id order) (\<lambda>ord. ord\<lparr>o_status := ORD_PAID\<rparr>))
            (creditPurchase E (o_userId order) (o_id order) (o_credits order)))) w = (Inr x, w')"
    by (simp add: approvePayment_def transaction_Inr_iff)
  then obtain n w0 where u: "update_many Payment (\<lambda>p. p_id p = p_id payment \<and> p_status p = PAY_PENDING)
      (\<lambda>p. p\<lparr>p_status := status, p_providerTransactionId := Some (tr_providerTransactionId tx)\<rparr>) w = (Inr n, w0)"
    and k: "(if n = 0 then ret () else await (find_or_throw Order (\<lambda>ord. o_id ord = p_orderId payment)) (\<lambda>order.
          andthen (update_row Order (\<lambda>ord. o_id ord = o_id order) (\<lambda>ord. ord\<lparr>o_status := ORD_PAID\<rparr>))
            (creditPurchase E (o_userId order) (o_id order) (o_credits order)))) w0 = (Inr x, w')"
    by (rule await_InrE)
  note p = update_payment_run [OF u]
  show ?thesis
  proof (cases "pending payment (db w)")
    case False
    with p k show ?thesis by simp
  next
    case True
    with p(1) k obtain ord y w1 where o: "find (\<lambda>y. o_id y = p_orderId payment) (orders (db w0)) = Some ord"
      and y: "update_row Order (\<lambda>z. o_id z = o_id ord) (\<lambda>ord. ord\<lparr>o_status := ORD_PAID\<rparr>) w0 = (Inr y, w1)"
      and c: "creditPurchase E (o_userId ord) (o_id ord) (o_credits ord) w1 = (Inr x, w')"
      by (auto simp: await_Inr_iff andthen_Inr_iff find_or_throw_Inr_iff payment_tables)
    from y p(2) have "db w1 = (db w)\<lparr>payments := mark_payment payment tx status (payments (db w)),
        orders := mark_order (\<lambda>y. o_id y = o_id ord) ORD_PAID (orders (db w))\<rparr>"
      by (auto simp: update_row_Inr_iff payment_tables mark_order_def)
    with o p(2) c True show ?thesis by auto
  qed
qed

lemma terminal_Inr:
  assumes run: "markPaymentTerminal payment tx status w = (Inr x, w')"
  shows "\<not> pending payment (db w) \<and> db w' = db w \<or>
    pending payment (db w) \<and> db w' = (db w)\<lparr>payments := mark_payment payment tx status (payments (db w)),
       orders := mark_order (\<lambda>y. o_id y = p_orderId payment \<and> o_status y = ORD_PENDING) ORD_CANCELLED (orders (db w))\<rparr>"
proof -
  from run have "await (update_many Payment (\<lambda>p. p_id p = p_id payment \<and> p_status p = PAY_PENDING)
      (\<lambda>p. p\<lparr>p_status := status, p_providerTransactionId := Some (tr_providerTransactionId tx)\<rparr>)) (\<lambda>updated.
        if updated = 0 then ret ()
        else andthen (update_many Order (\<lambda>ord. o_id ord = p_orderId payment \<and> o_status ord = ORD_PENDING)
                    (\<lambda>ord. ord\<lparr>o_status := ORD_CANCELLED\<rparr>)) (ret ())) w = (Inr x, w')"
    by (simp add: markPaymentTerminal_def transaction_Inr_iff)
  then obtain n w0 where u: "update_many Payment (\<lambda>p. p_id p = p_id payment \<and> p_status p = PAY_PENDING)
      (\<lambda>p. p\<lparr>p_status := status, p_providerTransactionId := Some (tr_providerTransactionId tx)\<rparr>) w = (Inr n, w0)"
    and k: "(if n = 0 then ret () else andthen (update_many Order (\<lambda>ord. o_id ord = p_orderId payment \<and> o_status ord = ORD_PENDING)
                    (\<lambda>ord. ord\<lparr>o_status := ORD_CANCELLED\<rparr>)) (ret ())) w0 = (Inr x, w')"
    by (rule await_InrE)
  note p = update_payment_run [OF u]
  show ?thesis
  proof (cases "pending payment (db w)")
    case False
    with p k show ?thesis by simp
  next
    case True
    with p(1,2) k show ?thesis
      by (auto simp: andthen_Inr_iff update_many_Inr_iff payment_tables mark_order_def)
  qed
qed

section \<open>Settling keeps the invariant\<close>

fun task_ok :: "database \<Rightarrow> settlement \<Rightarrow> bool" where
  "task_ok d (p, tx, st) = (st \<noteq> PAY_PENDING \<and> (\<exists>q \<in> set (payments d). p_id q = p_id p \<and> p_orderId q = p_orderId p))"

definition money_inv :: "database \<Rightarrow> bool" where
  "money_inv d = (wallet_inv d \<and> payment_inv d)"

lemma wallet_inv_ignores:
  "ignores wallet_inv Payment" "ignores wallet_inv Order" "ignores wallet_inv WebhookEvent"
  "ignores wallet_inv FlashOfferUnlock"
  by (simp_all add: ignores_def wallet_inv_def Payment_def Order_def WebhookEvent_def FlashOfferUnlock_def)

lemma purchase_key:
  "wallet_inv d \<Longrightarrow> t \<in> set (purchases d) \<Longrightarrow> t_orderId t = Some oid \<Longrightarrow> t_idempotencyKey t = ''purchase:'' @ oid"
  by (auto simp: wallet_inv_def reservations_ok_def purchases_def line_ok_def)

lemma pays_out_order:
  "pays_out d x t \<Longrightarrow> o_id y = o_id x \<Longrightarrow> o_credits y = o_credits x \<Longrightarrow> o_userId y = o_userId x \<Longrightarrow> pays_out d y t"
  by (simp add: pays_out_def)

lemma approve_keeps_inv:
  assumes inv: "wallet_inv (db w)" "payment_inv (db w)" and ok: "task_ok (db w) (payment, tx, PAY_APPROVED)"
    and run: "approvePayment E payment tx PAY_APPROVED w = (Inr x, w')" and pend: "pending payment (db w)"
  shows "wallet_inv (db w') \<and> payment_inv (db w')"
proof -
  let ?d = "db w"
  note PI = payment_invD [OF inv(2)]
  from approve_Inr [OF run] pend obtain ord w1
    where ord: "find (\<lambda>y. o_id y = p_orderId payment) (orders ?d) = Some ord"
      and w1: "db w1 = ?d\<lparr>payments := mark_payment payment tx PAY_APPROVED (payments ?d),
                       orders := mark_order (\<lambda>y. o_id y = o_id ord) ORD_PAID (orders ?d)\<rparr>"
      and credit: "creditPurchase E (o_userId ord) (o_id ord) (o_credits ord) w1 = (Inr x, w')"
    by blast
  have o: "ord \<in> set (orders ?d)" "o_id ord = p_orderId payment" using find_SomeD [OF ord] by auto
  have inv1: "wallet_inv (db w1)" using inv(1) by (simp add: w1 wallet_inv_def)
  have wi: "wallet_inv (db w')"
    using keeps_okD [OF credits.credit_keeps [OF PI(7) [OF o(1)]] inv1 credit] .
  from credit wallet_invD(1) [OF inv1] obtain wal li now where wal: "find (\<lambda>w. w_userId w = o_userId ord) (wallets (db w1)) = Some wal"
    and fresh: "\<forall>t \<in> set (walletTransactions (db w1)). t_idempotencyKey t \<noteq> ''purchase:'' @ o_id ord"
    and w': "db w' = (db w1)\<lparr>wallets := bump (w_id wal) (o_credits ord) (wallets (db w1)),
       walletTransactions := walletTransactions (db w1) @
         [new_line li (w_id wal) PURCHASE (o_credits ord) (w_balance wal + o_credits ord) (''purchase:'' @ o_id ord) None (Some (o_id ord)) now]\<rparr>"
    by (rule credit_Inr)
  define t where "t = new_line li (w_id wal) PURCHASE (o_credits ord) (w_balance wal + o_credits ord)
      (''purchase:'' @ o_id ord) None (Some (o_id ord)) now"
  have d': "orders (db w') = mark_order (\<lambda>y. o_id y = o_id ord) ORD_PAID (orders ?d)"
    "payments (db w') = mark_payment payment tx PAY_APPROVED (payments ?d)"
    "purchases (db w') = purchases ?d @ [t]" "owners (db w') = owners ?d"
    "walletTransactions (db w') = walletTransactions ?d @ [t]"
    by (simp_all add: w' w1 t_def purchases_def owners_def bump_def image_image if_distrib cong: if_cong)
  have own: "(t_walletId t, o_userId ord) \<in> owners ?d"
    using find_SomeD [OF wal] by (auto simp: t_def owners_def w1)
  have fresh': "\<forall>s \<in> set (walletTransactions ?d). t_idempotencyKey s \<noteq> ''purchase:'' @ o_id ord"
    using fresh by (simp add: w1)
  have none: "p_orderId p \<noteq> o_id ord" if p: "p \<in> set (payments ?d)" "p_status p = PAY_APPROVED" for p
  proof
    assume eq: "p_orderId p = o_id ord"
    from PI(4) [OF p] obtain y s where s: "s \<in> set (purchases ?d)" and y: "o_id y = p_orderId p" "pays_out ?d y s" by blast
    then have "t_orderId s = Some (o_id ord)" using eq by (simp add: pays_out_def)
    from purchase_key [OF inv(1) s this] fresh' s show False by (simp add: purchases_def)
  qed
  have same: "q = p" if "q \<in> set (payments ?d)" "p \<in> set (payments ?d)" "p_id q = p_id p" for p q
    using distinct_key_unique [OF PI(2) that] .
  obtain q0 where q0: "q0 \<in> set (payments ?d)" "p_id q0 = p_id payment" "p_status q0 = PAY_PENDING" "p_orderId q0 = o_id ord"
  proof -
    obtain q r where "q \<in> set (payments ?d)" "p_id q = p_id payment" "p_status q = PAY_PENDING"
      "r \<in> set (payments ?d)" "p_id r = p_id payment" "p_orderId r = p_orderId payment"
      using pend ok by (auto simp: pending_def)
    with same [of q r] o(2) show thesis by (intro that [of q]) auto
  qed
  have approved: "(p_status p = PAY_APPROVED \<longrightarrow> p_id p = p_id q0 \<and> p_orderId p = o_id ord \<or>
       (\<exists>q \<in> set (payments ?d). p = q \<and> p_status q = PAY_APPROVED \<and> p_orderId q \<noteq> o_id ord))"
    if "p \<in> set (payments (db w'))" for p
    using that [unfolded d'(2)]
  proof (rule mark_payment_mem)
    fix q assume q: "q \<in> set (payments ?d)" "p_id p = p_id q" "p_orderId p = p_orderId q"
      "if p_id q = p_id payment \<and> p_status q = PAY_PENDING then p_status p = PAY_APPROVED else p = q"
    show ?thesis
    proof (cases "p_id q = p_id payment \<and> p_status q = PAY_PENDING")
      case True
      with q(2,3) q0 same [OF q(1) q0(1)] show ?thesis by simp
    next
      case False
      with q(4) have "p = q" by (simp split: if_splits)
      with none [OF q(1)] q(1) show ?thesis by blast
    qed
  qed
  have pay: "pays_out (db w') z s" if "pays_out ?d z s" for z s
    using that by (simp add: pays_out_def d'(4))
  have keep: "p \<in> set (payments (db w'))" if "p \<in> set (payments ?d)" "p_status p \<noteq> PAY_PENDING" for p
    unfolding d'(2) mark_payment_def set_map by (rule image_eqI [OF _ that(1)]) (simp add: that(2))
  have paid: "ord\<lparr>o_status := ORD_PAID\<rparr> \<in> set (orders (db w'))"
    using mark_order_in [OF o(1), of "\<lambda>y. o_id y = o_id ord" ORD_PAID] by (simp add: d'(1))
  have t_pays: "pays_out (db w') (ord\<lparr>o_status := ORD_PAID\<rparr>) t"
    using own by (simp add: pays_out_def d'(4) t_def)
  have 3: "p_orderId p \<in> o_id ` set (orders (db w'))" if "p \<in> set (payments (db w'))" for p
    using that [unfolded d'(2)] by (rule mark_payment_mem) (use PI(3) in \<open>simp add: d'(1)\<close>)
  have 4: "\<exists>z \<in> set (orders (db w')). o_id z = p_orderId p \<and> o_status z = ORD_PAID \<and>
      (\<exists>s \<in> set (purchases (db w')). pays_out (db w') z s)"
    if p: "p \<in> set (payments (db w'))" "p_status p = PAY_APPROVED" for p
  proof -
    consider "p_orderId p = o_id ord" | "p \<in> set (payments ?d)" "p_orderId p \<noteq> o_id ord"
      using approved [OF p(1)] p(2) by blast
    then show ?thesis
    proof cases
      case 1
      with paid t_pays show ?thesis by (intro bexI [OF _ paid]) (auto simp: d'(3))
    next
      case 2
      from PI(4) [OF 2(1) p(2)] obtain z s where z: "z \<in> set (orders ?d)" "o_id z = p_orderId p" "o_status z = ORD_PAID"
        and s: "s \<in> set (purchases ?d)" "pays_out ?d z s" by blast
      have "z \<in> set (orders (db w'))"
        using mark_order_in [OF z(1), of "\<lambda>y. o_id y = o_id ord" ORD_PAID] z(2) 2(2) by (simp add: d'(1))
      with z s pay show ?thesis by (intro bexI [of _ z]) (auto simp: d'(3))
    qed
  qed
  have 5: "\<exists>p \<in> set (payments (db w')). p_status p = PAY_APPROVED \<and> t_orderId s = Some (p_orderId p)"
    if s: "s \<in> set (purchases (db w'))" for s
  proof -
    consider "s = t" | "s \<in> set (purchases ?d)" using s by (auto simp: d'(3))
    then show ?thesis
    proof cases
      case 1
      have "q0\<lparr>p_status := PAY_APPROVED, p_providerTransactionId := Some (tr_providerTransactionId tx)\<rparr> \<in> set (payments (db w'))"
        unfolding d'(2) mark_payment_def set_map by (rule image_eqI [OF _ q0(1)]) (simp add: q0(2,3))
      with 1 q0(4) show ?thesis by (force simp: t_def)
    next
      case 2
      from PI(5) [OF 2] obtain p where "p \<in> set (payments ?d)" "p_status p = PAY_APPROVED" "t_orderId s = Some (p_orderId p)"
        by blast
      with keep [of p] show ?thesis by auto
    qed
  qed
  have ids': "distinct (map p_id (payments (db w')))" using PI(2) by (simp add: d'(2))
  have 6: "p = q" if "p \<in> set (payments (db w'))" "q \<in> set (payments (db w'))" "p_status p = PAY_APPROVED"
      "p_status q = PAY_APPROVED" "p_orderId p = p_orderId q" for p q
    using approved [OF that(1)] approved [OF that(2)] that(3-5) PI(6) [of p q]
      distinct_key_unique [OF ids' that(1,2)] by auto
  have 7: "0 \<le> o_credits z" if "z \<in> set (orders (db w'))" for z
    using that [unfolded d'(1)] by (rule mark_order_mem) (use PI(7) in \<open>auto split: if_splits\<close>)
  have "payment_inv (db w')"
    unfolding payment_inv_def
  proof (intro conjI ballI impI)
    show "distinct (map o_id (orders (db w')))" using PI(1) by (simp add: d'(1))
    show "distinct (map t_idempotencyKey (walletTransactions (db w')))"
      using PI(8) fresh' by (auto simp: d'(5) t_def)
  qed (use ids' 3 4 5 6 7 in blast)+
  with wi show ?thesis by blast
qed

lemma terminal_keeps_inv:
  assumes inv: "wallet_inv (db w)" "payment_inv (db w)" and st: "status \<noteq> PAY_APPROVED" "status \<noteq> PAY_PENDING"
    and run: "markPaymentTerminal payment tx status w = (Inr x, w')" and pend: "pending payment (db w)"
  shows "wallet_inv (db w') \<and> payment_inv (db w')"
proof -
  let ?d = "db w"
  note PI = payment_invD [OF inv(2)]
  from terminal_Inr [OF run] pend have w': "db w' = ?d\<lparr>payments := mark_payment payment tx status (payments ?d),
       orders := mark_order (\<lambda>y. o_id y = p_orderId payment \<and> o_status y = ORD_PENDING) ORD_CANCELLED (orders ?d)\<rparr>"
    by blast
  have d': "orders (db w') = mark_order (\<lambda>y. o_id y = p_orderId payment \<and> o_status y = ORD_PENDING) ORD_CANCELLED (orders ?d)"
    "payments (db w') = mark_payment payment tx status (payments ?d)" "purchases (db w') = purchases ?d"
    "owners (db w') = owners ?d" "walletTransactions (db w') = walletTransactions ?d"
    by (simp_all add: w' purchases_def owners_def)
  have wi: "wallet_inv (db w')" using inv(1) by (simp add: w' wallet_inv_def)
  have old: "p \<in> set (payments ?d)" if p: "p \<in> set (payments (db w'))" "p_status p = PAY_APPROVED" for p
    using p(1) [unfolded d'(2)]
  proof (rule mark_payment_mem)
    fix q assume "q \<in> set (payments ?d)"
      and "if p_id q = p_id payment \<and> p_status q = PAY_PENDING then p_status p = status else p = q"
    with p(2) st(1) show ?thesis by (auto split: if_splits)
  qed
  have keep: "p \<in> set (payments (db w'))" if "p \<in> set (payments ?d)" "p_status p \<noteq> PAY_PENDING" for p
    unfolding d'(2) mark_payment_def set_map by (rule image_eqI [OF _ that(1)]) (simp add: that(2))
  have pay: "pays_out (db w') z s" if "pays_out ?d z s" for z s
    using that by (simp add: pays_out_def d'(4))
  have 3: "p_orderId p \<in> o_id ` set (orders (db w'))" if "p \<in> set (payments (db w'))" for p
    using that [unfolded d'(2)] by (rule mark_payment_mem) (use PI(3) in \<open>simp add: d'(1)\<close>)
  have 4: "\<exists>z \<in> set (orders (db w')). o_id z = p_orderId p \<and> o_status z = ORD_PAID \<and>
      (\<exists>s \<in> set (purchases (db w')). pays_out (db w') z s)"
    if p: "p \<in> set (payments (db w'))" "p_status p = PAY_APPROVED" for p
  proof -
    from PI(4) [OF old [OF p] p(2)] obtain z s where z: "z \<in> set (orders ?d)" "o_id z = p_orderId p" "o_status z = ORD_PAID"
      and s: "s \<in> set (purchases ?d)" "pays_out ?d z s" by blast
    have "z \<in> set (orders (db w'))"
      using mark_order_in [OF z(1), of "\<lambda>y. o_id y = p_orderId payment \<and> o_status y = ORD_PENDING" ORD_CANCELLED] z(3)
      by (simp add: d'(1))
    with z s pay show ?thesis by (intro bexI [of _ z]) (auto simp: d'(3))
  qed
  have 5: "\<exists>p \<in> set (payments (db w')). p_status p = PAY_APPROVED \<and> t_orderId s = Some (p_orderId p)"
    if s: "s \<in> set (purchases (db w'))" for s
  proof -
    from PI(5) s obtain p where "p \<in> set (payments ?d)" "p_status p = PAY_APPROVED" "t_orderId s = Some (p_orderId p)"
      by (auto simp: d'(3))
    with keep [of p] show ?thesis by auto
  qed
  have 6: "p = q" if "p \<in> set (payments (db w'))" "q \<in> set (payments (db w'))" "p_status p = PAY_APPROVED"
      "p_status q = PAY_APPROVED" "p_orderId p = p_orderId q" for p q
    using PI(6) [OF old [OF that(1,3)] old [OF that(2,4)] that(3-5)] .
  have 7: "0 \<le> o_credits z" if "z \<in> set (orders (db w'))" for z
    using that [unfolded d'(1)] by (rule mark_order_mem) (use PI(7) in \<open>auto split: if_splits\<close>)
  have "payment_inv (db w')"
    unfolding payment_inv_def
  proof (intro conjI ballI impI)
    show "distinct (map o_id (orders (db w')))" using PI(1) by (simp add: d'(1))
    show "distinct (map p_id (payments (db w')))" using PI(2) by (simp add: d'(2))
    show "distinct (map t_idempotencyKey (walletTransactions (db w')))" using PI(8) by (simp add: d'(5))
  qed (use 3 4 5 6 7 in blast)+
  with wi show ?thesis by blast
qed

text \<open>Payments are never deleted, and never change their order.\<close>

definition payment_keys :: "database \<Rightarrow> (string \<times> string) list" where
  "payment_keys d = map (\<lambda>p. (p_id p, p_orderId p)) (payments d)"

lemma task_ok_keys:
  "task_ok d (p, tx, st) \<longleftrightarrow> st \<noteq> PAY_PENDING \<and> (p_id p, p_orderId p) \<in> set (payment_keys d)"
  by (simp add: payment_keys_def image_iff) (metis (no_types))

lemma task_ok_mono:
  "set (payment_keys d) \<subseteq> set (payment_keys d') \<Longrightarrow> task_ok d t \<Longrightarrow> task_ok d' t"
  by (cases t) (auto simp: task_ok_keys simp del: task_ok.simps)

lemma mark_payment_key_pairs:
  "map (\<lambda>p. (p_id p, p_orderId p)) (mark_payment payment tx status ps) = map (\<lambda>p. (p_id p, p_orderId p)) ps"
  by (simp add: mark_payment_def)

lemma settle_payment_step:
  assumes inv: "money_inv (db w)" and ok: "task_ok (db w) t" and run: "settle_payment E t w = (r, w')"
  shows "money_inv (db w') \<and> payment_keys (db w') = payment_keys (db w)"
proof -
  obtain payment tx st where t: "t = (payment, tx, st)" by (cases t)
  show ?thesis
  proof (cases r)
    case (Inl e)
    with run have "db w' = db w"
      by (auto simp: t settle_payment_def approvePayment_def markPaymentTerminal_def split: if_splits
          dest: transaction_error_db)
    with inv show ?thesis by simp
  next
    case (Inr x)
    show ?thesis
    proof (cases "st = PAY_APPROVED")
      case True
      with run Inr have run': "approvePayment E payment tx PAY_APPROVED w = (Inr x, w')" by (simp add: t settle_payment_def)
      show ?thesis
      proof (cases "pending payment (db w)")
        case pend: True
        from approve_Inr [OF run'] pend obtain ord w1
          where "find (\<lambda>y. o_id y = p_orderId payment) (orders (db w)) = Some ord"
          and w1: "db w1 = (db w)\<lparr>payments := mark_payment payment tx PAY_APPROVED (payments (db w)),
                       orders := mark_order (\<lambda>y. o_id y = o_id ord) ORD_PAID (orders (db w))\<rparr>"
          and c: "creditPurchase E (o_userId ord) (o_id ord) (o_credits ord) w1 = (Inr x, w')" by blast
        have "keeps (\<lambda>d. payment_keys d = K) (creditPurchase E u oid n)" for K u oid n
          unfolding creditPurchase_def ledger_create_def
          by (intro keeps_intro) (simp_all add: ignores_def payment_keys_def Wallet_def WalletTransaction_def)
        from keepsD_run [OF this _ c] have "payment_keys (db w') = payment_keys (db w1)" by blast
        with w1 mark_payment_key_pairs have "payment_keys (db w') = payment_keys (db w)"
          by (simp add: payment_keys_def)
        with approve_keeps_inv [OF _ _ _ run' pend] inv ok True t show ?thesis by (simp add: money_inv_def)
      next
        case False
        with approve_Inr [OF run'] inv show ?thesis by auto
      qed
    next
      case False
      with run Inr have run': "markPaymentTerminal payment tx st w = (Inr x, w')" by (simp add: t settle_payment_def)
      show ?thesis
      proof (cases "pending payment (db w)")
        case pend: True
        have "st \<noteq> PAY_PENDING" using ok t by simp
        with terminal_keeps_inv [OF _ _ False _ run' pend] terminal_Inr [OF run'] pend inv show ?thesis
          by (auto simp: money_inv_def payment_keys_def mark_payment_key_pairs)
      next
        case no: False
        with terminal_Inr [OF run'] inv show ?thesis by auto
      qed
    qed
  qed
qed

section \<open>What the service asks of a provider\<close>

text \<open>
  A provider puts what it is given into the checkout intent, and asking it for a transaction does
  not touch our state.
\<close>

locale payment_provider =
  fixes P :: paymentProvider
  assumes intent_carries: "ci_reference (pp_buildCheckoutIntent P r a c u) = r \<and>
      ci_amountInCents (pp_buildCheckoutIntent P r a c u) = a \<and>
      ci_currency (pp_buildCheckoutIntent P r a c u) = c"
    and fetch_pure: "pp_fetchTransaction P i w = (x, w') \<Longrightarrow> w' = w"
begin

lemma fetch_keeps: "keeps I (pp_fetchTransaction P i)"
  by (rule keepsI) (use fetch_pure in blast)

lemma webhook_prepare_keeps: "ignores I WebhookEvent \<Longrightarrow> keeps I (webhook_prepare E P body)"
  unfolding webhook_prepare_def by (intro keeps_intro) (auto simp: keeps_throw keeps_ret)

lemma return_prepare_keeps: "keeps I (return_prepare P u oid i)"
  unfolding return_prepare_def by (intro keeps_intro fetch_keeps)

lemma terminal_not_pending: "TERMINAL_STATUS_MAP s \<noteq> Some PAY_PENDING"
  by (cases s) (simp_all add: TERMINAL_STATUS_MAP_def)

lemma webhook_prepare_task:
  assumes "webhook_prepare E P body w = (Inr (Some t), w')"
  shows "task_ok (db w') t"
proof -
  from assms obtain p tx st where t: "t = (p, tx, st)" "TERMINAL_STATUS_MAP (tr_status tx) = Some st"
    and p: "find (\<lambda>p. p_provider p = pp_name P \<and> p_providerReference p = tr_reference tx) (payments (db w')) = Some p"
    by (auto simp: webhook_prepare_def await_Inr_iff case_option_Inr_iff payment_tables split: option.splits prod.splits if_splits)
  with find_SomeD [OF p] terminal_not_pending show ?thesis by auto
qed

lemma return_prepare_task:
  assumes "return_prepare P u oid i w = (Inr (Some t), w')"
  shows "task_ok (db w') t"
proof -
  from assms obtain p tx st where t: "t = (p, tx, st)" "TERMINAL_STATUS_MAP (tr_status tx) = Some st"
    and "p \<in> set (payments (db w'))"
    by (auto simp: return_prepare_def await_Inr_iff case_option_Inr_iff payment_tables split: option.splits if_splits
        dest!: fetch_pure first_desc_SomeD)
  with terminal_not_pending show ?thesis by auto
qed

end

interpretation wompi_provider: payment_provider "wompi E http apiUrl" for E http apiUrl
  by unfold_locales (auto simp: wompi_def wompi_buildCheckoutIntent_def wompi_fetchTransaction_def)

declare task_ok.simps [simp del]

section \<open>Interleaved requests\<close>

lemma payment_inv_new_order:
  assumes "payment_inv d" "\<forall>x \<in> set (orders d). o_id ord \<noteq> o_id x" "0 \<le> o_credits ord"
  shows "payment_inv (d\<lparr>orders := orders d @ [ord]\<rparr>)"
proof -
  have "purchases (d\<lparr>orders := orders d @ [ord]\<rparr>) = purchases d"
    "pays_out (d\<lparr>orders := orders d @ [ord]\<rparr>) = pays_out d"
    by (simp_all add: purchases_def pays_out_def owners_def fun_eq_iff)
  with assms show ?thesis unfolding payment_inv_def by (simp add: image_iff)
qed

lemma payment_inv_new_payment:
  assumes "payment_inv d" "\<forall>x \<in> set (payments d). p_id p \<noteq> p_id x" "p_status p = PAY_PENDING"
    and "p_orderId p \<in> o_id ` set (orders d)"
  shows "payment_inv (d\<lparr>payments := payments d @ [p]\<rparr>)"
proof -
  have "purchases (d\<lparr>payments := payments d @ [p]\<rparr>) = purchases d"
    "pays_out (d\<lparr>payments := payments d @ [p]\<rparr>) = pays_out d"
    by (simp_all add: purchases_def pays_out_def owners_def fun_eq_iff)
  with assms show ?thesis unfolding payment_inv_def by (simp add: image_iff)
qed

definition packages_ok :: "database \<Rightarrow> bool" where
  "packages_ok d = (\<forall>p \<in> set (creditPackages d). 0 \<le> cp_credits p)"

lemma orders_create_keeps_money:
  assumes inv: "money_inv (db w)" "packages_ok (db w)" and run: "orders_create E u code w = (r, w')"
  shows "money_inv (db w') \<and> payment_keys (db w') = payment_keys (db w)"
proof (cases r)
  case (Inl e)
  with orders_create_Inl run inv show ?thesis by fastforce
next
  case (Inr s)
  obtain pkg i now where pkg: "find (\<lambda>p. cp_code p = code \<and> cp_isActive p) (creditPackages (db w)) = Some pkg"
    and i: "\<forall>x \<in> set (orders (db w)). o_id x \<noteq> i"
    and c: "case live_offer u code (e_clock E (ticks w)) (db w) of
       None \<Rightarrow> s = toOrderSummary (order_row E u pkg (cp_priceCents pkg) None i now) \<and>
         db w' = (db w)\<lparr>orders := orders (db w) @ [order_row E u pkg (cp_priceCents pkg) None i now]\<rparr>
     | Some f \<Rightarrow>
         let price = discounted (cp_priceCents pkg) (fo_discountPercent f);
             ord = order_row E u pkg price (Some (fo_discountPercent f)) i now in
         s = toOrderSummary ord \<and>
         db w' = (db w)\<lparr>flashOfferUnlocks := consume_offer (fo_id f) (e_clock E (Suc (ticks w))) (flashOfferUnlocks (db w)),
           orders := orders (db w) @ [ord]\<rparr>"
    by (rule orders_create_Inr [OF run [unfolded Inr]])
  have cr: "0 \<le> cp_credits pkg" using find_SomeD [OF pkg] inv(2) by (simp add: packages_ok_def)
  obtain fs ord where w': "db w' = (db w)\<lparr>flashOfferUnlocks := fs, orders := orders (db w) @ [ord]\<rparr>"
    and ord: "o_id ord = i" "o_credits ord = cp_credits pkg"
  proof (cases "live_offer u code (e_clock E (ticks w)) (db w)")
    case None
    with c show thesis
      by (intro that [where fs = "flashOfferUnlocks (db w)" and ord = "order_row E u pkg (cp_priceCents pkg) None i now"])
        (auto simp: order_row_def)
  next
    case (Some f)
    with c show thesis
      by (intro that [where fs = "consume_offer (fo_id f) (e_clock E (Suc (ticks w))) (flashOfferUnlocks (db w))"
            and ord = "order_row E u pkg (discounted (cp_priceCents pkg) (fo_discountPercent f)) (Some (fo_discountPercent f)) i now"])
        (auto simp: order_row_def Let_def)
  qed
  define d where "d = (db w)\<lparr>flashOfferUnlocks := fs\<rparr>"
  have "payment_inv d" "wallet_inv d"
    using inv(1) payment_ignores(4) wallet_inv_ignores(4)
    by (simp_all add: d_def money_inv_def payment_inv_def purchases_def pays_out_def owners_def wallet_inv_def)
  moreover have "\<forall>x \<in> set (orders d). o_id ord \<noteq> o_id x" using i ord by (auto simp: d_def)
  ultimately show ?thesis
    using payment_inv_new_order [of d ord] ord cr
    by (simp add: w' d_def money_inv_def payment_keys_def wallet_inv_def)
qed

lemma checkout_Inr:
  assumes run: "createCheckoutIntent E P u oid w = (Inr ci, w')"
  obtains ord p where "ord \<in> set (orders (db w))" "o_id ord = oid" "o_userId ord = u" "o_status ord = ORD_PENDING"
    "db w' = (db w)\<lparr>payments := payments (db w) @ [p]\<rparr>" "\<forall>x \<in> set (payments (db w)). p_id p \<noteq> p_id x"
    "p_orderId p = oid" "p_status p = PAY_PENDING" "p_amountCents p = o_priceCents ord" "p_currency p = o_currency ord"
    "p_provider p = pp_name P"
    "ci = pp_buildCheckoutIntent P (p_providerReference p) (o_priceCents ord) (o_currency ord)
       (e_appUrl E @ ''/wallet/checkout/'' @ oid)"
proof -
  from run obtain ord where ord: "find (\<lambda>ord. o_id ord = oid \<and> o_userId ord = u) (orders (db w)) = Some ord"
    by (auto simp: createCheckoutIntent_def await_Inr_iff payment_tables split: option.splits)
  have st: "o_status ord = ORD_PENDING"
    using run ord by (auto simp: createCheckoutIntent_def await_def payment_tables split: if_splits)
  have o: "ord \<in> set (orders (db w))" "o_id ord = oid" "o_userId ord = u" using find_SomeD [OF ord] by auto
  define p where "p = \<lparr>p_id = e_uuid E (Suc (uuids w)), p_orderId = oid, p_provider = pp_name P,
     p_providerReference = ''order-'' @ oid @ ''-'' @ e_uuid E (uuids w), p_providerTransactionId = None,
     p_status = PAY_PENDING, p_amountCents = o_priceCents ord, p_currency = o_currency ord,
     p_createdAt = e_clock E (ticks w)\<rparr>"
  have q: "\<not> list_ex (clash Payment p) (payments (db w)) \<and> db w' = (db w)\<lparr>payments := payments (db w) @ [p]\<rparr> \<and>
    ci = pp_buildCheckoutIntent P (p_providerReference p) (o_priceCents ord) (o_currency ord)
       (e_appUrl E @ ''/wallet/checkout/'' @ oid)"
    using run ord o(2) st
    by (auto simp: createCheckoutIntent_def await_def andthen_def payment_tables create_def p_def Let_def split: if_splits)
  then have "\<forall>x \<in> set (payments (db w)). p_id p \<noteq> p_id x" by (auto simp: Payment_def list_ex_iff)
  with q o st show thesis by (intro that [of ord p]) (auto simp: p_def)
qed

lemma checkout_keeps_money:
  assumes inv: "money_inv (db w)" and run: "createCheckoutIntent E P u oid w = (r, w')"
  shows "money_inv (db w') \<and> set (payment_keys (db w)) \<subseteq> set (payment_keys (db w'))"
proof (cases r)
  case (Inl e)
  have "db w' = db w"
    using run Inl by (auto simp: createCheckoutIntent_def prog_inv create_Inl_iff Let_def split: option.splits if_splits)
  with inv show ?thesis by simp
next
  case (Inr ci)
  from run [unfolded Inr] obtain ord p where "ord \<in> set (orders (db w))" "o_id ord = oid"
    and w': "db w' = (db w)\<lparr>payments := payments (db w) @ [p]\<rparr>" and p: "\<forall>x \<in> set (payments (db w)). p_id p \<noteq> p_id x"
    "p_orderId p = oid" "p_status p = PAY_PENDING"
    by (rule checkout_Inr)
  with payment_inv_new_payment [OF _ p(1,3)] inv show ?thesis
    by (auto simp: money_inv_def payment_keys_def wallet_inv_def)
qed

text \<open>
  The states: the world, and the settlements that handlers hold and have not finished. A step is
  one request up to its next point of interleaving.
\<close>

definition held_task :: "exn + settlement option \<Rightarrow> settlement list" where
  "held_task r = (case r of Inr (Some t) \<Rightarrow> [t] | _ \<Rightarrow> [])"

fun credits_wallet :: "walletRequest \<Rightarrow> bool" where
  "credits_wallet (Credit _ _ _) = True"
| "credits_wallet _ = False"

inductive pay_step :: "env \<Rightarrow> paymentProvider \<Rightarrow> world \<times> settlement list \<Rightarrow> world \<times> settlement list \<Rightarrow> bool"
  for E :: env and P :: paymentProvider where
  place: "orders_create E u code w = (r, w') \<Longrightarrow> pay_step E P (w, ts) (w', ts)"
| checkout: "createCheckoutIntent E P u oid w = (r, w') \<Longrightarrow> pay_step E P (w, ts) (w', ts)"
| wallet: "request_ok req \<Longrightarrow> \<not> credits_wallet req \<Longrightarrow> pay_step E P (w, ts) (serve E req w, ts)"
| webhook: "webhook_prepare E P body w = (r, w') \<Longrightarrow> pay_step E P (w, ts) (w', held_task r @ ts)"
| return: "return_prepare P u oid i w = (r, w') \<Longrightarrow> pay_step E P (w, ts) (w', held_task r @ ts)"
| settle: "t \<in> set ts \<Longrightarrow> settle_payment E t w = (r, w') \<Longrightarrow> pay_step E P (w, ts) (w', ts)"

inductive_cases pay_stepE: "pay_step E P s s'"

definition pay_inv :: "world \<times> settlement list \<Rightarrow> bool" where
  "pay_inv s = (money_inv (db (fst s)) \<and> packages_ok (db (fst s)) \<and> (\<forall>t \<in> set (snd s). task_ok (db (fst s)) t))"

lemma packages_ignores:
  "ignores packages_ok Wallet" "ignores packages_ok WalletTransaction" "ignores packages_ok CreditReservation"
  "ignores packages_ok AuditLog" "ignores packages_ok Payment" "ignores packages_ok Order"
  "ignores packages_ok WebhookEvent" "ignores packages_ok FlashOfferUnlock"
  by (simp_all add: ignores_def packages_ok_def table_defs)

lemma packages_keeps:
  "keeps packages_ok (createWalletWithBonus E u)"
  "keeps packages_ok (reserveCreditsForReading E u rid a)"
  "keeps packages_ok (confirmConsumption E rid)"
  "keeps packages_ok (releaseReservation E rid)"
  "keeps packages_ok (creditPurchase E u oid c)"
  "keeps packages_ok (adjustBalance E u a reason actor)"
  "keeps packages_ok (findActivePackageByCode code)"
  "keeps packages_ok (approvePayment E payment tx st)"
  "keeps packages_ok (markPaymentTerminal payment tx st)"
  "keeps packages_ok (orders_create E u code)"
  "keeps packages_ok (createCheckoutIntent E P u oid)"
  unfolding createWalletWithBonus_def reserveCreditsForReading_def confirmConsumption_def
    releaseReservation_def creditPurchase_def adjustBalance_def findActivePackageByCode_def approvePayment_def
    markPaymentTerminal_def orders_create_def createCheckoutIntent_def ledger_create_def audit_record_def
  by (intro keeps_intro packages_ignores; simp?)+

lemma keys_ignores:
  "ignores (\<lambda>d. payment_keys d = K) Wallet" "ignores (\<lambda>d. payment_keys d = K) WalletTransaction"
  "ignores (\<lambda>d. payment_keys d = K) CreditReservation" "ignores (\<lambda>d. payment_keys d = K) AuditLog"
  "ignores (\<lambda>d. payment_keys d = K) WebhookEvent"
  by (simp_all add: ignores_def payment_keys_def table_defs)

lemma keys_wallet_keeps:
  "keeps (\<lambda>d. payment_keys d = K) (createWalletWithBonus E u)"
  "keeps (\<lambda>d. payment_keys d = K) (reserveCreditsForReading E u rid a)"
  "keeps (\<lambda>d. payment_keys d = K) (confirmConsumption E rid)"
  "keeps (\<lambda>d. payment_keys d = K) (releaseReservation E rid)"
  "keeps (\<lambda>d. payment_keys d = K) (adjustBalance E u a reason actor)"
  unfolding createWalletWithBonus_def reserveCreditsForReading_def confirmConsumption_def
    releaseReservation_def adjustBalance_def ledger_create_def audit_record_def
  by (intro keeps_intro keys_ignores; simp?)+

text \<open>A wallet request that is no purchase leaves the payments alone.\<close>

lemma serve_wallet_step:
  assumes "0 \<le> e_bonusCredits E" "request_ok req" "\<not> credits_wallet req"
    and inv: "money_inv (db w)" "packages_ok (db w)"
  shows "money_inv (db (serve E req w)) \<and> packages_ok (db (serve E req w)) \<and>
    payment_keys (db (serve E req w)) = payment_keys (db w)"
proof -
  have "payment_inv (db (serve E req w))" using assms(3) inv(1)
    by (cases req) (auto simp: money_inv_def intro!: keepsD payment_wallet_ops keeps_transaction_keeps)
  moreover have "packages_ok (db (serve E req w))" using assms(3) inv(2)
    by (cases req) (auto intro!: keepsD packages_keeps keeps_transaction_keeps)
  moreover have "payment_keys (db (serve E req w)) = payment_keys (db w)" using assms(3)
    by (cases req) (auto intro!: keepsD [where I = "\<lambda>d. payment_keys d = payment_keys (db w)"]
        keys_wallet_keeps keeps_transaction_keeps)
  ultimately show ?thesis
    using serve_keeps [OF assms(1,2)] inv(1) by (simp add: money_inv_def)
qed

context payment_provider
begin

lemma pay_step_keeps:
  assumes "pay_step E P s s'" "pay_inv s" "0 \<le> e_bonusCredits E"
  shows "pay_inv s'"
  using assms
proof (induction rule: pay_step.induct)
  case (place u code w r w' ts)
  then show ?case
    using orders_create_keeps_money [OF _ _ place(1)] keepsD_run [OF packages_keeps(10) _ place(1)]
      task_ok_mono [of "db w" "db w'"] by (auto simp: pay_inv_def)
next
  case (checkout u oid w r w' ts)
  then show ?case
    using checkout_keeps_money [OF _ checkout(1)] keepsD_run [OF packages_keeps(11) _ checkout(1)]
      task_ok_mono [of "db w" "db w'"] by (auto simp: pay_inv_def)
next
  case (wallet req w ts)
  then show ?case
    using serve_wallet_step [of E req w] task_ok_mono [of "db w" "db (serve E req w)"]
    by (auto simp: pay_inv_def)
next
  case (webhook body w r w' ts)
  have "money_inv (db w')" "packages_ok (db w')"
    using webhook(2) keepsD_run [OF webhook_prepare_keeps [OF payment_ignores(3)] _ webhook(1)]
      keepsD_run [OF webhook_prepare_keeps [OF wallet_inv_ignores(3)] _ webhook(1)]
      keepsD_run [OF webhook_prepare_keeps [OF packages_ignores(7)] _ webhook(1)]
    by (auto simp: pay_inv_def money_inv_def)
  moreover have "payment_keys (db w') = payment_keys (db w)"
    using keepsD_run [OF webhook_prepare_keeps [OF keys_ignores(5)] _ webhook(1)] by blast
  moreover have "task_ok (db w') t" if "t \<in> set (held_task r)" for t
    using that webhook(1) webhook_prepare_task by (auto simp: held_task_def split: sum.splits option.splits)
  ultimately show ?case
    using webhook(2) task_ok_mono [of "db w" "db w'"] by (auto simp: pay_inv_def)
next
  case (return u oid i w r w' ts)
  have "db w' = db w"
    using keepsD_run [OF return_prepare_keeps [where I = "\<lambda>d. d = db w"] _ return(1)] by blast
  moreover have "task_ok (db w') t" if "t \<in> set (held_task r)" for t
    using that return(1) return_prepare_task by (auto simp: held_task_def split: sum.splits option.splits)
  ultimately show ?case using return(2) by (auto simp: pay_inv_def)
next
  case (settle t ts w r w')
  have "packages_ok (db w')"
  proof -
    have "keeps packages_ok (settle_payment E t)"
      unfolding settle_payment_def by (intro keeps_intro packages_keeps)
    then show ?thesis using settle(2,3) by (auto simp: pay_inv_def dest: keepsD_run)
  qed
  with settle settle_payment_step [OF _ _ settle(2)] task_ok_mono [of "db w" "db w'"]
  show ?case by (auto simp: pay_inv_def)
qed

lemma reachable_pay_inv:
  assumes "(pay_step E P)\<^sup>*\<^sup>* s s'" "pay_inv s" "0 \<le> e_bonusCredits E"
  shows "pay_inv s'"
  using assms(1,2) by (induction rule: rtranclp_induct) (auto intro: pay_step_keeps assms(3))

end

lemma purchase_lines_unique:
  assumes "wallet_inv d" "payment_inv d"
  shows "length (filter (\<lambda>t. t_orderId t = Some oid) (purchases d)) \<le> 1"
proof (rule ccontr)
  let ?ts = "filter (\<lambda>t. t_orderId t = Some oid) (purchases d)"
  assume "\<not> ?thesis"
  then have "Suc (Suc 0) \<le> length ?ts" by simp
  then obtain a b rest where ab: "?ts = a # b # rest"
    unfolding Suc_le_length_iff by blast
  have "distinct (map t_idempotencyKey ?ts)"
    using payment_invD(8) [OF assms(2)] by (simp add: purchases_def distinct_map_filter)
  moreover have "t_idempotencyKey t = ''purchase:'' @ oid" if "t \<in> set ?ts" for t
    using purchase_key [OF assms(1)] that by auto
  ultimately show False by (simp add: ab)
qed

lemma purchase_paid:
  assumes inv: "wallet_inv d" "payment_inv d" and t: "t \<in> set (purchases d)" "t_orderId t = Some oid"
  shows "\<exists>p \<in> set (payments d). \<exists>ord \<in> set (orders d). p_status p = PAY_APPROVED \<and> p_orderId p = oid \<and> o_id ord = oid \<and>
    o_status ord = ORD_PAID \<and> t_amount t = o_credits ord \<and> (t_walletId t, o_userId ord) \<in> owners d"
proof -
  note PI = payment_invD [OF inv(2)]
  from PI(5) [OF t(1)] t(2) obtain p where p: "p \<in> set (payments d)" "p_status p = PAY_APPROVED" "p_orderId p = oid"
    by auto
  from PI(4) [OF p(1,2)] p(3) obtain ord s where o: "ord \<in> set (orders d)" "o_id ord = oid" "o_status ord = ORD_PAID"
    and s: "s \<in> set (purchases d)" "pays_out d ord s" by blast
  then have "s \<in> set (filter (\<lambda>t. t_orderId t = Some oid) (purchases d))"
    "t \<in> set (filter (\<lambda>t. t_orderId t = Some oid) (purchases d))" using t by (auto simp: pays_out_def)
  with purchase_lines_unique [OF inv, of oid] have "s = t"
    by (cases "filter (\<lambda>t. t_orderId t = Some oid) (purchases d)") auto
  with o s p show ?thesis by (auto simp: pays_out_def)
qed

end
