(* ===== verification/PaymentProperties.thy ===== *)
theory PaymentProperties
  imports PaymentLaws
begin

text \<open>
  The properties of the payments: at most one payout per order under any interleaving, the
  authenticity and idempotence of webhooks, and what happens to retries.
\<close>

section \<open>Payout\<close>

text \<open>
  C2. Whatever the order in which checkouts, webhooks, returns from the provider, wallet requests
  and settlements are interleaved, with deliveries repeated and settlements tried more than once,
  an order is paid out at most once. The ledger has at most one purchase line for it. It has one
  exactly when one of its payments is approved; the line credits exactly the credits of the order
  to the buyer's wallet, the order is PAID, and no other payment of the order is approved.
\<close>

theorem order_paid_out_once:
  assumes steps: "(pay_step E (wompi E http apiUrl))\<^sup>*\<^sup>* s s'" and init: "pay_inv s" "0 \<le> e_bonusCredits E"
    and d: "d = db (fst s')"
  shows "length (filter (\<lambda>t. t_orderId t = Some oid) (purchases d)) \<le> 1 \<and>
    ((\<exists>t \<in> set (purchases d). t_orderId t = Some oid) \<longleftrightarrow>
     (\<exists>p \<in> set (payments d). p_status p = PAY_APPROVED \<and> p_orderId p = oid)) \<and>
    (\<forall>t \<in> set (purchases d). t_orderId t = Some oid \<longrightarrow>
       (\<exists>ord \<in> set (orders d). o_id ord = oid \<and> o_status ord = ORD_PAID \<and> t_amount t = o_credits ord \<and>
          (t_walletId t, o_userId ord) \<in> owners d)) \<and>
    (\<forall>p \<in> set (payments d). \<forall>q \<in> set (payments d). p_status p = PAY_APPROVED \<and> p_status q = PAY_APPROVED \<and>
       p_orderId p = oid \<and> p_orderId q = oid \<longrightarrow> p = q)"
proof -
  from wompi_provider.reachable_pay_inv [OF steps init] have inv: "wallet_inv d" "payment_inv d"
    by (simp_all add: d pay_inv_def money_inv_def)
  note PI = payment_invD [OF inv(2)]
  have one: "length (filter (\<lambda>t. t_orderId t = Some oid) (purchases d)) \<le> 1"
    by (rule purchase_lines_unique [OF inv])
  have iff: "(\<exists>t \<in> set (purchases d). t_orderId t = Some oid) \<longleftrightarrow>
     (\<exists>p \<in> set (payments d). p_status p = PAY_APPROVED \<and> p_orderId p = oid)"
    using PI(4,5) unfolding pays_out_def by (metis option.inject)
  show ?thesis using one iff purchase_paid [OF inv] PI(6) by blast
qed

text \<open>A concrete run: order, checkout, webhook, settlement.\<close>

definition example_webhook :: "string \<Rightarrow> int \<Rightarrow> json" where
  "example_webhook ref amount = JObject
     [(''event'', JString ''transaction.updated''),
      (''data'', JObject [(''transaction'', JObject [(''id'', JString ''tx1''), (''status'', JString ''APPROVED''),
         (''amount_in_cents'', JNumber amount), (''reference'', JString ref), (''currency'', JString ''COP'')])]),
      (''timestamp'', JNumber 7),
      (''signature'', JObject [(''properties'', JArray [JString ''transaction.id'', JString ''transaction.status'',
           JString ''transaction.amount_in_cents'']),
         (''checksum'', JString (rev (''tx1APPROVED'' @ string_of_int amount @ ''7events'')))])]"

definition example_provider :: paymentProvider where
  "example_provider = wompi example_env (\<lambda>_ _. HttpThrows) ''https://wompi''"

definition store0 :: world where
  "store0 = serve_all example_env [NewWallet ''ana''] example_shop"

definition store1 :: world where
  "store1 = snd (orders_create example_env ''ana'' ''BASICO_FUEGO'' store0)"

definition example_oid :: string where
  "example_oid = ''uuu''"

definition store2 :: world where
  "store2 = snd (createCheckoutIntent example_env example_provider ''ana'' example_oid store1)"

definition example_body :: json where
  "example_body = example_webhook ''order-uuu-uuuu'' 743"

definition store3 :: world where
  "store3 = snd (webhook_prepare example_env example_provider example_body store2)"

definition example_task :: settlement where
  "example_task =
     (\<lparr>p_id = ''uuuuu'', p_orderId = ''uuu'', p_provider = ''wompi'',
        p_providerReference = ''order-uuu-uuuu'', p_providerTransactionId = None,
        p_status = PAY_PENDING, p_amountCents = 743, p_currency = ''COP'', p_createdAt = 4\<rparr>,
      \<lparr>tr_reference = ''order-uuu-uuuu'', tr_providerTransactionId = ''tx1'',
        tr_status = TX_APPROVED, tr_amountInCents = 743, tr_currency = ''COP''\<rparr>,
      PAY_APPROVED)"

definition store4 :: world where
  "store4 = snd (settle_payment example_env example_task store3)"

lemma example_shop_inv: "pay_inv (store0, [])"
proof -
  have "wallet_inv (db example_shop)" "payment_inv (db example_shop)" "packages_ok (db example_shop)"
    by (simp_all add: example_shop_def empty_database_def wallet_inv_def money_ok_def reservations_ok_def
        running_balances_def payment_inv_def purchases_def packages_ok_def)
  with serve_wallet_step [of example_env "NewWallet ''ana''" example_shop] show ?thesis
    by (simp add: store0_def serve_all_def pay_inv_def money_inv_def example_env_def)
qed

lemma example_run: "(pay_step example_env example_provider)\<^sup>*\<^sup>* (store0, []) (store4, [example_task])"
proof -
  have h: "held_task (fst (webhook_prepare example_env example_provider example_body store2)) = [example_task]"
    by code_simp
  have "pay_step example_env example_provider (store0, []) (store1, [])"
    unfolding store1_def by (rule pay_step.place [OF surjective_pairing])
  moreover have "pay_step example_env example_provider (store1, []) (store2, [])"
    unfolding store2_def by (rule pay_step.checkout [OF surjective_pairing])
  moreover have "pay_step example_env example_provider (store2, []) (store3, [example_task])"
    using pay_step.webhook [OF surjective_pairing, where E = example_env and P = example_provider
        and body = example_body and w = store2 and ts = "[]"] h
    by (simp add: store3_def)
  moreover have "pay_step example_env example_provider (store3, [example_task]) (store4, [example_task])"
    unfolding store4_def by (rule pay_step.settle [OF _ surjective_pairing]) simp
  ultimately show ?thesis by (meson rtranclp.rtrancl_into_rtrancl rtranclp.rtrancl_refl)
qed

lemma order_paid_out_once_witness:
  "length (filter (\<lambda>t. t_orderId t = Some example_oid) (purchases (db store4))) \<le> 1 \<and>
   (\<exists>t \<in> set (purchases (db store4)). t_orderId t = Some example_oid) \<and> balance_of ''ana'' (db store4) = Some 20"
proof -
  have b: "0 \<le> e_bonusCredits example_env" by (simp add: example_env_def)
  have e: "map (\<lambda>p. (p_status p, p_orderId p)) (payments (db store4)) = [(PAY_APPROVED, example_oid)] \<and>
      balance_of ''ana'' (db store4) = Some 20" by code_simp
  then have "(PAY_APPROVED, example_oid) \<in> (\<lambda>p. (p_status p, p_orderId p)) ` set (payments (db store4))"
    by (metis list.set_intros(1) set_map)
  then have p: "\<exists>p \<in> set (payments (db store4)). p_status p = PAY_APPROVED \<and> p_orderId p = example_oid"
    by (elim imageE) (metis prod.inject)
  note out = order_paid_out_once [OF example_run [unfolded example_provider_def] example_shop_inv b refl, of example_oid, unfolded fst_conv]
  show ?thesis
    using out [THEN conjunct1] out [THEN conjunct2, THEN conjunct1, THEN iffD2, OF p] e [THEN conjunct2]
    by (intro conjI)
qed

section \<open>Webhooks\<close>

text \<open>
  C15. Only a signed webhook has an effect. The Wompi webhook handler answers 401 and leaves the
  whole world as it was unless the body has the expected shape and its checksum is, up to letter
  case, the SHA-256 of the signed properties, the timestamp and our events secret.
\<close>

theorem unsigned_webhook_rejected:
  assumes "\<nexists>p. wompiWebhookSchema body = Some p \<and> toLowerCase (wp_checksum p) = toLowerCase (expected_checksum E p)"
  shows "handleWebhook E (wompi E http apiUrl) body w = (Inl (UnauthorizedException ''webhook signature''), w)"
proof -
  have "wompi_verifyAndParseWebhook E body = None"
    using assms by (auto simp: wompi_verifyAndParseWebhook_def split: option.splits)
  then show ?thesis by (simp add: handleWebhook_def webhook_prepare_def wompi_def)
qed

lemma unsigned_webhook_rejected_witness:
  "handleWebhook example_env (wompi example_env (\<lambda>_ _. HttpThrows) ''u'')
     (JObject [(''event'', JString ''x'')]) store0 = (Inl (UnauthorizedException ''webhook signature''), store0)"
  by (rule unsigned_webhook_rejected) (simp add: wompiWebhookSchema_def)

text \<open>What a delivery leaves behind: its event is recorded, whatever happens next.\<close>

definition event_seen :: "string \<Rightarrow> string \<Rightarrow> database \<Rightarrow> bool" where
  "event_seen prov eid d = (\<exists>e \<in> set (webhookEvents d). we_provider e = prov \<and> we_eventId e = eid)"

lemma event_seen_ignores:
  "ignores (event_seen prov eid) Payment" "ignores (event_seen prov eid) Order" "ignores (event_seen prov eid) Wallet"
  "ignores (event_seen prov eid) WalletTransaction"
  by (simp_all add: ignores_def event_seen_def table_defs)

lemma settle_if_keeps_event: "keeps (event_seen prov eid) (settle_if E t)"
  unfolding settle_if_def settle_payment_def approvePayment_def markPaymentTerminal_def creditPurchase_def
    ledger_create_def by (intro keeps_intro event_seen_ignores)

lemma event_tables:
  "rows WebhookEvent = webhookEvents"
  "set_rows WebhookEvent = (\<lambda>g d. d\<lparr>webhookEvents := g (webhookEvents d)\<rparr>)"
  "check WebhookEvent x"
  by (simp_all add: WebhookEvent_def)

lemma redelivery_ignored:
  assumes seen: "event_seen (pp_name P) eid (db w)" and v: "pp_verifyAndParseWebhook P body = Some (eid, tx)"
  shows "\<exists>w'. handleWebhook E P body w = (Inr (), w') \<and> db w' = db w"
proof -
  have "list_ex (clash WebhookEvent \<lparr>we_id = e_uuid E (uuids w), we_provider = pp_name P, we_eventId = eid,
      we_eventType = status_text (tr_status tx), we_payload = body\<rparr>) (webhookEvents (db w))"
    using seen by (simp add: event_seen_def WebhookEvent_def list_ex_iff) metis
  then show ?thesis
    by (simp add: handleWebhook_def webhook_prepare_def v await_def andthen_def try_catch_def create_def event_tables
        isUniqueConstraintViolation_def settle_if_def)
qed

lemma delivery_recorded:
  assumes v: "pp_verifyAndParseWebhook P body = Some (eid, tx)" and fresh: "\<forall>e \<in> set (webhookEvents (db w)). we_id e \<noteq> e_uuid E (uuids w)"
    and run: "handleWebhook E P body w = (r, w')"
  shows "event_seen (pp_name P) eid (db w')"
proof (cases "event_seen (pp_name P) eid (db w)")
  case True
  with redelivery_ignored [OF True v, of E] run show ?thesis by auto
next
  case False
  let ?e = "\<lparr>we_id = e_uuid E (uuids w), we_provider = pp_name P, we_eventId = eid,
      we_eventType = status_text (tr_status tx), we_payload = body\<rparr>"
  have "\<not> list_ex (clash WebhookEvent ?e) (webhookEvents (db w))"
    using False fresh by (auto simp: event_seen_def WebhookEvent_def list_ex_iff)
  then have "\<exists>t w1. webhook_prepare E P body w = (Inr t, w1) \<and>
      db w1 = (db w)\<lparr>webhookEvents := webhookEvents (db w) @ [?e]\<rparr>"
    by (simp add: webhook_prepare_def v await_def andthen_def try_catch_def create_def event_tables
        split: option.split)
  then obtain t w1 where p: "webhook_prepare E P body w = (Inr t, w1)" and s: "event_seen (pp_name P) eid (db w1)"
    by (auto simp: event_seen_def)
  from run p have "settle_if E t w1 = (r, w')" by (simp add: handleWebhook_def await_def)
  with keepsD_run [OF settle_if_keeps_event s] show ?thesis by blast
qed

text \<open>
  C16. A webhook is processed at most once. Once a signed delivery has been handled, whether its
  handling succeeded or failed, a later delivery of the same event is acknowledged and changes
  nothing in the database. So a delivery whose approval failed (its transaction rolled back) is
  never processed again: the event is recorded outside that transaction.
\<close>

theorem webhook_processed_once:
  assumes "pp_verifyAndParseWebhook P body = Some (eid, tx)"
    and "\<forall>e \<in> set (webhookEvents (db w)). we_id e \<noteq> e_uuid E (uuids w)"
    and "handleWebhook E P body w = (r, w')"
  shows "\<exists>w''. handleWebhook E P body w' = (Inr (), w'') \<and> db w'' = db w'"
  by (rule redelivery_ignored [OF delivery_recorded [OF assms] assms(1)])

text \<open>The witness is a delivery that fails: the buyer of the order has no wallet.\<close>

definition broke_store :: world where
  "broke_store = store2\<lparr>db := (db store2)\<lparr>wallets := []\<rparr>\<rparr>"

lemma webhook_processed_once_witness:
  "\<exists>w' w''. handleWebhook example_env example_provider example_body broke_store = (Inl RecordNotFound, w') \<and>
     handleWebhook example_env example_provider example_body w' = (Inr (), w'') \<and> db w'' = db w' \<and>
     map p_status (payments (db w')) = [PAY_PENDING]"
proof -
  let ?run = "handleWebhook example_env example_provider example_body broke_store"
  have v: "pp_verifyAndParseWebhook example_provider example_body = Some (''tx1-APPROVED-7'', fst (snd example_task))"
    by code_simp
  have f: "\<forall>e \<in> set (webhookEvents (db broke_store)). we_id e \<noteq> e_uuid example_env (uuids broke_store)"
    by code_simp
  have r: "fst ?run = Inl RecordNotFound" by code_simp
  have p: "map p_status (payments (db (snd ?run))) = [PAY_PENDING]" by code_simp
  from webhook_processed_once [OF v f surjective_pairing] r p show ?thesis by (metis prod.collapse)
qed

text \<open>
  A webhook settles only the payment it names, and only for the agreed price: what the handler
  goes on with is the payment of this provider with the transaction's reference, whose amount and
  currency are those of the transaction, and the new status is the one the transaction's status
  stands for, never PENDING.
\<close>

theorem webhook_settles_named_payment:
  assumes "webhook_prepare E P body w = (Inr (Some (payment, tx, status)), w')"
  shows "payment \<in> set (payments (db w)) \<and> p_provider payment = pp_name P \<and>
    p_providerReference payment = tr_reference tx \<and> p_amountCents payment = tr_amountInCents tx \<and>
    p_currency payment = tr_currency tx \<and> (\<exists>eid. pp_verifyAndParseWebhook P body = Some (eid, tx)) \<and>
    (status = PAY_APPROVED \<longleftrightarrow> tr_status tx = TX_APPROVED) \<and> status \<noteq> PAY_PENDING"
proof -
  from assms obtain eid where v: "pp_verifyAndParseWebhook P body = Some (eid, tx)"
    by (auto simp: webhook_prepare_def await_Inr_iff case_option_Inr_iff if_Inr_iff split: option.splits prod.splits)
  have same: "keeps (\<lambda>d. payments d = payments (db w))
      (try_catch (await (random_uuid E) (\<lambda>i. andthen (create WebhookEvent \<lparr>we_id = i, we_provider = pp_name P,
         we_eventId = eid, we_eventType = status_text (tr_status tx), we_payload = body\<rparr>) (ret True)))
       (\<lambda>e. if isUniqueConstraintViolation e then ret False else throw e))"
    by (intro keeps_intro) (simp add: ignores_def WebhookEvent_def)
  from assms v obtain fresh w1 where c: "try_catch (await (random_uuid E) (\<lambda>i. andthen (create WebhookEvent
        \<lparr>we_id = i, we_provider = pp_name P,
         we_eventId = eid, we_eventType = status_text (tr_status tx), we_payload = body\<rparr>) (ret True)))
       (\<lambda>e. if isUniqueConstraintViolation e then ret False else throw e) w = (Inr fresh, w1)"
    and k: "find (\<lambda>p. p_provider p = pp_name P \<and> p_providerReference p = tr_reference tx) (payments (db w1)) = Some payment"
    and a: "amounts_match payment tx" and st: "TERMINAL_STATUS_MAP (tr_status tx) = Some status"
    by (auto simp: webhook_prepare_def await_Inr_iff [of "try_catch _ _"] await_Inr_iff [of "find_first _ _"]
        case_option_Inr_iff if_Inr_iff payment_tables)
  have "payments (db w1) = payments (db w)" using keepsD_run [OF same refl c] .
  moreover have "status = PAY_APPROVED \<longleftrightarrow> tr_status tx = TX_APPROVED" "status \<noteq> PAY_PENDING"
    using st by (cases "tr_status tx"; auto simp: TERMINAL_STATUS_MAP_def)+
  ultimately show ?thesis using find_SomeD [OF k] a v by (simp add: amounts_match_def)
qed

lemma webhook_settles_named_payment_witness:
  "\<exists>payment tx status w'. webhook_prepare example_env example_provider example_body store2 =
      (Inr (Some (payment, tx, status)), w') \<and> p_amountCents payment = tr_amountInCents tx \<and> status = PAY_APPROVED"
proof -
  let ?r = "webhook_prepare example_env example_provider example_body store2"
  have "held_task (fst ?r) = [example_task]" by code_simp
  then have "fst ?r = Inr (Some example_task)"
    by (cases "fst ?r") (auto simp: held_task_def split: option.splits)
  then have run: "?r = (Inr (Some (fst example_task, fst (snd example_task), snd (snd example_task))), snd ?r)"
    by (metis prod.collapse)
  have "snd (snd example_task) = PAY_APPROVED" by (simp add: example_task_def)
  with webhook_settles_named_payment [OF run] run show ?thesis by metis
qed

section \<open>Retries\<close>

text \<open>
  A declined payment ends its order. After a payment of a pending order has been marked
  declined or failed, the order is cancelled, and asking for a new checkout of that order is
  refused: there is no second attempt to pay the same order.
\<close>

theorem declined_payment_ends_order:
  assumes inv: "money_inv (db w)" and run: "markPaymentTerminal payment tx status w = (Inr x, w')"
    and pend: "pending payment (db w)" and ord: "find (\<lambda>y. o_id y = p_orderId payment) (orders (db w)) = Some ord"
    and st: "o_status ord = ORD_PENDING"
  shows "createCheckoutIntent E P (o_userId ord) (o_id ord) w' = (Inl (BadRequestException ''order not pending''), w')"
proof -
  have o: "ord \<in> set (orders (db w))" "o_id ord = p_orderId payment" using find_SomeD [OF ord] by auto
  have ords: "orders (db w') = mark_order (\<lambda>y. o_id y = p_orderId payment \<and> o_status y = ORD_PENDING) ORD_CANCELLED (orders (db w))"
    using terminal_Inr [OF run] pend by auto
  have dist: "distinct (map o_id (orders (db w')))"
    using payment_invD(1) inv by (simp add: ords money_inv_def)
  have "ord\<lparr>o_status := ORD_CANCELLED\<rparr> \<in> set (orders (db w'))"
    using mark_order_in [OF o(1), of "\<lambda>y. o_id y = p_orderId payment \<and> o_status y = ORD_PENDING" ORD_CANCELLED] st o(2)
    by (simp add: ords)
  then have "find (\<lambda>y. o_id y = o_id ord \<and> o_userId y = o_userId ord) (orders (db w')) = Some (ord\<lparr>o_status := ORD_CANCELLED\<rparr>)"
    using distinct_key_unique [OF dist] by (intro find_SomeI_unique) auto
  then show ?thesis by (simp add: createCheckoutIntent_def await_def payment_tables)
qed

lemma store2_inv: "pay_inv (store2, [])"
proof -
  have "pay_step example_env example_provider (store0, []) (store1, [])"
    unfolding store1_def by (rule pay_step.place [OF surjective_pairing])
  moreover have "pay_step example_env example_provider (store1, []) (store2, [])"
    unfolding store2_def by (rule pay_step.checkout [OF surjective_pairing])
  moreover have "0 \<le> e_bonusCredits example_env" by (simp add: example_env_def)
  ultimately show ?thesis
    using wompi_provider.pay_step_keeps example_shop_inv unfolding example_provider_def by blast
qed

lemma declined_payment_ends_order_witness:
  "\<exists>w'. markPaymentTerminal (fst example_task) (fst (snd example_task)) PAY_DECLINED store2 = (Inr (), w') \<and>
     fst (createCheckoutIntent example_env example_provider ''ana'' ''uuu'' w') = Inl (BadRequestException ''order not pending'')"
proof -
  let ?run = "markPaymentTerminal (fst example_task) (fst (snd example_task)) PAY_DECLINED store2"
  let ?ord = "\<lparr>o_id = ''uuu'', o_userId = ''ana'', o_creditPackageId = ''p'', o_credits = 15, o_priceCents = 743,
      o_discountAppliedPercent = Some 25, o_currency = ''COP'', o_status = ORD_PENDING, o_createdAt = 3\<rparr>"
  have "fst ?run = Inr ()" by code_simp
  then obtain w' where w': "?run = (Inr (), w')" by (metis prod.collapse)
  have p: "pending (fst example_task) (db store2)" by code_simp
  have o: "find (\<lambda>y. o_id y = p_orderId (fst example_task)) (orders (db store2)) = Some ?ord" by code_simp
  have inv: "money_inv (db store2)" using store2_inv by (simp add: pay_inv_def)
  from declined_payment_ends_order [OF inv w' p o, of example_env example_provider] w' show ?thesis by simp
qed

end
