(* ===== verification/TarotService.thy ===== *)
theory TarotService
  imports CacheService
begin

text \<open>
  The tarot deck (\<open>src/tarot\<close>): the cards of an active deck, cached as JSON for an hour, and the
  draw engine. \<open>Math.random\<close> plays no part: the engine draws with \<open>crypto.randomInt\<close>, the supply
  \<open>e_randomInt\<close>, of which it relies on \<open>random_in_range\<close>.
\<close>

section \<open>Cards\<close>

record tarotDeckCard =
  c_id :: string
  c_code :: string
  c_name :: string
  c_arcana :: arcanaType
  c_suit :: "minorSuit option"
  c_numberInSuit :: "int option"
  c_orderIndex :: int
  c_uprightMeaning :: string
  c_reversedMeaning :: string
  c_imageUrl :: "string option"

definition toTarotDeckCard :: "tarotCard \<Rightarrow> tarotDeckCard" where
  "toTarotDeckCard c = \<lparr>c_id = tc_id c, c_code = tc_code c, c_name = tc_name c,
     c_arcana = tc_arcana c, c_suit = tc_suit c, c_numberInSuit = tc_numberInSuit c,
     c_orderIndex = tc_orderIndex c, c_uprightMeaning = tc_uprightMeaning c,
     c_reversedMeaning = tc_reversedMeaning c, c_imageUrl = tc_imageUrl c\<rparr>"

text \<open>The JSON text of a card in the cache, and the card read back.\<close>

fun arcana_text :: "arcanaType \<Rightarrow> string" where
  "arcana_text MAJOR = ''MAJOR''"
| "arcana_text MINOR = ''MINOR''"

fun suit_text :: "minorSuit \<Rightarrow> string" where
  "suit_text WANDS = ''WANDS''"
| "suit_text CUPS = ''CUPS''"
| "suit_text SWORDS = ''SWORDS''"
| "suit_text PENTACLES = ''PENTACLES''"

fun optional :: "('a \<Rightarrow> json) \<Rightarrow> 'a option \<Rightarrow> json" where
  "optional f None = JNull"
| "optional f (Some x) = f x"

definition json_of_card :: "tarotDeckCard \<Rightarrow> json" where
  "json_of_card c = JObject
     [(''id'', JString (c_id c)), (''code'', JString (c_code c)), (''name'', JString (c_name c)),
      (''arcana'', JString (arcana_text (c_arcana c))),
      (''suit'', optional (JString \<circ> suit_text) (c_suit c)),
      (''numberInSuit'', optional JNumber (c_numberInSuit c)),
      (''orderIndex'', JNumber (c_orderIndex c)),
      (''uprightMeaning'', JString (c_uprightMeaning c)),
      (''reversedMeaning'', JString (c_reversedMeaning c)),
      (''imageUrl'', optional JString (c_imageUrl c))]"

definition arcana_of_text :: "string \<Rightarrow> arcanaType option" where
  "arcana_of_text s = (if s = ''MAJOR'' then Some MAJOR else if s = ''MINOR'' then Some MINOR else None)"

definition suit_of_text :: "string \<Rightarrow> minorSuit option" where
  "suit_of_text s = find (\<lambda>x. suit_text x = s) [WANDS, CUPS, SWORDS, PENTACLES]"

fun as_string :: "json \<Rightarrow> string option" where
  "as_string (JString s) = Some s"
| "as_string _ = None"

fun as_number :: "json \<Rightarrow> int option" where
  "as_number (JNumber n) = Some n"
| "as_number _ = None"

text \<open>\<open>Some None\<close> is a field that is null.\<close>

fun as_optional :: "(json \<Rightarrow> 'a option) \<Rightarrow> json \<Rightarrow> 'a option option" where
  "as_optional f JNull = Some None"
| "as_optional f v = map_option Some (f v)"

definition read_field :: "(string \<times> json) list \<Rightarrow> string \<Rightarrow> (json \<Rightarrow> 'a option) \<Rightarrow> 'a option" where
  "read_field fs k f = Option.bind (map_of fs k) f"

fun card_of_json :: "json \<Rightarrow> tarotDeckCard option" where
  "card_of_json (JObject fs) =
      Option.bind (read_field fs ''id'' as_string) (\<lambda>i.
      Option.bind (read_field fs ''code'' as_string) (\<lambda>code.
      Option.bind (read_field fs ''name'' as_string) (\<lambda>name.
      Option.bind (read_field fs ''arcana'' (\<lambda>v. Option.bind (as_string v) arcana_of_text)) (\<lambda>arcana.
      Option.bind (read_field fs ''suit'' (as_optional (\<lambda>v. Option.bind (as_string v) suit_of_text))) (\<lambda>suit.
      Option.bind (read_field fs ''numberInSuit'' (as_optional as_number)) (\<lambda>number.
      Option.bind (read_field fs ''orderIndex'' as_number) (\<lambda>index.
      Option.bind (read_field fs ''uprightMeaning'' as_string) (\<lambda>up.
      Option.bind (read_field fs ''reversedMeaning'' as_string) (\<lambda>down.
      Option.bind (read_field fs ''imageUrl'' (as_optional as_string)) (\<lambda>url.
      Some \<lparr>c_id = i, c_code = code, c_name = name, c_arcana = arcana, c_suit = suit,
        c_numberInSuit = number, c_orderIndex = index, c_uprightMeaning = up,
        c_reversedMeaning = down, c_imageUrl = url\<rparr>))))))))))"
| "card_of_json _ = None"

fun cards_of_json :: "json \<Rightarrow> tarotDeckCard list option" where
  "cards_of_json (JArray vs) = those (map card_of_json vs)"
| "cards_of_json _ = None"

definition json_of_cards :: "tarotDeckCard list \<Rightarrow> json" where
  "json_of_cards cs = JArray (map json_of_card cs)"

lemma arcana_roundtrip [simp]: "arcana_of_text (arcana_text a) = Some a"
  by (cases a) (simp_all add: arcana_of_text_def)

lemma suit_roundtrip [simp]: "suit_of_text (suit_text s) = Some s"
  by (cases s) (simp_all add: suit_of_text_def)

lemma optional_roundtrip:
  "(\<And>x. f (g x) = Some x) \<Longrightarrow> (\<And>x. g x \<noteq> JNull) \<Longrightarrow> as_optional f (optional g v) = Some v"
  by (cases v; cases "g (the v)") (auto, metis+)

lemma card_roundtrip: "card_of_json (json_of_card c) = Some c"
  by (simp add: json_of_card_def read_field_def optional_roundtrip)

section \<open>The deck\<close>

definition DEFAULT_TAROT_DECK_CODE :: string where
  "DEFAULT_TAROT_DECK_CODE = ''RIDER_WAITE_ES''"

definition TAROT_DECK_CACHE_TTL_SECONDS :: int where
  "TAROT_DECK_CACHE_TTL_SECONDS = 60 * 60"

definition tarotDeckCacheKey :: "string \<Rightarrow> string" where
  "tarotDeckCacheKey code = ''tarot:deck:'' @ code"

text \<open>
  The cards of a deck by \<open>orderIndex\<close>. A cached value that is not an array of cards never gets under
  the key: the model answers it with a \<open>TypeError\<close>.
\<close>

definition deck_cards :: "string \<Rightarrow> database \<Rightarrow> tarotDeckCard list" where
  "deck_cards deckId d = map toTarotDeckCard (sort_key tc_orderIndex (filter (\<lambda>c. tc_deckId c = deckId) (tarotCards d)))"

definition getActiveDeckCards :: "env \<Rightarrow> string \<Rightarrow> (world, tarotDeckCard list) prog" where
  "getActiveDeckCards E deckCode =
     await (remember E (tarotDeckCacheKey deckCode) TAROT_DECK_CACHE_TTL_SECONDS
       (await (find_first TarotDeck (\<lambda>k. td_code k = deckCode \<and> td_isActive k)) (\<lambda>found. case found of
          None \<Rightarrow> throw (NotFoundException ''deck'')
        | Some deck \<Rightarrow> gets (\<lambda>w. json_of_cards (deck_cards (td_id deck) (db w)))))) (\<lambda>cached.
     case cards_of_json cached of
       None \<Rightarrow> throw (TypeError ''deck'')
     | Some cards \<Rightarrow> ret cards)"

lemma those_map: "(\<And>x. f (g x) = Some x) \<Longrightarrow> those (map f (map g xs)) = Some xs"
  by (induction xs) auto

text \<open>
  What is written to the cache is read back unchanged: the JSON of any list of cards parses to
  the same list.
\<close>

theorem deck_json_roundtrip: "cards_of_json (json_of_cards cs) = Some cs"
  unfolding json_of_cards_def cards_of_json.simps by (rule those_map) (rule card_roundtrip)

lemma deck_json_again: "cards_of_json (JArray (map json_of_card cs)) = Some cs"
  unfolding cards_of_json.simps by (rule those_map) (rule card_roundtrip)

section \<open>The draw engine\<close>

record tarotDraw =
  d_position :: string
  d_card :: tarotDeckCard
  d_orientation :: cardOrientation

text \<open>\<open>pool.splice(index, 1)\<close>: without the element at the index.\<close>

definition without :: "nat \<Rightarrow> 'a list \<Rightarrow> 'a list" where
  "without i xs = take i xs @ drop (Suc i) xs"

text \<open>
  The loop of \<open>draw\<close>. An index outside the pool, which \<open>randomInt\<close> never gives, would draw
  \<open>undefined\<close>; the model stops there.
\<close>

fun draw_loop :: "env \<Rightarrow> tarotDeckCard list \<Rightarrow> string list \<Rightarrow> (world, tarotDraw list) prog" where
  "draw_loop E pool [] = ret []"
| "draw_loop E pool (position # positions) =
     await (random_int E (length pool)) (\<lambda>index.
     if length pool \<le> index then throw (TypeError ''card'')
     else
       await (random_int E 2) (\<lambda>r.
       await (draw_loop E (without index pool) positions) (\<lambda>draws.
       ret (\<lparr>d_position = position, d_card = pool ! index,
             d_orientation = (if r = 0 then UPRIGHT else REVERSED)\<rparr> # draws))))"

definition draw :: "env \<Rightarrow> tarotDeckCard list \<Rightarrow> string list \<Rightarrow> (world, tarotDraw list) prog" where
  "draw E deck positions =
     (if length positions = 0 then throw (BadRequestException ''no positions'')
      else if length deck < length positions then throw (BadRequestException ''deck too small'')
      else draw_loop E deck positions)"

definition random_in_range :: "env \<Rightarrow> bool" where
  "random_in_range E = (\<forall>k n. 0 < n \<longrightarrow> e_randomInt E k n < n)"

lemma without_mset: "i < length xs \<Longrightarrow> add_mset (xs ! i) (mset (without i xs)) = mset xs"
  by (metis Cons_nth_drop_Suc append_take_drop_id mset.simps(2) mset_append union_mset_add_mset_right without_def)

lemma length_without [simp]: "i < length xs \<Longrightarrow> length (without i xs) = length xs - 1"
  by (simp add: without_def)

lemma draw_loop_run:
  assumes "random_in_range E" "length positions \<le> length pool"
  shows "\<exists>ds w'. draw_loop E pool positions w = (Inr ds, w') \<and> map d_position ds = positions \<and>
     mset (map d_card ds) \<subseteq># mset pool \<and> db w' = db w"
  using assms(2)
proof (induction positions arbitrary: pool w)
  case (Cons p ps)
  let ?i = "e_randomInt E (rolls w) (length pool)"
  have "0 < length pool" using Cons.prems by (cases pool) auto
  then have i: "?i < length pool" using assms(1) by (simp add: random_in_range_def)
  let ?w = "w\<lparr>rolls := Suc (Suc (rolls w))\<rparr>"
  have le: "length ps \<le> length (without ?i pool)" using Cons.prems i by simp
  obtain ds w' where ds: "draw_loop E (without ?i pool) ps ?w = (Inr ds, w')" "map d_position ds = ps"
    "mset (map d_card ds) \<subseteq># mset (without ?i pool)" "db w' = db ?w"
    using Cons.IH [OF le, of ?w] by blast
  have "add_mset (pool ! ?i) (mset (map d_card ds)) \<subseteq># mset pool"
    unfolding without_mset [OF i, symmetric] using ds(3) by simp
  with ds i show ?case by (simp add: await_def)
qed simp

lemma distinct_sub_mset:
  assumes "mset xs \<subseteq># mset ys" "distinct ys"
  shows "distinct xs"
proof -
  obtain zs where "mset ys = mset (xs @ zs)"
    using assms(1) by (metis ex_mset mset_append subset_mset.le_iff_add)
  from mset_eq_imp_distinct_iff [OF this] assms(2) show ?thesis by simp
qed

text \<open>
  C19. A draw succeeds exactly when there is a position and the deck has enough cards. It fills every
  position, in order, with cards of the deck, and draws no card twice.
\<close>

theorem draw_correct:
  assumes "random_in_range E"
  shows "(if positions = [] \<or> length deck < length positions
     then \<exists>m. draw E deck positions w = (Inl (BadRequestException m), w)
     else \<exists>ds w'. draw E deck positions w = (Inr ds, w') \<and> map d_position ds = positions \<and>
       mset (map d_card ds) \<subseteq># mset deck \<and> (distinct deck \<longrightarrow> distinct (map d_card ds)) \<and> db w' = db w)"
proof (cases "positions = [] \<or> length deck < length positions")
  case False
  then obtain ds w' where ds: "draw_loop E deck positions w = (Inr ds, w')" "map d_position ds = positions"
     "mset (map d_card ds) \<subseteq># mset deck" "db w' = db w"
    using draw_loop_run [OF assms, of positions deck w] by (auto simp: not_less)
  moreover have "distinct deck \<longrightarrow> distinct (map d_card ds)" using ds(3) by (simp add: distinct_sub_mset)
  ultimately show ?thesis using False by (auto simp: draw_def)
qed (auto simp: draw_def)

definition example_card :: "string \<Rightarrow> tarotDeckCard" where
  "example_card i = \<lparr>c_id = i, c_code = i, c_name = i, c_arcana = MAJOR, c_suit = None, c_numberInSuit = None,
     c_orderIndex = 0, c_uprightMeaning = ''up'', c_reversedMeaning = ''down'', c_imageUrl = None\<rparr>"

lemma example_random: "random_in_range example_env"
  by (simp add: random_in_range_def example_env_def)

lemma draw_correct_witness:
  "\<exists>ds w'. draw example_env [example_card ''a'', example_card ''b''] [''past'', ''future''] empty_world = (Inr ds, w') \<and>
     map d_position ds = [''past'', ''future''] \<and> distinct (map d_card ds)"
proof -
  have d: "distinct [example_card ''a'', example_card ''b'']" by (simp add: example_card_def)
  from draw_correct [OF example_random, of "[''past'', ''future'']" "[example_card ''a'', example_card ''b'']" empty_world] d
  show ?thesis by auto
qed

text \<open>The loop looks only at the random numbers it draws.\<close>

lemma draw_loop_cong:
  "(\<And>k n. rolls w \<le> k \<Longrightarrow> e_randomInt E k n = e_randomInt E' k n) \<Longrightarrow>
   draw_loop E pool ps w = draw_loop E' pool ps w"
proof (induction ps arbitrary: pool w)
  case (Cons p ps)
  have IH: "draw_loop E pool' ps (w\<lparr>rolls := Suc (Suc (rolls w))\<rparr>) = draw_loop E' pool' ps (w\<lparr>rolls := Suc (Suc (rolls w))\<rparr>)" for pool'
    by (rule Cons.IH) (simp add: Cons.prems)
  show ?case using IH Cons.prems by (simp add: await_def)
qed simp

lemma draw_loop_reaches:
  assumes "mset (map d_card ds) \<subseteq># mset pool"
  shows "\<exists>r. (\<forall>k n. 0 < n \<longrightarrow> r k n < n) \<and>
    (\<forall>w. rolls w = m \<longrightarrow> fst (draw_loop (E\<lparr>e_randomInt := r\<rparr>) pool (map d_position ds) w) = Inr ds)"
  using assms
proof (induction ds arbitrary: pool m)
  case Nil
  show ?case by (rule exI [of _ "\<lambda>k n. 0"]) simp
next
  case (Cons x ds)
  have "d_card x \<in> set pool" using Cons.prems by (metis list.set_intros(1) list.simps(9) mset_subset_eqD set_mset_mset)
  then obtain i where i: "i < length pool" "pool ! i = d_card x" by (metis in_set_conv_nth)
  have "mset (map d_card ds) \<subseteq># mset (without i pool)"
    using Cons.prems unfolding without_mset [OF i(1), symmetric] i(2) by simp
  from Cons.IH [OF this, of "Suc (Suc m)"] obtain r where r: "\<forall>k n. 0 < n \<longrightarrow> r k n < n"
    "\<And>w. rolls w = Suc (Suc m) \<Longrightarrow> fst (draw_loop (E\<lparr>e_randomInt := r\<rparr>) (without i pool) (map d_position ds) w) = Inr ds"
    by blast
  define r' where "r' k n = (if k = m then if i < n then i else 0
      else if k = Suc m then if n = 1 \<or> d_orientation x = UPRIGHT then 0 else 1 else r k n)" for k n
  have in_range: "\<forall>k n. 0 < n \<longrightarrow> r' k n < n" using r(1) by (auto simp: r'_def)
  have "fst (draw_loop (E\<lparr>e_randomInt := r'\<rparr>) pool (map d_position (x # ds)) w) = Inr (x # ds)" if w: "rolls w = m" for w
  proof -
    let ?w = "w\<lparr>rolls := Suc (Suc m)\<rparr>"
    have "draw_loop (E\<lparr>e_randomInt := r'\<rparr>) (without i pool) (map d_position ds) ?w =
        draw_loop (E\<lparr>e_randomInt := r\<rparr>) (without i pool) (map d_position ds) ?w"
      by (rule draw_loop_cong) (simp add: r'_def)
    then obtain w2 where rest: "draw_loop (E\<lparr>e_randomInt := r'\<rparr>) (without i pool) (map d_position ds) ?w = (Inr ds, w2)"
      using r(2) [of ?w] by (cases "draw_loop (E\<lparr>e_randomInt := r\<rparr>) (without i pool) (map d_position ds) ?w") simp
    have idx: "r' m (length pool) = i" using i(1) by (simp add: r'_def)
    have x: "\<lparr>d_position = d_position x, d_card = pool ! i, d_orientation = (if r' (Suc m) 2 = 0 then UPRIGHT else REVERSED)\<rparr> = x"
      using i(2) by (cases "d_orientation x") (simp_all add: r'_def)
    show ?thesis using i(1) rest w by (simp add: await_def idx x)
  qed
  with in_range show ?case by blast
qed

text \<open>
  C20. No outcome is excluded: every way to put distinct copies of cards of the deck, upright or
  reversed, on the positions is drawn for some random numbers.
\<close>

theorem draw_reaches_all:
  assumes "ds \<noteq> []" and "mset (map d_card ds) \<subseteq># mset deck"
  shows "\<exists>r. random_in_range (E\<lparr>e_randomInt := r\<rparr>) \<and>
    fst (draw (E\<lparr>e_randomInt := r\<rparr>) deck (map d_position ds) w) = Inr ds"
proof -
  have "length (map d_card ds) \<le> length deck" using size_mset_mono [OF assms(2)] by simp
  with assms(1) have "draw E' deck (map d_position ds) = draw_loop E' deck (map d_position ds)" for E'
    by (simp add: draw_def)
  with draw_loop_reaches [OF assms(2), of "rolls w" E] show ?thesis by (simp add: random_in_range_def) blast
qed

lemma draw_reaches_all_witness:
  "\<exists>r. random_in_range (example_env\<lparr>e_randomInt := r\<rparr>) \<and>
    fst (draw (example_env\<lparr>e_randomInt := r\<rparr>) [example_card ''a'', example_card ''b''] [''p''] empty_world) =
      Inr [\<lparr>d_position = ''p'', d_card = example_card ''b'', d_orientation = REVERSED\<rparr>]"
  using draw_reaches_all [of "[\<lparr>d_position = ''p'', d_card = example_card ''b'', d_orientation = REVERSED\<rparr>]"
      "[example_card ''a'', example_card ''b'']"] by simp

end
