(* ===== verification/DateTime.thy ===== *)
theory DateTime
  imports Prelude
begin

text \<open>
  \<open>Date.prototype.toISOString\<close>, following the ECMAScript definitions: a time is a number of
  milliseconds since the epoch, \<open>days_before_year\<close> is DayFromYear, \<open>year_from_day\<close> is
  YearFromTime. Years outside 0 to 9999, which JavaScript prints with a sign and six digits, are
  outside the model. \<open>iso_date\<close> is the first ten characters, the key of the card of the day.
\<close>

definition MS_PER_DAY :: int where
  "MS_PER_DAY = 24 * 60 * 60 * 1000"

definition days_before_year :: "int \<Rightarrow> int" where
  "days_before_year y = 365 * (y - 1970) + (y - 1969) div 4 - (y - 1901) div 100 + (y - 1601) div 400"

definition leap_year :: "int \<Rightarrow> bool" where
  "leap_year y = (y mod 4 = 0 \<and> (y mod 100 \<noteq> 0 \<or> y mod 400 = 0))"

lemma div_step:
  fixes x n :: int
  assumes "0 < n"
  shows "(x + 1) div n = x div n + (if (x + 1) mod n = 0 then 1 else 0)"
proof -
  define r where "r = x mod n"
  have r: "0 \<le> r" "r < n" using assms by (simp_all add: r_def)
  have x: "x + 1 = r + 1 + n * (x div n)" by (simp add: r_def)
  have "(x + 1) div n = x div n + (r + 1) div n"
    using assms unfolding x by (subst div_mult_self2) simp_all
  moreover have "(x + 1) mod n = (r + 1) mod n" unfolding x by simp
  ultimately show ?thesis
    using r by (cases "r + 1 = n") (simp_all add: div_pos_pos_trivial mod_pos_pos_trivial)
qed

lemma days_before_next_year:
  "days_before_year (y + 1) = days_before_year y + (if leap_year y then 366 else 365)"
proof -
  have a: "(y + 1 - 1969) div 4 = (y - 1969) div 4 + (if (y - 1968) mod 4 = 0 then 1 else 0)"
    using div_step [of 4 "y - 1969"] by (simp add: algebra_simps)
  have b: "(y + 1 - 1901) div 100 = (y - 1901) div 100 + (if (y - 1900) mod 100 = 0 then 1 else 0)"
    using div_step [of 100 "y - 1901"] by (simp add: algebra_simps)
  have c: "(y + 1 - 1601) div 400 = (y - 1601) div 400 + (if (y - 1600) mod 400 = 0 then 1 else 0)"
    using div_step [of 400 "y - 1601"] by (simp add: algebra_simps)
  have m: "(y - 1968) mod 4 = y mod 4" "(y - 1900) mod 100 = y mod 100" "(y - 1600) mod 400 = y mod 400"
    using mod_mult_self2 [of y 4 "- 492"] mod_mult_self2 [of y 100 "- 19"] mod_mult_self2 [of y 400 "- 4"]
    by simp_all
  have "y mod 100 = 0 \<Longrightarrow> y mod 4 = 0" "y mod 400 = 0 \<Longrightarrow> y mod 100 = 0"
    using dvd_trans [of 4 100 y] dvd_trans [of 100 400 y] by (simp_all add: mod_eq_0_iff_dvd)
  then show ?thesis unfolding days_before_year_def a b c m leap_year_def
    by (cases "y mod 4 = 0"; cases "y mod 100 = 0"; cases "y mod 400 = 0") simp_all
qed

lemma days_before_year_step: "days_before_year y < days_before_year (y + 1)"
  by (simp add: days_before_next_year)

lemma days_before_year_mono: "x < y \<Longrightarrow> days_before_year x < days_before_year y"
proof (induction "nat (y - x)" arbitrary: y)
  case (Suc n)
  show ?case
  proof (cases "x = y - 1")
    case True
    then show ?thesis using days_before_year_step [of x] by simp
  next
    case False
    with Suc.prems Suc.hyps(2) have "days_before_year x < days_before_year (y - 1)"
      by (intro Suc.hyps(1)) auto
    also have "\<dots> < days_before_year y" using days_before_year_step [of "y - 1"] by simp
    finally show ?thesis .
  qed
qed simp

function year_search :: "int \<Rightarrow> int \<Rightarrow> int" where
  "year_search y d = (if days_before_year (y + 1) \<le> d then year_search (y + 1) d else y)"
  by pat_completeness auto
termination
  by (relation "measure (\<lambda>(y, d). nat (d - days_before_year y))")
    (auto simp: days_before_next_year split: if_splits)

declare year_search.simps [simp del]

definition year_from_day :: "int \<Rightarrow> int" where
  "year_from_day d = year_search (if d < 0 then 1968 + d div 365 else 1969 + d div 366) d"

lemma year_search_correct:
  "days_before_year y \<le> d \<Longrightarrow>
   days_before_year (year_search y d) \<le> d \<and> d < days_before_year (year_search y d + 1)"
proof (induction y d rule: year_search.induct)
  case (1 y d)
  then show ?case by (cases "days_before_year (y + 1) \<le> d") (simp_all add: year_search.simps [of y d])
qed

lemma div_bounds:
  fixes x n :: int
  assumes "0 < n"
  shows "n * (x div n) \<le> x \<and> x < n * (x div n) + n"
proof -
  have "n * (x div n) + x mod n = x" by simp
  moreover have "0 \<le> x mod n \<and> x mod n < n" using assms by simp
  ultimately show ?thesis by linarith
qed

lemma year_start: "days_before_year (if d < 0 then 1968 + d div 365 else 1969 + d div 366) \<le> d"
proof (cases "d < 0")
  case True
  define k where "k = d div 365"
  have k: "k < 0" "365 * k \<le> d" using True div_bounds [of 365 d] by (simp_all add: k_def)
  show ?thesis
    using True k div_bounds [of 4 "k - 1"] div_bounds [of 100 "k + 67"] div_bounds [of 400 "k + 367"]
    by (simp add: days_before_year_def k_def [symmetric] algebra_simps)
next
  case False
  define k where "k = d div 366"
  have k: "0 \<le> k" "366 * k \<le> d" using False div_bounds [of 366 d] by (simp_all add: k_def)
  show ?thesis
    using False k div_bounds [of 4 k] div_bounds [of 100 "k + 68"] div_bounds [of 400 "k + 368"]
    by (simp add: days_before_year_def k_def [symmetric] algebra_simps)
qed

text \<open>\<open>year_from_day\<close> is the year whose days include \<open>d\<close>.\<close>

lemma year_from_day_correct:
  "days_before_year (year_from_day d) \<le> d \<and> d < days_before_year (year_from_day d + 1)"
  unfolding year_from_day_def by (rule year_search_correct [OF year_start])

fun month_search :: "int list \<Rightarrow> int \<Rightarrow> int \<Rightarrow> int \<times> int" where
  "month_search [] m n = (m, n + 1)"
| "month_search (l # ls) m n = (if n < l then (m, n + 1) else month_search ls (m + 1) (n - l))"

definition month_lengths :: "int \<Rightarrow> int list" where
  "month_lengths y = [31, if leap_year y then 29 else 28, 31, 30, 31, 30, 31, 31, 30, 31, 30, 31]"

definition civil_from_day :: "int \<Rightarrow> int \<times> int \<times> int" where
  "civil_from_day d = (let y = year_from_day d in
     (y, month_search (month_lengths y) 1 (d - days_before_year y)))"

text \<open>The position of a month and day in its year, the inverse of \<open>month_search\<close>.\<close>

fun day_of_year :: "int list \<Rightarrow> int \<Rightarrow> int \<times> int \<Rightarrow> int" where
  "day_of_year [] m md = snd md - 1"
| "day_of_year (l # ls) m md = (if fst md = m then snd md - 1 else l + day_of_year ls (m + 1) md)"

lemma month_search_ge: "m \<le> fst (month_search ls m n)"
proof (induction ls arbitrary: m n)
  case (Cons l ls)
  from Cons [of "m + 1" "n - l"] show ?case by simp
qed simp

lemma day_of_year_search: "day_of_year ls m (month_search ls m n) = n"
proof (induction ls arbitrary: m n)
  case (Cons l ls)
  have "fst (month_search ls (m + 1) (n - l)) \<noteq> m"
    using month_search_ge [of "m + 1" ls "n - l"] by simp
  with Cons show ?case by simp
qed simp

lemma civil_inj: "civil_from_day d = civil_from_day d' \<longleftrightarrow> d = d'"
proof
  assume eq: "civil_from_day d = civil_from_day d'"
  then have y: "year_from_day d = year_from_day d'" by (simp add: civil_from_day_def Let_def)
  let ?ls = "month_lengths (year_from_day d')"
  have "day_of_year ?ls 1 (snd (civil_from_day d)) = day_of_year ?ls 1 (snd (civil_from_day d'))"
    using eq by simp
  then show "d = d'" by (simp add: civil_from_day_def Let_def y day_of_year_search)
qed simp

lemma month_search_bounds:
  assumes "0 \<le> n" "n < sum_list ls" "\<forall>l \<in> set ls. 0 < l \<and> l \<le> 31"
  shows "m \<le> fst (month_search ls m n) \<and> fst (month_search ls m n) < m + int (length ls) \<and>
    1 \<le> snd (month_search ls m n) \<and> snd (month_search ls m n) \<le> 31"
  using assms
proof (induction ls arbitrary: m n)
  case (Cons l ls)
  show ?case
  proof (cases "n < l")
    case True
    with Cons.prems show ?thesis by auto
  next
    case False
    with Cons.prems have "0 \<le> n - l" "n - l < sum_list ls" "\<forall>l \<in> set ls. 0 < l \<and> l \<le> 31" by auto
    from Cons.IH [OF this, of "m + 1"] False show ?thesis by auto
  qed
qed simp

lemma civil_bounds:
  "case civil_from_day d of (y, m, dd) \<Rightarrow> 1 \<le> m \<and> m \<le> 12 \<and> 1 \<le> dd \<and> dd \<le> 31"
proof -
  let ?y = "year_from_day d"
  have "0 \<le> d - days_before_year ?y" "d - days_before_year ?y < sum_list (month_lengths ?y)"
    using year_from_day_correct [of d] by (auto simp: days_before_next_year month_lengths_def)
  moreover have "\<forall>l \<in> set (month_lengths ?y). 0 < l \<and> l \<le> 31" by (simp add: month_lengths_def)
  ultimately show ?thesis
    using month_search_bounds [of "d - days_before_year ?y" "month_lengths ?y" 1]
    by (simp add: civil_from_day_def Let_def month_lengths_def split: prod.splits)
qed

section \<open>Printing\<close>

text \<open>A number in exactly \<open>w\<close> decimal digits.\<close>

fun pad :: "nat \<Rightarrow> int \<Rightarrow> string" where
  "pad 0 n = []"
| "pad (Suc w) n = pad w (n div 10) @ [digit_char (n mod 10)]"

lemma length_pad [simp]: "length (pad w n) = w"
  by (induction w arbitrary: n) auto

lemma digit_char_inj:
  assumes "0 \<le> j" "j < 10" "0 \<le> k" "k < 10" "digit_char j = digit_char k"
  shows "j = k"
proof -
  have "(of_char (digit_char j) :: nat) = 48 + nat j" "(of_char (digit_char k) :: nat) = 48 + nat k"
    using assms(1-4) by (simp_all add: digit_char_def)
  with assms show ?thesis by simp
qed

lemma pad_inj: "0 \<le> n \<Longrightarrow> n < 10 ^ w \<Longrightarrow> 0 \<le> m \<Longrightarrow> m < 10 ^ w \<Longrightarrow> pad w n = pad w m \<Longrightarrow> n = m"
proof (induction w arbitrary: n m)
  case (Suc w)
  have "n mod 10 = m mod 10" using Suc.prems(5) by (intro digit_char_inj) simp_all
  moreover have "n div 10 = m div 10"
    using Suc.prems by (intro Suc.IH) (simp_all add: pos_imp_zdiv_nonneg_iff div_less_iff_less_mult mult.commute zdiv_mono1)
  ultimately show ?case by (metis div_mult_mod_eq)
qed simp

definition iso_date :: "int \<Rightarrow> string" where
  "iso_date t = (case civil_from_day (t div MS_PER_DAY) of (y, m, d) \<Rightarrow>
     pad 4 y @ ''-'' @ pad 2 m @ ''-'' @ pad 2 d)"

definition toISOString :: "int \<Rightarrow> string" where
  "toISOString t = (let ms = t mod MS_PER_DAY in
     iso_date t @ ''T'' @ pad 2 (ms div 3600000) @ '':'' @ pad 2 (ms div 60000 mod 60) @ '':'' @
     pad 2 (ms div 1000 mod 60) @ ''.'' @ pad 3 (ms mod 1000) @ ''Z'')"

lemma iso_date_length [simp]: "length (iso_date t) = 10"
  by (simp add: iso_date_def split: prod.splits)

lemma toISOString_date: "take 10 (toISOString t) = iso_date t"
  by (simp add: toISOString_def Let_def)

text \<open>Two times have the same date exactly when they are on the same (UTC) day.\<close>

definition year_in_range :: "int \<Rightarrow> bool" where
  "year_in_range t = (0 \<le> year_from_day (t div MS_PER_DAY) \<and> year_from_day (t div MS_PER_DAY) \<le> 9999)"

lemma iso_date_eq_iff:
  assumes "year_in_range t" "year_in_range u"
  shows "iso_date t = iso_date u \<longleftrightarrow> t div MS_PER_DAY = u div MS_PER_DAY"
proof
  assume eq: "iso_date t = iso_date u"
  obtain y m d where c: "civil_from_day (t div MS_PER_DAY) = (y, m, d)" by (metis prod_cases3)
  obtain y' m' d' where c': "civil_from_day (u div MS_PER_DAY) = (y', m', d')" by (metis prod_cases3)
  have y: "y = year_from_day (t div MS_PER_DAY)" "y' = year_from_day (u div MS_PER_DAY)"
    using c c' by (simp_all add: civil_from_day_def Let_def)
  have b: "1 \<le> m" "m \<le> 12" "1 \<le> d" "d \<le> 31" "1 \<le> m'" "m' \<le> 12" "1 \<le> d'" "d' \<le> 31"
    using civil_bounds [of "t div MS_PER_DAY"] civil_bounds [of "u div MS_PER_DAY"] c c' by simp_all
  have p: "pad 4 y = pad 4 y'" "pad 2 m = pad 2 m'" "pad 2 d = pad 2 d'"
    using eq by (simp_all add: iso_date_def c c')
  have "y = y'" by (rule pad_inj [OF _ _ _ _ p(1)]) (use assms y in \<open>auto simp: year_in_range_def\<close>)
  moreover have "m = m'" by (rule pad_inj [OF _ _ _ _ p(2)]) (use b in simp_all)
  moreover have "d = d'" by (rule pad_inj [OF _ _ _ _ p(3)]) (use b in simp_all)
  ultimately show "t div MS_PER_DAY = u div MS_PER_DAY" using c c' civil_inj by metis
qed (simp add: iso_date_def)

lemma toISOString_example: "toISOString 1709251199999 = ''2024-02-29T23:59:59.999Z''"
  by code_simp

end
