(* ===== verification/RewardsService.thy ===== *)
theory RewardsService
  imports DateTime Tables
begin

text \<open>
  Rewarded advertisements (\<open>src/rewards\<close>): sessions, the callback of the ad provider, the progress
  towards an unlock, and the flash offers. \<open>e_localMidnight\<close> is the start of the local day of a
  time (\<open>setHours(0, 0, 0, 0)\<close> in the time zone of the process).
\<close>

section \<open>Constants\<close>

fun REWARD_ADS_REQUIRED :: "rewardType \<Rightarrow> int" where
  "REWARD_ADS_REQUIRED DAILY_CARD_UNLOCK = 1"
| "REWARD_ADS_REQUIRED TAROT_READING_UNLOCK = 5"
| "REWARD_ADS_REQUIRED FLASH_OFFER_UNLOCK = 2"

definition REWARD_SESSION_TTL_SECONDS :: int where
  "REWARD_SESSION_TTL_SECONDS = 10 * 60"

definition FLASH_OFFER_DAILY_LIMIT :: int where
  "FLASH_OFFER_DAILY_LIMIT = 1"

definition FLASH_OFFER_PACKAGE_CODE :: string where
  "FLASH_OFFER_PACKAGE_CODE = ''BASICO_FUEGO''"

definition FLASH_OFFER_DISCOUNT_PERCENT :: int where
  "FLASH_OFFER_DISCOUNT_PERCENT = 20"

definition FLASH_OFFER_WINDOW_MINUTES :: int where
  "FLASH_OFFER_WINDOW_MINUTES = 30"

fun reward_type_text :: "rewardType \<Rightarrow> string" where
  "reward_type_text DAILY_CARD_UNLOCK = ''DAILY_CARD_UNLOCK''"
| "reward_type_text TAROT_READING_UNLOCK = ''TAROT_READING_UNLOCK''"
| "reward_type_text FLASH_OFFER_UNLOCK = ''FLASH_OFFER_UNLOCK''"

fun session_status_text :: "rewardSessionStatus \<Rightarrow> string" where
  "session_status_text RS_CREATED = ''CREATED''"
| "session_status_text RS_STARTED = ''STARTED''"
| "session_status_text RS_COMPLETED = ''COMPLETED''"
| "session_status_text RS_EXPIRED = ''EXPIRED''"
| "session_status_text RS_FAILED = ''FAILED''"
| "session_status_text RS_REJECTED = ''REJECTED''"

section \<open>Summaries\<close>

record rewardSessionSummary =
  rss_id :: string
  rss_rewardType :: rewardType
  rss_provider :: string
  rss_status :: rewardSessionStatus
  rss_expiresAt :: string

definition toRewardSessionSummary :: "rewardSession \<Rightarrow> rewardSessionSummary" where
  "toRewardSessionSummary s = \<lparr>rss_id = rs_id s, rss_rewardType = rs_rewardType s,
     rss_provider = rs_provider s, rss_status = rs_status s, rss_expiresAt = toISOString (rs_expiresAt s)\<rparr>"

record rewardProgressSummary =
  rps_rewardType :: rewardType
  rps_currentCount :: int
  rps_requiredCount :: int
  rps_unlocked :: bool

record flashOfferSummary =
  fos_packageCode :: string
  fos_discountPercent :: int
  fos_expiresAt :: string

definition toFlashOfferSummary :: "flashOfferUnlock \<Rightarrow> flashOfferSummary" where
  "toFlashOfferSummary f = \<lparr>fos_packageCode = fo_packageCode f,
     fos_discountPercent = fo_discountPercent f, fos_expiresAt = toISOString (fo_expiresAt f)\<rparr>"

record processCallbackResult =
  granted :: bool
  reason :: "string option"

section \<open>The provider interface\<close>

text \<open>
  \<open>AdCallbackVerifier\<close>: \<open>verify\<close> throws or gives the id of our session. The parameters are the
  query string of the callback.
\<close>

record adCallbackVerifier =
  av_providerName :: string
  av_verify :: "(string \<times> string) list \<Rightarrow> exn + string"

definition stubVerifier :: "env \<Rightarrow> adCallbackVerifier" where
  "stubVerifier E = \<lparr>av_providerName = ''stub'',
     av_verify = (\<lambda>rawParams. case map_of rawParams ''sessionId'' of
         None \<Rightarrow> Inl (UnauthorizedException ''ad callback signature'')
       | Some sid \<Rightarrow>
           if sid = [] \<or> map_of rawParams ''secret'' \<noteq> Some (e_rewardsStubSecret E)
           then Inl (UnauthorizedException ''ad callback signature'')
           else Inr sid)\<rparr>"

text \<open>The \<open>Map\<close> from provider names to verifiers: the last one of a name counts.\<close>

definition verifier_for :: "adCallbackVerifier list \<Rightarrow> string \<Rightarrow> adCallbackVerifier option" where
  "verifier_for verifiers name = find (\<lambda>v. av_providerName v = name) (rev verifiers)"

section \<open>The service\<close>

definition rewards_logEvent ::
  "env \<Rightarrow> string \<Rightarrow> string \<Rightarrow> (string \<times> string) list \<Rightarrow> (world, unit) prog" where
  "rewards_logEvent E ty userId metadata =
     await (random_uuid E) (\<lambda>i.
     andthen (create AnalyticsEvent \<lparr>ae_id = i, ae_type = ty, ae_shareLinkId = None,
         ae_userId = Some userId, ae_metadata = metadata\<rparr>)
       (ret ()))"

definition assertFlashOfferDailyLimitNotExceeded :: "env \<Rightarrow> string \<Rightarrow> (world, unit) prog" where
  "assertFlashOfferDailyLimitNotExceeded E userId =
     await (date_now E) (\<lambda>now.
     await (count_rows RewardTransaction (\<lambda>x. rx_userId x = userId \<and>
              rx_rewardType x = FLASH_OFFER_UNLOCK \<and> e_localMidnight E now \<le> rx_createdAt x)) (\<lambda>completedToday.
     throw_if (FLASH_OFFER_DAILY_LIMIT \<le> int completedToday div REWARD_ADS_REQUIRED FLASH_OFFER_UNLOCK)
       (BadRequestException ''daily flash offer limit'')))"

definition createSession :: "env \<Rightarrow> string \<Rightarrow> rewardType \<Rightarrow> (world, rewardSessionSummary) prog" where
  "createSession E userId rewardType =
     andthen
       (if rewardType = FLASH_OFFER_UNLOCK then assertFlashOfferDailyLimitNotExceeded E userId
        else ret ())
       (await (date_now E) (\<lambda>now.
        await (random_uuid E) (\<lambda>key.
        await (random_uuid E) (\<lambda>i.
        await (create RewardSession \<lparr>rs_id = i, rs_userId = userId, rs_rewardType = rewardType,
            rs_provider = ''stub'', rs_status = RS_CREATED, rs_idempotencyKey = key,
            rs_completedAt = None, rs_expiresAt = now + REWARD_SESSION_TTL_SECONDS * 1000\<rparr>) (\<lambda>session.
        andthen (rewards_logEvent E ''ad_requested'' userId
            [(''rewardType'', reward_type_text rewardType), (''provider'', rs_provider session),
             (''sessionId'', rs_id session)])
          (ret (toRewardSessionSummary session)))))))"

definition getProgress :: "string \<Rightarrow> rewardType \<Rightarrow> (world, rewardProgressSummary) prog" where
  "getProgress userId rewardType =
     await (find_first RewardProgress (\<lambda>p. rp_userId p = userId \<and> rp_rewardType p = rewardType)) (\<lambda>progress.
     let requiredCount = REWARD_ADS_REQUIRED rewardType;
         currentCount = (case progress of None \<Rightarrow> 0 | Some p \<Rightarrow> rp_currentCount p) in
     ret \<lparr>rps_rewardType = rewardType, rps_currentCount = currentCount,
          rps_requiredCount = requiredCount, rps_unlocked = (requiredCount \<le> currentCount)\<rparr>)"

definition tryConsumeUnlock :: "string \<Rightarrow> rewardType \<Rightarrow> (world, bool) prog" where
  "tryConsumeUnlock userId rewardType =
     await (update_many RewardProgress
              (\<lambda>p. rp_userId p = userId \<and> rp_rewardType p = rewardType \<and>
                   REWARD_ADS_REQUIRED rewardType \<le> rp_currentCount p)
              (\<lambda>p. p\<lparr>rp_currentCount := 0\<rparr>)) (\<lambda>n.
     ret (0 < n))"

text \<open>\<open>rewardProgress.upsert\<close>: add one to the row of the user and type, or create it with one.\<close>

definition upsertProgress :: "env \<Rightarrow> string \<Rightarrow> rewardType \<Rightarrow> (world, rewardProgress) prog" where
  "upsertProgress E userId rewardType =
     await (find_first RewardProgress (\<lambda>p. rp_userId p = userId \<and> rp_rewardType p = rewardType)) (\<lambda>found.
     case found of
       None \<Rightarrow>
         await (random_uuid E) (\<lambda>i.
         create RewardProgress \<lparr>rp_id = i, rp_userId = userId, rp_rewardType = rewardType, rp_currentCount = 1\<rparr>)
     | Some _ \<Rightarrow>
         update_row RewardProgress (\<lambda>p. rp_userId p = userId \<and> rp_rewardType p = rewardType)
           (\<lambda>p. p\<lparr>rp_currentCount := rp_currentCount p + 1\<rparr>))"

text \<open>The branch of the transaction that turns two ads into a flash offer.\<close>

definition grantFlashOffer :: "env \<Rightarrow> string \<Rightarrow> (world, unit) prog" where
  "grantFlashOffer E userId =
     andthen (update_row RewardProgress
         (\<lambda>p. rp_userId p = userId \<and> rp_rewardType p = FLASH_OFFER_UNLOCK)
         (\<lambda>p. p\<lparr>rp_currentCount := 0\<rparr>))
     (await (date_now E) (\<lambda>now.
      await (random_uuid E) (\<lambda>k.
      await (date_now E) (\<lambda>createdAt.
      andthen (create FlashOfferUnlock \<lparr>fo_id = k, fo_userId = userId,
          fo_packageCode = FLASH_OFFER_PACKAGE_CODE, fo_discountPercent = FLASH_OFFER_DISCOUNT_PERCENT,
          fo_expiresAt = now + FLASH_OFFER_WINDOW_MINUTES * 60000, fo_consumedAt = None,
          fo_createdAt = createdAt\<rparr>)
        (ret ())))))"

text \<open>The transaction of \<open>registerCompletedSession\<close>; \<open>True\<close> when this call completed the session.\<close>

definition completeSession :: "env \<Rightarrow> rewardSession \<Rightarrow> string \<Rightarrow> (world, bool) prog" where
  "completeSession E session provider =
     transaction
       (await (date_now E) (\<lambda>completedAt.
        await (update_many RewardSession
                 (\<lambda>s. rs_id s = rs_id session \<and> (rs_status s = RS_CREATED \<or> rs_status s = RS_STARTED))
                 (\<lambda>s. s\<lparr>rs_status := RS_COMPLETED, rs_completedAt := Some completedAt\<rparr>)) (\<lambda>updated.
        if updated = 0 then ret False
        else
          await (random_uuid E) (\<lambda>i.
          await (date_now E) (\<lambda>createdAt.
          andthen (create RewardTransaction \<lparr>rx_id = i, rx_userId = rs_userId session,
              rx_rewardSessionId = rs_id session, rx_rewardType = rs_rewardType session,
              rx_rewardAmount = 1, rx_provider = provider, rx_createdAt = createdAt\<rparr>)
          (await (upsertProgress E (rs_userId session) (rs_rewardType session)) (\<lambda>progress.
           if rs_rewardType session = FLASH_OFFER_UNLOCK \<and>
              REWARD_ADS_REQUIRED FLASH_OFFER_UNLOCK \<le> rp_currentCount progress then
             andthen (grantFlashOffer E (rs_userId session)) (ret True)
           else ret True)))))))"

text \<open>What \<open>registerCompletedSession\<close> does with an open session that has not expired.\<close>

definition settleSession ::
  "env \<Rightarrow> rewardSession \<Rightarrow> string \<Rightarrow> string \<Rightarrow> (world, processCallbackResult) prog" where
  "settleSession E session sessionId provider =
     await
       (try_catch (completeSession E session provider)
         (\<lambda>e. if isUniqueConstraintViolation e then ret False else throw e)) (\<lambda>wasCompletedHere.
     if \<not> wasCompletedHere then ret \<lparr>granted = False, reason = Some ''already_completed''\<rparr>
     else
       andthen (rewards_logEvent E ''ad_completed'' (rs_userId session)
           [(''rewardType'', reward_type_text (rs_rewardType session)), (''sessionId'', sessionId),
            (''provider'', provider)])
       (andthen (rewards_logEvent E ''reward_granted'' (rs_userId session)
           [(''rewardType'', reward_type_text (rs_rewardType session)), (''sessionId'', sessionId),
            (''provider'', provider)])
         (ret \<lparr>granted = True, reason = None\<rparr>)))"

definition registerCompletedSession ::
  "env \<Rightarrow> string \<Rightarrow> string \<Rightarrow> (world, processCallbackResult) prog" where
  "registerCompletedSession E sessionId provider =
     await (find_first RewardSession (\<lambda>s. rs_id s = sessionId)) (\<lambda>found. case found of
       None \<Rightarrow> ret \<lparr>granted = False, reason = Some ''session_not_found''\<rparr>
     | Some session \<Rightarrow>
         if rs_status session = RS_COMPLETED then ret \<lparr>granted = False, reason = Some ''already_completed''\<rparr>
         else if rs_status session \<noteq> RS_CREATED \<and> rs_status session \<noteq> RS_STARTED then
           andthen (rewards_logEvent E ''reward_rejected'' (rs_userId session)
               [(''rewardType'', reward_type_text (rs_rewardType session)), (''sessionId'', sessionId),
                (''reason'', session_status_text (rs_status session))])
             (ret \<lparr>granted = False, reason = Some ''session_not_reusable''\<rparr>)
         else
           await (date_now E) (\<lambda>now.
           if rs_expiresAt session < now then
             andthen (update_many RewardSession
                 (\<lambda>s. rs_id s = sessionId \<and> (rs_status s = RS_CREATED \<or> rs_status s = RS_STARTED))
                 (\<lambda>s. s\<lparr>rs_status := RS_EXPIRED\<rparr>))
             (andthen (rewards_logEvent E ''reward_session_expired'' (rs_userId session)
                 [(''rewardType'', reward_type_text (rs_rewardType session)), (''sessionId'', sessionId)])
               (ret \<lparr>granted = False, reason = Some ''session_expired''\<rparr>))
           else
             settleSession E session sessionId provider))"

definition processProviderCallback ::
  "env \<Rightarrow> adCallbackVerifier list \<Rightarrow> string \<Rightarrow> (string \<times> string) list \<Rightarrow> (world, processCallbackResult) prog" where
  "processProviderCallback E verifiers providerName rawParams = (case verifier_for verifiers providerName of
       None \<Rightarrow> throw (NotFoundException ''ad provider'')
     | Some v \<Rightarrow> (case av_verify v rawParams of
           Inl e \<Rightarrow> throw e
         | Inr externalSessionId \<Rightarrow> registerCompletedSession E externalSessionId providerName))"

definition simulateStubCompletion ::
  "env \<Rightarrow> adCallbackVerifier list \<Rightarrow> string \<Rightarrow> string \<Rightarrow> (world, processCallbackResult) prog" where
  "simulateStubCompletion E verifiers userId sessionId =
     (if e_nodeEnv E = ''production'' then throw (NotFoundException ''not found'')
      else
        await (find_first RewardSession (\<lambda>s. rs_id s = sessionId)) (\<lambda>found. case found of
          None \<Rightarrow> throw (ForbiddenException ''reward session'')
        | Some session \<Rightarrow>
            if rs_userId session \<noteq> userId then throw (ForbiddenException ''reward session'')
            else processProviderCallback E verifiers ''stub''
              [(''sessionId'', sessionId), (''secret'', e_rewardsStubSecret E)]))"

definition getActiveFlashOffer :: "env \<Rightarrow> string \<Rightarrow> (world, flashOfferSummary option) prog" where
  "getActiveFlashOffer E userId =
     await (date_now E) (\<lambda>now.
     await (find_first_desc FlashOfferUnlock fo_createdAt (\<lambda>f. fo_userId f = userId \<and>
              fo_consumedAt f = None \<and> now < fo_expiresAt f)) (\<lambda>offer.
     ret (map_option toFlashOfferSummary offer)))"

end
