(* ===== verification/RewardLaws.thy ===== *)
theory RewardLaws
  imports RewardsService
begin

text \<open>
  What the reward tables keep: a reward belongs to a completed session of its user, and every unlock
  and every flash offer was paid for with rewarded advertisements. \<open>rewards_inv\<close> is about one
  database; \<open>paid\<close> counts the unlocks already handed out, which the database does not keep.
\<close>

section \<open>The invariant\<close>

definition open_session :: "rewardSession \<Rightarrow> bool" where
  "open_session s = (rs_status s = RS_CREATED \<or> rs_status s = RS_STARTED)"

definition ads_watched :: "string \<Rightarrow> rewardType \<Rightarrow> database \<Rightarrow> nat" where
  "ads_watched u ty d = length (filter (\<lambda>x. rx_userId x = u \<and> rx_rewardType x = ty) (rewardTransactions d))"

definition offers_of :: "string \<Rightarrow> database \<Rightarrow> nat" where
  "offers_of u d = length (filter (\<lambda>f. fo_userId f = u) (flashOfferUnlocks d))"

definition progress_of :: "string \<Rightarrow> rewardType \<Rightarrow> database \<Rightarrow> int" where
  "progress_of u ty d = (case find (\<lambda>p. rp_userId p = u \<and> rp_rewardType p = ty) (rewardProgresses d) of
       None \<Rightarrow> 0 | Some p \<Rightarrow> rp_currentCount p)"

definition reward_backed :: "rewardSession list \<Rightarrow> rewardTransaction \<Rightarrow> bool" where
  "reward_backed ss x = (\<exists>s \<in> set ss. rs_id s = rx_rewardSessionId x \<and> rs_status s = RS_COMPLETED \<and>
     rs_userId s = rx_userId x \<and> rs_rewardType s = rx_rewardType x)"

definition rewards_inv :: "database \<Rightarrow> bool" where
  "rewards_inv d = (unique_rows RewardSession d \<and> unique_rows RewardTransaction d \<and>
     unique_rows RewardProgress d \<and> (\<forall>x \<in> set (rewardTransactions d). reward_backed (rewardSessions d) x))"

definition paid_for :: "(string \<Rightarrow> rewardType \<Rightarrow> nat) \<Rightarrow> database \<Rightarrow> bool" where
  "paid_for paid d = (\<forall>u ty. 0 \<le> progress_of u ty d \<and>
     REWARD_ADS_REQUIRED ty * int (paid u ty) +
     (if ty = FLASH_OFFER_UNLOCK then REWARD_ADS_REQUIRED FLASH_OFFER_UNLOCK * int (offers_of u d) else 0) +
     progress_of u ty d \<le> int (ads_watched u ty d))"

lemma rewards_invD:
  assumes "rewards_inv d"
  shows "unique_rows RewardSession d" "unique_rows RewardTransaction d" "unique_rows RewardProgress d"
    "x \<in> set (rewardTransactions d) \<Longrightarrow> reward_backed (rewardSessions d) x"
  using assms by (auto simp: rewards_inv_def)

lemma required_pos [simp]: "0 < REWARD_ADS_REQUIRED ty"
  by (cases ty) simp_all

lemma session_unique:
  assumes "rewards_inv d" "s \<in> set (rewardSessions d)" "s' \<in> set (rewardSessions d)" "rs_id s = rs_id s'"
  shows "s = s'"
  using rewardSessions_tbl.unique_rows_clash_eq [OF rewards_invD(1) [OF assms(1)], of s s'] assms(2-)
  by (simp add: RewardSession_def)

lemma progress_unique:
  assumes "rewards_inv d" "p \<in> set (rewardProgresses d)" "rp_userId p = u" "rp_rewardType p = ty"
  shows "progress_of u ty d = rp_currentCount p"
proof -
  have "find (\<lambda>p. rp_userId p = u \<and> rp_rewardType p = ty) (rewardProgresses d) = Some p"
    using rewardProgresses_tbl.unique_rows_clash_eq [OF rewards_invD(3) [OF assms(1)], of _ p] assms(2-)
    by (intro find_SomeI_unique) (auto simp: RewardProgress_def)
  then show ?thesis by (simp add: progress_of_def)
qed

text \<open>A session with a reward is completed, so an open session has none.\<close>

lemma open_unrewarded:
  assumes "rewards_inv d" "s \<in> set (rewardSessions d)" "open_session s" "x \<in> set (rewardTransactions d)"
  shows "rx_rewardSessionId x \<noteq> rs_id s"
proof
  assume "rx_rewardSessionId x = rs_id s"
  then obtain s' where "s' \<in> set (rewardSessions d)" "rs_id s' = rs_id s" "rs_status s' = RS_COMPLETED"
    using rewards_invD(4) [OF assms(1,4)] by (auto simp: reward_backed_def)
  with session_unique [OF assms(1) _ assms(2), of s'] assms(3) show False
    by (auto simp: open_session_def)
qed

section \<open>Updates of the progress\<close>

lemma progress_of_other:
  "progress_of u ty (d\<lparr>rewardSessions := a\<rparr>) = progress_of u ty d"
  "progress_of u ty (d\<lparr>rewardTransactions := b\<rparr>) = progress_of u ty d"
  "progress_of u ty (d\<lparr>flashOfferUnlocks := c\<rparr>) = progress_of u ty d"
  "progress_of u ty (d\<lparr>analyticsEvents := e\<rparr>) = progress_of u ty d"
  by (simp_all add: progress_of_def)

lemma find_update_key:
  assumes "\<And>p. rp_userId (f p) = rp_userId p \<and> rp_rewardType (f p) = rp_rewardType p"
    and "\<And>p. P p \<Longrightarrow> rp_userId p = u' \<and> rp_rewardType p = ty'"
  shows "progress_of u ty (d\<lparr>rewardProgresses := map (\<lambda>p. if P p then f p else p) ps\<rparr>) =
    (case find (\<lambda>p. rp_userId p = u \<and> rp_rewardType p = ty) ps of
       None \<Rightarrow> 0 | Some p \<Rightarrow> rp_currentCount (if P p then f p else p))"
  using assms(1) by (simp add: progress_of_def find_map_update split: option.split)

lemma progress_of_step:
  "progress_of u ty (d\<lparr>rewardProgresses := map (\<lambda>p. if rp_userId p = u' \<and> rp_rewardType p = ty'
       then p\<lparr>rp_currentCount := g (rp_currentCount p)\<rparr> else p) ps\<rparr>) =
   (case find (\<lambda>p. rp_userId p = u \<and> rp_rewardType p = ty) ps of
       None \<Rightarrow> 0 | Some p \<Rightarrow> if u = u' \<and> ty = ty' then g (rp_currentCount p) else rp_currentCount p)"
  by (subst find_update_key) (auto split: option.split dest: find_SomeD)

lemma progress_reset:
  "progress_of u ty (d\<lparr>rewardProgresses := map (\<lambda>p. if rp_userId p = u' \<and> rp_rewardType p = ty'
       then p\<lparr>rp_currentCount := 0\<rparr> else p) (rewardProgresses d)\<rparr>) =
   (if u = u' \<and> ty = ty' then 0 else progress_of u ty d)"
  unfolding progress_of_step [where g = "\<lambda>_. 0"] by (simp add: progress_of_def split: option.split)

lemma progress_of_new:
  "find (\<lambda>p. rp_userId p = u' \<and> rp_rewardType p = ty') ps = None \<Longrightarrow>
   progress_of u ty (d\<lparr>rewardProgresses := ps @ [\<lparr>rp_id = i, rp_userId = u', rp_rewardType = ty', rp_currentCount = k\<rparr>]\<rparr>) =
   (if u = u' \<and> ty = ty' then k else progress_of u ty (d\<lparr>rewardProgresses := ps\<rparr>))"
  by (auto simp: progress_of_def find_append split: option.split)

section \<open>What a completion does\<close>

lemma upsertProgress_run:
  assumes "upsertProgress E u ty w = (Inr p, w')"
  shows "\<exists>ps. db w' = (db w)\<lparr>rewardProgresses := ps\<rparr> \<and>
     (\<forall>v ty'. progress_of v ty' (db w') = progress_of v ty' (db w) + (if v = u \<and> ty' = ty then 1 else 0)) \<and>
     rp_currentCount p = progress_of u ty (db w') \<and>
     (\<exists>q \<in> set ps. rp_userId q = u \<and> rp_rewardType q = ty)"
proof (cases "find (\<lambda>p. rp_userId p = u \<and> rp_rewardType p = ty) (rewardProgresses (db w))")
  case None
  with assms show ?thesis
    by (auto simp: upsertProgress_def prog_inv db_inv RewardProgress_def progress_of_new progress_of_def [of u ty "db w"]
        intro!: exI [of _ "_ @ _"])
next
  case (Some q)
  have q: "q \<in> set (rewardProgresses (db w))" "rp_userId q = u" "rp_rewardType q = ty"
    using find_SomeD [OF Some] by auto
  let ?f = "\<lambda>p. if rp_userId p = u \<and> rp_rewardType p = ty then p\<lparr>rp_currentCount := rp_currentCount p + 1\<rparr> else p"
  have db: "db w' = (db w)\<lparr>rewardProgresses := map ?f (rewardProgresses (db w))\<rparr>" and p: "rp_currentCount p = rp_currentCount q + 1"
    using assms Some by (auto simp: upsertProgress_def prog_inv db_inv RewardProgress_def)
  have step: "progress_of v ty' (db w') = progress_of v ty' (db w) + (if v = u \<and> ty' = ty then 1 else 0)" for v ty'
    using Some unfolding db progress_of_step [where g = "\<lambda>x. x + 1"] by (auto simp: progress_of_def split: option.split)
  have "\<exists>q \<in> set (map ?f (rewardProgresses (db w))). rp_userId q = u \<and> rp_rewardType q = ty"
    using q unfolding bex_map_update by auto
  moreover have "rp_currentCount p = progress_of u ty (db w')"
    using p Some step [of u ty] by (simp add: progress_of_def [of u ty "db w"])
  ultimately show ?thesis using db step by blast
qed

lemma unique_ignores:
  "ignores (unique_rows RewardSession) RewardTransaction" "ignores (unique_rows RewardSession) RewardProgress"
  "ignores (unique_rows RewardSession) FlashOfferUnlock" "ignores (unique_rows RewardSession) AnalyticsEvent"
  "ignores (unique_rows RewardTransaction) RewardSession" "ignores (unique_rows RewardTransaction) RewardProgress"
  "ignores (unique_rows RewardTransaction) FlashOfferUnlock" "ignores (unique_rows RewardTransaction) AnalyticsEvent"
  "ignores (unique_rows RewardProgress) RewardSession" "ignores (unique_rows RewardProgress) RewardTransaction"
  "ignores (unique_rows RewardProgress) FlashOfferUnlock" "ignores (unique_rows RewardProgress) AnalyticsEvent"
  by (simp_all add: ignores_def unique_rows_def table_defs)

lemmas unique_intro = keeps_intro unique_ignores
  rewardSessions_tbl.keeps_unique_create rewardTransactions_tbl.keeps_unique_create rewardProgresses_tbl.keeps_unique_create
  rewardSessions_tbl.keeps_unique_update_many rewardProgresses_tbl.keeps_unique_update_many
  rewardProgresses_tbl.keeps_unique_update_row

lemma complete_keeps_unique:
  "keeps (unique_rows RewardSession) (completeSession E s p)"
  "keeps (unique_rows RewardTransaction) (completeSession E s p)"
  "keeps (unique_rows RewardProgress) (completeSession E s p)"
  unfolding completeSession_def upsertProgress_def grantFlashOffer_def
  by (intro unique_intro; simp add: RewardSession_def RewardProgress_def)+

definition unlocks_offer :: "rewardSession \<Rightarrow> database \<Rightarrow> bool" where
  "unlocks_offer s d = (rs_rewardType s = FLASH_OFFER_UNLOCK \<and>
     REWARD_ADS_REQUIRED FLASH_OFFER_UNLOCK \<le> progress_of (rs_userId s) FLASH_OFFER_UNLOCK d + 1)"

text \<open>The rows of the session that a completion marks.\<close>

definition complete_sessions :: "string \<Rightarrow> int \<Rightarrow> rewardSession list \<Rightarrow> rewardSession list" where
  "complete_sessions i c = map (\<lambda>t. if rs_id t = i \<and> open_session t
     then t\<lparr>rs_status := RS_COMPLETED, rs_completedAt := Some c\<rparr> else t)"

lemma grant_offer_run:
  assumes "grantFlashOffer E u w = (Inr r, w')"
  shows "rewardSessions (db w') = rewardSessions (db w) \<and> rewardTransactions (db w') = rewardTransactions (db w) \<and>
     offers_of v (db w') = offers_of v (db w) + (if v = u then 1 else 0) \<and>
     progress_of v ty (db w') = (if v = u \<and> ty = FLASH_OFFER_UNLOCK then 0 else progress_of v ty (db w))"
  using assms
  by (auto simp: grantFlashOffer_def prog_inv db_inv RewardProgress_def FlashOfferUnlock_def offers_of_def
      progress_of_other progress_reset)

lemma complete_steps:
  assumes s: "s \<in> set (rewardSessions (db w))" "open_session s"
    and run: "completeSession E s prov w = (Inr b, w')"
  obtains c x p w1 w2 where "db w1 = (db w)\<lparr>rewardSessions := complete_sessions (rs_id s) c (rewardSessions (db w)),
       rewardTransactions := rewardTransactions (db w) @ [x]\<rparr>"
    "rx_userId x = rs_userId s" "rx_rewardSessionId x = rs_id s" "rx_rewardType x = rs_rewardType s"
    "upsertProgress E (rs_userId s) (rs_rewardType s) w1 = (Inr p, w2)"
    "(if rs_rewardType s = FLASH_OFFER_UNLOCK \<and> REWARD_ADS_REQUIRED FLASH_OFFER_UNLOCK \<le> rp_currentCount p
      then andthen (grantFlashOffer E (rs_userId s)) (ret True) else ret True) w2 = (Inr b, w')"
proof -
  have "filter (\<lambda>t. rs_id t = rs_id s \<and> (rs_status t = RS_CREATED \<or> rs_status t = RS_STARTED)) (rewardSessions (db w)) \<noteq> []"
    using s by (auto simp: filter_empty_conv open_session_def)
  with run show ?thesis
    by (simp add: completeSession_def transaction_Inr_iff await_Inr_iff andthen_Inr_iff update_many_Inr_iff
        create_Inr_iff RewardSession_def RewardTransaction_def open_session_def [symmetric] complete_sessions_def [symmetric]
        del: if_Inr_iff REWARD_ADS_REQUIRED.simps)
     (elim exE conjE, rule that [rotated 4], assumption, assumption, simp, simp, simp, simp)
qed

lemma complete_session_run:
  assumes s: "s \<in> set (rewardSessions (db w))" "open_session s"
    and run: "completeSession E s prov w = (Inr b, w')"
  obtains c x where b "rewardSessions (db w') = complete_sessions (rs_id s) c (rewardSessions (db w))"
    "rewardTransactions (db w') = rewardTransactions (db w) @ [x]"
    "rx_userId x = rs_userId s" "rx_rewardSessionId x = rs_id s" "rx_rewardType x = rs_rewardType s"
    "\<And>v ty. progress_of v ty (db w') = (if v = rs_userId s \<and> ty = rs_rewardType s
        then if unlocks_offer s (db w) then 0 else progress_of v ty (db w) + 1 else progress_of v ty (db w))"
    "\<And>v. offers_of v (db w') = offers_of v (db w) + (if v = rs_userId s \<and> unlocks_offer s (db w) then 1 else 0)"
proof -
  obtain c x p w1 w2 where w1: "db w1 = (db w)\<lparr>rewardSessions := complete_sessions (rs_id s) c (rewardSessions (db w)),
       rewardTransactions := rewardTransactions (db w) @ [x]\<rparr>"
    and x: "rx_userId x = rs_userId s" "rx_rewardSessionId x = rs_id s" "rx_rewardType x = rs_rewardType s"
    and up: "upsertProgress E (rs_userId s) (rs_rewardType s) w1 = (Inr p, w2)"
    and rest: "(if rs_rewardType s = FLASH_OFFER_UNLOCK \<and> REWARD_ADS_REQUIRED FLASH_OFFER_UNLOCK \<le> rp_currentCount p
      then andthen (grantFlashOffer E (rs_userId s)) (ret True) else ret True) w2 = (Inr b, w')"
    by (rule complete_steps [OF s run])
  obtain ps where w2: "db w2 = (db w1)\<lparr>rewardProgresses := ps\<rparr>"
    and step: "\<And>v ty. progress_of v ty (db w2) =
        progress_of v ty (db w) + (if v = rs_userId s \<and> ty = rs_rewardType s then 1 else 0)"
    and p: "rp_currentCount p = progress_of (rs_userId s) (rs_rewardType s) (db w2)"
    using upsertProgress_run [OF up] unfolding w1 progress_of_other by blast
  have cond: "(rs_rewardType s = FLASH_OFFER_UNLOCK \<and> REWARD_ADS_REQUIRED FLASH_OFFER_UNLOCK \<le> rp_currentCount p) =
      unlocks_offer s (db w)"
    by (auto simp: unlocks_offer_def p step)
  have w2': "rewardSessions (db w2) = complete_sessions (rs_id s) c (rewardSessions (db w))"
    "rewardTransactions (db w2) = rewardTransactions (db w) @ [x]" "offers_of v (db w2) = offers_of v (db w)" for v
    by (simp_all add: w2 w1 offers_of_def)
  show ?thesis
  proof (cases "unlocks_offer s (db w)")
    case True
    then have ty: "rs_rewardType s = FLASH_OFFER_UNLOCK" by (simp add: unlocks_offer_def)
    from rest True obtain r w3 where g: "grantFlashOffer E (rs_userId s) w2 = (Inr r, w3)" and "b" "w3 = w'"
      unfolding cond by (auto simp: andthen_Inr_iff)
    with grant_offer_run [OF g] show ?thesis
      by (intro that [of c x]) (simp_all add: w2' x step ty True)
  next
    case False
    with rest have "b" "w' = w2" unfolding cond by simp_all
    with False show ?thesis by (intro that [of c x]) (simp_all add: w2' x step)
  qed
qed

section \<open>The invariant through a completion\<close>

lemma complete_backed:
  assumes "reward_backed ss x"
  shows "reward_backed (complete_sessions i c ss) x"
proof -
  from assms obtain s where s: "s \<in> set ss" "rs_id s = rx_rewardSessionId x" "rs_status s = RS_COMPLETED"
    "rs_userId s = rx_userId x" "rs_rewardType s = rx_rewardType x" by (auto simp: reward_backed_def)
  then have "\<not> open_session s" by (simp add: open_session_def)
  with s(1) have "s \<in> set (complete_sessions i c ss)"
    unfolding complete_sessions_def set_map by (intro image_eqI [of _ _ s]) simp_all
  with s show ?thesis by (auto simp: reward_backed_def)
qed

lemma completed_backed:
  assumes "s \<in> set ss" "open_session s" "rx_userId x = rs_userId s" "rx_rewardSessionId x = rs_id s"
    "rx_rewardType x = rs_rewardType s"
  shows "reward_backed (complete_sessions (rs_id s) c ss) x"
proof -
  have "s\<lparr>rs_status := RS_COMPLETED, rs_completedAt := Some c\<rparr> \<in> set (complete_sessions (rs_id s) c ss)"
    using assms(1,2) unfolding complete_sessions_def set_map by (intro image_eqI [of _ _ s]) simp_all
  from bexI [OF _ this] assms show ?thesis unfolding reward_backed_def by simp
qed

lemma complete_keeps_inv:
  assumes inv: "rewards_inv (db w)" and s: "s \<in> set (rewardSessions (db w))" "open_session s"
    and run: "completeSession E s prov w = (r, w')"
  shows "rewards_inv (db w')"
proof (cases r)
  case (Inl e)
  with run have "db w' = db w" by (auto simp: completeSession_def dest: transaction_error_db)
  with inv show ?thesis by simp
next
  case (Inr b)
  note run = run [unfolded Inr]
  note u = complete_keeps_unique [THEN keepsD_run, OF _ run]
  obtain c x where *: "rewardSessions (db w') = complete_sessions (rs_id s) c (rewardSessions (db w))"
    "rewardTransactions (db w') = rewardTransactions (db w) @ [x]"
    "rx_userId x = rs_userId s" "rx_rewardSessionId x = rs_id s" "rx_rewardType x = rs_rewardType s"
    by (rule complete_session_run [OF s run])
  show ?thesis
    using rewards_invD [OF inv] u completed_backed [OF s *(3-5)]
    by (auto simp: rewards_inv_def * complete_backed)
qed

lemma complete_keeps_paid:
  assumes "paid_for paid (db w)" and s: "s \<in> set (rewardSessions (db w))" "open_session s"
    and run: "completeSession E s prov w = (r, w')"
  shows "paid_for paid (db w')"
proof (cases r)
  case (Inl e)
  with run have "db w' = db w" by (auto simp: completeSession_def dest: transaction_error_db)
  with assms(1) show ?thesis by simp
next
  case (Inr b)
  obtain c x where tx: "rewardTransactions (db w') = rewardTransactions (db w) @ [x]"
    "rx_userId x = rs_userId s" "rx_rewardType x = rs_rewardType s"
    and pr: "\<And>v ty. progress_of v ty (db w') = (if v = rs_userId s \<and> ty = rs_rewardType s
        then if unlocks_offer s (db w) then 0 else progress_of v ty (db w) + 1 else progress_of v ty (db w))"
    and off: "\<And>v. offers_of v (db w') = offers_of v (db w) + (if v = rs_userId s \<and> unlocks_offer s (db w) then 1 else 0)"
    by (rule complete_session_run [OF s run [unfolded Inr]]) blast
  have ads: "ads_watched v ty (db w') = ads_watched v ty (db w) + (if v = rs_userId s \<and> ty = rs_rewardType s then 1 else 0)" for v ty
    using tx by (auto simp: ads_watched_def)
  show ?thesis
    unfolding paid_for_def
  proof (intro allI)
    fix v ty
    note old = assms(1) [unfolded paid_for_def, rule_format, of v ty]
    show "0 \<le> progress_of v ty (db w') \<and>
     REWARD_ADS_REQUIRED ty * int (paid v ty) +
     (if ty = FLASH_OFFER_UNLOCK then REWARD_ADS_REQUIRED FLASH_OFFER_UNLOCK * int (offers_of v (db w')) else 0) +
     progress_of v ty (db w') \<le> int (ads_watched v ty (db w'))"
      using old unfolding pr off ads unlocks_offer_def by (auto simp: algebra_simps)
  qed
qed

text \<open>
  A session that is no longer open is not completed again, even by a callback that read it while
  it was open: the guarded update finds no row.
\<close>

lemma complete_closed:
  assumes "\<And>t. t \<in> set (rewardSessions (db w)) \<Longrightarrow> rs_id t = rs_id s \<Longrightarrow> \<not> open_session t"
  shows "\<exists>w'. completeSession E s prov w = (Inr False, w') \<and> db w' = db w"
proof -
  have none: "\<not> (rs_id t = rs_id s \<and> (rs_status t = RS_CREATED \<or> rs_status t = RS_STARTED))"
    if "t \<in> set (rewardSessions (db w))" for t
    using assms [OF that] by (auto simp: open_session_def)
  then have "map (\<lambda>t. if rs_id t = rs_id s \<and> (rs_status t = RS_CREATED \<or> rs_status t = RS_STARTED)
      then t\<lparr>rs_status := RS_COMPLETED, rs_completedAt := Some c\<rparr> else t) (rewardSessions (db w)) = rewardSessions (db w)" for c
    by (intro map_idI) auto
  moreover have "filter (\<lambda>t. rs_id t = rs_id s \<and> (rs_status t = RS_CREATED \<or> rs_status t = RS_STARTED)) (rewardSessions (db w)) = []"
    using none by (auto simp: filter_empty_conv)
  ultimately show ?thesis
    by (simp add: completeSession_def transaction_def await_def update_many_def RewardSession_def list_ex_iff)
qed

section \<open>The operations\<close>

lemma keeps_after:
  assumes "m w = (r, w1)" "I (db w1)" "\<And>e. keeps I (h e)" "\<And>x. keeps I (k x)"
    and "await (try_catch m h) k w = (r', w')"
  shows "I (db w')"
proof (cases r)
  case (Inl e)
  with assms(1,5) have "await (h e) k w1 = (r', w')" by (simp add: await_def try_catch_def)
  with keepsD_run [OF keeps_await [OF assms(3,4)] assms(2)] show ?thesis .
next
  case (Inr x)
  with assms(1,5) have "k x w1 = (r', w')" by (simp add: await_def try_catch_def)
  with keepsD_run [OF assms(4,2)] show ?thesis .
qed

lemma register_keeps:
  assumes ig: "ignores I AnalyticsEvent"
    and expire: "keeps I (update_many RewardSession
          (\<lambda>s. rs_id s = sid \<and> (rs_status s = RS_CREATED \<or> rs_status s = RS_STARTED)) (\<lambda>s. s\<lparr>rs_status := RS_EXPIRED\<rparr>))"
    and complete: "\<And>s w r w'. I (db w) \<Longrightarrow> s \<in> set (rewardSessions (db w)) \<Longrightarrow> open_session s \<Longrightarrow>
        completeSession E s prov w = (r, w') \<Longrightarrow> I (db w')"
  shows "keeps I (registerCompletedSession E sid prov)"
proof (rule keepsI)
  fix w r w' assume I: "I (db w)" and run: "registerCompletedSession E sid prov w = (r, w')"
  have log: "keeps I (rewards_logEvent E ty u m)" for ty u m
    unfolding rewards_logEvent_def by (intro keeps_intro ig)
  show "I (db w')"
  proof (cases "find (\<lambda>s. rs_id s = sid) (rewardSessions (db w))")
    case None
    with run I show ?thesis by (simp add: registerCompletedSession_def await_def RewardSession_def)
  next
    case (Some s)
    then have mem: "s \<in> set (rewardSessions (db w))" by (simp add: find_SomeD)
    show ?thesis
    proof (cases "open_session s \<and> \<not> rs_expiresAt s < e_clock E (ticks w)")
      case False
      have reject: "keeps I (andthen (rewards_logEvent E ty u m) (ret x))" for ty u m and x :: processCallbackResult
        by (intro keeps_intro log)
      have expired: "keeps I (andthen (update_many RewardSession
          (\<lambda>s. rs_id s = sid \<and> (rs_status s = RS_CREATED \<or> rs_status s = RS_STARTED)) (\<lambda>s. s\<lparr>rs_status := RS_EXPIRED\<rparr>))
          (andthen (rewards_logEvent E ty u m) (ret x)))" for ty u m and x :: processCallbackResult
        by (intro keeps_andthen expire reject)
      from run Some False keepsD_run [OF reject I] keepsD_run [OF expired, of "w\<lparr>ticks := Suc (ticks w)\<rparr>"] I
      show ?thesis
        by (auto simp: registerCompletedSession_def await_def RewardSession_def open_session_def
            simp del: andthen_def split: if_splits)
    next
      case True
      let ?w = "w\<lparr>ticks := Suc (ticks w)\<rparr>"
      obtain r1 w1 where c: "completeSession E s prov ?w = (r1, w1)" by (cases "completeSession E s prov ?w")
      have I1: "I (db w1)" by (rule complete [OF _ _ _ c]) (use I mem True in simp_all)
      from run Some True have "settleSession E s sid prov ?w = (r, w')"
        by (auto simp: registerCompletedSession_def await_def RewardSession_def open_session_def)
      then show ?thesis
        unfolding settleSession_def
        by (rule keeps_after [where I = I and m = "completeSession E s prov" and w = ?w, OF c I1, rotated 2]) (intro keeps_intro log)+
    qed
  qed
qed

end
