(* ===== verification/RewardProperties.thy ===== *)
theory RewardProperties
  imports RewardLaws
begin

text \<open>
  The properties of the rewarded advertisements: what the callbacks of the provider may change, that
  every unlock was paid for with completed sessions, that a session is rewarded once, and the limit of
  flash offers per day.
\<close>

section \<open>Authentic callbacks\<close>

text \<open>
  The contract of a provider's verifier: a callback it accepts is authentic. The client's lemma
  is about the whole handler of the callback.
\<close>

locale ad_provider =
  fixes verifier :: adCallbackVerifier
    and authentic :: "(string \<times> string) list \<Rightarrow> string \<Rightarrow> bool"
  assumes verify_authentic: "av_verify verifier params = Inr sid \<Longrightarrow> authentic params sid"
    and verify_rejects: "av_verify verifier params = Inl e \<Longrightarrow> \<exists>m. e = UnauthorizedException m"
begin

lemma forged_callback_rejected:
  assumes "verifier_for verifiers name = Some verifier" "\<And>sid. \<not> authentic params sid"
  shows "\<exists>m. processProviderCallback E verifiers name params w = (Inl (UnauthorizedException m), w)"
  using assms verify_authentic [of params] verify_rejects [of params]
  by (cases "av_verify verifier params") (auto simp: processProviderCallback_def)

lemma accepted_callback_runs:
  assumes "verifier_for verifiers name = Some verifier"
    and "processProviderCallback E verifiers name params w = (Inr x, w')"
  shows "\<exists>sid. authentic params sid \<and> registerCompletedSession E sid name w = (Inr x, w')"
  using assms verify_authentic [of params]
  by (cases "av_verify verifier params") (auto simp: processProviderCallback_def)

end

definition stub_authentic :: "env \<Rightarrow> (string \<times> string) list \<Rightarrow> string \<Rightarrow> bool" where
  "stub_authentic E params sid = (map_of params ''sessionId'' = Some sid \<and> sid \<noteq> [] \<and>
     map_of params ''secret'' = Some (e_rewardsStubSecret E))"

interpretation stub: ad_provider "stubVerifier E" "stub_authentic E" for E
  by unfold_locales (auto simp: stubVerifier_def stub_authentic_def split: option.splits if_splits)

text \<open>
  A callback for the stub provider whose parameters do not carry the shared secret and a
  session id is answered 401 and changes nothing.
\<close>

theorem forged_ad_callback_rejected:
  assumes "verifier_for verifiers name = Some (stubVerifier E)"
    and "map_of params ''secret'' \<noteq> Some (e_rewardsStubSecret E) \<or> map_of params ''sessionId'' = None"
  shows "\<exists>m. processProviderCallback E verifiers name params w = (Inl (UnauthorizedException m), w)"
  by (rule stub.forged_callback_rejected [OF assms(1)]) (use assms(2) in \<open>auto simp: stub_authentic_def\<close>)

lemma forged_ad_callback_rejected_witness:
  "\<exists>m. processProviderCallback example_env [stubVerifier example_env] ''stub''
     [(''sessionId'', ''s''), (''secret'', ''guess'')] empty_world = (Inl (UnauthorizedException m), empty_world)"
  by (rule forged_ad_callback_rejected) (simp_all add: verifier_for_def stubVerifier_def example_env_def)

section \<open>Histories\<close>

datatype rewardRequest =
    RequestAd string rewardType
  | AdCallback string "(string \<times> string) list"
  | SimulateAd string string
  | ConsumeUnlock string rewardType

fun serve_reward :: "env \<Rightarrow> adCallbackVerifier list \<Rightarrow> rewardRequest \<Rightarrow> (world, bool) prog" where
  "serve_reward E vs (RequestAd u ty) = andthen (createSession E u ty) (ret False)"
| "serve_reward E vs (AdCallback name params) = andthen (processProviderCallback E vs name params) (ret False)"
| "serve_reward E vs (SimulateAd u sid) = andthen (simulateStubCompletion E vs u sid) (ret False)"
| "serve_reward E vs (ConsumeUnlock u ty) = tryConsumeUnlock u ty"

fun unlocked :: "rewardRequest \<Rightarrow> exn + bool \<Rightarrow> string \<Rightarrow> rewardType \<Rightarrow> nat" where
  "unlocked (ConsumeUnlock u ty) (Inr True) v ty' = (if v = u \<and> ty' = ty then 1 else 0)"
| "unlocked _ _ v ty' = 0"

lemma unlocked_consume [simp]:
  "unlocked (ConsumeUnlock u ty) (Inr b) v ty' = (if b \<and> v = u \<and> ty' = ty then 1 else 0)"
  by (cases b) auto

text \<open>The world after some requests, and how many unlocks were handed out on the way.\<close>

fun serve_rewards :: "env \<Rightarrow> adCallbackVerifier list \<Rightarrow> rewardRequest list \<Rightarrow>
    world \<times> (string \<Rightarrow> rewardType \<Rightarrow> nat) \<Rightarrow> world \<times> (string \<Rightarrow> rewardType \<Rightarrow> nat)" where
  "serve_rewards E vs [] st = st"
| "serve_rewards E vs (req # reqs) (w, paid) = (case serve_reward E vs req w of
     (r, w') \<Rightarrow> serve_rewards E vs reqs (w', \<lambda>u ty. paid u ty + unlocked req r u ty))"

definition rewards_good :: "(string \<Rightarrow> rewardType \<Rightarrow> nat) \<Rightarrow> database \<Rightarrow> bool" where
  "rewards_good paid d = (rewards_inv d \<and> paid_for paid d)"

lemma good_ignores [keeps_intro]:
  "ignores (rewards_good paid) AnalyticsEvent"
  by (simp add: ignores_def rewards_good_def rewards_inv_def paid_for_def unique_rows_def table_defs
      ads_watched_def offers_of_def progress_of_def)

text \<open>A session that is created, or that expires, changes nothing of what was paid.\<close>

lemma paid_for_sessions: "paid_for paid (d\<lparr>rewardSessions := ss\<rparr>) = paid_for paid d"
  by (simp add: paid_for_def ads_watched_def offers_of_def progress_of_def)

lemma good_sessions:
  assumes "rewards_good paid d" "unique_rows RewardSession (d\<lparr>rewardSessions := ss\<rparr>)"
    and "\<And>x. reward_backed (rewardSessions d) x \<Longrightarrow> reward_backed ss x"
  shows "rewards_good paid (d\<lparr>rewardSessions := ss\<rparr>)"
  using assms by (auto simp: rewards_good_def rewards_inv_def paid_for_sessions unique_rows_def table_defs)

lemma create_session_good: "keeps (rewards_good paid) (create RewardSession r)"
proof (rule keepsI)
  fix w x w' assume good: "rewards_good paid (db w)" and run: "create RewardSession r w = (x, w')"
  have u: "unique_rows RewardSession (db w')"
    by (rule keepsD_run [OF rewardSessions_tbl.keeps_unique_create _ run])
       (use good in \<open>simp add: rewards_good_def rewards_inv_def\<close>)
  have "db w' = db w \<or> db w' = (db w)\<lparr>rewardSessions := rewardSessions (db w) @ [r]\<rparr>"
    using run by (auto simp: create_def RewardSession_def split: if_splits)
  then show "rewards_good paid (db w')"
    using good u good_sessions [OF good, of "rewardSessions (db w) @ [r]"] by (auto simp: reward_backed_def)
qed

lemma expire_session_good:
  "keeps (rewards_good paid) (update_many RewardSession
     (\<lambda>s. rs_id s = sid \<and> (rs_status s = RS_CREATED \<or> rs_status s = RS_STARTED)) (\<lambda>s. s\<lparr>rs_status := RS_EXPIRED\<rparr>))"
  (is "keeps _ ?m")
proof (rule keepsI)
  let ?f = "\<lambda>s. if rs_id s = sid \<and> (rs_status s = RS_CREATED \<or> rs_status s = RS_STARTED) then s\<lparr>rs_status := RS_EXPIRED\<rparr> else s"
  fix w x w' assume good: "rewards_good paid (db w)" and run: "?m w = (x, w')"
  have u: "unique_rows RewardSession (db w')"
    by (rule keepsD_run [OF rewardSessions_tbl.keeps_unique_update_many _ run])
       (use good in \<open>simp_all add: rewards_good_def rewards_inv_def RewardSession_def\<close>)
  have db: "db w' = (db w)\<lparr>rewardSessions := map ?f (rewardSessions (db w))\<rparr>"
    using run by (auto simp: update_many_def RewardSession_def list_ex_iff)
  have "reward_backed (map ?f ss) t" if bk: "reward_backed ss t" for ss t
  proof -
    from bk obtain s where s: "s \<in> set ss" "rs_id s = rx_rewardSessionId t" "rs_status s = RS_COMPLETED"
      "rs_userId s = rx_userId t" "rs_rewardType s = rx_rewardType t" unfolding reward_backed_def by blast
    then have "s \<in> set (map ?f ss)" unfolding set_map by (intro image_eqI [of _ _ s]) simp_all
    with s show ?thesis unfolding reward_backed_def by blast
  qed
  with u show "rewards_good paid (db w')" unfolding db by (intro good_sessions [OF good])
qed

lemma register_good: "keeps (rewards_good paid) (registerCompletedSession E sid prov)"
proof (rule register_keeps [OF good_ignores expire_session_good])
  fix s w r w' assume "rewards_good paid (db w)" "s \<in> set (rewardSessions (db w))" "open_session s"
    "completeSession E s prov w = (r, w')"
  then show "rewards_good paid (db w')"
    unfolding rewards_good_def using complete_keeps_inv complete_keeps_paid by blast
qed

lemma createSession_good: "keeps (rewards_good paid) (createSession E u ty)"
  unfolding createSession_def assertFlashOfferDailyLimitNotExceeded_def rewards_logEvent_def
  by (intro keeps_intro create_session_good)

lemma callback_good: "keeps (rewards_good paid) (processProviderCallback E vs name params)"
  unfolding processProviderCallback_def by (intro keeps_intro register_good)

lemma simulate_good: "keeps (rewards_good paid) (simulateStubCompletion E vs u sid)"
  unfolding simulateStubCompletion_def by (intro keeps_intro callback_good)

text \<open>Taking an unlock resets the progress; it is taken exactly when enough ads were watched.\<close>

lemma consume_run:
  assumes inv: "rewards_inv (db w)" and run: "tryConsumeUnlock u ty w = (r, w')"
  shows "r = Inr (REWARD_ADS_REQUIRED ty \<le> progress_of u ty (db w))"
    and "progress_of v ty' (db w') = (if REWARD_ADS_REQUIRED ty \<le> progress_of u ty (db w) \<and> v = u \<and> ty' = ty
       then 0 else progress_of v ty' (db w))"
    and "\<exists>ps. db w' = (db w)\<lparr>rewardProgresses := ps\<rparr>"
proof -
  let ?P = "\<lambda>p. rp_userId p = u \<and> rp_rewardType p = ty \<and> REWARD_ADS_REQUIRED ty \<le> rp_currentCount p"
  let ?ps = "map (\<lambda>p. if ?P p then p\<lparr>rp_currentCount := 0\<rparr> else p) (rewardProgresses (db w))"
  have count: "rp_currentCount p = progress_of u ty (db w)"
    if "p \<in> set (rewardProgresses (db w))" "rp_userId p = u" "rp_rewardType p = ty" for p
    using progress_unique [OF inv that] by simp
  have found: "(\<exists>p \<in> set (rewardProgresses (db w)). ?P p) = (REWARD_ADS_REQUIRED ty \<le> progress_of u ty (db w))"
  proof
    assume enough: "REWARD_ADS_REQUIRED ty \<le> progress_of u ty (db w)"
    then obtain p where "find (\<lambda>p. rp_userId p = u \<and> rp_rewardType p = ty) (rewardProgresses (db w)) = Some p"
      using required_pos [of ty] by (auto simp: progress_of_def not_le [symmetric] split: option.splits)
    from find_SomeD [OF this] count [of p] enough show "\<exists>p \<in> set (rewardProgresses (db w)). ?P p" by auto
  qed (use count in auto)
  have r: "r = Inr (0 < length (filter ?P (rewardProgresses (db w))))" and db: "db w' = (db w)\<lparr>rewardProgresses := ?ps\<rparr>"
    using run by (auto simp: tryConsumeUnlock_def await_def update_many_def RewardProgress_def int4_def list_ex_iff)
  show "r = Inr (REWARD_ADS_REQUIRED ty \<le> progress_of u ty (db w))"
    unfolding r found [symmetric] by (auto simp: filter_empty_conv)
  show "\<exists>ps. db w' = (db w)\<lparr>rewardProgresses := ps\<rparr>" using db by blast
  have "progress_of v ty' (db w') = (case find (\<lambda>p. rp_userId p = v \<and> rp_rewardType p = ty') (rewardProgresses (db w)) of
       None \<Rightarrow> 0 | Some p \<Rightarrow> rp_currentCount (if ?P p then p\<lparr>rp_currentCount := 0\<rparr> else p))"
    unfolding db by (rule find_update_key [where u' = u and ty' = ty]) simp_all
  then show "progress_of v ty' (db w') = (if REWARD_ADS_REQUIRED ty \<le> progress_of u ty (db w) \<and> v = u \<and> ty' = ty
       then 0 else progress_of v ty' (db w))"
    using count by (auto simp: progress_of_def [of v ty' "db w"] split: option.split dest!: find_SomeD)
qed

lemma consume_keeps_unique: "keeps (unique_rows RewardProgress) (tryConsumeUnlock u ty)"
  unfolding tryConsumeUnlock_def by (intro unique_intro; simp add: RewardProgress_def)

lemma consume_good:
  assumes good: "rewards_good paid (db w)" and run: "tryConsumeUnlock u ty w = (r, w')"
  shows "rewards_good (\<lambda>v ty'. paid v ty' + unlocked (ConsumeUnlock u ty) r v ty') (db w')"
proof -
  have inv: "rewards_inv (db w)" and paid: "paid_for paid (db w)" using good by (simp_all add: rewards_good_def)
  obtain ps where db: "db w' = (db w)\<lparr>rewardProgresses := ps\<rparr>" using consume_run(3) [OF inv run] by blast
  have "unique_rows RewardProgress (db w')"
    by (rule keepsD_run [OF consume_keeps_unique rewards_invD(3) [OF inv] run])
  with rewards_invD [OF inv] have "rewards_inv (db w')"
    by (auto simp: rewards_inv_def unique_rows_def db table_defs)
  moreover have "paid_for (\<lambda>v ty'. paid v ty' + unlocked (ConsumeUnlock u ty) r v ty') (db w')"
    unfolding paid_for_def
  proof (intro allI)
    fix v ty'
    have same: "ads_watched v ty' (db w') = ads_watched v ty' (db w)" "offers_of v (db w') = offers_of v (db w)"
      by (simp_all add: db ads_watched_def offers_of_def)
    show "0 \<le> progress_of v ty' (db w') \<and>
      REWARD_ADS_REQUIRED ty' * int (paid v ty' + unlocked (ConsumeUnlock u ty) r v ty') +
      (if ty' = FLASH_OFFER_UNLOCK then REWARD_ADS_REQUIRED FLASH_OFFER_UNLOCK * int (offers_of v (db w')) else 0) +
      progress_of v ty' (db w') \<le> int (ads_watched v ty' (db w'))"
      using paid [unfolded paid_for_def, rule_format, of v ty'] unfolding consume_run(2) [OF inv run] same
      by (auto simp: consume_run(1) [OF inv run] algebra_simps)
  qed
  ultimately show ?thesis by (simp add: rewards_good_def)
qed

lemma serve_reward_good:
  assumes "rewards_good paid (db w)" "serve_reward E vs req w = (r, w')"
  shows "rewards_good (\<lambda>u ty. paid u ty + unlocked req r u ty) (db w')"
proof (cases req)
  case (RequestAd u ty)
  with assms keepsD_run [OF keeps_andthen [OF createSession_good keeps_ret]] show ?thesis by simp
next
  case (AdCallback name params)
  with assms keepsD_run [OF keeps_andthen [OF callback_good keeps_ret]] show ?thesis by simp
next
  case (SimulateAd u sid)
  with assms keepsD_run [OF keeps_andthen [OF simulate_good keeps_ret]] show ?thesis by simp
next
  case (ConsumeUnlock u ty)
  with assms consume_good show ?thesis by simp
qed

lemma serve_rewards_good:
  "rewards_good paid (db w) \<Longrightarrow> serve_rewards E vs reqs (w, paid) = (w', paid') \<Longrightarrow> rewards_good paid' (db w')"
proof (induction reqs arbitrary: w paid)
  case (Cons req reqs)
  obtain r u where "serve_reward E vs req w = (r, u)" by (cases "serve_reward E vs req w")
  with Cons.prems Cons.IH [OF serve_reward_good] show ?case by simp
qed simp

lemma rewards_good_empty: "rewards_good (\<lambda>_ _. 0) (db empty_world)"
  by (simp add: rewards_good_def rewards_inv_def paid_for_def unique_rows_def progress_of_def offers_of_def
      ads_watched_def empty_world_def empty_database_def table_defs)

section \<open>What was paid\<close>

definition completed_sessions :: "string \<Rightarrow> rewardType \<Rightarrow> database \<Rightarrow> nat" where
  "completed_sessions u ty d = length (filter (\<lambda>s. rs_userId s = u \<and> rs_rewardType s = ty \<and>
     rs_status s = RS_COMPLETED) (rewardSessions d))"

lemma unique_keys:
  assumes "unique_rows RewardTransaction d"
  shows "distinct (map rx_rewardSessionId (rewardTransactions d))"
  using assms by (auto simp: unique_rows_def RewardTransaction_def distinct_map inj_on_def
      sorted_wrt_iff_nth_less distinct_conv_nth) (metis in_set_conv_nth linorder_neqE_nat)+

lemma ads_bound:
  assumes "rewards_inv d"
  shows "ads_watched u ty d \<le> completed_sessions u ty d"
proof -
  let ?xs = "map rx_rewardSessionId (filter (\<lambda>x. rx_userId x = u \<and> rx_rewardType x = ty) (rewardTransactions d))"
  let ?ss = "map rs_id (filter (\<lambda>s. rs_userId s = u \<and> rs_rewardType s = ty \<and> rs_status s = RS_COMPLETED) (rewardSessions d))"
  have "distinct ?xs" using unique_keys [OF rewards_invD(2) [OF assms]] by (rule distinct_map_filter)
  moreover have "set ?xs \<subseteq> set ?ss"
  proof
    fix i assume "i \<in> set ?xs"
    then obtain x where "x \<in> set (rewardTransactions d)" "rx_userId x = u" "rx_rewardType x = ty" "i = rx_rewardSessionId x"
      by auto
    with rewards_invD(4) [OF assms this(1)] show "i \<in> set ?ss" by (force simp: reward_backed_def)
  qed
  ultimately have "length ?xs \<le> length ?ss" by (rule distinct_subset_length)
  then show ?thesis by (simp add: ads_watched_def completed_sessions_def)
qed

text \<open>
  C18. Nothing is handed out for free: over any sequence of session requests, provider callbacks,
  simulated callbacks and unlock attempts, the unlocks a user took of a kind, and for flash offers
  also the offers granted, cost no more ads than the user has completed sessions of that kind, and
  every reward belongs to a completed session of its user.
\<close>

theorem unlocks_paid_by_ads:
  assumes "serve_rewards E vs reqs (empty_world, \<lambda>_ _. 0) = (w', unlocks)"
  shows "(\<forall>u ty. REWARD_ADS_REQUIRED ty * int (unlocks u ty) +
      (if ty = FLASH_OFFER_UNLOCK then REWARD_ADS_REQUIRED FLASH_OFFER_UNLOCK * int (offers_of u (db w')) else 0)
      \<le> int (completed_sessions u ty (db w'))) \<and>
    (\<forall>x \<in> set (rewardTransactions (db w')). reward_backed (rewardSessions (db w')) x)"
proof (intro conjI allI)
  have good: "rewards_good unlocks (db w')" by (rule serve_rewards_good [OF rewards_good_empty assms])
  then have inv: "rewards_inv (db w')" and paid: "paid_for unlocks (db w')" by (simp_all add: rewards_good_def)
  show "\<forall>x \<in> set (rewardTransactions (db w')). reward_backed (rewardSessions (db w')) x"
    using rewards_invD(4) [OF inv] by blast
  show "REWARD_ADS_REQUIRED ty * int (unlocks u ty) +
      (if ty = FLASH_OFFER_UNLOCK then REWARD_ADS_REQUIRED FLASH_OFFER_UNLOCK * int (offers_of u (db w')) else 0)
      \<le> int (completed_sessions u ty (db w'))" for u ty
    using paid [unfolded paid_for_def, rule_format, of u ty] ads_bound [OF inv, of u ty] by linarith
qed

lemmas reward_eval = await_def andthen_def try_catch_def createSession_def
  assertFlashOfferDailyLimitNotExceeded_def processProviderCallback_def simulateStubCompletion_def
  registerCompletedSession_def settleSession_def completeSession_def upsertProgress_def grantFlashOffer_def
  tryConsumeUnlock_def rewards_logEvent_def transaction_def create_def update_many_def update_row_def
  table_defs example_env_def empty_world_def empty_database_def verifier_for_def stubVerifier_def int4_def
  REWARD_SESSION_TTL_SECONDS_def

text \<open>One ad pays for one daily card; the second attempt finds nothing left.\<close>

definition example_ads :: "rewardRequest list" where
  "example_ads = [RequestAd ''ana'' DAILY_CARD_UNLOCK, SimulateAd ''ana'' ''uu'',
     ConsumeUnlock ''ana'' DAILY_CARD_UNLOCK, ConsumeUnlock ''ana'' DAILY_CARD_UNLOCK]"

lemma unlocks_paid_by_ads_witness:
  "\<exists>w' unlocks. serve_rewards example_env [stubVerifier example_env] example_ads (empty_world, \<lambda>_ _. 0) = (w', unlocks) \<and>
     unlocks ''ana'' DAILY_CARD_UNLOCK = 1 \<and> completed_sessions ''ana'' DAILY_CARD_UNLOCK (db w') = 1 \<and>
     (\<forall>x \<in> set (rewardTransactions (db w')). reward_backed (rewardSessions (db w')) x)"
proof -
  let ?run = "serve_rewards example_env [stubVerifier example_env] example_ads (empty_world, \<lambda>_ _. 0)"
  obtain w' unlocks where run: "?run = (w', unlocks)" by (cases ?run)
  have eval: "snd ?run ''ana'' DAILY_CARD_UNLOCK = 1 \<and> completed_sessions ''ana'' DAILY_CARD_UNLOCK (db (fst ?run)) = 1"
    by (simp add: example_ads_def reward_eval completed_sessions_def)
  have "unlocks ''ana'' DAILY_CARD_UNLOCK = 1" "completed_sessions ''ana'' DAILY_CARD_UNLOCK (db w') = 1"
    using eval unfolding run fst_conv snd_conv by simp_all
  with run unlocks_paid_by_ads [OF run] show ?thesis by blast
qed

section \<open>A session is rewarded once\<close>

text \<open>A session that left the open states keeps its status through every request.\<close>

definition closed_with :: "string \<Rightarrow> rewardSessionStatus \<Rightarrow> database \<Rightarrow> bool" where
  "closed_with sid st d = (\<exists>s \<in> set (rewardSessions d). rs_id s = sid \<and> rs_status s = st \<and> \<not> open_session s)"

lemma closed_ignores:
  "ignores (closed_with sid st) AnalyticsEvent" "ignores (closed_with sid st) RewardProgress"
  "ignores (closed_with sid st) RewardTransaction" "ignores (closed_with sid st) FlashOfferUnlock"
  by (simp_all add: ignores_def closed_with_def table_defs)

lemma closed_create: "keeps (closed_with sid st) (create RewardSession r)"
  by (rule keepsI) (auto simp: create_def closed_with_def RewardSession_def split: if_splits)

lemma closed_update_open:
  "keeps (closed_with sid st) (update_many RewardSession
     (\<lambda>s. rs_id s = i \<and> (rs_status s = RS_CREATED \<or> rs_status s = RS_STARTED)) f)"
proof (rule keepsI)
  let ?P = "\<lambda>s. rs_id s = i \<and> (rs_status s = RS_CREATED \<or> rs_status s = RS_STARTED)"
  fix w r w' assume "closed_with sid st (db w)" and run: "update_many RewardSession ?P f w = (r, w')"
  then obtain s where s: "s \<in> set (rewardSessions (db w))" "rs_id s = sid" "rs_status s = st" "\<not> open_session s"
    by (auto simp: closed_with_def)
  then have "s \<in> set (map (\<lambda>s. if ?P s then f s else s) (rewardSessions (db w)))"
    unfolding set_map by (intro image_eqI [of _ _ s]) (auto simp: open_session_def)
  with s run show "closed_with sid st (db w')"
    by (auto simp: update_many_def closed_with_def RewardSession_def list_ex_iff split: if_splits)
qed

lemmas closed_intro = keeps_intro closed_ignores closed_create closed_update_open

lemma complete_keeps_closed: "keeps (closed_with sid st) (completeSession E s prov)"
  unfolding completeSession_def upsertProgress_def grantFlashOffer_def by (intro closed_intro)

lemma register_keeps_closed: "keeps (closed_with sid st) (registerCompletedSession E i prov)"
  unfolding registerCompletedSession_def settleSession_def rewards_logEvent_def
  by (intro closed_intro complete_keeps_closed)

lemma serve_reward_closed: "keeps (closed_with sid st) (serve_reward E vs req)"
proof -
  have cb: "keeps (closed_with sid st) (processProviderCallback E vs n p)" for n p
    unfolding processProviderCallback_def by (intro closed_intro register_keeps_closed)
  show ?thesis
  proof (cases req)
    case (RequestAd u ty)
    show ?thesis
      unfolding RequestAd serve_reward.simps createSession_def assertFlashOfferDailyLimitNotExceeded_def rewards_logEvent_def
      by (intro closed_intro)
  next
    case (AdCallback n p)
    show ?thesis unfolding AdCallback serve_reward.simps by (intro closed_intro cb)
  next
    case (SimulateAd u i)
    show ?thesis unfolding SimulateAd serve_reward.simps simulateStubCompletion_def by (intro closed_intro cb)
  next
    case (ConsumeUnlock u ty)
    show ?thesis unfolding ConsumeUnlock serve_reward.simps tryConsumeUnlock_def by (intro closed_intro)
  qed
qed

lemma serve_rewards_closed:
  "closed_with sid st (db w) \<Longrightarrow> closed_with sid st (db (fst (serve_rewards E vs reqs (w, paid))))"
proof (induction reqs arbitrary: w paid)
  case (Cons req reqs)
  then show ?case using keepsD_run [OF serve_reward_closed Cons.prems] by (auto split: prod.split)
qed simp

lemma serve_rewards_append:
  "serve_rewards E vs (xs @ ys) st = serve_rewards E vs ys (serve_rewards E vs xs st)"
  by (induction xs arbitrary: st) (auto split: prod.split)

lemma register_done:
  assumes "rewards_inv (db w)" "closed_with sid RS_COMPLETED (db w)"
  shows "registerCompletedSession E sid prov w = (Inr \<lparr>granted = False, reason = Some ''already_completed''\<rparr>, w)"
proof -
  obtain s where s: "s \<in> set (rewardSessions (db w))" "rs_id s = sid" "rs_status s = RS_COMPLETED"
    using assms(2) by (auto simp: closed_with_def)
  have "find (\<lambda>t. rs_id t = sid) (rewardSessions (db w)) = Some s"
  proof (rule find_SomeI_unique)
    show "t = s" if "t \<in> set (rewardSessions (db w))" "rs_id t = sid" for t
      using session_unique [OF assms(1) that(1) s(1)] that(2) s(2) by simp
  qed (use s in simp_all)
  with s(3) show ?thesis by (simp add: registerCompletedSession_def await_def RewardSession_def)
qed

lemma andthen_ret: "andthen m (ret y) w = (Inr x, w') \<Longrightarrow> x = y"
  by (auto simp: andthen_Inr_iff)

lemma andthen_ret2: "andthen m (andthen k (ret y)) w = (Inr x, w') \<Longrightarrow> x = y"
  by (auto simp: andthen_Inr_iff)

lemma log_run:
  assumes "rewards_logEvent E ty u m w = (Inr r, w')"
  shows "\<exists>es. db w' = (db w)\<lparr>analyticsEvents := es\<rparr>"
proof -
  obtain i w1 e where "db w1 = db w" and c: "create AnalyticsEvent e w1 = (Inr i, w')"
    using assms by (auto simp: rewards_logEvent_def andthen_def await_def intro: that [rotated] split: prod.splits sum.splits)
  from c have "db w' = (db w1)\<lparr>analyticsEvents := analyticsEvents (db w1) @ [e]\<rparr>"
    by (simp add: create_Inr_iff AnalyticsEvent_def)
  with \<open>db w1 = db w\<close> show ?thesis by (intro exI) simp
qed

text \<open>A callback that granted a reward completed its session.\<close>

lemma register_granted:
  assumes "registerCompletedSession E sid prov w = (Inr x, w')" "granted x"
  obtains s w1 w2 where "s \<in> set (rewardSessions (db w))" "rs_id s = sid" "open_session s"
    "\<not> rs_expiresAt s < e_clock E (ticks w)" "db w1 = db w" "completeSession E s prov w1 = (Inr True, w2)"
    "\<exists>es. db w' = (db w2)\<lparr>analyticsEvents := es\<rparr>"
proof -
  let ?w = "w\<lparr>ticks := Suc (ticks w)\<rparr>"
  obtain s where found: "find (\<lambda>s. rs_id s = sid) (rewardSessions (db w)) = Some s"
    using assms by (cases "find (\<lambda>s. rs_id s = sid) (rewardSessions (db w))")
      (auto simp: registerCompletedSession_def await_def RewardSession_def)
  have op: "open_session s"
    using assms found by (auto dest!: andthen_ret simp: registerCompletedSession_def await_def RewardSession_def open_session_def split: if_splits)
  have live: "\<not> rs_expiresAt s < e_clock E (ticks w)"
    using assms found op
    by (auto dest!: andthen_ret andthen_ret2 simp: registerCompletedSession_def await_def RewardSession_def open_session_def split: if_splits)
  have "settleSession E s sid prov ?w = (Inr x, w')"
    using assms(1) found op live by (auto simp: registerCompletedSession_def await_def RewardSession_def open_session_def)
  then obtain b w2 where c: "try_catch (completeSession E s prov) (\<lambda>e. if isUniqueConstraintViolation e then ret False else throw e) ?w = (Inr b, w2)"
    and rest: "(if \<not> b then ret \<lparr>granted = False, reason = Some ''already_completed''\<rparr>
      else andthen (rewards_logEvent E ''ad_completed'' (rs_userId s)
           [(''rewardType'', reward_type_text (rs_rewardType s)), (''sessionId'', sid), (''provider'', prov)])
       (andthen (rewards_logEvent E ''reward_granted'' (rs_userId s)
           [(''rewardType'', reward_type_text (rs_rewardType s)), (''sessionId'', sid), (''provider'', prov)])
         (ret \<lparr>granted = True, reason = None\<rparr>))) w2 = (Inr x, w')"
    unfolding settleSession_def by (rule await_InrE)
  from rest assms(2) have b by (cases b) auto
  with c have "completeSession E s prov ?w = (Inr True, w2)" by (auto simp: try_catch_Inr_iff if_Inr_iff)
  moreover from rest \<open>b\<close> have "\<exists>es. db w' = (db w2)\<lparr>analyticsEvents := es\<rparr>"
    by (auto simp: andthen_Inr_iff dest!: log_run)
  ultimately show ?thesis using find_SomeD [OF found] op live by (intro that [of s ?w w2]) simp_all
qed

text \<open>
  C17. A session is rewarded at most once: after a callback was granted, and whatever requests came
  in between, every further callback for the session is answered \<open>already_completed\<close> and changes
  nothing at all; and a callback that had read the session while it was still open, and only now
  reaches its transaction, does not complete it a second time.
\<close>

theorem session_rewarded_once:
  assumes "serve_rewards E vs before (empty_world, \<lambda>_ _. 0) = (w, unlocks)"
    and "registerCompletedSession E sid prov w = (Inr x, w1)" and "granted x"
    and "serve_rewards E vs after (w1, unlocks) = (w2, unlocks2)"
  shows "registerCompletedSession E sid prov2 w2 =
      (Inr \<lparr>granted = False, reason = Some ''already_completed''\<rparr>, w2) \<and>
    (\<forall>stale. rs_id stale = sid \<longrightarrow>
      (\<exists>w3. completeSession E stale prov2 w2 = (Inr False, w3) \<and> db w3 = db w2))"
proof (intro conjI allI impI)
  have good: "rewards_good unlocks (db w)" by (rule serve_rewards_good [OF rewards_good_empty assms(1)])
  obtain s u u2 where s: "s \<in> set (rewardSessions (db w))" "rs_id s = sid" "open_session s"
    and u: "db u = db w" "completeSession E s prov u = (Inr True, u2)" and w1: "\<exists>es. db w1 = (db u2)\<lparr>analyticsEvents := es\<rparr>"
    by (rule register_granted [OF assms(2,3)])
  obtain c where "rewardSessions (db u2) = complete_sessions (rs_id s) c (rewardSessions (db u))"
    by (rule complete_session_run [OF _ s(3) u(2)]) (use s u in simp_all)
  then have "s\<lparr>rs_status := RS_COMPLETED, rs_completedAt := Some c\<rparr> \<in> set (rewardSessions (db w1))"
    using s u w1 by (auto simp: complete_sessions_def intro!: image_eqI [of _ _ s])
  with s(2) have "closed_with sid RS_COMPLETED (db w1)"
    unfolding closed_with_def by (intro bexI) (simp_all add: open_session_def)
  then have closed: "closed_with sid RS_COMPLETED (db w2)"
    using serve_rewards_closed [of sid RS_COMPLETED w1 E vs after unlocks] assms(4) by simp
  have "rewards_good unlocks (db w1)" by (rule keepsD_run [OF register_good good assms(2)])
  then have inv: "rewards_inv (db w2)"
    using serve_rewards_good [OF _ assms(4)] by (simp add: rewards_good_def)
  show "registerCompletedSession E sid prov2 w2 = (Inr \<lparr>granted = False, reason = Some ''already_completed''\<rparr>, w2)"
    by (rule register_done [OF inv closed])
  obtain t where t: "t \<in> set (rewardSessions (db w2))" "rs_id t = sid" "\<not> open_session t"
    using closed by (auto simp: closed_with_def)
  show "\<exists>w3. completeSession E stale prov2 w2 = (Inr False, w3) \<and> db w3 = db w2" if "rs_id stale = sid" for stale
    using that by (intro complete_closed) (use t session_unique [OF inv _ t(1)] in auto)
qed

lemma session_rewarded_once_witness:
  "\<exists>w w1. registerCompletedSession example_env ''uu'' ''stub'' w =
      (Inr \<lparr>granted = True, reason = None\<rparr>, w1) \<and>
    registerCompletedSession example_env ''uu'' ''stub'' w1 =
      (Inr \<lparr>granted = False, reason = Some ''already_completed''\<rparr>, w1)"
proof -
  let ?vs = "[stubVerifier example_env]"
  let ?pre = "serve_rewards example_env ?vs [RequestAd ''ana'' DAILY_CARD_UNLOCK] (empty_world, \<lambda>_ _. 0)"
  obtain w unlocks where pre: "?pre = (w, unlocks)" by (cases ?pre)
  let ?run = "registerCompletedSession example_env ''uu'' ''stub'' w"
  have "fst (registerCompletedSession example_env ''uu'' ''stub'' (fst ?pre)) = Inr \<lparr>granted = True, reason = None\<rparr>"
    by (simp add: reward_eval)
  then obtain w1 where run: "?run = (Inr \<lparr>granted = True, reason = None\<rparr>, w1)"
    unfolding pre fst_conv by (cases ?run) simp
  have rest: "serve_rewards example_env ?vs [] (w1, unlocks) = (w1, unlocks)" by simp
  show ?thesis
    using run session_rewarded_once [OF pre run _ rest, of "''stub''"] by (intro exI [of _ w] exI [of _ w1]) simp
qed

section \<open>Unlocks\<close>

text \<open>
  \<open>getProgress\<close> tells the truth about \<open>tryConsumeUnlock\<close>: in every reachable state the unlock is
  taken exactly when the progress says it is unlocked; taking it resets the progress, so that the
  next attempt fails; and an attempt that fails changes nothing of any progress.
\<close>

theorem unlock_outcome:
  assumes "serve_rewards E vs reqs (empty_world, \<lambda>_ _. 0) = (w, unlocks)"
    and "getProgress u ty w = (Inr summary, w)"
    and "tryConsumeUnlock u ty w = (r, w')"
  shows "r = Inr (rps_unlocked summary) \<and>
    rps_unlocked summary = (REWARD_ADS_REQUIRED ty \<le> rps_currentCount summary) \<and>
    progress_of u ty (db w') = (if rps_unlocked summary then 0 else rps_currentCount summary) \<and>
    fst (tryConsumeUnlock u ty w') = Inr False"
proof -
  have "rewards_good unlocks (db w)" by (rule serve_rewards_good [OF rewards_good_empty assms(1)])
  then have inv: "rewards_inv (db w)" by (simp add: rewards_good_def)
  have sum: "rps_currentCount summary = progress_of u ty (db w)"
    "rps_unlocked summary = (REWARD_ADS_REQUIRED ty \<le> progress_of u ty (db w))"
    using assms(2) by (auto simp: getProgress_def await_def progress_of_def RewardProgress_def Let_def)
  have "rewards_inv (db w')"
    using consume_good [OF \<open>rewards_good unlocks (db w)\<close> assms(3)] by (simp add: rewards_good_def)
  then have again: "fst (tryConsumeUnlock u ty w') = Inr (REWARD_ADS_REQUIRED ty \<le> progress_of u ty (db w'))"
    using consume_run(1) [OF _ prod.collapse [symmetric], of w' u ty] by simp
  have p: "progress_of u ty (db w') = (if REWARD_ADS_REQUIRED ty \<le> progress_of u ty (db w) then 0 else progress_of u ty (db w))"
    using consume_run(2) [OF inv assms(3), of u ty] by simp
  then have "\<not> REWARD_ADS_REQUIRED ty \<le> progress_of u ty (db w')"
    using required_pos [of ty] by (auto simp: not_le split: if_splits)
  then show ?thesis using sum consume_run(1) [OF inv assms(3)] p again by simp
qed

lemma unlock_outcome_witness:
  "\<exists>summary w'. getProgress ''ana'' DAILY_CARD_UNLOCK empty_world = (Inr summary, empty_world) \<and>
     tryConsumeUnlock ''ana'' DAILY_CARD_UNLOCK empty_world = (Inr False, w') \<and> \<not> rps_unlocked summary"
proof -
  let ?s = "\<lparr>rps_rewardType = DAILY_CARD_UNLOCK, rps_currentCount = 0, rps_requiredCount = 1, rps_unlocked = False\<rparr>"
  have none: "serve_rewards example_env [] [] (empty_world, \<lambda>_ _. 0) = (empty_world, \<lambda>_ _. 0)" by simp
  have p: "getProgress ''ana'' DAILY_CARD_UNLOCK empty_world = (Inr ?s, empty_world)"
    by (simp add: getProgress_def reward_eval)
  obtain r w' where t: "tryConsumeUnlock ''ana'' DAILY_CARD_UNLOCK empty_world = (r, w')"
    by (cases "tryConsumeUnlock ''ana'' DAILY_CARD_UNLOCK empty_world")
  from unlock_outcome [OF none p t] t p show ?thesis by auto
qed

section \<open>Flash offers per day\<close>

definition flash_ads_since :: "int \<Rightarrow> string \<Rightarrow> database \<Rightarrow> nat" where
  "flash_ads_since t u d = length (filter (\<lambda>x. rx_userId x = u \<and> rx_rewardType x = FLASH_OFFER_UNLOCK \<and>
     t \<le> rx_createdAt x) (rewardTransactions d))"

text \<open>
  The daily limit of flash offers is checked when a session is requested, and only there: a request
  is refused once two flash ads were completed since midnight, but the completion of a session that
  was requested earlier grants the next offer however many were granted that day.
\<close>

theorem flash_limit_on_request_only:
  assumes "rewards_inv (db w)" and "s \<in> set (rewardSessions (db w))" "rs_id s = sid"
    and "rs_rewardType s = FLASH_OFFER_UNLOCK" "1 \<le> progress_of (rs_userId s) FLASH_OFFER_UNLOCK (db w)"
    and "registerCompletedSession E sid prov w = (Inr x, w')" "granted x"
  shows "offers_of (rs_userId s) (db w') = Suc (offers_of (rs_userId s) (db w)) \<and>
    (2 \<le> flash_ads_since (e_localMidnight E (e_clock E (ticks w2))) u (db w2) \<longrightarrow>
      (\<exists>m. fst (createSession E u FLASH_OFFER_UNLOCK w2) = Inl (BadRequestException m)))"
proof (intro conjI impI)
  obtain t w1 u where t: "t \<in> set (rewardSessions (db w))" "rs_id t = sid" "open_session t"
    and w1: "db w1 = db w" "completeSession E t prov w1 = (Inr True, u)" and w': "\<exists>es. db w' = (db u)\<lparr>analyticsEvents := es\<rparr>"
    by (rule register_granted [OF assms(6,7)])
  have "t = s" using session_unique [OF assms(1) t(1) assms(2)] t(2) assms(3) by simp
  with assms(4,5) w1(1) have off: "unlocks_offer t (db w1)" by (simp add: unlocks_offer_def)
  have "offers_of (rs_userId t) (db u) = offers_of (rs_userId t) (db w1) + 1"
    by (rule complete_session_run [OF _ t(3) w1(2)]) (use t(1) w1(1) off in simp_all)
  with w' w1(1) \<open>t = s\<close> show "offers_of (rs_userId s) (db w') = Suc (offers_of (rs_userId s) (db w))"
    by (auto simp: offers_of_def)
next
  assume "2 \<le> flash_ads_since (e_localMidnight E (e_clock E (ticks w2))) u (db w2)"
  then have "1 \<le> int (flash_ads_since (e_localMidnight E (e_clock E (ticks w2))) u (db w2)) div 2" by simp
  then show "\<exists>m. fst (createSession E u FLASH_OFFER_UNLOCK w2) = Inl (BadRequestException m)"
    by (simp add: createSession_def assertFlashOfferDailyLimitNotExceeded_def await_def andthen_def
        RewardTransaction_def FLASH_OFFER_DAILY_LIMIT_def flash_ads_since_def [symmetric])
qed

definition example_offers :: world where
  "example_offers = empty_world\<lparr>db := empty_database
     \<lparr>rewardSessions := [\<lparr>rs_id = ''s4'', rs_userId = ''ana'', rs_rewardType = FLASH_OFFER_UNLOCK, rs_provider = ''stub'',
        rs_status = RS_CREATED, rs_idempotencyKey = ''k'', rs_completedAt = None, rs_expiresAt = 600000\<rparr>],
      rewardProgresses := [\<lparr>rp_id = ''p'', rp_userId = ''ana'', rp_rewardType = FLASH_OFFER_UNLOCK, rp_currentCount = 1\<rparr>],
      flashOfferUnlocks := [\<lparr>fo_id = ''f'', fo_userId = ''ana'', fo_packageCode = ''BASICO_FUEGO'',
        fo_discountPercent = 20, fo_expiresAt = 100, fo_consumedAt = None, fo_createdAt = 0\<rparr>]\<rparr>\<rparr>"

lemma flash_limit_on_request_only_witness:
  "\<exists>w'. registerCompletedSession example_env ''s4'' ''stub'' example_offers = (Inr \<lparr>granted = True, reason = None\<rparr>, w') \<and>
     offers_of ''ana'' (db w') = 2"
proof -
  let ?run = "registerCompletedSession example_env ''s4'' ''stub'' example_offers"
  let ?s = "\<lparr>rs_id = ''s4'', rs_userId = ''ana'', rs_rewardType = FLASH_OFFER_UNLOCK, rs_provider = ''stub'',
        rs_status = RS_CREATED, rs_idempotencyKey = ''k'', rs_completedAt = None, rs_expiresAt = 600000\<rparr>"
  have "fst ?run = Inr \<lparr>granted = True, reason = None\<rparr>" by (simp add: example_offers_def reward_eval FLASH_OFFER_DISCOUNT_PERCENT_def)
  then obtain w' where run: "?run = (Inr \<lparr>granted = True, reason = None\<rparr>, w')" by (cases ?run) simp
  have inv: "rewards_inv (db example_offers)"
    by (simp add: rewards_inv_def unique_rows_def example_offers_def empty_database_def table_defs)
  have s: "?s \<in> set (rewardSessions (db example_offers))" "1 \<le> progress_of (rs_userId ?s) FLASH_OFFER_UNLOCK (db example_offers)"
    "offers_of ''ana'' (db example_offers) = 1"
    by (simp_all add: example_offers_def progress_of_def offers_of_def empty_database_def)
  from flash_limit_on_request_only [OF inv s(1) _ _ s(2) run] run s(3) show ?thesis by simp
qed

end
