(* ===== verification/DailyCard.thy ===== *)
theory DailyCard
  imports TarotService RewardProperties
begin

text \<open>
  The card of the day (\<open>src/daily-card\<close>): free for the first five days of an account, afterwards one
  rewarded ad a day; the same card all day, chosen by an HMAC of the user and the UTC date. HMAC-SHA256
  is the parameter \<open>e_hmacSha256\<close> (key, text, digest bytes).
\<close>

definition DAILY_CARD_CACHE_TTL_SECONDS :: int where
  "DAILY_CARD_CACHE_TTL_SECONDS = 24 * 60 * 60"

definition DAILY_CARD_FREE_DAYS :: int where
  "DAILY_CARD_FREE_DAYS = 5"

definition dailyCardCacheKey :: "string \<Rightarrow> string \<Rightarrow> string" where
  "dailyCardCacheKey userId date = ''daily-card:'' @ userId @ '':'' @ date"

definition DAILY_CARD_DISCLAIMER :: string where
  "DAILY_CARD_DISCLAIMER =
     ''Las lecturas tienen fines de entretenimiento, reflexi'' @ [CHR 0xF3] @ ''n y orientaci'' @
     [CHR 0xF3] @ ''n personal. No constituyen asesoramiento m'' @ [CHR 0xE9] @ ''dico, psicol'' @
     [CHR 0xF3] @ ''gico, jur'' @ [CHR 0xED] @
     ''dico, financiero ni profesional, ni garantizan acontecimientos futuros.''"

definition readUInt32BE :: "nat list \<Rightarrow> nat" where
  "readUInt32BE b = ((b ! 0 * 256 + b ! 1) * 256 + b ! 2) * 256 + b ! 3"

text \<open>
  The response is the JSON object of the source. With an empty deck the index is \<open>NaN\<close>, the card
  \<open>undefined\<close>, and reading its code raises a \<open>TypeError\<close>.
\<close>

definition daily_card :: "env \<Rightarrow> string \<Rightarrow> string \<Rightarrow> tarotDeckCard list \<Rightarrow> json" where
  "daily_card E userId date cards =
     (let digest = e_hmacSha256 E (e_dailyCardSecret E) (userId @ '':'' @ date);
          c = cards ! (readUInt32BE digest mod length cards);
          orientation = (if digest ! 4 mod 2 = 0 then UPRIGHT else REVERSED)
      in JObject
        [(''locked'', JBool False), (''date'', JString date),
         (''card'', JObject [(''code'', JString (c_code c)), (''name'', JString (c_name c)),
            (''arcana'', JString (arcana_text (c_arcana c))),
            (''suit'', optional (JString \<circ> suit_text) (c_suit c))]),
         (''orientation'', JString (if orientation = UPRIGHT then ''UPRIGHT'' else ''REVERSED'')),
         (''interpretation'', JString (if orientation = UPRIGHT then c_uprightMeaning c else c_reversedMeaning c)),
         (''disclaimer'', JString DAILY_CARD_DISCLAIMER)])"

definition buildTodaysCard :: "env \<Rightarrow> string \<Rightarrow> string \<Rightarrow> (world, json) prog" where
  "buildTodaysCard E userId date =
     await (getActiveDeckCards E DEFAULT_TAROT_DECK_CODE) (\<lambda>cards.
     if cards = [] then throw (TypeError ''card'')
     else ret (daily_card E userId date cards))"

definition isWithinFreeWindow :: "string \<Rightarrow> int \<Rightarrow> (world, bool) prog" where
  "isWithinFreeWindow userId today =
     await (find_first User (\<lambda>u. u_id u = userId)) (\<lambda>found. case found of
       None \<Rightarrow> throw (NotFoundException ''user'')
     | Some user \<Rightarrow>
         ret ((today - u_createdAt user) div MS_PER_DAY + 1 \<le> DAILY_CARD_FREE_DAYS))"

definition getTodaysCard :: "env \<Rightarrow> string \<Rightarrow> int \<Rightarrow> (world, json) prog" where
  "getTodaysCard E userId today =
     (let date = take 10 (toISOString today); cacheKey = dailyCardCacheKey userId date in
      await (cache_get E cacheKey) (\<lambda>cached. case cached of
        Some r \<Rightarrow> ret r
      | None \<Rightarrow>
          await (isWithinFreeWindow userId today) (\<lambda>free.
          await (if free then ret None
                 else
                   await (tryConsumeUnlock userId DAILY_CARD_UNLOCK) (\<lambda>unlockedNow.
                   if unlockedNow then ret None
                   else
                     await (getProgress userId DAILY_CARD_UNLOCK) (\<lambda>progress.
                     ret (Some (JObject [(''locked'', JBool True),
                       (''requiredAds'', JNumber (rps_requiredCount progress))]))))) (\<lambda>locked.
          case locked of
            Some r \<Rightarrow> ret r
          | None \<Rightarrow>
              await (buildTodaysCard E userId date) (\<lambda>result.
              andthen (cache_set E cacheKey result DAILY_CARD_CACHE_TTL_SECONDS)
                (ret result))))))"

section \<open>The caches\<close>

definition active_deck :: "string \<Rightarrow> database \<Rightarrow> tarotDeckCard list option" where
  "active_deck code d = map_option (\<lambda>k. deck_cards (td_id k) d)
     (find (\<lambda>k. td_code k = code \<and> td_isActive k) (tarotDecks d))"

text \<open>What the two keys hold is up to date with the deck of the database.\<close>

definition caches_fresh :: "env \<Rightarrow> string \<Rightarrow> string \<Rightarrow> world \<Rightarrow> bool" where
  "caches_fresh E u date w =
     ((\<forall>v. cache_holds w (tarotDeckCacheKey DEFAULT_TAROT_DECK_CODE) = Some v \<longrightarrow>
        (\<exists>cards. active_deck DEFAULT_TAROT_DECK_CODE (db w) = Some cards \<and> v = json_of_cards cards)) \<and>
      (\<forall>v. cache_holds w (dailyCardCacheKey u date) = Some v \<longrightarrow>
        (\<exists>cards. active_deck DEFAULT_TAROT_DECK_CODE (db w) = Some cards \<and> v = daily_card E u date cards)))"

lemma keys_differ [simp]: "tarotDeckCacheKey c \<noteq> dailyCardCacheKey u date" "dailyCardCacheKey u date \<noteq> tarotDeckCacheKey c"
  by (simp_all add: tarotDeckCacheKey_def dailyCardCacheKey_def)

lemma deck_lookup:
  assumes fresh: "caches_fresh E u date w" and run: "getActiveDeckCards E DEFAULT_TAROT_DECK_CODE w = (r, w')"
  shows "db w' = db w \<and> caches_fresh E u date w' \<and>
     (case active_deck DEFAULT_TAROT_DECK_CODE (db w) of
        Some cards \<Rightarrow> r = Inr cards | None \<Rightarrow> \<exists>m. r = Inl (NotFoundException m))"
proof -
  let ?key = "tarotDeckCacheKey DEFAULT_TAROT_DECK_CODE"
  obtain c w1 where c: "cache_get E ?key w = (Inr c, w1)" using redis.get_returns by metis
  note same = redis.get_same [OF c]
  then have fresh1: "caches_fresh E u date w1" using fresh by (simp add: caches_fresh_def)
  show ?thesis
  proof (cases c)
    case (Some v)
    with c redis.get_held have "cache_holds w ?key = Some v" by blast
    then obtain cards where "active_deck DEFAULT_TAROT_DECK_CODE (db w) = Some cards" "v = json_of_cards cards"
      using fresh unfolding caches_fresh_def by blast
    with run c Some same fresh1 show ?thesis
      by (simp add: getActiveDeckCards_def remember_def await_def deck_json_again json_of_cards_def del: cards_of_json.simps)
  next
    case None
    show ?thesis
    proof (cases "find (\<lambda>k. td_code k = DEFAULT_TAROT_DECK_CODE \<and> td_isActive k) (tarotDecks (db w))")
      case None
      with run c \<open>c = None\<close> same fresh1 show ?thesis
        by (auto simp: getActiveDeckCards_def remember_def await_def active_deck_def TarotDeck_def)
    next
      case (Some k)
      let ?v = "json_of_cards (deck_cards (td_id k) (db w))"
      obtain x w2 where p: "cache_set E ?key ?v TAROT_DECK_CACHE_TTL_SECONDS w1 = (x, w2)"
        by (cases "cache_set E ?key ?v TAROT_DECK_CACHE_TTL_SECONDS w1")
      note put = redis.put_law [OF p]
      have d: "active_deck DEFAULT_TAROT_DECK_CODE (db w) = Some (deck_cards (td_id k) (db w))"
        by (simp add: active_deck_def Some)
      have "caches_fresh E u date w2"
        using put same fresh1 d by (auto simp: caches_fresh_def)
      moreover have "r = Inr (deck_cards (td_id k) (db w))" "w' = w2"
        using run c \<open>c = None\<close> same Some p put
        by (auto simp: getActiveDeckCards_def remember_def await_def andthen_def TarotDeck_def deck_json_again
            json_of_cards_def simp del: cards_of_json.simps)
      ultimately show ?thesis using put same d by simp
    qed
  qed
qed

section \<open>What a request gives\<close>

definition locked_card :: json where
  "locked_card = JObject [(''locked'', JBool True), (''requiredAds'', JNumber 1)]"

lemma cache_miss:
  assumes "cache_get E k w = (Inr None, w')"
  shows "db w' = db w \<and> cache_holds w' = cache_holds w"
  using redis.get_same [OF assms] by simp

lemma lookup_absent:
  assumes "cache_holds w k = None"
  shows "\<exists>w1. cache_get E k w = (Inr None, w1)"
proof -
  obtain c w1 where c: "cache_get E k w = (Inr c, w1)" using redis.get_returns by metis
  with assms redis.get_held [of E k w _ w1] show ?thesis by (cases c) auto
qed

text \<open>A request that is not answered from the cache and may see the card.\<close>

lemma build_run:
  assumes fresh: "caches_fresh E u date w"
    and run: "await (buildTodaysCard E u date) (\<lambda>result.
       andthen (cache_set E (dailyCardCacheKey u date) result DAILY_CARD_CACHE_TTL_SECONDS) (ret result)) w = (r, w')"
  shows "db w' = db w \<and> caches_fresh E u date w' \<and>
     (case active_deck DEFAULT_TAROT_DECK_CODE (db w) of
        None \<Rightarrow> \<exists>m. r = Inl (NotFoundException m)
      | Some cards \<Rightarrow> if cards = [] then \<exists>m. r = Inl (TypeError m) else r = Inr (daily_card E u date cards))"
proof -
  obtain x w1 where g: "getActiveDeckCards E DEFAULT_TAROT_DECK_CODE w = (x, w1)"
    by (cases "getActiveDeckCards E DEFAULT_TAROT_DECK_CODE w")
  note deck = deck_lookup [OF fresh g]
  show ?thesis
  proof (cases "active_deck DEFAULT_TAROT_DECK_CODE (db w)")
    case None
    with deck g run show ?thesis by (auto simp: buildTodaysCard_def await_def)
  next
    case (Some cards)
    then have x: "x = Inr cards" using deck by simp
    show ?thesis
    proof (cases "cards = []")
      case True
      with Some x deck g run show ?thesis by (auto simp: buildTodaysCard_def await_def)
    next
      case False
      obtain y w2 where p: "cache_set E (dailyCardCacheKey u date) (daily_card E u date cards) DAILY_CARD_CACHE_TTL_SECONDS w1 = (y, w2)"
        by (cases "cache_set E (dailyCardCacheKey u date) (daily_card E u date cards) DAILY_CARD_CACHE_TTL_SECONDS w1")
      note put = redis.put_law [OF p]
      have "r = Inr (daily_card E u date cards)" "w' = w2"
        using False x g run p put by (auto simp: buildTodaysCard_def await_def andthen_def)
      moreover have "caches_fresh E u date w2" using put deck Some by (auto simp: caches_fresh_def)
      ultimately show ?thesis using put deck Some False by simp
    qed
  qed
qed

lemma consume_world:
  assumes "tryConsumeUnlock u ty w = (r, w')"
  shows "cache w' = cache w \<and> (\<exists>ps. db w' = (db w)\<lparr>rewardProgresses := ps\<rparr>)"
  using assms by (auto simp: tryConsumeUnlock_def await_def update_many_def RewardProgress_def int4_def list_ex_iff)

lemma fresh_progress:
  assumes "caches_fresh E u date w" "cache_holds w' = cache_holds w" "db w' = (db w)\<lparr>rewardProgresses := ps\<rparr>"
  shows "caches_fresh E u date w' \<and> active_deck c (db w') = active_deck c (db w)"
  using assms by (simp add: caches_fresh_def active_deck_def deck_cards_def)

definition free_days :: "user \<Rightarrow> int \<Rightarrow> bool" where
  "free_days usr today = ((today - u_createdAt usr) div MS_PER_DAY + 1 \<le> 5)"

lemma free_window_run:
  assumes "find (\<lambda>x. u_id x = u) (users (db w)) = Some usr"
  shows "isWithinFreeWindow u today w = (Inr (free_days usr today), w)"
  using assms by (simp add: isWithinFreeWindow_def await_def User_def free_days_def DAILY_CARD_FREE_DAYS_def)

text \<open>The outcome once access is decided: the card, or the error of a missing or empty deck.\<close>

definition card_outcome :: "env \<Rightarrow> string \<Rightarrow> string \<Rightarrow> database \<Rightarrow> exn + json \<Rightarrow> bool" where
  "card_outcome E u date d r = (case active_deck DEFAULT_TAROT_DECK_CODE d of
      None \<Rightarrow> \<exists>m. r = Inl (NotFoundException m)
    | Some cards \<Rightarrow> if cards = [] then \<exists>m. r = Inl (TypeError m) else r = Inr (daily_card E u date cards))"

lemma request_miss:
  assumes fresh: "caches_fresh E u (iso_date today) w" and inv: "rewards_inv (db w)"
    and usr: "find (\<lambda>x. u_id x = u) (users (db w)) = Some usr"
    and c: "cache_get E (dailyCardCacheKey u (iso_date today)) w = (Inr None, w1)"
    and run: "getTodaysCard E u today w = (r, w')"
  shows "caches_fresh E u (iso_date today) w' \<and> (let unlocked = 1 \<le> progress_of u DAILY_CARD_UNLOCK (db w) in
     if free_days usr today \<or> unlocked
     then card_outcome E u (iso_date today) (db w) r \<and>
       progress_of u DAILY_CARD_UNLOCK (db w') =
         (if free_days usr today then progress_of u DAILY_CARD_UNLOCK (db w) else 0)
     else r = Inr locked_card \<and> db w' = db w)"
proof -
  let ?date = "iso_date today" and ?p = "progress_of u DAILY_CARD_UNLOCK (db w)"
  let ?build = "await (buildTodaysCard E u ?date) (\<lambda>result.
       andthen (cache_set E (dailyCardCacheKey u ?date) result DAILY_CARD_CACHE_TTL_SECONDS) (ret result))"
  note same = cache_miss [OF c]
  then have fresh1: "caches_fresh E u ?date w1" using fresh by (simp add: caches_fresh_def)
  have usr1: "find (\<lambda>x. u_id x = u) (users (db w1)) = Some usr" using usr same by simp
  have start: "getTodaysCard E u today w = (if free_days usr today then ?build w1
      else await (tryConsumeUnlock u DAILY_CARD_UNLOCK) (\<lambda>b. if b then ?build
        else await (getProgress u DAILY_CARD_UNLOCK) (\<lambda>progress.
           ret (JObject [(''locked'', JBool True), (''requiredAds'', JNumber (rps_requiredCount progress))]))) w1)"
    unfolding getTodaysCard_def Let_def toISOString_date
    by (simp add: await_def c free_window_run [OF usr1] split: prod.split sum.split)
  show ?thesis
  proof (cases "free_days usr today")
    case True
    with run start have "?build w1 = (r, w')" by simp
    from build_run [OF fresh1 this] same True show ?thesis by (simp add: card_outcome_def)
  next
    case False
    obtain b w2 where t: "tryConsumeUnlock u DAILY_CARD_UNLOCK w1 = (b, w2)"
      by (cases "tryConsumeUnlock u DAILY_CARD_UNLOCK w1")
    have inv1: "rewards_inv (db w1)" using inv same by simp
    have b: "b = Inr (1 \<le> ?p)" using consume_run(1) [OF inv1 t] same by simp
    have p2: "progress_of u DAILY_CARD_UNLOCK (db w2) = (if 1 \<le> ?p then 0 else ?p)"
      using consume_run(2) [OF inv1 t, of u DAILY_CARD_UNLOCK] same by simp
    obtain ps where db2: "cache_holds w2 = cache_holds w1" "db w2 = (db w1)\<lparr>rewardProgresses := ps\<rparr>"
      using consume_world [OF t] by (auto simp: cache_holds_def)
    note f2 = fresh_progress [OF fresh1 db2]
    show ?thesis
    proof (cases "1 \<le> ?p")
      case True
      with run start False b t have "?build w2 = (r, w')" by (simp add: await_ok)
      from build_run [OF _ this] f2 same True False p2 show ?thesis by (simp add: card_outcome_def)
    next
      case locked: False
      then have "filter (\<lambda>p. rp_userId p = u \<and> rp_rewardType p = DAILY_CARD_UNLOCK \<and> 1 \<le> rp_currentCount p) (rewardProgresses (db w1)) = []"
        using progress_unique [OF inv1] same by (auto simp: filter_empty_conv)
      then have "db w2 = db w1"
        using t by (auto simp: tryConsumeUnlock_def await_def update_many_def RewardProgress_def filter_empty_conv
            int4_def list_ex_iff map_idI split: if_splits)
      with run start False b t locked f2 same show ?thesis
        by (auto simp: await_ok getProgress_def Let_def await_def locked_card_def caches_fresh_def)
    qed
  qed
qed

text \<open>
  C21. A request for the card of the day that is not answered from the cache is decided by the
  age of the account and the ads watched: within the first five days the card is free; later it costs
  exactly one unlock, and without one the answer is \<open>locked\<close> and nothing changes. The unlock is spent
  even when the card cannot be served because no deck is active or the deck is empty.
\<close>

theorem daily_card_access:
  assumes "caches_fresh E u (iso_date today) w" and "rewards_inv (db w)"
    and "find (\<lambda>x. u_id x = u) (users (db w)) = Some usr"
    and "cache_holds w (dailyCardCacheKey u (iso_date today)) = None"
    and "getTodaysCard E u today w = (r, w')"
  shows "let unlocked = 1 \<le> progress_of u DAILY_CARD_UNLOCK (db w) in
     if free_days usr today \<or> unlocked
     then card_outcome E u (iso_date today) (db w) r \<and>
       progress_of u DAILY_CARD_UNLOCK (db w') =
         (if free_days usr today then progress_of u DAILY_CARD_UNLOCK (db w) else 0)
     else r = Inr locked_card \<and> db w' = db w"
proof -
  obtain w1 where "cache_get E (dailyCardCacheKey u (iso_date today)) w = (Inr None, w1)"
    using lookup_absent [OF assms(4)] by blast
  from request_miss [OF assms(1-3) this assms(5)] show ?thesis by simp
qed

definition example_user :: "string \<Rightarrow> int \<Rightarrow> user" where
  "example_user i t = \<lparr>u_id = i, u_email = i, u_name = i, u_passwordHash = i, u_status = ACTIVE_USER,
     u_emailVerifiedAt = None, u_createdAt = t, u_deletedAt = None\<rparr>"

text \<open>An account of ten days with one ad watched, while no deck is active: the ad is lost.\<close>

definition example_day :: world where
  "example_day = empty_world\<lparr>db := empty_database\<lparr>users := [example_user ''ana'' 0],
     rewardProgresses := [\<lparr>rp_id = ''p'', rp_userId = ''ana'', rp_rewardType = DAILY_CARD_UNLOCK, rp_currentCount = 1\<rparr>]\<rparr>\<rparr>"

lemma fresh_empty_cache: "cache w = (\<lambda>_. None) \<Longrightarrow> caches_fresh E u date w"
  by (simp add: caches_fresh_def cache_holds_def)

lemma daily_card_access_witness:
  "\<exists>m w'. getTodaysCard example_env ''ana'' 864000000 example_day = (Inl (NotFoundException m), w') \<and>
     progress_of ''ana'' DAILY_CARD_UNLOCK (db w') = 0"
proof -
  obtain r w' where run: "getTodaysCard example_env ''ana'' 864000000 example_day = (r, w')"
    by (cases "getTodaysCard example_env ''ana'' 864000000 example_day")
  have c: "cache example_day = (\<lambda>_. None)" by (simp add: example_day_def empty_world_def)
  have inv: "rewards_inv (db example_day)"
    by (simp add: rewards_inv_def unique_rows_def example_day_def empty_database_def table_defs)
  have usr: "find (\<lambda>x. u_id x = ''ana'') (users (db example_day)) = Some (example_user ''ana'' 0)"
    by (simp add: example_day_def example_user_def)
  have miss: "cache_holds example_day k = None" for k by (simp add: cache_holds_def c)
  have p: "progress_of ''ana'' DAILY_CARD_UNLOCK (db example_day) = 1"
    "\<not> free_days (example_user ''ana'' 0) 864000000" "active_deck c (db example_day) = None" for c
    by (simp_all add: progress_of_def example_day_def free_days_def example_user_def MS_PER_DAY_def active_deck_def
        empty_database_def)
  from daily_card_access [OF fresh_empty_cache [OF c] inv usr miss run] p run show ?thesis
    by (auto simp: card_outcome_def)
qed


definition example_noon :: world where
  "example_noon = empty_world\<lparr>db := empty_database\<lparr>users := [example_user ''ana'' 0],
     tarotDecks := [\<lparr>td_id = ''d'', td_code = DEFAULT_TAROT_DECK_CODE, td_name = ''Rider'', td_isActive = True\<rparr>],
     tarotCards := [\<lparr>tc_id = ''c'', tc_deckId = ''d'', tc_code = ''FOOL'', tc_name = ''El Loco'', tc_arcana = MAJOR,
       tc_suit = None, tc_numberInSuit = None, tc_orderIndex = 0, tc_uprightMeaning = ''up'',
       tc_reversedMeaning = ''down'', tc_imageUrl = None\<rparr>]\<rparr>\<rparr>"


end
