(* ===== verification/ServicesService.thy ===== *)
theory ServicesService
  imports CacheService TarotService
begin

text \<open>
  The catalogue of services (\<open>src/services\<close>) with the published versions of their forms, and the
  validator of the answers of a reading (\<open>src/readings/reading-form.validator.ts\<close>).
\<close>

section \<open>Summaries\<close>

definition SERVICES_LIST_CACHE_KEY :: string where
  "SERVICES_LIST_CACHE_KEY = ''services:list''"

definition SERVICES_LIST_CACHE_TTL_SECONDS :: int where
  "SERVICES_LIST_CACHE_TTL_SECONDS = 5 * 60"

text \<open>\<open>ACTIVE_FORM_INCLUDE\<close>: the active form with the highest version.\<close>

definition active_form :: "string \<Rightarrow> database \<Rightarrow> serviceForm option" where
  "active_form serviceId d = (case order_desc sf_version
       (filter (\<lambda>f. sf_serviceId f = serviceId \<and> sf_isActive f) (serviceForms d)) of
       [] \<Rightarrow> None | f # _ \<Rightarrow> Some f)"

record publicService =
  ps_code :: string
  ps_name :: string
  ps_description :: "string option"
  ps_creditCost :: int
  ps_formSchema :: json

definition toPublicService :: "service \<Rightarrow> serviceForm option \<Rightarrow> publicService" where
  "toPublicService s activeForm = \<lparr>ps_code = s_code s, ps_name = s_name s, ps_description = s_description s,
     ps_creditCost = s_creditCost s,
     ps_formSchema = (case activeForm of None \<Rightarrow> JNull | Some f \<Rightarrow> sf_schema f)\<rparr>"

definition json_of_publicService :: "publicService \<Rightarrow> json" where
  "json_of_publicService p = JObject
     [(''code'', JString (ps_code p)), (''name'', JString (ps_name p)),
      (''description'', optional JString (ps_description p)),
      (''creditCost'', JNumber (ps_creditCost p)), (''formSchema'', ps_formSchema p)]"

record adminService =
  as_id :: string
  as_code :: string
  as_name :: string
  as_description :: "string option"
  as_creditCost :: int
  as_isActive :: bool
  as_activeFormVersion :: "int option"
  as_createdAt :: int
  as_updatedAt :: int

definition toAdminService :: "service \<Rightarrow> serviceForm option \<Rightarrow> adminService" where
  "toAdminService s activeForm = \<lparr>as_id = s_id s, as_code = s_code s, as_name = s_name s,
     as_description = s_description s, as_creditCost = s_creditCost s, as_isActive = s_isActive s,
     as_activeFormVersion = map_option sf_version activeForm, as_createdAt = s_createdAt s,
     as_updatedAt = s_updatedAt s\<rparr>"

section \<open>Operations\<close>

definition listActiveServices :: "env \<Rightarrow> (world, json) prog" where
  "listActiveServices E =
     remember E SERVICES_LIST_CACHE_KEY SERVICES_LIST_CACHE_TTL_SECONDS
       (gets (\<lambda>w. JArray (map (\<lambda>s. json_of_publicService (toPublicService s (active_form (s_id s) (db w))))
          (sort_key s_createdAt (filter s_isActive (services (db w)))))))"

definition findActiveByCode :: "string \<Rightarrow> (world, publicService) prog" where
  "findActiveByCode code =
     await (find_first Service (\<lambda>s. s_code s = code \<and> s_isActive s)) (\<lambda>found. case found of
       None \<Rightarrow> throw (NotFoundException ''service'')
     | Some s \<Rightarrow> gets (\<lambda>w. toPublicService s (active_form (s_id s) (db w))))"

definition listAllServices :: "(world, adminService list) prog" where
  "listAllServices =
     gets (\<lambda>w. map (\<lambda>s. toAdminService s (active_form (s_id s) (db w))) (sort_key s_createdAt (services (db w))))"

text \<open>The fields of an update that were given; \<open>description\<close> may be given as null.\<close>

record serviceUpdate =
  upd_name :: "string option"
  upd_description :: "string option option"
  upd_creditCost :: "int option"
  upd_isActive :: "bool option"

definition apply_update :: "serviceUpdate \<Rightarrow> int \<Rightarrow> service \<Rightarrow> service" where
  "apply_update u now s = s\<lparr>s_name := (case upd_name u of None \<Rightarrow> s_name s | Some x \<Rightarrow> x),
     s_description := (case upd_description u of None \<Rightarrow> s_description s | Some x \<Rightarrow> x),
     s_creditCost := (case upd_creditCost u of None \<Rightarrow> s_creditCost s | Some x \<Rightarrow> x),
     s_isActive := (case upd_isActive u of None \<Rightarrow> s_isActive s | Some x \<Rightarrow> x),
     s_updatedAt := now\<rparr>"

definition updateService :: "env \<Rightarrow> string \<Rightarrow> serviceUpdate \<Rightarrow> (world, adminService) prog" where
  "updateService E i data =
     await (find_first Service (\<lambda>s. s_id s = i)) (\<lambda>existing. case existing of
       None \<Rightarrow> throw (NotFoundException ''service'')
     | Some _ \<Rightarrow>
         await (date_now E) (\<lambda>now.
         await (update_row Service (\<lambda>s. s_id s = i) (apply_update data now)) (\<lambda>updated.
         await (gets (\<lambda>w. active_form i (db w))) (\<lambda>form.
         andthen (cache_del SERVICES_LIST_CACHE_KEY)
           (ret (toAdminService updated form))))))"

definition publishForm :: "env \<Rightarrow> string \<Rightarrow> json \<Rightarrow> (world, adminService) prog" where
  "publishForm E serviceId schema =
     await (find_first Service (\<lambda>s. s_id s = serviceId)) (\<lambda>found. case found of
       None \<Rightarrow> throw (NotFoundException ''service'')
     | Some _ \<Rightarrow>
         await (find_first_desc ServiceForm sf_version (\<lambda>f. sf_serviceId f = serviceId)) (\<lambda>lastForm.
         let nextVersion = (case lastForm of None \<Rightarrow> 0 | Some f \<Rightarrow> sf_version f) + 1 in
         await
           (transaction
             (andthen (update_many ServiceForm (\<lambda>f. sf_serviceId f = serviceId \<and> sf_isActive f)
                 (\<lambda>f. f\<lparr>sf_isActive := False\<rparr>))
              (await (random_uuid E) (\<lambda>i.
               andthen (create ServiceForm \<lparr>sf_id = i, sf_serviceId = serviceId, sf_version = nextVersion,
                   sf_schema = schema, sf_isActive = True\<rparr>)
                (await (find_or_throw Service (\<lambda>s. s_id s = serviceId)) (\<lambda>s.
                 await (gets (\<lambda>w. active_form serviceId (db w))) (\<lambda>form.
                 ret (toAdminService s form))))))))
           (\<lambda>updated.
         andthen (cache_del SERVICES_LIST_CACHE_KEY)
           (ret updated))))"

section \<open>The validator of answers\<close>

text \<open>
  \<open>validateReadingAnswers\<close> on parsed JSON. The schema is not checked beyond \<open>isDynamicFormSchema\<close>:
  reading a property of null throws a \<open>TypeError\<close>, of any other value that is no object it is
  undefined. A value that is missing, null or the empty string is empty; only strings are measured.
\<close>

fun truthy :: "json option \<Rightarrow> bool" where
  "truthy None = False"
| "truthy (Some JNull) = False"
| "truthy (Some (JBool b)) = b"
| "truthy (Some (JNumber n)) = (n \<noteq> 0)"
| "truthy (Some (JString s)) = (s \<noteq> [])"
| "truthy (Some _) = True"

text \<open>The text of a property key.\<close>

fun property_key :: "json option \<Rightarrow> string" where
  "property_key None = ''undefined''"
| "property_key (Some JNull) = ''null''"
| "property_key (Some (JBool b)) = (if b then ''true'' else ''false'')"
| "property_key (Some (JNumber n)) = string_of_int n"
| "property_key (Some (JDecimal t)) = t"
| "property_key (Some (JString s)) = s"
| "property_key (Some _) = ''[object Object]''"

fun is_empty_answer :: "json property \<Rightarrow> bool" where
  "is_empty_answer Undefined = True"
| "is_empty_answer (Own v) = (v = JNull \<or> v = JString [])"
| "is_empty_answer Inherited = False"

text \<open>
  The number a bound is compared as, \<open>None\<close> for \<open>NaN\<close>. A bound written as a decimal number or as text
  that reads as a number is outside the model.
\<close>

fun bound_number :: "json \<Rightarrow> int option" where
  "bound_number JNull = Some 0"
| "bound_number (JBool b) = Some (if b then 1 else 0)"
| "bound_number (JNumber n) = Some n"
| "bound_number _ = None"

definition too_short :: "json option \<Rightarrow> string \<Rightarrow> bool" where
  "too_short bound s = (case bound of None \<Rightarrow> False | Some b \<Rightarrow> (case bound_number b of
       None \<Rightarrow> False | Some n \<Rightarrow> int (length s) < n))"

definition too_long :: "json option \<Rightarrow> string \<Rightarrow> bool" where
  "too_long bound s = (case bound of None \<Rightarrow> False | Some b \<Rightarrow> (case bound_number b of
       None \<Rightarrow> False | Some n \<Rightarrow> n < int (length s)))"

text \<open>\<open>options.includes(value)\<close>: of an array its elements, of a string its substrings.\<close>

fun infix_of :: "string \<Rightarrow> string \<Rightarrow> bool" where
  "infix_of p [] = (p = [])"
| "infix_of p (c # s) = (take (length p) (c # s) = p \<or> infix_of p s)"

fun options_include :: "json \<Rightarrow> string \<Rightarrow> exn + bool" where
  "options_include (JArray vs) s = Inr (JString s \<in> set vs)"
| "options_include (JString t) s = Inr (infix_of s t)"
| "options_include _ s = Inl (TypeError ''includes'')"

definition options_error :: "json option \<Rightarrow> string \<Rightarrow> exn option" where
  "options_error options s =
     (if \<not> truthy options then None
      else case options_include (the options) s of
        Inl e \<Rightarrow> Some e
      | Inr b \<Rightarrow> if b then None else Some (BadRequestException ''options''))"

definition answer_error :: "(string \<Rightarrow> json option) \<Rightarrow> json property \<Rightarrow> exn option" where
  "answer_error field value =
     (if truthy (field ''required'') \<and> is_empty_answer value then Some (BadRequestException ''required'')
      else if is_empty_answer value then None
      else case value of
        Own (JString s) \<Rightarrow>
          if too_short (field ''minLength'') s then Some (BadRequestException ''min length'')
          else if too_long (field ''maxLength'') s then Some (BadRequestException ''max length'')
          else options_error (field ''options'') s
      | _ \<Rightarrow> None)"

fun field_error :: "json \<Rightarrow> (string \<times> json) list \<Rightarrow> exn option" where
  "field_error JNull answers = Some (TypeError ''null'')"
| "field_error (JObject ps) answers = answer_error (map_of ps) (js_get answers (property_key (map_of ps ''key'')))"
| "field_error _ answers = answer_error (\<lambda>_. None) (js_get answers ''undefined'')"

text \<open>The loop over the fields: the first error is thrown.\<close>

fun validate_fields :: "json list \<Rightarrow> (string \<times> json) list \<Rightarrow> exn option" where
  "validate_fields [] answers = None"
| "validate_fields (f # fs) answers = (case field_error f answers of
       Some e \<Rightarrow> Some e
     | None \<Rightarrow> validate_fields fs answers)"

definition validateReadingAnswers :: "json \<Rightarrow> (string \<times> json) list \<Rightarrow> (world, unit) prog" where
  "validateReadingAnswers schema answers = (case schema of
       JObject ps \<Rightarrow> (case map_of ps ''fields'' of
           Some (JArray fs) \<Rightarrow> (case validate_fields fs answers of
               Some e \<Rightarrow> throw e
             | None \<Rightarrow> ret ())
         | _ \<Rightarrow> throw (BadRequestException ''form''))
     | _ \<Rightarrow> throw (BadRequestException ''form''))"

section \<open>Palm services\<close>

definition PALM_SERVICE_IMAGE_SLOTS :: "(string \<times> nat) list" where
  "PALM_SERVICE_IMAGE_SLOTS = [(''PALM_BASIC'', 1), (''PALM_COMPLETE'', 2)]"

definition isPalmService :: "string \<Rightarrow> bool" where
  "isPalmService serviceCode = js_in serviceCode PALM_SERVICE_IMAGE_SLOTS"

text \<open>
  The slots of a service. For a code that is the name of an inherited property the source gets a
  function; a count compared with it is never greater or equal, nor smaller: \<open>None\<close> is that \<open>NaN\<close>.
\<close>

definition requiredPalmImageSlots :: "string \<Rightarrow> nat option" where
  "requiredPalmImageSlots serviceCode = (case js_get PALM_SERVICE_IMAGE_SLOTS serviceCode of
       Own n \<Rightarrow> Some n
     | Inherited \<Rightarrow> None
     | Undefined \<Rightarrow> Some 0)"

section \<open>Publishing a form\<close>

lemma active_form_single:
  "filter (\<lambda>f. sf_serviceId f = i \<and> sf_isActive f) (serviceForms d) = [f] \<Longrightarrow> active_form i d = Some f"
  by (simp add: active_form_def order_desc_def)

lemma last_version:
  assumes "(case order_desc sf_version (filter P forms) of [] \<Rightarrow> None | f # _ \<Rightarrow> Some f) = lf"
    and "g \<in> set forms" "P g"
  shows "sf_version g < (case lf of None \<Rightarrow> 0 | Some f \<Rightarrow> sf_version f) + 1"
proof -
  have g: "g \<in> set (filter P forms)" using assms(2,3) by simp
  have ne: "order_desc sf_version (filter P forms) \<noteq> []" using assms(2,3) by (auto simp: filter_empty_conv)
  then have "lf = Some (hd (order_desc sf_version (filter P forms)))"
    using assms(1) by (auto split: list.splits)
  with order_desc_head_max [OF g, of sf_version] show ?thesis by simp
qed

lemma deactivate_forms:
  "filter (\<lambda>f. sf_serviceId f = i \<and> sf_isActive f)
     (map (\<lambda>f. if sf_serviceId f = i \<and> sf_isActive f then f\<lparr>sf_isActive := False\<rparr> else f) fs) = []"
  "filter (\<lambda>f. sf_serviceId f \<noteq> i)
     (map (\<lambda>f. if sf_serviceId f = i \<and> sf_isActive f then f\<lparr>sf_isActive := False\<rparr> else f) fs) =
   filter (\<lambda>f. sf_serviceId f \<noteq> i) fs"
  by (induction fs) auto

text \<open>
  C23. Publishing a form leaves exactly one active form for the service: the new one, with a version
  above every earlier version of the service. The forms of other services are untouched, and the
  cached list of services is dropped, so that the next listing shows the new form.
\<close>

theorem publish_form:
  assumes run: "publishForm E i schema w = (Inr a, w')"
  shows "(\<exists>f. filter (\<lambda>f. sf_serviceId f = i \<and> sf_isActive f) (serviceForms (db w')) = [f] \<and> sf_schema f = schema \<and>
       as_activeFormVersion a = Some (sf_version f) \<and>
       (\<forall>g \<in> set (serviceForms (db w)). sf_serviceId g = i \<longrightarrow> sf_version g < sf_version f)) \<and>
     filter (\<lambda>f. sf_serviceId f \<noteq> i) (serviceForms (db w')) = filter (\<lambda>f. sf_serviceId f \<noteq> i) (serviceForms (db w)) \<and>
     cache_holds w' SERVICES_LIST_CACHE_KEY = None"
proof -
  let ?old = "serviceForms (db w)"
  let ?P = "\<lambda>f. sf_serviceId f = i \<and> sf_isActive f"
  let ?off = "map (\<lambda>f. if ?P f then f\<lparr>sf_isActive := False\<rparr> else f) ?old"
  obtain lf where lf: "(case order_desc sf_version (filter (\<lambda>f. sf_serviceId f = i) ?old) of
      [] \<Rightarrow> None | f # _ \<Rightarrow> Some f) = lf" by blast
  let ?v = "(case lf of None \<Rightarrow> 0 | Some f \<Rightarrow> sf_version f) + 1"
  obtain s u where s: "find (\<lambda>s. s_id s = i) (services (db w)) = Some s"
    and forms: "serviceForms (db u) = ?off @ [\<lparr>sf_id = e_uuid E (uuids w), sf_serviceId = i, sf_version = ?v,
         sf_schema = schema, sf_isActive = True\<rparr>]"
    and a: "a = toAdminService s (active_form i (db u))" and del: "cache_del SERVICES_LIST_CACHE_KEY u = (Inr (), w')"
  proof -
    obtain s where s: "find (\<lambda>s. s_id s = i) (services (db w)) = Some s"
      using run by (cases "find (\<lambda>s. s_id s = i) (services (db w))") (simp_all add: publishForm_def await_def Service_def)
    let ?row = "\<lparr>sf_id = e_uuid E (uuids w), sf_serviceId = i, sf_version = ?v, sf_schema = schema, sf_isActive = True\<rparr>"
    let ?u = "w\<lparr>uuids := Suc (uuids w), db := (db w)\<lparr>serviceForms := ?off @ [?row]\<rparr>\<rparr>"
    have "a = toAdminService s (active_form i (db ?u)) \<and> cache_del SERVICES_LIST_CACHE_KEY ?u = (Inr (), w')"
      using run s lf
      by (auto simp: publishForm_def await_def andthen_def transaction_def update_many_def create_def Service_def
          ServiceForm_def Let_def find_or_throw_run cache_del_def split: if_splits)
    then show thesis using s by (intro that [of s ?u]) simp_all
  qed
  have new: "filter ?P (serviceForms (db u)) = [\<lparr>sf_id = e_uuid E (uuids w), sf_serviceId = i, sf_version = ?v,
         sf_schema = schema, sf_isActive = True\<rparr>]"
    by (simp add: forms deactivate_forms)
  have d: "db w' = db u" "cache_holds w' SERVICES_LIST_CACHE_KEY = None"
    using redis.del_law [OF del] by simp_all
  show ?thesis
    using new d last_version [OF lf] active_form_single [OF new]
    by (simp add: forms deactivate_forms a toAdminService_def)
qed

definition example_service :: service where
  "example_service = \<lparr>s_id = ''s'', s_code = ''TAROT_THREE'', s_name = ''n'', s_description = None, s_creditCost = 5,
     s_isActive = True, s_createdAt = 0, s_updatedAt = 0\<rparr>"

definition example_forms :: world where
  "example_forms = empty_world\<lparr>db := empty_database\<lparr>services := [example_service],
     serviceForms := [\<lparr>sf_id = ''f'', sf_serviceId = ''s'', sf_version = 4, sf_schema = JNull, sf_isActive = True\<rparr>]\<rparr>\<rparr>"

lemma publish_form_witness:
  "\<exists>a w'. publishForm example_env ''s'' (JObject []) example_forms = (Inr a, w') \<and>
     (\<exists>f. filter (\<lambda>f. sf_serviceId f = ''s'' \<and> sf_isActive f) (serviceForms (db w')) = [f] \<and>
          sf_schema f = JObject [] \<and> 4 < sf_version f)"
proof -
  let ?run = "publishForm example_env ''s'' (JObject []) example_forms"
  have "case fst ?run of Inl _ \<Rightarrow> False | Inr _ \<Rightarrow> True"
    by (simp add: publishForm_def await_def andthen_def transaction_def update_many_def create_def find_or_throw_run
        cache_del_def Let_def order_desc_def example_forms_def example_service_def empty_world_def empty_database_def
        table_defs int4_def example_env_def)
  then obtain a w' where run: "?run = (Inr a, w')" by (cases ?run; cases "fst ?run") auto
  have old: "serviceForms (db example_forms) =
      [\<lparr>sf_id = ''f'', sf_serviceId = ''s'', sf_version = 4, sf_schema = JNull, sf_isActive = True\<rparr>]"
    by (simp add: example_forms_def)
  obtain f where "filter (\<lambda>f. sf_serviceId f = ''s'' \<and> sf_isActive f) (serviceForms (db w')) = [f]"
    "sf_schema f = JObject []" "\<forall>g \<in> set (serviceForms (db example_forms)). sf_serviceId g = ''s'' \<longrightarrow> sf_version g < sf_version f"
    using publish_form [OF run] by blast
  with run old show ?thesis by auto
qed

section \<open>What the validator accepts\<close>

text \<open>A form as the schemas of the seed data have it, and what it asks of the answers.\<close>

record formField =
  ff_key :: string
  ff_label :: string
  ff_required :: bool
  ff_minLength :: "int option"
  ff_maxLength :: "int option"
  ff_options :: "string list option"

definition json_of_field :: "formField \<Rightarrow> json" where
  "json_of_field f = JObject ([(''key'', JString (ff_key f)), (''label'', JString (ff_label f)),
     (''required'', JBool (ff_required f))] @
     (case ff_minLength f of None \<Rightarrow> [] | Some n \<Rightarrow> [(''minLength'', JNumber n)]) @
     (case ff_maxLength f of None \<Rightarrow> [] | Some n \<Rightarrow> [(''maxLength'', JNumber n)]) @
     (case ff_options f of None \<Rightarrow> [] | Some os \<Rightarrow> [(''options'', JArray (map JString os))]))"

definition answer_ok :: "formField \<Rightarrow> json option \<Rightarrow> bool" where
  "answer_ok f value = (case value of
       None \<Rightarrow> \<not> ff_required f
     | Some JNull \<Rightarrow> \<not> ff_required f
     | Some (JString s) \<Rightarrow>
         if s = [] then \<not> ff_required f
         else (\<forall>n. ff_minLength f = Some n \<longrightarrow> n \<le> int (length s)) \<and>
              (\<forall>n. ff_maxLength f = Some n \<longrightarrow> int (length s) \<le> n) \<and>
              (\<forall>os. ff_options f = Some os \<longrightarrow> s \<in> set os)
     | Some _ \<Rightarrow> True)"

lemma field_lookup:
  "map_of (case json_of_field f of JObject ps \<Rightarrow> ps) ''key'' = Some (JString (ff_key f))"
  "map_of (case json_of_field f of JObject ps \<Rightarrow> ps) ''required'' = Some (JBool (ff_required f))"
  "map_of (case json_of_field f of JObject ps \<Rightarrow> ps) ''minLength'' = map_option JNumber (ff_minLength f)"
  "map_of (case json_of_field f of JObject ps \<Rightarrow> ps) ''maxLength'' = map_option JNumber (ff_maxLength f)"
  "map_of (case json_of_field f of JObject ps \<Rightarrow> ps) ''options'' = map_option (\<lambda>os. JArray (map JString os)) (ff_options f)"
  by (simp_all add: json_of_field_def split: option.split)

lemma options_spec:
  "options_error (map_option (\<lambda>os. JArray (map JString os)) opts) s =
     (case opts of None \<Rightarrow> None | Some os \<Rightarrow> if s \<in> set os then None else Some (BadRequestException ''options''))"
  by (auto simp: options_error_def image_iff split: option.split)

lemma field_error_spec:
  assumes "ff_key f \<notin> set object_prototype_keys"
  shows "(field_error (json_of_field f) answers = None) = answer_ok f (map_of answers (ff_key f)) \<and>
    (\<forall>e. field_error (json_of_field f) answers = Some e \<longrightarrow> (\<exists>m. e = BadRequestException m))"
proof -
  obtain ps where ps: "json_of_field f = JObject ps" by (simp add: json_of_field_def)
  note look = field_lookup [of f, unfolded ps json.case]
  have get: "js_get answers (ff_key f) = (case map_of answers (ff_key f) of None \<Rightarrow> Undefined | Some v \<Rightarrow> Own v)"
    using assms by (simp add: js_get_def split: option.split)
  show ?thesis
    unfolding ps field_error.simps look property_key.simps get
    by (auto simp: answer_error_def answer_ok_def look too_short_def too_long_def options_spec
        split: option.splits json.splits if_splits)
qed


definition example_question :: formField where
  "example_question = \<lparr>ff_key = ''question'', ff_label = ''q'', ff_required = True, ff_minLength = Some 3,
     ff_maxLength = Some 5, ff_options = None\<rparr>"


end
