(* ===== verification/StorageService.thy ===== *)
theory StorageService
  imports Tables
begin

text \<open>
  The object bucket (\<open>src/storage\<close>), the checks on an uploaded image, and the clean-up job of
  expired images (\<open>src/jobs/cleanup\<close>). A byte is a number below 256. A call of the storage API may
  fail (\<open>e_storageFails\<close>, by the number of the call); the signed URL and the size of an image are the
  parameters \<open>e_signedUrl\<close> and \<open>e_imageSize\<close> (packages of the source).
\<close>

section \<open>The bucket\<close>

definition storage_call :: "env \<Rightarrow> (world, unit) prog" where
  "storage_call E =
     await (gets storageCalls) (\<lambda>k.
     andthen (modify (\<lambda>w. w\<lparr>storageCalls := Suc (storageCalls w)\<rparr>))
       (throw_if (e_storageFails E k) (PlainError ''storage'')))"

fun MIME_TYPE_TO_EXTENSION :: "string \<Rightarrow> string" where
  "MIME_TYPE_TO_EXTENSION mimeType =
     (if mimeType = ''image/jpeg'' then ''jpg'' else if mimeType = ''image/png'' then ''png'' else ''webp'')"

definition PALM_IMAGE_ALLOWED_MIME_TYPES :: "string list" where
  "PALM_IMAGE_ALLOWED_MIME_TYPES = [''image/jpeg'', ''image/png'', ''image/webp'']"

definition PALM_IMAGE_MIN_DIMENSION_PX :: int where
  "PALM_IMAGE_MIN_DIMENSION_PX = 200"

definition PRESIGNED_UPLOAD_EXPIRY_SECONDS :: int where
  "PRESIGNED_UPLOAD_EXPIRY_SECONDS = 5 * 60"

definition buildPalmImageKey :: "env \<Rightarrow> string \<Rightarrow> string \<Rightarrow> string \<Rightarrow> (world, string) prog" where
  "buildPalmImageKey E userId readingId mimeType =
     await (random_uuid E) (\<lambda>u.
     ret (''palm-reading/'' @ userId @ ''/'' @ readingId @ ''/'' @ u @ ''.'' @ MIME_TYPE_TO_EXTENSION mimeType))"

definition buildShareImageKey :: "env \<Rightarrow> string \<Rightarrow> (world, string) prog" where
  "buildShareImageKey E readingId =
     await (random_uuid E) (\<lambda>u. ret (''share-images/'' @ readingId @ ''/'' @ u @ ''.png''))"

definition uploadObject :: "env \<Rightarrow> string \<Rightarrow> nat list \<Rightarrow> (world, unit) prog" where
  "uploadObject E key body =
     andthen (storage_call E) (modify (\<lambda>w. w\<lparr>bucket := (bucket w)(key \<mapsto> body)\<rparr>))"

record presignedUpload =
  pu_key :: string
  pu_uploadUrl :: string
  pu_expiresInSeconds :: int

definition createPresignedUploadUrl :: "env \<Rightarrow> string \<Rightarrow> string \<Rightarrow> (world, presignedUpload) prog" where
  "createPresignedUploadUrl E key contentType =
     ret \<lparr>pu_key = key, pu_uploadUrl = e_signedUrl E key contentType PRESIGNED_UPLOAD_EXPIRY_SECONDS,
          pu_expiresInSeconds = PRESIGNED_UPLOAD_EXPIRY_SECONDS\<rparr>"

text \<open>\<open>headObject\<close> answers null on every error, an absent key included.\<close>

definition headObject :: "env \<Rightarrow> string \<Rightarrow> (world, nat option) prog" where
  "headObject E key =
     try_catch (andthen (storage_call E) (gets (\<lambda>w. map_option length (bucket w key))))
       (\<lambda>_. ret None)"

definition downloadObject :: "env \<Rightarrow> string \<Rightarrow> (world, nat list) prog" where
  "downloadObject E key =
     andthen (storage_call E)
       (await (gets (\<lambda>w. bucket w key)) (\<lambda>body. case body of
          None \<Rightarrow> throw (PlainError ''no such key'')
        | Some bytes \<Rightarrow> ret bytes))"

text \<open>Deleting an absent key is no error.\<close>

definition deleteObject :: "env \<Rightarrow> string \<Rightarrow> (world, unit) prog" where
  "deleteObject E key =
     andthen (storage_call E) (modify (\<lambda>w. w\<lparr>bucket := (bucket w)(key := None)\<rparr>))"

section \<open>The checks on an image\<close>

text \<open>\<open>buffer.toString('ascii', i, j)\<close>: Node drops the highest bit of every byte.\<close>

definition ascii_text :: "nat list \<Rightarrow> nat \<Rightarrow> nat \<Rightarrow> string" where
  "ascii_text buffer i j = map (\<lambda>b. char_of (b mod 128)) (take (j - i) (drop i buffer))"

definition sniffImageMimeType :: "nat list \<Rightarrow> string option" where
  "sniffImageMimeType buffer =
     (if 3 \<le> length buffer \<and> buffer ! 0 = 0xff \<and> buffer ! 1 = 0xd8 \<and> buffer ! 2 = 0xff
      then Some ''image/jpeg''
      else if 8 \<le> length buffer \<and> buffer ! 0 = 0x89 \<and> buffer ! 1 = 0x50 \<and> buffer ! 2 = 0x4e \<and>
        buffer ! 3 = 0x47 \<and> buffer ! 4 = 0x0d \<and> buffer ! 5 = 0x0a \<and> buffer ! 6 = 0x1a \<and> buffer ! 7 = 0x0a
      then Some ''image/png''
      else if 12 \<le> length buffer \<and> ascii_text buffer 0 4 = ''RIFF'' \<and> ascii_text buffer 8 12 = ''WEBP''
      then Some ''image/webp''
      else None)"

definition readImageDimensions :: "env \<Rightarrow> nat list \<Rightarrow> (int \<times> int) option" where
  "readImageDimensions E buffer = (case e_imageSize E buffer of
       None \<Rightarrow> None
     | Some (w, h) \<Rightarrow> if w = 0 \<or> h = 0 then None else Some (w, h))"

text \<open>The signatures a file has to start with.\<close>

definition starts_with :: "nat list \<Rightarrow> nat list \<Rightarrow> bool" where
  "starts_with p buffer = (take (length p) buffer = p)"

lemma starts_with_iff:
  "starts_with p xs = (length p \<le> length xs \<and> (\<forall>i < length p. xs ! i = p ! i))"
  unfolding starts_with_def by (auto simp: list_eq_iff_nth_eq)

lemma starts_with_3:
  "starts_with [a, b, c] xs = (3 \<le> length xs \<and> xs ! 0 = a \<and> xs ! 1 = b \<and> xs ! 2 = c)"
  by (auto simp: starts_with_iff eval_nat_numeral All_less_Suc)

lemma starts_with_8:
  "starts_with [a, b, c, d, e, f, g, h] xs =
     (8 \<le> length xs \<and> xs ! 0 = a \<and> xs ! 1 = b \<and> xs ! 2 = c \<and> xs ! 3 = d \<and> xs ! 4 = e \<and>
      xs ! 5 = f \<and> xs ! 6 = g \<and> xs ! 7 = h)"
  by (auto simp: starts_with_iff eval_nat_numeral All_less_Suc)

lemma char_list_iff:
  "\<forall>x \<in> set xs. x < 256 \<Longrightarrow> (map char_of xs = s) = (xs = map (of_char :: char \<Rightarrow> nat) s)"
proof
  assume xs: "\<forall>x \<in> set xs. x < 256" and "map char_of xs = s"
  then have "map of_char s = map (\<lambda>x. of_char (char_of x) :: nat) xs" by auto
  also have "\<dots> = xs" using xs by (intro map_idI) simp
  finally show "xs = map of_char s" by simp
qed (simp add: comp_def)

lemma ascii_text_iff:
  "length s = j - i \<Longrightarrow>
   (ascii_text buffer i j = s) = starts_with (map of_char s) (map (\<lambda>b. b mod 128) (drop i buffer))"
proof -
  have "\<forall>x \<in> set (map (\<lambda>b. b mod 128) (take (j - i) (drop i buffer))). x < 256"
    by (auto intro: less_trans [of _ 128])
  from char_list_iff [OF this, of s] show "length s = j - i \<Longrightarrow> ?thesis"
    by (simp add: ascii_text_def starts_with_def take_map comp_def)
qed

text \<open>
  C25. The type of an image is decided by the first bytes alone: it is the one whose signature the
  file starts with. For WebP only the lower seven bits of the eight signature bytes are compared, so
  that every file that has the real signature is recognised, but so are files that only look like it.
\<close>

theorem sniff_by_signature:
  "sniffImageMimeType buffer =
     (if starts_with [0xff, 0xd8, 0xff] buffer then Some ''image/jpeg''
      else if starts_with [0x89, 0x50, 0x4e, 0x47, 0x0d, 0x0a, 0x1a, 0x0a] buffer then Some ''image/png''
      else if starts_with [0x52, 0x49, 0x46, 0x46] (map (\<lambda>b. b mod 128) buffer) \<and>
        starts_with [0x57, 0x45, 0x42, 0x50] (map (\<lambda>b. b mod 128) (drop 8 buffer)) then Some ''image/webp''
      else None) \<and>
   sniffImageMimeType [0xd2, 0xc9, 0xc6, 0xc6, 0, 0, 0, 0, 0xd7, 0xc5, 0xc2, 0xd0] = Some ''image/webp''"
proof
  have riff: "(ascii_text buffer 0 4 = ''RIFF'') = starts_with [0x52, 0x49, 0x46, 0x46] (map (\<lambda>b. b mod 128) buffer)"
    using ascii_text_iff [of "''RIFF''" 4 0 buffer] by simp
  have webp: "(ascii_text buffer 8 12 = ''WEBP'') = starts_with [0x57, 0x45, 0x42, 0x50] (map (\<lambda>b. b mod 128) (drop 8 buffer))"
    using ascii_text_iff [of "''WEBP''" 12 8 buffer] by simp
  have len: "12 \<le> length buffer" if "starts_with [0x57, 0x45, 0x42, 0x50] (map (\<lambda>b. b mod 128) (drop 8 buffer))"
    using that by (simp add: starts_with_iff) linarith
  show "sniffImageMimeType buffer =
     (if starts_with [0xff, 0xd8, 0xff] buffer then Some ''image/jpeg''
      else if starts_with [0x89, 0x50, 0x4e, 0x47, 0x0d, 0x0a, 0x1a, 0x0a] buffer then Some ''image/png''
      else if starts_with [0x52, 0x49, 0x46, 0x46] (map (\<lambda>b. b mod 128) buffer) \<and>
        starts_with [0x57, 0x45, 0x42, 0x50] (map (\<lambda>b. b mod 128) (drop 8 buffer)) then Some ''image/webp''
      else None)"
    using len by (auto simp: sniffImageMimeType_def riff webp starts_with_3 starts_with_8 simp del: One_nat_def)
  show "sniffImageMimeType [0xd2, 0xc9, 0xc6, 0xc6, 0, 0, 0, 0, 0xd7, 0xc5, 0xc2, 0xd0] = Some ''image/webp''"
    by code_simp
qed

section \<open>The clean-up job\<close>

definition CLEANUP_BATCH_SIZE :: nat where
  "CLEANUP_BATCH_SIZE = 100"

definition cleanup_one :: "env \<Rightarrow> palmImage \<Rightarrow> (world, unit) prog" where
  "cleanup_one E img =
     try_catch
       (andthen (deleteObject E (pi_storageKey img))
         (await (date_now E) (\<lambda>now.
          andthen (update_row PalmImage (\<lambda>i. pi_id i = pi_id img) (\<lambda>i. i\<lparr>pi_deletedAt := Some now\<rparr>))
            (ret ()))))
       (\<lambda>_. ret ())"

text \<open>\<open>take: CLEANUP_BATCH_SIZE\<close> has no order in the source: the model takes the first inserted.\<close>

definition deleteExpiredImages :: "env \<Rightarrow> (world, unit) prog" where
  "deleteExpiredImages E =
     await (date_now E) (\<lambda>now.
     await (find_many PalmImage (\<lambda>i. (case pi_expiresAt i of None \<Rightarrow> False | Some t \<Rightarrow> t \<le> now) \<and>
              pi_deletedAt i = None)) (\<lambda>expiredImages.
     for_each (cleanup_one E) (take CLEANUP_BATCH_SIZE expiredImages)))"

text \<open>Which images were deleted, and when.\<close>

definition mark_deleted :: "(string \<rightharpoonup> int) \<Rightarrow> palmImage \<Rightarrow> palmImage" where
  "mark_deleted m i = (case m (pi_id i) of None \<Rightarrow> i | Some t \<Rightarrow> i\<lparr>pi_deletedAt := Some t\<rparr>)"

definition objects_gone :: "(string \<rightharpoonup> int) \<Rightarrow> palmImage list \<Rightarrow> string set" where
  "objects_gone m imgs = {pi_storageKey i | i. i \<in> set imgs \<and> m (pi_id i) \<noteq> None}"

lemma mark_deleted_sel [simp]:
  "pi_id (mark_deleted m i) = pi_id i" "pi_sizeBytes (mark_deleted m i) = pi_sizeBytes i"
  by (simp_all add: mark_deleted_def split: option.split)

lemma mark_deleted_empty [simp]: "mark_deleted Map.empty = id"
  by (simp add: fun_eq_iff mark_deleted_def)

lemma mark_deleted_twice: "mark_deleted m (mark_deleted n i) = mark_deleted (n ++ m) i"
  by (simp add: mark_deleted_def map_add_def split: option.split)

lemma mark_deleted_one:
  "mark_deleted [k \<mapsto> t] = (\<lambda>i. if pi_id i = k then i\<lparr>pi_deletedAt := Some t\<rparr> else i)"
  by (simp add: fun_eq_iff mark_deleted_def)

definition images_fit :: "palmImage list \<Rightarrow> database \<Rightarrow> bool" where
  "images_fit imgs d = ((\<forall>i \<in> set (palmImages d). check PalmImage i) \<and>
     pi_id ` set imgs \<subseteq> pi_id ` set (palmImages d))"

lemma cleanup_one_run:
  assumes "images_fit [img] (db w)"
  shows "\<exists>m w'. cleanup_one E img w = (Inr (), w') \<and> dom m \<subseteq> {pi_id img} \<and>
    ((\<forall>k. \<not> e_storageFails E k) \<longrightarrow> dom m = {pi_id img}) \<and>
    palmImages (db w') = map (mark_deleted m) (palmImages (db w)) \<and>
    bucket w' = (\<lambda>k. if k \<in> objects_gone m [img] then None else bucket w k)"
proof (cases "e_storageFails E (storageCalls w)")
  case True
  then show ?thesis
    by (intro exI [of _ Map.empty]) (auto simp: cleanup_one_def deleteObject_def storage_call_def
      try_catch_def andthen_def await_def objects_gone_def)
next
  case False
  obtain r where r: "find (\<lambda>i. pi_id i = pi_id img) (palmImages (db w)) = Some r"
    using assms by (fastforce simp: images_fit_def find_None_iff intro: option.exhaust [of "find (\<lambda>i. pi_id i = pi_id img) (palmImages (db w))"])
  have "pred_option int4 (pi_sizeBytes r)"
    using find_SomeD [OF r] assms by (auto simp: images_fit_def PalmImage_def)
  with False r show ?thesis
    by (intro exI [of _ "[pi_id img \<mapsto> e_clock E (ticks w)]"])
      (auto simp: cleanup_one_def deleteObject_def storage_call_def try_catch_def andthen_def await_def
        update_row_def PalmImage_def objects_gone_def mark_deleted_one)
qed

lemma cleanup_run:
  assumes "images_fit imgs (db w)" "distinct (map pi_id imgs)"
  shows "\<exists>m w'. for_each (cleanup_one E) imgs w = (Inr (), w') \<and> dom m \<subseteq> pi_id ` set imgs \<and>
    ((\<forall>k. \<not> e_storageFails E k) \<longrightarrow> dom m = pi_id ` set imgs) \<and>
    palmImages (db w') = map (mark_deleted m) (palmImages (db w)) \<and>
    bucket w' = (\<lambda>k. if k \<in> objects_gone m imgs then None else bucket w k)"
  using assms
proof (induction imgs arbitrary: w)
  case Nil
  then show ?case by (intro exI [of _ Map.empty]) (simp add: objects_gone_def)
next
  case (Cons img imgs)
  obtain m w1 where one: "cleanup_one E img w = (Inr (), w1)" "dom m \<subseteq> {pi_id img}"
    "(\<forall>k. \<not> e_storageFails E k) \<longrightarrow> dom m = {pi_id img}"
    and rows1: "palmImages (db w1) = map (mark_deleted m) (palmImages (db w))"
    and bucket1: "bucket w1 = (\<lambda>k. if k \<in> objects_gone m [img] then None else bucket w k)"
    using cleanup_one_run [of img w E] Cons.prems by (auto simp: images_fit_def)
  have "images_fit imgs (db w1)" "distinct (map pi_id imgs)" and new: "pi_id img \<notin> pi_id ` set imgs"
    using Cons.prems by (auto simp: images_fit_def rows1 PalmImage_def image_image)
  from Cons.IH [OF this(1,2)] obtain n w2 where rest: "for_each (cleanup_one E) imgs w1 = (Inr (), w2)"
    "dom n \<subseteq> pi_id ` set imgs" "(\<forall>k. \<not> e_storageFails E k) \<longrightarrow> dom n = pi_id ` set imgs"
    and rows2: "palmImages (db w2) = map (mark_deleted n) (palmImages (db w1))"
    and bucket2: "bucket w2 = (\<lambda>k. if k \<in> objects_gone n imgs then None else bucket w1 k)"
    by blast
  have "objects_gone (m ++ n) (img # imgs) = objects_gone m [img] \<union> objects_gone n imgs"
  proof -
    have "m (pi_id i) = None" if "i \<in> set imgs" for i
      using new that one(2) by (metis domIff imageI singletonD subsetD)
    moreover have "n (pi_id img) = None" using new rest(2) by blast
    ultimately show ?thesis by (auto simp: objects_gone_def map_add_def split: option.splits)
  qed
  then have "bucket w2 = (\<lambda>k. if k \<in> objects_gone (m ++ n) (img # imgs) then None else bucket w k)"
    by (auto simp: bucket1 bucket2)
  moreover have "palmImages (db w2) = map (mark_deleted (m ++ n)) (palmImages (db w))"
    by (simp add: rows1 rows2 mark_deleted_twice)
  ultimately show ?case
    using one rest by (intro exI [of _ "m ++ n"] exI [of _ w2]) (auto simp: andthen_def await_def)
qed

definition expired_images :: "int \<Rightarrow> database \<Rightarrow> palmImage list" where
  "expired_images now d = filter (\<lambda>i. (case pi_expiresAt i of None \<Rightarrow> False | Some t \<Rightarrow> t \<le> now) \<and>
     pi_deletedAt i = None) (palmImages d)"

text \<open>
  C26. A run of the clean-up job always ends normally. It looks at the first hundred images whose
  retention ended and marks some of them deleted: exactly those whose object is then gone from the
  bucket; all of them when the storage answers. Every other image and every other object is as it
  was, and no row is removed. An image without an end of retention is never among them.
\<close>

theorem cleanup_deletes_expired:
  assumes "unique_rows PalmImage (db w)" "\<forall>i \<in> set (palmImages (db w)). check PalmImage i"
    and "batch = take 100 (expired_images (e_clock E (ticks w)) (db w))"
  shows "\<exists>m w'. deleteExpiredImages E w = (Inr (), w') \<and> dom m \<subseteq> pi_id ` set batch \<and>
    ((\<forall>k. \<not> e_storageFails E k) \<longrightarrow> dom m = pi_id ` set batch) \<and>
    palmImages (db w') = map (mark_deleted m) (palmImages (db w)) \<and>
    bucket w' = (\<lambda>k. if k \<in> objects_gone m batch then None else bucket w k) \<and>
    (\<forall>i \<in> set batch. pi_expiresAt i \<noteq> None)"
proof -
  let ?w = "w\<lparr>ticks := Suc (ticks w)\<rparr>"
  have ids: "distinct (map pi_id (palmImages (db w)))"
    using unique_rows_distinct [OF assms(1), of pi_id] by (simp add: PalmImage_def)
  have sub: "set batch \<subseteq> set (palmImages (db w))" and exp: "\<forall>i \<in> set batch. pi_expiresAt i \<noteq> None"
    by (auto simp: assms(3) expired_images_def dest!: in_set_takeD split: option.splits)
  have "distinct (map pi_id batch)"
    using ids by (simp add: assms(3) expired_images_def distinct_map_filter take_map [symmetric])
  moreover have "images_fit batch (db ?w)"
    using sub assms(2) by (auto simp: images_fit_def)
  moreover have same: "bucket ?w = bucket w" "db ?w = db w" by simp_all
  ultimately obtain m w' where run: "for_each (cleanup_one E) batch ?w = (Inr (), w')"
    and rest: "dom m \<subseteq> pi_id ` set batch" "(\<forall>k. \<not> e_storageFails E k) \<longrightarrow> dom m = pi_id ` set batch"
      "palmImages (db w') = map (mark_deleted m) (palmImages (db w))"
      "bucket w' = (\<lambda>k. if k \<in> objects_gone m batch then None else bucket w k)"
    using cleanup_run [of batch ?w E] unfolding same by blast
  have "deleteExpiredImages E w = (Inr (), w')"
    using run by (simp add: deleteExpiredImages_def await_def expired_images_def assms(3) CLEANUP_BATCH_SIZE_def PalmImage_def)
  with rest exp show ?thesis by blast
qed

definition expired_example :: world where
  "expired_example = (let i = (\<lambda>k e. \<lparr>pi_id = k, pi_readingId = ''r'', pi_storageKey = k, pi_status = VALID,
       pi_mimeType = None, pi_sizeBytes = Some 9, pi_widthPx = None, pi_heightPx = None, pi_validationError = None,
       pi_consentAt = None, pi_expiresAt = e, pi_deletedAt = None, pi_createdAt = 0\<rparr>) in
     empty_world\<lparr>db := empty_database\<lparr>palmImages := [i ''a'' (Some 3), i ''b'' (Some 9), i ''c'' None]\<rparr>,
       bucket := (\<lambda>_. Some []), ticks := 5\<rparr>)"

lemma cleanup_deletes_expired_witness:
  "\<exists>(m :: string \<rightharpoonup> int) w'. deleteExpiredImages example_env expired_example = (Inr (), w') \<and> dom m = {''a''} \<and>
     bucket w' ''a'' = None \<and> bucket w' ''c'' = Some []"
proof -
  have clock: "e_clock example_env (ticks expired_example) = 5"
    and no_failure: "\<forall>k. \<not> e_storageFails example_env k"
    by (simp_all add: example_env_def expired_example_def)
  have "unique_rows PalmImage (db expired_example)" "\<forall>i \<in> set (palmImages (db expired_example)). check PalmImage i"
    by (simp_all add: expired_example_def unique_rows_def PalmImage_def int4_def)
  note cleanup_deletes_expired [OF this refl, of example_env, unfolded clock]
  then obtain m w' where all: "deleteExpiredImages example_env expired_example = (Inr (), w') \<and>
      dom m \<subseteq> pi_id ` set (take 100 (expired_images 5 (db expired_example))) \<and>
      ((\<forall>k. \<not> e_storageFails example_env k) \<longrightarrow>
        dom m = pi_id ` set (take 100 (expired_images 5 (db expired_example)))) \<and>
      palmImages (db w') = map (mark_deleted m) (palmImages (db expired_example)) \<and>
      bucket w' = (\<lambda>k. if k \<in> objects_gone m (take 100 (expired_images 5 (db expired_example)))
        then None else bucket expired_example k) \<and>
      (\<forall>i \<in> set (take 100 (expired_images 5 (db expired_example))). pi_expiresAt i \<noteq> None)"
    by (elim exE)
  then have run: "deleteExpiredImages example_env expired_example = (Inr (), w')"
    and m: "dom m = pi_id ` set (take 100 (expired_images 5 (db expired_example)))"
    and b: "bucket w' = (\<lambda>k. if k \<in> objects_gone m (take 100 (expired_images 5 (db expired_example)))
             then None else bucket expired_example k)"
    by (simp_all only: mp [OF all [THEN conjunct2, THEN conjunct2, THEN conjunct1] no_failure])
  have "map (\<lambda>i. (pi_id i, pi_storageKey i)) (expired_images 5 (db expired_example)) = [(''a'', ''a'')]"
    by (simp add: expired_images_def expired_example_def)
  then obtain i where i: "expired_images 5 (db expired_example) = [i]" "pi_id i = ''a''" "pi_storageKey i = ''a''"
    by (auto simp: map_eq_Cons_conv)
  have dom: "dom m = {''a''}" using m i by simp
  then have "m (pi_id i) \<noteq> None" using i by auto
  then have "objects_gone m [i] = {''a''}" using i by (simp add: objects_gone_def)
  with b i have a: "bucket w' ''a'' = None" and "bucket w' ''c'' = bucket expired_example ''c''" by simp_all
  then have c: "bucket w' ''c'' = Some []" by (simp add: expired_example_def)
  show ?thesis by (intro exI [of _ m] exI [of _ w'] conjI run dom a c)
qed

end
