(* ===== verification/SharingService.thy ===== *)
theory SharingService
  imports DailyCard ServicesService StorageService
begin

text \<open>
  Public links to finished readings (\<open>src/sharing\<close>). A link is addressed by its id; it can be seen
  while it is not revoked and its reading is completed. What is shown is built from the structure of
  the reading alone (\<open>getSanitizedReadingData\<close>): the cards, their positions and orientation.
\<close>

section \<open>Types and constants\<close>

datatype sharedReadingType = SHARED_TAROT | SHARED_PALM

record sharedCardSummary =
  sc_position :: string
  sc_positionLabel :: string
  sc_cardName :: string
  sc_arcana :: arcanaType
  sc_suit :: "minorSuit option"
  sc_orientation :: cardOrientation

record sanitizedReadingData =
  sd_readingType :: sharedReadingType
  sd_title :: string
  sd_cards :: "sharedCardSummary list option"

record sharedSummary = sanitizedReadingData +
  ss_disclaimer :: string
  ss_imageStatus :: shareImageStatus
  ss_imageUrl :: "string option"

record shareLinkCreated =
  slc_token :: string
  slc_url :: string
  slc_imageStatus :: shareImageStatus

datatype shareEvent = SHARE_CREATED | SHARE_VIEWED | SHARE_REVOKED | SHARE_SIGNUP

fun ANALYTICS_EVENT_TYPES :: "shareEvent \<Rightarrow> string" where
  "ANALYTICS_EVENT_TYPES SHARE_CREATED = ''SHARE_CREATED''"
| "ANALYTICS_EVENT_TYPES SHARE_VIEWED = ''SHARE_VIEWED''"
| "ANALYTICS_EVENT_TYPES SHARE_REVOKED = ''SHARE_REVOKED''"
| "ANALYTICS_EVENT_TYPES SHARE_SIGNUP = ''SHARE_SIGNUP''"

fun GENERIC_SHARE_TITLES :: "sharedReadingType \<Rightarrow> string" where
  "GENERIC_SHARE_TITLES SHARED_TAROT = ''Hice una lectura de tarot en TAROTRIA''"
| "GENERIC_SHARE_TITLES SHARED_PALM = ''Hice una lectura de manos en TAROTRIA''"

definition GENERATE_SHARE_IMAGE_JOB :: string where
  "GENERATE_SHARE_IMAGE_JOB = ''GENERATE_SHARE_IMAGE''"

definition generateShareImageJobId :: "string \<Rightarrow> string" where
  "generateShareImageJobId shareLinkId = GENERATE_SHARE_IMAGE_JOB @ ''-'' @ shareLinkId"

section \<open>Operations\<close>

definition toShareLinkCreated :: "env \<Rightarrow> shareLink \<Rightarrow> shareLinkCreated" where
  "toShareLinkCreated E l = \<lparr>slc_token = sl_id l, slc_url = e_appUrl E @ ''/r/'' @ sl_id l,
     slc_imageStatus = sl_imageStatus l\<rparr>"

definition sharing_logEvent ::
  "env \<Rightarrow> shareEvent \<Rightarrow> string option \<Rightarrow> string option \<Rightarrow> (world, unit) prog" where
  "sharing_logEvent E ty shareLinkId userId =
     await (random_uuid E) (\<lambda>i.
     andthen (create AnalyticsEvent \<lparr>ae_id = i, ae_type = ANALYTICS_EVENT_TYPES ty,
         ae_shareLinkId = shareLinkId, ae_userId = userId, ae_metadata = []\<rparr>)
       (ret ()))"

definition createShareLink :: "env \<Rightarrow> string \<Rightarrow> string \<Rightarrow> (world, shareLinkCreated) prog" where
  "createShareLink E userId readingId =
     await (find_first Reading (\<lambda>r. r_id r = readingId \<and> r_userId r = userId)) (\<lambda>found. case found of
       None \<Rightarrow> throw (NotFoundException ''reading'')
     | Some reading \<Rightarrow>
         if r_status reading \<noteq> COMPLETED then throw (BadRequestException ''share of unfinished reading'')
         else
           await (find_first ShareLink (\<lambda>l. sl_readingId l = readingId \<and> sl_revokedAt l = None)) (\<lambda>existing.
           case existing of
             Some l \<Rightarrow> ret (toShareLinkCreated E l)
           | None \<Rightarrow>
               await (random_uuid E) (\<lambda>i.
               await (create ShareLink \<lparr>sl_id = i, sl_readingId = readingId, sl_imageKey = None,
                   sl_imageStatus = IMG_PENDING, sl_revokedAt = None\<rparr>) (\<lambda>shareLink.
               andthen (queue_add \<lparr>j_queue = ''share-image'', j_name = GENERATE_SHARE_IMAGE_JOB,
                   j_data = sl_id shareLink, j_jobId = generateShareImageJobId (sl_id shareLink)\<rparr>)
               (andthen (sharing_logEvent E SHARE_CREATED (Some (sl_id shareLink)) None)
                 (ret (toShareLinkCreated E shareLink)))))))"

definition getActiveShareLinkSummary :: "env \<Rightarrow> string \<Rightarrow> (world, shareLinkCreated option) prog" where
  "getActiveShareLinkSummary E readingId =
     await (find_first ShareLink (\<lambda>l. sl_readingId l = readingId \<and> sl_revokedAt l = None)) (\<lambda>shareLink.
     ret (map_option (toShareLinkCreated E) shareLink))"

definition revokeShareLink :: "env \<Rightarrow> string \<Rightarrow> string \<Rightarrow> (world, unit) prog" where
  "revokeShareLink E userId readingId =
     await (find_first Reading (\<lambda>r. r_id r = readingId \<and> r_userId r = userId)) (\<lambda>reading. case reading of
       None \<Rightarrow> throw (NotFoundException ''reading'')
     | Some _ \<Rightarrow>
         await (find_first ShareLink (\<lambda>l. sl_readingId l = readingId \<and> sl_revokedAt l = None)) (\<lambda>active.
         case active of
           None \<Rightarrow> ret ()
         | Some l \<Rightarrow>
             await (date_now E) (\<lambda>now.
             andthen (update_row ShareLink (\<lambda>x. sl_id x = sl_id l) (\<lambda>x. x\<lparr>sl_revokedAt := Some now\<rparr>))
               (sharing_logEvent E SHARE_REVOKED (Some (sl_id l)) None))))"

definition findActiveShareLink :: "string \<Rightarrow> (world, shareLink) prog" where
  "findActiveShareLink token =
     await (find_first ShareLink (\<lambda>l. sl_id l = token \<and> sl_revokedAt l = None)) (\<lambda>found. case found of
       None \<Rightarrow> throw (NotFoundException ''share link'')
     | Some shareLink \<Rightarrow>
         await (find_first Reading (\<lambda>r. r_id r = sl_readingId shareLink)) (\<lambda>reading. case reading of
           None \<Rightarrow> throw (NotFoundException ''share link'')
         | Some r \<Rightarrow>
             if r_status r \<noteq> COMPLETED then throw (NotFoundException ''share link'') else ret shareLink))"

text \<open>\<open>positions.get(code)\<close> of the map built from the positions of the spread: the last one counts.\<close>

definition position_of :: "spreadPosition list \<Rightarrow> string \<Rightarrow> spreadPosition option" where
  "position_of positions code = find (\<lambda>p. sp_code p = code) (rev positions)"

definition shared_card ::
  "spreadPosition list \<Rightarrow> tarotDrawRow \<Rightarrow> tarotCard \<Rightarrow> sharedCardSummary" where
  "shared_card positions d c = \<lparr>sc_position = dr_position d,
     sc_positionLabel = (case position_of positions (dr_position d) of
        None \<Rightarrow> dr_position d | Some p \<Rightarrow> sp_label p),
     sc_cardName = tc_name c, sc_arcana = tc_arcana c, sc_suit = tc_suit c,
     sc_orientation = dr_orientation d\<rparr>"

definition draw_order :: "spreadPosition list \<Rightarrow> tarotDrawRow \<Rightarrow> int" where
  "draw_order positions d = (case position_of positions (dr_position d) of
     None \<Rightarrow> 0 | Some p \<Rightarrow> sp_orderIndex p)"

definition getSanitizedReadingData :: "string \<Rightarrow> (world, sanitizedReadingData) prog" where
  "getSanitizedReadingData readingId =
     await (find_or_throw Reading (\<lambda>r. r_id r = readingId)) (\<lambda>reading.
     await (find_or_throw Service (\<lambda>s. s_id s = r_serviceId reading)) (\<lambda>service.
     if isPalmService (s_code service) then
       ret \<lparr>sd_readingType = SHARED_PALM, sd_title = GENERIC_SHARE_TITLES SHARED_PALM, sd_cards = None\<rparr>
     else
       await (find_many SpreadPosition (\<lambda>p. r_spreadId reading = Some (sp_spreadId p))) (\<lambda>positions.
       await (find_many TarotDraw (\<lambda>d. dr_readingId d = readingId)) (\<lambda>draws.
       await (map_each (\<lambda>d. await (find_or_throw TarotCard (\<lambda>c. tc_id c = dr_cardId d)) (\<lambda>c.
                ret (shared_card positions d c))) (sort_key (draw_order positions) draws)) (\<lambda>cards.
       ret \<lparr>sd_readingType = SHARED_TAROT, sd_title = GENERIC_SHARE_TITLES SHARED_TAROT,
            sd_cards = Some cards\<rparr>)))))"

definition getPublicSummary :: "env \<Rightarrow> string \<Rightarrow> (world, sharedSummary) prog" where
  "getPublicSummary E token =
     await (findActiveShareLink token) (\<lambda>shareLink.
     await (getSanitizedReadingData (sl_readingId shareLink)) (\<lambda>data.
     andthen (sharing_logEvent E SHARE_VIEWED (Some (sl_id shareLink)) None)
       (ret \<lparr>sd_readingType = sd_readingType data, sd_title = sd_title data, sd_cards = sd_cards data,
          ss_disclaimer = DAILY_CARD_DISCLAIMER, ss_imageStatus = sl_imageStatus shareLink,
          ss_imageUrl = (if sl_imageStatus shareLink = IMG_READY
            then Some (e_apiUrl E @ ''/shared/'' @ token @ ''/image'') else None)\<rparr>)))"

definition getShareImageBytes :: "env \<Rightarrow> string \<Rightarrow> (world, (nat list \<times> string) option) prog" where
  "getShareImageBytes E token =
     await (try_catch (await (findActiveShareLink token) (\<lambda>l. ret (Some l))) (\<lambda>_. ret None)) (\<lambda>found.
     case found of
       None \<Rightarrow> ret None
     | Some shareLink \<Rightarrow> (case sl_imageKey shareLink of
           None \<Rightarrow> ret None
         | Some imageKey \<Rightarrow>
             if sl_imageStatus shareLink \<noteq> IMG_READY \<or> imageKey = [] then ret None
             else await (downloadObject E imageKey) (\<lambda>buffer. ret (Some (buffer, ''image/png'')))))"

definition markImageReady :: "string \<Rightarrow> string \<Rightarrow> (world, unit) prog" where
  "markImageReady shareLinkId imageKey =
     andthen (update_row ShareLink (\<lambda>l. sl_id l = shareLinkId)
         (\<lambda>l. l\<lparr>sl_imageKey := Some imageKey, sl_imageStatus := IMG_READY\<rparr>))
       (ret ())"

definition markImageFailed :: "string \<Rightarrow> (world, unit) prog" where
  "markImageFailed shareLinkId =
     andthen (update_many ShareLink (\<lambda>l. sl_id l = shareLinkId \<and> sl_imageStatus l \<noteq> IMG_READY)
         (\<lambda>l. l\<lparr>sl_imageStatus := IMG_FAILED\<rparr>))
       (ret ())"

definition logSignupConversion :: "env \<Rightarrow> string \<Rightarrow> string option \<Rightarrow> (world, unit) prog" where
  "logSignupConversion E userId referralToken = (case referralToken of
       None \<Rightarrow> ret ()
     | Some token \<Rightarrow>
         if token = [] then ret ()
         else await (find_first ShareLink (\<lambda>l. sl_id l = token)) (\<lambda>shareLink. case shareLink of
           None \<Rightarrow> ret ()
         | Some l \<Rightarrow> sharing_logEvent E SHARE_SIGNUP (Some (sl_id l)) (Some userId)))"

section \<open>What a visitor can see\<close>

definition visible_link :: "string \<Rightarrow> database \<Rightarrow> shareLink option" where
  "visible_link token d = (case find (\<lambda>l. sl_id l = token \<and> sl_revokedAt l = None) (shareLinks d) of
       None \<Rightarrow> None
     | Some l \<Rightarrow> (case find (\<lambda>r. r_id r = sl_readingId l) (readings d) of
           None \<Rightarrow> None
         | Some r \<Rightarrow> if r_status r = COMPLETED then Some l else None))"

lemma findActiveShareLink_run:
  "findActiveShareLink token w = ((case visible_link token (db w) of
      None \<Rightarrow> Inl (NotFoundException ''share link'') | Some l \<Rightarrow> Inr l), w)"
  by (simp add: findActiveShareLink_def visible_link_def await_def ShareLink_def Reading_def split: option.split)

lemma hidden_link:
  assumes "visible_link token (db w) = None"
  shows "getPublicSummary E token w = (Inl (NotFoundException ''share link''), w)"
    "getShareImageBytes E token w = (Inr None, w)"
  using assms by (simp_all add: getPublicSummary_def getShareImageBytes_def findActiveShareLink_run await_def try_catch_def)

text \<open>The links of a reading: at most one is active.\<close>

definition one_active :: "database \<Rightarrow> bool" where
  "one_active d = (\<forall>r. length (filter (\<lambda>l. sl_readingId l = r \<and> sl_revokedAt l = None) (shareLinks d)) \<le> 1)"

definition share_inv :: "database \<Rightarrow> bool" where
  "share_inv d = (unique_rows ShareLink d \<and> one_active d)"

text \<open>The link \<open>k\<close> was revoked.\<close>

definition revoked :: "string \<Rightarrow> database \<Rightarrow> bool" where
  "revoked k d = (unique_rows ShareLink d \<and> (\<exists>l \<in> set (shareLinks d). sl_id l = k \<and> sl_revokedAt l \<noteq> None))"

lemma link_unique:
  assumes "unique_rows ShareLink d" "l \<in> set (shareLinks d)" "l' \<in> set (shareLinks d)" "sl_id l = sl_id l'"
  shows "l = l'"
  using shareLinks_tbl.unique_rows_clash_eq [OF assms(1), of l l'] assms(2-) by (simp add: ShareLink_def)

lemma revoked_invisible:
  assumes "revoked k d"
  shows "visible_link k d = None"
proof -
  from assms obtain l where l: "l \<in> set (shareLinks d)" "sl_id l = k" "sl_revokedAt l \<noteq> None" and u: "unique_rows ShareLink d"
    by (auto simp: revoked_def)
  have "find (\<lambda>l. sl_id l = k \<and> sl_revokedAt l = None) (shareLinks d) = None"
    unfolding find_None_iff
  proof (rule notI, elim exE conjE)
    fix x assume "x \<in> set (shareLinks d)" "sl_id x = k" "sl_revokedAt x = None"
    with link_unique [OF u l(1), of x] l show False by simp
  qed
  then show ?thesis by (simp add: visible_link_def)
qed

text \<open>Updates of a link that leave its id, reading and revocation alone.\<close>

definition image_update :: "(shareLink \<Rightarrow> shareLink) \<Rightarrow> bool" where
  "image_update f = (\<forall>l. sl_id (f l) = sl_id l \<and> sl_readingId (f l) = sl_readingId l \<and> sl_revokedAt (f l) = sl_revokedAt l)"

lemma image_update_links:
  assumes "image_update f"
  shows "share_inv (d\<lparr>shareLinks := map (\<lambda>l. if P l then f l else l) ls\<rparr>) = share_inv (d\<lparr>shareLinks := ls\<rparr>)"
    "revoked k (d\<lparr>shareLinks := map (\<lambda>l. if P l then f l else l) ls\<rparr>) = revoked k (d\<lparr>shareLinks := ls\<rparr>)"
proof -
  have sel: "sl_id (if P l then f l else l) = sl_id l" "sl_readingId (if P l then f l else l) = sl_readingId l"
    "sl_revokedAt (if P l then f l else l) = sl_revokedAt l" for l
    using assms by (simp_all add: image_update_def)
  have "length (filter (\<lambda>l. sl_readingId l = r \<and> sl_revokedAt l = None) (map (\<lambda>l. if P l then f l else l) ls)) =
      length (filter (\<lambda>l. sl_readingId l = r \<and> sl_revokedAt l = None) ls)" for r
    using sel by (simp add: filter_map comp_def)
  moreover have "unique_rows ShareLink (d\<lparr>shareLinks := map (\<lambda>l. if P l then f l else l) ls\<rparr>) =
      unique_rows ShareLink (d\<lparr>shareLinks := ls\<rparr>)"
    using sel by (simp add: unique_rows_def ShareLink_def sorted_wrt_map)
  moreover have "(\<exists>l \<in> set (map (\<lambda>l. if P l then f l else l) ls). sl_id l = k \<and> sl_revokedAt l \<noteq> None) \<longleftrightarrow>
      (\<exists>l \<in> set ls. sl_id l = k \<and> sl_revokedAt l \<noteq> None)"
    using assms unfolding bex_map_update by (simp add: image_update_def)
  ultimately show "share_inv (d\<lparr>shareLinks := map (\<lambda>l. if P l then f l else l) ls\<rparr>) = share_inv (d\<lparr>shareLinks := ls\<rparr>)"
    "revoked k (d\<lparr>shareLinks := map (\<lambda>l. if P l then f l else l) ls\<rparr>) = revoked k (d\<lparr>shareLinks := ls\<rparr>)"
    by (simp_all add: share_inv_def one_active_def revoked_def del: set_map)
qed

lemma share_ignores:
  "ignores share_inv AnalyticsEvent" "ignores (revoked k) AnalyticsEvent"
  by (simp_all add: ignores_def share_inv_def one_active_def revoked_def unique_rows_def table_defs)

lemma keeps_image_update:
  assumes "image_update f"
  shows "keeps share_inv (update_row ShareLink P f)" "keeps (revoked k) (update_row ShareLink P f)"
    "keeps share_inv (update_many ShareLink P f)" "keeps (revoked k) (update_many ShareLink P f)"
  using image_update_links [OF assms, where P = P]
  by (simp_all add: keeps_def update_row_def update_many_def ShareLink_def split: option.split)

lemma image_updates:
  "image_update (\<lambda>l. l\<lparr>sl_imageKey := k, sl_imageStatus := s\<rparr>)" "image_update (\<lambda>l. l\<lparr>sl_imageStatus := s\<rparr>)"
  by (simp_all add: image_update_def)

lemma keeps_log: "keeps share_inv (sharing_logEvent E ty l u)" "keeps (revoked k) (sharing_logEvent E ty l u)"
  unfolding sharing_logEvent_def by (intro keeps_intro share_ignores)+

lemmas share_intro = keeps_intro keeps_log keeps_image_update image_updates share_ignores

section \<open>Creating and revoking\<close>

lemma new_link_inv:
  assumes "share_inv d" "\<not> list_ex (clash ShareLink l) (shareLinks d)"
    and "\<forall>x \<in> set (shareLinks d). sl_readingId x = sl_readingId l \<longrightarrow> sl_revokedAt x \<noteq> None"
  shows "share_inv (d\<lparr>shareLinks := shareLinks d @ [l]\<rparr>)"
proof -
  have "filter (\<lambda>x. sl_readingId x = sl_readingId l \<and> sl_revokedAt x = None) (shareLinks d) = []"
    using assms(3) by (auto simp: filter_empty_conv)
  then have "length (filter (\<lambda>x. sl_readingId x = r \<and> sl_revokedAt x = None) (shareLinks d @ [l])) \<le> 1" for r
    using assms(1) by (cases "sl_readingId l = r") (auto simp: share_inv_def one_active_def)
  moreover have "unique_rows ShareLink (d\<lparr>shareLinks := shareLinks d @ [l]\<rparr>)"
    using assms(1,2) by (auto simp: share_inv_def unique_rows_def ShareLink_def sorted_wrt_append list_ex_iff)
  ultimately show ?thesis by (simp add: share_inv_def one_active_def)
qed

lemma create_keeps_share [keeps_intro]: "keeps share_inv (createShareLink E u rid)"
proof (rule keepsI)
  fix w r w' assume inv: "share_inv (db w)" and run: "createShareLink E u rid w = (r, w')"
  let ?l = "\<lparr>sl_id = e_uuid E (uuids w), sl_readingId = rid, sl_imageKey = None, sl_imageStatus = IMG_PENDING, sl_revokedAt = None\<rparr>"
  let ?ls = "shareLinks (db w)"
  let ?rest = "andthen (queue_add \<lparr>j_queue = ''share-image'', j_name = GENERATE_SHARE_IMAGE_JOB,
                   j_data = sl_id ?l, j_jobId = generateShareImageJobId (sl_id ?l)\<rparr>)
               (andthen (sharing_logEvent E SHARE_CREATED (Some (sl_id ?l)) None) (ret (toShareLinkCreated E ?l)))"
  have rest: "keeps share_inv ?rest" by (intro share_intro)
  show "share_inv (db w')"
  proof (cases "find (\<lambda>l. sl_readingId l = rid \<and> sl_revokedAt l = None) ?ls")
    case None
    then have old: "\<forall>x \<in> set ?ls. sl_readingId x = sl_readingId ?l \<longrightarrow> sl_revokedAt x \<noteq> None"
      by (auto simp: find_None_iff)
    show ?thesis
    proof (cases "list_ex (clash ShareLink ?l) ?ls")
      case True
      with run None inv show ?thesis
        by (auto simp: createShareLink_def await_def create_def ShareLink_def split: option.splits if_splits)
    next
      case False
      let ?w1 = "w\<lparr>uuids := Suc (uuids w), db := (db w)\<lparr>shareLinks := ?ls @ [?l]\<rparr>\<rparr>"
      have "w' = w \<or> ?rest ?w1 = (r, w')"
        using run None False
        by (auto simp: createShareLink_def await_def create_def ShareLink_def split: option.splits if_splits)
      moreover have "share_inv (db ?w1)" using new_link_inv [OF inv False old] by simp
      ultimately show ?thesis using inv keepsD_run [OF rest] by blast
    qed
  next
    case (Some l)
    with run inv show ?thesis
      by (auto simp: createShareLink_def await_def ShareLink_def split: option.splits if_splits)
  qed
qed

lemma revoke_links:
  assumes inv: "share_inv d" and l: "l \<in> set (shareLinks d)" "sl_revokedAt l = None"
  shows "share_inv (d\<lparr>shareLinks := map (\<lambda>x. if sl_id x = sl_id l then x\<lparr>sl_revokedAt := Some t\<rparr> else x) (shareLinks d)\<rparr>)"
    "revoked k d \<or> k = sl_id l \<Longrightarrow>
     revoked k (d\<lparr>shareLinks := map (\<lambda>x. if sl_id x = sl_id l then x\<lparr>sl_revokedAt := Some t\<rparr> else x) (shareLinks d)\<rparr>)"
proof -
  let ?f = "\<lambda>x. if sl_id x = sl_id l then x\<lparr>sl_revokedAt := Some t\<rparr> else x"
  have u: "unique_rows ShareLink (d\<lparr>shareLinks := map ?f (shareLinks d)\<rparr>)"
  proof -
    have id: "sl_id (?f x) = sl_id x" for x by simp
    show ?thesis using inv
      by (simp add: share_inv_def unique_rows_def ShareLink_def sorted_wrt_map id split del: if_split)
  qed
  have "length (filter (\<lambda>x. sl_readingId x = r \<and> sl_revokedAt x = None) (map ?f ls)) \<le>
      length (filter (\<lambda>x. sl_readingId x = r \<and> sl_revokedAt x = None) ls)" for r and ls
    by (induction ls) auto
  then show "share_inv (d\<lparr>shareLinks := map ?f (shareLinks d)\<rparr>)"
    using inv u by (auto simp: share_inv_def one_active_def intro: order_trans)
  assume "revoked k d \<or> k = sl_id l"
  then have "\<exists>x \<in> set (map ?f (shareLinks d)). sl_id x = k \<and> sl_revokedAt x \<noteq> None"
    using l unfolding bex_map_update revoked_def by fastforce
  then show "revoked k (d\<lparr>shareLinks := map ?f (shareLinks d)\<rparr>)"
    using u by (simp add: revoked_def del: set_map)
qed

text \<open>Revoking, seen from the link it revokes.\<close>

lemma revoke_run:
  assumes inv: "share_inv (db w)" and run: "revokeShareLink E u rid w = (r, w')"
  shows "share_inv (db w')" "revoked k (db w) \<Longrightarrow> revoked k (db w')"
    "r = Inr () \<Longrightarrow> l \<in> set (shareLinks (db w)) \<Longrightarrow> sl_readingId l = rid \<Longrightarrow> revoked (sl_id l) (db w')"
proof -
  let ?A = "\<lambda>l. sl_readingId l = rid \<and> sl_revokedAt l = None"
  have uni: "unique_rows ShareLink (db w)" using inv by (simp add: share_inv_def)
  consider (none) "w' = w" "find ?A (shareLinks (db w)) = None \<or> r \<noteq> Inr ()"
    | (some) x where "find ?A (shareLinks (db w)) = Some x"
        "sharing_logEvent E SHARE_REVOKED (Some (sl_id x)) None
           (w\<lparr>ticks := Suc (ticks w), db := (db w)\<lparr>shareLinks := map (\<lambda>y. if sl_id y = sl_id x
              then y\<lparr>sl_revokedAt := Some (e_clock E (ticks w))\<rparr> else y) (shareLinks (db w))\<rparr>\<rparr>) = (r, w')"
  proof (cases "find (\<lambda>r. r_id r = rid \<and> r_userId r = u) (readings (db w))")
    case None
    with run that(1) show ?thesis by (auto simp: revokeShareLink_def await_def Reading_def)
  next
    case reading: (Some y)
    show ?thesis
    proof (cases "find ?A (shareLinks (db w))")
      case None
      with run reading that(1) show ?thesis
        by (auto simp: revokeShareLink_def await_def Reading_def ShareLink_def)
    next
      case (Some x)
      then have "find (\<lambda>y. sl_id y = sl_id x) (shareLinks (db w)) = Some x"
        using link_unique [OF uni] by (intro find_SomeI_unique) (auto dest: find_SomeD)
      with run reading Some that(2) show ?thesis
        by (simp add: revokeShareLink_def await_def andthen_def Reading_def ShareLink_def update_row_def)
    qed
  qed
  then have "share_inv (db w') \<and> (revoked k (db w) \<longrightarrow> revoked k (db w')) \<and>
    (r = Inr () \<and> l \<in> set (shareLinks (db w)) \<and> sl_readingId l = rid \<longrightarrow> revoked (sl_id l) (db w'))"
  proof cases
    case none
    then have "revoked (sl_id l) (db w)" if "r = Inr ()" "l \<in> set (shareLinks (db w))" "sl_readingId l = rid"
      using that uni by (auto simp: find_None_iff revoked_def)
    with none inv show ?thesis by auto
  next
    case some
    note x = find_SomeD [OF some(1)]
    let ?d = "(db w)\<lparr>shareLinks := map (\<lambda>y. if sl_id y = sl_id x
              then y\<lparr>sl_revokedAt := Some (e_clock E (ticks w))\<rparr> else y) (shareLinks (db w))\<rparr>"
    note links = revoke_links [OF inv, of x, where t = "e_clock E (ticks w)"]
    have only: "revoked (sl_id l) (db w) \<or> sl_id l = sl_id x" if "l \<in> set (shareLinks (db w))" "sl_readingId l = rid"
    proof (cases "sl_revokedAt l")
      case None
      have "length (filter ?A (shareLinks (db w))) \<le> 1" using inv by (simp add: share_inv_def one_active_def)
      moreover have "l \<in> set (filter ?A (shareLinks (db w)))" "x \<in> set (filter ?A (shareLinks (db w)))"
        using that None x by auto
      ultimately have "l = x" by (cases "filter ?A (shareLinks (db w))") auto
      then show ?thesis by simp
    qed (use that uni in \<open>auto simp: revoked_def\<close>)
    have "share_inv ?d" "revoked k (db w) \<Longrightarrow> revoked k ?d"
      "l \<in> set (shareLinks (db w)) \<Longrightarrow> sl_readingId l = rid \<Longrightarrow> revoked (sl_id l) ?d"
      using links x only by auto
    with keepsD_run [OF keeps_log(1) _ some(2)] keepsD_run [OF keeps_log(2) _ some(2)]
    show ?thesis by simp
  qed
  then show "share_inv (db w')" "revoked k (db w) \<Longrightarrow> revoked k (db w')"
    "r = Inr () \<Longrightarrow> l \<in> set (shareLinks (db w)) \<Longrightarrow> sl_readingId l = rid \<Longrightarrow> revoked (sl_id l) (db w')"
    by auto
qed

section \<open>Any sequence of requests\<close>

datatype share_request =
    Share string string | Unshare string string | Visit string | Fetch_image string
  | Image_ready string string | Image_failed string | Signup string "string option"

fun serve_share :: "env \<Rightarrow> share_request \<Rightarrow> (world, unit) prog" where
  "serve_share E (Share u r) = andthen (createShareLink E u r) (ret ())"
| "serve_share E (Unshare u r) = revokeShareLink E u r"
| "serve_share E (Visit t) = andthen (getPublicSummary E t) (ret ())"
| "serve_share E (Fetch_image t) = andthen (getShareImageBytes E t) (ret ())"
| "serve_share E (Image_ready l k) = markImageReady l k"
| "serve_share E (Image_failed l) = markImageFailed l"
| "serve_share E (Signup u t) = logSignupConversion E u t"

fun serve_shares :: "env \<Rightarrow> share_request list \<Rightarrow> world \<Rightarrow> world" where
  "serve_shares E [] w = w"
| "serve_shares E (q # qs) w = serve_shares E qs (snd (serve_share E q w))"

lemma keeps_reads:
  "keeps I (findActiveShareLink t)" "keeps I (getSanitizedReadingData rid)" "keeps I (getShareImageBytes E t)"
proof -
  show find: "keeps I (findActiveShareLink t)" for t
    by (simp add: keeps_def findActiveShareLink_run)
  show "keeps I (getSanitizedReadingData rid)"
    unfolding getSanitizedReadingData_def by (intro keeps_intro)
  have "keeps I (downloadObject E k)" for k
    unfolding downloadObject_def storage_call_def by (intro keeps_intro keeps_modify) simp_all
  then show "keeps I (getShareImageBytes E t)"
    unfolding getShareImageBytes_def by (intro keeps_intro find)
qed

lemma createShareLink_keeps_revoked: "keeps (revoked k) (createShareLink E u rid)"
proof -
  have new: "keeps (revoked k) (create ShareLink l)" for l
    by (auto simp: keeps_def create_def ShareLink_def revoked_def unique_rows_def sorted_wrt_append list_ex_iff)
  show ?thesis unfolding createShareLink_def by (rule new | rule share_intro)+
qed

lemma serve_share_keeps:
  assumes "share_inv (db w)"
  shows "share_inv (db (snd (serve_share E q w))) \<and> (revoked k (db w) \<longrightarrow> revoked k (db (snd (serve_share E q w))))"
proof (cases q)
  case (Unshare u rid)
  then show ?thesis
    using revoke_run(1,2) [OF assms, of E u rid] by (cases "revokeShareLink E u rid w") auto
next
  case (Share u rid)
  have "keeps share_inv (serve_share E q)" "keeps (revoked k) (serve_share E q)"
    unfolding Share serve_share.simps by (intro share_intro createShareLink_keeps_revoked create_keeps_share)+
  then show ?thesis using assms by (blast dest: keepsD)
next
  case (Image_ready i key)
  have "keeps share_inv (serve_share E q)" "keeps (revoked k) (serve_share E q)"
    unfolding Image_ready serve_share.simps markImageReady_def by (intro share_intro)+
  then show ?thesis using assms by (blast dest: keepsD)
next
  case (Image_failed i)
  have "keeps share_inv (serve_share E q)" "keeps (revoked k) (serve_share E q)"
    unfolding Image_failed serve_share.simps markImageFailed_def by (intro share_intro)+
  then show ?thesis using assms by (blast dest: keepsD)
next
  case (Visit t)
  have "keeps share_inv (serve_share E q)" "keeps (revoked k) (serve_share E q)"
    unfolding Visit serve_share.simps getPublicSummary_def by (intro share_intro keeps_reads)+
  then show ?thesis using assms by (blast dest: keepsD)
next
  case (Fetch_image t)
  have "keeps share_inv (serve_share E q)" "keeps (revoked k) (serve_share E q)"
    unfolding Fetch_image serve_share.simps by (intro share_intro keeps_reads)+
  then show ?thesis using assms by (blast dest: keepsD)
next
  case (Signup u t)
  have "keeps share_inv (serve_share E q)" "keeps (revoked k) (serve_share E q)"
    unfolding Signup serve_share.simps logSignupConversion_def by (intro share_intro)+
  then show ?thesis using assms by (blast dest: keepsD)
qed

lemma serve_shares_keeps:
  "share_inv (db w) \<Longrightarrow> revoked k (db w) \<Longrightarrow> revoked k (db (serve_shares E qs w))"
  by (induction qs arbitrary: w) (simp, metis serve_shares.simps(2) serve_share_keeps)

text \<open>
  C27. After the owner has revoked the link of a reading, every link the reading had up to then stays
  dead: whatever requests follow (a new link, visits, the image job, sign-ups, further revocations), a
  visitor of the old link gets the same answer as for a link that never existed, and no image.
\<close>

theorem revoked_link_stays_dead:
  assumes "share_inv (db w)" and "revokeShareLink E u rid w = (Inr (), w')"
    and "l \<in> set (shareLinks (db w))" "sl_readingId l = rid" and "v = serve_shares E qs w'"
  shows "getPublicSummary E (sl_id l) v = (Inl (NotFoundException ''share link''), v) \<and>
    getShareImageBytes E (sl_id l) v = (Inr None, v)"
proof -
  have "revoked (sl_id l) (db w')" "share_inv (db w')"
    using revoke_run [OF assms(1,2)] assms(3,4) by auto
  then have "revoked (sl_id l) (db v)" using serve_shares_keeps assms(5) by blast
  from revoked_invisible [OF this] show ?thesis by (simp add: hidden_link)
qed

definition share_example :: world where
  "share_example = empty_world\<lparr>db := empty_database\<lparr>
     readings := [\<lparr>r_id = ''r'', r_userId = ''u'', r_serviceId = ''s'', r_spreadId = None,
       r_promptVersionId = None, r_status = COMPLETED, r_submittedAt = None, r_createdAt = 0\<rparr>],
     shareLinks := [\<lparr>sl_id = ''l'', sl_readingId = ''r'', sl_imageKey = None, sl_imageStatus = IMG_PENDING,
       sl_revokedAt = None\<rparr>]\<rparr>\<rparr>"

lemma revoked_link_stays_dead_witness:
  "let v = serve_shares example_env [Share ''u'' ''r'', Visit ''l''] (snd (revokeShareLink example_env ''u'' ''r'' share_example)) in
   visible_link ''l'' (db share_example) \<noteq> None \<and> v \<noteq> share_example \<and>
   getPublicSummary example_env ''l'' v = (Inl (NotFoundException ''share link''), v)"
proof -
  have inv: "share_inv (db share_example)"
    by (simp add: share_inv_def one_active_def unique_rows_def ShareLink_def share_example_def)
  have run: "fst (revokeShareLink example_env ''u'' ''r'' share_example) = Inr ()" by code_simp
  then have run': "revokeShareLink example_env ''u'' ''r'' share_example =
      (Inr (), snd (revokeShareLink example_env ''u'' ''r'' share_example))"
    by (metis prod.collapse)
  have l: "hd (shareLinks (db share_example)) \<in> set (shareLinks (db share_example))"
    "sl_readingId (hd (shareLinks (db share_example))) = ''r''" "sl_id (hd (shareLinks (db share_example))) = ''l''"
    by (simp_all add: share_example_def)
  have "length (shareLinks (db (serve_shares example_env [Share ''u'' ''r'', Visit ''l'']
     (snd (revokeShareLink example_env ''u'' ''r'' share_example))))) = 2" by code_simp
  moreover have "length (shareLinks (db share_example)) = 1" by (simp add: share_example_def)
  moreover have "visible_link ''l'' (db share_example) \<noteq> None" by (simp add: visible_link_def share_example_def)
  moreover note revoked_link_stays_dead [OF inv run' l(1,2) refl, of "[Share ''u'' ''r'', Visit ''l'']"]
  ultimately show ?thesis using l(3) by (auto simp: Let_def)
qed

section \<open>What is shown\<close>

text \<open>The private side of a reading: what the user wrote and uploaded, and what was interpreted from it.\<close>

definition with_private ::
  "readingInput list \<Rightarrow> aiExecution list \<Rightarrow> palmImage list \<Rightarrow> user list \<Rightarrow> world \<Rightarrow> world" where
  "with_private ins ais imgs us w = w\<lparr>db := (db w)\<lparr>readingInputs := ins, aiExecutions := ais,
     palmImages := imgs, users := us\<rparr>\<rparr>"

text \<open>A program that changes nothing and does not look at the private side.\<close>

definition reads_public :: "(world, 'a) prog \<Rightarrow> bool" where
  "reads_public m = (\<forall>w. snd (m w) = w \<and>
     (\<forall>a b c d. m (with_private a b c d w) = (fst (m w), with_private a b c d w)))"

definition public_table :: "'r table \<Rightarrow> bool" where
  "public_table T = (\<forall>w a b c d. rows T (db (with_private a b c d w)) = rows T (db w))"

lemma public_tables:
  "public_table Reading" "public_table Service" "public_table ShareLink" "public_table SpreadPosition"
  "public_table TarotDraw" "public_table TarotCard"
  by (simp_all add: public_table_def with_private_def table_defs)

lemma reads_public_prim:
  "reads_public (ret x)" "reads_public (throw e)"
  "public_table T \<Longrightarrow> reads_public (find_first T P)" "public_table T \<Longrightarrow> reads_public (find_many T P)"
  by (simp_all add: reads_public_def public_table_def)

lemma reads_public_await:
  assumes "reads_public m" "\<And>x. reads_public (k x)"
  shows "reads_public (await m k)"
  unfolding reads_public_def
proof (intro allI)
  fix w
  obtain x where m: "m w = (x, w)" using assms(1) by (metis reads_public_def prod.collapse)
  then have "m (with_private a b c d w) = (x, with_private a b c d w)" for a b c d
    using assms(1) by (simp add: reads_public_def)
  with m assms(2) show "snd (await m k w) = w \<and>
      (\<forall>a b c d. await m k (with_private a b c d w) = (fst (await m k w), with_private a b c d w))"
    by (cases x) (simp_all add: await_def reads_public_def)
qed

lemma reads_public_case_option:
  "(x = None \<Longrightarrow> reads_public m) \<Longrightarrow> (\<And>y. x = Some y \<Longrightarrow> reads_public (k y)) \<Longrightarrow>
   reads_public (case x of None \<Rightarrow> m | Some y \<Rightarrow> k y)"
  by (cases x) auto

lemma reads_public_if: "(c \<Longrightarrow> reads_public m) \<Longrightarrow> (\<not> c \<Longrightarrow> reads_public n) \<Longrightarrow> reads_public (if c then m else n)"
  by simp

lemma reads_public_find_or_throw: "public_table T \<Longrightarrow> reads_public (find_or_throw T P)"
  unfolding find_or_throw_def by (intro reads_public_await reads_public_prim reads_public_case_option)

lemma reads_public_map_each:
  "(\<And>x. reads_public (body x)) \<Longrightarrow> reads_public (map_each body xs)"
  by (induction xs) (auto intro!: reads_public_await reads_public_prim)

lemmas reads_public_intro = reads_public_await reads_public_prim reads_public_case_option reads_public_if
  reads_public_find_or_throw reads_public_map_each public_tables

lemma sanitized_public: "reads_public (getSanitizedReadingData rid)" "reads_public (findActiveShareLink token)"
  unfolding getSanitizedReadingData_def findActiveShareLink_def by (intro reads_public_intro)+

text \<open>
  C28. What a visitor of a link gets does not depend on anything private: neither on the answers and
  images the user gave, nor on the interpretation the AI wrote, nor on the user's account. Two
  databases that differ only there give every visitor the same answer. (A palm reading shows no cards
  at all.)
\<close>

theorem public_summary_private:
  "fst (getPublicSummary E token (with_private ins ais imgs us w)) = fst (getPublicSummary E token w) \<and>
   (\<forall>s. fst (getPublicSummary E token w) = Inr s \<and> sd_readingType s = SHARED_PALM \<longrightarrow> sd_cards s = None)"
proof
  let ?P = "with_private ins ais imgs us"
  have log: "fst (sharing_logEvent E SHARE_VIEWED l u (?P w)) = fst (sharing_logEvent E SHARE_VIEWED l u w)" for l u
    by (simp add: sharing_logEvent_def await_def andthen_def create_def AnalyticsEvent_def with_private_def)
  show "fst (getPublicSummary E token (?P w)) = fst (getPublicSummary E token w)"
  proof (cases "visible_link token (db w)")
    case None
    then have "findActiveShareLink token (?P w) = (Inl (NotFoundException ''share link''), ?P w)"
      using sanitized_public(2) by (simp add: reads_public_def findActiveShareLink_run)
    with None show ?thesis by (simp add: getPublicSummary_def await_def findActiveShareLink_run)
  next
    case (Some l)
    then have f: "findActiveShareLink token (?P w) = (Inr l, ?P w)" "findActiveShareLink token w = (Inr l, w)"
      using sanitized_public(2) [of token] by (simp_all add: reads_public_def findActiveShareLink_run)
    obtain d where "getSanitizedReadingData (sl_readingId l) w = (d, w)"
      "getSanitizedReadingData (sl_readingId l) (?P w) = (d, ?P w)"
      using sanitized_public(1) by (metis reads_public_def prod.collapse)
    with f log [of "Some (sl_id l)" None] show ?thesis
      by (cases d) (auto simp: getPublicSummary_def await_def andthen_def split: prod.splits sum.splits)
  qed
next
  show "\<forall>s. fst (getPublicSummary E token w) = Inr s \<and> sd_readingType s = SHARED_PALM \<longrightarrow> sd_cards s = None"
    by (auto simp: getPublicSummary_def getSanitizedReadingData_def await_def andthen_def
      split: prod.splits sum.splits if_splits)
qed

lemma public_summary_private_witness:
  "\<exists>s. fst (getPublicSummary example_env ''l'' (share_example\<lparr>db := (db share_example)\<lparr>services :=
      [\<lparr>s_id = ''s'', s_code = ''PALM_BASIC'', s_name = [], s_description = None, s_creditCost = 1, s_isActive = True,
        s_createdAt = 0, s_updatedAt = 0\<rparr>]\<rparr>\<rparr>)) = Inr s \<and> sd_cards s = None"
proof -
  let ?w = "share_example\<lparr>db := (db share_example)\<lparr>services :=
      [\<lparr>s_id = ''s'', s_code = ''PALM_BASIC'', s_name = [], s_description = None, s_creditCost = 1, s_isActive = True,
        s_createdAt = 0, s_updatedAt = 0\<rparr>]\<rparr>\<rparr>"
  have "\<exists>s. fst (getPublicSummary example_env ''l'' ?w) = Inr s \<and> sd_readingType s = SHARED_PALM"
    by (simp add: getPublicSummary_def findActiveShareLink_def getSanitizedReadingData_def await_def andthen_def
      sharing_logEvent_def create_def find_or_throw_run table_defs share_example_def isPalmService_def js_in_def js_get_def
      PALM_SERVICE_IMAGE_SLOTS_def example_env_def empty_database_def)
  with public_summary_private [of example_env "''l''" _ _ _ _ ?w] show ?thesis by blast
qed

end
