(* ===== verification/ShareImage.thy ===== *)
theory ShareImage
  imports SharingService
begin

text \<open>
  The image of a shared reading (\<open>src/jobs/share-image\<close>): the text of the SVG, and the job that renders
  and stores it. Turning the SVG into a PNG is the parameter \<open>e_renderPng\<close> (the package sharp), the host
  of the application's URL is \<open>e_appHost\<close>. The SVG is modelled up to the blanks between its elements.
\<close>

section \<open>Writing SVG\<close>

definition attr :: "string \<times> string \<Rightarrow> string" where
  "attr nv = '' '' @ fst nv @ ''='' @ [CHR 0x22] @ snd nv @ [CHR 0x22]"

definition open_tag :: "string \<Rightarrow> (string \<times> string) list \<Rightarrow> string" where
  "open_tag name attrs = ''<'' @ name @ concat (map attr attrs)"

definition empty_el :: "string \<Rightarrow> (string \<times> string) list \<Rightarrow> string" where
  "empty_el name attrs = open_tag name attrs @ ''/>''"

definition el :: "string \<Rightarrow> (string \<times> string) list \<Rightarrow> string \<Rightarrow> string" where
  "el name attrs body = open_tag name attrs @ ''>'' @ body @ ''</'' @ name @ ''>''"

section \<open>Constants\<close>

datatype brand = Midnight | Twilight | Amethyst | Gold | Pearl | Lavender | Muted

fun BRAND :: "brand \<Rightarrow> string" where
  "BRAND Midnight = ''#11152b''"
| "BRAND Twilight = ''#2a2158''"
| "BRAND Amethyst = ''#6c4ab6''"
| "BRAND Gold = ''#d9b66f''"
| "BRAND Pearl = ''#f7f3ea''"
| "BRAND Lavender = ''#b9a7f8''"
| "BRAND Muted = ''#a9a4c0''"

fun ORIENTATION_LABELS :: "cardOrientation \<Rightarrow> string" where
  "ORIENTATION_LABELS UPRIGHT = ''Derecha''"
| "ORIENTATION_LABELS REVERSED = ''Invertida''"

fun SUIT_LABELS :: "minorSuit \<Rightarrow> string" where
  "SUIT_LABELS WANDS = ''Bastos''"
| "SUIT_LABELS CUPS = ''Copas''"
| "SUIT_LABELS SWORDS = ''Espadas''"
| "SUIT_LABELS PENTACLES = ''Oros''"

definition HAND_ILLUSTRATION_PATHS :: "string list" where
  "HAND_ILLUSTRATION_PATHS =
     [''M50 110 C 40 110, 35 90, 35 80 L 35 50 C 35 45, 30 45, 25 50 L 20 55 C 18 57, 15 55, 16 52 L 25 38 C 28 33, 33 35, 35 40 L 38 25 C 39 20, 44 20, 45 25 L 47 15 C 48 10, 53 10, 54 15 L 56 20 C 57 15, 62 15, 63 20 L 65 35 C 67 30, 72 32, 71 37 L 68 55 C 68 70, 60 110, 50 110 Z'',
      ''M30 65 Q 45 75 60 60'', ''M32 50 Q 50 55 62 45'', ''M48 85 Q 45 55 52 35'']"

definition SHARE_IMAGE_WIDTH_PX :: int where
  "SHARE_IMAGE_WIDTH_PX = 1080"

definition SHARE_IMAGE_HEIGHT_PX :: int where
  "SHARE_IMAGE_HEIGHT_PX = 1920"

section \<open>Text\<close>

definition escapeXml :: "string \<Rightarrow> string" where
  "escapeXml s =
     replace_char (CHR 0x27) ''&apos;''
      (replace_char (CHR 0x22) ''&quot;''
       (replace_char (CHR ''>'') ''&gt;''
        (replace_char (CHR ''<'') ''&lt;''
         (replace_char (CHR ''&'') ''&amp;'' s))))"

text \<open>\<open>text.split(' ')\<close>.\<close>

primrec split_blanks :: "string \<Rightarrow> string list" where
  "split_blanks [] = [[]]"
| "split_blanks (c # s) =
     (if c = CHR '' '' then [] # split_blanks s
      else case split_blanks s of [] \<Rightarrow> [[c]] | word # words \<Rightarrow> (c # word) # words)"

text \<open>The loop of \<open>wrapText\<close>: the words to come, the lines so far, and the current line.\<close>

primrec wrap_loop :: "string list \<Rightarrow> nat \<Rightarrow> string list \<Rightarrow> string \<Rightarrow> string list" where
  "wrap_loop [] n lines current = (if current \<noteq> [] then lines @ [current] else lines)"
| "wrap_loop (word # words) n lines current =
     (let candidate = (if current \<noteq> [] then current @ '' '' @ word else word) in
      if n < length candidate \<and> current \<noteq> [] then wrap_loop words n (lines @ [current]) word
      else wrap_loop words n lines candidate)"

definition wrapText :: "string \<Rightarrow> nat \<Rightarrow> string list" where
  "wrapText text maxCharsPerLine = wrap_loop (split_blanks text) maxCharsPerLine [] []"

section \<open>The drawing\<close>

datatype chipVariant = Solid | Outline

definition renderChip :: "string \<Rightarrow> int \<Rightarrow> int \<Rightarrow> chipVariant \<Rightarrow> string" where
  "renderChip label centerX y variant =
     (let x = centerX - 75;
          fill = (if variant = Solid then ''rgba(185,167,248,0.18)'' else ''none'');
          stroke = (if variant = Solid then ''none'' else BRAND Gold);
          textFill = (if variant = Solid then BRAND Lavender else BRAND Pearl) in
      empty_el ''rect'' [(''x'', string_of_int x), (''y'', string_of_int y), (''width'', ''150''), (''height'', ''40''),
        (''rx'', ''20''), (''fill'', fill), (''stroke'', stroke), (''stroke-width'', ''1.5''), (''stroke-opacity'', ''0.7'')] @
      el ''text'' [(''x'', string_of_int centerX), (''y'', string_of_int (y + 26)), (''text-anchor'', ''middle''),
        (''font-family'', ''Georgia, serif''), (''font-size'', ''20''), (''fill'', textFill)] (escapeXml label))"

definition renderCardBox :: "sharedCardSummary \<Rightarrow> int \<Rightarrow> string" where
  "renderCardBox c y =
     (let orientationLabel = ORIENTATION_LABELS (sc_orientation c);
          chipY = y + 130;
          chipsSvg = (case sc_suit c of
              Some suit \<Rightarrow> renderChip (SUIT_LABELS suit) (540 - 78) chipY Solid @
                renderChip orientationLabel (540 + 78) chipY Outline
            | None \<Rightarrow> renderChip orientationLabel 540 chipY Outline) in
      el ''g'' []
       (empty_el ''rect'' [(''x'', ''90''), (''y'', string_of_int y), (''width'', ''900''), (''height'', ''200''), (''rx'', ''20''),
          (''fill'', ''rgba(17,21,43,0.45)''), (''stroke'', BRAND Gold), (''stroke-width'', ''2''), (''stroke-opacity'', ''0.4'')] @
        el ''text'' [(''x'', ''540''), (''y'', string_of_int (y + 42)), (''text-anchor'', ''middle''),
          (''font-family'', ''Georgia, serif''), (''font-size'', ''24''), (''letter-spacing'', ''2''), (''fill'', BRAND Gold)]
          (escapeXml (sc_positionLabel c)) @
        el ''text'' [(''x'', ''540''), (''y'', string_of_int (y + 92)), (''text-anchor'', ''middle''),
          (''font-family'', ''Georgia, serif''), (''font-size'', ''36''), (''font-weight'', ''bold''), (''fill'', BRAND Pearl)]
          (escapeXml (sc_cardName c)) @
        chipsSvg))"

definition renderHandIllustration :: string where
  "renderHandIllustration =
     (let paths = concat (map (\<lambda>(d, index). empty_el ''path'' [(''d'', d), (''stroke'', BRAND Gold),
            (''stroke-width'', if index = 0 then ''1.5'' else ''1''), (''fill'', ''none''), (''stroke-linecap'', ''round''),
            (''stroke-linejoin'', ''round''), (''opacity'', if index = 0 then ''1'' else ''0.7'')])
          (zip HAND_ILLUSTRATION_PATHS [0..<length HAND_ILLUSTRATION_PATHS])) in
      el ''g'' [(''transform'', ''translate(430, 600) scale(2.2)''), (''filter'', ''url(#goldGlow)'')] paths @
      el ''text'' [(''x'', ''540''), (''y'', ''920''), (''text-anchor'', ''middle''), (''font-family'', ''Georgia, serif''),
        (''font-size'', ''30''), (''fill'', BRAND Lavender)] ''Descubre tu reporte guiado'')"

text \<open>The definitions of gradients and filter at the head of the SVG.\<close>

definition svg_defs :: string where
  "svg_defs = el ''defs'' []
     (el ''linearGradient'' [(''id'', ''bg''), (''x1'', ''0''), (''y1'', ''0''), (''x2'', ''0''), (''y2'', ''1'')]
        (empty_el ''stop'' [(''offset'', ''0%''), (''stop-color'', BRAND Midnight)] @
         empty_el ''stop'' [(''offset'', ''55%''), (''stop-color'', BRAND Twilight)] @
         empty_el ''stop'' [(''offset'', ''100%''), (''stop-color'', BRAND Amethyst)]) @
      el ''linearGradient'' [(''id'', ''ctaFill''), (''x1'', ''0''), (''y1'', ''0''), (''x2'', ''0''), (''y2'', ''1'')]
        (empty_el ''stop'' [(''offset'', ''0%''), (''stop-color'', ''rgb(43,51,92)'')] @
         empty_el ''stop'' [(''offset'', ''100%''), (''stop-color'', ''rgb(24,28,58)'')]) @
      el ''filter'' [(''id'', ''goldGlow''), (''x'', ''-50%''), (''y'', ''-50%''), (''width'', ''200%''), (''height'', ''200%'')]
        (empty_el ''feDropShadow'' [(''dx'', ''0''), (''dy'', ''0''), (''stdDeviation'', ''6''),
           (''flood-color'', BRAND Gold), (''flood-opacity'', ''0.35'')]))"

definition centered :: "int \<Rightarrow> string \<Rightarrow> (string \<times> string) list \<Rightarrow> string \<Rightarrow> string" where
  "centered y family rest body = el ''text'' ([(''x'', string_of_int (SHARE_IMAGE_WIDTH_PX div 2)),
     (''y'', string_of_int y), (''text-anchor'', ''middle''), (''font-family'', family)] @ rest) body"

definition buildShareImageSvg :: "sanitizedReadingData \<Rightarrow> string \<Rightarrow> string \<Rightarrow> string" where
  "buildShareImageSvg data disclaimer appHost =
     (let width = SHARE_IMAGE_WIDTH_PX; height = SHARE_IMAGE_HEIGHT_PX;
          contentSvg = (case sd_cards data of
              Some cards \<Rightarrow> concat (map (\<lambda>(c, index). renderCardBox c (620 + int index * 220))
                (zip cards [0..<length cards]))
            | None \<Rightarrow> renderHandIllustration);
          disclaimerLines = wrapText disclaimer 60;
          disclaimerSvg = concat (map (\<lambda>(line, index). centered (1620 + int index * 34) ''sans-serif''
              [(''font-size'', ''22''), (''fill'', BRAND Muted)] (escapeXml line))
            (zip disclaimerLines [0..<length disclaimerLines])) in
      el ''svg'' [(''xmlns'', ''http://www.w3.org/2000/svg''), (''width'', string_of_int width),
          (''height'', string_of_int height),
          (''viewBox'', ''0 0 '' @ string_of_int width @ '' '' @ string_of_int height)]
       (svg_defs @
        empty_el ''rect'' [(''width'', string_of_int width), (''height'', string_of_int height), (''fill'', ''url(#bg)'')] @
        empty_el ''rect'' [(''x'', ''40''), (''y'', ''40''), (''width'', string_of_int (width - 80)),
          (''height'', string_of_int (height - 80)), (''rx'', ''24''), (''fill'', ''none''), (''stroke'', BRAND Gold),
          (''stroke-width'', ''3''), (''stroke-opacity'', ''0.5'')] @
        empty_el ''rect'' [(''x'', ''64''), (''y'', ''64''), (''width'', string_of_int (width - 128)),
          (''height'', string_of_int (height - 128)), (''rx'', ''18''), (''fill'', ''none''), (''stroke'', BRAND Gold),
          (''stroke-width'', ''1.5''), (''stroke-opacity'', ''0.2'')] @
        centered 220 ''Georgia, serif'' [(''font-size'', ''56''), (''letter-spacing'', ''6''), (''fill'', BRAND Gold)]
          (''OR'' @ [CHR 0xC1] @ ''CULO TAROTRIA'') @
        centered 420 ''Georgia, serif'' [(''font-size'', ''44''), (''font-weight'', ''bold''), (''fill'', BRAND Pearl)]
          (escapeXml (sd_title data)) @
        contentSvg @
        empty_el ''rect'' [(''x'', ''230''), (''y'', ''1400''), (''width'', ''620''), (''height'', ''100''), (''rx'', ''50''),
          (''fill'', ''url(#ctaFill)''), (''stroke'', BRAND Gold), (''stroke-width'', ''2'')] @
        centered 1462 ''Georgia, serif'' [(''font-size'', ''32''), (''fill'', BRAND Pearl)] ''Descubre tu propia lectura'' @
        centered 1560 ''Georgia, serif'' [(''font-size'', ''26''), (''fill'', BRAND Gold)] (escapeXml appHost) @
        disclaimerSvg))"

section \<open>The job\<close>

definition generateImage :: "env \<Rightarrow> string \<Rightarrow> (world, unit) prog" where
  "generateImage E shareLinkId =
     await (find_first ShareLink (\<lambda>l. sl_id l = shareLinkId)) (\<lambda>found. case found of
       None \<Rightarrow> ret ()
     | Some shareLink \<Rightarrow>
         if sl_revokedAt shareLink \<noteq> None then ret ()
         else
           await (getSanitizedReadingData (sl_readingId shareLink)) (\<lambda>data.
           let svg = buildShareImageSvg data DAILY_CARD_DISCLAIMER (e_appHost E);
               buffer = e_renderPng E svg in
           await (buildShareImageKey E (sl_readingId shareLink)) (\<lambda>key.
           andthen (uploadObject E key buffer)
             (markImageReady shareLinkId key))))"

definition share_onFailed :: "string \<Rightarrow> nat option \<Rightarrow> nat \<Rightarrow> (world, unit) prog" where
  "share_onFailed shareLinkId attempts attemptsMade =
     (if attemptsMade < (case attempts of None \<Rightarrow> 1 | Some n \<Rightarrow> n) then ret ()
      else markImageFailed shareLinkId)"

section \<open>Text stays text\<close>

definition escape_char :: "char \<Rightarrow> string" where
  "escape_char c =
     (if c = CHR ''&'' then ''&amp;'' else if c = CHR ''<'' then ''&lt;'' else if c = CHR ''>'' then ''&gt;''
      else if c = CHR 0x22 then ''&quot;'' else if c = CHR 0x27 then ''&apos;'' else [c])"

lemma replace_char_simps [simp]:
  "replace_char c r [] = []" "replace_char c r (x # s) = (if x = c then r else [x]) @ replace_char c r s"
  "replace_char c r (s @ t) = replace_char c r s @ replace_char c r t"
  by (simp_all add: replace_char_def)

text \<open>The five replacements in a row are one pass over the characters.\<close>

lemma escapeXml_chars: "escapeXml s = concat (map escape_char s)"
proof (induction s)
  case (Cons c s)
  have "escapeXml (c # s) = escape_char c @ escapeXml s"
    by (simp add: escapeXml_def escape_char_def)
  with Cons show ?case by simp
qed (simp add: escapeXml_def)

text \<open>How a reader of XML resolves the five entities.\<close>

fun unescapeXml :: "string \<Rightarrow> string" where
  "unescapeXml [] = []"
| "unescapeXml (c # s) =
     (if c \<noteq> CHR ''&'' then c # unescapeXml s
      else if take 4 s = ''amp;'' then CHR ''&'' # unescapeXml (drop 4 s)
      else if take 3 s = ''lt;'' then CHR ''<'' # unescapeXml (drop 3 s)
      else if take 3 s = ''gt;'' then CHR ''>'' # unescapeXml (drop 3 s)
      else if take 5 s = ''quot;'' then CHR 0x22 # unescapeXml (drop 5 s)
      else if take 5 s = ''apos;'' then CHR 0x27 # unescapeXml (drop 5 s)
      else c # unescapeXml s)"

lemma unescape_escape: "unescapeXml (escapeXml s) = s"
  unfolding escapeXml_chars by (induction s) (auto simp: escape_char_def)

text \<open>The characters that make XML markup.\<close>

definition markup :: "string \<Rightarrow> string" where
  "markup s = filter (\<lambda>c. c \<in> {CHR ''<'', CHR ''>'', CHR 0x22, CHR 0x27}) s"

lemma markup_append [simp]: "markup [] = []" "markup (s @ t) = markup s @ markup t"
  by (simp_all add: markup_def)

lemma markup_Cons: "markup (c # s) = markup [c] @ markup s"
  by (simp add: markup_def)

lemma markup_escape [simp]: "markup (escapeXml s) = []"
  unfolding escapeXml_chars by (induction s) (auto simp: escape_char_def markup_def)

lemma markup_el: "markup (el name attrs body) = markup (open_tag name attrs @ ''>'') @ markup body @ markup (''</'' @ name @ ''>'')"
  unfolding el_def markup_append(2) by simp

definition card_shape :: "sharedCardSummary \<Rightarrow> bool" where
  "card_shape c = (sc_suit c \<noteq> None)"

lemma markup_card:
  "card_shape c = card_shape c' \<Longrightarrow> markup (renderCardBox c y) = markup (renderCardBox c' y)"
  by (auto simp: renderCardBox_def renderChip_def Let_def markup_el card_shape_def split: option.split)

lemma markup_cards:
  "map card_shape cs = map card_shape cs' \<Longrightarrow>
   markup (concat (map (\<lambda>(c, index). renderCardBox c (620 + int index * 220)) (zip cs [k..<k + length cs]))) =
   markup (concat (map (\<lambda>(c, index). renderCardBox c (620 + int index * 220)) (zip cs' [k..<k + length cs'])))"
proof (induction cs arbitrary: cs' k)
  case (Cons c cs)
  then obtain c' ds where cs': "cs' = c' # ds" "card_shape c = card_shape c'" "map card_shape cs = map card_shape ds"
    by (cases cs') auto
  have "k < k + length (c # cs)" "k < k + length (c' # ds)" by simp_all
  with Cons.IH [OF cs'(3), of "Suc k"] markup_card [OF cs'(2)] show ?case
    unfolding cs'(1) by (simp add: upt_conv_Cons del: upt_Suc)
qed simp

lemma markup_lines:
  "length xs = length ys \<Longrightarrow>
   markup (concat (map (\<lambda>(line, index). centered (y + int index * 34) fam atts (escapeXml line)) (zip xs [k..<k + length xs]))) =
   markup (concat (map (\<lambda>(line, index). centered (y + int index * 34) fam atts (escapeXml line)) (zip ys [k..<k + length ys])))"
proof (induction xs ys arbitrary: k rule: list_induct2)
  case (Cons x xs x' ys)
  have "k < k + length (x # xs)" "k < k + length (x' # ys)" by simp_all
  with Cons.IH [of "Suc k"] show ?case
    by (simp add: upt_conv_Cons centered_def markup_el del: upt_Suc)
qed simp

text \<open>
  C29. Nothing a text says can change the picture's markup: two share images with equally many cards
  (with and without suit in the same places) and equally many lines of disclaimer have the same markup
  characters in the same order, whatever the titles, the names of cards and positions and the host are.
  The texts themselves are shown as they are: reading the entities back gives the text.
\<close>

theorem share_image_text_is_text:
  assumes "map_option (map card_shape) (sd_cards data) = map_option (map card_shape) (sd_cards data')"
    and "length (wrapText disclaimer 60) = length (wrapText disclaimer' 60)"
  shows "markup (buildShareImageSvg data disclaimer host) = markup (buildShareImageSvg data' disclaimer' host') \<and>
    unescapeXml (escapeXml t) = t"
proof
  define content where "content (d :: sanitizedReadingData) = (case sd_cards d of
              Some cards \<Rightarrow> concat (map (\<lambda>(c, index). renderCardBox c (620 + int index * 220))
                (zip cards [0..<length cards]))
            | None \<Rightarrow> renderHandIllustration)" for d
  have "markup (content data) = markup (content data')"
  proof (cases "sd_cards data")
    case None
    with assms(1) show ?thesis by (simp add: content_def)
  next
    case (Some cs)
    with assms(1) obtain cs' where cs': "sd_cards data' = Some cs'" "map card_shape cs = map card_shape cs'"
      by (cases "sd_cards data'") auto
    with Some markup_cards [OF cs'(2), of 0] show ?thesis by (simp only: content_def option.simps add_0)
  qed
  moreover note markup_lines [OF assms(2), where k = 0 and y = 1620 and fam = "''sans-serif''"
      and atts = "[(''font-size'', ''22''), (''fill'', BRAND Muted)]", unfolded add_0]
  ultimately show "markup (buildShareImageSvg data disclaimer host) = markup (buildShareImageSvg data' disclaimer' host')"
    unfolding buildShareImageSvg_def Let_def content_def [symmetric]
    by (simp only: markup_el centered_def markup_append(2) markup_escape)
qed (rule unescape_escape)

lemma share_image_text_is_text_witness:
  "markup (buildShareImageSvg \<lparr>sd_readingType = SHARED_PALM, sd_title = ''<x>'', sd_cards = None\<rparr> ''a'' ''b'') =
   markup (buildShareImageSvg \<lparr>sd_readingType = SHARED_PALM, sd_title = [], sd_cards = None\<rparr> ''c'' ''d'')"
  by (rule share_image_text_is_text [THEN conjunct1]) (simp, code_simp)

end
