(* ===== verification/ReadingsService.thy ===== *)
theory ReadingsService
  imports SharingService RewardsService WalletService
begin

text \<open>
  Readings (\<open>src/readings/readings.service.ts\<close>): a draft is filled in (answers, or images of the palm),
  submitted, which charges it and queues its processing, retried when it failed, and removed while it is
  a draft. The detail of a reading is put together from seven tables. What the operations keep is in
  theory \<open>ReadingLaws\<close>.
\<close>

section \<open>Summaries\<close>

record readingSummary =
  rsm_id :: string
  rsm_serviceCode :: string
  rsm_status :: readingStatus
  rsm_createdAt :: int
  rsm_submittedAt :: "int option"

record readingDraw =
  rd_position :: string
  rd_orientation :: cardOrientation
  rd_cardCode :: string
  rd_cardName :: string
  rd_arcana :: arcanaType
  rd_suit :: "minorSuit option"

record palmImageSummary =
  pis_id :: string
  pis_status :: palmImageStatus
  pis_validationError :: "string option"

record readingDetail = readingSummary +
  rdt_input :: "(int \<times> json) option"
  rdt_draws :: "readingDraw list"
  rdt_images :: "palmImageSummary list"
  rdt_aiResult :: json
  rdt_share :: "shareLinkCreated option"

record adminReadingSummary =
  ars_id :: string
  ars_userId :: string
  ars_userEmail :: string
  ars_serviceCode :: string
  ars_status :: readingStatus
  ars_createdAt :: int
  ars_submittedAt :: "int option"

definition toReadingSummary :: "reading \<Rightarrow> service \<Rightarrow> readingSummary" where
  "toReadingSummary r s = \<lparr>rsm_id = r_id r, rsm_serviceCode = s_code s, rsm_status = r_status r,
     rsm_createdAt = r_createdAt r, rsm_submittedAt = r_submittedAt r\<rparr>"

definition toAdminReadingSummary :: "reading \<Rightarrow> service \<Rightarrow> user \<Rightarrow> adminReadingSummary" where
  "toAdminReadingSummary r s u = \<lparr>ars_id = r_id r, ars_userId = u_id u, ars_userEmail = u_email u,
     ars_serviceCode = s_code s, ars_status = r_status r, ars_createdAt = r_createdAt r,
     ars_submittedAt = r_submittedAt r\<rparr>"

definition toPalmImageSummary :: "palmImage \<Rightarrow> palmImageSummary" where
  "toPalmImageSummary i = \<lparr>pis_id = pi_id i, pis_status = pi_status i, pis_validationError = pi_validationError i\<rparr>"

definition toReadingDetail ::
  "reading \<Rightarrow> service \<Rightarrow> spreadPosition list \<Rightarrow> readingInput option \<Rightarrow> (tarotDrawRow \<times> tarotCard) list \<Rightarrow>
   aiExecution option \<Rightarrow> palmImage list \<Rightarrow> shareLinkCreated option \<Rightarrow> readingDetail" where
  "toReadingDetail r s positions inp draws ai imgs share =
     \<lparr>rsm_id = r_id r, rsm_serviceCode = s_code s, rsm_status = r_status r,
      rsm_createdAt = r_createdAt r, rsm_submittedAt = r_submittedAt r,
      rdt_input = map_option (\<lambda>i. (in_formVersion i, in_answers i)) inp,
      rdt_draws = map (\<lambda>(d, c). \<lparr>rd_position = dr_position d, rd_orientation = dr_orientation d,
          rd_cardCode = tc_code c, rd_cardName = tc_name c, rd_arcana = tc_arcana c, rd_suit = tc_suit c\<rparr>)
        (sort_key (\<lambda>(d, c). draw_order positions d) draws),
      rdt_images = map toPalmImageSummary imgs,
      rdt_aiResult = (case ai of None \<Rightarrow> JNull | Some x \<Rightarrow> (case ai_outputJson x of None \<Rightarrow> JNull | Some v \<Rightarrow> v)),
      rdt_share = share\<rparr>"

section \<open>Jobs\<close>

definition PROCESS_TAROT_JOB :: string where
  "PROCESS_TAROT_JOB = ''PROCESS_TAROT''"

definition PROCESS_PALM_JOB :: string where
  "PROCESS_PALM_JOB = ''PROCESS_PALM''"

definition tarotProcessingJobId :: "string \<Rightarrow> string" where
  "tarotProcessingJobId readingId = PROCESS_TAROT_JOB @ ''-'' @ readingId"

definition palmProcessingJobId :: "string \<Rightarrow> string" where
  "palmProcessingJobId readingId = PROCESS_PALM_JOB @ ''-'' @ readingId"

definition tarotRetryJobId :: "env \<Rightarrow> string \<Rightarrow> (world, string) prog" where
  "tarotRetryJobId E readingId =
     await (random_uuid E) (\<lambda>u. ret (PROCESS_TAROT_JOB @ ''-'' @ readingId @ ''-retry-'' @ u))"

definition palmRetryJobId :: "env \<Rightarrow> string \<Rightarrow> (world, string) prog" where
  "palmRetryJobId E readingId =
     await (random_uuid E) (\<lambda>u. ret (PROCESS_PALM_JOB @ ''-'' @ readingId @ ''-retry-'' @ u))"

definition VALIDATE_PALM_IMAGE_JOB :: string where
  "VALIDATE_PALM_IMAGE_JOB = ''VALIDATE_PALM_IMAGE''"

definition validateImageJobId :: "string \<Rightarrow> string" where
  "validateImageJobId palmImageId = VALIDATE_PALM_IMAGE_JOB @ ''-'' @ palmImageId"

definition reading_job :: "string \<Rightarrow> string \<Rightarrow> string \<Rightarrow> job" where
  "reading_job name readingId jobId =
     \<lparr>j_queue = ''reading-processing'', j_name = name, j_data = readingId, j_jobId = jobId\<rparr>"

section \<open>Reading\<close>

definition AD_UNLOCKABLE_TAROT_SERVICE_CODE :: string where
  "AD_UNLOCKABLE_TAROT_SERVICE_CODE = ''TAROT_THREE''"

definition readings_create :: "env \<Rightarrow> string \<Rightarrow> string \<Rightarrow> (world, readingSummary) prog" where
  "readings_create E userId serviceCode =
     await (find_first Service (\<lambda>s. s_code s = serviceCode \<and> s_isActive s)) (\<lambda>found. case found of
       None \<Rightarrow> throw (NotFoundException ''service'')
     | Some service \<Rightarrow>
         await (find_first TarotSpread (\<lambda>s. ts_code s = serviceCode \<and> ts_isActive s)) (\<lambda>spread.
         await (random_uuid E) (\<lambda>i.
         await (date_now E) (\<lambda>now.
         await (create Reading \<lparr>r_id = i, r_userId = userId, r_serviceId = s_id service,
             r_spreadId = map_option ts_id spread, r_promptVersionId = None, r_status = DRAFT,
             r_submittedAt = None, r_createdAt = now\<rparr>) (\<lambda>reading.
         ret (toReadingSummary reading service))))))"

definition listForUser :: "string \<Rightarrow> (world, readingSummary list) prog" where
  "listForUser userId =
     await (find_many Reading (\<lambda>r. r_userId r = userId)) (\<lambda>rs.
     map_each (\<lambda>r. await (find_or_throw Service (\<lambda>s. s_id s = r_serviceId r)) (\<lambda>s.
         ret (toReadingSummary r s))) (order_desc r_createdAt rs))"

text \<open>
  The rows \<open>DETAIL_INCLUDE\<close> loads with a reading. \<open>r_spreadId\<close> is the only link to the positions; the
  execution is the latest completed one of the reading, whatever its task.
\<close>

definition readings_detail :: "env \<Rightarrow> reading \<Rightarrow> (world, readingDetail) prog" where
  "readings_detail E reading =
     await (find_or_throw Service (\<lambda>s. s_id s = r_serviceId reading)) (\<lambda>service.
     await (find_many SpreadPosition (\<lambda>p. r_spreadId reading = Some (sp_spreadId p))) (\<lambda>positions.
     await (find_first ReadingInput (\<lambda>i. in_readingId i = r_id reading)) (\<lambda>inp.
     await (find_many TarotDraw (\<lambda>d. dr_readingId d = r_id reading)) (\<lambda>rows.
     await (map_each (\<lambda>d. await (find_or_throw TarotCard (\<lambda>c. tc_id c = dr_cardId d)) (\<lambda>c. ret (d, c))) rows) (\<lambda>draws.
     await (find_first_desc AIExecution ai_createdAt
              (\<lambda>x. ai_readingId x = Some (r_id reading) \<and> ai_status x = AI_COMPLETED)) (\<lambda>ai.
     await (find_many PalmImage (\<lambda>i. pi_readingId i = r_id reading)) (\<lambda>imgs.
     await (getActiveShareLinkSummary E (r_id reading)) (\<lambda>share.
     ret (toReadingDetail reading service positions inp draws ai (sort_key pi_createdAt imgs) share)))))))))"

definition findOneForUser :: "env \<Rightarrow> string \<Rightarrow> string \<Rightarrow> (world, readingDetail) prog" where
  "findOneForUser E userId readingId =
     await (find_first Reading (\<lambda>r. r_id r = readingId \<and> r_userId r = userId)) (\<lambda>found. case found of
       None \<Rightarrow> throw (NotFoundException ''reading'')
     | Some reading \<Rightarrow> readings_detail E reading)"

definition findOwnedDraft :: "string \<Rightarrow> string \<Rightarrow> (world, reading) prog" where
  "findOwnedDraft userId readingId =
     await (find_first Reading (\<lambda>r. r_id r = readingId \<and> r_userId r = userId)) (\<lambda>found. case found of
       None \<Rightarrow> throw (NotFoundException ''reading'')
     | Some reading \<Rightarrow>
         if r_status reading \<noteq> DRAFT then throw (BadRequestException ''reading already submitted'')
         else ret reading)"

section \<open>Filling in a draft\<close>

definition readingInput_upsert :: "env \<Rightarrow> string \<Rightarrow> int \<Rightarrow> json \<Rightarrow> (world, readingInput) prog" where
  "readingInput_upsert E readingId formVersion answers =
     await (find_first ReadingInput (\<lambda>i. in_readingId i = readingId)) (\<lambda>found. case found of
       Some _ \<Rightarrow> update_row ReadingInput (\<lambda>i. in_readingId i = readingId)
         (\<lambda>i. i\<lparr>in_formVersion := formVersion, in_answers := answers\<rparr>)
     | None \<Rightarrow>
         await (random_uuid E) (\<lambda>k.
         create ReadingInput \<lparr>in_id = k, in_readingId = readingId, in_formVersion = formVersion, in_answers = answers\<rparr>))"

definition updateInputs ::
  "env \<Rightarrow> string \<Rightarrow> string \<Rightarrow> (string \<times> json) list \<Rightarrow> (world, readingDetail) prog" where
  "updateInputs E userId readingId answers =
     await (findOwnedDraft userId readingId) (\<lambda>reading.
     await (find_or_throw Service (\<lambda>s. s_id s = r_serviceId reading)) (\<lambda>service.
     await (find_first ServiceForm (\<lambda>f. sf_serviceId f = s_id service \<and> sf_isActive f)) (\<lambda>activeForm. case activeForm of
       None \<Rightarrow> throw (BadRequestException ''no form'')
     | Some form \<Rightarrow>
         andthen (validateReadingAnswers (sf_schema form) answers)
         (andthen (readingInput_upsert E readingId (sf_version form) (JObject answers))
           (findOneForUser E userId readingId)))))"

text \<open>\<open>count >= slots\<close> and \<open>count < slots\<close>; both are false when there is no number to compare with.\<close>

definition at_least :: "nat \<Rightarrow> nat option \<Rightarrow> bool" where
  "at_least n slots = (case slots of None \<Rightarrow> False | Some k \<Rightarrow> k \<le> n)"

definition fewer_than :: "nat \<Rightarrow> nat option \<Rightarrow> bool" where
  "fewer_than n slots = (case slots of None \<Rightarrow> False | Some k \<Rightarrow> n < k)"

definition presignImage ::
  "env \<Rightarrow> string \<Rightarrow> string \<Rightarrow> string \<Rightarrow> (world, presignedUpload) prog" where
  "presignImage E userId readingId contentType =
     await (findOwnedDraft userId readingId) (\<lambda>reading.
     await (find_or_throw Service (\<lambda>s. s_id s = r_serviceId reading)) (\<lambda>service.
     if \<not> isPalmService (s_code service) then throw (BadRequestException ''no palm service'')
     else
       await (count_rows PalmImage (\<lambda>i. pi_readingId i = readingId \<and> pi_status i \<noteq> INVALID)) (\<lambda>existingSlots.
       if at_least existingSlots (requiredPalmImageSlots (s_code service))
       then throw (BadRequestException ''all images uploaded'')
       else
         await (buildPalmImageKey E userId readingId contentType) (\<lambda>key.
         await (random_uuid E) (\<lambda>k.
         await (date_now E) (\<lambda>now.
         andthen (create PalmImage \<lparr>pi_id = k, pi_readingId = readingId, pi_storageKey = key,
             pi_status = UPLOADED, pi_mimeType = None, pi_sizeBytes = None, pi_widthPx = None,
             pi_heightPx = None, pi_validationError = None, pi_consentAt = None, pi_expiresAt = None,
             pi_deletedAt = None, pi_createdAt = now\<rparr>)
           (createPresignedUploadUrl E key contentType)))))))"

text \<open>The closure \<open>invalidate\<close> of \<open>confirmImage\<close>.\<close>

definition invalidate :: "palmImage \<Rightarrow> string \<Rightarrow> (world, palmImageSummary) prog" where
  "invalidate img why =
     await (update_row PalmImage (\<lambda>i. pi_id i = pi_id img)
         (\<lambda>i. i\<lparr>pi_status := INVALID, pi_validationError := Some why\<rparr>)) (\<lambda>updated.
     ret (toPalmImageSummary updated))"

definition FILE_NOT_FOUND :: string where
  "FILE_NOT_FOUND = ''No se encontr'' @ [CHR 0xF3] @ '' el archivo cargado. Intenta subirlo de nuevo.''"

definition FILE_TOO_BIG :: string where
  "FILE_TOO_BIG = ''El archivo supera el tama'' @ [CHR 0xF1] @ ''o m'' @ [CHR 0xE1] @ ''ximo permitido.''"

definition NOT_AN_IMAGE :: string where
  "NOT_AN_IMAGE = ''El archivo no es una imagen JPEG, PNG o WebP v'' @ [CHR 0xE1] @ ''lida.''"

definition IMAGE_TOO_SMALL :: string where
  "IMAGE_TOO_SMALL = ''La imagen es demasiado peque'' @ [CHR 0xF1] @ ''a o est'' @ [CHR 0xE1] @ '' corrupta.''"

text \<open>The end of \<open>confirmImage\<close>: the checks passed.\<close>

definition accept_image ::
  "env \<Rightarrow> palmImage \<Rightarrow> string \<Rightarrow> nat \<Rightarrow> int \<times> int \<Rightarrow> (world, palmImageSummary) prog" where
  "accept_image E img realMimeType sizeBytes dimensions =
     await (date_now E) (\<lambda>now.
     await (date_now E) (\<lambda>consentAt.
     await (update_row PalmImage (\<lambda>i. pi_id i = pi_id img)
         (\<lambda>i. i\<lparr>pi_status := PENDING_REVIEW, pi_mimeType := Some realMimeType,
            pi_sizeBytes := Some (int sizeBytes), pi_widthPx := Some (fst dimensions),
            pi_heightPx := Some (snd dimensions), pi_consentAt := Some consentAt,
            pi_expiresAt := Some (now + e_palmImageRetentionHours E * 60 * 60 * 1000),
            pi_validationError := None\<rparr>)) (\<lambda>updated.
     andthen (queue_add \<lparr>j_queue = ''image-analysis'', j_name = VALIDATE_PALM_IMAGE_JOB, j_data = pi_id img,
         j_jobId = validateImageJobId (pi_id img)\<rparr>)
       (ret (toPalmImageSummary updated)))))"

text \<open>The checks of \<open>confirmImage\<close> on the object itself.\<close>

definition check_image :: "env \<Rightarrow> palmImage \<Rightarrow> string \<Rightarrow> (world, palmImageSummary) prog" where
  "check_image E img key =
     await (headObject E key) (\<lambda>head. case head of
       None \<Rightarrow> invalidate img FILE_NOT_FOUND
     | Some sizeBytes \<Rightarrow>
         if sizeBytes = 0 then invalidate img FILE_NOT_FOUND
         else if e_palmImageMaxSizeBytes E < int sizeBytes then invalidate img FILE_TOO_BIG
         else
           await (downloadObject E key) (\<lambda>bytes. case sniffImageMimeType bytes of
             None \<Rightarrow> invalidate img NOT_AN_IMAGE
           | Some realMimeType \<Rightarrow> (case readImageDimensions E bytes of
                 None \<Rightarrow> invalidate img IMAGE_TOO_SMALL
               | Some (width, height) \<Rightarrow>
                   if width < PALM_IMAGE_MIN_DIMENSION_PX \<or> height < PALM_IMAGE_MIN_DIMENSION_PX
                   then invalidate img IMAGE_TOO_SMALL
                   else accept_image E img realMimeType sizeBytes (width, height))))"

definition confirmImage ::
  "env \<Rightarrow> string \<Rightarrow> string \<Rightarrow> string \<Rightarrow> (world, palmImageSummary) prog" where
  "confirmImage E userId readingId key =
     andthen (findOwnedDraft userId readingId)
     (await (find_first PalmImage (\<lambda>i. pi_readingId i = readingId \<and> pi_storageKey i = key)) (\<lambda>found. case found of
       None \<Rightarrow> throw (NotFoundException ''image'')
     | Some img \<Rightarrow>
         if pi_status img \<noteq> UPLOADED then throw (BadRequestException ''image already confirmed'')
         else check_image E img key))"

section \<open>Submitting\<close>

text \<open>The transaction of \<open>submitPalmReading\<close>.\<close>

definition charge_palm :: "env \<Rightarrow> string \<Rightarrow> string \<Rightarrow> service \<Rightarrow> (world, unit) prog" where
  "charge_palm E userId readingId service =
     transaction
       (andthen (reserveCreditsForReading E userId readingId (s_creditCost service))
         (await (date_now E) (\<lambda>now.
          andthen (update_row Reading (\<lambda>r. r_id r = readingId)
              (\<lambda>r. r\<lparr>r_status := PENDING, r_submittedAt := Some now\<rparr>))
            (ret ()))))"

text \<open>A submission: charge, queue the job, answer the detail; a reading already charged is only answered.\<close>

definition submit_charged ::
  "env \<Rightarrow> string \<Rightarrow> string \<Rightarrow> (world, unit) prog \<Rightarrow> job \<Rightarrow> (world, readingDetail) prog" where
  "submit_charged E userId readingId charge j =
     await
       (try_catch (andthen charge (ret True))
         (\<lambda>e. if e = ReadingAlreadySubmittedError then ret False else throw e)) (\<lambda>fresh.
     if fresh then andthen (queue_add j) (findOneForUser E userId readingId)
     else findOneForUser E userId readingId)"

definition submitPalmReading :: "env \<Rightarrow> string \<Rightarrow> string \<Rightarrow> service \<Rightarrow> (world, readingDetail) prog" where
  "submitPalmReading E userId readingId service =
     await (count_rows PalmImage (\<lambda>i. pi_readingId i = readingId \<and> pi_status i = VALID)) (\<lambda>validImages.
     if fewer_than validImages (requiredPalmImageSlots (s_code service))
     then throw (BadRequestException ''images missing'')
     else submit_charged E userId readingId (charge_palm E userId readingId service)
       (reading_job PROCESS_PALM_JOB readingId (palmProcessingJobId readingId)))"

definition create_draw :: "env \<Rightarrow> string \<Rightarrow> tarotDraw \<Rightarrow> (world, unit) prog" where
  "create_draw E readingId d =
     await (random_uuid E) (\<lambda>k.
     andthen (create TarotDraw \<lparr>dr_id = k, dr_readingId = readingId, dr_position = d_position d,
         dr_cardId = c_id (d_card d), dr_orientation = d_orientation d\<rparr>)
       (ret ()))"

text \<open>
  The transaction of \<open>submitTarotReading\<close>: an unlock earned with advertisements makes the basic spread
  free of charge.
\<close>

definition charge_tarot ::
  "env \<Rightarrow> string \<Rightarrow> string \<Rightarrow> service \<Rightarrow> tarotDraw list \<Rightarrow> (world, unit) prog" where
  "charge_tarot E userId readingId service draws =
     transaction
       (await
         (if s_code service = AD_UNLOCKABLE_TAROT_SERVICE_CODE then
            await (tryConsumeUnlock userId TAROT_READING_UNLOCK) (\<lambda>unlockedViaAds.
            ret (if unlockedViaAds then 0 else s_creditCost service))
          else ret (s_creditCost service)) (\<lambda>creditCost.
        andthen (reserveCreditsForReading E userId readingId creditCost)
        (andthen (for_each (create_draw E readingId) draws)
          (await (date_now E) (\<lambda>now.
           andthen (update_row Reading (\<lambda>r. r_id r = readingId)
               (\<lambda>r. r\<lparr>r_status := PENDING, r_submittedAt := Some now\<rparr>))
             (ret ()))))))"

definition submitTarotReading ::
  "env \<Rightarrow> string \<Rightarrow> string \<Rightarrow> reading \<Rightarrow> service \<Rightarrow> (world, readingDetail) prog" where
  "submitTarotReading E userId readingId reading service =
     await (find_first ReadingInput (\<lambda>i. in_readingId i = readingId)) (\<lambda>inp. case inp of
       None \<Rightarrow> throw (BadRequestException ''form not filled in'')
     | Some _ \<Rightarrow> (case r_spreadId reading of
           None \<Rightarrow> throw (BadRequestException ''no spread'')
         | Some spreadId \<Rightarrow>
             if spreadId = [] then throw (BadRequestException ''no spread'')
             else
               await (find_or_throw TarotSpread (\<lambda>s. ts_id s = spreadId)) (\<lambda>spread.
               await (find_many SpreadPosition (\<lambda>p. sp_spreadId p = ts_id spread)) (\<lambda>positions.
               await (getActiveDeckCards E DEFAULT_TAROT_DECK_CODE) (\<lambda>deck.
               await (draw E deck (map sp_code (sort_key sp_orderIndex positions))) (\<lambda>draws.
               submit_charged E userId readingId (charge_tarot E userId readingId service draws)
                 (reading_job PROCESS_TAROT_JOB readingId (tarotProcessingJobId readingId))))))))"

definition submit :: "env \<Rightarrow> string \<Rightarrow> string \<Rightarrow> (world, readingDetail) prog" where
  "submit E userId readingId =
     await (findOwnedDraft userId readingId) (\<lambda>reading.
     await (find_or_throw Service (\<lambda>s. s_id s = r_serviceId reading)) (\<lambda>service.
     if isPalmService (s_code service) then submitPalmReading E userId readingId service
     else submitTarotReading E userId readingId reading service))"

section \<open>Retrying\<close>

definition performRetry :: "env \<Rightarrow> reading \<Rightarrow> service \<Rightarrow> (world, unit) prog" where
  "performRetry E reading service =
     (if r_status reading \<noteq> FAILED then throw (BadRequestException ''only failed readings'')
      else
        andthen (update_row Reading (\<lambda>r. r_id r = r_id reading) (\<lambda>r. r\<lparr>r_status := PENDING\<rparr>))
          (if isPalmService (s_code service) then
             await (palmRetryJobId E (r_id reading)) (\<lambda>jobId.
             queue_add (reading_job PROCESS_PALM_JOB (r_id reading) jobId))
           else
             await (tarotRetryJobId E (r_id reading)) (\<lambda>jobId.
             queue_add (reading_job PROCESS_TAROT_JOB (r_id reading) jobId))))"

definition retry :: "env \<Rightarrow> string \<Rightarrow> string \<Rightarrow> (world, readingDetail) prog" where
  "retry E userId readingId =
     await (find_first Reading (\<lambda>r. r_id r = readingId \<and> r_userId r = userId)) (\<lambda>found. case found of
       None \<Rightarrow> throw (NotFoundException ''reading'')
     | Some reading \<Rightarrow>
         await (find_or_throw Service (\<lambda>s. s_id s = r_serviceId reading)) (\<lambda>service.
         andthen (performRetry E reading service) (findOneForUser E userId readingId)))"

definition retryAsAdmin :: "env \<Rightarrow> string \<Rightarrow> (world, readingDetail) prog" where
  "retryAsAdmin E readingId =
     await (find_first Reading (\<lambda>r. r_id r = readingId)) (\<lambda>found. case found of
       None \<Rightarrow> throw (NotFoundException ''reading'')
     | Some reading \<Rightarrow>
         await (find_or_throw Service (\<lambda>s. s_id s = r_serviceId reading)) (\<lambda>service.
         andthen (performRetry E reading service) (findOneForUser E (r_userId reading) readingId)))"

section \<open>Removing\<close>

text \<open>\<open>Promise.all\<close>: every object is deleted, and the first error is thrown at the end.\<close>

primrec delete_objects :: "env \<Rightarrow> string list \<Rightarrow> (world, exn option) prog" where
  "delete_objects E [] = ret None"
| "delete_objects E (k # ks) =
     await (try_catch (andthen (deleteObject E k) (ret None)) (\<lambda>e. ret (Some e))) (\<lambda>e.
     await (delete_objects E ks) (\<lambda>e'.
     ret (case e of None \<Rightarrow> e' | Some x \<Rightarrow> Some x)))"

text \<open>\<open>reading.delete\<close> with the foreign keys of the schema: cascades, and references set to null.\<close>

definition reading_delete :: "string \<Rightarrow> (world, unit) prog" where
  "reading_delete readingId =
     andthen (find_or_throw Reading (\<lambda>r. r_id r = readingId))
     (await (find_many ShareLink (\<lambda>l. sl_readingId l = readingId)) (\<lambda>links.
      andthen (delete_many ReadingInput (\<lambda>i. in_readingId i = readingId))
      (andthen (delete_many TarotDraw (\<lambda>d. dr_readingId d = readingId))
      (andthen (delete_many PalmImage (\<lambda>i. pi_readingId i = readingId))
      (andthen (delete_many CreditReservation (\<lambda>c. cr_readingId c = readingId))
      (andthen (update_many AnalyticsEvent (\<lambda>e. case ae_shareLinkId e of None \<Rightarrow> False | Some l \<Rightarrow> l \<in> sl_id ` set links)
          (\<lambda>e. e\<lparr>ae_shareLinkId := None\<rparr>))
      (andthen (delete_many ShareLink (\<lambda>l. sl_readingId l = readingId))
      (andthen (update_many WalletTransaction (\<lambda>t. t_readingId t = Some readingId) (\<lambda>t. t\<lparr>t_readingId := None\<rparr>))
      (andthen (update_many AIExecution (\<lambda>x. ai_readingId x = Some readingId) (\<lambda>x. x\<lparr>ai_readingId := None\<rparr>))
        (delete_many Reading (\<lambda>r. r_id r = readingId)))))))))))"

definition remove :: "env \<Rightarrow> string \<Rightarrow> string \<Rightarrow> (world, unit) prog" where
  "remove E userId readingId =
     andthen (findOwnedDraft userId readingId)
     (await (find_many PalmImage (\<lambda>i. pi_readingId i = readingId)) (\<lambda>imgs.
      await (delete_objects E (map pi_storageKey imgs)) (\<lambda>e. case e of
        Some x \<Rightarrow> throw x
      | None \<Rightarrow> transaction (reading_delete readingId))))"

section \<open>The listing of the administrators\<close>

definition readings_listAllForAdmin ::
  "nat \<Rightarrow> nat \<Rightarrow> readingStatus option \<Rightarrow> (world, adminReadingSummary paginated) prog" where
  "readings_listAllForAdmin page pageSize status =
     await (find_many Reading (\<lambda>r. status = None \<or> status = Some (r_status r))) (\<lambda>items.
     await (count_rows Reading (\<lambda>r. status = None \<or> status = Some (r_status r))) (\<lambda>total.
     await (map_each (\<lambda>r.
         await (find_or_throw Service (\<lambda>s. s_id s = r_serviceId r)) (\<lambda>s.
         await (find_or_throw User (\<lambda>u. u_id u = r_userId r)) (\<lambda>u.
         ret (toAdminReadingSummary r s u)))) (page_of page pageSize (order_desc r_createdAt items))) (\<lambda>rows.
     ret \<lparr>pg_items = rows, pg_total = total, pg_page = page, pg_pageSize = pageSize\<rparr>)))"

end
