(* ===== verification/ReadingLaws.thy ===== *)
theory ReadingLaws
  imports ReadingsService RewardProperties WalletProperties
begin

text \<open>
  What the operations on readings leave alone (the calculus \<open>same\<close>), and the contract of charging a
  submission, which both kinds of reading meet.
\<close>

section \<open>What a program leaves alone\<close>

definition same :: "(world \<Rightarrow> 'b) \<Rightarrow> (world, 'a) prog \<Rightarrow> bool" where
  "same f m = (\<forall>w. f (snd (m w)) = f w)"

named_theorems same_intro "programs that leave a part of the world alone"

lemma same_run: "same f m \<Longrightarrow> m w = (r, w') \<Longrightarrow> f w' = f w"
  by (metis same_def snd_conv)

lemma sameI: "(\<And>w r w'. m w = (r, w') \<Longrightarrow> f w' = f w) \<Longrightarrow> same f m"
  by (simp add: same_def) (metis prod.collapse)

lemma same_await [same_intro]:
  assumes "same f m" "\<And>x. same f (k x)"
  shows "same f (await m k)"
proof (rule sameI)
  fix w r w' assume run: "await m k w = (r, w')"
  obtain x u where m: "m w = (x, u)" by (cases "m w")
  then have "f u = f w" by (rule same_run [OF assms(1)])
  with run m show "f w' = f w" by (cases x) (auto simp: await_def dest: same_run [OF assms(2)])
qed

lemma same_try_catch [same_intro]:
  assumes "same f m" "\<And>e. same f (h e)"
  shows "same f (try_catch m h)"
proof (rule sameI)
  fix w r w' assume run: "try_catch m h w = (r, w')"
  obtain x u where m: "m w = (x, u)" by (cases "m w")
  then have "f u = f w" by (rule same_run [OF assms(1)])
  with run m show "f w' = f w" by (cases x) (auto simp: try_catch_def dest: same_run [OF assms(2)])
qed

lemma same_andthen [same_intro]: "same f m \<Longrightarrow> same f k \<Longrightarrow> same f (andthen m k)"
  by (simp add: andthen_def same_await)

lemma same_prim [same_intro]:
  "same f (ret x)" "same f (throw e)" "same f (gets g)" "same f (throw_if c e)" "same f (find_first T P)"
  "same f (find_many T P)" "same f (count_rows T P)" "same f (find_first_desc T key P)"
  by (simp_all add: same_def)

lemma same_find_or_throw [same_intro]: "same f (find_or_throw T P)"
  unfolding find_or_throw_def by (rule same_await [OF same_prim(5)]) (auto simp: same_def split: option.split)

lemma same_branch [same_intro]:
  "(c \<Longrightarrow> same f m) \<Longrightarrow> (\<not> c \<Longrightarrow> same f n) \<Longrightarrow> same f (if c then m else n)"
  "(x = None \<Longrightarrow> same f m) \<Longrightarrow> (\<And>y. x = Some y \<Longrightarrow> same f (k y)) \<Longrightarrow> same f (case x of None \<Rightarrow> m | Some y \<Rightarrow> k y)"
  "(\<And>y. s = Inl y \<Longrightarrow> same f (g y)) \<Longrightarrow> (\<And>y. s = Inr y \<Longrightarrow> same f (h y)) \<Longrightarrow> same f (case s of Inl y \<Rightarrow> g y | Inr y \<Rightarrow> h y)"
  "(\<And>a b. p = (a, b) \<Longrightarrow> same f (q a b)) \<Longrightarrow> same f (case p of (a, b) \<Rightarrow> q a b)"
  by (simp, cases x, auto, cases s, auto, cases p, auto)

lemma same_for_each [same_intro]: "(\<And>x. same f (body x)) \<Longrightarrow> same f (for_each body xs)"
  by (induction xs) (auto intro: same_intro)

lemma same_map_each [same_intro]: "(\<And>x. same f (body x)) \<Longrightarrow> same f (map_each body xs)"
  by (induction xs) (auto intro!: same_intro)

text \<open>Supplies and the cache touch neither the database nor the queue; a table touches no queue.\<close>

lemma same_modify: "(\<And>w. f (g w) = f w) \<Longrightarrow> same f (modify g)"
  by (simp add: same_def)

lemma same_supplies [same_intro]:
  "same db (date_now E)" "same jobs (date_now E)" "same db (random_uuid E)" "same jobs (random_uuid E)"
  "same db (random_int E n)" "same jobs (random_int E n)"
  by (simp_all add: same_def)

lemma same_cache [same_intro]:
  "same db (cache_get E k)" "same jobs (cache_get E k)" "same db (cache_set E k v ttl)" "same jobs (cache_set E k v ttl)"
  unfolding cache_get_def cache_set_def by (intro same_intro same_modify; simp)+

lemma same_remember [same_intro]:
  "same db m \<Longrightarrow> same db (remember E k ttl m)" "same jobs m \<Longrightarrow> same jobs (remember E k ttl m)"
  unfolding remember_def by (intro same_intro; assumption)+

lemma same_jobs_table [same_intro]:
  "same jobs (create T r)" "same jobs (update_many T P f)" "same jobs (update_row T P f)" "same jobs (delete_many T P)"
  by (simp_all add: same_def create_def update_many_def update_row_def delete_many_def split: option.split)

lemma same_jobs_transaction [same_intro]: "same jobs m \<Longrightarrow> same jobs (transaction m)"
  by (rule sameI) (auto simp: transaction_def split: prod.splits sum.splits dest: same_run)

lemma same_queue_add [same_intro]: "same db (queue_add j)"
  by (simp add: same_def queue_add_def)

lemma queue_add_run: "\<exists>w'. queue_add j w = (Inr (), w') \<and> (\<exists>k \<in> set (jobs w'). j_queue k = j_queue j \<and> j_jobId k = j_jobId j)"
  by (auto simp: queue_add_def list_ex_iff)

section \<open>Reading is only reading\<close>

lemma same_detail [same_intro]: "same f (readings_detail E r)" "same f (findOneForUser E u rid)" "same f (findOwnedDraft u rid)"
  unfolding findOneForUser_def findOwnedDraft_def readings_detail_def getActiveShareLinkSummary_def by (intro same_intro)+

lemma same_validate [same_intro]: "same f (validateReadingAnswers s a)"
proof (rule sameI)
  fix w r w' assume "validateReadingAnswers s a w = (r, w')"
  then show "f w' = f w"
    by (auto simp: validateReadingAnswers_def split: json.splits option.splits)
qed

lemma same_deck [same_intro]: "same db (getActiveDeckCards E c)" "same jobs (getActiveDeckCards E c)"
  unfolding getActiveDeckCards_def by (intro same_intro)+

lemma same_draw [same_intro]: "same db (draw E deck ps)" "same jobs (draw E deck ps)"
proof -
  have loop: "same db (draw_loop E pool ps)" "same jobs (draw_loop E pool ps)" for pool
    by (induction ps arbitrary: pool) (auto intro!: same_intro)
  show "same db (draw E deck ps)" "same jobs (draw E deck ps)"
    unfolding draw_def by (intro same_intro loop)+
qed

section \<open>The contract of charging\<close>

definition submit_price :: "string \<Rightarrow> service \<Rightarrow> database \<Rightarrow> int" where
  "submit_price u s d =
     (if s_code s = AD_UNLOCKABLE_TAROT_SERVICE_CODE \<and> 5 \<le> progress_of u TAROT_READING_UNLOCK d then 0
      else s_creditCost s)"

text \<open>From \<open>d\<close> to \<open>d'\<close> the user \<open>u\<close> was charged \<open>a\<close> for the reading \<open>rid\<close>, with cards for the positions.\<close>

definition charged_for :: "string \<Rightarrow> string \<Rightarrow> int \<Rightarrow> string list \<Rightarrow> database \<Rightarrow> database \<Rightarrow> bool" where
  "charged_for u rid a positions d d' =
     ((\<exists>b. balance_of u d = Some b \<and> a \<le> b \<and> balance_of u d' = Some (b - a)) \<and>
      held_by rid d = None \<and> held_by rid d' = Some (u, a) \<and>
      (\<exists>ds. tarotDraws d' = tarotDraws d @ ds \<and> map dr_position ds = positions \<and> (\<forall>x \<in> set ds. dr_readingId x = rid)) \<and>
      (\<exists>x \<in> set (readings d'). r_id x = rid \<and> r_status x = PENDING \<and> r_submittedAt x \<noteq> None))"

locale charging =
  fixes u rid :: string and cost :: "database \<Rightarrow> int" and positions :: "string list"
    and charge :: "(world, unit) prog"
  assumes charge_failed: "charge w = (Inl e, w') \<Longrightarrow> db w' = db w"
    and charge_jobs: "same jobs charge"
    and charge_done: "wallet_inv (db w) \<Longrightarrow> rewards_inv (db w) \<Longrightarrow> charge w = (Inr x, w') \<Longrightarrow>
      charged_for u rid (cost (db w)) positions (db w) (db w')"
begin

lemma submitted:
  assumes "wallet_inv (db w)" "rewards_inv (db w)" and run: "submit_charged E u rid charge j w = (r, w')"
  shows "db w' = db w \<and> jobs w' = jobs w \<or>
    charged_for u rid (cost (db w)) positions (db w) (db w') \<and>
    (\<exists>k \<in> set (jobs w'). j_queue k = j_queue j \<and> j_jobId k = j_jobId j)"
proof (cases "charge w")
  case (Pair x w1)
  have jobs1: "jobs w1 = jobs w" using same_run [OF charge_jobs Pair] .
  show ?thesis
  proof (cases x)
    case (Inl e)
    have "db w1 = db w" using Pair Inl charge_failed by simp
    moreover have "db w' = db w1 \<and> jobs w' = jobs w1"
      using run Pair Inl same_run [OF same_detail(2) [of db E u rid]] same_run [OF same_detail(2) [of jobs E u rid]]
      by (auto simp: submit_charged_def await_def andthen_def try_catch_def split: if_splits)
    ultimately show ?thesis using jobs1 by simp
  next
    case (Inr y)
    have paid: "charged_for u rid (cost (db w)) positions (db w) (db w1)"
      using Pair Inr charge_done assms(1,2) by simp
    obtain w2 where q: "queue_add j w1 = (Inr (), w2)" "\<exists>k \<in> set (jobs w2). j_queue k = j_queue j \<and> j_jobId k = j_jobId j"
      using queue_add_run by blast
    have "findOneForUser E u rid w2 = (r, w')"
      using run Pair Inr q(1) by (simp add: submit_charged_def await_def andthen_def try_catch_def)
    then have "db w' = db w2" "jobs w' = jobs w2" using same_detail(2) same_run by blast+
    with paid q same_run [OF same_queue_add q(1)] show ?thesis by simp
  qed
qed

end

lemma held_by_same:
  "wallets d' = wallets d \<Longrightarrow> creditReservations d' = creditReservations d \<Longrightarrow> held_by rid d' = held_by rid d"
  by (simp add: held_by_def active_reservation_def split: option.split)

lemma reserve_frame:
  assumes "wallet_inv (db w)" "reserveCreditsForReading E u rid a w = (Inr x, w')"
  shows "tarotDraws (db w') = tarotDraws (db w)" "readings (db w') = readings (db w)"
  by (rule reserve_Inr [OF assms(2) wallet_invD(1) [OF assms(1)]], simp)+

lemma pending_run:
  assumes "await (date_now E) (\<lambda>now. andthen (update_row Reading (\<lambda>r. r_id r = rid)
     (\<lambda>r. r\<lparr>r_status := PENDING, r_submittedAt := Some now\<rparr>)) (ret ())) w = (Inr x, w')"
  shows "\<exists>rs. db w' = (db w)\<lparr>readings := rs\<rparr> \<and> (\<exists>x \<in> set rs. r_id x = rid \<and> r_status x = PENDING \<and> r_submittedAt x \<noteq> None)"
proof -
  let ?f = "\<lambda>r. if r_id r = rid then r\<lparr>r_status := PENDING, r_submittedAt := Some (e_clock E (ticks w))\<rparr> else r"
  obtain r where r: "find (\<lambda>r. r_id r = rid) (readings (db w)) = Some r"
    and w': "db w' = (db w)\<lparr>readings := map ?f (readings (db w))\<rparr>"
    using assms by (auto simp: await_Inr_iff andthen_Inr_iff update_row_Inr_iff Reading_def)
  have "\<exists>x \<in> set (map ?f (readings (db w))). r_id x = rid \<and> r_status x = PENDING \<and> r_submittedAt x \<noteq> None"
    using find_SomeD [OF r] unfolding bex_map_update by auto
  with w' show ?thesis by blast
qed

lemma draws_run:
  assumes "for_each (create_draw E rid) ds w = (Inr x, w')"
  shows "\<exists>new. db w' = (db w)\<lparr>tarotDraws := tarotDraws (db w) @ new\<rparr> \<and> map dr_position new = map d_position ds \<and>
     (\<forall>x \<in> set new. dr_readingId x = rid)"
  using assms
proof (induction ds arbitrary: w)
  case (Cons d ds)
  then obtain y w1 where 1: "create_draw E rid d w = (Inr y, w1)" and 2: "for_each (create_draw E rid) ds w1 = (Inr x, w')"
    by (auto simp: andthen_Inr_iff)
  then obtain row where "db w1 = (db w)\<lparr>tarotDraws := tarotDraws (db w) @ [row]\<rparr>" "dr_position row = d_position d" "dr_readingId row = rid"
    by (auto simp: create_draw_def prog_inv db_inv TarotDraw_def)
  moreover obtain new where "db w' = (db w1)\<lparr>tarotDraws := tarotDraws (db w1) @ new\<rparr>" "map dr_position new = map d_position ds"
    "\<forall>x \<in> set new. dr_readingId x = rid"
    using Cons.IH [OF 2] by blast
  ultimately show ?case by (intro exI [of _ "row # new"]) simp
qed simp

text \<open>Reserving, then marking the reading as pending.\<close>

lemma charge_core:
  assumes inv: "wallet_inv (db w)" and res: "reserveCreditsForReading E u rid a w = (Inr x, w1)"
    and dr: "db w2 = (db w1)\<lparr>tarotDraws := tarotDraws (db w1) @ new\<rparr>" "map dr_position new = pos"
      "\<forall>x \<in> set new. dr_readingId x = rid"
    and rs: "db w3 = (db w2)\<lparr>readings := rs\<rparr>" "\<exists>x \<in> set rs. r_id x = rid \<and> r_status x = PENDING \<and> r_submittedAt x \<noteq> None"
  shows "charged_for u rid a pos (db w) (db w3)"
proof -
  note law = wallet_reserve_law [OF inv res] and frame = reserve_frame [OF inv res]
  have "balance_of u (db w3) = balance_of u (db w1)" "held_by rid (db w3) = held_by rid (db w1)"
    by (rule balance_of_same held_by_same; simp add: rs dr)+
  with law frame rs dr show ?thesis unfolding charged_for_def by auto
qed

interpretation palm: charging u rid "\<lambda>d. s_creditCost s" "[]" "charge_palm E u rid s" for u rid s E
proof
  show "charge_palm E u rid s w = (Inl e, w') \<Longrightarrow> db w' = db w" for w e w'
    by (auto simp: charge_palm_def dest: transaction_error_db)
  have reserve: "same jobs (reserveCreditsForReading E u rid a)" for a
    unfolding reserveCreditsForReading_def ledger_create_def by (intro same_intro)
  then show "same jobs (charge_palm E u rid s)"
    unfolding charge_palm_def by (intro same_intro)
  fix w x w' assume inv: "wallet_inv (db w)" and run: "charge_palm E u rid s w = (Inr x, w')"
  from run obtain y w1 where 1: "reserveCreditsForReading E u rid (s_creditCost s) w = (Inr y, w1)"
    and 2: "await (date_now E) (\<lambda>now. andthen (update_row Reading (\<lambda>r. r_id r = rid)
       (\<lambda>r. r\<lparr>r_status := PENDING, r_submittedAt := Some now\<rparr>)) (ret ())) w1 = (Inr x, w')"
    unfolding charge_palm_def transaction_Inr_iff by (rule andthen_InrE)
  obtain rs where "db w' = (db w1)\<lparr>readings := rs\<rparr>" "\<exists>x \<in> set rs. r_id x = rid \<and> r_status x = PENDING \<and> r_submittedAt x \<noteq> None"
    using pending_run [OF 2] by blast
  then show "charged_for u rid (s_creditCost s) [] (db w) (db w')"
    using charge_core [OF inv 1, of w1 "[]" "[]" w' rs] by simp
qed

interpretation tarot: charging u rid "submit_price u s" "map d_position ds" "charge_tarot E u rid s ds" for u rid s ds E
proof
  show "charge_tarot E u rid s ds w = (Inl e, w') \<Longrightarrow> db w' = db w" for w e w'
    by (auto simp: charge_tarot_def dest: transaction_error_db)
  have reserve: "same jobs (reserveCreditsForReading E u rid a)" for a
    unfolding reserveCreditsForReading_def ledger_create_def by (intro same_intro)
  have "same jobs (create_draw E rid d)" for d
    unfolding create_draw_def by (intro same_intro)
  with reserve show "same jobs (charge_tarot E u rid s ds)"
    unfolding charge_tarot_def tryConsumeUnlock_def by (intro same_intro)
  fix w x w' assume inv: "wallet_inv (db w)" "rewards_inv (db w)" and run: "charge_tarot E u rid s ds w = (Inr x, w')"
  from run obtain a w0 where 0: "(if s_code s = AD_UNLOCKABLE_TAROT_SERVICE_CODE then
            await (tryConsumeUnlock u TAROT_READING_UNLOCK) (\<lambda>unlockedViaAds.
            ret (if unlockedViaAds then 0 else s_creditCost s))
          else ret (s_creditCost s)) w = (Inr a, w0)"
    and rest: "andthen (reserveCreditsForReading E u rid a)
        (andthen (for_each (create_draw E rid) ds)
          (await (date_now E) (\<lambda>now. andthen (update_row Reading (\<lambda>r. r_id r = rid)
               (\<lambda>r. r\<lparr>r_status := PENDING, r_submittedAt := Some now\<rparr>)) (ret ())))) w0 = (Inr x, w')"
    unfolding charge_tarot_def transaction_Inr_iff by (rule await_InrE)
  from rest obtain y1 w1 y2 w2 where 1: "reserveCreditsForReading E u rid a w0 = (Inr y1, w1)"
    and 2: "for_each (create_draw E rid) ds w1 = (Inr y2, w2)"
    and 3: "await (date_now E) (\<lambda>now. andthen (update_row Reading (\<lambda>r. r_id r = rid)
               (\<lambda>r. r\<lparr>r_status := PENDING, r_submittedAt := Some now\<rparr>)) (ret ())) w2 = (Inr x, w')"
    by (auto elim!: andthen_InrE)
  have start: "a = submit_price u s (db w) \<and> (\<exists>ps. db w0 = (db w)\<lparr>rewardProgresses := ps\<rparr>)"
  proof (cases "s_code s = AD_UNLOCKABLE_TAROT_SERVICE_CODE")
    case True
    obtain r w4 where c: "tryConsumeUnlock u TAROT_READING_UNLOCK w = (r, w4)" by (cases "tryConsumeUnlock u TAROT_READING_UNLOCK w")
    with 0 True consume_run(1,3) [OF inv(2) c] show ?thesis
      by (auto simp: await_def submit_price_def)
  next
    case False
    with 0 show ?thesis by (auto simp: submit_price_def intro!: exI [of _ "rewardProgresses (db w)"])
  qed
  then obtain ps where ps: "db w0 = (db w)\<lparr>rewardProgresses := ps\<rparr>" by blast
  have inv0: "wallet_inv (db w0)" using inv(1) by (simp add: ps wallet_inv_def)
  obtain new where new: "db w2 = (db w1)\<lparr>tarotDraws := tarotDraws (db w1) @ new\<rparr>" "map dr_position new = map d_position ds"
    "\<forall>x \<in> set new. dr_readingId x = rid" using draws_run [OF 2] by blast
  obtain rs where rs: "db w' = (db w2)\<lparr>readings := rs\<rparr>" "\<exists>x \<in> set rs. r_id x = rid \<and> r_status x = PENDING \<and> r_submittedAt x \<noteq> None"
    using pending_run [OF 3] by blast
  have "charged_for u rid a (map d_position ds) (db w0) (db w')"
    by (rule charge_core [OF inv0 1 new rs])
  then show "charged_for u rid (submit_price u s (db w)) (map d_position ds) (db w) (db w')"
    using start balance_of_same [of "db w0" "db w" u] held_by_same [of "db w0" "db w" rid]
    by (simp add: charged_for_def ps)
qed

end
