(* ===== verification/ReadingProperties.thy ===== *)
theory ReadingProperties
  imports ReadingLaws
begin

text \<open>
  What the operations on readings do: who may change what, what a submission costs and leaves behind,
  and which uploaded images are accepted.
\<close>

section \<open>Drafts of their owner\<close>

text \<open>
  Only the owner of a draft can change it: for any other user, and for a reading that was already
  submitted, the request to fill it in, to upload or confirm an image, to submit it or to remove it is
  answered with an error and leaves the whole world as it was.
\<close>

theorem only_own_drafts_change:
  assumes "\<forall>r \<in> set (readings (db w)). r_id r = rid \<and> r_userId r = u \<longrightarrow> r_status r \<noteq> DRAFT"
  shows "\<exists>e. (e = NotFoundException ''reading'' \<or> e = BadRequestException ''reading already submitted'') \<and>
    updateInputs E u rid answers w = (Inl e, w) \<and> presignImage E u rid contentType w = (Inl e, w) \<and>
    confirmImage E u rid key w = (Inl e, w) \<and> submit E u rid w = (Inl e, w) \<and> remove E u rid w = (Inl e, w)"
proof -
  have "\<exists>e. (e = NotFoundException ''reading'' \<or> e = BadRequestException ''reading already submitted'') \<and>
      findOwnedDraft u rid w = (Inl e, w)"
  proof (cases "find (\<lambda>r. r_id r = rid \<and> r_userId r = u) (readings (db w))")
    case (Some r)
    with find_SomeD [OF Some] assms show ?thesis by (simp add: findOwnedDraft_def await_def Reading_def)
  qed (simp add: findOwnedDraft_def await_def Reading_def)
  then obtain e where e: "e = NotFoundException ''reading'' \<or> e = BadRequestException ''reading already submitted''"
    "findOwnedDraft u rid w = (Inl e, w)" by blast
  show ?thesis
    by (intro exI [of _ e] conjI e(1))
      (simp_all add: updateInputs_def presignImage_def confirmImage_def submit_def remove_def andthen_def await_def e(2))
qed

definition reading_example :: "readingStatus \<Rightarrow> string \<Rightarrow> reading" where
  "reading_example st service = \<lparr>r_id = ''r'', r_userId = ''u'', r_serviceId = service, r_spreadId = Some ''sp'',
     r_promptVersionId = None, r_status = st, r_submittedAt = None, r_createdAt = 0\<rparr>"

definition service_example :: "string \<Rightarrow> string \<Rightarrow> int \<Rightarrow> service" where
  "service_example i code cost = \<lparr>s_id = i, s_code = code, s_name = [], s_description = None, s_creditCost = cost,
     s_isActive = True, s_createdAt = 0, s_updatedAt = 0\<rparr>"

lemma only_own_drafts_change_witness:
  "\<exists>e. remove example_env ''other'' ''r'' (empty_world\<lparr>db := empty_database\<lparr>readings := [reading_example DRAFT ''s'']\<rparr>\<rparr>) =
     (Inl e, empty_world\<lparr>db := empty_database\<lparr>readings := [reading_example DRAFT ''s'']\<rparr>\<rparr>)"
proof -
  have "\<forall>r \<in> set (readings (db (empty_world\<lparr>db := empty_database\<lparr>readings := [reading_example DRAFT ''s'']\<rparr>\<rparr>))).
      r_id r = ''r'' \<and> r_userId r = ''other'' \<longrightarrow> r_status r \<noteq> DRAFT"
    by (simp add: reading_example_def)
  from only_own_drafts_change [OF this] show ?thesis by blast
qed

section \<open>Submission\<close>

lemma draw_positions:
  "draw E deck ps w = (Inr ds, w') \<Longrightarrow> map d_position ds = ps"
proof -
  have "draw_loop E pool ps w = (Inr ds, w') \<Longrightarrow> map d_position ds = ps" for pool ps w ds w'
    by (induction ps arbitrary: pool w ds) (auto simp: await_Inr_iff split: if_splits)
  then show "draw E deck ps w = (Inr ds, w') \<Longrightarrow> map d_position ds = ps"
    by (auto simp: draw_def split: if_splits)
qed

lemma palm_price: "isPalmService (s_code s) \<Longrightarrow> submit_price u s d = s_creditCost s"
  by (auto simp: submit_price_def isPalmService_def js_in_def js_get_def PALM_SERVICE_IMAGE_SLOTS_def
      AD_UNLOCKABLE_TAROT_SERVICE_CODE_def object_prototype_keys_def)

definition queued :: "string \<Rightarrow> world \<Rightarrow> bool" where
  "queued jobId w = (\<exists>k \<in> set (jobs w). j_queue k = ''reading-processing'' \<and> j_jobId k = jobId)"

text \<open>What a submission needs, and the positions it draws cards for.\<close>

definition ready_to_submit :: "reading \<Rightarrow> service \<Rightarrow> string list \<Rightarrow> database \<Rightarrow> bool" where
  "ready_to_submit rd s positions d =
     (if isPalmService (s_code s) then positions = [] \<and>
        \<not> fewer_than (length (filter (\<lambda>i. pi_readingId i = r_id rd \<and> pi_status i = VALID) (palmImages d)))
          (requiredPalmImageSlots (s_code s))
      else positions = map sp_code (sort_key sp_orderIndex (filter (\<lambda>p. r_spreadId rd = Some (sp_spreadId p)) (spreadPositions d))) \<and>
        (\<exists>i \<in> set (readingInputs d). in_readingId i = r_id rd))"

definition process_job_id :: "service \<Rightarrow> string \<Rightarrow> string" where
  "process_job_id s rid = (if isPalmService (s_code s) then palmProcessingJobId rid else tarotProcessingJobId rid)"

lemma tarot_submission:
  assumes inv: "wallet_inv (db w)" "rewards_inv (db w)" and run: "submitTarotReading E u rid rd s w = (r, w')"
    and rd: "r_id rd = rid" "\<not> isPalmService (s_code s)"
  shows "db w' = db w \<and> jobs w' = jobs w \<or>
    (\<exists>positions. ready_to_submit rd s positions (db w) \<and> charged_for u rid (submit_price u s (db w)) positions (db w) (db w') \<and>
      queued (process_job_id s rid) w')"
proof -
  let ?j = "reading_job PROCESS_TAROT_JOB rid (tarotProcessingJobId rid)"
  consider (quit) "db w' = db w \<and> jobs w' = jobs w"
    | (go) i ds w2 where "i \<in> set (readingInputs (db w))" "in_readingId i = rid" "db w2 = db w" "jobs w2 = jobs w"
      "map d_position ds = map sp_code (sort_key sp_orderIndex (filter (\<lambda>p. r_spreadId rd = Some (sp_spreadId p)) (spreadPositions (db w))))"
      "submit_charged E u rid (charge_tarot E u rid s ds) ?j w2 = (r, w')"
  proof -
    obtain i where i: "find (\<lambda>i. in_readingId i = rid) (readingInputs (db w)) = Some i \<or> db w' = db w \<and> jobs w' = jobs w"
      using run by (cases "find (\<lambda>i. in_readingId i = rid) (readingInputs (db w))")
        (auto simp: submitTarotReading_def await_def ReadingInput_def)
    obtain sid where sid: "r_spreadId rd = Some sid \<and> sid \<noteq> [] \<or> db w' = db w \<and> jobs w' = jobs w"
      using run by (cases "r_spreadId rd")
        (auto simp: submitTarotReading_def await_def ReadingInput_def split: option.splits if_splits)
    show thesis
    proof (cases "db w' = db w \<and> jobs w' = jobs w")
      case False
      with i sid have i: "find (\<lambda>i. in_readingId i = rid) (readingInputs (db w)) = Some i" and sid: "r_spreadId rd = Some sid" "sid \<noteq> []"
        by auto
      have eq: "await (find_or_throw TarotSpread (\<lambda>s. ts_id s = sid)) (\<lambda>spread.
          await (find_many SpreadPosition (\<lambda>p. sp_spreadId p = ts_id spread)) (\<lambda>positions.
          await (getActiveDeckCards E DEFAULT_TAROT_DECK_CODE) (\<lambda>deck.
          await (draw E deck (map sp_code (sort_key sp_orderIndex positions))) (\<lambda>draws.
          submit_charged E u rid (charge_tarot E u rid s draws) ?j)))) w = (r, w')"
        using run i sid by (simp add: submitTarotReading_def await_def ReadingInput_def)
      obtain spread where spread: "find (\<lambda>s. ts_id s = sid) (tarotSpreads (db w)) = Some spread"
        using eq False by (cases "find (\<lambda>s. ts_id s = sid) (tarotSpreads (db w))")
          (auto simp: await_def find_or_throw_run TarotSpread_def)
      then have sid': "ts_id spread = sid" by (auto dest: find_SomeD)
      let ?ps = "map sp_code (sort_key sp_orderIndex (filter (\<lambda>p. r_spreadId rd = Some (sp_spreadId p)) (spreadPositions (db w))))"
      have eq2: "await (getActiveDeckCards E DEFAULT_TAROT_DECK_CODE) (\<lambda>deck. await (draw E deck ?ps) (\<lambda>draws.
          submit_charged E u rid (charge_tarot E u rid s draws) ?j)) w = (r, w')"
      proof -
        have "filter (\<lambda>p. r_spreadId rd = Some (sp_spreadId p)) (spreadPositions (db w)) =
            filter (\<lambda>p. sp_spreadId p = ts_id spread) (spreadPositions (db w))"
          using sid sid' by (intro filter_cong) auto
        with eq spread show ?thesis by (simp add: await_def find_or_throw_run TarotSpread_def SpreadPosition_def)
      qed
      obtain x w1 where deck: "getActiveDeckCards E DEFAULT_TAROT_DECK_CODE w = (x, w1)" by fastforce
      have w1: "db w1 = db w" "jobs w1 = jobs w" using deck same_deck same_run by blast+
      obtain cards where x: "x = Inr cards" using eq2 deck w1 False by (cases x) (auto simp: await_def)
      obtain y w2 where drawn: "draw E cards ?ps w1 = (y, w2)" by fastforce
      have w2: "db w2 = db w" "jobs w2 = jobs w" using drawn same_draw same_run w1 by metis+
      obtain ds where y: "y = Inr ds" using eq2 deck x drawn w2 False by (cases y) (auto simp: await_def)
      show thesis
        by (rule go [of i w2 ds]) (use find_SomeD [OF i] w2 draw_positions drawn y eq2 deck x in \<open>auto simp: await_def\<close>)
    qed (rule quit)
  qed
  then show ?thesis
  proof cases
    case go
    have "db w' = db w2 \<and> jobs w' = jobs w2 \<or>
        charged_for u rid (submit_price u s (db w2)) (map d_position ds) (db w2) (db w') \<and>
        (\<exists>k \<in> set (jobs w'). j_queue k = j_queue ?j \<and> j_jobId k = j_jobId ?j)"
      by (rule tarot.submitted [OF _ _ go(6)]) (simp_all add: go(3) inv)
    moreover have "ready_to_submit rd s (map d_position ds) (db w)"
      using go rd by (auto simp: ready_to_submit_def)
    ultimately show ?thesis
      using go rd by (auto simp: queued_def process_job_id_def reading_job_def)
  qed simp
qed

lemma palm_submission:
  assumes inv: "wallet_inv (db w)" "rewards_inv (db w)" and run: "submitPalmReading E u rid s w = (r, w')"
    and rd: "r_id rd = rid" and kind: "isPalmService (s_code s)"
  shows "db w' = db w \<and> jobs w' = jobs w \<or> (\<exists>positions. ready_to_submit rd s positions (db w) \<and>
    charged_for u rid (submit_price u s (db w)) positions (db w) (db w') \<and> queued (process_job_id s rid) w')"
proof (cases "fewer_than (length (filter (\<lambda>i. pi_readingId i = rid \<and> pi_status i = VALID) (palmImages (db w))))
    (requiredPalmImageSlots (s_code s))")
  case True
  with run show ?thesis by (auto simp: submitPalmReading_def await_def PalmImage_def)
next
  case False
  let ?j = "reading_job PROCESS_PALM_JOB rid (palmProcessingJobId rid)"
  have "submit_charged E u rid (charge_palm E u rid s) ?j w = (r, w')"
    using run False by (simp add: submitPalmReading_def await_def PalmImage_def)
  from palm.submitted [OF inv this]
  have "db w' = db w \<and> jobs w' = jobs w \<or>
      charged_for u rid (submit_price u s (db w)) [] (db w) (db w') \<and> queued (process_job_id s rid) w'"
    using kind by (auto simp: queued_def process_job_id_def reading_job_def palm_price)
  moreover have "ready_to_submit rd s [] (db w)"
    using False kind rd by (simp add: ready_to_submit_def)
  ultimately show ?thesis by blast
qed

text \<open>A submission that does not end at once submits a draft of the user, of either kind.\<close>

lemma submit_cases:
  assumes run: "submit E u rid w = (r, w')"
  shows "db w' = db w \<and> jobs w' = jobs w \<or> (\<exists>rd s. rd \<in> set (readings (db w)) \<and> r_id rd = rid \<and> r_userId rd = u \<and>
    r_status rd = DRAFT \<and> s \<in> set (services (db w)) \<and> s_id s = r_serviceId rd \<and>
    (if isPalmService (s_code s) then submitPalmReading E u rid s w = (r, w') else submitTarotReading E u rid rd s w = (r, w')))"
proof (cases "findOwnedDraft u rid w")
  case (Pair x w1)
  have same1: "db w1 = db w" "jobs w1 = jobs w" using Pair same_detail(3) same_run by blast+
  show ?thesis
  proof (cases x)
    case (Inl e)
    with run Pair same1 show ?thesis by (simp add: submit_def await_def)
  next
    case (Inr rd)
    with Pair have rd: "rd \<in> set (readings (db w))" "r_id rd = rid" "r_userId rd = u" "r_status rd = DRAFT" and w1: "w1 = w"
      by (auto simp: findOwnedDraft_def await_def Reading_def split: option.splits if_splits dest!: find_SomeD)
    show ?thesis
    proof (cases "find (\<lambda>s. s_id s = r_serviceId rd) (services (db w))")
      case None
      with run Pair Inr w1 show ?thesis by (auto simp: submit_def await_def find_or_throw_run Service_def)
    next
      case (Some s)
      with run Pair Inr w1 have "if isPalmService (s_code s) then submitPalmReading E u rid s w = (r, w')
          else submitTarotReading E u rid rd s w = (r, w')"
        by (cases "isPalmService (s_code s)") (simp_all add: submit_def await_def find_or_throw_run Service_def)
      with rd find_SomeD [OF Some] show ?thesis by blast
    qed
  qed
qed


text \<open>A palm reading with one valid photograph.\<close>

definition palm_image_example :: "palmImageStatus \<Rightarrow> palmImage" where
  "palm_image_example st = \<lparr>pi_id = ''i'', pi_readingId = ''r'', pi_storageKey = ''k'', pi_status = st, pi_mimeType = None,
     pi_sizeBytes = None, pi_widthPx = None, pi_heightPx = None, pi_validationError = None, pi_consentAt = None,
     pi_expiresAt = None, pi_deletedAt = None, pi_createdAt = 0\<rparr>"

definition palm_example :: world where
  "palm_example = empty_world\<lparr>db := empty_database\<lparr>
     readings := [reading_example DRAFT ''s''], services := [service_example ''s'' ''PALM_BASIC'' 3],
     palmImages := [palm_image_example VALID],
     wallets := [\<lparr>w_id = ''w'', w_userId = ''u'', w_balance = 5\<rparr>],
     walletTransactions := [new_line ''t'' ''w'' BONUS 5 5 ''bonus:u'' None None 0]\<rparr>\<rparr>"

lemma palm_example_inv: "wallet_inv (db palm_example)" "rewards_inv (db palm_example)"
  by (simp_all add: palm_example_def wallet_inv_def money_ok_def reservations_ok_def running_balances_def ledger_sum_def
      line_ok_def new_line_def rewards_inv_def unique_rows_def table_defs less_Suc_eq empty_database_def)


section \<open>Confirming an image\<close>

lemma head_run:
  assumes "headObject E key w = (h, w1)"
  shows "db w1 = db w" "bucket w1 = bucket w" "jobs w1 = jobs w"
    "h = Inr None \<or> (\<exists>bytes. bucket w key = Some bytes \<and> h = Inr (Some (length bytes)))"
  using assms by (auto simp: headObject_def storage_call_def try_catch_def andthen_def await_def split: if_splits)

lemma download_run:
  assumes "downloadObject E key w = (h, w1)"
  shows "db w1 = db w" "bucket w1 = bucket w" "jobs w1 = jobs w" "h = Inr bytes \<Longrightarrow> bucket w key = Some bytes"
  using assms by (auto simp: downloadObject_def storage_call_def andthen_def await_def split: if_splits option.splits)

lemma invalidate_run:
  assumes "invalidate img why w = (Inr sm, w')"
  shows "\<exists>i. find (\<lambda>i. pi_id i = pi_id img) (palmImages (db w)) = Some i \<and> jobs w' = jobs w \<and> pis_status sm = INVALID \<and>
    palmImages (db w') = map (\<lambda>i. if pi_id i = pi_id img then i\<lparr>pi_status := INVALID, pi_validationError := Some why\<rparr> else i) (palmImages (db w))"
  using assms by (auto simp: invalidate_def await_Inr_iff update_row_Inr_iff PalmImage_def toPalmImageSummary_def)

abbreviation accepted_row :: "env \<Rightarrow> int \<Rightarrow> int \<Rightarrow> string \<Rightarrow> nat \<Rightarrow> int \<times> int \<Rightarrow> palmImage \<Rightarrow> palmImage" where
  "accepted_row E now consentAt mimeType n dims i \<equiv> i\<lparr>pi_status := PENDING_REVIEW, pi_mimeType := Some mimeType,
     pi_sizeBytes := Some (int n), pi_widthPx := Some (fst dims), pi_heightPx := Some (snd dims), pi_consentAt := Some consentAt,
     pi_expiresAt := Some (now + e_palmImageRetentionHours E * 60 * 60 * 1000), pi_validationError := None\<rparr>"

definition image_queued :: "string \<Rightarrow> world \<Rightarrow> bool" where
  "image_queued i w \<longleftrightarrow> list_ex (\<lambda>k. j_queue k = ''image-analysis'' \<and> j_jobId k = validateImageJobId i) (jobs w)"

lemma queue_image_run:
  "queue_add \<lparr>j_queue = ''image-analysis'', j_name = n, j_data = i, j_jobId = validateImageJobId i\<rparr> w = (r, w') \<Longrightarrow>
   db w' = db w \<and> image_queued i w'"
  by (auto simp: queue_add_def image_queued_def list_ex_iff modify_def split: if_splits)

lemma accept_run:
  assumes "accept_image E img mimeType n dims w = (Inr sm, w')"
  shows "pis_status sm = PENDING_REVIEW \<and> image_queued (pi_id img) w' \<and>
    (\<exists>now consentAt. palmImages (db w') = map (\<lambda>i. if pi_id i = pi_id img then accepted_row E now consentAt mimeType n dims i else i) (palmImages (db w)))"
  using assms
  by (intro conjI exI [of _ "e_clock E (ticks w)"] exI [of _ "e_clock E (Suc (ticks w))"])
    (auto simp: accept_image_def await_Inr_iff andthen_Inr_iff update_row_Inr_iff date_now_def PalmImage_def toPalmImageSummary_def
      ret_def dest!: queue_image_run cong: if_cong)

text \<open>An uploaded file that may be analysed.\<close>

definition acceptable :: "env \<Rightarrow> nat list \<Rightarrow> string \<Rightarrow> int \<times> int \<Rightarrow> bool" where
  "acceptable E bytes mimeType dimensions =
     (bytes \<noteq> [] \<and> int (length bytes) \<le> e_palmImageMaxSizeBytes E \<and> sniffImageMimeType bytes = Some mimeType \<and>
      readImageDimensions E bytes = Some dimensions \<and> 200 \<le> fst dimensions \<and> 200 \<le> snd dimensions)"

text \<open>The image a confirmation is about, and the two ways the checks end: an invalid image, or an accepted one.\<close>

lemma confirm_start:
  assumes "confirmImage E u rid key w = (Inr sm, w')"
  obtains img where "find (\<lambda>i. pi_readingId i = rid \<and> pi_storageKey i = key) (palmImages (db w)) = Some img"
    "pi_status img = UPLOADED" "check_image E img key w = (Inr sm, w')"
proof -
  from assms obtain rd w1 where 1: "findOwnedDraft u rid w = (Inr rd, w1)"
    and 2: "await (find_first PalmImage (\<lambda>i. pi_readingId i = rid \<and> pi_storageKey i = key)) (\<lambda>found. case found of
     None \<Rightarrow> throw (NotFoundException ''image'')
   | Some img \<Rightarrow>
       if pi_status img \<noteq> UPLOADED then throw (BadRequestException ''image already confirmed'')
       else check_image E img key) w1 = (Inr sm, w')"
    unfolding confirmImage_def by (rule andthen_InrE)
  have "w1 = w" using 1 by (auto simp: findOwnedDraft_def await_def Reading_def split: option.splits if_splits)
  with 2 that show thesis
    by (cases "find (\<lambda>i. pi_readingId i = rid \<and> pi_storageKey i = key) (palmImages (db w))")
      (auto simp: await_def PalmImage_def split: if_splits)
qed

lemma check_image_cases:
  assumes go: "check_image E img key w = (Inr sm, w')"
  obtains why w2 where "invalidate img why w2 = (Inr sm, w')" "db w2 = db w" "jobs w2 = jobs w"
    | bytes mime dims w2 where "bucket w key = Some bytes" "acceptable E bytes mime dims"
      "accept_image E img mime (length bytes) dims w2 = (Inr sm, w')" "db w2 = db w" "jobs w2 = jobs w"
proof -
  obtain h w1 where h: "headObject E key w = (h, w1)" by fastforce
  note hr = head_run [OF h]
  show thesis
  proof (cases "h = Inr None")
    case True
    with go h have "invalidate img FILE_NOT_FOUND w1 = (Inr sm, w')" by (simp add: check_image_def await_def)
    from that(1) [OF this hr(1,3)] show thesis .
  next
    case False
    then obtain bytes where b: "bucket w key = Some bytes" "h = Inr (Some (length bytes))" using hr(4) by blast
    show thesis
    proof (cases "bytes = [] \<or> e_palmImageMaxSizeBytes E < int (length bytes)")
      case True
      with go h b obtain why where "invalidate img why w1 = (Inr sm, w')"
        by (auto simp: check_image_def await_def split: if_splits)
      from that(1) [OF this hr(1,3)] show thesis .
    next
      case ok: False
      obtain x w2 where d: "downloadObject E key w1 = (x, w2)" by fastforce
      note dr = download_run [OF d]
      have w2: "db w2 = db w" "jobs w2 = jobs w" using dr hr by simp_all
      from go h b ok d have x: "x = Inr bytes"
        using dr(4) hr(2) by (cases x) (auto simp: check_image_def await_def)
      show thesis
      proof (cases "\<exists>mime width height. sniffImageMimeType bytes = Some mime \<and> readImageDimensions E bytes = Some (width, height) \<and>
          200 \<le> width \<and> 200 \<le> height")
        case False
        with go h b ok d x obtain why where "invalidate img why w2 = (Inr sm, w')"
          by (auto simp: check_image_def await_def PALM_IMAGE_MIN_DIMENSION_PX_def split: option.splits if_splits)
        from that(1) [OF this w2] show thesis .
      next
        case True
        then obtain mime width height where m: "sniffImageMimeType bytes = Some mime" "readImageDimensions E bytes = Some (width, height)"
          "200 \<le> width" "200 \<le> height" by blast
        with go h b ok d x have "accept_image E img mime (length bytes) (width, height) w2 = (Inr sm, w')"
          by (auto simp: check_image_def await_def PALM_IMAGE_MIN_DIMENSION_PX_def)
        moreover have "acceptable E bytes mime (width, height)" using m ok by (simp add: acceptable_def)
        ultimately show thesis using that(2) b(1) w2 by blast
      qed
    qed
  qed
qed


definition upload_example :: "nat list \<Rightarrow> world" where
  "upload_example bytes = empty_world\<lparr>db := empty_database\<lparr>readings := [reading_example DRAFT ''s''],
     palmImages := [palm_image_example UPLOADED]\<rparr>, bucket := (\<lambda>k. if k = ''k'' then Some bytes else None)\<rparr>"


end
