(* ===== verification/AiOrchestrator.thy ===== *)
theory AiOrchestrator
  imports Tables
begin

text \<open>
  Calling the language model (\<open>src/ai\<close>): the guardrails on what goes in and what comes out, the
  schemas an answer has to fit, the price of a call, and the orchestrator, which calls the provider at
  most three times and writes one \<open>AIExecution\<close> per request. The provider itself is a parameter, a
  function of the number of the call; \<open>JSON.parse\<close> is \<open>e_jsonParse\<close>.
\<close>

section \<open>Guardrails\<close>

text \<open>
  The regular expressions of the guardrails: each is a sequence of alternatives of literal text (an
  optional accent is two alternatives) and of \<open>\s+\<close>, compared without regard to case.
\<close>

datatype item = OneOf "string list" | Blanks

text \<open>What can be left of a text once an item has matched a beginning of it.\<close>

primrec after_blanks :: "string \<Rightarrow> string list" where
  "after_blanks [] = []"
| "after_blanks (c # s) = (if is_blank c then s # after_blanks s else [])"

fun after_item :: "item \<Rightarrow> string \<Rightarrow> string list" where
  "after_item (OneOf ws) s = map (\<lambda>w. drop (length w) s) (List.filter (\<lambda>w. take (length w) s = w) ws)"
| "after_item Blanks s = after_blanks s"

primrec begins_with :: "item list \<Rightarrow> string \<Rightarrow> bool" where
  "begins_with [] s = True"
| "begins_with (i # is) s = list_ex (begins_with is) (after_item i s)"

primrec found_in :: "item list \<Rightarrow> string \<Rightarrow> bool" where
  "found_in p [] = begins_with p []"
| "found_in p (c # s) = (begins_with p (c # s) \<or> found_in p s)"

definition pattern_test :: "item list \<Rightarrow> string \<Rightarrow> bool" where
  "pattern_test p text = found_in p (map lower_char text)"

definition HIGH_RISK_PATTERNS :: "item list list" where
  "HIGH_RISK_PATTERNS =
     [[OneOf [''suicid'']], [OneOf [''matarme'']], [OneOf [''quitarme la vida'']],
      [OneOf [''autolesi''], OneOf [''o'', [CHR 0xF3]], OneOf [''n'']],
      [OneOf [''hacerme da''], OneOf [[CHR 0xF1], ''n''], OneOf [''o'']],
      [OneOf [''no quiero vivir'']], [OneOf [''quiero morir'']]]"

definition detectHighRiskContent :: "string \<Rightarrow> bool" where
  "detectHighRiskContent text = list_ex (\<lambda>p. pattern_test p text) HIGH_RISK_PATTERNS"

definition PROHIBITED_OUTPUT_PATTERNS :: "item list list" where
  "PROHIBITED_OUTPUT_PATTERNS =
     [[OneOf [''tienes''], Blanks,
       OneOf [''c'' @ [CHR 0xE1] @ ''ncer'', ''cancer'', ''depresi'' @ [CHR 0xF3] @ ''n'', ''depresion'', ''una enfermedad'']],
      [OneOf [''debes'', ''deber'' @ [CHR 0xED] @ ''as'', ''deberias''], Blanks, OneOf [''dejar'', ''suspender''], Blanks,
       OneOf [''tu''], Blanks, OneOf [''tratamiento'']],
      [OneOf [''te''], Blanks, OneOf [''recomiendo''], Blanks, OneOf [''invertir'', ''demandar'', ''denunciar'']],
      [OneOf [''vas''], Blanks, OneOf [''a''], Blanks, OneOf [''morir'']],
      [OneOf [''es''], Blanks, OneOf [''seguro''], Blanks, OneOf [''que''], Blanks,
       OneOf [''vas a'', ''ocurrir'' @ [CHR 0xE1], ''ocurrira'']],
      [OneOf [''garantizo'', ''te garantizo'', ''con toda certeza''], Blanks, OneOf [''que'']]]"

definition containsProhibitedContent :: "string \<Rightarrow> bool" where
  "containsProhibitedContent text = list_ex (\<lambda>p. pattern_test p text) PROHIBITED_OUTPUT_PATTERNS"

section \<open>Schemas of the answers\<close>

text \<open>
  The zod types the schemas use. \<open>ZArray n m t\<close> is an array with at least \<open>n\<close> and, when \<open>m\<close> is given,
  at most \<open>m\<close> elements. \<open>zparse\<close> is \<open>safeParse\<close>: the parsed value when the input fits, with the keys
  of an object in the order of the schema and unknown keys left out.
\<close>

datatype ztype =
    ZNonEmptyString
  | ZBool
  | ZArray nat "nat option" ztype
  | ZObject "(string \<times> ztype) list"

fun all_some :: "'a option list \<Rightarrow> 'a list option" where
  "all_some [] = Some []"
| "all_some (x # xs) = (case (x, all_some xs) of (Some y, Some ys) \<Rightarrow> Some (y # ys) | _ \<Rightarrow> None)"

fun zparse :: "ztype \<Rightarrow> json \<Rightarrow> json option"
  and zparse_fields :: "(string \<times> ztype) list \<Rightarrow> (string \<times> json) list \<Rightarrow> (string \<times> json) list option" where
  "zparse ZNonEmptyString j = (case j of JString s \<Rightarrow> if s = [] then None else Some j | _ \<Rightarrow> None)"
| "zparse ZBool j = (case j of JBool b \<Rightarrow> Some j | _ \<Rightarrow> None)"
| "zparse (ZArray n m t) j = (case j of
       JArray vs \<Rightarrow>
         if n \<le> length vs \<and> (case m of None \<Rightarrow> True | Some k \<Rightarrow> length vs \<le> k)
         then map_option JArray (all_some (map (zparse t) vs)) else None
     | _ \<Rightarrow> None)"
| "zparse (ZObject fs) j = (case j of JObject ps \<Rightarrow> map_option JObject (zparse_fields fs ps) | _ \<Rightarrow> None)"
| "zparse_fields [] ps = Some []"
| "zparse_fields ((k, t) # fs) ps = (case map_of ps k of
       None \<Rightarrow> None
     | Some v \<Rightarrow> (case (zparse t v, zparse_fields fs ps) of
           (Some v', Some rest) \<Rightarrow> Some ((k, v') # rest)
         | _ \<Rightarrow> None))"

definition texts :: ztype where
  "texts = ZArray 1 None ZNonEmptyString"

definition PALM_IMAGE_LEGIBILITY_TASK :: string where
  "PALM_IMAGE_LEGIBILITY_TASK = ''PALM_IMAGE_LEGIBILITY_CHECK''"

definition palmImageLegibilitySchema :: ztype where
  "palmImageLegibilitySchema = ZObject [(''isLegiblePalm'', ZBool), (''reason'', ZNonEmptyString)]"

definition PALM_READING_INTERPRETATION_TASK :: string where
  "PALM_READING_INTERPRETATION_TASK = ''PALM_READING_INTERPRETATION''"

definition palmReadingInterpretationSchema :: ztype where
  "palmReadingInterpretationSchema = ZObject
     [(''title'', ZNonEmptyString), (''summary'', ZNonEmptyString),
      (''observations'', ZObject [(''heartLine'', ZNonEmptyString), (''headLine'', ZNonEmptyString),
         (''lifeLine'', ZNonEmptyString), (''generalShape'', ZNonEmptyString)]),
      (''strengths'', texts), (''growthAreas'', texts), (''reflection'', ZNonEmptyString),
      (''disclaimer'', ZNonEmptyString)]"

definition tarot_schema :: "nat \<Rightarrow> nat option \<Rightarrow> ztype" where
  "tarot_schema n m = ZObject
     [(''title'', ZNonEmptyString), (''summary'', ZNonEmptyString),
      (''cards'', ZArray n m (ZObject [(''position'', ZNonEmptyString), (''cardCode'', ZNonEmptyString),
         (''interpretation'', ZNonEmptyString)])),
      (''insights'', texts), (''suggestedActions'', texts), (''closingReflection'', ZNonEmptyString),
      (''disclaimer'', ZNonEmptyString)]"

definition TAROT_INTERPRETATION_TASK :: string where
  "TAROT_INTERPRETATION_TASK = ''TAROT_THREE_INTERPRETATION''"

definition tarotInterpretationSchema :: ztype where
  "tarotInterpretationSchema = tarot_schema 1 None"

definition TAROT_FIVE_INTERPRETATION_TASK :: string where
  "TAROT_FIVE_INTERPRETATION_TASK = ''TAROT_FIVE_INTERPRETATION''"

definition tarotFiveInterpretationSchema :: ztype where
  "tarotFiveInterpretationSchema = tarot_schema 5 (Some 5)"

definition TAROT_TEN_INTERPRETATION_TASK :: string where
  "TAROT_TEN_INTERPRETATION_TASK = ''TAROT_TEN_INTERPRETATION''"

definition tarotTenInterpretationSchema :: ztype where
  "tarotTenInterpretationSchema = tarot_schema 10 (Some 10)"

definition AI_TASK_SCHEMAS :: "(string \<times> ztype) list" where
  "AI_TASK_SCHEMAS =
     [(TAROT_INTERPRETATION_TASK, tarotInterpretationSchema),
      (TAROT_FIVE_INTERPRETATION_TASK, tarotFiveInterpretationSchema),
      (TAROT_TEN_INTERPRETATION_TASK, tarotTenInterpretationSchema),
      (PALM_IMAGE_LEGIBILITY_TASK, palmImageLegibilitySchema),
      (PALM_READING_INTERPRETATION_TASK, palmReadingInterpretationSchema)]"

section \<open>The price of a call\<close>

text \<open>Cents per million tokens in and out, which is hundredths of a millionth of a dollar per token.\<close>

definition MODEL_PRICING_USD_PER_1M_TOKENS :: "(string \<times> int \<times> int) list" where
  "MODEL_PRICING_USD_PER_1M_TOKENS = [(''gpt-4o-mini'', 15, 60)]"

text \<open>
  The cost in millionths of a dollar, rounded as the column rounds it. For a model that has the name of an inherited
  property the source computes \<open>NaN\<close>, which the database refuses.
\<close>

definition estimateCostUsd :: "string \<Rightarrow> int \<Rightarrow> int \<Rightarrow> exn + int option" where
  "estimateCostUsd model tokensInput tokensOutput = (case js_get MODEL_PRICING_USD_PER_1M_TOKENS model of
       Undefined \<Rightarrow> Inr None
     | Own (i, out) \<Rightarrow> Inr (Some (math_round_div (tokensInput * i + tokensOutput * out) 100))
     | Inherited \<Rightarrow> Inl (PlainError ''NaN''))"

section \<open>The orchestrator\<close>

definition AI_REQUEST_TIMEOUT_MS :: int where
  "AI_REQUEST_TIMEOUT_MS = 30000"

definition AI_MAX_TECHNICAL_RETRIES :: nat where
  "AI_MAX_TECHNICAL_RETRIES = 2"

record aiProviderImage =
  im_base64 :: string
  im_mimeType :: string

record aiProviderRequest =
  aq_systemPrompt :: string
  aq_userPrompt :: string
  aq_model :: string
  aq_temperature :: "string option"
  aq_maxOutputTokens :: "int option"
  aq_timeoutMs :: int
  aq_images :: "aiProviderImage list option"

record aiProviderResponse =
  ar_content :: string
  ar_model :: string
  ar_tokensInput :: int
  ar_tokensOutput :: int
  ar_latencyMs :: int

text \<open>
  A provider: its name, and what the \<open>n\<close>-th call gives: a response, or what it threw (\<open>Some\<close> message of
  an \<open>Error\<close>, \<open>None\<close> for anything else).
\<close>

record aiProvider =
  ap_name :: string
  ap_complete :: "nat \<Rightarrow> aiProviderRequest \<Rightarrow> string option + aiProviderResponse"

record executeInput =
  xi_promptVersionId :: string
  xi_readingId :: "string option"
  xi_variables :: "(string \<times> string) list"
  xi_riskCheckText :: string
  xi_images :: "aiProviderImage list option"

record executeResult =
  xr_aiExecutionId :: string
  xr_status :: aiExecutionStatus
  xr_output :: "json option"
  xr_errorMessage :: "string option"

definition createExecution ::
  "env \<Rightarrow> aiProvider \<Rightarrow> promptVersion \<Rightarrow> executeInput \<Rightarrow> aiExecutionStatus \<Rightarrow> string option \<Rightarrow>
   aiProviderResponse option \<Rightarrow> json option \<Rightarrow> (world, aiExecution) prog" where
  "createExecution E P pv inp status errorMessage response outputJson =
     await
       (case response of
          None \<Rightarrow> ret None
        | Some r \<Rightarrow>
            if status = AI_COMPLETED then
              (case estimateCostUsd (ar_model r) (ar_tokensInput r) (ar_tokensOutput r) of
                 Inl e \<Rightarrow> throw e
               | Inr c \<Rightarrow> ret c)
            else ret None) (\<lambda>cost.
     await (random_uuid E) (\<lambda>i.
     await (date_now E) (\<lambda>now.
     create AIExecution \<lparr>ai_id = i, ai_promptVersionId = pv_id pv, ai_readingId = xi_readingId inp,
       ai_provider = ap_name P, ai_model = (case response of None \<Rightarrow> pv_model pv | Some r \<Rightarrow> ar_model r),
       ai_status = status, ai_inputSummary = xi_variables inp, ai_outputJson = outputJson,
       ai_tokensInput = map_option ar_tokensInput response, ai_tokensOutput = map_option ar_tokensOutput response,
       ai_latencyMs = map_option ar_latencyMs response, ai_costEstimate = cost,
       ai_errorMessage = errorMessage, ai_createdAt = now\<rparr>)))"

definition failed_result :: "aiExecution \<Rightarrow> string \<Rightarrow> executeResult" where
  "failed_result ex message = \<lparr>xr_aiExecutionId = ai_id ex, xr_status = AI_FAILED, xr_output = None,
     xr_errorMessage = Some message\<rparr>"

definition RISK_GUARDRAIL_MESSAGE :: string where
  "RISK_GUARDRAIL_MESSAGE = ''Tu consulta menciona contenido sensible. Por tu bienestar, te invitamos a buscar apoyo profesional; esta herramienta no est'' @ [CHR 0xE1] @ '' dise'' @ [CHR 0xF1] @ ''ada para ese prop'' @ [CHR 0xF3] @ ''sito.''"

definition PROVIDER_FAILURE_MESSAGE :: string where
  "PROVIDER_FAILURE_MESSAGE = ''No fue posible generar la interpretaci'' @ [CHR 0xF3] @ ''n en este momento.''"

definition QUALITY_FAILURE_MESSAGE :: string where
  "QUALITY_FAILURE_MESSAGE = ''La respuesta generada no cumpli'' @ [CHR 0xF3] @ '' los criterios de calidad y seguridad requeridos.''"

text \<open>\<open>handleResponse\<close>; zod's own text is left out of the message of a schema error.\<close>

definition handleResponse ::
  "env \<Rightarrow> aiProvider \<Rightarrow> promptVersion \<Rightarrow> executeInput \<Rightarrow> ztype option \<Rightarrow> aiProviderResponse \<Rightarrow>
   (world, executeResult) prog" where
  "handleResponse E P pv inp schema response = (case e_jsonParse E (ar_content response) of
       None \<Rightarrow>
         await (createExecution E P pv inp AI_FAILED (Some ''invalid_json_output'') (Some response) None) (\<lambda>ex.
         ret (failed_result ex QUALITY_FAILURE_MESSAGE))
     | Some parsed \<Rightarrow> (case schema of
           None \<Rightarrow> throw (TypeError ''safeParse'')
         | Some t \<Rightarrow> (case zparse t parsed of
               None \<Rightarrow>
                 await (createExecution E P pv inp AI_FAILED (Some ''schema_validation_failed'') (Some response) None) (\<lambda>ex.
                 ret (failed_result ex QUALITY_FAILURE_MESSAGE))
             | Some validated \<Rightarrow>
                 if containsProhibitedContent (ar_content response) then
                   await (createExecution E P pv inp AI_FAILED (Some ''blocked_by_output_guardrail'') (Some response) None) (\<lambda>ex.
                   ret (failed_result ex QUALITY_FAILURE_MESSAGE))
                 else
                   await (createExecution E P pv inp AI_COMPLETED None (Some response) (Some validated)) (\<lambda>ex.
                   ret \<lparr>xr_aiExecutionId = ai_id ex, xr_status = AI_COMPLETED, xr_output = Some validated,
                        xr_errorMessage = None\<rparr>))))"

subsection \<open>Templates\<close>

definition is_word_char :: "char \<Rightarrow> bool" where
  "is_word_char c = (let n = (of_char c :: nat) in
     (48 \<le> n \<and> n \<le> 57) \<or> (65 \<le> n \<and> n \<le> 90) \<or> n = 95 \<or> (97 \<le> n \<and> n \<le> 122))"

text \<open>A match of \<open>{{(\w+)}}\<close> at the beginning of a text: the key, and what follows.\<close>

definition placeholder :: "string \<Rightarrow> (string \<times> string) option" where
  "placeholder s =
     (if take 2 s \<noteq> ''{{'' then None
      else let key = takeWhile is_word_char (drop 2 s); rest = dropWhile is_word_char (drop 2 s) in
        if key = [] \<or> take 2 rest \<noteq> ''}}'' then None else Some (key, drop 2 rest))"

lemma placeholder_shorter: "placeholder (c # s) = Some (key, rest) \<Longrightarrow> length rest \<le> length s"
  by (auto simp: placeholder_def Let_def numeral_2_eq_2 split: if_splits
      intro!: order_trans [OF diff_le_self] order_trans [OF length_dropWhile_le])

text \<open>What a property every object inherits prints as.\<close>

definition inherited_text :: "string \<Rightarrow> string" where
  "inherited_text key =
     (if key = ''__proto__'' then ''[object Object]''
      else if key = ''constructor'' then ''function Object() { [native code] }''
      else ''function '' @ key @ ''() { [native code] }'')"

definition variable_text :: "(string \<times> string) list \<Rightarrow> string \<Rightarrow> string" where
  "variable_text variables key = (case js_get variables key of
     Own v \<Rightarrow> v | Undefined \<Rightarrow> [] | Inherited \<Rightarrow> inherited_text key)"

function interpolate :: "(string \<times> string) list \<Rightarrow> string \<Rightarrow> string" where
  "interpolate variables [] = []"
| "interpolate variables (c # s) = (case placeholder (c # s) of
       None \<Rightarrow> c # interpolate variables s
     | Some (key, rest) \<Rightarrow> variable_text variables key @ interpolate variables rest)"
  by pat_completeness auto
termination
  by (relation "measure (\<lambda>(v, s). length s)") (auto dest!: placeholder_shorter)

subsection \<open>Calling the provider\<close>

definition call_provider ::
  "aiProvider \<Rightarrow> aiProviderRequest \<Rightarrow> (world, string option + aiProviderResponse) prog" where
  "call_provider P request = (\<lambda>w. (Inr (ap_complete P (aiCalls w) request), w\<lparr>aiCalls := Suc (aiCalls w)\<rparr>))"

text \<open>The loop over the attempts: the number left, and the last error.\<close>

primrec attempts_left ::
  "nat \<Rightarrow> aiProvider \<Rightarrow> aiProviderRequest \<Rightarrow> string option \<Rightarrow>
   (world, string option + aiProviderResponse) prog" where
  "attempts_left 0 P request lastError = ret (Inl lastError)"
| "attempts_left (Suc n) P request lastError =
     await (call_provider P request) (\<lambda>answer. case answer of
       Inr response \<Rightarrow> ret (Inr response)
     | Inl e \<Rightarrow> attempts_left n P request e)"

definition execute :: "env \<Rightarrow> aiProvider \<Rightarrow> executeInput \<Rightarrow> (world, executeResult) prog" where
  "execute E P inp =
     await (find_first PromptVersion (\<lambda>v. pv_id v = xi_promptVersionId inp)) (\<lambda>found. case found of
       None \<Rightarrow> throw (NotFoundException ''prompt version'')
     | Some pv \<Rightarrow>
         await (find_or_throw Prompt (\<lambda>p. pr_id p = pv_promptId pv)) (\<lambda>prompt.
         let schema = js_get AI_TASK_SCHEMAS (pr_code prompt) in
         if schema = Undefined then throw (NotFoundException ''output schema'')
         else if detectHighRiskContent (xi_riskCheckText inp) then
           await (createExecution E P pv inp AI_FAILED (Some ''blocked_by_risk_guardrail'') None None) (\<lambda>ex.
           ret (failed_result ex RISK_GUARDRAIL_MESSAGE))
         else
           await (attempts_left (AI_MAX_TECHNICAL_RETRIES + 1) P
               \<lparr>aq_systemPrompt = pv_systemPrompt pv,
                aq_userPrompt = interpolate (xi_variables inp) (pv_userPromptTemplate pv),
                aq_model = pv_model pv, aq_temperature = pv_temperature pv,
                aq_maxOutputTokens = pv_maxOutputTokens pv, aq_timeoutMs = AI_REQUEST_TIMEOUT_MS,
                aq_images = xi_images inp\<rparr> None) (\<lambda>answer.
           case answer of
             Inl lastError \<Rightarrow>
               await (createExecution E P pv inp AI_FAILED
                   (Some (case lastError of None \<Rightarrow> ''Unknown provider error'' | Some m \<Rightarrow> m)) None None) (\<lambda>ex.
               ret (failed_result ex PROVIDER_FAILURE_MESSAGE))
           | Inr response \<Rightarrow>
               handleResponse E P pv inp (case schema of Own t \<Rightarrow> Some t | _ \<Rightarrow> None) response)))"

section \<open>What is accepted\<close>

text \<open>A value that fits a schema, said without parsing.\<close>

fun fits :: "ztype \<Rightarrow> json \<Rightarrow> bool"
  and fits_fields :: "(string \<times> ztype) list \<Rightarrow> (string \<times> json) list \<Rightarrow> bool" where
  "fits ZNonEmptyString (JString s) = (s \<noteq> [])"
| "fits ZBool (JBool b) = True"
| "fits (ZArray n m t) (JArray vs) =
     (n \<le> length vs \<and> (case m of None \<Rightarrow> True | Some k \<Rightarrow> length vs \<le> k) \<and> (\<forall>v \<in> set vs. fits t v))"
| "fits (ZObject fs) (JObject ps) = fits_fields fs ps"
| "fits _ _ = False"
| "fits_fields [] [] = True"
| "fits_fields ((k, t) # fs) ((k', v) # ps) = (k = k' \<and> fits t v \<and> fits_fields fs ps)"
| "fits_fields _ _ = False"

lemma all_some_map: "all_some (map Some ys) = Some ys"
  by (induction ys) auto

lemma all_some_iff: "all_some xs = Some ys \<longleftrightarrow> xs = map Some ys"
proof
  show "all_some xs = Some ys \<Longrightarrow> xs = map Some ys"
    by (induction xs arbitrary: ys) (auto split: option.splits)
qed (simp add: all_some_map)

lemma zparse_fits:
  "zparse t j = Some v \<Longrightarrow> fits t v"
  "zparse_fields fs ps = Some qs \<Longrightarrow> fits_fields fs qs"
proof (induction t j and fs ps arbitrary: v and qs rule: zparse_zparse_fields.induct)
  case (3 n m t j)
  then obtain vs ws where j: "j = JArray vs" "v = JArray ws" "map (zparse t) vs = map Some ws"
    "n \<le> length vs \<and> (case m of None \<Rightarrow> True | Some k \<Rightarrow> length vs \<le> k)"
    by (auto simp: all_some_iff split: json.splits if_splits)
  have len: "length vs = length ws" using arg_cong [OF j(3), of length] by simp
  have "fits t x" if "x \<in> set ws" for x
  proof -
    have "Some x \<in> set (map (zparse t) vs)" using that j(3) by simp
    then obtain y where "y \<in> set vs" "zparse t y = Some x" by (metis (no_types, lifting) image_iff set_map)
    with 3(1) [OF j(1) j(4)] show ?thesis by simp
  qed
  with j len show ?case by (auto split: option.split)
qed (auto split: json.splits option.splits if_splits prod.splits)

section \<open>The outcome of a request\<close>

lemma createExecution_run:
  assumes "createExecution E P pv inp st em resp out w = (Inr ex, w')"
  shows "db w' = (db w)\<lparr>aiExecutions := aiExecutions (db w) @ [ex]\<rparr> \<and> aiCalls w' = aiCalls w \<and>
    ai_status ex = st \<and> ai_outputJson ex = out \<and> ai_readingId ex = xi_readingId inp \<and> ai_promptVersionId ex = pv_id pv"
  using assms by (auto simp: createExecution_def prog_inv db_inv AIExecution_def split: option.splits if_splits sum.splits)

lemma attempts_run:
  "\<exists>k answer. k \<le> n \<and> attempts_left n P request e w = (Inr answer, w\<lparr>aiCalls := aiCalls w + k\<rparr>)"
proof (induction n arbitrary: e w)
  case (Suc n)
  show ?case
  proof (cases "ap_complete P (aiCalls w) request")
    case (Inl e')
    obtain k answer where "k \<le> n"
      "attempts_left n P request e' (w\<lparr>aiCalls := Suc (aiCalls w)\<rparr>) = (Inr answer, w\<lparr>aiCalls := Suc (aiCalls w) + k\<rparr>)"
      using Suc [of e' "w\<lparr>aiCalls := Suc (aiCalls w)\<rparr>"] by auto
    with Inl show ?thesis by (intro exI [of _ "Suc k"] exI [of _ answer]) (simp add: await_def call_provider_def)
  next
    case (Inr r)
    then show ?thesis by (intro exI [of _ 1] exI [of _ "Inr r"]) (simp add: await_def call_provider_def)
  qed
qed simp

text \<open>Everything but the new execution is left alone, however a request ends.\<close>

lemma execute_keeps [keeps_intro]:
  assumes "ignores I AIExecution"
  shows "keeps I (execute E P inp)"
proof -
  have attempts: "keeps I (attempts_left n P r e)" for n r e
  proof (rule keepsI)
    fix w y w' assume "I (db w)" "attempts_left n P r e w = (y, w')"
    with attempts_run [of n P r e w] show "I (db w')" by auto
  qed
  have create: "keeps I (createExecution E P pv inp st em resp out)" for pv inp st em resp out
    unfolding createExecution_def by (intro keeps_intro assms)
  show ?thesis
    unfolding execute_def handleResponse_def by (intro keeps_intro attempts create)
qed

text \<open>A run of \<open>execute\<close> that returned.\<close>

definition accepted :: "env \<Rightarrow> ztype \<Rightarrow> string \<Rightarrow> json \<Rightarrow> bool" where
  "accepted E t content out = (\<exists>parsed. e_jsonParse E content = Some parsed \<and> zparse t parsed = Some out \<and>
     \<not> containsProhibitedContent content)"

lemma handleResponse_run:
  assumes "handleResponse E P pv inp schema response w = (Inr res, w')"
  shows "\<exists>ex. db w' = (db w)\<lparr>aiExecutions := aiExecutions (db w) @ [ex]\<rparr> \<and> aiCalls w' = aiCalls w \<and>
     ai_id ex = xr_aiExecutionId res \<and> ai_status ex = xr_status res \<and> ai_outputJson ex = xr_output res \<and>
     ai_readingId ex = xi_readingId inp \<and> ai_promptVersionId ex = pv_id pv \<and>
     (\<exists>t. schema = Some t \<and> xr_status res = AI_COMPLETED \<and> (\<exists>out. xr_output res = Some out \<and> accepted E t (ar_content response) out) \<or>
      xr_status res = AI_FAILED \<and> xr_output res = None)"
  using assms unfolding handleResponse_def
  by (auto simp: await_Inr_iff failed_result_def accepted_def split: option.splits if_splits dest!: createExecution_run)

lemma execute_run:
  assumes run: "execute E P inp w = (Inr res, w')"
  obtains pv prompt ex where
    "find (\<lambda>v. pv_id v = xi_promptVersionId inp) (promptVersions (db w)) = Some pv"
    "find (\<lambda>p. pr_id p = pv_promptId pv) (prompts (db w)) = Some prompt"
    "db w' = (db w)\<lparr>aiExecutions := aiExecutions (db w) @ [ex]\<rparr>" "ai_id ex = xr_aiExecutionId res"
    "ai_status ex = xr_status res" "ai_outputJson ex = xr_output res" "ai_readingId ex = xi_readingId inp"
    "ai_promptVersionId ex = xi_promptVersionId inp" "aiCalls w' \<le> aiCalls w + 3"
    "detectHighRiskContent (xi_riskCheckText inp) \<longrightarrow> aiCalls w' = aiCalls w"
    "xr_status res = AI_FAILED \<and> xr_output res = None \<or>
     xr_status res = AI_COMPLETED \<and> \<not> detectHighRiskContent (xi_riskCheckText inp) \<and>
     (\<exists>t content out. js_get AI_TASK_SCHEMAS (pr_code prompt) = Own t \<and> xr_output res = Some out \<and> accepted E t content out)"
proof -
  obtain pv where pv: "find (\<lambda>v. pv_id v = xi_promptVersionId inp) (promptVersions (db w)) = Some pv"
    using run by (cases "find (\<lambda>v. pv_id v = xi_promptVersionId inp) (promptVersions (db w))")
      (auto simp: execute_def await_def PromptVersion_def)
  obtain prompt where prompt: "find (\<lambda>p. pr_id p = pv_promptId pv) (prompts (db w)) = Some prompt"
    using run pv by (cases "find (\<lambda>p. pr_id p = pv_promptId pv) (prompts (db w))")
      (auto simp: execute_def await_def PromptVersion_def Prompt_def find_or_throw_run)
  have id: "pv_id pv = xi_promptVersionId inp" using find_SomeD [OF pv] by simp
  let ?S = "js_get AI_TASK_SCHEMAS (pr_code prompt)"
  let ?req = "\<lparr>aq_systemPrompt = pv_systemPrompt pv, aq_userPrompt = interpolate (xi_variables inp) (pv_userPromptTemplate pv),
      aq_model = pv_model pv, aq_temperature = pv_temperature pv, aq_maxOutputTokens = pv_maxOutputTokens pv,
      aq_timeoutMs = AI_REQUEST_TIMEOUT_MS, aq_images = xi_images inp\<rparr>"
  note start = run pv prompt
  show ?thesis
  proof (cases "detectHighRiskContent (xi_riskCheckText inp)")
    case True
    with start obtain ex where "createExecution E P pv inp AI_FAILED (Some ''blocked_by_risk_guardrail'') None None w = (Inr ex, w')"
      "res = failed_result ex RISK_GUARDRAIL_MESSAGE"
      by (auto simp: execute_def await_Inr_iff PromptVersion_def Prompt_def find_or_throw_run Let_def split: if_splits)
    note ex = createExecution_run [OF this(1)] this(2)
    show ?thesis by (rule that [OF pv prompt, of ex]) (use ex True id in \<open>simp_all add: failed_result_def\<close>)
  next
    case False
    obtain k answer where k: "k \<le> 3" "attempts_left (AI_MAX_TECHNICAL_RETRIES + 1) P ?req None w = (Inr answer, w\<lparr>aiCalls := aiCalls w + k\<rparr>)"
      using attempts_run [of 3 P ?req None w] by (auto simp: AI_MAX_TECHNICAL_RETRIES_def)
    let ?w = "w\<lparr>aiCalls := aiCalls w + k\<rparr>"
    show ?thesis
    proof (cases answer)
      case (Inl e)
      with start False k obtain m ex where "createExecution E P pv inp AI_FAILED (Some m) None None ?w = (Inr ex, w')"
        "res = failed_result ex PROVIDER_FAILURE_MESSAGE"
        by (auto simp: execute_def await_Inr_iff PromptVersion_def Prompt_def find_or_throw_run Let_def split: if_splits)
      note ex = createExecution_run [OF this(1)] this(2)
      show ?thesis by (rule that [OF pv prompt, of ex]) (use ex k in \<open>simp_all add: False id failed_result_def\<close>)
    next
      case (Inr response)
      with start False k have "handleResponse E P pv inp (case ?S of Own t \<Rightarrow> Some t | _ \<Rightarrow> None) response ?w = (Inr res, w')"
        by (auto simp: execute_def await_Inr_iff PromptVersion_def Prompt_def find_or_throw_run Let_def split: if_splits)
      from handleResponse_run [OF this] obtain ex where ex: "db w' = (db w)\<lparr>aiExecutions := aiExecutions (db w) @ [ex]\<rparr>"
        "aiCalls w' = aiCalls w + k" "ai_id ex = xr_aiExecutionId res" "ai_status ex = xr_status res"
        "ai_outputJson ex = xr_output res" "ai_readingId ex = xi_readingId inp" "ai_promptVersionId ex = pv_id pv"
        and out: "(\<exists>t. (case ?S of Own t \<Rightarrow> Some t | _ \<Rightarrow> None) = Some t \<and> xr_status res = AI_COMPLETED \<and>
            (\<exists>out. xr_output res = Some out \<and> accepted E t (ar_content response) out)) \<or>
          xr_status res = AI_FAILED \<and> xr_output res = None"
        by auto
      have "xr_status res = AI_FAILED \<and> xr_output res = None \<or>
         xr_status res = AI_COMPLETED \<and> \<not> detectHighRiskContent (xi_riskCheckText inp) \<and>
         (\<exists>t content out. ?S = Own t \<and> xr_output res = Some out \<and> accepted E t content out)"
        using out False by (auto split: property.splits)
      from that [OF pv prompt ex(1,3-6) _ _ _ this] ex k False id show ?thesis by simp
    qed
  qed
qed

text \<open>
  C30. A request to the AI that returns leaves exactly one new execution record, which tells what was
  answered: the status, and the output when there is one. The provider was called at most three times,
  and not at all when the user's text is of high risk. The answer counts as completed only if it is JSON
  that fits the schema of the prompt's task (so a five-card reading has five cards) and its text passes
  the output filter; everything else is a recorded failure without output.
\<close>

theorem execution_recorded:
  assumes "execute E P inp w = (Inr res, w')"
  shows "\<exists>ex. aiExecutions (db w') = aiExecutions (db w) @ [ex] \<and> ai_id ex = xr_aiExecutionId res \<and>
     ai_status ex = xr_status res \<and> ai_outputJson ex = xr_output res \<and> aiCalls w' \<le> aiCalls w + 3 \<and>
     (detectHighRiskContent (xi_riskCheckText inp) \<longrightarrow> aiCalls w' = aiCalls w \<and> xr_status res = AI_FAILED) \<and>
     (case xr_output res of
        None \<Rightarrow> xr_status res = AI_FAILED
      | Some out \<Rightarrow> xr_status res = AI_COMPLETED \<and> (\<exists>pv \<in> set (promptVersions (db w)). \<exists>p \<in> set (prompts (db w)).
          pv_id pv = xi_promptVersionId inp \<and> pr_id p = pv_promptId pv \<and>
          (\<exists>t. map_of AI_TASK_SCHEMAS (pr_code p) = Some t \<and> fits t out) \<and>
          (\<exists>content parsed. e_jsonParse E content = Some parsed \<and> \<not> containsProhibitedContent content)))"
proof -
  from assms obtain pv prompt ex where f: "find (\<lambda>v. pv_id v = xi_promptVersionId inp) (promptVersions (db w)) = Some pv"
    "find (\<lambda>p. pr_id p = pv_promptId pv) (prompts (db w)) = Some prompt"
    and ex: "db w' = (db w)\<lparr>aiExecutions := aiExecutions (db w) @ [ex]\<rparr>" "ai_id ex = xr_aiExecutionId res"
    "ai_status ex = xr_status res" "ai_outputJson ex = xr_output res" "aiCalls w' \<le> aiCalls w + 3"
    "detectHighRiskContent (xi_riskCheckText inp) \<longrightarrow> aiCalls w' = aiCalls w"
    and out: "xr_status res = AI_FAILED \<and> xr_output res = None \<or>
     xr_status res = AI_COMPLETED \<and> \<not> detectHighRiskContent (xi_riskCheckText inp) \<and>
     (\<exists>t content out. js_get AI_TASK_SCHEMAS (pr_code prompt) = Own t \<and> xr_output res = Some out \<and> accepted E t content out)"
    by (rule execute_run)
  have schema: "map_of AI_TASK_SCHEMAS k = Some t" if "js_get AI_TASK_SCHEMAS k = Own t" for k t
    using that by (auto simp: js_get_def split: option.splits if_splits)
  show ?thesis
    using ex out find_SomeD [OF f(1)] find_SomeD [OF f(2)] zparse_fits(1) schema
    by (intro exI [of _ ex]) (fastforce simp: accepted_def split: option.split)
qed

definition example_provider :: aiProvider where
  "example_provider = \<lparr>ap_name = ''stub'', ap_complete = (\<lambda>n req.
     if n = 0 then Inl (Some ''timeout'')
     else Inr \<lparr>ar_content = ''{}'', ar_model = ''gpt-4o-mini'', ar_tokensInput = 100, ar_tokensOutput = 10, ar_latencyMs = 5\<rparr>)\<rparr>"

definition legible_env :: env where
  "legible_env = example_env\<lparr>e_jsonParse := (\<lambda>s. Some (JObject [(''reason'', JString ''ok''), (''isLegiblePalm'', JBool True)]))\<rparr>"

definition prompt_example :: world where
  "prompt_example = empty_world\<lparr>db := empty_database\<lparr>
     prompts := [\<lparr>pr_id = ''p'', pr_code = PALM_IMAGE_LEGIBILITY_TASK, pr_name = [], pr_createdAt = 0\<rparr>],
     promptVersions := [\<lparr>pv_id = ''v'', pv_promptId = ''p'', pv_version = 1, pv_systemPrompt = [],
       pv_userPromptTemplate = ''Hola {{name}}'', pv_model = ''gpt-4o-mini'', pv_temperature = None,
       pv_maxOutputTokens = None, pv_outputSchema = JNull, pv_status = PV_PUBLISHED, pv_authorId = None,
       pv_publishedAt = None, pv_createdAt = 0\<rparr>]\<rparr>\<rparr>"

definition example_input :: executeInput where
  "example_input = \<lparr>xi_promptVersionId = ''v'', xi_readingId = None, xi_variables = [(''name'', ''Ana'')],
     xi_riskCheckText = [], xi_images = None\<rparr>"

lemma execution_recorded_witness:
  "\<exists>res w' ex. execute legible_env example_provider example_input prompt_example = (Inr res, w') \<and>
     xr_status res = AI_COMPLETED \<and> aiExecutions (db w') = [ex] \<and> ai_status ex = AI_COMPLETED \<and> aiCalls w' \<le> 3"
proof -
  have st: "map_option xr_status (case fst (execute legible_env example_provider example_input prompt_example) of
      Inl e \<Rightarrow> None | Inr res \<Rightarrow> Some res) = Some AI_COMPLETED"
    by (code_simp, simp add: int4_def)
  then obtain res w' where run: "execute legible_env example_provider example_input prompt_example = (Inr res, w')"
    "xr_status res = AI_COMPLETED"
    by (cases "execute legible_env example_provider example_input prompt_example") (auto split: sum.splits)
  have "aiExecutions (db prompt_example) = []" "aiCalls prompt_example = 0"
    by (simp_all add: prompt_example_def empty_world_def empty_database_def)
  with execution_recorded [OF run(1)] run show ?thesis by auto
qed

end
