(* ===== verification/PromptsService.thy ===== *)
theory PromptsService
  imports Tables
begin

text \<open>
  Prompts and their versions (\<open>src/ai/prompts.service.ts\<close>): a version is a draft, then published, then
  archived when a later one is published. The readings use the published version of a prompt.
\<close>

section \<open>Summaries\<close>

record adminPromptVersion =
  apv_id :: string
  apv_version :: int
  apv_systemPrompt :: string
  apv_userPromptTemplate :: string
  apv_model :: string
  apv_temperature :: "string option"
  apv_maxOutputTokens :: "int option"
  apv_outputSchema :: json
  apv_status :: promptVersionStatus
  apv_authorId :: "string option"
  apv_publishedAt :: "int option"
  apv_createdAt :: int

record adminPrompt =
  apr_id :: string
  apr_code :: string
  apr_name :: string
  apr_versions :: "adminPromptVersion list"

definition toAdminPromptVersion :: "promptVersion \<Rightarrow> adminPromptVersion" where
  "toAdminPromptVersion v = \<lparr>apv_id = pv_id v, apv_version = pv_version v,
     apv_systemPrompt = pv_systemPrompt v, apv_userPromptTemplate = pv_userPromptTemplate v,
     apv_model = pv_model v, apv_temperature = pv_temperature v, apv_maxOutputTokens = pv_maxOutputTokens v,
     apv_outputSchema = pv_outputSchema v, apv_status = pv_status v, apv_authorId = pv_authorId v,
     apv_publishedAt = pv_publishedAt v, apv_createdAt = pv_createdAt v\<rparr>"

definition toAdminPrompt :: "promptRow \<Rightarrow> promptVersion list \<Rightarrow> adminPrompt" where
  "toAdminPrompt p versions = \<lparr>apr_id = pr_id p, apr_code = pr_code p, apr_name = pr_name p,
     apr_versions = map toAdminPromptVersion versions\<rparr>"

text \<open>\<open>WITH_VERSIONS\<close>: the versions of a prompt, the latest first.\<close>

definition with_versions :: "string \<Rightarrow> database \<Rightarrow> promptVersion list" where
  "with_versions promptId d = order_desc pv_version (filter (\<lambda>v. pv_promptId v = promptId) (promptVersions d))"

record promptVersionContent =
  pc_systemPrompt :: string
  pc_userPromptTemplate :: string
  pc_model :: string
  pc_temperature :: "string option"
  pc_maxOutputTokens :: "int option"
  pc_outputSchema :: json

section \<open>Operations\<close>

definition prompts_listAll :: "(world, adminPrompt list) prog" where
  "prompts_listAll =
     gets (\<lambda>w. map (\<lambda>p. toAdminPrompt p (with_versions (pr_id p) (db w))) (sort_key pr_createdAt (prompts (db w))))"

definition prompts_findOne :: "string \<Rightarrow> (world, adminPrompt) prog" where
  "prompts_findOne i =
     await (find_first Prompt (\<lambda>p. pr_id p = i)) (\<lambda>prompt. case prompt of
       None \<Rightarrow> throw (NotFoundException ''prompt'')
     | Some p \<Rightarrow> gets (\<lambda>w. toAdminPrompt p (with_versions i (db w))))"

definition promptVersion_create ::
  "env \<Rightarrow> string \<Rightarrow> int \<Rightarrow> promptVersionContent \<Rightarrow> string \<Rightarrow> (world, promptVersion) prog" where
  "promptVersion_create E promptId version dto authorId =
     await (random_uuid E) (\<lambda>i.
     await (date_now E) (\<lambda>now.
     create PromptVersion \<lparr>pv_id = i, pv_promptId = promptId, pv_version = version,
       pv_systemPrompt = pc_systemPrompt dto, pv_userPromptTemplate = pc_userPromptTemplate dto,
       pv_model = pc_model dto, pv_temperature = pc_temperature dto,
       pv_maxOutputTokens = pc_maxOutputTokens dto, pv_outputSchema = pc_outputSchema dto,
       pv_status = PV_DRAFT, pv_authorId = Some authorId, pv_publishedAt = None, pv_createdAt = now\<rparr>))"

definition prompts_create ::
  "env \<Rightarrow> string \<Rightarrow> string \<Rightarrow> promptVersionContent \<Rightarrow> string \<Rightarrow> (world, adminPrompt) prog" where
  "prompts_create E code name dto authorId =
     await (find_first Prompt (\<lambda>p. pr_code p = code)) (\<lambda>existing. case existing of
       Some _ \<Rightarrow> throw (ConflictException ''prompt code'')
     | None \<Rightarrow>
         await (random_uuid E) (\<lambda>i.
         await (date_now E) (\<lambda>now.
         await (create Prompt \<lparr>pr_id = i, pr_code = code, pr_name = name, pr_createdAt = now\<rparr>) (\<lambda>created.
         andthen (promptVersion_create E (pr_id created) 1 dto authorId)
           (prompts_findOne (pr_id created))))))"

definition prompts_createVersion ::
  "env \<Rightarrow> string \<Rightarrow> promptVersionContent \<Rightarrow> string \<Rightarrow> (world, adminPrompt) prog" where
  "prompts_createVersion E i dto authorId =
     await (find_first Prompt (\<lambda>p. pr_id p = i)) (\<lambda>prompt. case prompt of
       None \<Rightarrow> throw (NotFoundException ''prompt'')
     | Some _ \<Rightarrow>
         await (find_first_desc PromptVersion pv_version (\<lambda>v. pv_promptId v = i)) (\<lambda>lastVersion.
         let nextVersion = (case lastVersion of None \<Rightarrow> 0 | Some v \<Rightarrow> pv_version v) + 1 in
         andthen (promptVersion_create E i nextVersion dto authorId)
           (prompts_findOne i)))"

text \<open>The \<open>data\<close> of both updates is built before the transaction starts.\<close>

definition prompts_publish :: "env \<Rightarrow> string \<Rightarrow> (world, adminPrompt) prog" where
  "prompts_publish E i =
     await (find_first_desc PromptVersion pv_version (\<lambda>v. pv_promptId v = i \<and> pv_status v = PV_DRAFT)) (\<lambda>lastDraft.
     case lastDraft of
       None \<Rightarrow> throw (BadRequestException ''no draft'')
     | Some draft \<Rightarrow>
         await (date_now E) (\<lambda>now.
         andthen
           (transaction
             (andthen (update_many PromptVersion (\<lambda>v. pv_promptId v = i \<and> pv_status v = PV_PUBLISHED)
                 (\<lambda>v. v\<lparr>pv_status := PV_ARCHIVED\<rparr>))
               (update_row PromptVersion (\<lambda>v. pv_id v = pv_id draft)
                 (\<lambda>v. v\<lparr>pv_status := PV_PUBLISHED, pv_publishedAt := Some now\<rparr>))))
           (prompts_findOne i)))"

text \<open>The second half of \<open>resolveVersionForTest\<close>.\<close>

definition last_version_id :: "string \<Rightarrow> (world, string) prog" where
  "last_version_id promptId =
     await (find_first_desc PromptVersion pv_version (\<lambda>v. pv_promptId v = promptId)) (\<lambda>lastVersion. case lastVersion of
       None \<Rightarrow> throw (NotFoundException ''prompt has no versions'')
     | Some v \<Rightarrow> ret (pv_id v))"

definition resolveVersionForTest :: "string \<Rightarrow> string option \<Rightarrow> (world, string) prog" where
  "resolveVersionForTest promptId explicitVersionId = (case explicitVersionId of
       Some i \<Rightarrow>
         if i \<noteq> [] then
           await (find_first PromptVersion (\<lambda>v. pv_id v = i \<and> pv_promptId v = promptId)) (\<lambda>version. case version of
             None \<Rightarrow> throw (NotFoundException ''prompt version'')
           | Some v \<Rightarrow> ret (pv_id v))
         else last_version_id promptId
     | None \<Rightarrow> last_version_id promptId)"

definition getPublishedVersionId :: "string \<Rightarrow> (world, string) prog" where
  "getPublishedVersionId code =
     await (find_first Prompt (\<lambda>p. pr_code p = code)) (\<lambda>prompt. case prompt of
       None \<Rightarrow> throw (NotFoundException ''prompt'')
     | Some p \<Rightarrow>
         await (find_first_desc PromptVersion pv_version (\<lambda>v. pv_promptId v = pr_id p \<and> pv_status v = PV_PUBLISHED)) (\<lambda>version.
         case version of
           None \<Rightarrow> throw (NotFoundException ''published version'')
         | Some v \<Rightarrow> ret (pv_id v)))"

section \<open>Publishing\<close>

definition published :: "string \<Rightarrow> database \<Rightarrow> promptVersion list" where
  "published i d = filter (\<lambda>v. pv_promptId v = i \<and> pv_status v = PV_PUBLISHED) (promptVersions d)"

text \<open>The versions after a publication.\<close>

definition publish_row :: "string \<Rightarrow> string \<Rightarrow> int \<Rightarrow> promptVersion \<Rightarrow> promptVersion" where
  "publish_row i k now v =
     (let v' = (if pv_promptId v = i \<and> pv_status v = PV_PUBLISHED then v\<lparr>pv_status := PV_ARCHIVED\<rparr> else v) in
      if pv_id v = k then v'\<lparr>pv_status := PV_PUBLISHED, pv_publishedAt := Some now\<rparr> else v')"

lemma publish_row_sel [simp]:
  "pv_id (publish_row i k now v) = pv_id v" "pv_promptId (publish_row i k now v) = pv_promptId v"
  by (simp_all add: publish_row_def Let_def)

lemma publish_row_status:
  "pv_status (publish_row i k now v) = (if pv_id v = k then PV_PUBLISHED
     else if pv_promptId v = i \<and> pv_status v = PV_PUBLISHED then PV_ARCHIVED else pv_status v)"
  by (simp add: publish_row_def Let_def)

lemma publish_none:
  "k \<notin> pv_id ` set vs \<Longrightarrow>
   filter (\<lambda>v. pv_promptId v = i \<and> pv_status v = PV_PUBLISHED) (map (publish_row i k now) vs) = []"
  by (induction vs) (auto simp: publish_row_status)

lemma published_after:
  assumes "distinct (map pv_id vs)" "d \<in> set vs" "pv_promptId d = i" "pv_status d = PV_DRAFT"
  shows "filter (\<lambda>v. pv_promptId v = i \<and> pv_status v = PV_PUBLISHED) (map (publish_row i (pv_id d) now) vs) =
     [d\<lparr>pv_status := PV_PUBLISHED, pv_publishedAt := Some now\<rparr>]"
  using assms(1,2)
proof (induction vs)
  case (Cons v vs)
  show ?case
  proof (cases "d = v")
    case True
    then show ?thesis using Cons.prems assms(3,4) publish_none [of "pv_id v" vs i now]
      by (simp add: publish_row_status) (simp add: publish_row_def)
  next
    case False
    then have "d \<in> set vs" "pv_id v \<noteq> pv_id d" using Cons.prems by auto
    with Cons show ?thesis by (simp add: publish_row_status)
  qed
qed simp

lemma publish_row_other: "pv_promptId v \<noteq> i \<Longrightarrow> pv_id v \<noteq> k \<Longrightarrow> publish_row i k now v = v"
  by (simp add: publish_row_def)

lemma other_versions_kept:
  assumes "d \<in> set vs" "distinct (map pv_id vs)" "pv_promptId d = i"
  shows "filter (\<lambda>v. pv_promptId v \<noteq> i) (map (publish_row i (pv_id d) now) vs) = filter (\<lambda>v. pv_promptId v \<noteq> i) vs"
proof -
  have "\<forall>v \<in> set xs. pv_promptId v \<noteq> i \<longrightarrow> pv_id v \<noteq> pv_id d \<Longrightarrow>
      filter (\<lambda>v. pv_promptId v \<noteq> i) (map (publish_row i (pv_id d) now) xs) = filter (\<lambda>v. pv_promptId v \<noteq> i) xs" for xs
    by (induction xs) (simp_all add: publish_row_other)
  moreover have "\<forall>v \<in> set vs. pv_promptId v \<noteq> i \<longrightarrow> pv_id v \<noteq> pv_id d"
    using assms by (metis distinct_key_unique)
  ultimately show ?thesis by blast
qed

lemma publish_transaction:
  assumes "order_desc pv_version (filter (\<lambda>v. pv_promptId v = i \<and> pv_status v = PV_DRAFT) (promptVersions (db w))) = d # ds"
    and run: "prompts_publish E i w = (r, w')"
  shows "(\<exists>e. r = Inl e) \<and> db w' = db w \<or>
    prompts_findOne i w' = (r, w') \<and>
    db w' = (db w)\<lparr>promptVersions := map (publish_row i (pv_id d) (e_clock E (ticks w))) (promptVersions (db w))\<rparr>"
proof -
  let ?now = "e_clock E (ticks w)"
  let ?t = "transaction (andthen (update_many PromptVersion (\<lambda>v. pv_promptId v = i \<and> pv_status v = PV_PUBLISHED)
                 (\<lambda>v. v\<lparr>pv_status := PV_ARCHIVED\<rparr>))
               (update_row PromptVersion (\<lambda>v. pv_id v = pv_id d)
                 (\<lambda>v. v\<lparr>pv_status := PV_PUBLISHED, pv_publishedAt := Some ?now\<rparr>)))"
  have run': "await ?t (\<lambda>_. prompts_findOne i) (w\<lparr>ticks := Suc (ticks w)\<rparr>) = (r, w')"
    using run assms(1) by (simp add: prompts_publish_def await_def andthen_def PromptVersion_def)
  obtain y w2 where t: "?t (w\<lparr>ticks := Suc (ticks w)\<rparr>) = (y, w2)" by fastforce
  show ?thesis
  proof (cases y)
    case (Inl e)
    with t run' show ?thesis by (auto simp: await_def dest: transaction_error_db)
  next
    case (Inr x)
    with t have "db w2 = (db w)\<lparr>promptVersions := map (publish_row i (pv_id d) ?now) (promptVersions (db w))\<rparr>"
      by (auto simp: transaction_Inr_iff andthen_Inr_iff update_many_Inr_iff update_row_Inr_iff PromptVersion_def
          publish_row_def Let_def comp_def intro!: map_cong)
    moreover have find: "prompts_findOne i w2 = (r, w')" using t Inr run' by (simp add: await_def)
    moreover from find have "w' = w2" by (auto simp: prompts_findOne_def await_def split: option.splits)
    ultimately show ?thesis by simp
  qed
qed

text \<open>
  C31. Publishing a prompt leaves exactly one published version, the latest draft, and the readings use
  it from then on: \<open>getPublishedVersionId\<close> answers it. The versions of other prompts are untouched.
  Without a draft the request is refused and nothing changes.
\<close>

theorem publish_prompt:
  assumes "unique_rows Prompt (db w)" "unique_rows PromptVersion (db w)" and run: "prompts_publish E i w = (r, w')"
  shows "if \<exists>v \<in> set (promptVersions (db w)). pv_promptId v = i \<and> pv_status v = PV_DRAFT
    then (\<forall>a. r = Inr a \<longrightarrow> (\<exists>v. published i (db w') = [v] \<and> getPublishedVersionId (apr_code a) w' = (Inr (pv_id v), w') \<and>
        (\<forall>u \<in> set (promptVersions (db w)). pv_promptId u = i \<and> pv_status u = PV_DRAFT \<longrightarrow> pv_version u \<le> pv_version v)) \<and>
      filter (\<lambda>v. pv_promptId v \<noteq> i) (promptVersions (db w')) = filter (\<lambda>v. pv_promptId v \<noteq> i) (promptVersions (db w)))
    else r = Inl (BadRequestException ''no draft'') \<and> w' = w"
proof (cases "\<exists>v \<in> set (promptVersions (db w)). pv_promptId v = i \<and> pv_status v = PV_DRAFT")
  case False
  then have "filter (\<lambda>v. pv_promptId v = i \<and> pv_status v = PV_DRAFT) (promptVersions (db w)) = []"
    by (auto simp: filter_empty_conv)
  with run False show ?thesis by (auto simp: prompts_publish_def await_def PromptVersion_def order_desc_def)
next
  case True
  let ?drafts = "filter (\<lambda>v. pv_promptId v = i \<and> pv_status v = PV_DRAFT) (promptVersions (db w))"
  let ?now = "e_clock E (ticks w)"
  have "?drafts \<noteq> []" using True by (auto simp: filter_empty_conv)
  then obtain d ds where d: "order_desc pv_version ?drafts = d # ds"
    by (cases "order_desc pv_version ?drafts") auto
  have "set (order_desc pv_version ?drafts) = set ?drafts" by (rule set_order_desc)
  with d have dd: "d \<in> set (promptVersions (db w))" "pv_promptId d = i" "pv_status d = PV_DRAFT" by auto
  have ids: "distinct (map pv_id (promptVersions (db w)))"
    using unique_rows_distinct [OF assms(2), of pv_id] by (simp add: PromptVersion_def)
  have top: "pv_version u \<le> pv_version d" if "u \<in> set (promptVersions (db w))" "pv_promptId u = i" "pv_status u = PV_DRAFT" for u
    using order_desc_head_max [of u ?drafts pv_version] that d by simp
  from publish_transaction [OF d run] show ?thesis
  proof
    assume find: "prompts_findOne i w' = (r, w') \<and> db w' = (db w)\<lparr>promptVersions := map (publish_row i (pv_id d) ?now) (promptVersions (db w))\<rparr>"
    then have w': "db w' = (db w)\<lparr>promptVersions := map (publish_row i (pv_id d) ?now) (promptVersions (db w))\<rparr>" ..
    have pub: "published i (db w') = [d\<lparr>pv_status := PV_PUBLISHED, pv_publishedAt := Some ?now\<rparr>]"
      using published_after [OF ids dd] by (simp add: published_def w')
    have "getPublishedVersionId (apr_code a) w' = (Inr (pv_id d), w')" if ra: "r = Inr a" for a
    proof -
      obtain p where p: "find (\<lambda>p. pr_id p = i) (prompts (db w)) = Some p" "apr_code a = pr_code p"
        using find ra by (auto simp: prompts_findOne_def await_def Prompt_def w' toAdminPrompt_def split: option.splits)
      have "find (\<lambda>q. pr_code q = pr_code p) (prompts (db w)) = Some p"
        using prompts_tbl.unique_rows_clash_eq [OF assms(1), of _ p] find_SomeD [OF p(1)]
        by (intro find_SomeI_unique) (auto simp: Prompt_def)
      with p pub find_SomeD [OF p(1)] show ?thesis
        by (simp add: getPublishedVersionId_def await_def Prompt_def PromptVersion_def w' published_def order_desc_def)
    qed
    with pub top other_versions_kept [OF dd(1) ids dd(2)] True show ?thesis by (simp add: w')
  qed (use True in auto)
qed

lemma publish_prompt_witness:
  "\<exists>w w' a v. (\<exists>u \<in> set (promptVersions (db w)). pv_promptId u = ''p'' \<and> pv_status u = PV_DRAFT) \<and>
     prompts_publish example_env ''p'' w = (Inr a, w') \<and> published ''p'' (db w') = [v] \<and>
     getPublishedVersionId ''C'' w' = (Inr (pv_id v), w')"
proof -
  let ?v = "\<lambda>k s n. \<lparr>pv_id = k, pv_promptId = ''p'', pv_version = n, pv_systemPrompt = [],
       pv_userPromptTemplate = [], pv_model = [], pv_temperature = None,
       pv_maxOutputTokens = None, pv_outputSchema = JNull, pv_status = s, pv_authorId = None,
       pv_publishedAt = None, pv_createdAt = 0\<rparr>"
  let ?w = "empty_world\<lparr>db := empty_database\<lparr>
     prompts := [\<lparr>pr_id = ''p'', pr_code = ''C'', pr_name = [], pr_createdAt = 0\<rparr>],
     promptVersions := [?v ''a'' PV_PUBLISHED 1, ?v ''b'' PV_DRAFT 2]\<rparr>\<rparr>"
  have u: "unique_rows Prompt (db ?w)" "unique_rows PromptVersion (db ?w)"
    by (simp_all add: unique_rows_def Prompt_def PromptVersion_def)
  have dr: "\<exists>u \<in> set (promptVersions (db ?w)). pv_promptId u = ''p'' \<and> pv_status u = PV_DRAFT" by simp
  obtain a w' where run: "prompts_publish example_env ''p'' ?w = (Inr a, w')" "apr_code a = ''C''"
    by (simp add: prompts_publish_def await_def andthen_def transaction_def update_many_def update_row_def
        PromptVersion_def Prompt_def prompts_findOne_def order_desc_def int4_def toAdminPrompt_def)
  from publish_prompt [OF u run(1), unfolded if_P [OF dr]] obtain v where
    v: "published ''p'' (db w') = [v]" "getPublishedVersionId (apr_code a) w' = (Inr (pv_id v), w')"
    by blast
  show ?thesis by (intro exI conjI) (rule dr run(1) v(1) v(2) [unfolded run(2)])+
qed

end
