(* ===== verification/ReadingJobs.thy ===== *)
theory ReadingJobs
  imports ReadingLaws AiOrchestrator PromptsService
begin

text \<open>
  The workers of the queues \<open>reading-processing\<close> and \<open>image-analysis\<close> (\<open>src/jobs\<close>): a submitted reading is
  interpreted and its reservation settled, an uploaded image of a palm is looked at. A queue may deliver a
  job more than once, and calls \<open>onFailed\<close> when a delivery threw. The contract of a processor
  is the locale \<open>reading_processor\<close>.
\<close>

section \<open>Interpreting a reading\<close>

definition tarot_SUIT_LABELS :: "minorSuit \<Rightarrow> string" where
  "tarot_SUIT_LABELS s = (case s of
       WANDS \<Rightarrow> ''Bastos'' | CUPS \<Rightarrow> ''Copas'' | SWORDS \<Rightarrow> ''Espadas'' | PENTACLES \<Rightarrow> ''Oros'')"

text \<open>\<open>answers.question\<close> when it is a text.\<close>

definition question_of :: "readingInput option \<Rightarrow> string" where
  "question_of inp = (case inp of
       None \<Rightarrow> []
     | Some i \<Rightarrow> (case in_answers i of
           JObject ps \<Rightarrow> (case map_of ps ''question'' of Some (JString s) \<Rightarrow> s | _ \<Rightarrow> [])
         | _ \<Rightarrow> []))"

definition card_line :: "tarotDrawRow \<times> tarotCard \<Rightarrow> string" where
  "card_line x = (case x of (d, c) \<Rightarrow>
     let orientation = (if dr_orientation d = UPRIGHT then ''derecha'' else ''invertida'');
         suit = (case tc_suit c of None \<Rightarrow> [] | Some s \<Rightarrow> '' de '' @ tarot_SUIT_LABELS s)
     in dr_position d @ '': '' @ tc_name c @ suit @ '' ('' @ orientation @ '')'')"

fun join_lines :: "string list \<Rightarrow> string" where
  "join_lines [] = []"
| "join_lines [s] = s"
| "join_lines (s # ss) = s @ [CHR 0x0A] @ join_lines ss"

text \<open>The status of a result is a status of the reading.\<close>

definition result_status :: "executeResult \<Rightarrow> readingStatus" where
  "result_status result = (if xr_status result = AI_COMPLETED then COMPLETED else FAILED)"

text \<open>The end of both processors: settle the reservation, then record the outcome.\<close>

definition finish_reading :: "env \<Rightarrow> string \<Rightarrow> string \<Rightarrow> executeResult \<Rightarrow> (world, unit) prog" where
  "finish_reading E readingId promptVersionId result =
     andthen
       (if xr_status result = AI_COMPLETED then confirmConsumption E readingId
        else releaseReservation E readingId)
       (andthen (update_row Reading (\<lambda>r. r_id r = readingId)
           (\<lambda>r. r\<lparr>r_status := result_status result, r_promptVersionId := Some promptVersionId\<rparr>))
         (ret ()))"

definition start_reading :: "string \<Rightarrow> (world, reading) prog" where
  "start_reading readingId =
     update_row Reading (\<lambda>r. r_id r = readingId) (\<lambda>r. r\<lparr>r_status := PROCESSING\<rparr>)"

definition tarot_processReading :: "env \<Rightarrow> aiProvider \<Rightarrow> string \<Rightarrow> (world, unit) prog" where
  "tarot_processReading E P readingId =
     await (find_first Reading (\<lambda>r. r_id r = readingId)) (\<lambda>found. case found of
       None \<Rightarrow> ret ()
     | Some reading \<Rightarrow>
         await (find_first ReadingInput (\<lambda>i. in_readingId i = readingId)) (\<lambda>inp.
         await (find_or_throw Service (\<lambda>s. s_id s = r_serviceId reading)) (\<lambda>service.
         await (find_many SpreadPosition (\<lambda>p. r_spreadId reading = Some (sp_spreadId p))) (\<lambda>positions.
         await (find_many TarotDraw (\<lambda>d. dr_readingId d = readingId)) (\<lambda>ds.
         await (map_each (\<lambda>d. await (find_or_throw TarotCard (\<lambda>c. tc_id c = dr_cardId d)) (\<lambda>c. ret (d, c))) ds) (\<lambda>draws.
         if r_status reading = COMPLETED then ret ()
         else
           andthen (start_reading readingId)
           (await (getPublishedVersionId (s_code service @ ''_INTERPRETATION'')) (\<lambda>promptVersionId.
            let question = question_of inp;
                orderedDraws = sort_key (\<lambda>(d, c). draw_order positions d) draws;
                cardsText = join_lines (map card_line orderedDraws) in
            await (execute E P \<lparr>xi_promptVersionId = promptVersionId, xi_readingId = Some readingId,
                xi_variables = [(''question'', question), (''cards'', cardsText)],
                xi_riskCheckText = question, xi_images = None\<rparr>) (\<lambda>result.
            finish_reading E readingId promptVersionId result)))))))))"

text \<open>One image of a request, downloaded. A download changes nothing, so their order does not matter.\<close>

definition request_image :: "env \<Rightarrow> palmImage \<Rightarrow> (world, aiProviderImage) prog" where
  "request_image E img =
     await (downloadObject E (pi_storageKey img)) (\<lambda>bytes.
     ret \<lparr>im_base64 = e_base64 E bytes,
          im_mimeType = (case pi_mimeType img of None \<Rightarrow> ''image/jpeg'' | Some m \<Rightarrow> m)\<rparr>)"

definition palm_processReading :: "env \<Rightarrow> aiProvider \<Rightarrow> string \<Rightarrow> (world, unit) prog" where
  "palm_processReading E P readingId =
     await (find_first Reading (\<lambda>r. r_id r = readingId)) (\<lambda>found. case found of
       None \<Rightarrow> ret ()
     | Some reading \<Rightarrow>
         await (find_many PalmImage (\<lambda>i. pi_readingId i = readingId \<and> pi_status i = VALID)) (\<lambda>palmImages.
         if r_status reading = COMPLETED then ret ()
         else
           andthen (start_reading readingId)
           (await (getPublishedVersionId PALM_READING_INTERPRETATION_TASK) (\<lambda>promptVersionId.
            await (map_each (request_image E) (sort_key pi_createdAt palmImages)) (\<lambda>images.
            await (execute E P \<lparr>xi_promptVersionId = promptVersionId, xi_readingId = Some readingId,
                xi_variables = [], xi_riskCheckText = [], xi_images = Some images\<rparr>) (\<lambda>result.
            finish_reading E readingId promptVersionId result))))))"

section \<open>The consumer of the queue\<close>

definition processorsByJobName ::
  "env \<Rightarrow> aiProvider \<Rightarrow> (string \<times> (string \<Rightarrow> (world, unit) prog)) list" where
  "processorsByJobName E P =
     [(PROCESS_TAROT_JOB, tarot_processReading E P), (PROCESS_PALM_JOB, palm_processReading E P)]"

text \<open>A job with the name of an inherited property has no \<open>processReading\<close> to call.\<close>

definition reading_process :: "env \<Rightarrow> aiProvider \<Rightarrow> job \<Rightarrow> (world, unit) prog" where
  "reading_process E P j = (case js_get (processorsByJobName E P) (j_name j) of
       Undefined \<Rightarrow> throw (PlainError ''no processor'')
     | Inherited \<Rightarrow> throw (TypeError ''processReading is not a function'')
     | Own processReading \<Rightarrow> processReading (j_data j))"

text \<open>\<open>attempts\<close> and \<open>attemptsMade\<close> are those of the job.\<close>

definition reading_onFailed :: "env \<Rightarrow> job \<Rightarrow> nat option \<Rightarrow> nat \<Rightarrow> (world, unit) prog" where
  "reading_onFailed E j attempts attemptsMade =
     (let maxAttempts = (case attempts of None \<Rightarrow> 1 | Some n \<Rightarrow> n) in
      if attemptsMade < maxAttempts then ret ()
      else
        andthen (releaseReservation E (j_data j))
        (andthen (update_many Reading (\<lambda>r. r_id r = j_data j \<and> r_status r \<noteq> COMPLETED)
            (\<lambda>r. r\<lparr>r_status := FAILED\<rparr>))
          (ret ())))"

section \<open>Looking at an uploaded image\<close>

definition GENERIC_FAILURE_MESSAGE :: string where
  "GENERIC_FAILURE_MESSAGE = ''No fue posible validar la imagen.''"

text \<open>A property of the output; the schema of the task makes it an object that has it.\<close>

definition json_property :: "json \<Rightarrow> string \<Rightarrow> json" where
  "json_property out k = (case out of
       JObject ps \<Rightarrow> (case map_of ps k of None \<Rightarrow> JNull | Some v \<Rightarrow> v)
     | _ \<Rightarrow> JNull)"

definition legibility_verdict :: "json \<Rightarrow> palmImage \<Rightarrow> palmImage" where
  "legibility_verdict out i =
     (if json_property out ''isLegiblePalm'' = JBool True then i\<lparr>pi_status := VALID, pi_validationError := None\<rparr>
      else i\<lparr>pi_status := INVALID,
         pi_validationError := (case json_property out ''reason'' of JString s \<Rightarrow> Some s | _ \<Rightarrow> None)\<rparr>)"

definition validateImage :: "env \<Rightarrow> aiProvider \<Rightarrow> string \<Rightarrow> (world, unit) prog" where
  "validateImage E P palmImageId =
     await (find_first PalmImage (\<lambda>i. pi_id i = palmImageId)) (\<lambda>found. case found of
       None \<Rightarrow> ret ()
     | Some img \<Rightarrow>
         if pi_status img \<noteq> PENDING_REVIEW then ret ()
         else
           await (downloadObject E (pi_storageKey img)) (\<lambda>bytes.
           await (getPublishedVersionId PALM_IMAGE_LEGIBILITY_TASK) (\<lambda>promptVersionId.
           await (execute E P \<lparr>xi_promptVersionId = promptVersionId, xi_readingId = Some (pi_readingId img),
               xi_variables = [], xi_riskCheckText = [],
               xi_images = Some [\<lparr>im_base64 = e_base64 E bytes,
                 im_mimeType = (case pi_mimeType img of None \<Rightarrow> ''image/jpeg'' | Some m \<Rightarrow> m)\<rparr>]\<rparr>) (\<lambda>result.
           if xr_status result = AI_COMPLETED then
             (case xr_output result of
                None \<Rightarrow> throw (TypeError ''output'')
              | Some output \<Rightarrow>
                  andthen (update_row PalmImage (\<lambda>i. pi_id i = palmImageId) (legibility_verdict output)) (ret ()))
           else
             andthen (update_row PalmImage (\<lambda>i. pi_id i = palmImageId)
                 (\<lambda>i. i\<lparr>pi_status := INVALID,
                    pi_validationError := Some (case xr_errorMessage result of
                        None \<Rightarrow> GENERIC_FAILURE_MESSAGE | Some m \<Rightarrow> m)\<rparr>))
               (ret ())))))"

definition image_onFailed :: "string \<Rightarrow> nat option \<Rightarrow> nat \<Rightarrow> (world, unit) prog" where
  "image_onFailed palmImageId attempts attemptsMade =
     (let maxAttempts = (case attempts of None \<Rightarrow> 1 | Some n \<Rightarrow> n) in
      if attemptsMade < maxAttempts then ret ()
      else
        andthen (update_many PalmImage (\<lambda>i. pi_id i = palmImageId \<and> pi_status i \<noteq> VALID)
            (\<lambda>i. i\<lparr>pi_status := INVALID, pi_validationError := Some GENERIC_FAILURE_MESSAGE\<rparr>))
          (ret ()))"

end
