(* ===== verification/ReadingJobLaws.thy ===== *)
theory ReadingJobLaws
  imports ReadingJobs
begin

text \<open>
  What the workers do to a reading and to the money reserved for it. \<open>reading_processor\<close> is the contract
  both processors meet (the source declares it as the interface \<open>ReadingProcessor\<close>); from it follows what any
  sequence of deliveries can do, errors, repetitions and retries included.
\<close>

section \<open>Settling\<close>

definition refunded :: "string \<Rightarrow> string \<Rightarrow> database \<Rightarrow> int option" where
  "refunded u rid d = (case held_by rid d of
       None \<Rightarrow> balance_of u d
     | Some (v, a) \<Rightarrow> if v = u then map_option (\<lambda>b. b + a) (balance_of u d) else balance_of u d)"

text \<open>What may happen to the money of a reading: nothing, or its reservation ends, consumed or given back.\<close>

definition money_step :: "string \<Rightarrow> database \<Rightarrow> database \<Rightarrow> bool" where
  "money_step rid d d' =
     ((held_by rid d' = held_by rid d \<and> (\<forall>u. balance_of u d' = balance_of u d)) \<or>
      (held_by rid d' = None \<and> ((\<forall>u. balance_of u d' = balance_of u d) \<or> (\<forall>u. balance_of u d' = refunded u rid d))))"

lemma refunded_cong:
  "held_by rid d' = held_by rid d \<Longrightarrow> balance_of u d' = balance_of u d \<Longrightarrow> refunded u rid d' = refunded u rid d"
  by (simp add: refunded_def split: option.split)

lemma refunded_free: "held_by rid d = None \<Longrightarrow> refunded u rid d = balance_of u d"
  by (simp add: refunded_def)

lemma money_step_trans: "money_step rid d d' \<Longrightarrow> money_step rid d' d'' \<Longrightarrow> money_step rid d d''"
  unfolding money_step_def by (elim disjE conjE) (simp_all add: refunded_free refunded_cong [of rid d' d])

text \<open>The part of the database the money is in.\<close>

definition purse :: "world \<Rightarrow> wallet list \<times> walletTransaction list \<times> creditReservation list" where
  "purse w = (wallets (db w), walletTransactions (db w), creditReservations (db w))"

lemma purse_same:
  assumes "purse w' = purse w"
  shows "wallet_inv (db w') = wallet_inv (db w)" "held_by rid (db w') = held_by rid (db w)"
    "balance_of u (db w') = balance_of u (db w)" "refunded u rid (db w') = refunded u rid (db w)"
    "money_step rid (db w) (db w')"
proof -
  have eq: "wallets (db w') = wallets (db w)" "walletTransactions (db w') = walletTransactions (db w)"
    "creditReservations (db w') = creditReservations (db w)" using assms by (simp_all add: purse_def)
  show "wallet_inv (db w') = wallet_inv (db w)" by (simp add: wallet_inv_def eq)
  show h: "held_by rid (db w') = held_by rid (db w)" by (rule held_by_same [OF eq(1,3)])
  have b: "balance_of u (db w') = balance_of u (db w)" for u by (rule balance_of_same [OF eq(1)])
  then show "balance_of u (db w') = balance_of u (db w)" .
  show "refunded u rid (db w') = refunded u rid (db w)" by (rule refunded_cong [OF h b])
  show "money_step rid (db w) (db w')" using h b by (simp add: money_step_def)
qed

lemma same_purse_row [same_intro]:
  "same purse (update_row Reading P f)" "same purse (update_many Reading P f)" "same purse (start_reading rid)"
  by (auto simp: same_def purse_def start_reading_def update_row_def update_many_def Reading_def split: option.split)

lemma same_from_keeps: "(\<And>c. keeps (\<lambda>d. g d = c) m) \<Longrightarrow> same (\<lambda>w. g (db w)) m"
  by (auto simp: same_def keeps_def)

lemma same_purse_execute [same_intro]: "same purse (execute E P inp)"
  unfolding purse_def by (rule same_from_keeps execute_keeps)+ (simp add: ignores_def AIExecution_def)

lemma same_readings_execute: "same (\<lambda>w. readings (db w)) (execute E P inp)"
  by (rule same_from_keeps execute_keeps)+ (simp add: ignores_def AIExecution_def)

lemma same_published [same_intro]: "same f (getPublishedVersionId code)"
  unfolding getPublishedVersionId_def by (intro same_intro)

lemma same_db_download [same_intro]: "same db (downloadObject E k)" "same db (request_image E img)"
  unfolding request_image_def downloadObject_def storage_call_def by (intro same_intro same_modify; simp)+

lemma same_through: "same db m \<Longrightarrow> same (\<lambda>w. g (db w)) m"
  by (simp add: same_def)

lemma same_purse_request [same_intro]: "same purse (request_image E img)"
  unfolding purse_def by (rule same_through) (intro same_intro)

lemma confirm_step:
  assumes inv: "wallet_inv (db w)" and run: "confirmConsumption E rid w = (r, w')"
  shows "wallet_inv (db w') \<and> money_step rid (db w) (db w') \<and> readings (db w') = readings (db w) \<and> aiExecutions (db w') = aiExecutions (db w)"
proof (cases r)
  case (Inl e)
  then have "db w' = db w" using run by (auto simp: confirmConsumption_def dest: transaction_error_db)
  with inv show ?thesis by (simp add: money_step_def)
next
  case (Inr x)
  with run have "confirmConsumption E rid w = (Inr x, w')" by simp
  note run = this and law = wallet_confirm_law [OF inv this]
  have "wallet_inv (db w')" using keepsD_run [OF confirm_keeps inv run] .
  with law confirm_Inr [OF run wallet_invD(2) [OF inv]] show ?thesis by (auto simp: money_step_def)
qed

lemma release_step:
  assumes inv: "wallet_inv (db w)" and run: "releaseReservation E rid w = (r, w')"
  shows "wallet_inv (db w') \<and> money_step rid (db w) (db w') \<and> readings (db w') = readings (db w) \<and> aiExecutions (db w') = aiExecutions (db w)"
proof (cases r)
  case (Inl e)
  then have "db w' = db w" using run by (auto simp: releaseReservation_def dest: transaction_error_db)
  with inv show ?thesis by (simp add: money_step_def)
next
  case (Inr x)
  with run have "releaseReservation E rid w = (Inr x, w')" by simp
  note run = this and law = wallet_release_law [OF inv this]
  have "wallet_inv (db w')" using keepsD_run [OF release_keeps inv run] .
  with law release_Inr [OF run wallet_invD(2) [OF inv]] show ?thesis by (auto simp: money_step_def refunded_def)
qed

text \<open>The reading is there and not completed.\<close>

definition open_reading :: "string \<Rightarrow> database \<Rightarrow> bool" where
  "open_reading rid d = (case find (\<lambda>r. r_id r = rid) (readings d) of
       None \<Rightarrow> False | Some rd \<Rightarrow> r_status rd \<noteq> COMPLETED)"

lemma open_reading_iff:
  "open_reading rid d \<longleftrightarrow> (\<exists>rd. find (\<lambda>r. r_id r = rid) (readings d) = Some rd \<and> r_status rd \<noteq> COMPLETED)"
  by (simp add: open_reading_def split: option.split)

lemma open_reading_same: "readings d' = readings d \<Longrightarrow> open_reading rid d' = open_reading rid d"
  by (simp add: open_reading_iff)

lemma open_reading_update:
  assumes "open_reading rid d" "\<And>r. r_id (f r) = r_id r \<and> r_status (f r) \<noteq> COMPLETED"
  shows "open_reading rid (d\<lparr>readings := map (\<lambda>r. if Q r then f r else r) (readings d)\<rparr>)"
proof -
  obtain rd where "find (\<lambda>r. r_id r = rid) (readings d) = Some rd" "r_status rd \<noteq> COMPLETED"
    using assms(1) by (auto simp: open_reading_iff)
  moreover have "find (\<lambda>r. r_id r = rid) (map (\<lambda>r. if Q r then f r else r) (readings d)) =
      map_option (\<lambda>r. if Q r then f r else r) (find (\<lambda>r. r_id r = rid) (readings d))"
    by (rule find_by_same_key) (simp add: assms(2))
  ultimately show ?thesis using assms(2) by (simp add: open_reading_iff)
qed

text \<open>What a processor that ran to its end has done.\<close>

definition settled :: "string \<Rightarrow> database \<Rightarrow> database \<Rightarrow> bool" where
  "settled rid d d' =
     (held_by rid d' = None \<and>
      (\<exists>ex rd. aiExecutions d' = aiExecutions d @ [ex] \<and> ai_readingId ex = Some rid \<and>
         rd \<in> set (readings d') \<and> r_id rd = rid \<and> r_promptVersionId rd = Some (ai_promptVersionId ex) \<and>
         (if ai_status ex = AI_COMPLETED
          then r_status rd = COMPLETED \<and> ai_outputJson ex \<noteq> None \<and> (\<forall>u. balance_of u d' = balance_of u d)
          else r_status rd = FAILED \<and> ai_outputJson ex = None \<and> (\<forall>u. balance_of u d' = refunded u rid d))))"

lemma finish_step:
  assumes inv: "wallet_inv (db w)" and run: "finish_reading E rid pv res w = (r, w')"
  shows "wallet_inv (db w') \<and> money_step rid (db w) (db w')"
proof -
  let ?settle = "if xr_status res = AI_COMPLETED then confirmConsumption E rid else releaseReservation E rid"
  obtain x w1 where s: "?settle w = (x, w1)" by (cases "?settle w")
  then have 1: "wallet_inv (db w1) \<and> money_step rid (db w) (db w1)"
    using confirm_step [OF inv] release_step [OF inv] by (auto split: if_splits)
  have "purse w' = purse w1"
    using run s by (cases x) (auto simp: finish_reading_def andthen_def await_def
      dest: same_run [OF same_purse_row(1)] split: prod.splits sum.splits)
  then show ?thesis using 1 purse_same money_step_trans by metis
qed

text \<open>The end of a processor that returned.\<close>

lemma finish_settles:
  assumes inv: "wallet_inv (db w)" and run: "finish_reading E rid pv res w = (Inr x, w')"
  shows "held_by rid (db w') = None \<and> aiExecutions (db w') = aiExecutions (db w) \<and>
    (\<exists>rd \<in> set (readings (db w')). r_id rd = rid \<and> r_status rd = result_status res \<and> r_promptVersionId rd = Some pv) \<and>
    (\<forall>u. balance_of u (db w') = (if xr_status res = AI_COMPLETED then balance_of u (db w) else refunded u rid (db w)))"
proof -
  let ?settle = "if xr_status res = AI_COMPLETED then confirmConsumption E rid else releaseReservation E rid"
  let ?f = "\<lambda>r. r\<lparr>r_status := result_status res, r_promptVersionId := Some pv\<rparr>"
  obtain y w1 r where s: "?settle w = (Inr y, w1)" and r: "find (\<lambda>r. r_id r = rid) (readings (db w1)) = Some r"
    and w': "db w' = (db w1)\<lparr>readings := map (\<lambda>r. if r_id r = rid then ?f r else r) (readings (db w1))\<rparr>"
    using run by (auto simp: finish_reading_def andthen_Inr_iff update_row_Inr_iff Reading_def)
  have money: "held_by rid (db w1) = None \<and> aiExecutions (db w1) = aiExecutions (db w) \<and>
    (\<forall>u. balance_of u (db w1) = (if xr_status res = AI_COMPLETED then balance_of u (db w) else refunded u rid (db w)))"
  proof (cases "xr_status res = AI_COMPLETED")
    case True
    with s have "confirmConsumption E rid w = (Inr y, w1)" by simp
    with True wallet_confirm_law [OF inv this] confirm_step [OF inv this] show ?thesis by simp
  next
    case False
    with s have "releaseReservation E rid w = (Inr y, w1)" by simp
    with False wallet_release_law [OF inv this] release_step [OF inv this] show ?thesis by (simp add: refunded_def)
  qed
  have "held_by rid (db w') = held_by rid (db w1)" "\<And>u. balance_of u (db w') = balance_of u (db w1)"
    by (rule held_by_same balance_of_same; simp add: w')+
  moreover have "\<exists>rd \<in> set (readings (db w')). r_id rd = rid \<and> r_status rd = result_status res \<and> r_promptVersionId rd = Some pv"
    using find_SomeD [OF r] by (intro bexI [of _ "?f r"]) (auto simp: w' intro!: image_eqI [of _ _ r])
  ultimately show ?thesis using money by (simp add: w')
qed

text \<open>The middle of a processor: the request to the model, then the end.\<close>

definition ask_and_finish :: "env \<Rightarrow> aiProvider \<Rightarrow> string \<Rightarrow> executeInput \<Rightarrow> (world, unit) prog" where
  "ask_and_finish E P rid inp = await (execute E P inp) (finish_reading E rid (xi_promptVersionId inp))"

lemma ask_step:
  assumes inv: "wallet_inv (db w)" and run: "ask_and_finish E P rid inp w = (r, w')"
  shows "wallet_inv (db w') \<and> money_step rid (db w) (db w')"
proof -
  obtain x w1 where x: "execute E P inp w = (x, w1)" by (cases "execute E P inp w")
  note e = purse_same [OF same_run [OF same_purse_execute x]]
  show ?thesis
  proof (cases x)
    case (Inl err)
    with run x e inv show ?thesis by (auto simp: ask_and_finish_def await_def)
  next
    case (Inr res)
    then have "finish_reading E rid (xi_promptVersionId inp) res w1 = (r, w')" using run x by (simp add: ask_and_finish_def await_def)
    with finish_step [of w1] e inv show ?thesis using money_step_trans by metis
  qed
qed

lemma ask_settles:
  assumes inv: "wallet_inv (db w)" and run: "ask_and_finish E P rid inp w = (Inr x, w')" and rid: "xi_readingId inp = Some rid"
  shows "settled rid (db w) (db w')"
proof -
  obtain res w1 where x: "execute E P inp w = (Inr res, w1)" and f: "finish_reading E rid (xi_promptVersionId inp) res w1 = (Inr x, w')"
    using run unfolding ask_and_finish_def by (rule await_InrE)
  note e = purse_same [OF same_run [OF same_purse_execute x]]
  obtain ex where ex: "db w1 = (db w)\<lparr>aiExecutions := aiExecutions (db w) @ [ex]\<rparr>" "ai_status ex = xr_status res"
    "ai_outputJson ex = xr_output res" "ai_readingId ex = xi_readingId inp" "ai_promptVersionId ex = xi_promptVersionId inp"
    and out: "xr_status res = AI_FAILED \<and> xr_output res = None \<or> xr_status res = AI_COMPLETED \<and> xr_output res \<noteq> None"
    using x by (rule execute_run) blast
  have "wallet_inv (db w1)" using e inv by simp
  from finish_settles [OF this f] show ?thesis
    unfolding settled_def using ex out e rid by (auto simp: result_status_def intro!: exI [of _ ex])
qed

text \<open>When it fails the money has not moved: the end only throws before it has settled anything.\<close>

lemma ask_fails:
  assumes inv: "wallet_inv (db w)" and op: "open_reading rid (db w)" and run: "ask_and_finish E P rid inp w = (Inl e, w')"
  shows "purse w' = purse w \<and> open_reading rid (db w')"
proof -
  obtain x w1 where x: "execute E P inp w = (x, w1)" by (cases "execute E P inp w")
  note p = same_run [OF same_purse_execute x] and rs = same_run [OF same_readings_execute x]
  have o1: "open_reading rid (db w1)" using op open_reading_same [OF rs] by simp
  show ?thesis
  proof (cases x)
    case (Inl err)
    with run x p o1 show ?thesis by (simp add: ask_and_finish_def await_def)
  next
    case (Inr res)
    let ?settle = "if xr_status res = AI_COMPLETED then confirmConsumption E rid else releaseReservation E rid"
    have inv1: "wallet_inv (db w1)" using purse_same(1) [OF p] inv by simp
    have f: "finish_reading E rid (xi_promptVersionId inp) res w1 = (Inl e, w')"
      using run x Inr by (simp add: ask_and_finish_def await_def)
    obtain y w2 where s: "?settle w1 = (y, w2)" by (cases "?settle w1")
    have rs2: "readings (db w2) = readings (db w1)"
      using s confirm_step [OF inv1] release_step [OF inv1] by (auto split: if_splits)
    have "isl y"
    proof (rule ccontr)
      assume "\<not> isl y"
      then obtain z where "y = Inr z" by (cases y) auto
      with f s o1 rs2 show False
        by (auto simp: finish_reading_def andthen_def await_def update_row_def Reading_def open_reading_iff split: option.splits)
    qed
    then have "db w2 = db w1" "w' = w2"
      using s f by (auto simp: finish_reading_def andthen_def await_def confirmConsumption_def releaseReservation_def
          dest: transaction_error_db split: if_splits sum.splits)
    with p o1 show ?thesis by (simp add: purse_def)
  qed
qed

section \<open>The contract of a processor\<close>

text \<open>
  \<open>asks E P rid quiet m\<close>: before it asks the model about the reading, \<open>m\<close> touches neither money nor
  executions, and it ends there or, when it does not ask, with an error (or quietly, if \<open>quiet\<close>).
\<close>

definition untouched :: "world \<Rightarrow> world \<Rightarrow> bool" where
  "untouched w w' \<longleftrightarrow> purse w' = purse w \<and> aiExecutions (db w') = aiExecutions (db w) \<and>
     (\<forall>rid. open_reading rid (db w) \<longrightarrow> open_reading rid (db w'))"

lemma untouched_refl [simp]: "untouched w w"
  by (simp add: untouched_def)

definition asks :: "env \<Rightarrow> aiProvider \<Rightarrow> string \<Rightarrow> bool \<Rightarrow> (world, unit) prog \<Rightarrow> bool" where
  "asks E P rid quiet m = (\<forall>w. (untouched w (snd (m w)) \<and> (quiet \<or> isl (fst (m w)))) \<or>
     (\<exists>w1 inp. untouched w w1 \<and> xi_readingId inp = Some rid \<and> m w = ask_and_finish E P rid inp w1))"

named_theorems asks_intro "programs that ask the model at their end"

definition minds_own_business :: "(world, 'a) prog \<Rightarrow> bool" where
  "minds_own_business m = (\<forall>w. untouched w (snd (m w)))"

lemma asks_await [asks_intro]:
  assumes "minds_own_business m" "\<And>x. asks E P rid q (k x)"
  shows "asks E P rid q (await m k)"
  unfolding asks_def
proof
  fix w
  obtain x w1 where m: "m w = (x, w1)" by (cases "m w")
  with assms(1) have u: "untouched w w1" unfolding minds_own_business_def by (metis snd_conv)
  show "(untouched w (snd (await m k w)) \<and> (q \<or> isl (fst (await m k w)))) \<or>
     (\<exists>w1 inp. untouched w w1 \<and> xi_readingId inp = Some rid \<and> await m k w = ask_and_finish E P rid inp w1)"
  proof (cases x)
    case (Inl e)
    with m u show ?thesis by (simp add: await_def)
  next
    case (Inr y)
    with m have k: "await m k w = k y w1" by (simp add: await_def)
    show ?thesis
      using assms(2) [of y, unfolded asks_def, rule_format, of w1] u unfolding k untouched_def by auto
  qed
qed

lemma asks_andthen [asks_intro]: "minds_own_business m \<Longrightarrow> asks E P rid q k \<Longrightarrow> asks E P rid q (andthen m k)"
  by (simp add: andthen_def asks_await)

lemma asks_ends [asks_intro]:
  "asks E P rid q (throw e)" "asks E P rid True (ret ())"
  "(c \<Longrightarrow> asks E P rid q m) \<Longrightarrow> (\<not> c \<Longrightarrow> asks E P rid q n) \<Longrightarrow> asks E P rid q (if c then m else n)"
  "(x = None \<Longrightarrow> asks E P rid q m) \<Longrightarrow> (\<And>y. x = Some y \<Longrightarrow> asks E P rid q (k y)) \<Longrightarrow>
     asks E P rid q (case x of None \<Rightarrow> m | Some y \<Rightarrow> k y)"
  "asks E P rid q (h z) \<Longrightarrow> asks E P rid q (let y = z in h y)"
  unfolding asks_def by (auto split: option.split)

lemma asks_execute [asks_intro]:
  "xi_readingId inp = Some rid \<Longrightarrow> pv = xi_promptVersionId inp \<Longrightarrow>
     asks E P rid q (await (execute E P inp) (finish_reading E rid pv))"
  unfolding asks_def by (metis ask_and_finish_def untouched_refl)

lemma mindI: "same (\<lambda>w. (purse w, aiExecutions (db w), readings (db w))) m \<Longrightarrow> minds_own_business m"
  by (simp add: same_def minds_own_business_def untouched_def open_reading_iff prod_eq_iff)

lemma own_business [asks_intro]:
  "minds_own_business (find_first T p)" "minds_own_business (find_or_throw T p)" "minds_own_business (find_many T p)"
  "minds_own_business (getPublishedVersionId code)"
  by (rule mindI, intro same_intro)+

lemma own_business_loops [asks_intro]:
  "minds_own_business (map_each (request_image E) imgs)"
  "minds_own_business (map_each (\<lambda>d. await (find_or_throw T (p d)) (\<lambda>c. ret (d, c))) ds)"
proof -
  have "same (\<lambda>w. (purse w, aiExecutions (db w), readings (db w))) (request_image E img)" for img
    unfolding purse_def
    by (rule same_through [of _ "\<lambda>d. ((wallets d, walletTransactions d, creditReservations d), aiExecutions d, readings d)"])
      (intro same_intro)
  then show "minds_own_business (map_each (request_image E) imgs)" by (intro mindI same_intro)
  show "minds_own_business (map_each (\<lambda>d. await (find_or_throw T (p d)) (\<lambda>c. ret (d, c))) ds)"
    by (intro mindI same_intro)
qed

lemma own_business_start [asks_intro]: "minds_own_business (start_reading rid)"
  by (auto simp: minds_own_business_def untouched_def purse_def start_reading_def update_row_def Reading_def
      intro!: open_reading_update split: option.split)

text \<open>
  A processor leaves the money of the reading alone or settles it, does nothing to a completed reading,
  and when it returns on any other it has settled it.
\<close>

locale reading_processor =
  fixes E :: env and P :: aiProvider and processReading :: "string \<Rightarrow> (world, unit) prog"
  assumes asks_or_rests: "asks E P rid True (processReading rid)"
    and asks_if_open: "find (\<lambda>r. r_id r = rid) (readings (db w)) = Some rd \<Longrightarrow> r_status rd \<noteq> COMPLETED \<Longrightarrow>
      \<exists>m. asks E P rid False m \<and> processReading rid w = m w"
    and rests_if_completed: "find (\<lambda>r. r_id r = rid) (readings (db w)) = Some rd \<Longrightarrow> r_status rd = COMPLETED \<Longrightarrow>
      processReading rid w = (r, w') \<Longrightarrow> db w' = db w"
begin

lemma money:
  assumes inv: "wallet_inv (db w)" and run: "processReading rid w = (r, w')"
  shows "wallet_inv (db w') \<and> money_step rid (db w) (db w')"
  using asks_or_rests [of rid, unfolded asks_def, rule_format, of w]
proof
  assume "untouched w (snd (processReading rid w)) \<and> (True \<or> isl (fst (processReading rid w)))"
  then have "purse w' = purse w" by (simp add: run untouched_def)
  note this = purse_same [OF this]
  with inv show ?thesis by simp
next
  assume "\<exists>w1 inp. untouched w w1 \<and> xi_readingId inp = Some rid \<and> processReading rid w = ask_and_finish E P rid inp w1"
  then obtain w1 inp where u: "purse w1 = purse w" and m: "ask_and_finish E P rid inp w1 = (r, w')"
    by (auto simp: untouched_def run)
  have "wallet_inv (db w1)" using purse_same(1) [OF u] inv by simp
  from ask_step [OF this m] show ?thesis using money_step_trans [OF purse_same(5) [OF u]] by blast
qed

lemma settles:
  assumes inv: "wallet_inv (db w)" and open_reading: "find (\<lambda>r. r_id r = rid) (readings (db w)) = Some rd" "r_status rd \<noteq> COMPLETED"
    and run: "processReading rid w = (Inr x, w')"
  shows "settled rid (db w) (db w')"
proof -
  obtain m where "asks E P rid False m" "m w = (Inr x, w')" using asks_if_open [OF open_reading] run by auto
  then obtain w1 inp where u: "untouched w w1" and rid: "xi_readingId inp = Some rid" and m: "ask_and_finish E P rid inp w1 = (Inr x, w')"
    unfolding asks_def by (metis isl_def fst_conv sum.distinct(1))
  have p: "purse w1 = purse w" using u by (simp add: untouched_def)
  have "wallet_inv (db w1)" using purse_same(1) [OF p] inv by simp
  from ask_settles [OF this m rid] show ?thesis using u
    by (simp add: settled_def untouched_def purse_same(2-4) [OF p] cong: if_cong)
qed

lemma fails:
  assumes inv: "wallet_inv (db w)" and op: "open_reading rid (db w)" and run: "processReading rid w = (Inl e, w')"
  shows "purse w' = purse w \<and> open_reading rid (db w')"
  using asks_or_rests [of rid, unfolded asks_def, rule_format, of w]
proof
  assume "untouched w (snd (processReading rid w)) \<and> (True \<or> isl (fst (processReading rid w)))"
  then show ?thesis using op by (simp add: run untouched_def)
next
  assume "\<exists>w1 inp. untouched w w1 \<and> xi_readingId inp = Some rid \<and> processReading rid w = ask_and_finish E P rid inp w1"
  then obtain w1 inp where u: "untouched w w1" and m: "ask_and_finish E P rid inp w1 = (Inl e, w')" by (auto simp: run)
  then have "wallet_inv (db w1)" using purse_same(1) [of w1 w] inv by (simp add: untouched_def)
  from ask_fails [OF this _ m] show ?thesis using u op by (simp add: untouched_def)
qed

end

text \<open>Both processors begin by looking the reading up.\<close>

lemma start_at:
  "asks E P rid False (k (find p (rows T (db w)))) \<Longrightarrow> \<exists>m. asks E P rid False m \<and> await (find_first T p) k w = m w"
  "same f (k (find p (rows T (db w)))) \<Longrightarrow> await (find_first T p) k w = (r, w') \<Longrightarrow> f w' = f w"
  by (auto simp: await_ok [OF find_first_run] dest: same_run)

interpretation tarot_processor: reading_processor E P "tarot_processReading E P" for E P
proof
  show "asks E P rid True (tarot_processReading E P rid)" for rid
    unfolding tarot_processReading_def by (intro asks_intro) simp_all
  fix rid and w :: world and rd assume rd: "find (\<lambda>r. r_id r = rid) (readings (db w)) = Some rd"
  show "\<exists>m. asks E P rid False m \<and> tarot_processReading E P rid w = m w" if "r_status rd \<noteq> COMPLETED"
    unfolding tarot_processReading_def
    by (rule start_at(1), simp only: Reading_def table.simps rd option.case that if_False, intro asks_intro) simp_all
  show "db w' = db w" if "r_status rd = COMPLETED" "tarot_processReading E P rid w = (r, w')" for r w'
    using that(2) unfolding tarot_processReading_def
    by (elim start_at(2) [rotated], simp only: Reading_def table.simps rd option.case that(1) if_True refl) (intro same_intro)
qed

interpretation palm_processor: reading_processor E P "palm_processReading E P" for E P
proof
  show "asks E P rid True (palm_processReading E P rid)" for rid
    unfolding palm_processReading_def by (intro asks_intro) simp_all
  fix rid and w :: world and rd assume rd: "find (\<lambda>r. r_id r = rid) (readings (db w)) = Some rd"
  show "\<exists>m. asks E P rid False m \<and> palm_processReading E P rid w = m w" if "r_status rd \<noteq> COMPLETED"
    unfolding palm_processReading_def
    by (rule start_at(1), simp only: Reading_def table.simps rd option.case that if_False, intro asks_intro) simp_all
  show "db w' = db w" if "r_status rd = COMPLETED" "palm_processReading E P rid w = (r, w')" for r w'
    using that(2) unfolding palm_processReading_def
    by (elim start_at(2) [rotated], simp only: Reading_def table.simps rd option.case that(1) if_True refl) (intro same_intro)
qed

section \<open>Deliveries\<close>

text \<open>
  What the queue does with the jobs of a reading: it delivers a job, or reports that a delivery failed for
  the \<open>attemptsMade\<close>-th time. It catches what either throws.
\<close>

datatype delivery = Delivered job | DeliveryFailed job "nat option" nat

primrec job_of :: "delivery \<Rightarrow> job" where
  "job_of (Delivered j) = j"
| "job_of (DeliveryFailed j attempts attemptsMade) = j"

primrec deliver :: "env \<Rightarrow> aiProvider \<Rightarrow> delivery \<Rightarrow> (world, unit) prog" where
  "deliver E P (Delivered j) = reading_process E P j"
| "deliver E P (DeliveryFailed j attempts attemptsMade) = reading_onFailed E j attempts attemptsMade"

definition deliveries :: "env \<Rightarrow> aiProvider \<Rightarrow> delivery list \<Rightarrow> (world, unit) prog" where
  "deliveries E P ds = for_each (\<lambda>d. try_catch (deliver E P d) (\<lambda>_. ret ())) ds"

lemma reading_process_cases:
  "reading_process E P j = (if j_name j = PROCESS_TAROT_JOB then tarot_processReading E P (j_data j)
     else if j_name j = PROCESS_PALM_JOB then palm_processReading E P (j_data j)
     else if j_name j \<in> set object_prototype_keys then throw (TypeError ''processReading is not a function'')
     else throw (PlainError ''no processor''))"
  by (simp add: reading_process_def js_get_def processorsByJobName_def PROCESS_TAROT_JOB_def PROCESS_PALM_JOB_def)

lemma process_step:
  assumes inv: "wallet_inv (db w)" and run: "reading_process E P j w = (r, w')"
  shows "wallet_inv (db w') \<and> money_step (j_data j) (db w) (db w')"
  using run inv tarot_processor.money [OF inv] palm_processor.money [OF inv]
  by (auto simp: reading_process_cases money_step_def split: if_splits)

lemma onFailed_step:
  assumes inv: "wallet_inv (db w)" and run: "reading_onFailed E j attempts attemptsMade w = (r, w')"
  shows "wallet_inv (db w') \<and> money_step (j_data j) (db w) (db w')"
proof -
  obtain x w1 where x: "releaseReservation E (j_data j) w = (x, w1)" by (cases "releaseReservation E (j_data j) w")
  note 1 = release_step [OF inv x]
  have "w' = w \<or> purse w' = purse w1"
  proof (cases "attemptsMade < (case attempts of None \<Rightarrow> 1 | Some n \<Rightarrow> n)")
    case False
    let ?rest = "andthen (update_many Reading (\<lambda>r. r_id r = j_data j \<and> r_status r \<noteq> COMPLETED) (\<lambda>r. r\<lparr>r_status := FAILED\<rparr>)) (ret ())"
    have rest: "same purse ?rest" by (intro same_intro)
    from run x False have "w' = w1 \<or> ?rest w1 = (r, w')"
      by (cases x) (simp_all add: reading_onFailed_def Let_def andthen_def await_def)
    with same_run [OF rest, of w1 r w'] show ?thesis by blast
  qed (use run in \<open>simp add: reading_onFailed_def Let_def\<close>)
  then show ?thesis
  proof
    assume "purse w' = purse w1"
    note p = purse_same [OF this]
    show ?thesis using 1 p(1) money_step_trans [OF _ p(5)] by blast
  qed (use inv in \<open>simp add: money_step_def\<close>)
qed

lemma deliver_step:
  assumes "wallet_inv (db w)" "deliver E P d w = (r, w')"
  shows "wallet_inv (db w') \<and> money_step (j_data (job_of d)) (db w) (db w')"
  using process_step [OF assms(1)] onFailed_step [OF assms(1)] assms(2) by (cases d) simp_all

lemma deliveries_step:
  assumes "wallet_inv (db w)" "deliveries E P ds w = (r, w')" "\<forall>d \<in> set ds. j_data (job_of d) = rid"
  shows "wallet_inv (db w') \<and> money_step rid (db w) (db w')"
  using assms
proof (induction ds arbitrary: w)
  case Nil
  then show ?case by (simp add: deliveries_def money_step_def)
next
  case (Cons d ds)
  obtain x w1 where d: "deliver E P d w = (x, w1)" by (cases "deliver E P d w")
  with Cons.prems deliver_step [OF Cons.prems(1) d] have 1: "wallet_inv (db w1)" "money_step rid (db w) (db w1)" by simp_all
  have "deliveries E P ds w1 = (r, w')"
    using Cons.prems(2) d by (cases x) (simp_all add: deliveries_def andthen_def await_def try_catch_def)
  from Cons.IH [OF 1(1) this] Cons.prems(3) have "wallet_inv (db w') \<and> money_step rid (db w1) (db w')" by simp
  with 1 money_step_trans show ?case by blast
qed

text \<open>
  C5. However often the queue delivers the jobs of a reading, in whatever order, whatever they throw and however the
  model answers, the user pays for the reading at most once and gets at most what was reserved back: the reservation is
  still held, or it is gone and the user's balance is what it was (the reading was paid for) or has the
  reserved credits again. A job of another name than the two of the queue changes nothing.
\<close>

theorem deliveries_charge_once:
  assumes "wallet_inv (db w)" "held_by rid (db w) = Some (u, a)" "balance_of u (db w) = Some b"
    and "\<forall>d \<in> set ds. j_data (job_of d) = rid" and "deliveries E P ds w = (r, w')"
  shows "wallet_inv (db w') \<and>
    (held_by rid (db w') = Some (u, a) \<and> balance_of u (db w') = Some b \<or>
     held_by rid (db w') = None \<and> balance_of u (db w') \<in> {Some b, Some (b + a)}) \<and>
    ((\<forall>d \<in> set ds. \<exists>j. d = Delivered j \<and> j_name j \<notin> {PROCESS_TAROT_JOB, PROCESS_PALM_JOB}) \<longrightarrow> w' = w)"
proof (intro conjI impI)
  note step = deliveries_step [OF assms(1,5,4)]
  then show "wallet_inv (db w')" ..
  show "held_by rid (db w') = Some (u, a) \<and> balance_of u (db w') = Some b \<or>
     held_by rid (db w') = None \<and> balance_of u (db w') \<in> {Some b, Some (b + a)}"
    using step assms(2,3) by (auto simp: money_step_def refunded_def)
next
  assume "(\<forall>d \<in> set ds. \<exists>j. d = Delivered j \<and> j_name j \<notin> {PROCESS_TAROT_JOB, PROCESS_PALM_JOB})"
  then have other: "\<forall>d \<in> set ds. \<exists>j. d = Delivered j \<and> j_name j \<notin> {PROCESS_TAROT_JOB, PROCESS_PALM_JOB}" by blast
  have "try_catch (deliver E P (Delivered j)) (\<lambda>_. ret ()) v = (Inr (), v)"
    if "j_name j \<notin> {PROCESS_TAROT_JOB, PROCESS_PALM_JOB}" for j v
    using that by (simp add: reading_process_cases try_catch_def)
  with other have "deliveries E P ds w = (Inr (), w)"
    unfolding deliveries_def by (induction ds) (auto simp: andthen_def await_def)
  with assms(5) show "w' = w" by simp
qed

text \<open>A user with three credits reserved for a reading.\<close>

definition submitted_example :: world where
  "submitted_example = example_world\<lparr>db := (db example_world)\<lparr>readings :=
     [\<lparr>r_id = ''r1'', r_userId = ''ana'', r_serviceId = ''s'', r_spreadId = None, r_promptVersionId = None,
       r_status = PENDING, r_submittedAt = Some 1, r_createdAt = 0\<rparr>]\<rparr>\<rparr>"

lemma submitted_example_inv: "wallet_inv (db submitted_example)"
  using example_world_inv by (simp add: submitted_example_def wallet_inv_def)

lemma submitted_example_money:
  "held_by ''r1'' (db submitted_example) = Some (''ana'', 3)" "balance_of ''ana'' (db submitted_example) = Some 12"
  by code_simp+

definition example_job :: job where
  "example_job = reading_job PROCESS_PALM_JOB ''r1'' (palmProcessingJobId ''r1'')"

lemma deliveries_charge_once_witness:
  "\<exists>r w'. deliveries example_env example_provider
      [Delivered example_job, DeliveryFailed example_job (Some 2) 1, Delivered example_job, DeliveryFailed example_job (Some 2) 2]
      submitted_example = (r, w') \<and> wallet_inv (db w') \<and>
     (held_by ''r1'' (db w') = Some (''ana'', 3) \<and> balance_of ''ana'' (db w') = Some 12 \<or>
      held_by ''r1'' (db w') = None \<and> balance_of ''ana'' (db w') \<in> {Some 12, Some 15})"
proof -
  let ?ds = "[Delivered example_job, DeliveryFailed example_job (Some 2) 1, Delivered example_job, DeliveryFailed example_job (Some 2) 2]"
  obtain r w' where run: "deliveries example_env example_provider ?ds submitted_example = (r, w')" by fastforce
  have "\<forall>d \<in> set ?ds. j_data (job_of d) = ''r1''" by (simp add: example_job_def reading_job_def)
  from deliveries_charge_once [OF submitted_example_inv submitted_example_money this run] run show ?thesis by simp
qed

text \<open>
  A delivery of an open reading that returns settles it. When the model's answer was accepted the reading
  is completed, has the output in a new execution, and its reservation is consumed; when not, the reading has
  failed and the reserved credits are back. When the last attempt of a job has thrown, the reading has
  failed too, and no credits stay reserved for it.
\<close>

theorem delivery_settles:
  assumes "wallet_inv (db w)" "find (\<lambda>r. r_id r = j_data (job_of d)) (readings (db w)) = Some rd" "r_status rd \<noteq> COMPLETED"
    and "deliver E P d w = (Inr x, w')"
    and "\<And>j attempts n. d = DeliveryFailed j attempts n \<Longrightarrow> (case attempts of None \<Rightarrow> 1 | Some k \<Rightarrow> k) \<le> n"
  shows "case d of
      Delivered j \<Rightarrow> settled (j_data j) (db w) (db w')
    | DeliveryFailed j attempts n \<Rightarrow>
        held_by (j_data j) (db w') = None \<and> (\<forall>u. balance_of u (db w') = refunded u (j_data j) (db w)) \<and>
        (\<forall>r \<in> set (readings (db w')). r_id r = j_data j \<longrightarrow> r_status r \<in> {FAILED, COMPLETED}) \<and>
        (\<exists>r \<in> set (readings (db w')). r_id r = j_data j \<and> r_status r = FAILED)"
proof (cases d)
  case (Delivered j)
  with assms(4) have "reading_process E P j w = (Inr x, w')" by simp
  with Delivered assms(2) tarot_processor.settles [OF assms(1) _ assms(3)] palm_processor.settles [OF assms(1) _ assms(3)]
  show ?thesis by (auto simp: reading_process_cases split: if_splits)
next
  case (DeliveryFailed j attempts n)
  let ?f = "\<lambda>r. if r_id r = j_data j \<and> r_status r \<noteq> COMPLETED then r\<lparr>r_status := FAILED\<rparr> else r"
  have late: "\<not> n < (case attempts of None \<Rightarrow> 1 | Some k \<Rightarrow> k)" using assms(5) [OF DeliveryFailed] by simp
  obtain y w1 where 1: "releaseReservation E (j_data j) w = (Inr y, w1)"
    and w': "db w' = (db w1)\<lparr>readings := map ?f (readings (db w1))\<rparr>"
    using assms(4) DeliveryFailed late
    by (auto simp: reading_onFailed_def Let_def andthen_Inr_iff update_many_Inr_iff Reading_def)
  note law = wallet_release_law [OF assms(1) 1]
  have rs: "readings (db w1) = readings (db w)" using release_step [OF assms(1) 1] by simp
  have "held_by (j_data j) (db w') = held_by (j_data j) (db w1)" "\<And>u. balance_of u (db w') = balance_of u (db w1)"
    by (rule held_by_same balance_of_same; simp add: w')+
  moreover have "?f rd \<in> set (readings (db w'))" using find_SomeD [OF assms(2)] by (simp add: w' rs)
  ultimately show ?thesis
    using law find_SomeD [OF assms(2)] assms(3) unfolding DeliveryFailed
    by (auto simp: w' refunded_def intro!: bexI [of _ "?f rd"])
qed

end
