(* ===== verification/Notifications.thy ===== *)
theory Notifications
  imports Tables
begin

text \<open>
  The mails (\<open>src/notifications\<close>): the provider of the console, which logs a mail, the provider of Resend, which renders its
  template and sends it, and the factory that picks one. The API of Resend is a parameter: whether it refuses the \<open>n\<close>-th
  mail, and with which message.
\<close>

record sendEmailInput =
  m_to :: string
  m_subject :: string
  m_templateId :: string
  m_context :: "(string \<times> string) list"

section \<open>The console\<close>

text \<open>\<open>JSON.stringify\<close> of an object of texts.\<close>

definition hex_digit :: "nat \<Rightarrow> char" where
  "hex_digit n = char_of (if n < 10 then 48 + n else 87 + n)"

definition json_char :: "char \<Rightarrow> string" where
  "json_char c = (let n = (of_char c :: nat) in
     if c = CHR 0x22 then [CHR 0x5C, CHR 0x22]
     else if c = CHR 0x5C then [CHR 0x5C, CHR 0x5C]
     else if n = 8 then CHR 0x5C # ''b'' else if n = 9 then CHR 0x5C # ''t''
     else if n = 10 then CHR 0x5C # ''n'' else if n = 12 then CHR 0x5C # ''f''
     else if n = 13 then CHR 0x5C # ''r''
     else if n < 32 then CHR 0x5C # ''u00'' @ [hex_digit (n div 16), hex_digit (n mod 16)]
     else [c])"

definition json_text :: "string \<Rightarrow> string" where
  "json_text s = CHR 0x22 # concat (map json_char s) @ [CHR 0x22]"

fun json_members :: "(string \<times> string) list \<Rightarrow> string" where
  "json_members [] = []"
| "json_members [(k, v)] = json_text k @ '':'' @ json_text v"
| "json_members ((k, v) # m # ms) = json_text k @ '':'' @ json_text v @ '','' @ json_members (m # ms)"

definition stringify_texts :: "(string \<times> string) list \<Rightarrow> string" where
  "stringify_texts ps = ''{'' @ json_members ps @ ''}''"

definition mail_log :: "logLine \<Rightarrow> (world, unit) prog" where
  "mail_log l = modify (\<lambda>w. w\<lparr>mailLog := mailLog w @ [l]\<rparr>)"

text \<open>The warning adds a fixed remark, which is left out here, that no provider is configured.\<close>

definition console_sendEmail :: "env \<Rightarrow> sendEmailInput \<Rightarrow> (world, unit) prog" where
  "console_sendEmail E inp =
     (let message = ''[email stub] to='' @ m_to inp @ '' subject='' @ [CHR 0x22] @ m_subject inp @ [CHR 0x22] @ '' template='' @
            m_templateId inp @ '' context='' @ stringify_texts (m_context inp)
      in if e_nodeEnv E = ''production'' \<or> e_nodeEnv E = ''staging'' then mail_log (WarnLine message)
         else mail_log (LogLine message))"

section \<open>Resend\<close>

definition escapeHtml :: "string \<Rightarrow> string" where
  "escapeHtml value =
     replace_char (CHR 0x22) ''&quot;''
      (replace_char (CHR ''>'') ''&gt;''
       (replace_char (CHR ''<'') ''&lt;''
        (replace_char (CHR ''&'') ''&amp;'' value)))"

text \<open>A template literal of some lines, indented as in the source.\<close>

definition html_lines :: "string list \<Rightarrow> string" where
  "html_lines ls = concat (map (\<lambda>l. CHR 0x0A # ''    '' @ l) ls) @ CHR 0x0A # ''  ''"

definition paragraph_of :: "string \<Rightarrow> string" where
  "paragraph_of s = ''<p>'' @ s @ ''</p>''"

definition link_to :: "string \<Rightarrow> string \<Rightarrow> string" where
  "link_to url s = ''<a href='' @ [CHR 0x22] @ url @ [CHR 0x22] @ ''>'' @ s @ ''</a>''"

text \<open>\<open>String(context.key ?? d)\<close>; \<open>String(undefined)\<close> is a text too.\<close>

definition context_text :: "string \<Rightarrow> (string \<times> string) list \<Rightarrow> string \<Rightarrow> string" where
  "context_text d ctx key = (case map_of ctx key of None \<Rightarrow> d | Some s \<Rightarrow> s)"

definition greeting :: "(string \<times> string) list \<Rightarrow> string" where
  "greeting ctx = paragraph_of (''Hola '' @ escapeHtml (context_text [] ctx ''name'') @ '','')"

definition EMAIL_BODIES :: "(string \<times> ((string \<times> string) list \<Rightarrow> string)) list" where
  "EMAIL_BODIES =
     [(''email-verification'', \<lambda>ctx. html_lines [greeting ctx,
        paragraph_of ''Confirma tu correo para activar tu cuenta en TAROTRIA:'',
        paragraph_of (link_to (context_text ''undefined'' ctx ''verificationUrl'') ''Verificar mi correo''),
        paragraph_of ''Si no creaste esta cuenta, ignora este mensaje.'']),
      (''password-reset'', \<lambda>ctx. html_lines [greeting ctx,
        paragraph_of (''Solicitaste restablecer tu contrase'' @ [CHR 0xF1] @ ''a en TAROTRIA:''),
        paragraph_of (link_to (context_text ''undefined'' ctx ''resetUrl'') (''Restablecer mi contrase'' @ [CHR 0xF1] @ ''a'')),
        paragraph_of (''Si no fuiste t'' @ [CHR 0xFA] @ '', ignora este mensaje: tu contrase'' @ [CHR 0xF1] @
          ''a actual sigue siendo v'' @ [CHR 0xE1] @ ''lida.'')])]"

text \<open>The template ids of the program are those two; none is a property every object inherits.\<close>

definition mail_html :: "sendEmailInput \<Rightarrow> string" where
  "mail_html inp = (case map_of EMAIL_BODIES (m_templateId inp) of
       Some renderBody \<Rightarrow> renderBody (m_context inp)
     | None \<Rightarrow> paragraph_of (escapeHtml (m_subject inp)))"

definition resend_sendEmail :: "env \<Rightarrow> sendEmailInput \<Rightarrow> (world, unit) prog" where
  "resend_sendEmail E inp =
     (let m = \<lparr>sm_from = e_emailFrom E, sm_to = m_to inp, sm_subject = m_subject inp, sm_html = mail_html inp\<rparr> in
      await (gets mailCalls) (\<lambda>k.
      andthen (modify (\<lambda>w. w\<lparr>mailCalls := Suc (mailCalls w)\<rparr>)) (case e_resend E k m of
          None \<Rightarrow> modify (\<lambda>w. w\<lparr>outbox := outbox w @ [m]\<rparr>)
        | Some message \<Rightarrow>
            andthen (mail_log (ErrorLine (''Resend rechaz'' @ [CHR 0xF3] @ '' el correo a '' @ m_to inp @ '' (template='' @
                m_templateId inp @ ''): '' @ message)))
              (throw (PlainError (''No fue posible enviar el correo: '' @ message))))))"

text \<open>The factory of the module: Resend when there is a key.\<close>

definition sendEmail :: "env \<Rightarrow> sendEmailInput \<Rightarrow> (world, unit) prog" where
  "sendEmail E inp =
     (if e_resendApiKey E = None \<or> e_resendApiKey E = Some [] then console_sendEmail E inp else resend_sendEmail E inp)"

section \<open>What a name does to a mail\<close>

definition html_char :: "char \<Rightarrow> string" where
  "html_char c =
     (if c = CHR ''&'' then ''&amp;'' else if c = CHR ''<'' then ''&lt;'' else if c = CHR ''>'' then ''&gt;''
      else if c = CHR 0x22 then ''&quot;'' else [c])"

lemma escapeHtml_chars: "escapeHtml s = concat (map html_char s)"
proof (induction s)
  case (Cons c s)
  have "escapeHtml (c # s) = html_char c @ escapeHtml s"
    by (simp add: escapeHtml_def html_char_def replace_char_def)
  with Cons show ?case by simp
qed (simp add: escapeHtml_def replace_char_def)

text \<open>An escaped text opens no tag and ends no attribute.\<close>

lemma escapeHtml_plain: "c \<in> set (escapeHtml s) \<Longrightarrow> c \<notin> {CHR ''<'', CHR ''>'', CHR 0x22}"
  unfolding escapeHtml_chars by (induction s) (auto simp: html_char_def split: if_splits)

text \<open>What a mail to verify an address looks like, for a name and a link.\<close>

definition verification_html :: "string \<Rightarrow> string \<Rightarrow> string" where
  "verification_html name url = html_lines [paragraph_of (''Hola '' @ escapeHtml name @ '',''),
     paragraph_of ''Confirma tu correo para activar tu cuenta en TAROTRIA:'',
     paragraph_of (link_to url ''Verificar mi correo''), paragraph_of ''Si no creaste esta cuenta, ignora este mensaje.'']"

lemma verification_mail_html:
  "mail_html \<lparr>m_to = a, m_subject = s, m_templateId = ''email-verification'',
     m_context = [(''name'', name), (''verificationUrl'', url)]\<rparr> = verification_html name url"
  by (simp add: mail_html_def EMAIL_BODIES_def greeting_def context_text_def verification_html_def)

lemma resend_sendEmail_run:
  "resend_sendEmail E inp w =
    (let m = \<lparr>sm_from = e_emailFrom E, sm_to = m_to inp, sm_subject = m_subject inp, sm_html = mail_html inp\<rparr>;
         w1 = w\<lparr>mailCalls := Suc (mailCalls w)\<rparr> in
     case e_resend E (mailCalls w) m of
       None \<Rightarrow> (Inr (), w1\<lparr>outbox := outbox w @ [m]\<rparr>)
     | Some e \<Rightarrow> (Inl (PlainError (''No fue posible enviar el correo: '' @ e)), w1\<lparr>mailLog := mailLog w @
         [ErrorLine (''Resend rechaz'' @ [CHR 0xF3] @ '' el correo a '' @ m_to inp @ '' (template='' @ m_templateId inp @ ''): '' @ e)]\<rparr>))"
  by (simp add: resend_sendEmail_def mail_log_def Let_def await_def andthen_def split: option.split)

end
