(* ===== verification/AuthService.thy ===== *)
theory AuthService
  imports SharingService WalletService Notifications
begin

text \<open>
  Accounts and sessions (\<open>src/users\<close>, \<open>src/auth\<close>): registration, login, the rotation of refresh tokens with
  detection of reuse, e-mail verification and password reset by opaque tokens, and the two guards. Argon2, the
  signing of tokens, their verification and SHA-256 are parameters; a signature is checked
  at the time of the call. What the operations guarantee is in theory \<open>AuthLaws\<close>.
\<close>

section \<open>Users\<close>

definition normalizeEmail :: "string \<Rightarrow> string" where
  "normalizeEmail email = map lower_char (js_trim email)"

text \<open>A user with the roles of the account.\<close>

type_synonym userWithRoles = "user \<times> role list"

record safeUser =
  su_id :: string
  su_email :: string
  su_name :: string
  su_status :: userStatus
  su_emailVerifiedAt :: "int option"
  su_roles :: "string list"
  su_createdAt :: int

definition toSafeUser :: "userWithRoles \<Rightarrow> safeUser" where
  "toSafeUser x = (case x of (u, rs) \<Rightarrow>
     \<lparr>su_id = u_id u, su_email = u_email u, su_name = u_name u, su_status = u_status u,
      su_emailVerifiedAt = u_emailVerifiedAt u, su_roles = map ro_code rs, su_createdAt = u_createdAt u\<rparr>)"

definition with_roles :: "user \<Rightarrow> (world, userWithRoles) prog" where
  "with_roles u =
     await (find_many UserRole (\<lambda>x. ur_userId x = u_id u)) (\<lambda>xs.
     await (map_each (\<lambda>x. find_or_throw Role (\<lambda>r. ro_id r = ur_roleId x)) xs) (\<lambda>rs.
     ret (u, rs)))"

definition find_user :: "(user \<Rightarrow> bool) \<Rightarrow> (world, userWithRoles option) prog" where
  "find_user p =
     await (find_first User p) (\<lambda>found. case found of
       None \<Rightarrow> ret None
     | Some u \<Rightarrow> await (with_roles u) (\<lambda>x. ret (Some x)))"

definition findByEmail :: "string \<Rightarrow> (world, userWithRoles option) prog" where
  "findByEmail email = find_user (\<lambda>u. u_email u = normalizeEmail email)"

definition findById :: "string \<Rightarrow> (world, userWithRoles option) prog" where
  "findById i = find_user (\<lambda>u. u_id u = i)"

definition users_create :: "env \<Rightarrow> string \<Rightarrow> string \<Rightarrow> string \<Rightarrow> (world, userWithRoles) prog" where
  "users_create E email name passwordHash =
     await (random_uuid E) (\<lambda>i.
     await (date_now E) (\<lambda>now.
     await (create User \<lparr>u_id = i, u_email = normalizeEmail email, u_name = name, u_passwordHash = passwordHash,
         u_status = ACTIVE_USER, u_emailVerifiedAt = None, u_createdAt = now, u_deletedAt = None\<rparr>) with_roles))"

definition assignRole :: "string \<Rightarrow> string \<Rightarrow> (world, unit) prog" where
  "assignRole userId roleCode =
     await (find_or_throw Role (\<lambda>r. ro_code r = roleCode)) (\<lambda>r.
     await (find_first UserRole (\<lambda>x. ur_userId x = userId \<and> ur_roleId x = ro_id r)) (\<lambda>found. case found of
       Some _ \<Rightarrow> ret ()
     | None \<Rightarrow> andthen (create UserRole \<lparr>ur_userId = userId, ur_roleId = ro_id r\<rparr>) (ret ())))"

definition updateProfile :: "string \<Rightarrow> string option \<Rightarrow> (world, userWithRoles) prog" where
  "updateProfile userId name =
     await (update_row User (\<lambda>u. u_id u = userId) (\<lambda>u. case name of None \<Rightarrow> u | Some n \<Rightarrow> u\<lparr>u_name := n\<rparr>)) with_roles"

text \<open>\<open>updateMany({ where: { userId, revokedAt: null } })\<close>: every open session of the user ends.\<close>

definition revoke_sessions :: "env \<Rightarrow> string \<Rightarrow> (world, unit) prog" where
  "revoke_sessions E userId =
     await (date_now E) (\<lambda>now.
     andthen (update_many RefreshToken (\<lambda>t. rt_userId t = userId \<and> rt_revokedAt t = None)
         (\<lambda>t. t\<lparr>rt_revokedAt := Some now\<rparr>))
       (ret ()))"

definition softDeleteAndRevokeSessions :: "env \<Rightarrow> string \<Rightarrow> (world, unit) prog" where
  "softDeleteAndRevokeSessions E userId =
     transaction
       (await (date_now E) (\<lambda>now.
        andthen (update_row User (\<lambda>u. u_id u = userId) (\<lambda>u. u\<lparr>u_status := DELETED_USER, u_deletedAt := Some now\<rparr>))
          (revoke_sessions E userId)))"

definition listUsers :: "nat \<Rightarrow> nat \<Rightarrow> (world, safeUser paginated) prog" where
  "listUsers page pageSize =
     await (find_many User (\<lambda>_. True)) (\<lambda>us.
     await (map_each with_roles (page_of page pageSize (order_desc u_createdAt us))) (\<lambda>items.
     await (count_rows User (\<lambda>_. True)) (\<lambda>total.
     ret \<lparr>pg_items = map toSafeUser items, pg_total = total, pg_page = page, pg_pageSize = pageSize\<rparr>)))"

section \<open>Tokens\<close>

definition ACCESS_TOKEN_COOKIE :: string where "ACCESS_TOKEN_COOKIE = ''access_token''"
definition REFRESH_TOKEN_COOKIE :: string where "REFRESH_TOKEN_COOKIE = ''refresh_token''"
definition ACCESS_TOKEN_TTL_MS :: int where "ACCESS_TOKEN_TTL_MS = 15 * 60 * 1000"
definition REFRESH_TOKEN_TTL_MS :: int where "REFRESH_TOKEN_TTL_MS = 30 * 24 * 60 * 60 * 1000"
definition REFRESH_TOKEN_COOKIE_PATH :: string where "REFRESH_TOKEN_COOKIE_PATH = ''/api/v1/auth''"
definition EMAIL_VERIFICATION_TOKEN_TTL_MS :: int where "EMAIL_VERIFICATION_TOKEN_TTL_MS = 24 * 60 * 60 * 1000"
definition PASSWORD_RESET_TOKEN_TTL_MS :: int where "PASSWORD_RESET_TOKEN_TTL_MS = 60 * 60 * 1000"

record authTokens =
  at_accessToken :: string
  at_refreshToken :: string

record authResult =
  au_user :: safeUser
  au_tokens :: authTokens

definition hashToken :: "env \<Rightarrow> string \<Rightarrow> string" where
  "hashToken E token = e_sha256 E token"

text \<open>Random bytes and the salt of a hash come from the supply the identifiers come from.\<close>

definition generateOpaqueToken :: "env \<Rightarrow> (world, string) prog" where
  "generateOpaqueToken E =
     await (gets uuids) (\<lambda>k. andthen (modify (\<lambda>w. w\<lparr>uuids := Suc (uuids w)\<rparr>)) (ret (e_opaqueToken E k)))"

definition argon_hash :: "env \<Rightarrow> string \<Rightarrow> (world, string) prog" where
  "argon_hash E password =
     await (gets uuids) (\<lambda>k. andthen (modify (\<lambda>w. w\<lparr>uuids := Suc (uuids w)\<rparr>)) (ret (e_argonHash E k password)))"

definition signTokenPair :: "env \<Rightarrow> userWithRoles \<Rightarrow> (world, authTokens) prog" where
  "signTokenPair E x = (case x of (u, rs) \<Rightarrow>
     await (date_now E) (\<lambda>t1.
     await (random_uuid E) (\<lambda>jti.
     await (date_now E) (\<lambda>t2.
     ret \<lparr>at_accessToken = e_signAccess E (u_id u) (map ro_code rs) t1,
          at_refreshToken = e_signRefresh E (u_id u) jti t2\<rparr>))))"

definition create_session :: "env \<Rightarrow> string \<Rightarrow> authTokens \<Rightarrow> (world, refreshToken) prog" where
  "create_session E userId tokens =
     await (random_uuid E) (\<lambda>i.
     await (date_now E) (\<lambda>now.
     create RefreshToken \<lparr>rt_id = i, rt_userId = userId, rt_tokenHash = hashToken E (at_refreshToken tokens),
       rt_expiresAt = now + REFRESH_TOKEN_TTL_MS, rt_revokedAt = None, rt_replacedBy = None\<rparr>))"

definition issueTokens :: "env \<Rightarrow> userWithRoles \<Rightarrow> (world, authTokens) prog" where
  "issueTokens E x =
     await (signTokenPair E x) (\<lambda>tokens.
     andthen (create_session E (u_id (fst x)) tokens) (ret tokens))"

definition rotateTokens :: "env \<Rightarrow> userWithRoles \<Rightarrow> string \<Rightarrow> (world, authTokens) prog" where
  "rotateTokens E x oldRefreshTokenId =
     await (signTokenPair E x) (\<lambda>tokens.
     andthen
       (transaction
         (await (create_session E (u_id (fst x)) tokens) (\<lambda>created.
          await (date_now E) (\<lambda>now.
          update_row RefreshToken (\<lambda>t. rt_id t = oldRefreshTokenId)
            (\<lambda>t. t\<lparr>rt_revokedAt := Some now, rt_replacedBy := Some (rt_id created)\<rparr>)))))
       (ret tokens))"

section \<open>Accounts\<close>

text \<open>An opaque token for a user: only its hash is stored.\<close>

definition create_token :: "env \<Rightarrow> string \<Rightarrow> verificationPurpose \<Rightarrow> int \<Rightarrow> (world, string) prog" where
  "create_token E userId purpose ttl =
     await (generateOpaqueToken E) (\<lambda>rawToken.
     await (random_uuid E) (\<lambda>i.
     await (date_now E) (\<lambda>now.
     andthen (create VerificationToken \<lparr>vt_id = i, vt_userId = userId, vt_purpose = purpose,
         vt_tokenHash = hashToken E rawToken, vt_expiresAt = now + ttl, vt_usedAt = None\<rparr>)
       (ret rawToken))))"

definition sendVerificationEmail :: "env \<Rightarrow> user \<Rightarrow> (world, unit) prog" where
  "sendVerificationEmail E u =
     (if u_emailVerifiedAt u \<noteq> None then ret ()
      else
        await (create_token E (u_id u) EMAIL_VERIFICATION EMAIL_VERIFICATION_TOKEN_TTL_MS) (\<lambda>rawToken.
        sendEmail E \<lparr>m_to = u_email u, m_subject = ''Verifica tu correo'', m_templateId = ''email-verification'',
          m_context = [(''name'', u_name u), (''verificationUrl'', e_appUrl E @ ''/verify-email?token='' @ rawToken)]\<rparr>))"

definition register :: "env \<Rightarrow> string \<Rightarrow> string \<Rightarrow> string \<Rightarrow> string option \<Rightarrow> (world, authResult) prog" where
  "register E name email password referralToken =
     await (findByEmail email) (\<lambda>existing.
     if existing \<noteq> None then throw (ConflictException ''email'')
     else
       await (argon_hash E password) (\<lambda>passwordHash.
       await (users_create E email name passwordHash) (\<lambda>created.
       let userId = u_id (fst created) in
       andthen (assignRole userId ''USER'')
       (andthen (createWalletWithBonus E userId)
       (await (findById userId) (\<lambda>found. case found of
          None \<Rightarrow> throw (TypeError ''user'')
        | Some user \<Rightarrow>
            await (issueTokens E user) (\<lambda>tokens.
            andthen (try_catch (sendVerificationEmail E (fst user)) (\<lambda>_. ret ()))
            (andthen (try_catch (logSignupConversion E userId referralToken) (\<lambda>_. ret ()))
              (ret \<lparr>au_user = toSafeUser user, au_tokens = tokens\<rparr>)))))))))"

definition login :: "env \<Rightarrow> string \<Rightarrow> string \<Rightarrow> (world, authResult) prog" where
  "login E email password =
     await (findByEmail email) (\<lambda>found. case found of
       None \<Rightarrow> andthen (argon_hash E password) (throw (UnauthorizedException ''credentials''))
     | Some user \<Rightarrow>
         if \<not> e_argonVerify E (u_passwordHash (fst user)) password \<or> u_status (fst user) \<noteq> ACTIVE_USER
         then throw (UnauthorizedException ''credentials'')
         else
           await (issueTokens E user) (\<lambda>tokens.
           ret \<lparr>au_user = toSafeUser user, au_tokens = tokens\<rparr>))"

definition refresh :: "env \<Rightarrow> string \<Rightarrow> (world, authResult) prog" where
  "refresh E rawRefreshToken =
     await (date_now E) (\<lambda>now. case e_verifyRefresh E rawRefreshToken now of
       None \<Rightarrow> throw (UnauthorizedException ''expired session'')
     | Some sub \<Rightarrow>
         await (find_first RefreshToken (\<lambda>t. rt_tokenHash t = hashToken E rawRefreshToken)) (\<lambda>found. case found of
           None \<Rightarrow> throw (UnauthorizedException ''session'')
         | Some existing \<Rightarrow>
             if rt_revokedAt existing \<noteq> None then
               andthen (revoke_sessions E (rt_userId existing)) (throw (UnauthorizedException ''session''))
             else
               await (findById (rt_userId existing)) (\<lambda>found. case found of
                 None \<Rightarrow> throw (UnauthorizedException ''session'')
               | Some user \<Rightarrow>
                   if u_status (fst user) \<noteq> ACTIVE_USER \<or> u_id (fst user) \<noteq> sub
                   then throw (UnauthorizedException ''session'')
                   else
                     await (rotateTokens E user (rt_id existing)) (\<lambda>tokens.
                     ret \<lparr>au_user = toSafeUser user, au_tokens = tokens\<rparr>))))"

definition logout :: "env \<Rightarrow> string option \<Rightarrow> (world, unit) prog" where
  "logout E rawRefreshToken = (case rawRefreshToken of
       None \<Rightarrow> ret ()
     | Some raw \<Rightarrow>
         if raw = [] then ret ()
         else
           await (date_now E) (\<lambda>now.
           andthen (update_many RefreshToken (\<lambda>t. rt_tokenHash t = hashToken E raw \<and> rt_revokedAt t = None)
               (\<lambda>t. t\<lparr>rt_revokedAt := Some now\<rparr>))
             (ret ())))"

text \<open>The test both links make: the token exists, has the purpose, is unused and has not expired.\<close>

definition usable_token ::
  "env \<Rightarrow> verificationPurpose \<Rightarrow> string \<Rightarrow> string \<Rightarrow> (world, verificationToken) prog" where
  "usable_token E purpose rawToken message =
     await (find_first VerificationToken (\<lambda>v. vt_tokenHash v = hashToken E rawToken)) (\<lambda>found. case found of
       None \<Rightarrow> throw (UnauthorizedException message)
     | Some v \<Rightarrow>
         if vt_purpose v \<noteq> purpose \<or> vt_usedAt v \<noteq> None then throw (UnauthorizedException message)
         else
           await (date_now E) (\<lambda>now.
           if vt_expiresAt v < now then throw (UnauthorizedException message) else ret v))"

definition use_token :: "env \<Rightarrow> verificationToken \<Rightarrow> (world, unit) prog" where
  "use_token E v =
     await (date_now E) (\<lambda>now.
     andthen (update_row VerificationToken (\<lambda>x. vt_id x = vt_id v) (\<lambda>x. x\<lparr>vt_usedAt := Some now\<rparr>)) (ret ()))"

definition verifyEmail :: "env \<Rightarrow> string \<Rightarrow> (world, safeUser) prog" where
  "verifyEmail E rawToken =
     await (usable_token E EMAIL_VERIFICATION rawToken ''verification link'') (\<lambda>v.
     andthen
       (transaction
         (andthen (use_token E v)
           (await (date_now E) (\<lambda>now.
            update_row User (\<lambda>u. u_id u = vt_userId v) (\<lambda>u. u\<lparr>u_emailVerifiedAt := Some now\<rparr>)))))
       (await (findById (vt_userId v)) (\<lambda>found. case found of
          None \<Rightarrow> throw (TypeError ''user'')
        | Some user \<Rightarrow> ret (toSafeUser user))))"

definition forgotPassword :: "env \<Rightarrow> string \<Rightarrow> (world, unit) prog" where
  "forgotPassword E email =
     await (findByEmail email) (\<lambda>found. case found of
       None \<Rightarrow> ret ()
     | Some (u, _) \<Rightarrow>
         if u_status u \<noteq> ACTIVE_USER then ret ()
         else
           await (create_token E (u_id u) PASSWORD_RESET PASSWORD_RESET_TOKEN_TTL_MS) (\<lambda>rawToken.
           sendEmail E \<lparr>m_to = u_email u, m_subject = ''Recupera tu contrase'' @ [CHR 0xF1] @ ''a'',
             m_templateId = ''password-reset'',
             m_context = [(''name'', u_name u), (''resetUrl'', e_appUrl E @ ''/reset-password?token='' @ rawToken)]\<rparr>))"

text \<open>A new password ends every session of the account.\<close>

definition set_password :: "env \<Rightarrow> string \<Rightarrow> string \<Rightarrow> (world, unit) prog" where
  "set_password E userId passwordHash =
     andthen (update_row User (\<lambda>u. u_id u = userId) (\<lambda>u. u\<lparr>u_passwordHash := passwordHash\<rparr>))
       (revoke_sessions E userId)"

definition resetPassword :: "env \<Rightarrow> string \<Rightarrow> string \<Rightarrow> (world, unit) prog" where
  "resetPassword E rawToken newPassword =
     await (usable_token E PASSWORD_RESET rawToken ''recovery link'') (\<lambda>v.
     await (findById (vt_userId v)) (\<lambda>found. case found of
       None \<Rightarrow> throw (UnauthorizedException ''recovery link'')
     | Some (u, _) \<Rightarrow>
         if u_status u \<noteq> ACTIVE_USER then throw (UnauthorizedException ''recovery link'')
         else
           await (argon_hash E newPassword) (\<lambda>passwordHash.
           transaction (andthen (use_token E v) (set_password E (vt_userId v) passwordHash)))))"

definition changePassword :: "env \<Rightarrow> string \<Rightarrow> string \<Rightarrow> string \<Rightarrow> (world, unit) prog" where
  "changePassword E userId currentPassword newPassword =
     await (findById userId) (\<lambda>found. case found of
       None \<Rightarrow> throw (UnauthorizedException ''session'')
     | Some (u, _) \<Rightarrow>
         if \<not> e_argonVerify E (u_passwordHash u) currentPassword then throw (UnauthorizedException ''current password'')
         else
           await (argon_hash E newPassword) (\<lambda>passwordHash.
           transaction (set_password E userId passwordHash)))"

definition getSafeUserById :: "string \<Rightarrow> (world, safeUser option) prog" where
  "getSafeUserById userId = await (findById userId) (\<lambda>found. ret (map_option toSafeUser found))"

section \<open>Guards\<close>

record authenticatedUser =
  aun_id :: string
  aun_roles :: "string list"

definition jwt_canActivate :: "env \<Rightarrow> string option \<Rightarrow> (world, authenticatedUser) prog" where
  "jwt_canActivate E cookie =
     (if cookie = None \<or> cookie = Some [] then throw (UnauthorizedException ''no session'')
      else
        await (date_now E) (\<lambda>now. case e_verifyAccess E (the cookie) now of
          None \<Rightarrow> throw (UnauthorizedException ''expired session'')
        | Some sub \<Rightarrow>
            await (findById sub) (\<lambda>found. case found of
              None \<Rightarrow> throw (UnauthorizedException ''session'')
            | Some (u, rs) \<Rightarrow>
                if u_status u \<noteq> ACTIVE_USER then throw (UnauthorizedException ''session'')
                else ret \<lparr>aun_id = u_id u, aun_roles = map ro_code rs\<rparr>)))"

definition roles_canActivate :: "string list option \<Rightarrow> authenticatedUser option \<Rightarrow> (world, bool) prog" where
  "roles_canActivate requiredRoles user = (case requiredRoles of
       None \<Rightarrow> ret True
     | Some rs \<Rightarrow>
         if rs = [] then ret True
         else if \<exists>r \<in> set rs. case user of None \<Rightarrow> False | Some u \<Rightarrow> r \<in> set (aun_roles u) then ret True
         else throw (ForbiddenException ''role''))"

section \<open>Cookies\<close>

record cookie =
  ck_name :: string
  ck_value :: string
  ck_httpOnly :: bool
  ck_secure :: bool
  ck_sameSite :: string
  ck_path :: string
  ck_domain :: "string option"
  ck_maxAge :: "int option"

definition isProduction :: "env \<Rightarrow> bool" where
  "isProduction E = (e_nodeEnv E = ''production'')"

definition cookieDomain :: "env \<Rightarrow> string option" where
  "cookieDomain E = (case e_cookieDomain E of None \<Rightarrow> None | Some d \<Rightarrow> if d = [] then None else Some d)"

definition setAuthCookies :: "env \<Rightarrow> authTokens \<Rightarrow> cookie list" where
  "setAuthCookies E tokens =
     [\<lparr>ck_name = ACCESS_TOKEN_COOKIE, ck_value = at_accessToken tokens, ck_httpOnly = True, ck_secure = isProduction E,
        ck_sameSite = ''lax'', ck_path = ''/'', ck_domain = cookieDomain E, ck_maxAge = Some ACCESS_TOKEN_TTL_MS\<rparr>,
      \<lparr>ck_name = REFRESH_TOKEN_COOKIE, ck_value = at_refreshToken tokens, ck_httpOnly = True, ck_secure = isProduction E,
        ck_sameSite = ''lax'', ck_path = REFRESH_TOKEN_COOKIE_PATH, ck_domain = cookieDomain E,
        ck_maxAge = Some REFRESH_TOKEN_TTL_MS\<rparr>]"

text \<open>\<open>clearCookie\<close> sets an empty value that has expired.\<close>

definition clearAuthCookies :: "env \<Rightarrow> cookie list" where
  "clearAuthCookies E =
     [\<lparr>ck_name = ACCESS_TOKEN_COOKIE, ck_value = [], ck_httpOnly = True, ck_secure = isProduction E,
        ck_sameSite = ''lax'', ck_path = ''/'', ck_domain = cookieDomain E, ck_maxAge = Some 0\<rparr>,
      \<lparr>ck_name = REFRESH_TOKEN_COOKIE, ck_value = [], ck_httpOnly = True, ck_secure = isProduction E,
        ck_sameSite = ''lax'', ck_path = REFRESH_TOKEN_COOKIE_PATH, ck_domain = cookieDomain E, ck_maxAge = Some 0\<rparr>]"

end
