(* ===== verification/AuthLaws.thy ===== *)
theory AuthLaws
  imports AuthService
begin

text \<open>
  What sessions, links and accounts guarantee: a refresh token works once and its reuse ends every session of the account, a
  recovery link works once and changes one account, and a closed account stays closed, whatever
  requests come in between.
\<close>

section \<open>Requests\<close>

datatype authRequest =
    Register string string string "string option"
  | Login string string
  | Refresh string
  | Logout "string option"
  | VerifyEmail string
  | ForgotPassword string
  | ResetPassword string string
  | ChangePassword string string string
  | CloseAccount string
  | UpdateProfile string "string option"
  | Authenticate "string option"

definition quietly :: "(world, 'a) prog \<Rightarrow> (world, unit) prog" where
  "quietly m = try_catch (andthen m (ret ())) (\<lambda>_. ret ())"

primrec serve_auth :: "env \<Rightarrow> authRequest \<Rightarrow> (world, unit) prog" where
  "serve_auth E (Register name email password referral) = quietly (register E name email password referral)"
| "serve_auth E (Login email password) = quietly (login E email password)"
| "serve_auth E (Refresh raw) = quietly (refresh E raw)"
| "serve_auth E (Logout raw) = quietly (logout E raw)"
| "serve_auth E (VerifyEmail raw) = quietly (verifyEmail E raw)"
| "serve_auth E (ForgotPassword email) = quietly (forgotPassword E email)"
| "serve_auth E (ResetPassword raw password) = quietly (resetPassword E raw password)"
| "serve_auth E (ChangePassword user old new) = quietly (changePassword E user old new)"
| "serve_auth E (CloseAccount user) = quietly (softDeleteAndRevokeSessions E user)"
| "serve_auth E (UpdateProfile user name) = quietly (updateProfile user name)"
| "serve_auth E (Authenticate token) = quietly (jwt_canActivate E token)"

lemma quietly_run: "snd (quietly m w) = snd (m w)"
  by (simp add: quietly_def try_catch_def andthen_def await_def split: prod.split sum.split)

lemma keeps_quietly: "keeps I (quietly m) = keeps I m"
  by (simp add: keeps_def quietly_run)

definition serve_auths :: "env \<Rightarrow> authRequest list \<Rightarrow> (world, unit) prog" where
  "serve_auths E qs = for_each (serve_auth E) qs"

section \<open>What the requests keep\<close>

text \<open>
  What an invariant of accounts and sessions has to survive, so that every request keeps it: a session begins open, only
  ends, and an account keeps its id and its status, unless it is closed.
\<close>

locale auth_invariant =
  fixes E :: env and I :: "database \<Rightarrow> bool"
  assumes ignored: "ignores I VerificationToken" "ignores I AnalyticsEvent"
    and role_assigned: "keeps I (assignRole u ''USER'')"
    and wallet_opens: "keeps I (createWalletWithBonus E u)"
    and session_begins: "rt_revokedAt t = None \<Longrightarrow> keeps I (create RefreshToken t)"
    and sessions_end: "keeps I (update_many RefreshToken P (\<lambda>t. t\<lparr>rt_revokedAt := Some now\<rparr>))"
    and session_rotates: "keeps I (update_row RefreshToken Q (\<lambda>t. t\<lparr>rt_revokedAt := Some now, rt_replacedBy := r\<rparr>))"
    and account_opens: "keeps I (create User x)"
    and account_changes: "(\<And>x. u_id (f x) = u_id x \<and> (u_status (f x) = u_status x \<or> u_status (f x) = DELETED_USER)) \<Longrightarrow>
      keeps I (update_row User R f)"
begin

lemma keeps_users: "keeps I (with_roles u)" "keeps I (find_user p)" "keeps I (findByEmail e)" "keeps I (findById i)"
proof -
  show roles: "keeps I (with_roles u)" for u
    unfolding with_roles_def by (intro keeps_intro)
  show find: "keeps I (find_user p)" for p
    unfolding find_user_def by (intro keeps_intro roles)
  show "keeps I (findByEmail e)" "keeps I (findById i)"
    unfolding findByEmail_def findById_def by (rule find)+
qed

lemma keeps_random: "keeps I (argon_hash E p)" "keeps I (generateOpaqueToken E)" "keeps I (sendEmail E m)"
  unfolding argon_hash_def generateOpaqueToken_def sendEmail_def console_sendEmail_def resend_sendEmail_def mail_log_def Let_def
  by (intro keeps_intro keeps_modify; simp)+

lemma keeps_sessions:
  "keeps I (revoke_sessions E u)" "keeps I (signTokenPair E x)" "keeps I (create_session E u tokens)"
  "keeps I (issueTokens E x)" "keeps I (rotateTokens E x i)"
proof -
  show "keeps I (revoke_sessions E u)"
    unfolding revoke_sessions_def by (intro keeps_intro sessions_end)
  show sign: "keeps I (signTokenPair E x)" for x
    unfolding signTokenPair_def by (intro keeps_intro)
  show create: "keeps I (create_session E u tokens)" for u tokens
    unfolding create_session_def by (intro keeps_intro session_begins) simp
  show "keeps I (issueTokens E x)"
    unfolding issueTokens_def by (intro keeps_intro sign create)
  show "keeps I (rotateTokens E x i)"
    unfolding rotateTokens_def by (intro keeps_intro sign create session_rotates)
qed

lemma keeps_tokens: "keeps I (create_token E u purpose ttl)" "keeps I (use_token E v)" "keeps I (usable_token E purpose raw m)"
  unfolding create_token_def use_token_def usable_token_def by (intro keeps_intro keeps_random ignored)+

lemma keeps_accounts:
  "keeps I (set_password E u h)" "keeps I (softDeleteAndRevokeSessions E u)" "keeps I (updateProfile u name)"
  unfolding set_password_def softDeleteAndRevokeSessions_def updateProfile_def
  by (intro keeps_intro keeps_sessions keeps_users account_changes; auto split: option.split)+

lemma keeps_registration:
  "keeps I (users_create E email name h)" "keeps I (assignRole u ''USER'')" "keeps I (createWalletWithBonus E u)"
  "keeps I (logSignupConversion E u t)" "keeps I (sendVerificationEmail E x)"
  unfolding users_create_def logSignupConversion_def sharing_logEvent_def sendVerificationEmail_def
  by (intro keeps_intro keeps_users account_opens ignored role_assigned wallet_opens keeps_random keeps_tokens)+

lemma keeps_requests: "keeps I (serve_auth E q)"
proof -
  have "keeps I (register E name email password referral)" for name email password referral
    unfolding register_def Let_def by (intro keeps_intro keeps_users keeps_random keeps_registration keeps_sessions)
  moreover have "keeps I (login E email password)" for email password
    unfolding login_def by (intro keeps_intro keeps_users keeps_random keeps_sessions)
  moreover have "keeps I (refresh E raw)" for raw
    unfolding refresh_def by (intro keeps_intro keeps_users keeps_sessions)
  moreover have "keeps I (logout E raw)" for raw
    unfolding logout_def by (intro keeps_intro sessions_end)
  moreover have "keeps I (verifyEmail E raw)" for raw
    unfolding verifyEmail_def by (intro keeps_intro keeps_tokens keeps_users account_changes) simp
  moreover have "keeps I (forgotPassword E email)" for email
    unfolding forgotPassword_def by (intro keeps_intro keeps_users keeps_tokens keeps_random)
  moreover have "keeps I (resetPassword E raw password)" for raw password
    unfolding resetPassword_def by (intro keeps_intro keeps_users keeps_tokens keeps_random keeps_accounts)
  moreover have "keeps I (changePassword E u old new)" for u old new
    unfolding changePassword_def by (intro keeps_intro keeps_users keeps_random keeps_accounts)
  moreover have "keeps I (jwt_canActivate E token)" for token
    unfolding jwt_canActivate_def by (intro keeps_intro keeps_users)
  ultimately show ?thesis
    by (cases q) (simp_all add: keeps_quietly keeps_accounts)
qed

lemma keeps_all: "keeps I (serve_auths E qs)"
  unfolding serve_auths_def by (intro keeps_intro keeps_requests)

end

lemma wallet_opens_beside:
  "ignores I Wallet \<Longrightarrow> ignores I WalletTransaction \<Longrightarrow> keeps I (createWalletWithBonus E u)"
  unfolding createWalletWithBonus_def ledger_create_def by (intro keeps_intro)

lemma role_assigned_beside: "ignores I UserRole \<Longrightarrow> keeps I (assignRole u c)"
  unfolding assignRole_def by (intro keeps_intro)

section \<open>The two invariants\<close>

text \<open>A token with this hash has been spent by the user.\<close>

definition spent :: "string \<Rightarrow> string \<Rightarrow> database \<Rightarrow> bool" where
  "spent h u d \<longleftrightarrow> distinct (map rt_tokenHash (refreshTokens d)) \<and>
     (\<exists>t \<in> set (refreshTokens d). rt_tokenHash t = h \<and> rt_userId t = u \<and> rt_revokedAt t \<noteq> None)"

text \<open>The account exists, once, and is not active.\<close>

definition closed_account :: "string \<Rightarrow> database \<Rightarrow> bool" where
  "closed_account u d \<longleftrightarrow> distinct (map u_id (users d)) \<and> (\<exists>x \<in> set (users d). u_id x = u \<and> u_status x \<noteq> ACTIVE_USER)"

lemma spent_update:
  assumes "spent h u d" "\<And>t. rt_tokenHash (f t) = rt_tokenHash t \<and> rt_userId (f t) = rt_userId t \<and> rt_revokedAt (f t) \<noteq> None"
  shows "spent h u (d\<lparr>refreshTokens := map (\<lambda>t. if P t then f t else t) (refreshTokens d)\<rparr>)"
proof -
  have "map rt_tokenHash (map (\<lambda>t. if P t then f t else t) (refreshTokens d)) = map rt_tokenHash (refreshTokens d)"
    by (rule map_update_same) (simp add: assms(2))
  moreover obtain t where "t \<in> set (refreshTokens d)" "rt_tokenHash t = h" "rt_userId t = u" "rt_revokedAt t \<noteq> None"
    using assms(1) unfolding spent_def by blast
  ultimately show ?thesis
    using assms unfolding spent_def
    by (intro conjI bexI [of _ "if P t then f t else t"]) (simp_all del: map_map add: image_iff bexI [of _ t])
qed

interpretation spent: auth_invariant E "spent h u" for E h u
proof
  show "ignores (spent h u) VerificationToken" "ignores (spent h u) AnalyticsEvent"
    by (simp_all add: ignores_def spent_def VerificationToken_def AnalyticsEvent_def)
  show "keeps (spent h u) (assignRole x ''USER'')" for x
    by (rule role_assigned_beside) (simp add: ignores_def spent_def UserRole_def)
  show "keeps (spent h u) (createWalletWithBonus E x)" for x
    by (rule wallet_opens_beside) (simp_all add: ignores_def spent_def Wallet_def WalletTransaction_def)
  show "keeps (spent h u) (create RefreshToken t)" for t
    by (auto simp: keeps_def create_def spent_def RefreshToken_def list_ex_iff)
  show "keeps (spent h u) (update_many RefreshToken P (\<lambda>t. t\<lparr>rt_revokedAt := Some now\<rparr>))" for P now
    by (auto simp: keeps_def update_many_def RefreshToken_def intro: spent_update)
  show "keeps (spent h u) (update_row RefreshToken Q (\<lambda>t. t\<lparr>rt_revokedAt := Some now, rt_replacedBy := r\<rparr>))" for Q now r
    by (auto simp: keeps_def update_row_def RefreshToken_def intro: spent_update split: option.split)
  show "keeps (spent h u) (create User x)" for x
    by (auto simp: keeps_def create_def spent_def User_def)
  show "keeps (spent h u) (update_row User R f)" for R f
    by (auto simp: keeps_def update_row_def spent_def User_def split: option.split)
qed

interpretation closed: auth_invariant E "closed_account u" for E u
proof
  show "ignores (closed_account u) VerificationToken" "ignores (closed_account u) AnalyticsEvent"
    by (simp_all add: ignores_def closed_account_def VerificationToken_def AnalyticsEvent_def)
  show "keeps (closed_account u) (assignRole x ''USER'')" for x
    by (rule role_assigned_beside) (simp add: ignores_def closed_account_def UserRole_def)
  show "keeps (closed_account u) (createWalletWithBonus E x)" for x
    by (rule wallet_opens_beside) (simp_all add: ignores_def closed_account_def Wallet_def WalletTransaction_def)
  show "keeps (closed_account u) (create RefreshToken t)" for t
    by (auto simp: keeps_def create_def closed_account_def RefreshToken_def)
  show "keeps (closed_account u) (update_many RefreshToken P (\<lambda>t. t\<lparr>rt_revokedAt := Some now\<rparr>))" for P now
    by (auto simp: keeps_def update_many_def closed_account_def RefreshToken_def)
  show "keeps (closed_account u) (update_row RefreshToken Q (\<lambda>t. t\<lparr>rt_revokedAt := Some now, rt_replacedBy := r\<rparr>))" for Q now r
    by (auto simp: keeps_def update_row_def closed_account_def RefreshToken_def split: option.split)
  show "keeps (closed_account u) (create User x)" for x
    by (auto simp: keeps_def create_def closed_account_def User_def list_ex_iff)
  fix R and f :: "user \<Rightarrow> user"
  assume f: "\<And>x. u_id (f x) = u_id x \<and> (u_status (f x) = u_status x \<or> u_status (f x) = DELETED_USER)"
  have "closed_account u (d\<lparr>users := map (\<lambda>x. if R x then f x else x) (users d)\<rparr>)" if "closed_account u d" for d
  proof -
    have "map u_id (map (\<lambda>x. if R x then f x else x) (users d)) = map u_id (users d)"
      by (rule map_update_same) (simp add: f)
    moreover obtain x where "x \<in> set (users d)" "u_id x = u" "u_status x \<noteq> ACTIVE_USER"
      using \<open>closed_account u d\<close> unfolding closed_account_def by blast
    ultimately show ?thesis
      using that f [of x] unfolding closed_account_def
      by (intro conjI bexI [of _ "if R x then f x else x"]) (auto simp del: map_map simp: image_iff intro!: bexI [of _ x])
  qed
  then show "keeps (closed_account u) (update_row User R f)"
    by (auto simp: keeps_def update_row_def User_def split: option.split)
qed

section \<open>Runs\<close>

lemma roles_run: "map_each (\<lambda>x. find_or_throw T (p x)) xs w = (r, w') \<Longrightarrow> w' = w"
  by (induction xs arbitrary: r) (auto simp: await_def find_or_throw_run split: option.splits sum.splits prod.splits)

lemma with_roles_run: "with_roles u w = (r, w') \<Longrightarrow> w' = w \<and> (\<forall>y. r = Inr y \<longrightarrow> fst y = u)"
  by (auto simp: with_roles_def await_def dest: roles_run split: sum.splits prod.splits)

lemma find_user_run:
  "find_user p w = (r, w') \<Longrightarrow> w' = w \<and> (\<forall>x. r = Inr x \<longrightarrow> map_option fst x = find p (users (db w)))"
  by (auto simp: find_user_def await_def User_def dest: with_roles_run split: option.splits sum.splits prod.splits)

lemma revoke_sessions_run:
  "revoke_sessions E u w = (Inr (), w\<lparr>ticks := Suc (ticks w), db := (db w)\<lparr>refreshTokens :=
     map (\<lambda>t. if rt_userId t = u \<and> rt_revokedAt t = None then t\<lparr>rt_revokedAt := Some (e_clock E (ticks w))\<rparr> else t)
       (refreshTokens (db w))\<rparr>\<rparr>)"
  by (simp add: revoke_sessions_def await_def andthen_def update_many_def RefreshToken_def list_ex_iff)

lemma revoke_sessions_all:
  assumes "revoke_sessions E u w = (r, w')"
  shows "r = Inr () \<and> (\<forall>t \<in> set (refreshTokens (db w')). rt_userId t = u \<longrightarrow> rt_revokedAt t \<noteq> None) \<and>
    users (db w') = users (db w) \<and> verificationTokens (db w') = verificationTokens (db w)"
proof -
  let ?f = "\<lambda>t. if rt_userId t = u \<and> rt_revokedAt t = None then t\<lparr>rt_revokedAt := Some (e_clock E (ticks w))\<rparr> else t"
  have "(r, w') = (Inr (), w\<lparr>ticks := Suc (ticks w), db := (db w)\<lparr>refreshTokens := map ?f (refreshTokens (db w))\<rparr>\<rparr>)"
    using assms [symmetric] unfolding revoke_sessions_run .
  then have r: "r = Inr ()" and "w' = w\<lparr>ticks := Suc (ticks w), db := (db w)\<lparr>refreshTokens := map ?f (refreshTokens (db w))\<rparr>\<rparr>"
    by simp_all
  from this(2) have d: "db w' = (db w)\<lparr>refreshTokens := map ?f (refreshTokens (db w))\<rparr>" by simp
  have "\<forall>t \<in> set (map ?f (refreshTokens (db w))). rt_userId t = u \<longrightarrow> rt_revokedAt t \<noteq> None"
    unfolding ball_map_update by simp
  then show ?thesis unfolding r d by (simp del: set_map)
qed

lemma sign_run: "\<exists>tokens w'. signTokenPair E x w = (Inr tokens, w') \<and> db w' = db w"
  by (cases x) (simp add: signTokenPair_def await_def)

lemma rotate_run:
  assumes "rotateTokens E x i w = (Inr tokens, w')"
  shows "\<exists>new now. distinct (map rt_tokenHash (refreshTokens (db w))) \<longrightarrow>
      distinct (map rt_tokenHash (refreshTokens (db w'))) \<and>
      refreshTokens (db w') = map (\<lambda>t. if rt_id t = i then t\<lparr>rt_revokedAt := Some now, rt_replacedBy := Some (rt_id new)\<rparr> else t)
        (refreshTokens (db w) @ [new])"
proof -
  obtain toks w1 where s: "signTokenPair E x w = (Inr toks, w1)" "db w1 = db w" using sign_run by blast
  let ?new = "\<lparr>rt_id = e_uuid E (uuids w1), rt_userId = u_id (fst x), rt_tokenHash = hashToken E (at_refreshToken toks),
      rt_expiresAt = e_clock E (ticks w1) + REFRESH_TOKEN_TTL_MS, rt_revokedAt = None, rt_replacedBy = None\<rparr>"
  let ?f = "\<lambda>t. if rt_id t = i then t\<lparr>rt_revokedAt := Some (e_clock E (Suc (ticks w1))), rt_replacedBy := Some (rt_id ?new)\<rparr> else t"
  have rows: "refreshTokens (db w') = map ?f (refreshTokens (db w) @ [?new])"
    and fresh: "\<forall>t \<in> set (refreshTokens (db w)). rt_tokenHash t \<noteq> rt_tokenHash ?new"
    using assms s by (auto simp: rotateTokens_def await_Inr_iff andthen_Inr_iff transaction_Inr_iff create_session_def create_Inr_iff
        update_row_Inr_iff RefreshToken_def list_ex_iff)
  have "map rt_tokenHash (refreshTokens (db w')) = map rt_tokenHash (refreshTokens (db w) @ [?new])"
    unfolding rows by (rule map_update_same) simp
  moreover have "distinct (map rt_tokenHash (refreshTokens (db w))) \<Longrightarrow> distinct (map rt_tokenHash (refreshTokens (db w) @ [?new]))"
    using fresh by auto
  ultimately have "distinct (map rt_tokenHash (refreshTokens (db w))) \<Longrightarrow> distinct (map rt_tokenHash (refreshTokens (db w')))"
    by (simp only:)
  with rows show ?thesis by (intro exI [of _ ?new] exI impI conjI)
qed

lemma refresh_run:
  assumes "refresh E raw w = (Inr res, w')" and "distinct (map rt_tokenHash (refreshTokens (db w)))"
  shows "spent (hashToken E raw) (su_id (au_user res)) (db w')"
proof -
  obtain sub t where v: "e_verifyRefresh E raw (e_clock E (ticks w)) = Some sub"
    and t: "find (\<lambda>t. rt_tokenHash t = hashToken E raw) (refreshTokens (db w)) = Some t"
    using assms(1) by (auto simp: refresh_def prog_inv RefreshToken_def)
  obtain x w1 tokens where "find_user (\<lambda>u. u_id u = rt_userId t) (w\<lparr>ticks := Suc (ticks w)\<rparr>) = (Inr (Some x), w1)"
    and rot: "rotateTokens E x (rt_id t) w1 = (Inr tokens, w')" and res: "au_user res = toSafeUser x"
    using assms(1) v t by (auto simp: refresh_def prog_inv RefreshToken_def findById_def)
  then have w1: "w1 = w\<lparr>ticks := Suc (ticks w)\<rparr>" and x: "find (\<lambda>u. u_id u = rt_userId t) (users (db w)) = Some (fst x)"
    by (auto dest!: find_user_run)
  have id: "su_id (au_user res) = rt_userId t"
    using find_SomeD [OF x] by (cases x) (simp add: res toSafeUser_def)
  obtain new now where d: "distinct (map rt_tokenHash (refreshTokens (db w')))"
    and rows: "refreshTokens (db w') = map (\<lambda>s. if rt_id s = rt_id t then s\<lparr>rt_revokedAt := Some now, rt_replacedBy := Some (rt_id new)\<rparr> else s)
        (refreshTokens (db w) @ [new])"
    using rotate_run [OF rot] assms(2) by (auto simp: w1)
  let ?t = "t\<lparr>rt_revokedAt := Some now, rt_replacedBy := Some (rt_id new)\<rparr>"
  have "?t \<in> set (refreshTokens (db w'))"
    using find_SomeD [OF t] unfolding rows by (auto intro!: image_eqI [of _ _ t])
  with d find_SomeD [OF t] id show ?thesis unfolding spent_def by (intro conjI bexI [of _ ?t]) simp_all
qed

lemma refresh_spent:
  assumes s: "spent (hashToken E raw) u (db w)" and run: "refresh E raw w = (r, w')"
  shows "(\<exists>m. r = Inl (UnauthorizedException m)) \<and> (e_verifyRefresh E raw (e_clock E (ticks w)) \<noteq> None \<longrightarrow>
    (\<forall>t \<in> set (refreshTokens (db w')). rt_userId t = u \<longrightarrow> rt_revokedAt t \<noteq> None))"
proof -
  obtain t where t: "t \<in> set (refreshTokens (db w))" "rt_tokenHash t = hashToken E raw" "rt_userId t = u" "rt_revokedAt t \<noteq> None"
    and d: "distinct (map rt_tokenHash (refreshTokens (db w)))"
    using s unfolding spent_def by blast
  have find: "find (\<lambda>x. rt_tokenHash x = hashToken E raw) (refreshTokens (db w)) = Some t"
    using find_key_eq [OF d t(1)] t(2) by simp
  let ?w = "w\<lparr>ticks := Suc (ticks w)\<rparr>"
  show ?thesis
  proof (cases "e_verifyRefresh E raw (e_clock E (ticks w))")
    case None
    with run show ?thesis by (auto simp: refresh_def await_def)
  next
    case (Some sub)
    obtain y w1 where rev: "revoke_sessions E u ?w = (y, w1)" by (rule prod.exhaust)
    note all = revoke_sessions_all [OF rev]
    from run Some find t(3,4) have "andthen (revoke_sessions E u) (throw (UnauthorizedException ''session'')) ?w = (r, w')"
      by (auto simp: refresh_def await_def [of "date_now E"] await_def [of "find_first T p" for T p] RefreshToken_def)
    with rev all have "r = Inl (UnauthorizedException ''session'')" "w' = w1" by (simp_all add: andthen_def await_def)
    with all show ?thesis by simp
  qed
qed

text \<open>
  C33. A refresh token works once. After it was exchanged for new tokens, and whatever requests came in
  between, presenting it again is refused, and as long as its signature still holds this ends every open session of the
  account, the one that was opened with the new token included.
\<close>

theorem refresh_token_once:
  assumes "distinct (map rt_tokenHash (refreshTokens (db w)))" and "refresh E raw w = (Inr res, w1)"
    and "serve_auths E qs w1 = (x, w2)" and "refresh E raw w2 = (r, w3)"
  shows "(\<exists>m. r = Inl (UnauthorizedException m)) \<and> (e_verifyRefresh E raw (e_clock E (ticks w2)) \<noteq> None \<longrightarrow>
    (\<forall>t \<in> set (refreshTokens (db w3)). rt_userId t = su_id (au_user res) \<longrightarrow> rt_revokedAt t \<noteq> None))"
proof -
  have "spent (hashToken E raw) (su_id (au_user res)) (db w1)" by (rule refresh_run [OF assms(2,1)])
  then have "spent (hashToken E raw) (su_id (au_user res)) (db w2)" by (rule keepsD_run [OF spent.keeps_all _ assms(3)])
  then show ?thesis by (rule refresh_spent [OF _ assms(4)])
qed

text \<open>An account with one open session, whose refresh token is \<open>r:xyz\<close>.\<close>

definition auth_example :: world where
  "auth_example = empty_world\<lparr>uuids := 5, db := empty_database\<lparr>
     users := [\<lparr>u_id = ''ana'', u_email = ''ana@x'', u_name = ''Ana'', u_passwordHash = ''pw#'', u_status = ACTIVE_USER,
       u_emailVerifiedAt = None, u_createdAt = 0, u_deletedAt = None\<rparr>],
     refreshTokens := [\<lparr>rt_id = ''s'', rt_userId = ''ana'', rt_tokenHash = rev ''r:ana1'', rt_expiresAt = 1000,
       rt_revokedAt = None, rt_replacedBy = None\<rparr>],
     verificationTokens := [\<lparr>vt_id = ''v'', vt_userId = ''ana'', vt_purpose = PASSWORD_RESET, vt_tokenHash = rev ''secret'',
       vt_expiresAt = 1000, vt_usedAt = None\<rparr>]\<rparr>\<rparr>"

lemma refresh_token_once_witness:
  "\<exists>res w1 w2 r w3. refresh example_env ''r:ana1'' auth_example = (Inr res, w1) \<and>
     serve_auths example_env [Login ''ana@x'' ''pw'', Logout None] w1 = (Inr (), w2) \<and>
     refresh example_env ''r:ana1'' w2 = (r, w3) \<and> (\<exists>m. r = Inl (UnauthorizedException m)) \<and>
     (\<forall>t \<in> set (refreshTokens (db w3)). rt_userId t = ''ana'' \<longrightarrow> rt_revokedAt t \<noteq> None)"
proof -
  have "(case fst (refresh example_env ''r:ana1'' auth_example) of Inl _ \<Rightarrow> [] | Inr res \<Rightarrow> su_id (au_user res)) = ''ana''"
    by code_simp
  then obtain res w1 where 1: "refresh example_env ''r:ana1'' auth_example = (Inr res, w1)" and u: "su_id (au_user res) = ''ana''"
    by (cases "refresh example_env ''r:ana1'' auth_example") (auto split: sum.splits)
  have "fst (serve_auths example_env [Login ''ana@x'' ''pw'', Logout None] (snd (refresh example_env ''r:ana1'' auth_example))) = Inr ()"
    by code_simp
  then obtain w2 where 2: "serve_auths example_env [Login ''ana@x'' ''pw'', Logout None] w1 = (Inr (), w2)"
    by (cases "serve_auths example_env [Login ''ana@x'' ''pw'', Logout None] w1") (simp add: 1)
  obtain r w3 where 3: "refresh example_env ''r:ana1'' w2 = (r, w3)" by (rule prod.exhaust)
  have "distinct (map rt_tokenHash (refreshTokens (db auth_example)))" by (simp add: auth_example_def)
  note once = refresh_token_once [OF this 1 2 3]
  have "e_verifyRefresh example_env ''r:ana1'' t \<noteq> None" for t by (simp add: example_env_def)
  with once 1 2 3 u show ?thesis by auto
qed

section \<open>Recovering an account\<close>

lemma usable_run:
  "usable_token E purpose raw m w = (case find (\<lambda>v. vt_tokenHash v = hashToken E raw) (verificationTokens (db w)) of
       None \<Rightarrow> (Inl (UnauthorizedException m), w)
     | Some v \<Rightarrow> if vt_purpose v \<noteq> purpose \<or> vt_usedAt v \<noteq> None then (Inl (UnauthorizedException m), w)
         else if vt_expiresAt v < e_clock E (ticks w) then (Inl (UnauthorizedException m), w\<lparr>ticks := Suc (ticks w)\<rparr>)
         else (Inr v, w\<lparr>ticks := Suc (ticks w)\<rparr>))"
  by (simp add: usable_token_def await_def VerificationToken_def split: option.split)

lemma argon_run: "argon_hash E p w = (Inr (e_argonHash E (uuids w) p), w\<lparr>uuids := Suc (uuids w)\<rparr>)"
  by (simp add: argon_hash_def await_def andthen_def)

text \<open>What the recovery of an account did.\<close>

definition recovered :: "env \<Rightarrow> string \<Rightarrow> string \<Rightarrow> int \<Rightarrow> database \<Rightarrow> database \<Rightarrow> bool" where
  "recovered E raw password now d d' =
     (\<exists>v \<in> set (verificationTokens d). \<exists>x \<in> set (users d). \<exists>hash.
        vt_tokenHash v = hashToken E raw \<and> vt_purpose v = PASSWORD_RESET \<and> vt_usedAt v = None \<and> now \<le> vt_expiresAt v \<and>
        vt_userId v = u_id x \<and> u_status x = ACTIVE_USER \<and> e_argonVerify E hash password \<and>
        users d' = map (\<lambda>y. if u_id y = u_id x then y\<lparr>u_passwordHash := hash\<rparr> else y) (users d) \<and>
        (\<forall>t \<in> set (refreshTokens d'). rt_userId t = u_id x \<longrightarrow> rt_revokedAt t \<noteq> None))"

lemma reset_steps:
  assumes ids: "unique_rows VerificationToken (db w)"
    and run: "andthen (use_token E v) (set_password E u hash) w = (Inr x, w')" and v: "v \<in> set (verificationTokens (db w))"
  shows "users (db w') = map (\<lambda>y. if u_id y = u then y\<lparr>u_passwordHash := hash\<rparr> else y) (users (db w)) \<and>
    (\<forall>t \<in> set (refreshTokens (db w')). rt_userId t = u \<longrightarrow> rt_revokedAt t \<noteq> None) \<and>
    (\<exists>now. find (\<lambda>x. vt_tokenHash x = vt_tokenHash v) (verificationTokens (db w')) = Some (v\<lparr>vt_usedAt := Some now\<rparr>))"
proof -
  let ?now = "e_clock E (ticks w)"
  let ?use = "\<lambda>x. if vt_id x = vt_id v then x\<lparr>vt_usedAt := Some ?now\<rparr> else x"
  from run obtain y w1 where rev: "revoke_sessions E u w1 = (Inr y, w')"
    and "users (db w1) = map (\<lambda>y. if u_id y = u then y\<lparr>u_passwordHash := hash\<rparr> else y) (users (db w))"
    and v1: "verificationTokens (db w1) = map ?use (verificationTokens (db w))"
    by (auto simp: use_token_def set_password_def andthen_Inr_iff await_Inr_iff update_row_Inr_iff VerificationToken_def User_def)
  moreover note all = revoke_sessions_all [OF rev]
  moreover have "find (\<lambda>x. vt_tokenHash x = vt_tokenHash v) (map ?use (verificationTokens (db w))) = Some (?use v)"
  proof -
    have "distinct (map vt_tokenHash (verificationTokens (db w)))"
      using unique_rows_distinct [OF ids, of vt_tokenHash] by (simp add: VerificationToken_def)
    from find_key_eq [OF this v] show ?thesis
      by (subst find_map_update) simp_all
  qed
  ultimately show ?thesis by (simp del: set_map) blast
qed

text \<open>
  C34. A recovery link works once. When a new password was set, the link's token was an unused one for recovery that had not
  expired, of an active account; the new password is the account's, no other account changed, every session of
  the account has ended, and the same link is refused from then on. When it was refused nothing changed.
\<close>

theorem password_reset_once:
  assumes "unique_rows VerificationToken (db w)" "\<And>k p. e_argonVerify E (e_argonHash E k p) p"
    and run: "resetPassword E raw password w = (r, w')"
  shows "case r of
      Inl _ \<Rightarrow> db w' = db w
    | Inr _ \<Rightarrow> recovered E raw password (e_clock E (ticks w)) (db w) (db w') \<and>
        resetPassword E raw password' w' = (Inl (UnauthorizedException ''recovery link''), w')"
proof (cases r)
  case (Inl e)
  then show ?thesis using run
    by (auto simp: resetPassword_def prog_inv usable_run findById_def argon_run
        dest!: transaction_error_db find_user_run split: option.split_asm if_split_asm prod.split_asm)
next
  case (Inr x)
  obtain v w1 where t: "find (\<lambda>v. vt_tokenHash v = hashToken E raw) (verificationTokens (db w)) = Some v"
    and ok: "vt_purpose v = PASSWORD_RESET" "vt_usedAt v = None" "e_clock E (ticks w) \<le> vt_expiresAt v"
    and w1: "w1 = w\<lparr>ticks := Suc (ticks w)\<rparr>"
    and rest: "await (findById (vt_userId v)) (\<lambda>found. case found of
       None \<Rightarrow> throw (UnauthorizedException ''recovery link'')
     | Some (u, _) \<Rightarrow>
         if u_status u \<noteq> ACTIVE_USER then throw (UnauthorizedException ''recovery link'')
         else
           await (argon_hash E password) (\<lambda>passwordHash.
           transaction (andthen (use_token E v) (set_password E (vt_userId v) passwordHash)))) w1 = (Inr x, w')"
    using run Inr unfolding resetPassword_def
    by (auto simp: await_Inr_iff usable_run split: option.splits if_splits)
  from rest obtain x' w2 where "find_user (\<lambda>u. u_id u = vt_userId v) w1 = (Inr (Some x'), w2)" and act: "u_status (fst x') = ACTIVE_USER"
    and tx: "transaction (andthen (use_token E v) (set_password E (vt_userId v) (e_argonHash E (uuids w2) password)))
      (w2\<lparr>uuids := Suc (uuids w2)\<rparr>) = (Inr x, w')"
    by (auto simp: prog_inv argon_run findById_def)
  then have w2: "w2 = w1" and x': "find (\<lambda>u. u_id u = vt_userId v) (users (db w1)) = Some (fst x')"
    by (auto dest!: find_user_run)
  note mem = find_SomeD [OF t] find_SomeD [OF x']
  have ids: "unique_rows VerificationToken (db (w2\<lparr>uuids := Suc (uuids w2)\<rparr>))" using assms(1) by (simp add: w2 w1)
  note reset = reset_steps [OF ids tx [unfolded transaction_Inr_iff]]
  have "v \<in> set (verificationTokens (db (w2\<lparr>uuids := Suc (uuids w2)\<rparr>)))" using mem by (simp add: w2 w1)
  note steps = reset [OF this]
  then obtain now where again: "find (\<lambda>x. vt_tokenHash x = hashToken E raw) (verificationTokens (db w')) = Some (v\<lparr>vt_usedAt := Some now\<rparr>)"
    using mem by auto
  have "recovered E raw password (e_clock E (ticks w)) (db w) (db w')"
    unfolding recovered_def using steps mem ok act assms(2)
    by (intro bexI [of _ v] bexI [of _ "fst x'"] exI [of _ "e_argonHash E (uuids w2) password"] conjI) (simp_all add: w2 w1 del: set_map)
  moreover have "resetPassword E raw password' w' = (Inl (UnauthorizedException ''recovery link''), w')"
    by (simp add: resetPassword_def await_def usable_run again)
  ultimately show ?thesis using Inr by simp
qed

lemma password_reset_once_witness:
  "\<exists>w'. resetPassword example_env ''secret'' ''new'' auth_example = (Inr (), w') \<and>
     recovered example_env ''secret'' ''new'' 0 (db auth_example) (db w') \<and>
     resetPassword example_env ''secret'' ''other'' w' = (Inl (UnauthorizedException ''recovery link''), w')"
proof -
  have "fst (resetPassword example_env ''secret'' ''new'' auth_example) = Inr ()" by code_simp
  then obtain w' where run: "resetPassword example_env ''secret'' ''new'' auth_example = (Inr (), w')"
    by (cases "resetPassword example_env ''secret'' ''new'' auth_example") auto
  have ids: "unique_rows VerificationToken (db auth_example)" by (simp add: auth_example_def unique_rows_def VerificationToken_def)
  have "\<And>k p. e_argonVerify example_env (e_argonHash example_env k p) p" by (simp add: example_env_def)
  from password_reset_once [OF ids this run] run show ?thesis
    by (simp add: example_env_def auth_example_def empty_world_def)
qed

section \<open>A closed account\<close>

lemma close_run:
  assumes "distinct (map u_id (users (db w)))" "softDeleteAndRevokeSessions E u w = (Inr x, w')"
  shows "closed_account u (db w') \<and> (\<forall>t \<in> set (refreshTokens (db w')). rt_userId t = u \<longrightarrow> rt_revokedAt t \<noteq> None)"
proof -
  let ?f = "\<lambda>y. if u_id y = u then y\<lparr>u_status := DELETED_USER, u_deletedAt := Some (e_clock E (ticks w))\<rparr> else y"
  obtain y w1 r where rev: "revoke_sessions E u w1 = (Inr y, w')" and r: "find (\<lambda>y. u_id y = u) (users (db w)) = Some r"
    and us: "users (db w1) = map ?f (users (db w))"
    using assms(2) by (auto simp: softDeleteAndRevokeSessions_def transaction_Inr_iff await_Inr_iff andthen_Inr_iff update_row_Inr_iff User_def)
  note all = revoke_sessions_all [OF rev]
  have "map u_id (map ?f (users (db w))) = map u_id (users (db w))" by (rule map_update_same) simp
  moreover have "r \<in> set (users (db w))" using find_SomeD [OF r] by simp
  then have "?f r \<in> set (map ?f (users (db w)))" unfolding set_map by (rule imageI)
  ultimately show ?thesis
    using assms(1) find_SomeD [OF r] all unfolding closed_account_def
    by (auto simp: us simp del: set_map map_map intro!: bexI [of _ "?f r"])
qed

lemma closed_lookup:
  assumes "closed_account u d" "find p (users d) = Some x" "u_status x = ACTIVE_USER"
  shows "u_id x \<noteq> u"
proof
  assume id: "u_id x = u"
  obtain y where y: "y \<in> set (users d)" "u_id y = u" "u_status y \<noteq> ACTIVE_USER" and d: "distinct (map u_id (users d))"
    using assms(1) unfolding closed_account_def by blast
  with find_SomeD [OF assms(2)] id have "x = y" using distinct_key_unique [OF d] by metis
  with assms(3) y show False by simp
qed

lemma closed_out:
  assumes c: "closed_account u (db w)"
  shows "login E e p w = (Inr res, w') \<Longrightarrow> su_id (au_user res) \<noteq> u"
    "refresh E raw w = (Inr res, w') \<Longrightarrow> su_id (au_user res) \<noteq> u"
    "jwt_canActivate E token w = (Inr a, w') \<Longrightarrow> aun_id a \<noteq> u"
proof -
  have out: "u_id a \<noteq> u" if "find_user q w1 = (Inr (Some (a, rs)), w2)" "u_status a = ACTIVE_USER" "db w1 = db w" for q a rs w1 w2
    using find_user_run [OF that(1)] closed_lookup [OF c, of q a] that(2,3) by auto
  show "su_id (au_user res) \<noteq> u" if "login E e p w = (Inr res, w')"
    using that by (auto simp: login_def findByEmail_def prog_inv toSafeUser_def split: prod.splits dest!: out)
  show "su_id (au_user res) \<noteq> u" if "refresh E raw w = (Inr res, w')"
    using that by (auto simp: refresh_def findById_def prog_inv toSafeUser_def split: prod.splits dest!: out)
  show "aun_id a \<noteq> u" if "jwt_canActivate E token w = (Inr a, w')"
    using that by (auto simp: jwt_canActivate_def findById_def prog_inv split: prod.splits dest!: out)
qed

text \<open>
  C35. A closed account stays closed. Closing it ends its sessions, and whatever requests follow,
  registrations, logins and recoveries included, no login, no refresh and no access token gets anybody in as that user again.
\<close>

theorem closed_account_locked_out:
  assumes "distinct (map u_id (users (db w)))" "softDeleteAndRevokeSessions E u w = (Inr x, w1)" "serve_auths E qs w1 = (y, w2)"
  shows "(\<forall>t \<in> set (refreshTokens (db w1)). rt_userId t = u \<longrightarrow> rt_revokedAt t \<noteq> None) \<and>
    (\<forall>email password res w3. login E email password w2 = (Inr res, w3) \<longrightarrow> su_id (au_user res) \<noteq> u) \<and>
    (\<forall>raw res w3. refresh E raw w2 = (Inr res, w3) \<longrightarrow> su_id (au_user res) \<noteq> u) \<and>
    (\<forall>token a w3. jwt_canActivate E token w2 = (Inr a, w3) \<longrightarrow> aun_id a \<noteq> u)"
proof -
  note c = close_run [OF assms(1,2)]
  have "closed_account u (db w2)" using c keepsD_run [OF closed.keeps_all _ assms(3)] by blast
  with c show ?thesis using closed_out by blast
qed

lemma closed_account_locked_out_witness:
  "\<exists>w1 w2. softDeleteAndRevokeSessions example_env ''ana'' auth_example = (Inr (), w1) \<and>
     serve_auths example_env [ResetPassword ''secret'' ''new'', Login ''ana@x'' ''pw''] w1 = (Inr (), w2) \<and>
     (\<forall>email password res w3. login example_env email password w2 = (Inr res, w3) \<longrightarrow> su_id (au_user res) \<noteq> ''ana'')"
proof -
  have "fst (softDeleteAndRevokeSessions example_env ''ana'' auth_example) = Inr ()" by code_simp
  then obtain w1 where 1: "softDeleteAndRevokeSessions example_env ''ana'' auth_example = (Inr (), w1)"
    by (cases "softDeleteAndRevokeSessions example_env ''ana'' auth_example") auto
  have "fst (serve_auths example_env [ResetPassword ''secret'' ''new'', Login ''ana@x'' ''pw'']
      (snd (softDeleteAndRevokeSessions example_env ''ana'' auth_example))) = Inr ()" by code_simp
  then obtain w2 where 2: "serve_auths example_env [ResetPassword ''secret'' ''new'', Login ''ana@x'' ''pw''] w1 = (Inr (), w2)"
    by (cases "serve_auths example_env [ResetPassword ''secret'' ''new'', Login ''ana@x'' ''pw''] w1") (simp add: 1)
  have "distinct (map u_id (users (db auth_example)))" by (simp add: auth_example_def)
  from closed_account_locked_out [OF this 1 2] 1 2 show ?thesis by blast
qed

end
