(* ===== verification/AdminService.thy ===== *)
theory AdminService
  imports Complex_Main WalletService
begin

text \<open>
  What the administrators read: the audit log, the AI executions and the business metrics (\<open>src/audit\<close>,
  \<open>src/admin\<close>). The metrics only read; a quotient of JavaScript numbers is modelled as the exact fraction, an amount of
  dollars in millionths. The exchange rate is a fraction, a numerator and a positive denominator.
\<close>

section \<open>Audit log\<close>

record auditLogSummary =
  als_id :: string
  als_actorUserId :: "string option"
  als_action :: string
  als_targetType :: "string option"
  als_targetId :: "string option"
  als_reason :: string
  als_metadata :: "json option"
  als_createdAt :: int

definition toAuditLogSummary :: "auditLog \<Rightarrow> auditLogSummary" where
  "toAuditLogSummary entry = \<lparr>als_id = al_id entry, als_actorUserId = al_actorUserId entry, als_action = al_action entry,
     als_targetType = al_targetType entry, als_targetId = al_targetId entry, als_reason = al_reason entry,
     als_metadata = al_metadata entry, als_createdAt = al_createdAt entry\<rparr>"

text \<open>A filter that is absent or empty selects everything.\<close>

definition given :: "string option \<Rightarrow> bool" where
  "given filter_text \<longleftrightarrow> filter_text \<noteq> None \<and> filter_text \<noteq> Some []"

definition audit_listAll ::
  "nat \<Rightarrow> nat \<Rightarrow> string option \<Rightarrow> string option \<Rightarrow> (world, auditLogSummary paginated) prog" where
  "audit_listAll page pageSize actorUserId action =
     (let selected = (\<lambda>e. (given actorUserId \<longrightarrow> al_actorUserId e = actorUserId) \<and> (given action \<longrightarrow> Some (al_action e) = action)) in
      await (find_many AuditLog selected) (\<lambda>items.
      await (count_rows AuditLog selected) (\<lambda>total.
      ret \<lparr>pg_items = map toAuditLogSummary (page_of page pageSize (order_desc al_createdAt items)), pg_total = total,
           pg_page = page, pg_pageSize = pageSize\<rparr>)))"

section \<open>AI executions\<close>

record adminAiExecutionSummary =
  aes_id :: string
  aes_readingId :: "string option"
  aes_provider :: string
  aes_model :: string
  aes_status :: aiExecutionStatus
  aes_tokensInput :: "int option"
  aes_tokensOutput :: "int option"
  aes_latencyMs :: "int option"
  aes_costEstimate :: "int option"
  aes_errorMessage :: "string option"
  aes_createdAt :: int

definition toAdminAiExecutionSummary :: "aiExecution \<Rightarrow> adminAiExecutionSummary" where
  "toAdminAiExecutionSummary x = \<lparr>aes_id = ai_id x, aes_readingId = ai_readingId x, aes_provider = ai_provider x,
     aes_model = ai_model x, aes_status = ai_status x, aes_tokensInput = ai_tokensInput x, aes_tokensOutput = ai_tokensOutput x,
     aes_latencyMs = ai_latencyMs x, aes_costEstimate = ai_costEstimate x, aes_errorMessage = ai_errorMessage x,
     aes_createdAt = ai_createdAt x\<rparr>"

definition executions_listAll ::
  "nat \<Rightarrow> nat \<Rightarrow> aiExecutionStatus option \<Rightarrow> (world, adminAiExecutionSummary paginated) prog" where
  "executions_listAll page pageSize status =
     await (find_many AIExecution (\<lambda>x. status = None \<or> status = Some (ai_status x))) (\<lambda>items.
     await (count_rows AIExecution (\<lambda>x. status = None \<or> status = Some (ai_status x))) (\<lambda>total.
     ret \<lparr>pg_items = map toAdminAiExecutionSummary (page_of page pageSize (order_desc ai_createdAt items)), pg_total = total,
          pg_page = page, pg_pageSize = pageSize\<rparr>))"

section \<open>Metrics\<close>

definition TAROT_SERVICE_CODES :: "string list" where
  "TAROT_SERVICE_CODES = [''TAROT_THREE'', ''TAROT_FIVE'', ''TAROT_TEN'']"

definition REWARD_TYPES :: "rewardType list" where
  "REWARD_TYPES = [DAILY_CARD_UNLOCK, TAROT_READING_UNLOCK, FLASH_OFFER_UNLOCK]"

text \<open>\<open>groupBy\<close> with a count: one pair per value that occurs.\<close>

definition group_counts :: "('a \<Rightarrow> 'k) \<Rightarrow> 'a list \<Rightarrow> ('k \<times> nat) list" where
  "group_counts key xs = map (\<lambda>k. (k, length (filter (\<lambda>x. key x = k) xs))) (remdups (map key xs))"

definition ratio :: "nat \<Rightarrow> nat \<Rightarrow> rat" where
  "ratio n d = (if 0 < d then of_nat n / of_nat d else 0)"

record tarotDepthBreakdownEntry =
  td_serviceCode :: string
  td_readingsCount :: nat
  td_percentage :: rat

record rewardTypeFunnel =
  rf_sessionsCreated :: nat
  rf_sessionsCompleted :: nat
  rf_completionRate :: rat

record rewardFunnelMetrics = rewardTypeFunnel +
  rf_byType :: "(rewardType \<times> rewardTypeFunnel) list"

record adminMetrics =
  am_totalUsers :: nat
  am_readingsByStatus :: "(readingStatus \<times> nat) list"
  am_paidOrdersCount :: nat
  am_revenueCents :: int
  am_currency :: string
  am_usersWithAtLeastOnePurchase :: nat
  am_conversionRate :: rat
  am_aiExecutionsCount :: nat
  am_aiFailuresCount :: nat
  am_aiCostEstimate :: int
  am_aiCostEstimateCents :: int
  am_marginCents :: int
  am_tarotDepthBreakdown :: "tarotDepthBreakdownEntry list"
  am_avgCardsPerReading :: rat
  am_avgCreditsPerTarotReading :: rat
  am_readingsPerUser :: rat
  am_rewardFunnel :: rewardFunnelMetrics
  am_adToPurchaseConversionRate :: rat

text \<open>\<open>indexOf\<close>: -1 when the value is not there.\<close>

primrec indexOf :: "'a list \<Rightarrow> 'a \<Rightarrow> int" where
  "indexOf [] x = - 1"
| "indexOf (y # ys) x = (if x = y then 0 else let i = indexOf ys x in if i = - 1 then - 1 else i + 1)"

definition getTarotDepthBreakdown :: "(world, tarotDepthBreakdownEntry list) prog" where
  "getTarotDepthBreakdown =
     await (find_many Service (\<lambda>s. s_code s \<in> set TAROT_SERVICE_CODES)) (\<lambda>tarotServices.
     await (find_many Reading (\<lambda>r. r_serviceId r \<in> s_id ` set tarotServices)) (\<lambda>rs.
     let codeById = map_of (rev (map (\<lambda>s. (s_id s, s_code s)) tarotServices));
         grouped = group_counts r_serviceId rs;
         total = sum_list (map snd grouped) in
     ret (sort_key (\<lambda>e. indexOf TAROT_SERVICE_CODES (td_serviceCode e))
       (map (\<lambda>(serviceId, n). \<lparr>td_serviceCode = (case codeById serviceId of None \<Rightarrow> serviceId | Some c \<Rightarrow> c),
            td_readingsCount = n, td_percentage = ratio n total\<rparr>) grouped))))"

definition getAvgCardsPerReading :: "(world, rat) prog" where
  "getAvgCardsPerReading =
     await (count_rows TarotDraw (\<lambda>_. True)) (\<lambda>totalDraws.
     await (find_many TarotDraw (\<lambda>_. True)) (\<lambda>ds.
     await (count_rows Reading (\<lambda>r. r_id r \<in> dr_readingId ` set ds)) (\<lambda>readingsWithDraws.
     ret (ratio totalDraws readingsWithDraws))))"

text \<open>The readings of the services with a code in \<open>TAROT_SERVICE_CODES\<close>.\<close>

definition tarot_readings :: "(world, reading list) prog" where
  "tarot_readings =
     await (find_many Service (\<lambda>s. s_code s \<in> set TAROT_SERVICE_CODES)) (\<lambda>ss.
     find_many Reading (\<lambda>r. r_serviceId r \<in> s_id ` set ss))"

definition getAvgCreditsPerTarotReading :: "(world, rat) prog" where
  "getAvgCreditsPerTarotReading =
     await tarot_readings (\<lambda>rs.
     await (find_many WalletTransaction (\<lambda>t. t_type t = RESERVATION \<and>
         (case t_readingId t of None \<Rightarrow> False | Some i \<Rightarrow> i \<in> r_id ` set rs))) (\<lambda>ts.
     ret (ratio (nat \<bar>sum_list (map t_amount ts)\<bar>) (length ts))))"

text \<open>\<open>map.get(key) ?? 0\<close>.\<close>

definition count_of :: "('k \<times> nat) list \<Rightarrow> 'k \<Rightarrow> nat" where
  "count_of grouped k = (case map_of (rev grouped) k of None \<Rightarrow> 0 | Some n \<Rightarrow> n)"

definition type_funnel :: "nat \<Rightarrow> nat \<Rightarrow> rewardTypeFunnel" where
  "type_funnel created completed = \<lparr>rf_sessionsCreated = created, rf_sessionsCompleted = completed,
     rf_completionRate = ratio completed created\<rparr>"

definition getRewardFunnel :: "(world, rewardFunnelMetrics) prog" where
  "getRewardFunnel =
     await (find_many RewardSession (\<lambda>_. True)) (\<lambda>created.
     await (find_many RewardSession (\<lambda>s. rs_status s = RS_COMPLETED)) (\<lambda>completed.
     let createdOf = count_of (group_counts rs_rewardType created);
         completedOf = count_of (group_counts rs_rewardType completed);
         sessionsCreated = sum_list (map createdOf REWARD_TYPES);
         sessionsCompleted = sum_list (map completedOf REWARD_TYPES) in
     ret \<lparr>rf_sessionsCreated = sessionsCreated, rf_sessionsCompleted = sessionsCompleted,
          rf_completionRate = ratio sessionsCompleted sessionsCreated,
          rf_byType = map (\<lambda>t. (t, type_funnel (createdOf t) (completedOf t))) REWARD_TYPES\<rparr>))"

definition getAdToPurchaseConversionRate :: "(world, rat) prog" where
  "getAdToPurchaseConversionRate =
     await (find_many RewardTransaction (\<lambda>_. True)) (\<lambda>rewarded.
     await (find_many Order (\<lambda>x. o_status x = ORD_PAID)) (\<lambda>purchases.
     let rewardedUserIds = remdups (map rx_userId rewarded);
         purchasedSet = set (map o_userId purchases) in
     if rewardedUserIds = [] then ret 0
     else ret (ratio (length (filter (\<lambda>u. u \<in> purchasedSet) rewardedUserIds)) (length rewardedUserIds))))"

definition sum_costs :: "aiExecution list \<Rightarrow> int" where
  "sum_costs xs = sum_list (map (\<lambda>x. case ai_costEstimate x of None \<Rightarrow> 0 | Some c \<Rightarrow> c) xs)"

definition getMetrics :: "env \<Rightarrow> (world, adminMetrics) prog" where
  "getMetrics E =
     await (count_rows User (\<lambda>_. True)) (\<lambda>totalUsers.
     await (find_many Reading (\<lambda>_. True)) (\<lambda>rs.
     await (find_many Order (\<lambda>x. o_status x = ORD_PAID)) (\<lambda>paidOrders.
     await (find_many AIExecution (\<lambda>_. True)) (\<lambda>executions.
     await (count_rows AIExecution (\<lambda>x. ai_status x = AI_FAILED)) (\<lambda>aiFailuresCount.
     await getTarotDepthBreakdown (\<lambda>tarotDepthBreakdown.
     await getAvgCardsPerReading (\<lambda>avgCardsPerReading.
     await getAvgCreditsPerTarotReading (\<lambda>avgCreditsPerTarotReading.
     await tarot_readings (\<lambda>tarotReadings.
     await getRewardFunnel (\<lambda>rewardFunnel.
     await getAdToPurchaseConversionRate (\<lambda>adToPurchaseConversionRate.
     let revenueCents = sum_list (map o_priceCents paidOrders);
         usersWithAtLeastOnePurchase = length (remdups (map o_userId paidOrders));
         aiCostEstimate = sum_costs executions;
         aiCostEstimateCents = math_round_div (aiCostEstimate * fst (e_usdToCopRate E) * 100) (1000000 * snd (e_usdToCopRate E)) in
     ret \<lparr>am_totalUsers = totalUsers, am_readingsByStatus = group_counts r_status rs,
          am_paidOrdersCount = length paidOrders, am_revenueCents = revenueCents, am_currency = ''COP'',
          am_usersWithAtLeastOnePurchase = usersWithAtLeastOnePurchase,
          am_conversionRate = ratio usersWithAtLeastOnePurchase totalUsers,
          am_aiExecutionsCount = length executions, am_aiFailuresCount = aiFailuresCount,
          am_aiCostEstimate = aiCostEstimate, am_aiCostEstimateCents = aiCostEstimateCents,
          am_marginCents = revenueCents - aiCostEstimateCents, am_tarotDepthBreakdown = tarotDepthBreakdown,
          am_avgCardsPerReading = avgCardsPerReading, am_avgCreditsPerTarotReading = avgCreditsPerTarotReading,
          am_readingsPerUser = ratio (length tarotReadings) totalUsers, am_rewardFunnel = rewardFunnel,
          am_adToPurchaseConversionRate = adToPurchaseConversionRate\<rparr>)))))))))))"

section \<open>What the metrics mean\<close>

lemma ratio_nonneg [simp]: "0 \<le> ratio n d"
  by (simp add: ratio_def)

lemma ratio_le_1: "n \<le> d \<Longrightarrow> ratio n d \<le> 1"
  by (simp add: ratio_def)

lemma ratio_ge_1: "d \<le> n \<Longrightarrow> ratio n d = 0 \<or> 1 \<le> ratio n d"
  by (simp add: ratio_def)

text \<open>The sizes of the groups add up to the number of rows, so their shares add up to one.\<close>

lemma filter_by_key_sum:
  "distinct ks \<Longrightarrow> key ` set xs \<subseteq> set ks \<Longrightarrow>
   sum_list (map (\<lambda>k. length (filter (\<lambda>x. key x = k) xs)) ks) = length xs"
proof (induction xs)
  case (Cons x xs)
  have "(\<lambda>k. length (filter (\<lambda>y. key y = k) (x # xs))) =
    (\<lambda>k. (if key x = k then 1 else 0) + length (filter (\<lambda>y. key y = k) xs))" by auto
  moreover have "sum_list (map (\<lambda>k. if key x = k then 1 else 0) ks) = (1 :: nat)"
    using Cons.prems by (simp add: sum_list_distinct_conv_sum_set)
  ultimately show ?case using Cons by (simp add: sum_list_addf)
qed simp

lemma group_counts_total: "sum_list (map snd (group_counts key xs)) = length xs"
  using filter_by_key_sum [of "remdups (map key xs)" key xs] by (simp add: group_counts_def comp_def)

lemma group_counts_positive: "(k, n) \<in> set (group_counts key xs) \<Longrightarrow> 0 < n"
  by (auto simp: group_counts_def filter_empty_conv)

lemma count_of_group_counts: "count_of (group_counts key xs) k = length (filter (\<lambda>x. key x = k) xs)"
proof -
  have "map_of (rev (map (\<lambda>k. (k, f k)) ks)) k = (if k \<in> set ks then Some (f k) else None)" for f :: "'a \<Rightarrow> nat" and ks
    by (auto simp: rev_map map_of_map_restrict)
  then show ?thesis
    by (auto simp: count_of_def group_counts_def filter_empty_conv)
qed

lemma shares_add_up:
  assumes "ns \<noteq> []" and "\<forall>n \<in> set ns. 0 < n"
  shows "sum_list (map (\<lambda>n. ratio n (sum_list ns)) ns) = 1"
proof -
  from assms obtain m ms where "ns = m # ms" "0 < m" by (cases ns) auto
  then have pos: "0 < sum_list ns" by simp
  have "sum_list (map (\<lambda>n. ratio n d) ns) = of_nat (sum_list ns) / of_nat d" if "0 < d" for d
    using that by (induction ns) (simp_all add: ratio_def add_divide_distrib)
  from this [OF pos] have "sum_list (map (\<lambda>n. ratio n (sum_list ns)) ns) = of_nat (sum_list ns) / of_nat (sum_list ns)" .
  with pos show ?thesis by (metis divide_self of_nat_eq_0_iff less_irrefl)
qed

lemma reward_types: "set REWARD_TYPES = UNIV" and distinct_reward_types: "distinct REWARD_TYPES"
  by (auto simp: REWARD_TYPES_def intro: rewardType.exhaust)

lemma sum_list_permuted: "mset xs = mset ys \<Longrightarrow> sum_list (map f xs) = (sum_list (map f ys) :: 'b :: comm_monoid_add)"
  by (metis mset_map sum_mset_sum_list)

text \<open>What each part of the report computes; none of them changes anything.\<close>

definition tarot_rows :: "world \<Rightarrow> reading list" where
  "tarot_rows w = filter (\<lambda>r. r_serviceId r \<in> s_id ` {s \<in> set (services (db w)). s_code s \<in> set TAROT_SERVICE_CODES}) (readings (db w))"

lemma tarot_readings_run: "tarot_readings w = (Inr (tarot_rows w), w)"
  by (simp add: tarot_readings_def await_def tarot_rows_def table_defs)

lemma depth_run:
  obtains es where "getTarotDepthBreakdown w = (Inr es, w)"
    and "sum_list (map td_readingsCount es) = length (tarot_rows w)"
    and "sum_list (map td_percentage es) = (if tarot_rows w = [] then 0 else 1)"
proof -
  let ?g = "group_counts r_serviceId (tarot_rows w)"
  have run: "\<exists>f :: string \<Rightarrow> int. \<exists>c. getTarotDepthBreakdown w = (Inr (sort_key (\<lambda>e. f (td_serviceCode e))
      (map (\<lambda>(i, n). \<lparr>td_serviceCode = c i, td_readingsCount = n,
        td_percentage = ratio n (sum_list (map snd ?g))\<rparr>) ?g)), w)"
    unfolding getTarotDepthBreakdown_def await_def Let_def tarot_rows_def
    by (simp add: table_defs) (intro exI, rule refl)
  then obtain f :: "string \<Rightarrow> int" and c where run: "getTarotDepthBreakdown w = (Inr (sort_key (\<lambda>e. f (td_serviceCode e))
      (map (\<lambda>(i, n). \<lparr>td_serviceCode = c i, td_readingsCount = n,
        td_percentage = ratio n (sum_list (map snd ?g))\<rparr>) ?g)), w)" by blast
  have shares: "sum_list (map (\<lambda>n. ratio n (sum_list (map snd ?g))) (map snd ?g)) = (if tarot_rows w = [] then 0 else 1)"
  proof (cases "tarot_rows w = []")
    case False
    then have "map snd ?g \<noteq> []" using group_counts_total [of r_serviceId "tarot_rows w"] by auto
    moreover have "\<forall>n \<in> set (map snd ?g). 0 < n" by (auto dest: group_counts_positive)
    ultimately have "sum_list (map (\<lambda>n. ratio n (sum_list (map snd ?g))) (map snd ?g)) = 1" by (rule shares_add_up)
    with False show ?thesis by (simp only: if_False)
  qed (simp add: group_counts_def)
  show thesis
    by (rule that [OF run]; subst sum_list_permuted [OF mset_sort])
       (use shares group_counts_total [of r_serviceId "tarot_rows w"] in \<open>simp_all add: comp_def case_prod_unfold\<close>)
qed

lemma funnel_run:
  obtains f where "getRewardFunnel w = (Inr f, w)"
    and "rf_sessionsCreated f = length (rewardSessions (db w))"
    and "rf_sessionsCompleted f = length (filter (\<lambda>s. rs_status s = RS_COMPLETED) (rewardSessions (db w)))"
    and "rf_completionRate f = ratio (rf_sessionsCompleted f) (rf_sessionsCreated f)"
    and "\<forall>(t, x) \<in> set (rf_byType f). rf_completionRate x \<le> 1 \<and> rf_sessionsCompleted x \<le> rf_sessionsCreated x"
proof -
  let ?all = "rewardSessions (db w)" and ?some = "filter (\<lambda>s. rs_status s = RS_COMPLETED) (rewardSessions (db w))"
  have counts: "count_of (group_counts rs_rewardType xs) = (\<lambda>t. length (filter (\<lambda>s. rs_rewardType s = t) xs))" for xs
    by (rule ext) (rule count_of_group_counts)
  have totals: "sum_list (map (\<lambda>t. length (filter (\<lambda>s. rs_rewardType s = t) xs)) REWARD_TYPES) = length xs" for xs
    by (rule filter_by_key_sum) (simp_all add: reward_types distinct_reward_types)
  have fewer: "length (filter (\<lambda>s. rs_status s = RS_COMPLETED \<and> rs_rewardType s = t) ?all) \<le> length (filter (\<lambda>s. rs_rewardType s = t) ?all)" for t
    using length_filter_le [of "\<lambda>s. rs_status s = RS_COMPLETED" "filter (\<lambda>s. rs_rewardType s = t) ?all"]
    by (simp add: conj_commute)
  show thesis
    by (rule that) (auto simp: getRewardFunnel_def await_def Let_def table_defs counts totals type_funnel_def
        intro!: ratio_le_1 [OF fewer] fewer)
qed

definition paid_orders :: "world \<Rightarrow> orderRow list" where
  "paid_orders w = filter (\<lambda>x. o_status x = ORD_PAID) (orders (db w))"

lemma ad_rate_run:
  obtains r where "getAdToPurchaseConversionRate w = (Inr r, w)" and "0 \<le> r" and "r \<le> 1"
  by (cases "rewardTransactions (db w) = []")
    (auto simp: getAdToPurchaseConversionRate_def await_def Let_def table_defs intro!: that ratio_le_1 simp del: length_remdups_leq)

lemma cards_run:
  assumes "distinct (map r_id (readings (db w)))"
  obtains r where "getAvgCardsPerReading w = (Inr r, w)" and "r = 0 \<or> 1 \<le> r"
proof -
  let ?drawn = "filter (\<lambda>r. r_id r \<in> dr_readingId ` set (tarotDraws (db w))) (readings (db w))"
  have "length ?drawn \<le> length (map dr_readingId (tarotDraws (db w)))"
    using assms distinct_subset_length [of "map r_id ?drawn" "map dr_readingId (tarotDraws (db w))"]
    by (auto simp: distinct_map_filter)
  then show thesis
    by (intro that) (simp add: getAvgCardsPerReading_def await_def table_defs, rule ratio_ge_1, simp)
qed

lemma credits_run: obtains r where "getAvgCreditsPerTarotReading w = (Inr r, w)"
  by (rule that) (simp add: getAvgCreditsPerTarotReading_def await_def tarot_readings_run table_defs)

text \<open>
  C36. The report of the business metrics only reads, and its figures hang together: when the readings have distinct ids
  and every paid order belongs to an account, the rates are between 0 and 1, the readings of all statuses are all
  readings, the shares of the tarot services add up to 1 (or there is no tarot reading), a reading with cards has at least
  one on average, the funnel counts every session and completes no more of them than were opened, for each kind of
  reward too, and the margin is the money of the paid orders less the rounded cost.
\<close>

theorem metrics_consistent:
  assumes ids: "distinct (map r_id (readings (db w)))"
    and owners: "\<forall>x \<in> set (paid_orders w). o_userId x \<in> u_id ` set (users (db w))"
  shows "\<exists>m. getMetrics E w = (Inr m, w) \<and>
    am_usersWithAtLeastOnePurchase m = card (o_userId ` set (paid_orders w)) \<and>
    0 \<le> am_conversionRate m \<and> am_conversionRate m \<le> 1 \<and>
    sum_list (map snd (am_readingsByStatus m)) = length (readings (db w)) \<and>
    sum_list (map td_readingsCount (am_tarotDepthBreakdown m)) = length (tarot_rows w) \<and>
    sum_list (map td_percentage (am_tarotDepthBreakdown m)) = (if tarot_rows w = [] then 0 else 1) \<and>
    (am_avgCardsPerReading m = 0 \<or> 1 \<le> am_avgCardsPerReading m) \<and>
    rf_sessionsCreated (am_rewardFunnel m) = length (rewardSessions (db w)) \<and>
    rf_sessionsCompleted (am_rewardFunnel m) \<le> rf_sessionsCreated (am_rewardFunnel m) \<and>
    0 \<le> rf_completionRate (am_rewardFunnel m) \<and> rf_completionRate (am_rewardFunnel m) \<le> 1 \<and>
    (\<forall>(t, x) \<in> set (rf_byType (am_rewardFunnel m)). rf_sessionsCompleted x \<le> rf_sessionsCreated x \<and> rf_completionRate x \<le> 1) \<and>
    0 \<le> am_adToPurchaseConversionRate m \<and> am_adToPurchaseConversionRate m \<le> 1 \<and>
    am_aiFailuresCount m \<le> am_aiExecutionsCount m \<and>
    am_marginCents m = sum_list (map o_priceCents (paid_orders w)) - am_aiCostEstimateCents m"
proof -
  obtain es where depth: "getTarotDepthBreakdown w = (Inr es, w)"
    "sum_list (map td_readingsCount es) = length (tarot_rows w)"
    "sum_list (map td_percentage es) = (if tarot_rows w = [] then 0 else 1)" by (rule depth_run)
  obtain f where funnel: "getRewardFunnel w = (Inr f, w)"
    "rf_sessionsCreated f = length (rewardSessions (db w))"
    "rf_sessionsCompleted f = length (filter (\<lambda>s. rs_status s = RS_COMPLETED) (rewardSessions (db w)))"
    "rf_completionRate f = ratio (rf_sessionsCompleted f) (rf_sessionsCreated f)"
    "\<forall>(t, x) \<in> set (rf_byType f). rf_completionRate x \<le> 1 \<and> rf_sessionsCompleted x \<le> rf_sessionsCreated x" by (rule funnel_run)
  obtain a where ads: "getAdToPurchaseConversionRate w = (Inr a, w)" "0 \<le> a" "a \<le> 1" by (rule ad_rate_run)
  obtain c where cards: "getAvgCardsPerReading w = (Inr c, w)" "c = 0 \<or> 1 \<le> c" by (rule cards_run [OF ids])
  obtain k where credits: "getAvgCreditsPerTarotReading w = (Inr k, w)" by (rule credits_run)
  have buyers: "length (remdups (map o_userId (paid_orders w))) \<le> length (users (db w))"
    using distinct_subset_length [of "remdups (map o_userId (paid_orders w))" "map u_id (users (db w))"] owners by auto
  note paid = paid_orders_def [symmetric]
  obtain m where run: "getMetrics E w = (Inr m, w)"
    and fields: "am_usersWithAtLeastOnePurchase m = length (remdups (map o_userId (paid_orders w)))"
      "am_conversionRate m = ratio (length (remdups (map o_userId (paid_orders w)))) (length (users (db w)))"
      "am_readingsByStatus m = group_counts r_status (readings (db w))" "am_tarotDepthBreakdown m = es"
      "am_avgCardsPerReading m = c" "am_rewardFunnel m = f" "am_adToPurchaseConversionRate m = a"
      "am_aiFailuresCount m \<le> am_aiExecutionsCount m"
      "am_marginCents m = sum_list (map o_priceCents (paid_orders w)) - am_aiCostEstimateCents m"
    by (simp add: getMetrics_def await_def Let_def depth funnel ads cards credits tarot_readings_run table_defs paid)
  show ?thesis
    using buyers depth(2,3) funnel(2-5) ads(2,3) cards(2)
    by (intro exI [of _ m] conjI run) (auto simp: fields ratio_le_1 group_counts_total length_remdups_card_conv)
qed

text \<open>A shop with two accounts, one of which bought.\<close>

definition small_shop :: world where
  "small_shop = empty_world\<lparr>db := empty_database\<lparr>
     users := [\<lparr>u_id = ''ana'', u_email = ''a@x'', u_name = ''Ana'', u_passwordHash = ''h'', u_status = ACTIVE_USER,
       u_emailVerifiedAt = None, u_createdAt = 0, u_deletedAt = None\<rparr>,
       \<lparr>u_id = ''bob'', u_email = ''b@x'', u_name = ''Bob'', u_passwordHash = ''h'', u_status = ACTIVE_USER,
       u_emailVerifiedAt = None, u_createdAt = 0, u_deletedAt = None\<rparr>],
     orders := [\<lparr>o_id = ''o'', o_userId = ''ana'', o_creditPackageId = ''p'', o_credits = 5, o_priceCents = 500,
       o_discountAppliedPercent = None, o_currency = ''COP'', o_status = ORD_PAID, o_createdAt = 1\<rparr>]\<rparr>\<rparr>"

theorem metrics_consistent_witness:
  "\<exists>m. getMetrics example_env small_shop = (Inr m, small_shop) \<and> am_usersWithAtLeastOnePurchase m = 1"
proof -
  have ids: "distinct (map r_id (readings (db small_shop)))" by code_simp
  have owners: "\<forall>x \<in> set (paid_orders small_shop). o_userId x \<in> u_id ` set (users (db small_shop))" by code_simp
  have "card (o_userId ` set (paid_orders small_shop)) = 1" by code_simp
  with metrics_consistent [OF ids owners, of example_env] show ?thesis by auto
qed

end
