(* ===== verification/WalletRefinement.thy ===== *)
theory WalletRefinement
  imports WalletProperties "HOL-Library.Sublist"
begin

text \<open>
  The abstract specification of the wallet and the proof that \<open>WalletService\<close> implements it. The specification knows neither rows
  nor ledger lines nor ids: what every user has, and what happened to the credits of every reading. \<open>accounts_of\<close> reads this
  state off the database; each request that returns makes the step of the specification, each that fails makes none.
\<close>

section \<open>Specification\<close>

datatype hold = Held string int | Spent | Returned

record accounts =
  money :: "string \<Rightarrow> int option"
  holds :: "string \<Rightarrow> hold option"

text \<open>A step is refused (\<open>None\<close>) when its user has no account, not enough money, or the reading was charged before.\<close>

fun account_step :: "int \<Rightarrow> walletRequest \<Rightarrow> accounts \<Rightarrow> accounts option" where
  "account_step bonus (NewWallet u) s =
     (case money s u of None \<Rightarrow> Some (s\<lparr>money := (money s)(u \<mapsto> bonus)\<rparr>) | Some _ \<Rightarrow> None)"
| "account_step bonus (Reserve u rid a) s =
     (case money s u of
        Some b \<Rightarrow> if a \<le> b \<and> holds s rid = None
          then Some (s\<lparr>money := (money s)(u \<mapsto> b - a), holds := (holds s)(rid \<mapsto> Held u a)\<rparr>) else None
      | None \<Rightarrow> None)"
| "account_step bonus (Confirm rid) s =
     (case holds s rid of Some (Held u a) \<Rightarrow> Some (s\<lparr>holds := (holds s)(rid \<mapsto> Spent)\<rparr>) | _ \<Rightarrow> Some s)"
| "account_step bonus (Release rid) s =
     (case holds s rid of
        Some (Held u a) \<Rightarrow> Some (s\<lparr>money := (money s)(u := map_option (\<lambda>b. b + a) (money s u)), holds := (holds s)(rid \<mapsto> Returned)\<rparr>)
      | _ \<Rightarrow> Some s)"
| "account_step bonus (Credit u oid c) s =
     (case money s u of Some b \<Rightarrow> Some (s\<lparr>money := (money s)(u \<mapsto> b + c)\<rparr>) | None \<Rightarrow> None)"
| "account_step bonus (Adjust u a reason actor) s =
     (case money s u of
        Some b \<Rightarrow> if a \<noteq> 0 \<and> 0 \<le> b + a then Some (s\<lparr>money := (money s)(u \<mapsto> b + a)\<rparr>) else None
      | None \<Rightarrow> None)"

fun account_steps :: "int \<Rightarrow> walletRequest list \<Rightarrow> accounts \<Rightarrow> accounts option" where
  "account_steps bonus [] s = Some s"
| "account_steps bonus (r # rs) s = (case account_step bonus r s of None \<Rightarrow> None | Some s' \<Rightarrow> account_steps bonus rs s')"

section \<open>Abstraction\<close>

definition owner_of :: "string \<Rightarrow> wallet list \<Rightarrow> string" where
  "owner_of wid ws = (case find (\<lambda>w. w_id w = wid) ws of Some w \<Rightarrow> w_userId w | None \<Rightarrow> [])"

definition hold_of :: "wallet list \<Rightarrow> creditReservation \<Rightarrow> hold" where
  "hold_of ws r = (case cr_status r of
       RES_ACTIVE \<Rightarrow> Held (owner_of (cr_walletId r) ws) (cr_amount r)
     | RES_CONSUMED \<Rightarrow> Spent
     | RES_RELEASED \<Rightarrow> Returned)"

definition accounts_of :: "database \<Rightarrow> accounts" where
  "accounts_of d = \<lparr>money = (\<lambda>u. balance_of u d),
     holds = (\<lambda>rid. map_option (hold_of (wallets d)) (find (\<lambda>r. cr_readingId r = rid) (creditReservations d)))\<rparr>"

text \<open>Did the request return, and which requests of a history did?\<close>

fun answered :: "env \<Rightarrow> walletRequest \<Rightarrow> world \<Rightarrow> bool" where
  "answered E (NewWallet u) w = (\<not> isl (fst (createWalletWithBonus E u w)))"
| "answered E (Reserve u rid a) w = (\<not> isl (fst (transaction (reserveCreditsForReading E u rid a) w)))"
| "answered E (Confirm rid) w = (\<not> isl (fst (confirmConsumption E rid w)))"
| "answered E (Release rid) w = (\<not> isl (fst (releaseReservation E rid w)))"
| "answered E (Credit u oid c) w = (\<not> isl (fst (transaction (creditPurchase E u oid c) w)))"
| "answered E (Adjust u a reason actor) w = (\<not> isl (fst (adjustBalance E u a reason actor w)))"

fun performed :: "env \<Rightarrow> walletRequest list \<Rightarrow> world \<Rightarrow> walletRequest list" where
  "performed E [] w = []"
| "performed E (r # rs) w = (if answered E r w then [r] else []) @ performed E rs (serve E r w)"

section \<open>Simulation\<close>

lemma owner_of_bump [simp]: "owner_of wid (bump x a ws) = owner_of wid ws"
proof -
  have "find (\<lambda>w. w_id w = wid) (bump x a ws) =
      map_option (\<lambda>w. if w_id w = x then w\<lparr>w_balance := w_balance w + a\<rparr> else w) (find (\<lambda>w. w_id w = wid) ws)"
    unfolding bump_def by (rule find_map_update) simp
  then show ?thesis by (simp add: owner_of_def split: option.splits)
qed

lemma hold_of_bump [simp]: "hold_of (bump x a ws) = hold_of ws"
  by (rule ext) (simp add: hold_of_def split: reservationStatus.split)

lemma money_bump:
  assumes inv: "wallet_inv d" and wal: "find (\<lambda>w. w_userId w = u) (wallets d) = Some wal"
    and w': "wallets d' = bump (w_id wal) a (wallets d)"
  shows "(\<lambda>v. balance_of v d') = (\<lambda>v. balance_of v d)(u \<mapsto> w_balance wal + a)"
proof
  fix v
  have mem: "wal \<in> set (wallets d)" "w_userId wal = u" using find_SomeD [OF wal] by auto
  show "balance_of v d' = ((\<lambda>v. balance_of v d)(u \<mapsto> w_balance wal + a)) v"
    using balance_of_bump [OF wallet_invD(1) [OF inv] wallet_inv_users [OF inv] mem(1) w', of v] mem(2) wal
    by (auto simp: balance_of_def)
qed

text \<open>Closing the reservation of a reading changes what is held for this reading only.\<close>

lemma holds_close:
  assumes inv: "wallet_inv d" and r: "active_reservation rid d = Some r"
  shows "map_option f (find (\<lambda>x. cr_readingId x = y) (close_reservation rid s (creditReservations d))) =
    (if y = rid then Some (f (r\<lparr>cr_status := s\<rparr>)) else map_option f (find (\<lambda>x. cr_readingId x = y) (creditReservations d)))"
proof (cases "y = rid")
  case True
  then show ?thesis using find_closed [OF wallet_invD(2) [OF inv] r] by simp
next
  case False
  have "find (\<lambda>x. cr_readingId x = y) (close_reservation rid s (creditReservations d)) =
      map_option (\<lambda>x. if cr_readingId x = rid \<and> cr_status x = RES_ACTIVE then x\<lparr>cr_status := s\<rparr> else x)
        (find (\<lambda>x. cr_readingId x = y) (creditReservations d))"
    unfolding close_reservation_def by (rule find_map_update) simp
  with False show ?thesis
    by (cases "find (\<lambda>x. cr_readingId x = y) (creditReservations d)") (auto dest!: find_SomeD)
qed

lemma holds_active:
  assumes inv: "wallet_inv d"
  shows "active_reservation rid d = Some r \<Longrightarrow> find (\<lambda>x. cr_readingId x = rid) (creditReservations d) = Some r"
    and "active_reservation rid d = None \<Longrightarrow>
      map_option (hold_of ws) (find (\<lambda>x. cr_readingId x = rid) (creditReservations d)) \<noteq> Some (Held u a)"
proof -
  assume "active_reservation rid d = Some r"
  then have "r \<in> set (creditReservations d)" "cr_readingId r = rid" by (simp_all add: active_SomeD)
  then show "find (\<lambda>x. cr_readingId x = rid) (creditReservations d) = Some r"
    using find_key_eq [OF wallet_invD(2) [OF inv]] by blast
next
  assume "active_reservation rid d = None"
  then show "map_option (hold_of ws) (find (\<lambda>x. cr_readingId x = rid) (creditReservations d)) \<noteq> Some (Held u a)"
    by (auto simp: active_reservation_def hold_of_def find_None_iff dest!: find_SomeD split: reservationStatus.splits)
qed

lemma accounts_sel [simp]:
  "money (accounts_of d) = (\<lambda>u. balance_of u d)"
  "holds (accounts_of d) = (\<lambda>rid. map_option (hold_of (wallets d)) (find (\<lambda>r. cr_readingId r = rid) (creditReservations d)))"
  by (simp_all add: accounts_of_def)

lemma accounts_eqI: "money s = money t \<Longrightarrow> holds s = holds t \<Longrightarrow> s = (t :: accounts)"
  by simp

lemma reserve_simulates:
  assumes inv: "wallet_inv (db w)" and run: "reserveCreditsForReading E u rid a w = (Inr x, w')"
  shows "account_step bonus (Reserve u rid a) (accounts_of (db w)) = Some (accounts_of (db w'))"
proof -
  obtain wal ri li now where wal: "find (\<lambda>w. w_userId w = u) (wallets (db w)) = Some wal"
    and enough: "a \<le> w_balance wal" and fresh: "\<forall>r \<in> set (creditReservations (db w)). cr_readingId r \<noteq> rid"
    and w': "db w' = (db w)\<lparr>wallets := bump (w_id wal) (- a) (wallets (db w)),
       creditReservations := creditReservations (db w) @
         [\<lparr>cr_id = ri, cr_walletId = w_id wal, cr_readingId = rid, cr_amount = a, cr_status = RES_ACTIVE\<rparr>],
       walletTransactions := walletTransactions (db w) @
         [new_line li (w_id wal) RESERVATION (- a) (w_balance wal - a) (''reservation:'' @ rid) (Some rid) None now]\<rparr>"
    by (rule reserve_Inr [OF run wallet_invD(1) [OF inv]])
  have b: "balance_of u (db w) = Some (w_balance wal)" using wal by (simp add: balance_of_def)
  have owner: "owner_of (w_id wal) (wallets (db w)) = u"
    using find_key_eq [OF wallet_invD(1) [OF inv], of wal] find_SomeD [OF wal] by (simp add: owner_of_def)
  have "find (\<lambda>r. cr_readingId r = rid) (creditReservations (db w)) = None" using fresh by (simp add: find_None_iff)
  moreover have "money (accounts_of (db w')) = (\<lambda>v. balance_of v (db w))(u \<mapsto> w_balance wal - a)"
    using money_bump [OF inv wal, of "db w'" "- a"] by (simp add: w')
  moreover have "holds (accounts_of (db w')) = (holds (accounts_of (db w)))(rid \<mapsto> Held u a)"
    using fresh owner by (intro ext) (auto simp: w' find_append hold_of_def find_None_iff split: option.splits dest!: find_SomeD)
  ultimately show ?thesis
    using enough b by (auto intro!: accounts_eqI)
qed

lemma confirm_simulates:
  assumes inv: "wallet_inv (db w)" and run: "confirmConsumption E rid w = (Inr x, w')"
  shows "account_step bonus (Confirm rid) (accounts_of (db w)) = Some (accounts_of (db w'))"
  using confirm_Inr [OF run wallet_invD(2) [OF inv]]
proof (elim disjE exE conjE)
  assume "active_reservation rid (db w) = None" "w' = w"
  then show ?thesis using holds_active(2) [OF inv] by (auto split: option.splits hold.splits)
next
  fix r wal li now
  assume r: "active_reservation rid (db w) = Some r"
    and w': "db w' = (db w)\<lparr>creditReservations := close_reservation rid RES_CONSUMED (creditReservations (db w)),
         walletTransactions := walletTransactions (db w) @
           [new_line li (cr_walletId r) CONSUMPTION 0 (w_balance wal) (''consumption:'' @ rid) (Some rid) None now]\<rparr>"
  have "holds (accounts_of (db w')) = (holds (accounts_of (db w)))(rid \<mapsto> Spent)"
    by (rule ext) (simp add: w' holds_close [OF inv r] hold_of_def)
  moreover have "money (accounts_of (db w')) = money (accounts_of (db w))" by (simp add: w' balance_of_def)
  ultimately show ?thesis
    using holds_active(1) [OF inv r] active_SomeD [OF r] by (auto simp: hold_of_def intro!: accounts_eqI)
qed

lemma release_simulates:
  assumes inv: "wallet_inv (db w)" and run: "releaseReservation E rid w = (Inr x, w')"
  shows "account_step bonus (Release rid) (accounts_of (db w)) = Some (accounts_of (db w'))"
  using release_Inr [OF run wallet_invD(2) [OF inv]]
proof (elim disjE exE conjE)
  assume "active_reservation rid (db w) = None" "w' = w"
  then show ?thesis using holds_active(2) [OF inv] by (auto split: option.splits hold.splits)
next
  fix r wal li now
  assume r: "active_reservation rid (db w) = Some r"
    and wal: "find (\<lambda>x. w_id x = cr_walletId r) (wallets (db w)) = Some wal"
    and w': "db w' = (db w)\<lparr>creditReservations := close_reservation rid RES_RELEASED (creditReservations (db w)),
         wallets := bump (cr_walletId r) (cr_amount r) (wallets (db w)),
         walletTransactions := walletTransactions (db w) @
           [new_line li (cr_walletId r) RELEASE (cr_amount r) (w_balance wal + cr_amount r)
              (''release:'' @ rid) (Some rid) None now]\<rparr>"
  have mem: "wal \<in> set (wallets (db w))" "w_id wal = cr_walletId r" using find_SomeD [OF wal] by auto
  have user: "find (\<lambda>x. w_userId x = w_userId wal) (wallets (db w)) = Some wal"
    using find_key_eq [OF wallet_inv_users [OF inv] mem(1)] .
  have "holds (accounts_of (db w')) = (holds (accounts_of (db w)))(rid \<mapsto> Returned)"
    by (rule ext) (simp add: w' holds_close [OF inv r] hold_of_def)
  moreover have "money (accounts_of (db w')) = (\<lambda>v. balance_of v (db w))(w_userId wal \<mapsto> w_balance wal + cr_amount r)"
    using money_bump [OF inv user, of "db w'" "cr_amount r"] by (simp add: w' mem(2))
  moreover have "balance_of (w_userId wal) (db w) = Some (w_balance wal)" using user by (simp add: balance_of_def)
  ultimately show ?thesis
    using holds_active(1) [OF inv r] active_SomeD [OF r] wal
    by (auto simp: hold_of_def owner_of_def intro!: accounts_eqI)
qed

lemma plain_simulates:
  assumes inv: "wallet_inv (db w)" and wal: "find (\<lambda>w. w_userId w = u) (wallets (db w)) = Some wal"
    and w': "wallets (db w') = bump (w_id wal) a (wallets (db w))" "creditReservations (db w') = creditReservations (db w)"
  shows "accounts_of (db w') = (accounts_of (db w))\<lparr>money := (money (accounts_of (db w)))(u \<mapsto> w_balance wal + a)\<rparr>"
    and "money (accounts_of (db w)) u = Some (w_balance wal)"
  using money_bump [OF inv wal w'(1)] wal by (auto intro!: accounts_eqI simp: w' balance_of_def)

lemma wallet_simulates:
  assumes inv: "wallet_inv (db w)" and run: "createWalletWithBonus E u w = (Inr x, w')"
  shows "account_step (e_bonusCredits E) (NewWallet u) (accounts_of (db w)) = Some (accounts_of (db w'))"
proof -
  obtain wid ls where fresh: "\<forall>x \<in> set (wallets (db w)). w_id x \<noteq> wid \<and> w_userId x \<noteq> u"
    and w': "db w' = (db w)\<lparr>wallets := wallets (db w) @ [\<lparr>w_id = wid, w_userId = u, w_balance = e_bonusCredits E\<rparr>],
       walletTransactions := walletTransactions (db w) @ ls\<rparr>"
    by (rule create_wallet_Inr [OF run]) blast
  have none: "find (\<lambda>w. w_userId w = u) (wallets (db w)) = None" using fresh by (simp add: find_None_iff)
  have "money (accounts_of (db w')) = (\<lambda>v. balance_of v (db w))(u \<mapsto> e_bonusCredits E)"
    using none by (auto simp: w' balance_of_def find_append split: option.split)
  moreover have "holds (accounts_of (db w')) = holds (accounts_of (db w))"
  proof (rule ext)
    fix rid
    have "owner_of (cr_walletId r) (wallets (db w')) = owner_of (cr_walletId r) (wallets (db w))"
      if "r \<in> set (creditReservations (db w))" for r
      using that wallet_invD(4) [OF inv] by (auto simp: reservations_ok_def reservation_ok_def owner_of_def w' find_append find_None_iff split: option.split)
    then show "holds (accounts_of (db w')) rid = holds (accounts_of (db w)) rid"
      by (cases "find (\<lambda>r. cr_readingId r = rid) (creditReservations (db w))")
        (auto simp: w' hold_of_def dest!: find_SomeD split: reservationStatus.split)
  qed
  ultimately show ?thesis using none by (auto simp: balance_of_def intro!: accounts_eqI)
qed

lemma serve_simulates:
  assumes inv: "wallet_inv (db w)"
  shows "if answered E r w then account_step (e_bonusCredits E) r (accounts_of (db w)) = Some (accounts_of (db (serve E r w)))
    else db (serve E r w) = db w"
proof (cases r)
  case (NewWallet u)
  obtain y w' where run: "createWalletWithBonus E u w = (y, w')" by (rule prod.exhaust)
  show ?thesis
    by (cases y) (use NewWallet run in \<open>auto simp del: account_step.simps simp: wallet_simulates [OF inv] createWalletWithBonus_def dest: transaction_error_db\<close>)
next
  case (Reserve u rid a)
  obtain y w' where run: "transaction (reserveCreditsForReading E u rid a) w = (y, w')" by (rule prod.exhaust)
  show ?thesis
  proof (cases y)
    case (Inr x)
    then have "reserveCreditsForReading E u rid a w = (Inr x, w')" using run by (simp add: transaction_Inr_iff)
    from reserve_simulates [OF inv this, of "e_bonusCredits E"] Reserve run Inr show ?thesis by simp
  qed (use Reserve run in \<open>auto dest: transaction_error_db\<close>)
next
  case (Confirm rid)
  obtain y w' where run: "confirmConsumption E rid w = (y, w')" by (rule prod.exhaust)
  show ?thesis
    by (cases y) (use Confirm run in \<open>auto simp del: account_step.simps simp: confirm_simulates [OF inv] confirmConsumption_def dest: transaction_error_db\<close>)
next
  case (Release rid)
  obtain y w' where run: "releaseReservation E rid w = (y, w')" by (rule prod.exhaust)
  show ?thesis
    by (cases y) (use Release run in \<open>auto simp del: account_step.simps simp: release_simulates [OF inv] releaseReservation_def dest: transaction_error_db\<close>)
next
  case (Credit u oid c)
  obtain y w' where run: "transaction (creditPurchase E u oid c) w = (y, w')" by (rule prod.exhaust)
  show ?thesis
  proof (cases y)
    case (Inr x)
    then obtain wal where wal: "find (\<lambda>w. w_userId w = u) (wallets (db w)) = Some wal"
      and w': "wallets (db w') = bump (w_id wal) c (wallets (db w))" "creditReservations (db w') = creditReservations (db w)"
      using run by (auto simp: transaction_Inr_iff elim: credit_Inr [OF _ wallet_invD(1) [OF inv]])
    with Credit run Inr plain_simulates [OF inv wal w'] show ?thesis by simp
  qed (use Credit run in \<open>auto dest: transaction_error_db\<close>)
next
  case (Adjust u a reason actor)
  obtain y w' where run: "adjustBalance E u a reason actor w = (y, w')" by (rule prod.exhaust)
  show ?thesis
  proof (cases y)
    case (Inr x)
    with run have ok: "adjustBalance E u a reason actor w = (Inr x, w')" by simp
    obtain wal where "a \<noteq> 0" and wal: "find (\<lambda>w. w_userId w = u) (wallets (db w)) = Some wal"
      and enough: "a < 0 \<longrightarrow> 0 \<le> w_balance wal + a"
      and w': "wallets (db w') = bump (w_id wal) a (wallets (db w))" "creditReservations (db w') = creditReservations (db w)"
      by (rule adjust_Inr [OF ok wallet_invD(1) [OF inv]]) simp
    moreover have "0 \<le> w_balance wal" using wallet_inv_balance [OF inv] find_SomeD [OF wal] by blast
    ultimately show ?thesis using Adjust run Inr plain_simulates [OF inv wal w'] by auto
  qed (use Adjust run in \<open>auto simp: adjustBalance_def dest: transaction_error_db split: if_splits\<close>)
qed

text \<open>
  C6. The wallet service implements the abstract accounts. Whatever requests arrive at an empty database, the money of the users and
  the fate of every reading's credits are those the specification computes from the requests that returned, in their order; a
  request that failed had no effect, and the specification refuses none of the requests that returned.
\<close>

theorem wallet_implements_accounts:
  assumes "0 \<le> e_bonusCredits E" and "\<forall>r \<in> set reqs. request_ok r"
  shows "account_steps (e_bonusCredits E) (performed E reqs empty_world) \<lparr>money = \<lambda>_. None, holds = \<lambda>_. None\<rparr> =
      Some (accounts_of (db (serve_all E reqs empty_world))) \<and>
    subseq (performed E reqs empty_world) reqs"
proof -
  have "account_steps (e_bonusCredits E) (performed E reqs w) (accounts_of (db w)) = Some (accounts_of (db (serve_all E reqs w))) \<and>
      subseq (performed E reqs w) reqs" if "wallet_inv (db w)" for w
    using assms(2) that
  proof (induction reqs arbitrary: w)
    case (Cons r reqs)
    have "wallet_inv (db (serve E r w))" using Cons.prems assms(1) serve_keeps by simp
    note IH = Cons.IH [OF _ this]
    show ?case
      using IH Cons.prems(1) serve_simulates [OF Cons.prems(2), of E r]
      by (cases "answered E r w") (auto simp: serve_all_def simp del: account_step.simps intro: list_emb_Cons)
  qed (simp add: serve_all_def)
  moreover have "accounts_of (db empty_world) = \<lparr>money = \<lambda>_. None, holds = \<lambda>_. None\<rparr>"
    by (simp add: accounts_of_def balance_of_def empty_world_def empty_database_def)
  ultimately show ?thesis using wallet_inv_empty by metis
qed

theorem wallet_implements_accounts_witness:
  "\<exists>s. account_steps (e_bonusCredits example_env) (performed example_env [NewWallet ''ana'', Reserve ''ana'' ''r'' 4, Reserve ''ana'' ''r2'' 4,
       Release ''r'', Adjust ''bob'' 3 ''gift'' ''admin''] empty_world) \<lparr>money = \<lambda>_. None, holds = \<lambda>_. None\<rparr> = Some s \<and> money s ''ana'' = Some 5"
proof -
  let ?reqs = "[NewWallet ''ana'', Reserve ''ana'' ''r'' 4, Reserve ''ana'' ''r2'' 4, Release ''r'', Adjust ''bob'' 3 ''gift'' ''admin'']"
  have "0 \<le> e_bonusCredits example_env" "\<forall>r \<in> set ?reqs. request_ok r" by (simp_all add: example_env_def)
  note runs = wallet_implements_accounts [OF this]
  have "balance_of ''ana'' (db (serve_all example_env ?reqs empty_world)) = Some 5"
    by (simp only: balance_of_def) code_simp
  with runs show ?thesis by auto
qed

end
