(* ===== verification/SeedData.thy ===== *)
theory SeedData
  imports Schema
begin

text \<open>
  The data of the catalogue (\<open>prisma/seed-data\<close>): the deck, the spreads, the services and their form, the packages, and what the prompts
  ask for. Accented letters are written with a grave accent before the letter and read by \<open>es\<close>. The system prompts hold
  characters above 255, so they are arguments.
\<close>

section \<open>Text\<close>

definition accented :: "char \<Rightarrow> char" where
  "accented c = (case map_of [(CHR ''a'', CHR 0xE1), (CHR ''e'', CHR 0xE9), (CHR ''i'', CHR 0xED), (CHR ''o'', CHR 0xF3),
     (CHR ''u'', CHR 0xFA), (CHR ''n'', CHR 0xF1), (CHR ''E'', CHR 0xC9), (CHR ''I'', CHR 0xCD), (CHR ''O'', CHR 0xD3),
     (CHR ''U'', CHR 0xDA), (CHR ''?'', CHR 0xBF), (CHR ''.'', CHR 0xB7)] c of Some x \<Rightarrow> x | None \<Rightarrow> c)"

fun es :: "string \<Rightarrow> string" where
  "es [] = []"
| "es (c # s) = (if c = CHR 0x60 then (case s of [] \<Rightarrow> [] | d # t \<Rightarrow> accented d # es t) else c # es s)"

declare es.simps [simp del]

definition text_lines :: "string list \<Rightarrow> string" where
  "text_lines ls = (case ls of [] \<Rightarrow> [] | l # more_lines \<Rightarrow> l @ concat (map (\<lambda>x. CHR 0x0A # x) more_lines))"

section \<open>The deck\<close>

definition TAROT_DECK_CODE :: string where
  "TAROT_DECK_CODE = ''RIDER_WAITE_ES''"

definition TAROT_DECK_NAME :: string where
  "TAROT_DECK_NAME = es ''Mazo cl`asico''"

record tarotCardSeed =
  cs_code :: string
  cs_name :: string
  cs_arcana :: arcanaType
  cs_suit :: "minorSuit option"
  cs_numberInSuit :: "int option"
  cs_orderIndex :: int
  cs_uprightMeaning :: string
  cs_reversedMeaning :: string

text \<open>Code, name, upright and reversed meaning of the major arcana.\<close>

definition MAJOR_ARCANA_DATA :: "(string \<times> string \<times> string \<times> string) list" where
  "MAJOR_ARCANA_DATA =
    [(''THE_FOOL'', ''El Loco'',
       es ''Nuevos comienzos, espontaneidad y la disposici`on a dar un salto de fe hacia lo desconocido.'',
       ''Imprudencia o dudas que te frenan antes de dar el primer paso.''),
     (''THE_MAGICIAN'', ''El Mago'',
       ''Tienes las herramientas y la voluntad para convertir una idea en realidad.'',
       es ''Potencial desaprovechado o manipulaci`on; revisa si tus intenciones est`an alineadas con tus acciones.''),
     (''THE_HIGH_PRIESTESS'', ''La Sacerdotisa'',
       es ''Intuici`on, misterio y sabidur`ia interior que invita a escuchar m`as de lo que hablas.'',
       es ''Desconexi`on de tu voz interior o secretos que conviene examinar con calma.''),
     (''THE_EMPRESS'', ''La Emperatriz'',
       es ''Abundancia, creatividad y una conexi`on c`alida con lo que est`as cultivando.'',
       ''Bloqueo creativo o descuido de tu propio bienestar mientras cuidas de otros.''),
     (''THE_EMPEROR'', ''El Emperador'',
       es ''Estructura, liderazgo y la capacidad de poner orden en un `area de tu vida.'',
       ''Rigidez excesiva o falta de control; busca equilibrio entre firmeza y flexibilidad.''),
     (''THE_HIEROPHANT'', ''El Hierofante'',
       es ''Tradici`on, aprendizaje y gu`ia a trav`es de estructuras o mentores establecidos.'',
       ''Cuestionamiento de normas convencionales; puede ser momento de trazar tu propio camino.''),
     (''THE_LOVERS'', ''Los Enamorados'',
       es ''Conexi`on genuina y decisiones tomadas desde la alineaci`on de valores.'',
       es ''Desequilibrio en una relaci`on o una decisi`on importante que pide m`as claridad.''),
     (''THE_CHARIOT'', ''El Carro'',
       es ''Determinaci`on y avance firme hacia una meta, incluso ante fuerzas contrarias.'',
       es ''Falta de direcci`on o control; conviene detenerse y recalibrar el rumbo.''),
     (''STRENGTH'', ''La Fuerza'',
       es ''Coraje sereno y la capacidad de sostener un desaf`io con paciencia y compasi`on.'',
       ''Dudas sobre tu propia fortaleza o una tendencia a reaccionar desde el miedo.''),
     (''THE_HERMIT'', es ''El Ermita`no'',
       es ''Introspecci`on y la b`usqueda de respuestas propias antes de mirar hacia afuera.'',
       ''Aislamiento excesivo o resistencia a pedir ayuda cuando la necesitas.''),
     (''WHEEL_OF_FORTUNE'', ''La Rueda de la Fortuna'',
       es ''Ciclos que cambian; un giro de circunstancias que est`a fuera de tu control total.'',
       ''Resistencia al cambio o una racha que se siente estancada.''),
     (''JUSTICE'', ''La Justicia'',
       ''Equilibrio, honestidad y consecuencias claras de las decisiones tomadas.'',
       es ''Desequilibrio o una situaci`on que se percibe injusta y necesita revisi`on.''),
     (''THE_HANGED_MAN'', ''El Colgado'',
       es ''Una pausa `util que ofrece una nueva perspectiva antes de actuar.'',
       ''Estancamiento o resistencia a soltar algo que ya no sirve.''),
     (''DEATH'', ''La Muerte'',
       es ''Cierre de una etapa que abre espacio a una transformaci`on necesaria.'',
       es ''Resistencia a dejar ir algo que ya cumpli`o su ciclo.''),
     (''TEMPERANCE'', ''La Templanza'',
       ''Equilibrio, paciencia y la mezcla armoniosa de opuestos.'',
       es ''Excesos o desajustes que piden moderaci`on.''),
     (''THE_DEVIL'', ''El Diablo'',
       ''Ataduras, patrones o apegos que vale la pena mirar con honestidad.'',
       es ''El inicio de liberarte de una dependencia o patr`on limitante.''),
     (''THE_TOWER'', ''La Torre'',
       es ''Un cambio repentino que sacude estructuras que ya no eran s`olidas.'',
       ''Miedo al colapso o resistencia a un cambio que igual se avecina.''),
     (''THE_STAR'', ''La Estrella'',
       ''Esperanza renovada y confianza en que las cosas pueden mejorar.'',
       es ''Des`animo temporal o desconexi`on de tu propia esperanza.''),
     (''THE_MOON'', ''La Luna'',
       es ''Intuici`on frente a lo incierto; no todo es lo que parece a primera vista.'',
       ''Claridad que empieza a disipar confusiones o miedos previos.''),
     (''THE_SUN'', ''El Sol'',
       es ''Vitalidad, alegr`ia y `exito visible en lo que emprendes.'',
       es ''Optimismo moment`aneamente opacado; busca reconectar con tu energ`ia.''),
     (''JUDGEMENT'', ''El Juicio'',
       es ''Un llamado a evaluar tu camino con honestidad y dar un paso de renovaci`on.'',
       es ''Autocr`itica excesiva o dudas sobre una decisi`on importante.''),
     (''THE_WORLD'', ''El Mundo'',
       es ''Cierre satisfactorio de un ciclo y sensaci`on de plenitud.'',
       es ''Un ciclo que a`un no termina de cerrarse; falta un `ultimo paso.'')]"

text \<open>Suits and ranks; a court card has no number.\<close>

definition SUITS :: "(minorSuit \<times> string) list" where
  "SUITS = [(WANDS, ''Bastos''), (CUPS, ''Copas''), (SWORDS, ''Espadas''), (PENTACLES, ''Oros'')]"

definition suit_code :: "minorSuit \<Rightarrow> string" where
  "suit_code s = (case s of WANDS \<Rightarrow> ''WANDS'' | CUPS \<Rightarrow> ''CUPS'' | SWORDS \<Rightarrow> ''SWORDS'' | PENTACLES \<Rightarrow> ''PENTACLES'')"

datatype rank = ACE | TWO | THREE | FOUR | FIVE | SIX | SEVEN | EIGHT | NINE | TEN | PAGE | KNIGHT | QUEEN | KING

primrec rank_code :: "rank \<Rightarrow> string" where
  "rank_code ACE = ''ACE''"
| "rank_code TWO = ''TWO''"
| "rank_code THREE = ''THREE''"
| "rank_code FOUR = ''FOUR''"
| "rank_code FIVE = ''FIVE''"
| "rank_code SIX = ''SIX''"
| "rank_code SEVEN = ''SEVEN''"
| "rank_code EIGHT = ''EIGHT''"
| "rank_code NINE = ''NINE''"
| "rank_code TEN = ''TEN''"
| "rank_code PAGE = ''PAGE''"
| "rank_code KNIGHT = ''KNIGHT''"
| "rank_code QUEEN = ''QUEEN''"
| "rank_code KING = ''KING''"

definition RANKS :: "(rank \<times> string \<times> int option) list" where
  "RANKS = [(ACE, ''As'', Some 1),
     (TWO, ''Dos'', Some 2),
     (THREE, ''Tres'', Some 3),
     (FOUR, ''Cuatro'', Some 4),
     (FIVE, ''Cinco'', Some 5),
     (SIX, ''Seis'', Some 6),
     (SEVEN, ''Siete'', Some 7),
     (EIGHT, ''Ocho'', Some 8),
     (NINE, ''Nueve'', Some 9),
     (TEN, ''Diez'', Some 10),
     (PAGE, ''Paje'', None),
     (KNIGHT, ''Caballero'', None),
     (QUEEN, ''Reina'', None),
     (KING, ''Rey'', None)]"

primrec WANDS_MEANINGS :: "rank \<Rightarrow> string \<times> string" where
  "WANDS_MEANINGS ACE =
    (es ''Una chispa de inspiraci`on o el inicio de un proyecto que te entusiasma.'',
     es ''Falta de direcci`on o un impulso que tarda en concretarse.'')"
| "WANDS_MEANINGS TWO =
    (es ''Planeaci`on y visi`on a futuro; est`as listo para expandir tu alcance.'',
     es ''Indecisi`on frente a una oportunidad o miedo a salir de la zona conocida.'')"
| "WANDS_MEANINGS THREE =
    (es ''Expansi`on y resultados que empiezan a asomarse en el horizonte.'',
     es ''Retrasos o falta de previsi`on en tus planes.'')"
| "WANDS_MEANINGS FOUR =
    (es ''Celebraci`on, estabilidad y un logro compartido con otros.'',
     es ''Armon`ia temporalmente interrumpida o una celebraci`on postergada.'')"
| "WANDS_MEANINGS FIVE =
    (es ''Competencia o tensi`on que, bien canalizada, puede impulsar el crecimiento.'',
     ''Conflictos que se disuelven o la necesidad de evitar luchas innecesarias.'')"
| "WANDS_MEANINGS SIX =
    (''Reconocimiento y una victoria que vale la pena celebrar.'',
     ''Reconocimiento que tarda en llegar o dudas sobre tus propios logros.'')"
| "WANDS_MEANINGS SEVEN =
    (es ''Perseverancia para defender una posici`on en la que crees.'',
     es ''Sentirte superado por la presi`on; considera pedir apoyo.'')"
| "WANDS_MEANINGS EIGHT =
    (es ''Movimiento r`apido y eventos que avanzan sin demora.'',
     es ''Retrasos o frustraci`on por la lentitud de un proceso.'')"
| "WANDS_MEANINGS NINE =
    (es ''Resiliencia despu`es de haber enfrentado varios desaf`ios.'',
     ''Agotamiento o desconfianza que conviene atender antes de seguir.'')"
| "WANDS_MEANINGS TEN =
    (es ''Una carga considerable que llevas, aunque el objetivo est`e cerca.'',
     ''Momento de soltar responsabilidades que ya no te corresponden.'')"
| "WANDS_MEANINGS PAGE =
    (''Curiosidad y entusiasmo por explorar una nueva idea o camino.'',
     ''Impulsividad o falta de foco en un proyecto naciente.'')"
| "WANDS_MEANINGS KNIGHT =
    (es ''Acci`on audaz y energ`ia para lanzarte a por lo que quieres.'',
     es ''Impaciencia o decisiones apresuradas sin suficiente planeaci`on.'')"
| "WANDS_MEANINGS QUEEN =
    (''Confianza, calidez y capacidad de inspirar a quienes te rodean.'',
     ''Inseguridad oculta tras una fachada de seguridad.'')"
| "WANDS_MEANINGS KING =
    (es ''Liderazgo visionario y la capacidad de guiar con pasi`on y car`acter.'',
     ''Autoritarismo o impulsividad al ejercer el liderazgo.'')"

primrec CUPS_MEANINGS :: "rank \<Rightarrow> string \<times> string" where
  "CUPS_MEANINGS ACE =
    (es ''Apertura emocional y el inicio de una conexi`on significativa.'',
     es ''Bloqueo emocional o una oportunidad afectiva que a`un no fluye.'')"
| "CUPS_MEANINGS TWO =
    (es ''Conexi`on mutua y equilibrio en una relaci`on importante.'',
     es ''Desconexi`on o desequilibrio entre lo que das y lo que recibes.'')"
| "CUPS_MEANINGS THREE =
    (es ''Celebraci`on compartida con amistades o comunidad cercana.'',
     ''Excesos sociales o conflictos dentro de un grupo cercano.'')"
| "CUPS_MEANINGS FOUR =
    (es ''Introspecci`on frente a oportunidades que a`un no capturan tu inter`es.'',
     ''Apertura renovada a posibilidades que antes ignorabas.'')"
| "CUPS_MEANINGS FIVE =
    (es ''Duelo por una p`erdida, con la invitaci`on a notar lo que a`un queda.'',
     es ''Aceptaci`on y el inicio de sanar tras una decepci`on.'')"
| "CUPS_MEANINGS SIX =
    (es ''Nostalgia y conexi`on con recuerdos o v`inculos del pasado.'',
     ''Necesidad de soltar el pasado para vivir el presente.'')"
| "CUPS_MEANINGS SEVEN =
    (es ''M`ultiples opciones que piden claridad antes de decidir.'',
     es ''Confusi`on que empieza a resolverse con una elecci`on m`as realista.'')"
| "CUPS_MEANINGS EIGHT =
    (es ''Alejarte de algo que ya no te llena, en busca de algo m`as profundo.'',
     ''Miedo a dejar ir, aunque ya no te sientas satisfecho.'')"
| "CUPS_MEANINGS NINE =
    (es ''Satisfacci`on y gratitud por el bienestar emocional alcanzado.'',
     es ''Complacencia o una satisfacci`on que se siente superficial.'')"
| "CUPS_MEANINGS TEN =
    (es ''Armon`ia duradera y felicidad compartida en el hogar o la familia.'',
     es ''Tensiones familiares que piden atenci`on honesta.'')"
| "CUPS_MEANINGS PAGE =
    (''Sensibilidad y apertura a mensajes o sentimientos nuevos.'',
     ''Inmadurez emocional o dificultad para expresar lo que sientes.'')"
| "CUPS_MEANINGS KNIGHT =
    (es ''Un gesto rom`antico o una propuesta que llega desde el coraz`on.'',
     es ''Idealizaci`on excesiva o promesas que no se sostienen.'')"
| "CUPS_MEANINGS QUEEN =
    (es ''Empat`ia profunda y una intuici`on emocional muy afinada.'',
     es ''Sobrecarga emocional o dificultad para poner l`imites.'')"
| "CUPS_MEANINGS KING =
    (''Madurez emocional y calma para sostener a otros sin perderte.'',
     es ''Represi`on emocional o cambios de humor dif`iciles de manejar.'')"

primrec SWORDS_MEANINGS :: "rank \<Rightarrow> string \<times> string" where
  "SWORDS_MEANINGS ACE =
    (''Claridad mental y una verdad que se revela con fuerza.'',
     es ''Confusi`on o una idea que a`un no termina de aclararse.'')"
| "SWORDS_MEANINGS TWO =
    (es ''Una decisi`on dif`icil que pide equilibrio entre raz`on y sentimiento.'',
     es ''Indecisi`on prolongada que empieza a generar tensi`on.'')"
| "SWORDS_MEANINGS THREE =
    (''Dolor emocional honesto que, reconocido, permite sanar.'',
     es ''Un proceso de sanaci`on que ya est`a en marcha.'')"
| "SWORDS_MEANINGS FOUR =
    (es ''Descanso necesario antes de retomar con m`as energ`ia.'',
     ''Agotamiento por no haberte permitido pausar a tiempo.'')"
| "SWORDS_MEANINGS FIVE =
    (''Conflicto donde ganar a toda costa puede salir caro.'',
     es ''Reconciliaci`on o el momento de soltar una disputa desgastante.'')"
| "SWORDS_MEANINGS SIX =
    (es ''Transici`on hacia aguas m`as calmas despu`es de un periodo dif`icil.'',
     es ''Dificultad para dejar atr`as una situaci`on que ya pesa.'')"
| "SWORDS_MEANINGS SEVEN =
    (es ''Estrategia o discreci`on; no todo necesita anunciarse de inmediato.'',
     es ''Una situaci`on que pide m`as honestidad de la que ha habido.'')"
| "SWORDS_MEANINGS EIGHT =
    (es ''Sensaci`on de estar atrapado por creencias m`as que por hechos.'',
     es ''El inicio de liberarte de una limitaci`on autoimpuesta.'')"
| "SWORDS_MEANINGS NINE =
    (es ''Ansiedad o preocupaciones que crecen m`as en la mente que en la realidad.'',
     ''Alivio gradual al enfrentar directamente lo que te inquieta.'')"
| "SWORDS_MEANINGS TEN =
    (es ''El final de un ciclo dif`icil, con la certeza de que lo peor ya pas`o.'',
     es ''Resistencia a aceptar que algo ya lleg`o a su fin.'')"
| "SWORDS_MEANINGS PAGE =
    (''Curiosidad mental y ganas de investigar antes de actuar.'',
     es ''Chismes o informaci`on a medias que conviene verificar.'')"
| "SWORDS_MEANINGS KNIGHT =
    (es ''Determinaci`on directa para enfrentar un asunto con claridad.'',
     es ''Precipitaci`on o palabras dichas sin suficiente cuidado.'')"
| "SWORDS_MEANINGS QUEEN =
    (''Claridad de pensamiento y honestidad directa, sin rodeos.'',
     es ''Frialdad excesiva o cr`itica que se siente cortante.'')"
| "SWORDS_MEANINGS KING =
    (es ''Juicio justo basado en la raz`on y la experiencia.'',
     es ''Rigidez intelectual o uso del poder de forma fr`ia.'')"

primrec PENTACLES_MEANINGS :: "rank \<Rightarrow> string \<times> string" where
  "PENTACLES_MEANINGS ACE =
    (''Una nueva oportunidad material o financiera que vale la pena explorar.'',
     es ''Una oportunidad que se escapa por falta de planeaci`on.'')"
| "PENTACLES_MEANINGS TWO =
    (es ''Equilibrio entre varias prioridades que exigen tu atenci`on.'',
     ''Dificultad para sostener el equilibrio entre tus responsabilidades.'')"
| "PENTACLES_MEANINGS THREE =
    (es ''Trabajo en equipo que da frutos gracias a la colaboraci`on.'',
     es ''Falta de coordinaci`on o desacuerdos en un proyecto compartido.'')"
| "PENTACLES_MEANINGS FOUR =
    (''Estabilidad y control sobre tus recursos.'',
     ''Apego excesivo al control o miedo a soltar lo material.'')"
| "PENTACLES_MEANINGS FIVE =
    (''Dificultades materiales que ponen a prueba tu red de apoyo.'',
     es ''El inicio de una recuperaci`on tras un momento de escasez.'')"
| "PENTACLES_MEANINGS SIX =
    (''Generosidad y un intercambio equilibrado de recursos o ayuda.'',
     ''Desequilibrio en dar o recibir apoyo.'')"
| "PENTACLES_MEANINGS SEVEN =
    (es ''Paciencia mientras eval`uas si el esfuerzo invertido est`a dando fruto.'',
     ''Impaciencia o dudas sobre si vale la pena seguir invirtiendo tiempo.'')"
| "PENTACLES_MEANINGS EIGHT =
    (es ''Dedicaci`on y perfeccionamiento constante de una habilidad.'',
     es ''Falta de motivaci`on o trabajo hecho sin suficiente cuidado.'')"
| "PENTACLES_MEANINGS NINE =
    (''Independencia y disfrute de lo que has construido con esfuerzo propio.'',
     es ''Sensaci`on de aislamiento pese al `exito material.'')"
| "PENTACLES_MEANINGS TEN =
    (''Legado, estabilidad familiar y bienestar a largo plazo.'',
     ''Tensiones familiares relacionadas con dinero o herencia.'')"
| "PENTACLES_MEANINGS PAGE =
    (es ''Inter`es genuino en aprender algo nuevo con aplicaci`on pr`actica.'',
     ''Falta de disciplina para concretar un plan de estudio o trabajo.'')"
| "PENTACLES_MEANINGS KNIGHT =
    (es ''Constancia y trabajo met`odico hacia una meta concreta.'',
     ''Estancamiento por exceso de rutina o rigidez.'')"
| "PENTACLES_MEANINGS QUEEN =
    (es ''Calidez pr`actica; cuidas de otros y de ti sin descuidar lo material.'',
     ''Sobrecarga por atender demasiadas responsabilidades a la vez.'')"
| "PENTACLES_MEANINGS KING =
    (es ''`Exito material sostenido y generosidad desde la abundancia.'',
     ''Materialismo excesivo o rigidez frente al riesgo.'')"

definition MINOR_MEANINGS :: "minorSuit \<Rightarrow> rank \<Rightarrow> string \<times> string" where
  "MINOR_MEANINGS s = (case s of WANDS \<Rightarrow> WANDS_MEANINGS | CUPS \<Rightarrow> CUPS_MEANINGS | SWORDS \<Rightarrow> SWORDS_MEANINGS | PENTACLES \<Rightarrow> PENTACLES_MEANINGS)"

definition buildMajorArcana :: "tarotCardSeed list" where
  "buildMajorArcana = map (\<lambda>(index, code, name, upright, reversed_meaning).
     \<lparr>cs_code = code, cs_name = name, cs_arcana = MAJOR, cs_suit = None, cs_numberInSuit = None, cs_orderIndex = int index,
      cs_uprightMeaning = upright, cs_reversedMeaning = reversed_meaning\<rparr>) (enumerate 0 MAJOR_ARCANA_DATA)"

text \<open>The two nested loops: all ranks of the first suit, then of the next; the order goes on after the major arcana.\<close>

definition minor_card :: "nat \<Rightarrow> minorSuit \<times> string \<Rightarrow> rank \<times> string \<times> int option \<Rightarrow> tarotCardSeed" where
  "minor_card index suit rank =
     \<lparr>cs_code = suit_code (fst suit) @ ''_'' @ rank_code (fst rank), cs_name = fst (snd rank) @ '' de '' @ snd suit,
      cs_arcana = MINOR, cs_suit = Some (fst suit), cs_numberInSuit = snd (snd rank), cs_orderIndex = int index,
      cs_uprightMeaning = fst (MINOR_MEANINGS (fst suit) (fst rank)), cs_reversedMeaning = snd (MINOR_MEANINGS (fst suit) (fst rank))\<rparr>"

definition buildMinorArcana :: "tarotCardSeed list" where
  "buildMinorArcana = map (\<lambda>(index, suit, rank). minor_card index suit rank)
     (enumerate (length MAJOR_ARCANA_DATA) (List.product SUITS RANKS))"

definition TAROT_CARDS :: "tarotCardSeed list" where
  "TAROT_CARDS = buildMajorArcana @ buildMinorArcana"

section \<open>Spreads\<close>

record tarotSpreadPositionSeed =
  sq_code :: string
  sq_label :: string
  sq_orderIndex :: int

record tarotSpreadSeed =
  ss_code :: string
  ss_name :: string
  ss_positions :: "tarotSpreadPositionSeed list"

definition TAROT_SPREADS :: "tarotSpreadSeed list" where
  "TAROT_SPREADS =
    [\<lparr>ss_code = ''TAROT_THREE'', ss_name = ''Pasado, presente y tendencia'', ss_positions =
       [\<lparr>sq_code = ''PAST'', sq_label = ''Pasado'', sq_orderIndex = 0\<rparr>,
        \<lparr>sq_code = ''PRESENT'', sq_label = ''Presente'', sq_orderIndex = 1\<rparr>,
        \<lparr>sq_code = ''TREND'', sq_label = ''Tendencia'', sq_orderIndex = 2\<rparr>]\<rparr>,
     \<lparr>ss_code = ''TAROT_FIVE'', ss_name = ''Cruz de cinco cartas'', ss_positions =
       [\<lparr>sq_code = ''SITUATION'', sq_label = es ''Situaci`on'', sq_orderIndex = 0\<rparr>,
        \<lparr>sq_code = ''CHALLENGE'', sq_label = es ''Desaf`io'', sq_orderIndex = 1\<rparr>,
        \<lparr>sq_code = ''PAST'', sq_label = ''Pasado'', sq_orderIndex = 2\<rparr>,
        \<lparr>sq_code = ''FUTURE'', sq_label = ''Futuro'', sq_orderIndex = 3\<rparr>,
        \<lparr>sq_code = ''OUTCOME'', sq_label = ''Resultado'', sq_orderIndex = 4\<rparr>]\<rparr>,
     \<lparr>ss_code = ''TAROT_TEN'', ss_name = ''Cruz Celta'', ss_positions =
       [\<lparr>sq_code = ''PRESENT'', sq_label = ''Presente'', sq_orderIndex = 0\<rparr>,
        \<lparr>sq_code = ''CHALLENGE'', sq_label = es ''Desaf`io'', sq_orderIndex = 1\<rparr>,
        \<lparr>sq_code = ''FOUNDATION'', sq_label = ''Base'', sq_orderIndex = 2\<rparr>,
        \<lparr>sq_code = ''RECENT_PAST'', sq_label = ''Pasado reciente'', sq_orderIndex = 3\<rparr>,
        \<lparr>sq_code = ''GOAL'', sq_label = ''Meta consciente'', sq_orderIndex = 4\<rparr>,
        \<lparr>sq_code = ''NEAR_FUTURE'', sq_label = ''Futuro cercano'', sq_orderIndex = 5\<rparr>,
        \<lparr>sq_code = ''ATTITUDE'', sq_label = ''Tu actitud'', sq_orderIndex = 6\<rparr>,
        \<lparr>sq_code = ''ENVIRONMENT'', sq_label = ''Entorno'', sq_orderIndex = 7\<rparr>,
        \<lparr>sq_code = ''HOPES_FEARS'', sq_label = ''Esperanzas y miedos'', sq_orderIndex = 8\<rparr>,
        \<lparr>sq_code = ''OUTCOME'', sq_label = ''Resultado final'', sq_orderIndex = 9\<rparr>]\<rparr>]"

section \<open>Services and packages\<close>

record serviceSeed =
  se_code :: string
  se_name :: string
  se_description :: string
  se_creditCost :: int

definition BASE_SERVICES :: "serviceSeed list" where
  "BASE_SERVICES =
    [\<lparr>se_code = ''DAILY_CARD'', se_name = ''Carta diaria'',
        se_description = es ''Una carta e interpretaci`on distinta cada d`ia, sin costo.'', se_creditCost = 0\<rparr>,
     \<lparr>se_code = ''TAROT_THREE'', se_name = ''Tarot de tres cartas'',
        se_description = ''Pasado, presente y tendencia a partir de tu pregunta.'', se_creditCost = 10\<rparr>,
     \<lparr>se_code = ''TAROT_FIVE'', se_name = ''Tarot de cinco cartas'',
        se_description = es ''Lectura de profundidad intermedia: situaci`on, desaf`io, pasado, futuro y resultado.'', se_creditCost = 18\<rparr>,
     \<lparr>se_code = ''TAROT_TEN'', se_name = ''Tarot de diez cartas (Cruz Celta)'',
        se_description = ''Lectura profunda y detallada para consultas complejas.'', se_creditCost = 35\<rparr>,
     \<lparr>se_code = ''PALM_BASIC'', se_name = ''Lectura de una palma'',
        se_description = ''Reporte guiado a partir de la foto de una sola palma.'', se_creditCost = 15\<rparr>,
     \<lparr>se_code = ''PALM_COMPLETE'', se_name = ''Lectura de dos palmas'',
        se_description = ''Reporte guiado a partir de la foto de ambas palmas.'', se_creditCost = 25\<rparr>]"

definition TAROT_THREE_FORM_SCHEMA :: json where
  "TAROT_THREE_FORM_SCHEMA = JObject [(''version'', JNumber 1), (''fields'', JArray [JObject
     [(''key'', JString ''question''), (''type'', JString ''textarea''), (''label'', JString (es ''`?Qu`e quieres consultar?'')),
      (''required'', JBool True), (''minLength'', JNumber 5), (''maxLength'', JNumber 500)]])]"

record creditPackageSeed =
  ck_code :: string
  ck_name :: string
  ck_description :: string
  ck_credits :: int
  ck_priceCents :: int
  ck_currency :: string
  ck_isRecommended :: bool

definition CREDIT_PACKAGES :: "creditPackageSeed list" where
  "CREDIT_PACKAGES =
    [\<lparr>ck_code = ''ENTERPRISE_MISTICO'', ck_name = es ''Enterprise `. M`istico'',
        ck_description = es ''100 cr`editos + 30 de regalo. El paquete de referencia para quienes viven la experiencia TAROTRIA a fondo.'',
        ck_credits = 130, ck_priceCents = 12000000, ck_currency = ''COP'', ck_isRecommended = False\<rparr>,
     \<lparr>ck_code = ''PRO_ASTRAL'', ck_name = es ''Pro `. Astral'',
        ck_description = es ''40 cr`editos + 10 de regalo. La mejor relaci`on entre cr`editos y precio.'',
        ck_credits = 50, ck_priceCents = 4800000, ck_currency = ''COP'', ck_isRecommended = True\<rparr>,
     \<lparr>ck_code = ''BASICO_FUEGO'', ck_name = es ''B`asico `. Fuego'',
        ck_description = es ''10 cr`editos, ideal para una experiencia puntual.'',
        ck_credits = 10, ck_priceCents = 1600000, ck_currency = ''COP'', ck_isRecommended = False\<rparr>]"

section \<open>Prompts\<close>

definition DISCLAIMER :: string where
  "DISCLAIMER = es ''Las lecturas tienen fines de entretenimiento, reflexi`on y orientaci`on personal. No constituyen asesoramiento m`edico, psicol`ogico, jur`idico, financiero ni profesional, ni garantizan acontecimientos futuros.''"

record promptSeed =
  pt_code :: string
  pt_name :: string
  pt_version :: int
  pt_systemPrompt :: string
  pt_userPromptTemplate :: string
  pt_model :: string
  pt_temperature :: string
  pt_maxOutputTokens :: int
  pt_outputSchema :: json

text \<open>The parts of the output schemas that recur.\<close>

definition schema_string :: json where
  "schema_string = JObject [(''type'', JString ''string'')]"

definition schema_strings :: json where
  "schema_strings = JObject [(''type'', JString ''array''), (''items'', schema_string)]"

definition schema_object :: "(string \<times> json) list \<Rightarrow> json" where
  "schema_object entries = JObject [(''type'', JString ''object''), (''required'', JArray (map (\<lambda>f. JString (fst f)) entries)),
     (''properties'', JObject entries)]"

definition tarot_output_schema :: "(string \<times> json) list \<Rightarrow> json" where
  "tarot_output_schema bounds = schema_object [(''title'', schema_string), (''summary'', schema_string),
     (''cards'', JObject ([(''type'', JString ''array'')] @ bounds @
        [(''items'', schema_object [(''position'', schema_string), (''cardCode'', schema_string), (''interpretation'', schema_string)])])),
     (''insights'', schema_strings), (''suggestedActions'', schema_strings), (''closingReflection'', schema_string),
     (''disclaimer'', schema_string)]"

definition tarotCardsOutputSchema :: "int \<Rightarrow> json" where
  "tarotCardsOutputSchema cardCount = tarot_output_schema [(''minItems'', JNumber cardCount), (''maxItems'', JNumber cardCount)]"

definition TAROT_THREE_INTERPRETATION_PROMPT :: "string \<Rightarrow> promptSeed" where
  \<open>TAROT_THREE_INTERPRETATION_PROMPT systemPrompt =
     \<lparr>pt_code = ''TAROT_THREE_INTERPRETATION'', pt_name = es ''Interpretaci`on de tarot de tres cartas'', pt_version = 1, pt_systemPrompt = systemPrompt,
      pt_userPromptTemplate = text_lines
        [''Pregunta de la persona consultante: {{question}}'',
         [],
         ''Cartas de la tirada, en orden:'',
         ''{{cards}}'',
         [],
         es ''Genera una interpretaci`on estructurada siguiendo exactamente este formato JSON:'',
         ''{'',
         ''  "title": "string",'',
         ''  "summary": "string",'',
         ''  "cards": [{ "position": "string", "cardCode": "string", "interpretation": "string" }],'',
         ''  "insights": ["string"],'',
         ''  "suggestedActions": ["string"],'',
         ''  "closingReflection": "string",'',
         ''  "disclaimer": "string"'',
         ''}'',
         [],
         ''El campo "cards" debe tener exactamente una entrada por cada carta de la tirada, en el mismo orden. El campo "disclaimer" debe ser exactamente:'',
         ''"'' @ DISCLAIMER @ ''"''],
      pt_model = ''gpt-4o-mini'', pt_temperature = ''0.7'', pt_maxOutputTokens = 1200,
      pt_outputSchema = tarot_output_schema []\<rparr>\<close>

definition TAROT_FIVE_INTERPRETATION_PROMPT :: "string \<Rightarrow> promptSeed" where
  \<open>TAROT_FIVE_INTERPRETATION_PROMPT systemPrompt =
     \<lparr>pt_code = ''TAROT_FIVE_INTERPRETATION'', pt_name = es ''Interpretaci`on de tarot de cinco cartas'', pt_version = 1, pt_systemPrompt = systemPrompt,
      pt_userPromptTemplate = text_lines
        [''Pregunta de la persona consultante: {{question}}'',
         [],
         ''Cartas de la tirada, en orden:'',
         ''{{cards}}'',
         [],
         es ''Genera una interpretaci`on estructurada siguiendo exactamente este formato JSON:'',
         ''{'',
         ''  "title": "string",'',
         ''  "summary": "string",'',
         ''  "cards": [{ "position": "string", "cardCode": "string", "interpretation": "string" }],'',
         ''  "insights": ["string"],'',
         ''  "suggestedActions": ["string"],'',
         ''  "closingReflection": "string",'',
         ''  "disclaimer": "string"'',
         ''}'',
         [],
         ''El campo "cards" debe tener exactamente 5 entradas, una por cada carta de la tirada, en el mismo orden. El campo "disclaimer" debe ser exactamente:'',
         ''"'' @ DISCLAIMER @ ''"''],
      pt_model = ''gpt-4o-mini'', pt_temperature = ''0.7'', pt_maxOutputTokens = 1600,
      pt_outputSchema = tarotCardsOutputSchema 5\<rparr>\<close>

definition TAROT_TEN_INTERPRETATION_PROMPT :: "string \<Rightarrow> promptSeed" where
  \<open>TAROT_TEN_INTERPRETATION_PROMPT systemPrompt =
     \<lparr>pt_code = ''TAROT_TEN_INTERPRETATION'', pt_name = es ''Interpretaci`on de tarot de diez cartas (Cruz Celta)'', pt_version = 1, pt_systemPrompt = systemPrompt,
      pt_userPromptTemplate = text_lines
        [''Pregunta de la persona consultante: {{question}}'',
         [],
         ''Cartas de la tirada, en orden:'',
         ''{{cards}}'',
         [],
         es ''Genera una interpretaci`on estructurada siguiendo exactamente este formato JSON:'',
         ''{'',
         ''  "title": "string",'',
         ''  "summary": "string",'',
         ''  "cards": [{ "position": "string", "cardCode": "string", "interpretation": "string" }],'',
         ''  "insights": ["string"],'',
         ''  "suggestedActions": ["string"],'',
         ''  "closingReflection": "string",'',
         ''  "disclaimer": "string"'',
         ''}'',
         [],
         ''El campo "cards" debe tener exactamente 10 entradas, una por cada carta de la tirada, en el mismo orden. El campo "disclaimer" debe ser exactamente:'',
         ''"'' @ DISCLAIMER @ ''"''],
      pt_model = ''gpt-4o-mini'', pt_temperature = ''0.7'', pt_maxOutputTokens = 2400,
      pt_outputSchema = tarotCardsOutputSchema 10\<rparr>\<close>

definition PALM_READING_INTERPRETATION_PROMPT :: "string \<Rightarrow> promptSeed" where
  \<open>PALM_READING_INTERPRETATION_PROMPT systemPrompt =
     \<lparr>pt_code = ''PALM_READING_INTERPRETATION'', pt_name = es ''Interpretaci`on de lectura de manos'', pt_version = 1, pt_systemPrompt = systemPrompt,
      pt_userPromptTemplate = text_lines
        [''Analiza la(s) imagen(es) de palma adjunta(s) y genera una lectura estructurada siguiendo exactamente este formato JSON:'',
         ''{'',
         ''  "title": "string",'',
         ''  "summary": "string",'',
         ''  "observations": {'',
         ''    "heartLine": "string",'',
         ''    "headLine": "string",'',
         ''    "lifeLine": "string",'',
         ''    "generalShape": "string"'',
         ''  },'',
         ''  "strengths": ["string"],'',
         ''  "growthAreas": ["string"],'',
         ''  "reflection": "string",'',
         ''  "disclaimer": "string"'',
         ''}'',
         [],
         ''El campo "disclaimer" debe ser exactamente:'',
         ''"'' @ DISCLAIMER @ ''"''],
      pt_model = ''gpt-4o-mini'', pt_temperature = ''0.7'', pt_maxOutputTokens = 1200,
      pt_outputSchema = schema_object [(''title'', schema_string), (''summary'', schema_string),
        (''observations'', schema_object [(''heartLine'', schema_string), (''headLine'', schema_string), (''lifeLine'', schema_string), (''generalShape'', schema_string)]),
        (''strengths'', schema_strings), (''growthAreas'', schema_strings), (''reflection'', schema_string), (''disclaimer'', schema_string)]\<rparr>\<close>

definition PALM_IMAGE_LEGIBILITY_PROMPT :: "string \<Rightarrow> promptSeed" where
  \<open>PALM_IMAGE_LEGIBILITY_PROMPT systemPrompt =
     \<lparr>pt_code = ''PALM_IMAGE_LEGIBILITY_CHECK'', pt_name = es ''Verificaci`on t`ecnica de legibilidad de imagen de palma'', pt_version = 1, pt_systemPrompt = systemPrompt,
      pt_userPromptTemplate = text_lines
        [es ''Eval`ua la imagen adjunta y responde con este formato JSON exacto:'',
         ''{'',
         ''  "isLegiblePalm": boolean,'',
         es ''  "reason": "string breve en espa`nol explicando la decisi`on"'',
         ''}'',
         [],
         es ''Marca "isLegiblePalm" como true solo si se ve con claridad una palma humana completa, bien iluminada y enfocada. M`arcalo como false si la imagen est`a borrosa, mal iluminada, incompleta, no muestra una palma, o muestra otra cosa.''],
      pt_model = ''gpt-4o-mini'', pt_temperature = ''0.2'', pt_maxOutputTokens = 150,
      pt_outputSchema = schema_object [(''isLegiblePalm'', JObject [(''type'', JString ''boolean'')]), (''reason'', schema_string)]\<rparr>\<close>

end
