(* ===== verification/Seed.thy ===== *)
theory Seed
  imports SeedData ServicesService PromptsService ReadingJobs
begin

text \<open>
  The program that fills the catalogue (\<open>prisma/seed.ts\<close>) and what the rest of the service may expect after it ran. It is run on an
  empty database and again on every deployment.
\<close>

section \<open>The program\<close>

text \<open>\<open>upsert\<close>: update the row with this key, or create it.\<close>

definition upsert :: "'r table \<Rightarrow> ('r \<Rightarrow> bool) \<Rightarrow> ('r \<Rightarrow> 'r) \<Rightarrow> (world, 'r) prog \<Rightarrow> (world, 'r) prog" where
  "upsert T P change new_row =
     await (find_first T P) (\<lambda>found. case found of
       Some _ \<Rightarrow> update_row T P change
     | None \<Rightarrow> await new_row (create T))"

definition BASE_ROLES :: "(string \<times> string) list" where
  "BASE_ROLES = [(''USER'', ''Usuario''), (''ADMIN'', ''Administrador'')]"

definition seed_role :: "env \<Rightarrow> string \<times> string \<Rightarrow> (world, role) prog" where
  "seed_role E role = upsert Role (\<lambda>r. ro_code r = fst role) (\<lambda>r. r\<lparr>ro_name := snd role\<rparr>)
     (await (random_uuid E) (\<lambda>i. ret \<lparr>ro_id = i, ro_code = fst role, ro_name = snd role\<rparr>))"

definition seedRoles :: "env \<Rightarrow> (world, unit) prog" where
  "seedRoles E = for_each (\<lambda>role. andthen (seed_role E role) (ret ())) BASE_ROLES"

definition seed_service :: "env \<Rightarrow> serviceSeed \<Rightarrow> (world, service) prog" where
  "seed_service E service = await (date_now E) (\<lambda>now.
     upsert Service (\<lambda>s. s_code s = se_code service)
       (\<lambda>s. s\<lparr>s_name := se_name service, s_description := Some (se_description service),
          s_creditCost := se_creditCost service, s_updatedAt := now\<rparr>)
       (await (random_uuid E) (\<lambda>i. ret \<lparr>s_id = i, s_code = se_code service, s_name = se_name service,
          s_description = Some (se_description service), s_creditCost = se_creditCost service, s_isActive = True,
          s_createdAt = now, s_updatedAt = now\<rparr>)))"

definition seed_form :: "env \<Rightarrow> string \<Rightarrow> (world, serviceForm) prog" where
  "seed_form E serviceId =
     upsert ServiceForm (\<lambda>f. (sf_serviceId f, sf_version f) = (serviceId, 1))
       (\<lambda>f. f\<lparr>sf_schema := TAROT_THREE_FORM_SCHEMA, sf_isActive := True\<rparr>)
       (await (random_uuid E) (\<lambda>i. ret \<lparr>sf_id = i, sf_serviceId = serviceId, sf_version = 1,
          sf_schema = TAROT_THREE_FORM_SCHEMA, sf_isActive = True\<rparr>))"

definition seedServices :: "env \<Rightarrow> (world, unit) prog" where
  "seedServices E = for_each (\<lambda>service.
     await (seed_service E service) (\<lambda>upserted.
     if se_code service \<in> {''TAROT_THREE'', ''TAROT_FIVE'', ''TAROT_TEN''}
     then andthen (seed_form E (s_id upserted)) (ret ()) else ret ())) BASE_SERVICES"

definition seed_deck :: "env \<Rightarrow> (world, tarotDeck) prog" where
  "seed_deck E = upsert TarotDeck (\<lambda>k. td_code k = TAROT_DECK_CODE) (\<lambda>k. k\<lparr>td_name := TAROT_DECK_NAME\<rparr>)
     (await (random_uuid E) (\<lambda>i. ret \<lparr>td_id = i, td_code = TAROT_DECK_CODE, td_name = TAROT_DECK_NAME, td_isActive = True\<rparr>))"

definition seed_card :: "env \<Rightarrow> string \<Rightarrow> tarotCardSeed \<Rightarrow> (world, tarotCard) prog" where
  "seed_card E deckId c =
     upsert TarotCard (\<lambda>x. (tc_deckId x, tc_code x) = (deckId, cs_code c))
       (\<lambda>x. x\<lparr>tc_name := cs_name c, tc_arcana := cs_arcana c, tc_suit := cs_suit c, tc_numberInSuit := cs_numberInSuit c,
          tc_orderIndex := cs_orderIndex c, tc_uprightMeaning := cs_uprightMeaning c, tc_reversedMeaning := cs_reversedMeaning c\<rparr>)
       (await (random_uuid E) (\<lambda>i. ret \<lparr>tc_id = i, tc_deckId = deckId, tc_code = cs_code c, tc_name = cs_name c,
          tc_arcana = cs_arcana c, tc_suit = cs_suit c, tc_numberInSuit = cs_numberInSuit c, tc_orderIndex = cs_orderIndex c,
          tc_uprightMeaning = cs_uprightMeaning c, tc_reversedMeaning = cs_reversedMeaning c, tc_imageUrl = None\<rparr>))"

definition seedTarotDeck :: "env \<Rightarrow> (world, unit) prog" where
  "seedTarotDeck E = await (seed_deck E) (\<lambda>deck.
     for_each (\<lambda>c. andthen (seed_card E (td_id deck) c) (ret ())) TAROT_CARDS)"

definition seed_spread :: "env \<Rightarrow> tarotSpreadSeed \<Rightarrow> (world, tarotSpread) prog" where
  "seed_spread E spread = upsert TarotSpread (\<lambda>s. ts_code s = ss_code spread) (\<lambda>s. s\<lparr>ts_name := ss_name spread\<rparr>)
     (await (random_uuid E) (\<lambda>i. ret \<lparr>ts_id = i, ts_code = ss_code spread, ts_name = ss_name spread, ts_isActive = True\<rparr>))"

definition seed_position :: "env \<Rightarrow> string \<Rightarrow> tarotSpreadPositionSeed \<Rightarrow> (world, spreadPosition) prog" where
  "seed_position E spreadId position =
     upsert SpreadPosition (\<lambda>p. (sp_spreadId p, sp_code p) = (spreadId, sq_code position))
       (\<lambda>p. p\<lparr>sp_label := sq_label position, sp_orderIndex := sq_orderIndex position\<rparr>)
       (await (random_uuid E) (\<lambda>i. ret \<lparr>sp_id = i, sp_spreadId = spreadId, sp_code = sq_code position,
          sp_label = sq_label position, sp_orderIndex = sq_orderIndex position\<rparr>))"

definition seedTarotSpreads :: "env \<Rightarrow> (world, unit) prog" where
  "seedTarotSpreads E = for_each (\<lambda>spread.
     await (seed_spread E spread) (\<lambda>upserted.
     for_each (\<lambda>position. andthen (seed_position E (ts_id upserted) position) (ret ())) (ss_positions spread))) TAROT_SPREADS"

definition seed_prompt_row :: "env \<Rightarrow> promptSeed \<Rightarrow> (world, promptRow) prog" where
  "seed_prompt_row E p = upsert Prompt (\<lambda>r. pr_code r = pt_code p) (\<lambda>r. r\<lparr>pr_name := pt_name p\<rparr>)
     (await (random_uuid E) (\<lambda>i. await (date_now E) (\<lambda>now.
        ret \<lparr>pr_id = i, pr_code = pt_code p, pr_name = pt_name p, pr_createdAt = now\<rparr>)))"

definition seed_version :: "env \<Rightarrow> string \<Rightarrow> promptSeed \<Rightarrow> (world, promptVersion) prog" where
  "seed_version E promptId p =
     await (random_uuid E) (\<lambda>i. await (date_now E) (\<lambda>now.
     create PromptVersion \<lparr>pv_id = i, pv_promptId = promptId, pv_version = pt_version p, pv_systemPrompt = pt_systemPrompt p,
       pv_userPromptTemplate = pt_userPromptTemplate p, pv_model = pt_model p, pv_temperature = Some (pt_temperature p),
       pv_maxOutputTokens = Some (pt_maxOutputTokens p), pv_outputSchema = pt_outputSchema p, pv_status = PV_PUBLISHED,
       pv_authorId = None, pv_publishedAt = Some now, pv_createdAt = now\<rparr>))"

definition seedPrompt :: "env \<Rightarrow> promptSeed \<Rightarrow> (world, unit) prog" where
  "seedPrompt E p =
     await (seed_prompt_row E p) (\<lambda>prompt.
     await (find_first PromptVersion (\<lambda>v. pv_promptId v = pr_id prompt \<and> pv_version v = pt_version p)) (\<lambda>existingVersion.
     case existingVersion of
       None \<Rightarrow> andthen (seed_version E (pr_id prompt) p) (ret ())
     | Some _ \<Rightarrow> ret ()))"

text \<open>The system prompts come by the code of their prompt.\<close>

definition PROMPTS :: "(string \<Rightarrow> string) \<Rightarrow> promptSeed list" where
  "PROMPTS systemPrompts =
     [TAROT_THREE_INTERPRETATION_PROMPT (systemPrompts ''TAROT_THREE_INTERPRETATION''),
      TAROT_FIVE_INTERPRETATION_PROMPT (systemPrompts ''TAROT_FIVE_INTERPRETATION''),
      TAROT_TEN_INTERPRETATION_PROMPT (systemPrompts ''TAROT_TEN_INTERPRETATION''),
      PALM_IMAGE_LEGIBILITY_PROMPT (systemPrompts ''PALM_IMAGE_LEGIBILITY_CHECK''),
      PALM_READING_INTERPRETATION_PROMPT (systemPrompts ''PALM_READING_INTERPRETATION'')]"

definition seedPrompts :: "(string \<Rightarrow> string) \<Rightarrow> env \<Rightarrow> (world, unit) prog" where
  "seedPrompts systemPrompts E = for_each (seedPrompt E) (PROMPTS systemPrompts)"

definition seed_package :: "env \<Rightarrow> creditPackageSeed \<Rightarrow> (world, creditPackage) prog" where
  "seed_package E pkg = upsert CreditPackage (\<lambda>p. cp_code p = ck_code pkg)
     (\<lambda>p. p\<lparr>cp_name := ck_name pkg, cp_description := Some (ck_description pkg), cp_credits := ck_credits pkg,
        cp_priceCents := ck_priceCents pkg, cp_currency := ck_currency pkg, cp_isRecommended := ck_isRecommended pkg, cp_isActive := True\<rparr>)
     (await (random_uuid E) (\<lambda>i. ret \<lparr>cp_id = i, cp_code = ck_code pkg, cp_name = ck_name pkg,
        cp_description = Some (ck_description pkg), cp_credits = ck_credits pkg, cp_priceCents = ck_priceCents pkg,
        cp_currency = ck_currency pkg, cp_isActive = True, cp_isRecommended = ck_isRecommended pkg\<rparr>))"

definition seedCreditPackages :: "env \<Rightarrow> (world, unit) prog" where
  "seedCreditPackages E = for_each (\<lambda>pkg. andthen (seed_package E pkg) (ret ())) CREDIT_PACKAGES"

definition seed_dev_user :: "env \<Rightarrow> (world, user) prog" where
  "seed_dev_user E = upsert User (\<lambda>u. u_email u = ''dev@oracle.local'') (\<lambda>u. u)
     (await (random_uuid E) (\<lambda>i. await (date_now E) (\<lambda>now.
        ret \<lparr>u_id = i, u_email = ''dev@oracle.local'', u_name = ''Dev User'', u_passwordHash = ''local-dev-fixture-not-a-real-hash'',
          u_status = ACTIVE_USER, u_emailVerifiedAt = None, u_createdAt = now, u_deletedAt = None\<rparr>)))"

definition seedLocalDevUser :: "env \<Rightarrow> (world, unit) prog" where
  "seedLocalDevUser E =
     await (seed_dev_user E) (\<lambda>user.
     await (find_or_throw Role (\<lambda>r. ro_code r = ''USER'')) (\<lambda>userRole.
     andthen (upsert UserRole (\<lambda>x. (ur_userId x, ur_roleId x) = (u_id user, ro_id userRole)) (\<lambda>x. x)
        (ret \<lparr>ur_userId = u_id user, ur_roleId = ro_id userRole\<rparr>))
       (ret ())))"

text \<open>\<open>NODE_ENV\<close> is read from the process, where it may be missing.\<close>

definition seed_main :: "(string \<Rightarrow> string) \<Rightarrow> env \<Rightarrow> string option \<Rightarrow> (world, unit) prog" where
  "seed_main systemPrompts E nodeEnv =
     andthen (seedRoles E) (andthen (seedServices E) (andthen (seedTarotDeck E) (andthen (seedTarotSpreads E)
       (andthen (seedPrompts systemPrompts E) (andthen (seedCreditPackages E)
         (if nodeEnv = Some ''local'' then seedLocalDevUser E else ret ()))))))"

end
