(* ===== verification/SeedLaws.thy ===== *)
theory SeedLaws
  imports Seed
begin

text \<open>
  Running the seed always ends well, and afterwards a reading of every service can be filled in, drawn and interpreted. What the
  catalogue holds is a set of facts; every call of the seed adds its fact and takes none away.
\<close>

section \<open>The catalogue as a set of facts\<close>

datatype fact =
    RoleThere string
  | ServiceThere string string
  | FormActive string int
  | DeckThere string string
  | CardThere string string
  | SpreadThere string string
  | PositionThere string string
  | PromptThere string string
  | PublishedThere string
  | PackageThere string

definition facts :: "database \<Rightarrow> fact set" where
  "facts d =
     (\<lambda>r. RoleThere (ro_code r)) ` set (roles d) \<union>
     (\<lambda>s. ServiceThere (s_id s) (s_code s)) ` set (services d) \<union>
     (\<lambda>f. FormActive (sf_serviceId f) (sf_version f)) ` {f \<in> set (serviceForms d). sf_isActive f} \<union>
     (\<lambda>k. DeckThere (td_id k) (td_code k)) ` set (tarotDecks d) \<union>
     (\<lambda>c. CardThere (tc_deckId c) (tc_code c)) ` set (tarotCards d) \<union>
     (\<lambda>s. SpreadThere (ts_id s) (ts_code s)) ` set (tarotSpreads d) \<union>
     (\<lambda>p. PositionThere (sp_spreadId p) (sp_code p)) ` set (spreadPositions d) \<union>
     (\<lambda>p. PromptThere (pr_id p) (pr_code p)) ` set (prompts d) \<union>
     (\<lambda>v. PublishedThere (pv_promptId v)) ` {v \<in> set (promptVersions d). pv_status v = PV_PUBLISHED} \<union>
     (\<lambda>p. PackageThere (cp_code p)) ` set (creditPackages d)"

lemma in_facts:
  "RoleThere c \<in> facts d \<longleftrightarrow> (\<exists>r \<in> set (roles d). ro_code r = c)"
  "ServiceThere i c \<in> facts d \<longleftrightarrow> (\<exists>s \<in> set (services d). s_id s = i \<and> s_code s = c)"
  "FormActive i n \<in> facts d \<longleftrightarrow> (\<exists>f \<in> set (serviceForms d). sf_serviceId f = i \<and> sf_version f = n \<and> sf_isActive f)"
  "DeckThere i c \<in> facts d \<longleftrightarrow> (\<exists>k \<in> set (tarotDecks d). td_id k = i \<and> td_code k = c)"
  "CardThere i c \<in> facts d \<longleftrightarrow> (\<exists>k \<in> set (tarotCards d). tc_deckId k = i \<and> tc_code k = c)"
  "SpreadThere i c \<in> facts d \<longleftrightarrow> (\<exists>s \<in> set (tarotSpreads d). ts_id s = i \<and> ts_code s = c)"
  "PositionThere i c \<in> facts d \<longleftrightarrow> (\<exists>p \<in> set (spreadPositions d). sp_spreadId p = i \<and> sp_code p = c)"
  "PromptThere i c \<in> facts d \<longleftrightarrow> (\<exists>p \<in> set (prompts d). pr_id p = i \<and> pr_code p = c)"
  "PublishedThere i \<in> facts d \<longleftrightarrow> (\<exists>v \<in> set (promptVersions d). pv_promptId v = i \<and> pv_status v = PV_PUBLISHED)"
  "PackageThere c \<in> facts d \<longleftrightarrow> (\<exists>p \<in> set (creditPackages d). cp_code p = c)"
  by (auto simp: facts_def)

text \<open>The ids in use, and the state the seed runs in: coming ids are new, nothing of the catalogue is
  switched off, and a prompt with a version has a published one.\<close>

definition used_ids :: "database \<Rightarrow> string set" where
  "used_ids d = ro_id ` set (roles d) \<union> s_id ` set (services d) \<union> sf_id ` set (serviceForms d) \<union> td_id ` set (tarotDecks d) \<union>
     tc_id ` set (tarotCards d) \<union> ts_id ` set (tarotSpreads d) \<union> sp_id ` set (spreadPositions d) \<union> pr_id ` set (prompts d) \<union>
     pv_id ` set (promptVersions d) \<union> cp_id ` set (creditPackages d) \<union> u_id ` set (users d)"

definition switched_on :: "database \<Rightarrow> bool" where
  "switched_on d \<longleftrightarrow> (\<forall>s \<in> set (services d). s_isActive s) \<and> (\<forall>k \<in> set (tarotDecks d). td_isActive k) \<and>
     (\<forall>s \<in> set (tarotSpreads d). ts_isActive s) \<and>
     (\<forall>v \<in> set (promptVersions d). \<exists>u \<in> set (promptVersions d). pv_promptId u = pv_promptId v \<and> pv_status u = PV_PUBLISHED)"

definition seedable :: "env \<Rightarrow> world \<Rightarrow> bool" where
  "seedable E w \<longleftrightarrow> (\<forall>n \<ge> uuids w. e_uuid E n \<notin> used_ids (db w)) \<and> switched_on (db w)"

section \<open>Programs that only add facts\<close>

text \<open>\<open>seeds E m Q\<close>: the program returns, adds facts and takes none away, and \<open>Q\<close> holds of its answer and the facts then.\<close>

definition seeds :: "env \<Rightarrow> (world, 'a) prog \<Rightarrow> ('a \<Rightarrow> fact set \<Rightarrow> bool) \<Rightarrow> bool" where
  "seeds E m Q \<longleftrightarrow> (\<forall>w. seedable E w \<longrightarrow> (\<exists>x w'. m w = (Inr x, w') \<and> seedable E w' \<and>
     facts (db w) \<subseteq> facts (db w') \<and> Q x (facts (db w'))))"

definition stable :: "(fact set \<Rightarrow> bool) \<Rightarrow> bool" where
  "stable Q \<longleftrightarrow> (\<forall>S T. S \<subseteq> T \<longrightarrow> Q S \<longrightarrow> Q T)"

lemma stable_intro:
  "stable (\<lambda>S. f \<in> S)" "stable (\<lambda>S. b)"
  "stable Q \<Longrightarrow> stable R \<Longrightarrow> stable (\<lambda>S. Q S \<and> R S)"
  "(\<And>x. stable (P x)) \<Longrightarrow> stable (\<lambda>S. \<exists>x. P x S)"
  "(\<And>x. stable (P x)) \<Longrightarrow> stable (\<lambda>S. \<forall>x \<in> X. P x S)"
  by (auto simp: stable_def)

lemma seedsI:
  assumes "\<And>w. seedable E w \<Longrightarrow> \<exists>x w'. m w = (Inr x, w') \<and> seedable E w' \<and> facts (db w) \<subseteq> facts (db w') \<and> Q x (facts (db w'))"
  shows "seeds E m Q"
  using assms by (simp add: seeds_def)

lemma seedsE:
  assumes "seeds E m Q" "seedable E w"
  obtains x w' where "m w = (Inr x, w')" "seedable E w'" "facts (db w) \<subseteq> facts (db w')" "Q x (facts (db w'))"
  using assms by (auto simp: seeds_def)

lemma seeds_ret: "(\<And>S. Q x S) \<Longrightarrow> seeds E (ret x) Q"
  by (simp add: seeds_def)

lemma seeds_await:
  assumes "seeds E m Q" "\<And>x. stable (Q x)" "\<And>x. seeds E (k x) (R x)" "\<And>x y S. Q x S \<Longrightarrow> R x y S \<Longrightarrow> H y S"
  shows "seeds E (await m k) H"
proof (rule seedsI)
  fix w assume "seedable E w"
  then obtain x w1 where 1: "m w = (Inr x, w1)" "seedable E w1" "facts (db w) \<subseteq> facts (db w1)" "Q x (facts (db w1))"
    using seedsE [OF assms(1)] by blast
  obtain y w2 where 2: "k x w1 = (Inr y, w2)" "seedable E w2" "facts (db w1) \<subseteq> facts (db w2)" "R x y (facts (db w2))"
    using seedsE [OF assms(3) 1(2)] by blast
  have "H y (facts (db w2))" using assms(2,4) 1(4) 2(3,4) unfolding stable_def by blast
  with 1 2 show "\<exists>y w'. await m k w = (Inr y, w') \<and> seedable E w' \<and> facts (db w) \<subseteq> facts (db w') \<and> H y (facts (db w'))"
    by (auto simp: await_def)
qed

lemma seeds_more: "seeds E m Q \<Longrightarrow> (\<And>x S. Q x S \<Longrightarrow> R x S) \<Longrightarrow> seeds E m R"
  unfolding seeds_def by blast

lemma seeds_andthen:
  assumes "seeds E m (\<lambda>_. Q)" "stable Q" "seeds E k (\<lambda>_. R)"
  shows "seeds E (andthen m k) (\<lambda>_ S. Q S \<and> R S)"
  unfolding andthen_def by (rule seeds_await [OF assms(1)]) (use assms in auto)

lemma seeds_for_each:
  assumes "\<And>x. x \<in> set xs \<Longrightarrow> seeds E (body x) (\<lambda>_. Q x)" "\<And>x. stable (Q x)"
  shows "seeds E (for_each body xs) (\<lambda>_ S. \<forall>x \<in> set xs. Q x S)"
  using assms(1)
proof (induction xs)
  case (Cons x xs)
  have "seeds E (andthen (body x) (for_each body xs)) (\<lambda>_ S. Q x S \<and> (\<forall>x \<in> set xs. Q x S))"
    by (rule seeds_andthen) (use Cons assms(2) in auto)
  then show ?case by simp
qed (simp add: seeds_ret)

lemma seeds_unit: "seeds E m (\<lambda>x. Q) \<Longrightarrow> seeds E (andthen m (ret ())) (\<lambda>_. Q)"
  unfolding seeds_def andthen_def await_def by (fastforce split: prod.splits)

section \<open>One upsert\<close>

text \<open>
  A table with a key: a clash is one of the ids or of the keys. The row an \<open>upsert\<close> answers has the key and is in the table, where
  either the rows with the key were updated or the new row was added.
\<close>

locale keyed_table =
  fixes T :: "'r table" and idf :: "'r \<Rightarrow> string" and key :: "'r \<Rightarrow> 'k"
  assumes clash_key: "clash T a b \<Longrightarrow> idf a = idf b \<or> key a = key b"
    and rows_set: "rows T (set_rows T g d) = g (rows T d)"
begin

lemma upsert_run:
  assumes new: "new_row w = (Inr r, w1)" "db w1 = db w" "check T r" "key r = k" "idf r \<notin> idf ` set (rows T (db w))"
    and change: "\<And>r. key r = k \<Longrightarrow> check T (f r) \<and> key (f r) = k"
  obtains x where "upsert T (\<lambda>r. key r = k) f new_row w = (Inr x, w\<lparr>db := set_rows T (map (\<lambda>r. if key r = k then f r else r)) (db w)\<rparr>)"
      "key x = k" "\<exists>y \<in> set (rows T (db w)). key y = k \<and> x = f y"
    | "upsert T (\<lambda>r. key r = k) f new_row w = (Inr r, w1\<lparr>db := set_rows T (\<lambda>rs. rs @ [r]) (db w)\<rparr>)"
proof (cases "find (\<lambda>r. key r = k) (rows T (db w))")
  case None
  then have "\<not> list_ex (clash T r) (rows T (db w))"
    using new(4,5) clash_key by (fastforce simp: list_ex_iff find_None_iff)
  with None new that(2) show thesis by (simp add: upsert_def await_def create_def)
next
  case (Some y)
  with change [of y] find_SomeD [OF Some] that(1) [of "f y"] show thesis
    by (auto simp: upsert_def await_def update_row_def)
qed

end

text \<open>
  A table of the catalogue: \<open>tell\<close> are the facts of one row, \<open>on\<close> says it is not switched off. \<open>facts\<close>, \<open>used_ids\<close>
  and \<open>switched_on\<close> depend on the rows one by one.
\<close>

locale seeded_table = keyed_table +
  fixes tell :: "'a \<Rightarrow> fact set" and on :: "'a \<Rightarrow> bool"
  assumes same_rows: "set_rows T (\<lambda>rs. rs) d = d"
    and facts_rows: "facts (set_rows T g d) = facts (set_rows T (\<lambda>_. []) d) \<union> (\<Union>r \<in> set (g (rows T d)). tell r)"
    and ids_rows: "used_ids (set_rows T g d) = used_ids (set_rows T (\<lambda>_. []) d) \<union> idf ` set (g (rows T d))"
    and on_rows: "switched_on (set_rows T g d) \<longleftrightarrow> switched_on (set_rows T (\<lambda>_. []) d) \<and> (\<forall>r \<in> set (g (rows T d)). on r)"
begin

lemmas now_rows = facts_rows [of "\<lambda>rs. rs", unfolded same_rows] ids_rows [of "\<lambda>rs. rs", unfolded same_rows]
  on_rows [of "\<lambda>rs. rs", unfolded same_rows]

lemma upsert_seeds_good:
  assumes distinct_ids: "inj (e_uuid E)"
    and new: "\<And>w. \<exists>r w1. new_row w = (Inr r, w1) \<and> db w1 = db w \<and> uuids w1 = Suc (uuids w) \<and> check T r \<and> key r = k \<and>
      idf r = e_uuid E (uuids w) \<and> on r \<and> good r"
    and change: "\<And>r. key r = k \<Longrightarrow> check T (f r) \<and> key (f r) = k \<and> idf (f r) = idf r \<and> tell r \<subseteq> tell (f r) \<and> on (f r) = on r \<and> good (f r)"
  shows "seeds E (upsert T (\<lambda>r. key r = k) f new_row) (\<lambda>x S. key x = k \<and> tell x \<subseteq> S \<and> good x)"
proof (rule seedsI)
  fix w assume ok: "seedable E w"
  obtain r w1 where r: "new_row w = (Inr r, w1)" "db w1 = db w" "uuids w1 = Suc (uuids w)" "check T r" "key r = k"
      "idf r = e_uuid E (uuids w)" "on r" "good r" using new by blast
  have ids: "\<forall>n \<ge> uuids w. e_uuid E n \<notin> used_ids (db w)" and on: "switched_on (db w)" using ok by (auto simp: seedable_def)
  then have "idf r \<notin> idf ` set (rows T (db w))" using r(6) now_rows(2) [of "db w"] by auto
  from r(1,2,4,5) this show "\<exists>x w'. upsert T (\<lambda>r. key r = k) f new_row w = (Inr x, w') \<and> seedable E w' \<and>
      facts (db w) \<subseteq> facts (db w') \<and> key x = k \<and> tell x \<subseteq> facts (db w') \<and> good x"
  proof (rule upsert_run [of new_row w r w1 k f])
    let ?g = "map (\<lambda>r. if key r = k then f r else r)"
    fix x assume run: "upsert T (\<lambda>r. key r = k) f new_row w = (Inr x, w\<lparr>db := set_rows T ?g (db w)\<rparr>)"
      and x: "key x = k" "\<exists>y \<in> set (rows T (db w)). key y = k \<and> x = f y"
    have "seedable E (w\<lparr>db := set_rows T ?g (db w)\<rparr>)"
      using ids on change unfolding seedable_def by (auto simp: ids_rows [of ?g] on_rows [of ?g] now_rows(2,3) [of "db w"] split: if_splits)
    moreover have "facts (db w) \<subseteq> facts (set_rows T ?g (db w))"
      using change unfolding facts_rows [of ?g] now_rows(1) [of "db w"] by fastforce
    moreover have "tell x \<subseteq> facts (set_rows T ?g (db w))"
      using x unfolding facts_rows [of ?g] by fastforce
    moreover have "good x" using x(2) change by blast
    ultimately show ?thesis using run x(1) by auto
  next
    let ?g = "\<lambda>rs. rs @ [r]"
    assume run: "upsert T (\<lambda>r. key r = k) f new_row w = (Inr r, w1\<lparr>db := set_rows T ?g (db w)\<rparr>)"
    have "seedable E (w1\<lparr>db := set_rows T ?g (db w)\<rparr>)"
      using ids on r distinct_ids unfolding seedable_def by (auto simp: ids_rows [of ?g] on_rows [of ?g] now_rows(2,3) [of "db w"] dest: injD)
    moreover have "facts (db w) \<subseteq> facts (set_rows T ?g (db w)) \<and> tell r \<subseteq> facts (set_rows T ?g (db w))"
      unfolding facts_rows [of ?g] now_rows(1) [of "db w"] by auto
    ultimately show ?thesis using run r(5,8) by auto
  qed (use change in blast)
qed

lemmas upsert_seeds = upsert_seeds_good [where good = "\<lambda>_. True"]

end

section \<open>The tables of the catalogue\<close>

interpretation roles_seed: seeded_table Role ro_id ro_code "\<lambda>r. {RoleThere (ro_code r)}" "\<lambda>_. True"
  by unfold_locales (auto simp: table_defs facts_def used_ids_def switched_on_def)

interpretation services_seed: seeded_table Service s_id s_code "\<lambda>s. {ServiceThere (s_id s) (s_code s)}" s_isActive
  by unfold_locales (auto simp: table_defs facts_def used_ids_def switched_on_def)

interpretation forms_seed: seeded_table ServiceForm sf_id "\<lambda>f. (sf_serviceId f, sf_version f)"
    "\<lambda>f. if sf_isActive f then {FormActive (sf_serviceId f) (sf_version f)} else {}" "\<lambda>_. True"
  by unfold_locales (auto simp: table_defs facts_def used_ids_def switched_on_def)

interpretation decks_seed: seeded_table TarotDeck td_id td_code "\<lambda>k. {DeckThere (td_id k) (td_code k)}" td_isActive
  by unfold_locales (auto simp: table_defs facts_def used_ids_def switched_on_def)

interpretation cards_seed: seeded_table TarotCard tc_id "\<lambda>c. (tc_deckId c, tc_code c)" "\<lambda>c. {CardThere (tc_deckId c) (tc_code c)}" "\<lambda>_. True"
  by unfold_locales (auto simp: table_defs facts_def used_ids_def switched_on_def)

interpretation spreads_seed: seeded_table TarotSpread ts_id ts_code "\<lambda>s. {SpreadThere (ts_id s) (ts_code s)}" ts_isActive
  by unfold_locales (auto simp: table_defs facts_def used_ids_def switched_on_def)

interpretation positions_seed: seeded_table SpreadPosition sp_id "\<lambda>p. (sp_spreadId p, sp_code p)"
    "\<lambda>p. {PositionThere (sp_spreadId p) (sp_code p)}" "\<lambda>_. True"
  by unfold_locales (auto simp: table_defs facts_def used_ids_def switched_on_def)

interpretation prompts_seed: seeded_table Prompt pr_id pr_code "\<lambda>p. {PromptThere (pr_id p) (pr_code p)}" "\<lambda>_. True"
  by unfold_locales (auto simp: table_defs facts_def used_ids_def switched_on_def)

interpretation packages_seed: seeded_table CreditPackage cp_id cp_code "\<lambda>p. {PackageThere (cp_code p)}" "\<lambda>_. True"
  by unfold_locales (auto simp: table_defs facts_def used_ids_def switched_on_def)

interpretation users_seed: seeded_table User u_id u_email "\<lambda>_. {}" "\<lambda>_. True"
  by unfold_locales (auto simp: table_defs facts_def used_ids_def switched_on_def)

section \<open>The steps of the seed\<close>

lemma seeds_clock:
  assumes "\<And>now. seeds E (k now) Q"
  shows "seeds E (await (date_now E) k) Q"
proof (rule seedsI)
  fix w assume "seedable E w"
  then have "seedable E (w\<lparr>ticks := Suc (ticks w)\<rparr>)" by (simp add: seedable_def)
  from assms [of "e_clock E (ticks w)"] this
  show "\<exists>x w'. await (date_now E) k w = (Inr x, w') \<and> seedable E w' \<and> facts (db w) \<subseteq> facts (db w') \<and> Q x (facts (db w'))"
    by (rule seedsE) (auto simp: await_def)
qed

lemma role_step:
  assumes "inj (e_uuid E)"
  shows "seeds E (seed_role E role) (\<lambda>x S. RoleThere (fst role) \<in> S)"
  unfolding seed_role_def
  by (rule seeds_more [OF roles_seed.upsert_seeds [OF assms(1)]]) (use assms in \<open>auto simp: await_def table_defs int4_def\<close>)

lemma service_step:
  assumes "inj (e_uuid E)" and "int4 (se_creditCost service)"
  shows "seeds E (seed_service E service) (\<lambda>x S. ServiceThere (s_id x) (se_code service) \<in> S)"
  unfolding seed_service_def
  by (rule seeds_clock, rule seeds_more [OF services_seed.upsert_seeds [OF assms(1)]]) (use assms in \<open>auto simp: await_def table_defs\<close>)

lemma form_step:
  assumes "inj (e_uuid E)"
  shows "seeds E (seed_form E i) (\<lambda>x S. FormActive i 1 \<in> S)"
  unfolding seed_form_def
  by (rule seeds_more [OF forms_seed.upsert_seeds_good [OF assms(1), where good = sf_isActive]]) (use assms in \<open>auto simp: await_def table_defs int4_def\<close>)

lemma deck_step:
  assumes "inj (e_uuid E)"
  shows "seeds E (seed_deck E) (\<lambda>x S. DeckThere (td_id x) TAROT_DECK_CODE \<in> S)"
  unfolding seed_deck_def
  by (rule seeds_more [OF decks_seed.upsert_seeds [OF assms(1)]]) (use assms in \<open>auto simp: await_def table_defs int4_def\<close>)

lemma card_step:
  assumes "inj (e_uuid E)"
    and "int4 (cs_orderIndex c)"
  shows "seeds E (seed_card E i c) (\<lambda>x S. CardThere i (cs_code c) \<in> S)"
  unfolding seed_card_def
  by (rule seeds_more [OF cards_seed.upsert_seeds [OF assms(1)]]) (use assms in \<open>auto simp: await_def table_defs int4_def\<close>)

lemma spread_step:
  assumes "inj (e_uuid E)"
  shows "seeds E (seed_spread E spread) (\<lambda>x S. SpreadThere (ts_id x) (ss_code spread) \<in> S)"
  unfolding seed_spread_def
  by (rule seeds_more [OF spreads_seed.upsert_seeds [OF assms(1)]]) (use assms in \<open>auto simp: await_def table_defs int4_def\<close>)

lemma position_step:
  assumes "inj (e_uuid E)"
    and "int4 (sq_orderIndex position)"
  shows "seeds E (seed_position E i position) (\<lambda>x S. PositionThere i (sq_code position) \<in> S)"
  unfolding seed_position_def
  by (rule seeds_more [OF positions_seed.upsert_seeds [OF assms(1)]]) (use assms in \<open>auto simp: await_def table_defs int4_def\<close>)

lemma prompt_step:
  assumes "inj (e_uuid E)"
  shows "seeds E (seed_prompt_row E p) (\<lambda>x S. PromptThere (pr_id x) (pt_code p) \<in> S)"
  unfolding seed_prompt_row_def
  by (rule seeds_more [OF prompts_seed.upsert_seeds [OF assms(1)]]) (use assms in \<open>auto simp: await_def table_defs int4_def\<close>)

lemma package_step:
  assumes "inj (e_uuid E)"
    and "int4 (ck_credits pkg)" and "int4 (ck_priceCents pkg)"
  shows "seeds E (seed_package E pkg) (\<lambda>x S. PackageThere (ck_code pkg) \<in> S)"
  unfolding seed_package_def
  by (rule seeds_more [OF packages_seed.upsert_seeds [OF assms(1)]]) (use assms in \<open>auto simp: await_def table_defs int4_def\<close>)

lemma dev_user_step:
  assumes "inj (e_uuid E)"
  shows "seeds E (seed_dev_user E) (\<lambda>x S. True)"
  unfolding seed_dev_user_def
  by (rule seeds_more [OF users_seed.upsert_seeds [OF assms(1)]]) (use assms in \<open>auto simp: await_def table_defs int4_def\<close>)

text \<open>The version of a prompt is created unless it is there; either way the prompt has a published version.\<close>

lemma version_step:
  assumes "inj (e_uuid E)" and "int4 (pt_version p)" and "int4 (pt_maxOutputTokens p)"
  shows "seeds E (await (find_first PromptVersion (\<lambda>v. pv_promptId v = i \<and> pv_version v = pt_version p)) (\<lambda>existing. case existing of
       None \<Rightarrow> andthen (seed_version E i p) (ret ()) | Some _ \<Rightarrow> ret ())) (\<lambda>_ S. PublishedThere i \<in> S)"
proof (rule seedsI)
  fix w assume ok: "seedable E w"
  let ?m = "await (find_first PromptVersion (\<lambda>v. pv_promptId v = i \<and> pv_version v = pt_version p)) (\<lambda>existing. case existing of
       None \<Rightarrow> andthen (seed_version E i p) (ret ()) | Some _ \<Rightarrow> ret ())"
  show "\<exists>x w'. ?m w = (Inr x, w') \<and> seedable E w' \<and> facts (db w) \<subseteq> facts (db w') \<and> PublishedThere i \<in> facts (db w')"
  proof (cases "find (\<lambda>v. pv_promptId v = i \<and> pv_version v = pt_version p) (promptVersions (db w))")
    case None
    let ?v = "\<lparr>pv_id = e_uuid E (uuids w), pv_promptId = i, pv_version = pt_version p, pv_systemPrompt = pt_systemPrompt p,
       pv_userPromptTemplate = pt_userPromptTemplate p, pv_model = pt_model p, pv_temperature = Some (pt_temperature p),
       pv_maxOutputTokens = Some (pt_maxOutputTokens p), pv_outputSchema = pt_outputSchema p, pv_status = PV_PUBLISHED,
       pv_authorId = None, pv_publishedAt = Some (e_clock E (ticks w)), pv_createdAt = e_clock E (ticks w)\<rparr>"
    let ?d = "(db w)\<lparr>promptVersions := promptVersions (db w) @ [?v]\<rparr>"
    let ?w = "w\<lparr>uuids := Suc (uuids w), ticks := Suc (ticks w), db := ?d\<rparr>"
    have "e_uuid E (uuids w) \<notin> used_ids (db w)" using ok by (simp add: seedable_def)
    then have "\<not> list_ex (clash PromptVersion ?v) (rows PromptVersion (db w))"
      using None by (auto simp: list_ex_iff table_defs find_None_iff used_ids_def)
    then have "?m w = (Inr (), ?w)"
      using None assms(2,3) by (simp add: await_def andthen_def seed_version_def create_def table_defs)
    moreover have "facts (db w) \<subseteq> facts ?d" by (auto simp: facts_def)
    moreover have "PublishedThere i \<in> facts ?d" by (simp add: in_facts)
    moreover have "switched_on ?d" using ok by (auto simp: seedable_def switched_on_def)
    moreover have "used_ids ?d = insert (e_uuid E (uuids w)) (used_ids (db w))" by (auto simp: used_ids_def)
    ultimately show ?thesis using ok assms(1) by (auto simp: seedable_def dest: injD)
  next
    case (Some v)
    then have "v \<in> set (promptVersions (db w))" "pv_promptId v = i" using find_SomeD [OF Some] by auto
    then have "PublishedThere i \<in> facts (db w)" using ok by (auto simp: seedable_def switched_on_def in_facts)
    with Some ok show ?thesis by (simp add: await_def table_defs)
  qed
qed

section \<open>The data\<close>

lemma map_enumerate_fst: "map (\<lambda>x. f (fst x)) (enumerate n xs) = map f [n..<n + length xs]"
  by (subst map_fst_enumerate [symmetric]) (simp add: comp_def del: map_fst_enumerate)

lemma map_enumerate_snd: "map (\<lambda>x. f (snd x)) (enumerate n xs) = map f xs"
  by (rule trans [OF _ arg_cong [OF map_snd_enumerate]]) (simp add: comp_def del: map_snd_enumerate)

lemma card_order: "map cs_orderIndex TAROT_CARDS = map int [0..<78]"
proof -
  have n: "length MAJOR_ARCANA_DATA = 22" by (simp add: MAJOR_ARCANA_DATA_def)
  have m: "length SUITS = 4" "length RANKS = 14" by (simp_all add: SUITS_def RANKS_def)
  have "map cs_orderIndex buildMajorArcana = map int [0..<22]"
    using map_enumerate_fst [of int 0 MAJOR_ARCANA_DATA] by (simp add: buildMajorArcana_def case_prod_unfold comp_def n del: upt.simps)
  moreover have "map cs_orderIndex buildMinorArcana = map int [22..<78]"
    using map_enumerate_fst [of int 22 "List.product SUITS RANKS"]
    by (simp add: buildMinorArcana_def minor_card_def case_prod_unfold comp_def n m del: upt.simps)
  moreover have "[0..<22] @ [22..<78] = [0..<78 :: nat]" using upt_add_eq_append [of 0 22 56] by simp
  ultimately show ?thesis by (metis TAROT_CARDS_def map_append)
qed

lemma card_codes: "map cs_code TAROT_CARDS =
    map fst MAJOR_ARCANA_DATA @ map (\<lambda>p. suit_code (fst (fst p)) @ ''_'' @ rank_code (fst (snd p))) (List.product SUITS RANKS)"
  using map_enumerate_snd [of fst 0 MAJOR_ARCANA_DATA]
    map_enumerate_snd [of "\<lambda>p. suit_code (fst (fst p)) @ ''_'' @ rank_code (fst (snd p))" "length MAJOR_ARCANA_DATA" "List.product SUITS RANKS"]
  by (simp add: TAROT_CARDS_def buildMajorArcana_def buildMinorArcana_def minor_card_def case_prod_unfold comp_def)

lemma card_codes_distinct: "distinct (map cs_code TAROT_CARDS)"
  unfolding card_codes
  by (simp add: MAJOR_ARCANA_DATA_def SUITS_def RANKS_def suit_code_def)

lemma data_in_range:
  "\<forall>c \<in> set TAROT_CARDS. int4 (cs_orderIndex c)"
  "\<forall>s \<in> set BASE_SERVICES. int4 (se_creditCost s)"
  "\<forall>s \<in> set TAROT_SPREADS. \<forall>p \<in> set (ss_positions s). int4 (sq_orderIndex p)"
  "\<forall>p \<in> set (PROMPTS sys). int4 (pt_version p) \<and> int4 (pt_maxOutputTokens p)"
  "\<forall>p \<in> set CREDIT_PACKAGES. int4 (ck_credits p) \<and> int4 (ck_priceCents p)"
proof -
  show "\<forall>c \<in> set TAROT_CARDS. int4 (cs_orderIndex c)"
  proof
    fix c assume "c \<in> set TAROT_CARDS"
    then have "cs_orderIndex c \<in> set (map int [0..<78])" unfolding card_order [symmetric] by simp
    then show "int4 (cs_orderIndex c)" by (auto simp: int4_def)
  qed
qed (simp_all add: int4_def BASE_SERVICES_def TAROT_SPREADS_def PROMPTS_def CREDIT_PACKAGES_def
    TAROT_THREE_INTERPRETATION_PROMPT_def TAROT_FIVE_INTERPRETATION_PROMPT_def TAROT_TEN_INTERPRETATION_PROMPT_def
    PALM_IMAGE_LEGIBILITY_PROMPT_def PALM_READING_INTERPRETATION_PROMPT_def)

section \<open>The whole seed\<close>

lemma seed_roles: "inj (e_uuid E) \<Longrightarrow> seeds E (seedRoles E) (\<lambda>_ S. \<forall>r \<in> set BASE_ROLES. RoleThere (fst r) \<in> S)"
  unfolding seedRoles_def by (intro seeds_for_each seeds_unit role_step stable_intro)

text \<open>The services with their forms, the deck with its cards, the spreads with their positions, the prompts with a version.\<close>

lemma seed_services:
  assumes "inj (e_uuid E)"
  shows "seeds E (seedServices E) (\<lambda>_ S. \<forall>s \<in> set BASE_SERVICES. \<exists>i. ServiceThere i (se_code s) \<in> S \<and>
    (se_code s \<in> {''TAROT_THREE'', ''TAROT_FIVE'', ''TAROT_TEN''} \<longrightarrow> FormActive i 1 \<in> S))"
  unfolding seedServices_def
proof (rule seeds_for_each)
  fix s assume "s \<in> set BASE_SERVICES"
  then have cost: "int4 (se_creditCost s)" using data_in_range(2) by blast
  have form: "seeds E (if se_code s \<in> {''TAROT_THREE'', ''TAROT_FIVE'', ''TAROT_TEN''} then andthen (seed_form E i) (ret ()) else ret ())
      (\<lambda>_ S. se_code s \<in> {''TAROT_THREE'', ''TAROT_FIVE'', ''TAROT_TEN''} \<longrightarrow> FormActive i 1 \<in> S)" for i
    by (cases "se_code s \<in> {''TAROT_THREE'', ''TAROT_FIVE'', ''TAROT_TEN''}")
      (simp_all only: if_True if_False simp_thms seeds_unit form_step [OF assms] seeds_ret)
  show "seeds E (await (seed_service E s) (\<lambda>upserted. if se_code s \<in> {''TAROT_THREE'', ''TAROT_FIVE'', ''TAROT_TEN''}
      then andthen (seed_form E (s_id upserted)) (ret ()) else ret ()))
    (\<lambda>_ S. \<exists>i. ServiceThere i (se_code s) \<in> S \<and> (se_code s \<in> {''TAROT_THREE'', ''TAROT_FIVE'', ''TAROT_TEN''} \<longrightarrow> FormActive i 1 \<in> S))"
    by (rule seeds_await [OF service_step [OF assms cost] _ form]) (rule stable_intro, blast)
qed (auto simp: stable_def)

lemma seed_deck_cards:
  assumes "inj (e_uuid E)"
  shows "seeds E (seedTarotDeck E) (\<lambda>_ S. \<exists>i. DeckThere i TAROT_DECK_CODE \<in> S \<and> (\<forall>c \<in> set TAROT_CARDS. CardThere i (cs_code c) \<in> S))"
  unfolding seedTarotDeck_def
proof (rule seeds_await [OF deck_step [OF assms]])
  fix k show "seeds E (for_each (\<lambda>c. andthen (seed_card E (td_id k) c) (ret ())) TAROT_CARDS)
      (\<lambda>_ S. \<forall>c \<in> set TAROT_CARDS. CardThere (td_id k) (cs_code c) \<in> S)"
    by (rule seeds_for_each, rule seeds_unit, rule card_step [OF assms]) (use data_in_range(1) in \<open>auto intro: stable_intro\<close>)
qed (auto intro: stable_intro)

lemma seed_spreads_positions:
  assumes "inj (e_uuid E)"
  shows "seeds E (seedTarotSpreads E) (\<lambda>_ S. \<forall>s \<in> set TAROT_SPREADS. \<exists>i. SpreadThere i (ss_code s) \<in> S \<and>
    (\<forall>p \<in> set (ss_positions s). PositionThere i (sq_code p) \<in> S))"
  unfolding seedTarotSpreads_def
proof (rule seeds_for_each)
  fix s assume s: "s \<in> set TAROT_SPREADS"
  have positions: "seeds E (for_each (\<lambda>p. andthen (seed_position E i p) (ret ())) (ss_positions s))
      (\<lambda>_ S. \<forall>p \<in> set (ss_positions s). PositionThere i (sq_code p) \<in> S)" for i
    by (rule seeds_for_each, rule seeds_unit, rule position_step [OF assms]) (use data_in_range(3) s in \<open>auto intro: stable_intro\<close>)
  show "seeds E (await (seed_spread E s) (\<lambda>upserted. for_each (\<lambda>p. andthen (seed_position E (ts_id upserted) p) (ret ())) (ss_positions s)))
      (\<lambda>_ S. \<exists>i. SpreadThere i (ss_code s) \<in> S \<and> (\<forall>p \<in> set (ss_positions s). PositionThere i (sq_code p) \<in> S))"
    by (rule seeds_await [OF spread_step [OF assms] _ positions]) (auto intro: stable_intro)
qed (intro stable_intro)

lemma seed_prompts_versions:
  assumes "inj (e_uuid E)"
  shows "seeds E (seedPrompts sys E) (\<lambda>_ S. \<forall>p \<in> set (PROMPTS sys). \<exists>i. PromptThere i (pt_code p) \<in> S \<and> PublishedThere i \<in> S)"
  unfolding seedPrompts_def
proof (rule seeds_for_each)
  fix p assume "p \<in> set (PROMPTS sys)"
  then have "int4 (pt_version p)" "int4 (pt_maxOutputTokens p)" using data_in_range(4) by blast+
  note version = version_step [OF assms this]
  show "seeds E (seedPrompt E p) (\<lambda>_ S. \<exists>i. PromptThere i (pt_code p) \<in> S \<and> PublishedThere i \<in> S)"
    unfolding seedPrompt_def by (rule seeds_await [OF prompt_step [OF assms] _ version]) (auto intro: stable_intro)
qed (intro stable_intro)

lemma seed_packages:
  assumes "inj (e_uuid E)"
  shows "seeds E (seedCreditPackages E) (\<lambda>_ S. \<forall>p \<in> set CREDIT_PACKAGES. PackageThere (ck_code p) \<in> S)"
  unfolding seedCreditPackages_def
  by (rule seeds_for_each, rule seeds_unit, rule package_step [OF assms]) (use data_in_range(5) in \<open>auto intro: stable_intro\<close>)

text \<open>The account for local development, which needs the role of the users.\<close>

lemma seed_dev_user_runs:
  assumes "inj (e_uuid E)" "seedable E w" "RoleThere ''USER'' \<in> facts (db w)"
  obtains w' where "seedLocalDevUser E w = (Inr (), w')" "seedable E w'" "facts (db w) \<subseteq> facts (db w')"
proof -
  obtain u w1 where 1: "seed_dev_user E w = (Inr u, w1)" "seedable E w1" "facts (db w) \<subseteq> facts (db w1)"
    using seedsE [OF dev_user_step [OF assms(1)] assms(2)] by blast
  then have "\<exists>r \<in> set (roles (db w1)). ro_code r = ''USER''" using assms(3) by (auto simp flip: in_facts)
  then obtain r where r: "find (\<lambda>r. ro_code r = ''USER'') (roles (db w1)) = Some r"
    by (cases "find (\<lambda>r. ro_code r = ''USER'') (roles (db w1))") (auto simp: find_None_iff)
  let ?key = "\<lambda>x. (ur_userId x, ur_roleId x) = (u_id u, ro_id r)"
  have "\<exists>x rs. upsert UserRole ?key (\<lambda>x. x) (ret \<lparr>ur_userId = u_id u, ur_roleId = ro_id r\<rparr>) w1 = (Inr x, w1\<lparr>db := (db w1)\<lparr>userRoles := rs\<rparr>\<rparr>)"
  proof (cases "find ?key (rows UserRole (db w1))")
    case None
    then have "\<not> list_ex (clash UserRole \<lparr>ur_userId = u_id u, ur_roleId = ro_id r\<rparr>) (rows UserRole (db w1))"
      by (auto simp: list_ex_iff find_None_iff UserRole_def)
    with None show ?thesis by (auto simp: upsert_def await_def create_def UserRole_def)
  next
    case (Some x)
    then show ?thesis
      by (intro exI [of _ x] exI [of _ "userRoles (db w1)"]) (simp add: upsert_def await_def update_row_def UserRole_def)
  qed
  then obtain x rs where up: "upsert UserRole ?key (\<lambda>x. x) (ret \<lparr>ur_userId = u_id u, ur_roleId = ro_id r\<rparr>) w1 =
      (Inr x, w1\<lparr>db := (db w1)\<lparr>userRoles := rs\<rparr>\<rparr>)" by blast
  have "seedable E (w1\<lparr>db := (db w1)\<lparr>userRoles := rs\<rparr>\<rparr>)" "facts (db w) \<subseteq> facts ((db w1)\<lparr>userRoles := rs\<rparr>)"
    using 1(2,3) by (simp_all add: seedable_def used_ids_def switched_on_def facts_def)
  then show thesis
    by (intro that [of "w1\<lparr>db := (db w1)\<lparr>userRoles := rs\<rparr>\<rparr>"])
      (simp_all add: seedLocalDevUser_def await_def andthen_def 1(1) find_or_throw_run Role_def r up [unfolded prod.inject])
qed

text \<open>What the facts of the seed are.\<close>

definition seeded :: "fact set \<Rightarrow> bool" where
  "seeded S \<longleftrightarrow> (\<forall>r \<in> set BASE_ROLES. RoleThere (fst r) \<in> S) \<and>
     (\<forall>s \<in> set BASE_SERVICES. \<exists>i. ServiceThere i (se_code s) \<in> S \<and>
        (se_code s \<in> {''TAROT_THREE'', ''TAROT_FIVE'', ''TAROT_TEN''} \<longrightarrow> FormActive i 1 \<in> S)) \<and>
     (\<exists>i. DeckThere i TAROT_DECK_CODE \<in> S \<and> (\<forall>c \<in> set TAROT_CARDS. CardThere i (cs_code c) \<in> S)) \<and>
     (\<forall>s \<in> set TAROT_SPREADS. \<exists>i. SpreadThere i (ss_code s) \<in> S \<and> (\<forall>p \<in> set (ss_positions s). PositionThere i (sq_code p) \<in> S)) \<and>
     (\<forall>p \<in> set (PROMPTS (\<lambda>_. [])). \<exists>i. PromptThere i (pt_code p) \<in> S \<and> PublishedThere i \<in> S) \<and>
     (\<forall>p \<in> set CREDIT_PACKAGES. PackageThere (ck_code p) \<in> S)"

lemma prompt_codes: "pt_code ` set (PROMPTS sys) = pt_code ` set (PROMPTS (\<lambda>_. []))"
  by (simp add: PROMPTS_def TAROT_THREE_INTERPRETATION_PROMPT_def TAROT_FIVE_INTERPRETATION_PROMPT_def TAROT_TEN_INTERPRETATION_PROMPT_def
    PALM_IMAGE_LEGIBILITY_PROMPT_def PALM_READING_INTERPRETATION_PROMPT_def)

lemma seed_main_runs:
  assumes "inj (e_uuid E)" "seedable E w"
  obtains w' where "seed_main sys E nodeEnv w = (Inr (), w')" "seedable E w'" "facts (db w) \<subseteq> facts (db w')" "seeded (facts (db w'))"
proof -
  note I = assms(1)
  obtain w1 where 1: "seedRoles E w = (Inr (), w1)" "seedable E w1" "facts (db w) \<subseteq> facts (db w1)"
    "\<forall>r \<in> set BASE_ROLES. RoleThere (fst r) \<in> facts (db w1)" using seedsE [OF seed_roles [OF I] assms(2)] by auto
  obtain w2 where 2: "seedServices E w1 = (Inr (), w2)" "seedable E w2" "facts (db w1) \<subseteq> facts (db w2)"
    "\<forall>s \<in> set BASE_SERVICES. \<exists>i. ServiceThere i (se_code s) \<in> facts (db w2) \<and>
      (se_code s \<in> {''TAROT_THREE'', ''TAROT_FIVE'', ''TAROT_TEN''} \<longrightarrow> FormActive i 1 \<in> facts (db w2))"
    using seedsE [OF seed_services [OF I] 1(2)] by auto
  obtain w3 where 3: "seedTarotDeck E w2 = (Inr (), w3)" "seedable E w3" "facts (db w2) \<subseteq> facts (db w3)"
    "\<exists>i. DeckThere i TAROT_DECK_CODE \<in> facts (db w3) \<and> (\<forall>c \<in> set TAROT_CARDS. CardThere i (cs_code c) \<in> facts (db w3))"
    using seedsE [OF seed_deck_cards [OF I] 2(2)] by auto
  obtain w4 where 4: "seedTarotSpreads E w3 = (Inr (), w4)" "seedable E w4" "facts (db w3) \<subseteq> facts (db w4)"
    "\<forall>s \<in> set TAROT_SPREADS. \<exists>i. SpreadThere i (ss_code s) \<in> facts (db w4) \<and> (\<forall>p \<in> set (ss_positions s). PositionThere i (sq_code p) \<in> facts (db w4))"
    using seedsE [OF seed_spreads_positions [OF I] 3(2)] by auto
  obtain w5 where 5: "seedPrompts sys E w4 = (Inr (), w5)" "seedable E w5" "facts (db w4) \<subseteq> facts (db w5)"
    "\<forall>p \<in> set (PROMPTS sys). \<exists>i. PromptThere i (pt_code p) \<in> facts (db w5) \<and> PublishedThere i \<in> facts (db w5)"
    using seedsE [OF seed_prompts_versions [OF I] 4(2)] by auto
  obtain w6 where 6: "seedCreditPackages E w5 = (Inr (), w6)" "seedable E w6" "facts (db w5) \<subseteq> facts (db w6)"
    "\<forall>p \<in> set CREDIT_PACKAGES. PackageThere (ck_code p) \<in> facts (db w6)" using seedsE [OF seed_packages [OF I] 5(2)] by auto
  have "RoleThere ''USER'' \<in> facts (db w1)" using 1(4) by (simp add: BASE_ROLES_def)
  then have "RoleThere ''USER'' \<in> facts (db w6)" using 2(3) 3(3) 4(3) 5(3) 6(3) by blast
  then obtain w7 where 7: "(if nodeEnv = Some ''local'' then seedLocalDevUser E else ret ()) w6 = (Inr (), w7)"
    "seedable E w7" "facts (db w6) \<subseteq> facts (db w7)"
    using 6(2) seed_dev_user_runs [OF I 6(2)] by (cases "nodeEnv = Some ''local''") auto
  have grow: "facts (db w1) \<subseteq> facts (db w7)" "facts (db w2) \<subseteq> facts (db w7)" "facts (db w3) \<subseteq> facts (db w7)" "facts (db w4) \<subseteq> facts (db w7)"
    "facts (db w5) \<subseteq> facts (db w7)" using 2(3) 3(3) 4(3) 5(3) 6(3) 7(3) by blast+
  have "\<forall>c \<in> pt_code ` set (PROMPTS sys). \<exists>i. PromptThere i c \<in> facts (db w7) \<and> PublishedThere i \<in> facts (db w7)"
    using 5(4) grow(5) by blast
  then have "\<forall>p \<in> set (PROMPTS (\<lambda>_. [])). \<exists>i. PromptThere i (pt_code p) \<in> facts (db w7) \<and> PublishedThere i \<in> facts (db w7)"
    unfolding prompt_codes [of sys] by blast
  then have "seeded (facts (db w7))"
    unfolding seeded_def using 1(4) 2(4) 3(4) 4(4) 6(4) 7(3) grow by (intro conjI) (meson subsetD)+
  moreover have "seed_main sys E nodeEnv w = (Inr (), w7)"
    using 7(1) by (simp add: seed_main_def andthen_def await_def 1(1) 2(1) 3(1) 4(1) 5(1) 6(1))
  ultimately show thesis using that 7(2) 1(3) grow(1) by blast
qed

text \<open>What a tarot reading needs of the catalogue: an open service with a form, a spread of its size, and a prompt whose answers have a schema.\<close>

definition tarot_ready :: "string \<Rightarrow> nat \<Rightarrow> database \<Rightarrow> bool" where
  "tarot_ready code n d \<longleftrightarrow>
     (\<exists>s \<in> set (services d). s_code s = code \<and> s_isActive s \<and> (\<exists>f \<in> set (serviceForms d). sf_serviceId f = s_id s \<and> sf_isActive f)) \<and>
     (\<exists>s \<in> set (tarotSpreads d). ts_code s = code \<and> ts_isActive s \<and>
        n \<le> card (sp_code ` {p \<in> set (spreadPositions d). sp_spreadId p = ts_id s}))"

definition prompt_ready :: "string \<Rightarrow> database \<Rightarrow> bool" where
  "prompt_ready code d \<longleftrightarrow> map_of AI_TASK_SCHEMAS code \<noteq> None \<and>
     (\<exists>p \<in> set (prompts d). pr_code p = code \<and> (\<exists>v \<in> set (promptVersions d). pv_promptId v = pr_id p \<and> pv_status v = PV_PUBLISHED))"

definition palm_ready :: "string \<Rightarrow> database \<Rightarrow> bool" where
  "palm_ready code d \<longleftrightarrow> isPalmService code \<and> (\<exists>s \<in> set (services d). s_code s = code \<and> s_isActive s)"

definition deck_ready :: "nat \<Rightarrow> database \<Rightarrow> bool" where
  "deck_ready n d \<longleftrightarrow> (\<exists>k \<in> set (tarotDecks d). td_code k = TAROT_DECK_CODE \<and> td_isActive k \<and>
     n \<le> card (tc_code ` {c \<in> set (tarotCards d). tc_deckId c = td_id k}))"

lemma spread_data:
  assumes "(code, n) \<in> {(''TAROT_THREE'', 3), (''TAROT_FIVE'', 5), (''TAROT_TEN'', 10)}"
  obtains s t where "s \<in> set TAROT_SPREADS" "ss_code s = code" "card (sq_code ` set (ss_positions s)) = n"
    "t \<in> set BASE_SERVICES" "se_code t = code"
proof -
  have "\<exists>s \<in> set TAROT_SPREADS. ss_code s = code \<and> card (sq_code ` set (ss_positions s)) = n"
    using assms by (auto simp: TAROT_SPREADS_def)
  moreover have "\<exists>t \<in> set BASE_SERVICES. se_code t = code" using assms by (auto simp: BASE_SERVICES_def)
  ultimately show thesis using that by blast
qed

lemma seeded_tarot:
  assumes "seedable E w" "seeded (facts (db w))" "(code, n) \<in> {(''TAROT_THREE'', 3), (''TAROT_FIVE'', 5), (''TAROT_TEN'', 10)}"
  shows "tarot_ready code n (db w)"
proof -
  obtain s t where s: "s \<in> set TAROT_SPREADS" "ss_code s = code" "card (sq_code ` set (ss_positions s)) = n"
    and t: "t \<in> set BASE_SERVICES" "se_code t = code" by (rule spread_data [OF assms(3)])
  have tarot: "code \<in> {''TAROT_THREE'', ''TAROT_FIVE'', ''TAROT_TEN''}" using assms(3) by auto
  obtain i where i: "ServiceThere i code \<in> facts (db w)" "FormActive i 1 \<in> facts (db w)"
    using assms(2) t tarot unfolding seeded_def by metis
  obtain j where j: "SpreadThere j code \<in> facts (db w)" "\<forall>p \<in> set (ss_positions s). PositionThere j (sq_code p) \<in> facts (db w)"
    using assms(2) s unfolding seeded_def by metis
  have "sq_code ` set (ss_positions s) \<subseteq> sp_code ` {p \<in> set (spreadPositions (db w)). sp_spreadId p = j}"
    using j(2) by (intro image_subsetI) (auto simp: in_facts image_iff, metis)
  then have "n \<le> card (sp_code ` {p \<in> set (spreadPositions (db w)). sp_spreadId p = j})"
    using card_mono [of "sp_code ` {p \<in> set (spreadPositions (db w)). sp_spreadId p = j}"] s(3) by auto
  with i j(1) assms(1) show ?thesis
    unfolding tarot_ready_def in_facts seedable_def switched_on_def by blast
qed

lemma seeded_deck:
  assumes "seedable E w" "seeded (facts (db w))"
  shows "deck_ready 78 (db w)"
proof -
  obtain i where i: "DeckThere i TAROT_DECK_CODE \<in> facts (db w)" "\<forall>c \<in> set TAROT_CARDS. CardThere i (cs_code c) \<in> facts (db w)"
    using assms(2) unfolding seeded_def by blast
  have "cs_code ` set TAROT_CARDS \<subseteq> tc_code ` {c \<in> set (tarotCards (db w)). tc_deckId c = i}"
    using i(2) by (intro image_subsetI) (auto simp: in_facts image_iff, metis)
  moreover have "card (cs_code ` set TAROT_CARDS) = 78"
    using distinct_card [OF card_codes_distinct] arg_cong [OF card_order, of length] by simp
  ultimately have "78 \<le> card (tc_code ` {c \<in> set (tarotCards (db w)). tc_deckId c = i})"
    using card_mono [of "tc_code ` {c \<in> set (tarotCards (db w)). tc_deckId c = i}" "cs_code ` set TAROT_CARDS"] by simp
  with i(1) assms(1) show ?thesis unfolding deck_ready_def in_facts seedable_def switched_on_def by blast
qed

lemma seeded_prompts:
  assumes "seeded (facts d)" and "code \<in> {''TAROT_THREE_INTERPRETATION'', ''TAROT_FIVE_INTERPRETATION'', ''TAROT_TEN_INTERPRETATION'',
    ''PALM_IMAGE_LEGIBILITY_CHECK'', ''PALM_READING_INTERPRETATION''}"
  shows "prompt_ready code d"
proof -
  have "code \<in> pt_code ` set (PROMPTS (\<lambda>_. []))"
    using assms(2) by (auto simp: PROMPTS_def TAROT_THREE_INTERPRETATION_PROMPT_def TAROT_FIVE_INTERPRETATION_PROMPT_def
      TAROT_TEN_INTERPRETATION_PROMPT_def PALM_IMAGE_LEGIBILITY_PROMPT_def PALM_READING_INTERPRETATION_PROMPT_def)
  then obtain i where "PromptThere i code \<in> facts d" "PublishedThere i \<in> facts d" using assms(1) unfolding seeded_def by blast
  moreover have "map_of AI_TASK_SCHEMAS code \<noteq> None"
    using assms(2) by (auto simp: AI_TASK_SCHEMAS_def TAROT_INTERPRETATION_TASK_def TAROT_FIVE_INTERPRETATION_TASK_def
      TAROT_TEN_INTERPRETATION_TASK_def PALM_IMAGE_LEGIBILITY_TASK_def PALM_READING_INTERPRETATION_TASK_def)
  ultimately show ?thesis unfolding prompt_ready_def in_facts by blast
qed

lemma seeded_palm:
  assumes "seedable E w" "seeded (facts (db w))" "code \<in> {''PALM_BASIC'', ''PALM_COMPLETE''}"
  shows "palm_ready code (db w)"
proof -
  have "code \<in> se_code ` set BASE_SERVICES" using assms(3) by (auto simp: BASE_SERVICES_def)
  then obtain i where "ServiceThere i code \<in> facts (db w)" using assms(2) unfolding seeded_def by blast
  moreover have "isPalmService code" using assms(3) by auto (code_simp+)
  ultimately show ?thesis using assms(1) unfolding palm_ready_def in_facts seedable_def switched_on_def by blast
qed



section \<open>Two consequences of seeding again\<close>

text \<open>
  A form that an administrator replaced comes back: after the second version was published the first is inactive; the seed switches it
  on again, and the inputs of a reading are then checked against it, while the shop shows the second.
\<close>

definition replaced_form :: world where
  "replaced_form = empty_world\<lparr>db := empty_database\<lparr>
     services := [\<lparr>s_id = ''s'', s_code = ''TAROT_THREE'', s_name = ''Tarot'', s_description = None, s_creditCost = 10,
       s_isActive = True, s_createdAt = 0, s_updatedAt = 0\<rparr>],
     serviceForms := [\<lparr>sf_id = ''f1'', sf_serviceId = ''s'', sf_version = 1, sf_schema = JNull, sf_isActive = False\<rparr>,
       \<lparr>sf_id = ''f2'', sf_serviceId = ''s'', sf_version = 2, sf_schema = JNull, sf_isActive = True\<rparr>]\<rparr>\<rparr>"

lemma reseed_reactivates_form:
  "\<exists>w. seedServices example_env replaced_form = (Inr (), w) \<and>
     map sf_version (filter (\<lambda>f. sf_serviceId f = ''s'' \<and> sf_isActive f) (serviceForms (db w))) = [1, 2] \<and>
     map_option sf_version (active_form ''s'' (db w)) = Some 2 \<and>
     map_option sf_version (find (\<lambda>f. sf_serviceId f = ''s'' \<and> sf_isActive f) (serviceForms (db w))) = Some 1"
proof -
  have "fst (seedServices example_env replaced_form) = Inr ()" by code_simp
  moreover have "map sf_version (filter (\<lambda>f. sf_serviceId f = ''s'' \<and> sf_isActive f) (serviceForms (db (snd (seedServices example_env replaced_form))))) = [1, 2]"
    by code_simp
  moreover have "map_option sf_version (active_form ''s'' (db (snd (seedServices example_env replaced_form)))) = Some 2" by code_simp
  moreover have "map_option sf_version (find (\<lambda>f. sf_serviceId f = ''s'' \<and> sf_isActive f)
      (serviceForms (db (snd (seedServices example_env replaced_form))))) = Some 1" by code_simp
  ultimately show ?thesis by (cases "seedServices example_env replaced_form") simp
qed

text \<open>
  The names of the minor arcana already hold the suit, and the text for the model appends it again.
\<close>

lemma minor_card_suit_twice:
  "card_line (\<lparr>dr_id = i, dr_readingId = r, dr_position = ''PAST'', dr_cardId = k, dr_orientation = UPRIGHT\<rparr>,
     \<lparr>tc_id = k, tc_deckId = d, tc_code = ''WANDS_ACE'', tc_name = cs_name (minor_card n (WANDS, ''Bastos'') (ACE, ''As'', Some 1)),
      tc_arcana = MINOR, tc_suit = Some WANDS, tc_numberInSuit = Some 1, tc_orderIndex = m, tc_uprightMeaning = a,
      tc_reversedMeaning = b, tc_imageUrl = None\<rparr>) = ''PAST: As de Bastos de Bastos (derecha)''"
  by (simp add: card_line_def tarot_SUIT_LABELS_def minor_card_def)

end
