(* ===== verification/Requests.thy ===== *)
theory Requests
  imports EnvValidation StorageService
begin

text \<open>
  The data a client sends (\<open>src/*/dto\<close>): one list of properties with their decorators per class, and the
  validation pipe of \<open>src/main.ts\<close>, which refuses unknown properties. The decorators are those of class-validator, read as
  its documentation has them; the tests for e-mail addresses and UUIDs are parameters. A body that is
  an array is outside the model; so are properties that occur twice.
\<close>

section \<open>Decorators\<close>

datatype decorator =
    IsString | MinLength nat | MaxLength nat | IsEmail | IsUUID
  | IsInt | IsNumber | Min int | Max int | TypeNumber
  | IsBoolean | IsObject | IsIn "string list" | Equals json | NotEquals json | IsOptional

type_synonym dto = "(string \<times> decorator list) list"

type_synonym object = "(string \<times> json) list"

definition text_such :: "(string \<Rightarrow> bool) \<Rightarrow> json option \<Rightarrow> bool" where
  "text_such P v = (case v of Some (JString s) \<Rightarrow> P s | _ \<Rightarrow> False)"

definition number_such :: "(int \<times> int \<Rightarrow> bool) \<Rightarrow> json option \<Rightarrow> bool" where
  "number_such P v = (case v of
       Some (JNumber n) \<Rightarrow> P (n, 1)
     | Some (JDecimal t) \<Rightarrow> (case js_number t of Some q \<Rightarrow> P q | None \<Rightarrow> False)
     | _ \<Rightarrow> False)"

fun satisfies :: "env \<Rightarrow> decorator \<Rightarrow> json option \<Rightarrow> bool" where
  "satisfies E IsString v = text_such (\<lambda>_. True) v"
| "satisfies E (MinLength n) v = text_such (\<lambda>s. n \<le> length s) v"
| "satisfies E (MaxLength n) v = text_such (\<lambda>s. length s \<le> n) v"
| "satisfies E IsEmail v = text_such (e_isEmail E) v"
| "satisfies E IsUUID v = text_such (e_isUUID E) v"
| "satisfies E IsInt v = (case v of Some (JNumber _) \<Rightarrow> True | _ \<Rightarrow> False)"
| "satisfies E IsNumber v = number_such (\<lambda>_. True) v"
| "satisfies E (Min k) v = number_such (\<lambda>(n, d). k * d \<le> n) v"
| "satisfies E (Max k) v = number_such (\<lambda>(n, d). n \<le> k * d) v"
| "satisfies E IsBoolean v = (case v of Some (JBool _) \<Rightarrow> True | _ \<Rightarrow> False)"
| "satisfies E IsObject v = (case v of Some (JObject _) \<Rightarrow> True | _ \<Rightarrow> False)"
| "satisfies E (IsIn xs) v = text_such (\<lambda>s. s \<in> set xs) v"
| "satisfies E (Equals x) v = (v = Some x)"
| "satisfies E (NotEquals x) v = (v \<noteq> Some x)"
| "satisfies E TypeNumber v = True"
| "satisfies E IsOptional v = True"

text \<open>\<open>IsOptional\<close> skips the other decorators of a property that is undefined or null.\<close>

definition property_ok :: "env \<Rightarrow> decorator list \<Rightarrow> json option \<Rightarrow> bool" where
  "property_ok E ds v =
     (IsOptional \<in> set ds \<and> (v = None \<or> v = Some JNull) \<or> (\<forall>d \<in> set ds. satisfies E d v))"

definition valid_for :: "env \<Rightarrow> dto \<Rightarrow> object \<Rightarrow> bool" where
  "valid_for E dto obj =
     ((\<forall>k \<in> set (map fst obj). k \<in> set (map fst dto)) \<and>
      (\<forall>(k, ds) \<in> set dto. property_ok E ds (map_of obj k)))"

text \<open>\<open>@Type(() => Number)\<close> of a query parameter, which arrives as text; \<open>NaN\<close> stays a number that is no integer.\<close>

definition to_number :: "json \<Rightarrow> json" where
  "to_number v = (case v of
       JString s \<Rightarrow> (case js_number s of
           None \<Rightarrow> JDecimal ''NaN''
         | Some (n, d) \<Rightarrow> if n mod d = 0 then JNumber (n div d) else JDecimal (js_trim s))
     | _ \<Rightarrow> v)"

definition transformed :: "dto \<Rightarrow> object \<Rightarrow> object" where
  "transformed dto obj = map (\<lambda>(k, v). (k, case map_of dto k of
       Some ds \<Rightarrow> if TypeNumber \<in> set ds then to_number v else v | None \<Rightarrow> v)) obj"

text \<open>
  \<open>ValidationPipe({ whitelist: true, forbidNonWhitelisted: true, transform: true })\<close>. A body that was not sent counts as the
  empty object.
\<close>

definition validation_pipe :: "env \<Rightarrow> dto \<Rightarrow> json option \<Rightarrow> (world, object) prog" where
  "validation_pipe E dto body = (case (case body of None \<Rightarrow> JObject [] | Some v \<Rightarrow> v) of
       JObject ps \<Rightarrow>
         (let obj = transformed dto ps in
          if valid_for E dto obj then ret obj else throw (BadRequestException ''validation''))
     | _ \<Rightarrow> throw (BadRequestException ''validation''))"

section \<open>Reading a validated object\<close>

definition text_of :: "object \<Rightarrow> string \<Rightarrow> string" where
  "text_of obj k = (case map_of obj k of Some (JString s) \<Rightarrow> s | _ \<Rightarrow> [])"

definition text_opt :: "object \<Rightarrow> string \<Rightarrow> string option" where
  "text_opt obj k = (case map_of obj k of Some (JString s) \<Rightarrow> Some s | _ \<Rightarrow> None)"

definition int_of :: "object \<Rightarrow> string \<Rightarrow> int" where
  "int_of obj k = (case map_of obj k of Some (JNumber n) \<Rightarrow> n | _ \<Rightarrow> 0)"

definition int_opt :: "object \<Rightarrow> string \<Rightarrow> int option" where
  "int_opt obj k = (case map_of obj k of Some (JNumber n) \<Rightarrow> Some n | _ \<Rightarrow> None)"

definition bool_opt :: "object \<Rightarrow> string \<Rightarrow> bool option" where
  "bool_opt obj k = (case map_of obj k of Some (JBool b) \<Rightarrow> Some b | _ \<Rightarrow> None)"

definition object_of :: "object \<Rightarrow> string \<Rightarrow> object" where
  "object_of obj k = (case map_of obj k of Some (JObject ps) \<Rightarrow> ps | _ \<Rightarrow> [])"

text \<open>\<open>query.page ?? 1\<close> and \<open>query.pageSize ?? 20\<close>.\<close>

definition page_no :: "object \<Rightarrow> nat" where
  "page_no q = (case int_opt q ''page'' of None \<Rightarrow> 1 | Some n \<Rightarrow> nat n)"

definition page_size :: "object \<Rightarrow> nat" where
  "page_size q = (case int_opt q ''pageSize'' of None \<Rightarrow> 20 | Some n \<Rightarrow> nat n)"

section \<open>Accounts\<close>

definition registerDto :: dto where
  "registerDto =
     [(''name'', [IsString, MinLength 2, MaxLength 120]),
      (''email'', [IsEmail, MaxLength 255]),
      (''password'', [IsString, MinLength 8, MaxLength 72]),
      (''referralToken'', [IsOptional, IsString, MaxLength 64])]"

definition loginDto :: dto where
  "loginDto = [(''email'', [IsEmail, MaxLength 255]), (''password'', [IsString, MaxLength 72])]"

definition verifyEmailDto :: dto where
  "verifyEmailDto = [(''token'', [IsString, MinLength 32])]"

definition forgotPasswordDto :: dto where
  "forgotPasswordDto = [(''email'', [IsEmail, MaxLength 255])]"

definition resetPasswordDto :: dto where
  "resetPasswordDto =
     [(''token'', [IsString, MinLength 32]), (''password'', [IsString, MinLength 8, MaxLength 72])]"

definition changePasswordDto :: dto where
  "changePasswordDto =
     [(''currentPassword'', [IsString, MinLength 1]), (''newPassword'', [IsString, MinLength 8, MaxLength 72])]"

definition updateProfileDto :: dto where
  "updateProfileDto = [(''name'', [IsOptional, IsString, MinLength 2, MaxLength 120])]"

section \<open>Readings, orders and rewards\<close>

definition createReadingDto :: dto where
  "createReadingDto = [(''serviceCode'', [IsString, MinLength 1, MaxLength 50])]"

definition updateReadingInputsDto :: dto where
  "updateReadingInputsDto = [(''answers'', [IsObject])]"

definition presignPalmImageDto :: dto where
  "presignPalmImageDto = [(''contentType'', [IsIn PALM_IMAGE_ALLOWED_MIME_TYPES])]"

definition confirmPalmImageDto :: dto where
  "confirmPalmImageDto = [(''key'', [IsString, MinLength 1]), (''consent'', [Equals (JBool True)])]"

definition createOrderDto :: dto where
  "createOrderDto = [(''packageCode'', [IsString, MinLength 1, MaxLength 50])]"

definition createWompiPaymentDto :: dto where
  "createWompiPaymentDto = [(''orderId'', [IsString, MinLength 1])]"

definition confirmWompiPaymentDto :: dto where
  "confirmWompiPaymentDto = [(''orderId'', [IsString, MinLength 1]), (''transactionId'', [IsString, MinLength 1])]"

definition createRewardSessionDto :: dto where
  "createRewardSessionDto =
     [(''rewardType'', [IsIn [''DAILY_CARD_UNLOCK'', ''TAROT_READING_UNLOCK'', ''FLASH_OFFER_UNLOCK'']])]"

definition enqueueDiagnosticsJobDto :: dto where
  "enqueueDiagnosticsJobDto =
     [(''jobId'', [IsOptional, IsString]), (''simulateFailures'', [IsOptional, IsInt, Min 0])]"

section \<open>Pages\<close>

definition page_properties :: dto where
  "page_properties =
     [(''page'', [IsOptional, TypeNumber, IsInt, Min 1]),
      (''pageSize'', [IsOptional, TypeNumber, IsInt, Min 1, Max 100])]"

definition listWalletTransactionsQueryDto :: dto where
  "listWalletTransactionsQueryDto = page_properties"

definition listUsersQueryDto :: dto where
  "listUsersQueryDto = page_properties"

definition listOrdersQueryDto :: dto where
  "listOrdersQueryDto = page_properties"

definition listPaymentsQueryDto :: dto where
  "listPaymentsQueryDto = page_properties"

definition listAuditLogsQueryDto :: dto where
  "listAuditLogsQueryDto =
     page_properties @ [(''actorUserId'', [IsOptional, IsString]), (''action'', [IsOptional, IsString])]"

definition AI_EXECUTION_STATUSES :: "(string \<times> aiExecutionStatus) list" where
  "AI_EXECUTION_STATUSES = [(''PENDING'', AI_PENDING), (''COMPLETED'', AI_COMPLETED), (''FAILED'', AI_FAILED)]"

definition listAiExecutionsQueryDto :: dto where
  "listAiExecutionsQueryDto = page_properties @ [(''status'', [IsOptional, IsIn (map fst AI_EXECUTION_STATUSES)])]"

definition READING_STATUSES :: "(string \<times> readingStatus) list" where
  "READING_STATUSES = [(''DRAFT'', DRAFT), (''PENDING'', PENDING), (''PROCESSING'', PROCESSING), (''COMPLETED'', COMPLETED),
     (''FAILED'', FAILED), (''REFUNDED'', REFUNDED), (''CANCELLED'', CANCELLED)]"

definition listReadingsQueryDto :: dto where
  "listReadingsQueryDto = page_properties @ [(''status'', [IsOptional, IsIn (map fst READING_STATUSES)])]"

section \<open>Administration\<close>

definition reason_property :: dto where
  "reason_property = [(''reason'', [IsString, MinLength 3, MaxLength 500])]"

definition adjustWalletDto :: dto where
  "adjustWalletDto = [(''userId'', [IsUUID]), (''amount'', [IsInt, NotEquals (JNumber 0)])] @ reason_property"

definition retryReadingDto :: dto where
  "retryReadingDto = reason_property"

definition publishPromptDto :: dto where
  "publishPromptDto = reason_property"

definition updateServiceDto :: dto where
  "updateServiceDto = reason_property @
     [(''name'', [IsOptional, IsString, MaxLength 120]),
      (''description'', [IsOptional, IsString, MaxLength 500]),
      (''creditCost'', [IsOptional, IsInt, Min 0]),
      (''isActive'', [IsOptional, IsBoolean])]"

definition publishServiceFormDto :: dto where
  "publishServiceFormDto = [(''schema'', [IsObject])] @ reason_property"

definition prompt_content_properties :: dto where
  "prompt_content_properties =
     [(''systemPrompt'', [IsString, MinLength 1]),
      (''userPromptTemplate'', [IsString, MinLength 1]),
      (''model'', [IsString, MinLength 1, MaxLength 100]),
      (''temperature'', [IsOptional, IsNumber, Min 0, Max 2]),
      (''maxOutputTokens'', [IsOptional, IsInt, Min 1]),
      (''outputSchema'', [IsObject])]"

definition createPromptDto :: dto where
  "createPromptDto = reason_property @
     [(''code'', [IsString, MinLength 1, MaxLength 100]), (''name'', [IsString, MinLength 1, MaxLength 150])] @
     prompt_content_properties"

definition createPromptVersionDto :: dto where
  "createPromptVersionDto = reason_property @ prompt_content_properties"

definition testPromptDto :: dto where
  "testPromptDto = [(''variables'', [IsObject]), (''promptVersionId'', [IsOptional, IsString])]"

end
