(* ===== verification/Http.thy ===== *)
theory Http
  imports Requests AuthService AdminService ServicesService OrdersService PaymentsService ReadingJobs DailyCard
begin

text \<open>
  The HTTP interface: one function per controller of \<open>src/*/*.controller.ts\<close>, with its guards, the validation of what it is
  sent, the calls it makes and the cookies it sets; and the way a request takes through the rate limiter and the
  controller to a response. Routes are matched by the framework: a request comes with its route. The rate
  limiter's store, the process's uptime and the payment and AI providers are parameters.
\<close>

section \<open>Requests and replies\<close>

record request =
  rq_ip :: string
  rq_cookies :: "(string \<times> string) list"
  rq_body :: "json option"
  rq_query :: object

definition getCookie :: "request \<Rightarrow> string \<Rightarrow> string option" where
  "getCookie rq name = map_of (rq_cookies rq) name"

datatype payload =
    NoContent | Success | PlainText string | JsonReply json | JobReply string
  | UserReply safeUser | UserPage "safeUser paginated"
  | ServiceReply publicService | AdminServiceReply adminService | AdminServiceList "adminService list"
  | ReadingReply readingSummary | ReadingList "readingSummary list" | DetailReply readingDetail
  | ReadingPage "adminReadingSummary paginated" | UploadReply presignedUpload | ImageReply palmImageSummary
  | ShareReply shareLinkCreated | SummaryReply sharedSummary | ImageBytes "nat list" string
  | SessionReply rewardSessionSummary | ProgressReply rewardProgressSummary
  | OfferReply "flashOfferSummary option" | CallbackReply processCallbackResult
  | WalletReply walletSummary | TransactionPage "walletTransactionSummary paginated"
  | OrderReply orderSummary | OrderPage "adminOrderSummary paginated"
  | CheckoutReply checkoutIntent | PaymentPage "adminPaymentSummary paginated"
  | ExecutionPage "adminAiExecutionSummary paginated" | AuditPage "auditLogSummary paginated"
  | MetricsReply adminMetrics | PromptReply adminPrompt | PromptList "adminPrompt list" | ResultReply executeResult

text \<open>A handler's reply with the cookies it set, or an error thrown after cookies were set.\<close>

datatype reply = Reply payload "cookie list" | Failed exn "cookie list"

definition reply_with :: "('a \<Rightarrow> payload) \<Rightarrow> (world, 'a) prog \<Rightarrow> (world, reply) prog" where
  "reply_with f m = await m (\<lambda>x. ret (Reply (f x) []))"

definition body_of :: "env \<Rightarrow> dto \<Rightarrow> request \<Rightarrow> (object \<Rightarrow> (world, 'a) prog) \<Rightarrow> (world, 'a) prog" where
  "body_of E dto rq k = await (validation_pipe E dto (rq_body rq)) k"

definition query_of :: "env \<Rightarrow> dto \<Rightarrow> request \<Rightarrow> (object \<Rightarrow> (world, 'a) prog) \<Rightarrow> (world, 'a) prog" where
  "query_of E dto rq k = await (validation_pipe E dto (Some (JObject (rq_query rq)))) k"

text \<open>\<open>@UseGuards(JwtAuthGuard)\<close> with \<open>@CurrentUser()\<close>, and \<open>@UseGuards(JwtAuthGuard, RolesGuard) @Roles('ADMIN')\<close>.\<close>

definition with_session ::
  "env \<Rightarrow> request \<Rightarrow> (authenticatedUser \<Rightarrow> (world, 'a) prog) \<Rightarrow> (world, 'a) prog" where
  "with_session E rq k = await (jwt_canActivate E (getCookie rq ACCESS_TOKEN_COOKIE)) k"

definition with_admin ::
  "env \<Rightarrow> request \<Rightarrow> (authenticatedUser \<Rightarrow> (world, 'a) prog) \<Rightarrow> (world, 'a) prog" where
  "with_admin E rq k = with_session E rq (\<lambda>user. andthen (roles_canActivate (Some [''ADMIN'']) (Some user)) (k user))"

text \<open>A required column given as null: Prisma refuses the update.\<close>

definition null_given :: "object \<Rightarrow> string list \<Rightarrow> bool" where
  "null_given obj ks = (\<exists>k \<in> set ks. map_of obj k = Some JNull)"

section \<open>Accounts\<close>

datatype authRoute =
    POST_register | POST_login | POST_refresh | POST_logout | POST_verify_email | POST_forgot_password
  | POST_reset_password | GET_me | PATCH_password

text \<open>\<open>register\<close> and \<open>login\<close> set the cookies of the new session.\<close>

definition session_reply :: "env \<Rightarrow> (world, authResult) prog \<Rightarrow> (world, reply) prog" where
  "session_reply E m =
     await m (\<lambda>result. ret (Reply (UserReply (au_user result)) (setAuthCookies E (au_tokens result))))"

fun auth_controller :: "env \<Rightarrow> request \<Rightarrow> authRoute \<Rightarrow> (world, reply) prog" where
  "auth_controller E rq POST_register =
     body_of E registerDto rq (\<lambda>dto.
     session_reply E (register E (text_of dto ''name'') (text_of dto ''email'') (text_of dto ''password'')
       (text_opt dto ''referralToken'')))"
| "auth_controller E rq POST_login =
     body_of E loginDto rq (\<lambda>dto. session_reply E (login E (text_of dto ''email'') (text_of dto ''password'')))"
| "auth_controller E rq POST_refresh = (case getCookie rq REFRESH_TOKEN_COOKIE of
       None \<Rightarrow> throw (UnauthorizedException ''no session'')
     | Some refreshToken \<Rightarrow>
         if refreshToken = [] then throw (UnauthorizedException ''no session'')
         else try_catch (session_reply E (refresh E refreshToken)) (\<lambda>e. ret (Failed e (clearAuthCookies E))))"
| "auth_controller E rq POST_logout =
     andthen (logout E (getCookie rq REFRESH_TOKEN_COOKIE)) (ret (Reply Success (clearAuthCookies E)))"
| "auth_controller E rq POST_verify_email =
     body_of E verifyEmailDto rq (\<lambda>dto. reply_with UserReply (verifyEmail E (text_of dto ''token'')))"
| "auth_controller E rq POST_forgot_password =
     body_of E forgotPasswordDto rq (\<lambda>dto. reply_with (\<lambda>_. Success) (forgotPassword E (text_of dto ''email'')))"
| "auth_controller E rq POST_reset_password =
     body_of E resetPasswordDto rq (\<lambda>dto.
     reply_with (\<lambda>_. Success) (resetPassword E (text_of dto ''token'') (text_of dto ''password'')))"
| "auth_controller E rq GET_me =
     with_session E rq (\<lambda>currentUser.
     await (getSafeUserById (aun_id currentUser)) (\<lambda>user. case user of
       None \<Rightarrow> throw (NotFoundException ''user'')
     | Some u \<Rightarrow> ret (Reply (UserReply u) [])))"
| "auth_controller E rq PATCH_password =
     with_session E rq (\<lambda>currentUser.
     body_of E changePasswordDto rq (\<lambda>dto.
     andthen (changePassword E (aun_id currentUser) (text_of dto ''currentPassword'') (text_of dto ''newPassword''))
       (ret (Reply Success (clearAuthCookies E)))))"

datatype usersRoute = PATCH_users_me | DELETE_users_me

fun users_controller :: "env \<Rightarrow> request \<Rightarrow> authenticatedUser \<Rightarrow> usersRoute \<Rightarrow> (world, reply) prog" where
  "users_controller E rq currentUser PATCH_users_me =
     body_of E updateProfileDto rq (\<lambda>dto.
     if null_given dto [''name''] then throw (PlainError ''null'')
     else reply_with (\<lambda>user. UserReply (toSafeUser user)) (updateProfile (aun_id currentUser) (text_opt dto ''name'')))"
| "users_controller E rq currentUser DELETE_users_me =
     andthen (softDeleteAndRevokeSessions E (aun_id currentUser)) (ret (Reply Success (clearAuthCookies E)))"

section \<open>Readings and their links\<close>

datatype readingsRoute =
    POST_readings | GET_readings | GET_reading string | PATCH_inputs string | POST_presign string
  | POST_confirm string | POST_submit string | POST_retry string | DELETE_reading string

fun readings_controller :: "env \<Rightarrow> request \<Rightarrow> authenticatedUser \<Rightarrow> readingsRoute \<Rightarrow> (world, reply) prog" where
  "readings_controller E rq user POST_readings =
     body_of E createReadingDto rq (\<lambda>dto.
     reply_with ReadingReply (readings_create E (aun_id user) (text_of dto ''serviceCode'')))"
| "readings_controller E rq user GET_readings = reply_with ReadingList (listForUser (aun_id user))"
| "readings_controller E rq user (GET_reading i) = reply_with DetailReply (ReadingsService.findOneForUser E (aun_id user) i)"
| "readings_controller E rq user (PATCH_inputs i) =
     body_of E updateReadingInputsDto rq (\<lambda>dto.
     reply_with DetailReply (updateInputs E (aun_id user) i (object_of dto ''answers'')))"
| "readings_controller E rq user (POST_presign i) =
     body_of E presignPalmImageDto rq (\<lambda>dto.
     reply_with UploadReply (presignImage E (aun_id user) i (text_of dto ''contentType'')))"
| "readings_controller E rq user (POST_confirm i) =
     body_of E confirmPalmImageDto rq (\<lambda>dto.
     reply_with ImageReply (confirmImage E (aun_id user) i (text_of dto ''key'')))"
| "readings_controller E rq user (POST_submit i) = reply_with DetailReply (submit E (aun_id user) i)"
| "readings_controller E rq user (POST_retry i) = reply_with DetailReply (retry E (aun_id user) i)"
| "readings_controller E rq user (DELETE_reading i) = reply_with (\<lambda>_. Success) (remove E (aun_id user) i)"

datatype shareRoute = POST_share string | DELETE_share string

fun reading_share_controller :: "env \<Rightarrow> authenticatedUser \<Rightarrow> shareRoute \<Rightarrow> (world, reply) prog" where
  "reading_share_controller E user (POST_share i) = reply_with ShareReply (createShareLink E (aun_id user) i)"
| "reading_share_controller E user (DELETE_share i) = reply_with (\<lambda>_. NoContent) (revokeShareLink E (aun_id user) i)"

datatype sharedRoute = GET_shared string | GET_shared_image string

fun public_share_controller :: "env \<Rightarrow> sharedRoute \<Rightarrow> (world, reply) prog" where
  "public_share_controller E (GET_shared token) = reply_with SummaryReply (getPublicSummary E token)"
| "public_share_controller E (GET_shared_image token) =
     await (getShareImageBytes E token) (\<lambda>img. case img of
       None \<Rightarrow> throw (NotFoundException ''image'')
     | Some (buffer, contentType) \<Rightarrow> ret (Reply (ImageBytes buffer contentType) []))"

section \<open>Wallet, orders, payments and rewards\<close>

datatype walletRoute = GET_wallet | GET_wallet_transactions

fun wallet_controller :: "env \<Rightarrow> request \<Rightarrow> authenticatedUser \<Rightarrow> walletRoute \<Rightarrow> (world, reply) prog" where
  "wallet_controller E rq user GET_wallet = reply_with WalletReply (getWallet (aun_id user))"
| "wallet_controller E rq user GET_wallet_transactions =
     query_of E listWalletTransactionsQueryDto rq (\<lambda>q.
     reply_with TransactionPage (listTransactions (aun_id user) (page_no q) (page_size q)))"

datatype ordersRoute = POST_orders | GET_order string

fun orders_controller :: "env \<Rightarrow> request \<Rightarrow> authenticatedUser \<Rightarrow> ordersRoute \<Rightarrow> (world, reply) prog" where
  "orders_controller E rq user POST_orders =
     body_of E createOrderDto rq (\<lambda>dto. reply_with OrderReply (orders_create E (aun_id user) (text_of dto ''packageCode'')))"
| "orders_controller E rq user (GET_order i) = reply_with OrderReply (OrdersService.findOneForUser (aun_id user) i)"

datatype paymentsRoute = POST_wompi | POST_wompi_confirm

fun payments_controller ::
  "env \<Rightarrow> paymentProvider \<Rightarrow> request \<Rightarrow> authenticatedUser \<Rightarrow> paymentsRoute \<Rightarrow> (world, reply) prog" where
  "payments_controller E P rq user POST_wompi =
     body_of E createWompiPaymentDto rq (\<lambda>dto.
     reply_with CheckoutReply (createCheckoutIntent E P (aun_id user) (text_of dto ''orderId'')))"
| "payments_controller E P rq user POST_wompi_confirm =
     body_of E confirmWompiPaymentDto rq (\<lambda>dto.
     reply_with (\<lambda>_. Success) (confirmFromReturn E P (aun_id user) (text_of dto ''orderId'') (text_of dto ''transactionId'')))"

text \<open>A webhook has no schema of its own: the provider checks it. No body is \<open>undefined\<close>, which its schema refuses like null.\<close>

definition wompi_webhook_controller :: "env \<Rightarrow> paymentProvider \<Rightarrow> request \<Rightarrow> (world, reply) prog" where
  "wompi_webhook_controller E P rq =
     reply_with (\<lambda>_. Success) (handleWebhook E P (case rq_body rq of None \<Rightarrow> JNull | Some v \<Rightarrow> v))"

datatype rewardsRoute =
    POST_sessions | GET_progress string | GET_flash_offer | POST_dev_simulate string

definition rewardType_of :: "string \<Rightarrow> rewardType option" where
  "rewardType_of s = find (\<lambda>t. reward_type_text t = s) REWARD_TYPES"

text \<open>The type in the path of \<open>getProgress\<close> is not checked: Prisma refuses a value that is not of the enum.\<close>

fun rewards_controller :: "env \<Rightarrow> request \<Rightarrow> authenticatedUser \<Rightarrow> rewardsRoute \<Rightarrow> (world, reply) prog" where
  "rewards_controller E rq user POST_sessions =
     body_of E createRewardSessionDto rq (\<lambda>dto. case rewardType_of (text_of dto ''rewardType'') of
       None \<Rightarrow> throw (PlainError ''reward type'')
     | Some ty \<Rightarrow> reply_with SessionReply (createSession E (aun_id user) ty))"
| "rewards_controller E rq user (GET_progress s) = (case rewardType_of s of
       None \<Rightarrow> throw (PlainError ''reward type'')
     | Some ty \<Rightarrow> reply_with ProgressReply (getProgress (aun_id user) ty))"
| "rewards_controller E rq user GET_flash_offer = reply_with OfferReply (getActiveFlashOffer E (aun_id user))"
| "rewards_controller E rq user (POST_dev_simulate i) =
     reply_with CallbackReply (simulateStubCompletion E [stubVerifier E] (aun_id user) i)"

definition text_params :: "object \<Rightarrow> (string \<times> string) list" where
  "text_params q = map (\<lambda>(k, v). (k, case v of JString s \<Rightarrow> s | _ \<Rightarrow> [])) (filter (\<lambda>(k, v). case v of JString _ \<Rightarrow> True | _ \<Rightarrow> False) q)"

definition rewards_callback :: "env \<Rightarrow> request \<Rightarrow> string \<Rightarrow> (world, reply) prog" where
  "rewards_callback E rq provider =
     reply_with CallbackReply (processProviderCallback E [stubVerifier E] provider (text_params (rq_query rq)))"

end
