(* ===== verification/AdminHttp.thy ===== *)
theory AdminHttp
  imports Http
begin

text \<open>
  The controllers of the administration (\<open>src/admin/*.controller.ts\<close>), which their guards reserve for administrators, and
  the public ones.
\<close>

section \<open>Administration\<close>

text \<open>Every change an administrator makes through a controller is written to the audit log after it was made.\<close>

definition audited ::
  "env \<Rightarrow> authenticatedUser \<Rightarrow> string \<Rightarrow> string \<Rightarrow> ('a \<Rightarrow> string) \<Rightarrow> string \<Rightarrow> json option \<Rightarrow> ('a \<Rightarrow> payload) \<Rightarrow> (world, 'a) prog \<Rightarrow>
   (world, reply) prog" where
  "audited E admin action targetType targetId why metadata f m =
     await m (\<lambda>x.
     andthen (audit_record E (aun_id admin) action why (Some targetType) (Some (targetId x)) metadata)
       (ret (Reply (f x) [])))"

definition number_text :: "object \<Rightarrow> string \<Rightarrow> string option" where
  "number_text obj k = (case map_of obj k of
       Some (JNumber n) \<Rightarrow> Some (string_of_int n) | Some (JDecimal t) \<Rightarrow> Some t | _ \<Rightarrow> None)"

definition prompt_content :: "object \<Rightarrow> promptVersionContent" where
  "prompt_content dto = \<lparr>pc_systemPrompt = text_of dto ''systemPrompt'', pc_userPromptTemplate = text_of dto ''userPromptTemplate'',
     pc_model = text_of dto ''model'', pc_temperature = number_text dto ''temperature'',
     pc_maxOutputTokens = int_opt dto ''maxOutputTokens'', pc_outputSchema = JObject (object_of dto ''outputSchema'')\<rparr>"

text \<open>\<open>Object.values(variables)\<close>; \<open>join\<close> and the template write null as nothing, other values as their text.\<close>

definition variable_texts :: "object \<Rightarrow> (string \<times> string) list" where
  "variable_texts vs = map (\<lambda>(k, v). (k, if v = JNull then [] else property_key (Some v))) vs"

fun join_blank :: "string list \<Rightarrow> string" where
  "join_blank [] = []"
| "join_blank [s] = s"
| "join_blank (s # ss) = s @ '' '' @ join_blank ss"

datatype promptsRoute =
    GET_prompts | GET_prompt string | POST_prompts | PATCH_prompt string | POST_publish string | POST_test string

fun admin_prompts_controller ::
  "env \<Rightarrow> aiProvider \<Rightarrow> request \<Rightarrow> authenticatedUser \<Rightarrow> promptsRoute \<Rightarrow> (world, reply) prog" where
  "admin_prompts_controller E A rq user GET_prompts = reply_with PromptList prompts_listAll"
| "admin_prompts_controller E A rq user (GET_prompt i) = reply_with PromptReply (prompts_findOne i)"
| "admin_prompts_controller E A rq user POST_prompts =
     body_of E createPromptDto rq (\<lambda>dto.
     audited E user ''prompt.create'' ''Prompt'' apr_id (text_of dto ''reason'') None PromptReply
       (prompts_create E (text_of dto ''code'') (text_of dto ''name'') (prompt_content dto) (aun_id user)))"
| "admin_prompts_controller E A rq user (PATCH_prompt i) =
     body_of E createPromptVersionDto rq (\<lambda>dto.
     audited E user ''prompt.create_version'' ''Prompt'' (\<lambda>_. i) (text_of dto ''reason'') None PromptReply
       (prompts_createVersion E i (prompt_content dto) (aun_id user)))"
| "admin_prompts_controller E A rq user (POST_publish i) =
     body_of E publishPromptDto rq (\<lambda>dto.
     audited E user ''prompt.publish'' ''Prompt'' (\<lambda>_. i) (text_of dto ''reason'') None PromptReply (prompts_publish E i))"
| "admin_prompts_controller E A rq user (POST_test i) =
     body_of E testPromptDto rq (\<lambda>dto.
     await (resolveVersionForTest i (text_opt dto ''promptVersionId'')) (\<lambda>promptVersionId.
     let variables = variable_texts (object_of dto ''variables'') in
     reply_with ResultReply (execute E A \<lparr>xi_promptVersionId = promptVersionId, xi_readingId = None,
       xi_variables = variables, xi_riskCheckText = join_blank (map snd variables), xi_images = None\<rparr>)))"

datatype adminReadingsRoute = GET_admin_readings | POST_admin_retry string

fun admin_readings_controller :: "env \<Rightarrow> request \<Rightarrow> authenticatedUser \<Rightarrow> adminReadingsRoute \<Rightarrow> (world, reply) prog" where
  "admin_readings_controller E rq admin GET_admin_readings =
     query_of E listReadingsQueryDto rq (\<lambda>q.
     reply_with ReadingPage (readings_listAllForAdmin (page_no q) (page_size q)
       (Option.bind (text_opt q ''status'') (map_of READING_STATUSES))))"
| "admin_readings_controller E rq admin (POST_admin_retry i) =
     body_of E retryReadingDto rq (\<lambda>dto.
     audited E admin ''reading.retry'' ''Reading'' (\<lambda>_. i) (text_of dto ''reason'') None DetailReply (retryAsAdmin E i))"

datatype adminServicesRoute = GET_admin_services | PATCH_service string | POST_forms string

text \<open>The fields of \<open>UpdateServiceDto\<close> without the reason; the service refuses null for a required column after it found the row.\<close>

definition service_update :: "object \<Rightarrow> serviceUpdate" where
  "service_update dto = \<lparr>upd_name = text_opt dto ''name'',
     upd_description = (if map_of dto ''description'' = None then None else Some (text_opt dto ''description'')),
     upd_creditCost = int_opt dto ''creditCost'', upd_isActive = bool_opt dto ''isActive''\<rparr>"

definition update_service :: "env \<Rightarrow> string \<Rightarrow> object \<Rightarrow> (world, adminService) prog" where
  "update_service E i dto =
     (if null_given dto [''name'', ''creditCost'', ''isActive''] then
        await (find_first Service (\<lambda>s. s_id s = i)) (\<lambda>existing. case existing of
          None \<Rightarrow> throw (NotFoundException ''service'')
        | Some _ \<Rightarrow> throw (PlainError ''null''))
      else updateService E i (service_update dto))"

fun admin_services_controller :: "env \<Rightarrow> request \<Rightarrow> authenticatedUser \<Rightarrow> adminServicesRoute \<Rightarrow> (world, reply) prog" where
  "admin_services_controller E rq admin GET_admin_services = reply_with AdminServiceList listAllServices"
| "admin_services_controller E rq admin (PATCH_service i) =
     body_of E updateServiceDto rq (\<lambda>dto.
     audited E admin ''service.update'' ''Service'' (\<lambda>_. i) (text_of dto ''reason'')
       (Some (JObject (filter (\<lambda>(k, v). k \<noteq> ''reason'') dto))) AdminServiceReply (update_service E i dto))"
| "admin_services_controller E rq admin (POST_forms i) =
     body_of E publishServiceFormDto rq (\<lambda>dto.
     audited E admin ''service.publish_form'' ''Service'' (\<lambda>_. i) (text_of dto ''reason'') None AdminServiceReply
       (publishForm E i (JObject (object_of dto ''schema''))))"

definition admin_wallet_controller :: "env \<Rightarrow> request \<Rightarrow> authenticatedUser \<Rightarrow> (world, reply) prog" where
  "admin_wallet_controller E rq admin =
     body_of E adjustWalletDto rq (\<lambda>dto.
     reply_with WalletReply
       (adjustBalance E (text_of dto ''userId'') (int_of dto ''amount'') (text_of dto ''reason'') (aun_id admin)))"

definition admin_users_controller :: "env \<Rightarrow> request \<Rightarrow> (world, reply) prog" where
  "admin_users_controller E rq =
     query_of E listUsersQueryDto rq (\<lambda>q. reply_with UserPage (listUsers (page_no q) (page_size q)))"

definition admin_orders_controller :: "env \<Rightarrow> request \<Rightarrow> (world, reply) prog" where
  "admin_orders_controller E rq =
     query_of E listOrdersQueryDto rq (\<lambda>q. reply_with OrderPage (orders_listAll (page_no q) (page_size q)))"

definition admin_payments_controller :: "env \<Rightarrow> request \<Rightarrow> (world, reply) prog" where
  "admin_payments_controller E rq =
     query_of E listPaymentsQueryDto rq (\<lambda>q. reply_with PaymentPage (payments_listAll (page_no q) (page_size q)))"

definition admin_executions_controller :: "env \<Rightarrow> request \<Rightarrow> (world, reply) prog" where
  "admin_executions_controller E rq =
     query_of E listAiExecutionsQueryDto rq (\<lambda>q.
     reply_with ExecutionPage (executions_listAll (page_no q) (page_size q)
       (Option.bind (text_opt q ''status'') (map_of AI_EXECUTION_STATUSES))))"

definition admin_audit_controller :: "env \<Rightarrow> request \<Rightarrow> (world, reply) prog" where
  "admin_audit_controller E rq =
     query_of E listAuditLogsQueryDto rq (\<lambda>q.
     reply_with AuditPage (audit_listAll (page_no q) (page_size q) (text_opt q ''actorUserId'') (text_opt q ''action'')))"

definition admin_metrics_controller :: "env \<Rightarrow> (world, reply) prog" where
  "admin_metrics_controller E = reply_with MetricsReply (getMetrics E)"

section \<open>Public controllers\<close>

datatype servicesRoute = GET_services | GET_service string

fun services_controller :: "env \<Rightarrow> servicesRoute \<Rightarrow> (world, reply) prog" where
  "services_controller E GET_services = reply_with JsonReply (listActiveServices E)"
| "services_controller E (GET_service code) = reply_with ServiceReply (findActiveByCode code)"

definition credit_packages_controller :: "env \<Rightarrow> (world, reply) prog" where
  "credit_packages_controller E = reply_with JsonReply (listActivePackages E)"

definition daily_card_controller :: "env \<Rightarrow> authenticatedUser \<Rightarrow> (world, reply) prog" where
  "daily_card_controller E currentUser =
     await (date_now E) (\<lambda>today. reply_with JsonReply (getTodaysCard E (aun_id currentUser) today))"

definition getHello :: string where
  "getHello = ''Hello World!''"

definition app_controller :: "(world, reply) prog" where
  "app_controller = ret (Reply (PlainText getHello) [])"

definition health_controller :: "env \<Rightarrow> (world, reply) prog" where
  "health_controller E =
     await (gets ticks) (\<lambda>k.
     await (date_now E) (\<lambda>now.
     ret (Reply (JsonReply (JObject
       [(''status'', JString ''ok''), (''environment'', JString (e_nodeEnv E)), (''version'', JString (e_version E)),
        (''uptime'', JDecimal (e_uptime E k)), (''timestamp'', JString (toISOString now))])) [])))"

text \<open>\<open>body.jobId ?? randomUUID()\<close>. The data of a diagnostics job is its number of simulated failures.\<close>

definition diagnostics_controller :: "env \<Rightarrow> request \<Rightarrow> (world, reply) prog" where
  "diagnostics_controller E rq =
     body_of E enqueueDiagnosticsJobDto rq (\<lambda>dto.
     await (case text_opt dto ''jobId'' of None \<Rightarrow> random_uuid E | Some i \<Rightarrow> ret i) (\<lambda>jobId.
     andthen (queue_add \<lparr>j_queue = ''diagnostics'', j_name = ''PING'', j_data = string_of_int (int_of dto ''simulateFailures''),
         j_jobId = jobId\<rparr>)
       (ret (Reply (JobReply jobId) []))))"

definition diagnostics_process :: "nat \<Rightarrow> nat \<Rightarrow> (world, nat) prog" where
  "diagnostics_process simulateFailures attemptsMade =
     (if attemptsMade < simulateFailures then throw (PlainError ''simulated transient failure'') else ret attemptsMade)"

end
