(* ===== verification/Server.thy ===== *)
theory Server
  imports AdminHttp
begin

text \<open>
  The API as a whole: a request passes the rate limiter (\<open>ThrottlerModule\<close> of \<open>src/app.module.ts\<close> and the \<open>@Throttle\<close> of
  single routes), then the guards of its controller and the validation of its body, and becomes a response with a status and
  cookies. The store of the limiter is a parameter: whether it admits a request to a route from a tracker at a time.
\<close>

datatype endpoint =
    Root | Health | Diagnostics | Auth authRoute | Catalogue servicesRoute | CreditPackages | Shared sharedRoute
  | WompiWebhook | RewardCallback string
  | Users usersRoute | TodaysCard | Readings readingsRoute | ReadingShare shareRoute | Rewards rewardsRoute
  | Wallets walletRoute | Orders ordersRoute | Payments paymentsRoute
  | AdminPrompts promptsRoute | AdminReadings adminReadingsRoute | AdminServices adminServicesRoute | AdminWallet
  | AdminUsers | AdminOrders | AdminPayments | AdminExecutions | AdminAudit | AdminMetrics

record platform =
  pf_env :: env
  pf_payments :: paymentProvider
  pf_ai :: aiProvider
  pf_admits :: "endpoint \<Rightarrow> string \<Rightarrow> nat \<Rightarrow> int \<Rightarrow> int \<Rightarrow> bool"

section \<open>Rate limits\<close>

definition AUTH_THROTTLE :: "nat \<times> int" where
  "AUTH_THROTTLE = (5, 60000)"

definition FORGOT_PASSWORD_THROTTLE :: "nat \<times> int" where
  "FORGOT_PASSWORD_THROTTLE = (3, 60 * 60 * 1000)"

definition RETRY_THROTTLE :: "nat \<times> int" where
  "RETRY_THROTTLE = (5, 60000)"

definition WEBHOOK_THROTTLE :: "nat \<times> int" where
  "WEBHOOK_THROTTLE = (300, 60000)"

definition DEFAULT_THROTTLE :: "nat \<times> int" where
  "DEFAULT_THROTTLE = (100, 60000)"

fun throttle_of :: "endpoint \<Rightarrow> nat \<times> int" where
  "throttle_of (Auth POST_register) = AUTH_THROTTLE"
| "throttle_of (Auth POST_login) = AUTH_THROTTLE"
| "throttle_of (Auth PATCH_password) = AUTH_THROTTLE"
| "throttle_of (Auth POST_forgot_password) = FORGOT_PASSWORD_THROTTLE"
| "throttle_of (Readings (POST_retry i)) = RETRY_THROTTLE"
| "throttle_of WompiWebhook = WEBHOOK_THROTTLE"
| "throttle_of _ = DEFAULT_THROTTLE"

text \<open>The address of the client; for a forgotten password also the e-mail address asked for, before it is validated.\<close>

definition tracker_of :: "request \<Rightarrow> endpoint \<Rightarrow> string" where
  "tracker_of rq ep =
     (if ep = Auth POST_forgot_password then
        rq_ip rq @ '':'' @
        (case rq_body rq of
           Some (JObject ps) \<Rightarrow> (case map_of ps ''email'' of
               None \<Rightarrow> ''unknown'' | Some JNull \<Rightarrow> ''unknown'' | Some v \<Rightarrow> property_key (Some v))
         | _ \<Rightarrow> ''unknown'')
      else rq_ip rq)"

definition throttler_guard :: "platform \<Rightarrow> request \<Rightarrow> endpoint \<Rightarrow> (world, unit) prog" where
  "throttler_guard S rq ep =
     await (date_now (pf_env S)) (\<lambda>now. case throttle_of ep of (limit, ttl) \<Rightarrow>
     throw_if (\<not> pf_admits S ep (tracker_of rq ep) limit ttl now) ThrottlerException)"

section \<open>Routes\<close>

fun route_to :: "platform \<Rightarrow> request \<Rightarrow> endpoint \<Rightarrow> (world, reply) prog" where
  "route_to S rq Root = app_controller"
| "route_to S rq Health = health_controller (pf_env S)"
| "route_to S rq Diagnostics = diagnostics_controller (pf_env S) rq"
| "route_to S rq (Auth r) = auth_controller (pf_env S) rq r"
| "route_to S rq (Catalogue r) = services_controller (pf_env S) r"
| "route_to S rq CreditPackages = credit_packages_controller (pf_env S)"
| "route_to S rq (Shared r) = public_share_controller (pf_env S) r"
| "route_to S rq WompiWebhook = wompi_webhook_controller (pf_env S) (pf_payments S) rq"
| "route_to S rq (RewardCallback provider) = rewards_callback (pf_env S) rq provider"
| "route_to S rq (Users r) = with_session (pf_env S) rq (\<lambda>u. users_controller (pf_env S) rq u r)"
| "route_to S rq TodaysCard = with_session (pf_env S) rq (daily_card_controller (pf_env S))"
| "route_to S rq (Readings r) = with_session (pf_env S) rq (\<lambda>u. readings_controller (pf_env S) rq u r)"
| "route_to S rq (ReadingShare r) = with_session (pf_env S) rq (\<lambda>u. reading_share_controller (pf_env S) u r)"
| "route_to S rq (Rewards r) = with_session (pf_env S) rq (\<lambda>u. rewards_controller (pf_env S) rq u r)"
| "route_to S rq (Wallets r) = with_session (pf_env S) rq (\<lambda>u. wallet_controller (pf_env S) rq u r)"
| "route_to S rq (Orders r) = with_session (pf_env S) rq (\<lambda>u. orders_controller (pf_env S) rq u r)"
| "route_to S rq (Payments r) = with_session (pf_env S) rq (\<lambda>u. payments_controller (pf_env S) (pf_payments S) rq u r)"
| "route_to S rq (AdminPrompts r) = with_admin (pf_env S) rq (\<lambda>u. admin_prompts_controller (pf_env S) (pf_ai S) rq u r)"
| "route_to S rq (AdminReadings r) = with_admin (pf_env S) rq (\<lambda>u. admin_readings_controller (pf_env S) rq u r)"
| "route_to S rq (AdminServices r) = with_admin (pf_env S) rq (\<lambda>u. admin_services_controller (pf_env S) rq u r)"
| "route_to S rq AdminWallet = with_admin (pf_env S) rq (\<lambda>u. admin_wallet_controller (pf_env S) rq u)"
| "route_to S rq AdminUsers = with_admin (pf_env S) rq (\<lambda>_. admin_users_controller (pf_env S) rq)"
| "route_to S rq AdminOrders = with_admin (pf_env S) rq (\<lambda>_. admin_orders_controller (pf_env S) rq)"
| "route_to S rq AdminPayments = with_admin (pf_env S) rq (\<lambda>_. admin_payments_controller (pf_env S) rq)"
| "route_to S rq AdminExecutions = with_admin (pf_env S) rq (\<lambda>_. admin_executions_controller (pf_env S) rq)"
| "route_to S rq AdminAudit = with_admin (pf_env S) rq (\<lambda>_. admin_audit_controller (pf_env S) rq)"
| "route_to S rq AdminMetrics = with_admin (pf_env S) rq (\<lambda>_. admin_metrics_controller (pf_env S))"

definition serve_request :: "platform \<Rightarrow> request \<Rightarrow> endpoint \<Rightarrow> (world, reply) prog" where
  "serve_request S rq ep = andthen (throttler_guard S rq ep) (route_to S rq ep)"

section \<open>Responses\<close>

record response =
  rs_status :: nat
  rs_cookies :: "cookie list"
  rs_body :: "payload option"

fun error_status :: "exn \<Rightarrow> nat" where
  "error_status (NotFoundException _) = 404"
| "error_status (BadRequestException _) = 400"
| "error_status (UnauthorizedException _) = 401"
| "error_status (ForbiddenException _) = 403"
| "error_status (ConflictException _) = 409"
| "error_status ThrottlerException = 429"
| "error_status _ = 500"

text \<open>A \<open>POST\<close> answers 201 unless \<open>@HttpCode\<close> says otherwise, everything else 200.\<close>

fun ok_status :: "endpoint \<Rightarrow> nat" where
  "ok_status Diagnostics = 201"
| "ok_status (Auth POST_register) = 201"
| "ok_status (Readings POST_readings) = 201"
| "ok_status (Readings (POST_presign _)) = 201"
| "ok_status (ReadingShare (POST_share _)) = 201"
| "ok_status (ReadingShare (DELETE_share _)) = 204"
| "ok_status (Rewards POST_sessions) = 201"
| "ok_status (Rewards (POST_dev_simulate _)) = 201"
| "ok_status (Orders POST_orders) = 201"
| "ok_status (Payments POST_wompi) = 201"
| "ok_status (AdminPrompts POST_prompts) = 201"
| "ok_status (AdminPrompts (POST_publish _)) = 201"
| "ok_status (AdminPrompts (POST_test _)) = 201"
| "ok_status (AdminServices (POST_forms _)) = 201"
| "ok_status AdminWallet = 201"
| "ok_status _ = 200"

definition respond :: "endpoint \<Rightarrow> exn + reply \<Rightarrow> response" where
  "respond ep r = (case r of
       Inr (Reply p cs) \<Rightarrow> \<lparr>rs_status = ok_status ep, rs_cookies = cs, rs_body = Some p\<rparr>
     | Inr (Failed e cs) \<Rightarrow> \<lparr>rs_status = error_status e, rs_cookies = cs, rs_body = None\<rparr>
     | Inl e \<Rightarrow> \<lparr>rs_status = error_status e, rs_cookies = [], rs_body = None\<rparr>)"

definition handle :: "platform \<Rightarrow> request \<Rightarrow> endpoint \<Rightarrow> world \<Rightarrow> response \<times> world" where
  "handle S rq ep w = (case serve_request S rq ep w of (r, w') \<Rightarrow> (respond ep r, w'))"

end
