(* ===== verification/Indifference.thy ===== *)
theory Indifference
  imports Server AuthLaws ReadingJobLaws RewardProperties PaymentLaws ShareImage
begin

text \<open>
  Which operations of the API concern which invariants of the database. An invariant that does not look at accounts, images
  and logs (locale \<open>indifferent\<close>) survives everything that is done with accounts and images; one that does not look
  at the catalogue, the money, the rewards or the links either survives the operations on those. The locales state what
  an invariant has to survive itself; theories \<open>ServerLaws\<close> and \<open>Platform\<close> interpret them.
\<close>

section \<open>Operations that only read\<close>

lemma keeps_storage [keeps_intro]:
  "keeps I (headObject E k)" "keeps I (downloadObject E k)" "keeps I (deleteObject E k)" "keeps I (uploadObject E k b)"
  "keeps I (buildPalmImageKey E u r m)" "keeps I (buildShareImageKey E r)" "keeps I (createPresignedUploadUrl E k c)"
  unfolding headObject_def downloadObject_def deleteObject_def uploadObject_def storage_call_def
    buildPalmImageKey_def buildShareImageKey_def createPresignedUploadUrl_def
  by (intro keeps_intro keeps_modify; simp)+

lemma keeps_delete_objects [keeps_intro]: "keeps I (delete_objects E ks)"
  by (induction ks) (simp_all only: delete_objects.simps, (intro keeps_intro | assumption)+)

lemma keeps_validate [keeps_intro]: "keeps I (validateReadingAnswers s a)"
  by (rule keepsI) (auto simp: validateReadingAnswers_def split: json.splits option.splits)

lemma keeps_draw [keeps_intro]: "keeps I (getActiveDeckCards E c)" "keeps I (draw E deck ps)"
proof -
  have "keeps I (draw_loop E pool qs)" for pool qs
    by (induction qs arbitrary: pool) (auto intro!: keeps_intro)
  then show "keeps I (getActiveDeckCards E c)" "keeps I (draw E deck ps)"
    unfolding getActiveDeckCards_def draw_def by (intro keeps_intro; assumption)+
qed

lemma keeps_details [keeps_intro]:
  "keeps I (readings_detail E r)" "keeps I (ReadingsService.findOneForUser E u i)" "keeps I (findOwnedDraft u i)" "keeps I (listForUser u)"
  "keeps I (readings_listAllForAdmin p n st)"
  unfolding readings_detail_def ReadingsService.findOneForUser_def findOwnedDraft_def listForUser_def
    readings_listAllForAdmin_def getActiveShareLinkSummary_def
  by (intro keeps_intro)+

lemma keeps_money_reads [keeps_intro]:
  "keeps I (getWallet u)" "keeps I (listTransactions u p n)" "keeps I (OrdersService.findOneForUser u i)" "keeps I (orders_listAll p n)"
  "keeps I (payments_listAll p n)" "keeps I (getProgress u ty)" "keeps I (getActiveFlashOffer E u)"
  "keeps I (findActivePackageByCode c)" "keeps I (listActivePackages E)"
  unfolding getWallet_def listTransactions_def OrdersService.findOneForUser_def orders_listAll_def payments_listAll_def getProgress_def
    getActiveFlashOffer_def findActivePackageByCode_def listActivePackages_def Let_def
  by (intro keeps_intro)+

lemma keeps_catalogue_reads [keeps_intro]:
  "keeps I (listActiveServices E)" "keeps I (findActiveByCode c)" "keeps I listAllServices" "keeps I prompts_listAll"
  "keeps I (prompts_findOne i)" "keeps I (resolveVersionForTest i v)" "keeps I (getPublishedVersionId c)"
  unfolding listActiveServices_def findActiveByCode_def listAllServices_def prompts_listAll_def prompts_findOne_def
    resolveVersionForTest_def last_version_id_def getPublishedVersionId_def
  by (intro keeps_intro)+

lemma keeps_dashboard [keeps_intro]:
  "keeps I (executions_listAll p n st)" "keeps I (audit_listAll p n a t)" "keeps I (getMetrics E)"
  unfolding executions_listAll_def audit_listAll_def getMetrics_def getTarotDepthBreakdown_def getAvgCardsPerReading_def
    getAvgCreditsPerTarotReading_def getRewardFunnel_def getAdToPurchaseConversionRate_def tarot_readings_def Let_def
  by (intro keeps_intro)+

lemma keeps_user_reads [keeps_intro]:
  "keeps I (with_roles u)" "keeps I (findById i)" "keeps I (listUsers p n)" "keeps I (getSafeUserById i)" "keeps I (jwt_canActivate E c)"
proof -
  have roles: "keeps I (with_roles u)" for u
    unfolding with_roles_def by (intro keeps_intro)
  then show "keeps I (with_roles u)" .
  show find: "keeps I (findById i)" for i
    unfolding findById_def find_user_def by (intro keeps_intro roles)
  show "keeps I (listUsers p n)" "keeps I (getSafeUserById i)" "keeps I (jwt_canActivate E c)"
    unfolding listUsers_def getSafeUserById_def jwt_canActivate_def by (intro keeps_intro roles find)+
qed

text \<open>What comes out of the validation pipe is valid.\<close>

lemma pipe_run:
  "validation_pipe E dto v w = (Inr obj, w') \<Longrightarrow> valid_for E dto obj \<and> w' = w"
  "validation_pipe E dto v w = (Inl e, w') \<Longrightarrow> e = BadRequestException ''validation'' \<and> w' = w"
  by (auto simp: validation_pipe_def Let_def split: json.splits option.splits if_splits)

lemma keeps_await_pipe:
  assumes "\<And>obj. valid_for E dto obj \<Longrightarrow> keeps I (k obj)"
  shows "keeps I (await (validation_pipe E dto v) k)"
proof (rule keepsI)
  fix w r w' assume I: "I (db w)" and run: "await (validation_pipe E dto v) k w = (r, w')"
  obtain x w1 where x: "validation_pipe E dto v w = (x, w1)" by (cases "validation_pipe E dto v w")
  show "I (db w')"
  proof (cases x)
    case (Inl e)
    with x pipe_run(2) have "w1 = w" by blast
    with run x Inl I show ?thesis by (simp add: await_def)
  next
    case (Inr obj)
    with x pipe_run(1) have "valid_for E dto obj" "w1 = w" by auto
    with run x Inr I assms show ?thesis by (auto simp: await_def dest: keepsD_run)
  qed
qed

lemma keeps_frames [keeps_intro]:
  "keeps I m \<Longrightarrow> keeps I (reply_with f m)" "(\<And>obj. valid_for E dto obj \<Longrightarrow> keeps I (k obj)) \<Longrightarrow> keeps I (body_of E dto rq k)"
  "(\<And>obj. valid_for E dto obj \<Longrightarrow> keeps I (k obj)) \<Longrightarrow> keeps I (query_of E dto rq k)" "(\<And>u. keeps I (h u)) \<Longrightarrow> keeps I (with_session E rq h)"
  "keeps I n \<Longrightarrow> keeps I (session_reply E n)"
  unfolding reply_with_def body_of_def query_of_def with_session_def session_reply_def
  by (intro keeps_intro keeps_await_pipe; assumption)+

lemma keeps_roles_guard [keeps_intro]: "keeps I (roles_canActivate rs u)"
  by (rule keepsI) (auto simp: roles_canActivate_def split: option.splits if_splits)

lemma keeps_with_admin [keeps_intro]: "(\<And>x. keeps I (k x)) \<Longrightarrow> keeps I (with_admin E rq k)"
  unfolding with_admin_def by (intro keeps_intro)

lemma keeps_listings [keeps_intro]:
  "keeps I (admin_users_controller E rq)" "keeps I (admin_orders_controller E rq)" "keeps I (admin_payments_controller E rq)"
  "keeps I (admin_executions_controller E rq)" "keeps I (admin_audit_controller E rq)" "keeps I (admin_metrics_controller E)"
  unfolding admin_users_controller_def admin_orders_controller_def admin_payments_controller_def
    admin_executions_controller_def admin_audit_controller_def admin_metrics_controller_def
  by (intro keeps_intro)+

section \<open>Accounts, images and logs\<close>

locale indifferent =
  fixes E :: env and I :: "database \<Rightarrow> bool"
  assumes beside: "ignores I User" "ignores I RefreshToken" "ignores I VerificationToken" "ignores I ReadingInput"
      "ignores I PalmImage" "ignores I AIExecution" "ignores I AnalyticsEvent"
    and newcomer_role: "keeps I (assignRole u ''USER'')"
    and newcomer_wallet: "keeps I (createWalletWithBonus E u)"
    and unlock_taken: "keeps I (tryConsumeUnlock u ty)"

sublocale indifferent \<subseteq> auth_invariant E I
  by unfold_locales (auto intro!: keeps_intro beside newcomer_role newcomer_wallet)

context indifferent begin

lemma keeps_auth:
  "keeps I (register E name email pw ref)" "keeps I (login E email pw)" "keeps I (refresh E raw)" "keeps I (logout E c)"
  "keeps I (verifyEmail E raw)" "keeps I (forgotPassword E email)" "keeps I (resetPassword E raw pw)"
  "keeps I (changePassword E u pw pw')"
  using keeps_requests [of "Register name email pw ref"] keeps_requests [of "Login email pw"] keeps_requests [of "Refresh raw"]
    keeps_requests [of "Logout c"] keeps_requests [of "VerifyEmail raw"] keeps_requests [of "ForgotPassword email"]
    keeps_requests [of "ResetPassword raw pw"] keeps_requests [of "ChangePassword u pw pw'"]
  by (simp_all add: keeps_quietly)

lemma keeps_images:
  "keeps I (updateInputs E u i answers)" "keeps I (presignImage E u i c)" "keeps I (confirmImage E u i k)"
  "keeps I (validateImage E A i)" "keeps I (image_onFailed i n m)" "keeps I (deleteExpiredImages E)"
proof -
  show "keeps I (updateInputs E u i answers)"
    unfolding updateInputs_def readingInput_upsert_def by (intro keeps_intro beside)
  show "keeps I (presignImage E u i c)"
    unfolding presignImage_def by (intro keeps_intro beside)
  have "keeps I (check_image E img key)" for img key
    unfolding check_image_def invalidate_def accept_image_def by (intro keeps_intro beside)
  then show "keeps I (confirmImage E u i k)"
    unfolding confirmImage_def by (intro keeps_intro)
  show "keeps I (validateImage E A i)"
    unfolding validateImage_def by (intro keeps_intro beside)
  show "keeps I (image_onFailed i n m)"
    unfolding image_onFailed_def Let_def by (intro keeps_intro beside)
  show "keeps I (deleteExpiredImages E)"
    unfolding deleteExpiredImages_def cleanup_one_def by (intro keeps_intro beside)
qed

lemma keeps_cards: "keeps I (getTodaysCard E u today)"
  unfolding getTodaysCard_def buildTodaysCard_def isWithinFreeWindow_def Let_def by (intro keeps_intro unlock_taken)

lemma keeps_shared: "keeps I (getPublicSummary E t)" "keeps I (getShareImageBytes E t)"
  unfolding getPublicSummary_def sharing_logEvent_def by (intro keeps_intro beside SharingService.keeps_reads)+

lemma keeps_auth_controller: "keeps I (auth_controller E rq r)"
  by (cases r) (simp_all, (intro keeps_intro keeps_auth)+)

lemma keeps_users_controller: "keeps I (users_controller E rq u r)"
  by (cases r) (simp_all, (intro keeps_intro keeps_accounts)+)

lemma keeps_public_share: "keeps I (public_share_controller E r)"
  by (cases r) (simp_all, (intro keeps_intro keeps_shared)+)

end

section \<open>The catalogue\<close>

text \<open>What an administrator writes. A new price is never negative: \<open>UpdateServiceDto\<close> sees to it.\<close>

locale catalogue_writes = indifferent +
  assumes catalogue_beside: "ignores I ServiceForm" "ignores I Prompt" "ignores I PromptVersion"
    and service_changes: "(\<And>n. upd_creditCost data = Some n \<Longrightarrow> 0 \<le> n) \<Longrightarrow> keeps I (updateService E i data)"
begin

lemma keeps_prompt_writes:
  "keeps I (prompts_create E c n d a)" "keeps I (prompts_createVersion E i d a)" "keeps I (prompts_publish E i)"
  unfolding prompts_create_def prompts_createVersion_def prompts_publish_def promptVersion_create_def Let_def
  by (intro keeps_intro catalogue_beside)+

lemma new_price: "valid_for E updateServiceDto obj \<Longrightarrow> upd_creditCost (service_update obj) = Some n \<Longrightarrow> 0 \<le> n"
  by (auto simp: valid_for_def updateServiceDto_def reason_property_def property_ok_def service_update_def int_opt_def
      number_such_def split: option.splits json.splits)

lemma keeps_service_writes:
  "valid_for E updateServiceDto obj \<Longrightarrow> keeps I (update_service E i obj)" "keeps I (publishForm E i s)"
  unfolding update_service_def publishForm_def Let_def
  by (intro keeps_intro service_changes new_price catalogue_beside; assumption)+

end

locale catalogue_free = catalogue_writes +
  assumes log_beside: "ignores I AuditLog"
begin

lemma keeps_audited: "keeps I m \<Longrightarrow> keeps I (audited E u act ty ti why md f m)"
  unfolding audited_def audit_record_def by (intro keeps_intro log_beside)

lemma keeps_prompts_controller: "keeps I (admin_prompts_controller E A rq u r)"
  by (cases r) (simp_all only: admin_prompts_controller.simps Let_def,
    (intro keeps_intro keeps_audited keeps_prompt_writes beside)+)

lemma keeps_services_controller: "keeps I (admin_services_controller E rq u r)"
  by (cases r) (simp_all only: admin_services_controller.simps, (intro keeps_intro keeps_audited keeps_service_writes; simp)+)

end

section \<open>The money\<close>

locale payments_free = indifferent +
  assumes shop_beside: "ignores I Wallet" "ignores I WalletTransaction" "ignores I Order" "ignores I Payment" "ignores I WebhookEvent"
    and offer_taken: "keeps I (update_many FlashOfferUnlock P (\<lambda>f. f\<lparr>fo_consumedAt := Some t\<rparr>))"
begin

lemma keeps_orders: "keeps I (orders_create E u c)" "keeps I (createCheckoutIntent E P u k)"
  unfolding orders_create_def createCheckoutIntent_def by (intro keeps_intro shop_beside offer_taken)+

lemma keeps_settling: "keeps I (settle_if E t)"
  unfolding settle_if_def settle_payment_def approvePayment_def markPaymentTerminal_def creditPurchase_def ledger_create_def
  by (intro keeps_intro shop_beside)

lemma keeps_orders_controller: "keeps I (orders_controller E rq u r)"
  by (cases r) (simp_all only: orders_controller.simps, (intro keeps_intro keeps_orders)+)

lemma keeps_payments_controller:
  assumes "payment_provider P"
  shows "keeps I (payments_controller E P rq u r)" "keeps I (wompi_webhook_controller E P rq)"
proof -
  note prepare = payment_provider.return_prepare_keeps [OF assms] payment_provider.webhook_prepare_keeps [OF assms]
  show "keeps I (payments_controller E P rq u r)"
    by (cases r) (simp_all only: payments_controller.simps confirmFromReturn_def,
      (intro keeps_intro keeps_orders prepare keeps_settling)+)
  show "keeps I (wompi_webhook_controller E P rq)"
    unfolding wompi_webhook_controller_def handleWebhook_def by (intro keeps_intro prepare shop_beside keeps_settling)
qed

end

locale money_free = payments_free +
  assumes money_beside: "ignores I CreditReservation" "ignores I Reading" "ignores I TarotDraw"
    and links_removed: "keeps I (delete_many ShareLink Q)"
begin

lemma keeps_wallet_moves:
  "keeps I (reserveCreditsForReading E u i a)" "keeps I (confirmConsumption E i)" "keeps I (releaseReservation E i)"
  "keeps I (creditPurchase E u k c)"
  unfolding reserveCreditsForReading_def confirmConsumption_def releaseReservation_def creditPurchase_def ledger_create_def
  by (intro keeps_intro shop_beside money_beside; simp)+

lemma keeps_submit: "keeps I (submit E u i)"
proof -
  have charge: "keeps I (charge_palm E u i s)" "keeps I (charge_tarot E u i s ds)" for s ds
    unfolding charge_palm_def charge_tarot_def create_draw_def
    by (intro keeps_intro keeps_wallet_moves shop_beside money_beside unlock_taken)+
  show ?thesis
    unfolding submit_def submitPalmReading_def submitTarotReading_def submit_charged_def by (intro keeps_intro charge)
qed

lemma keeps_reading_writes:
  "keeps I (readings_create E u c)" "keeps I (retry E u i)" "keeps I (retryAsAdmin E i)" "keeps I (remove E u i)"
  unfolding readings_create_def retry_def retryAsAdmin_def performRetry_def tarotRetryJobId_def palmRetryJobId_def remove_def
    reading_delete_def
  by (intro keeps_intro shop_beside money_beside beside links_removed)+

lemma keeps_readings_controller: "keeps I (readings_controller E rq u r)"
  by (cases r) (simp_all only: readings_controller.simps,
    (intro keeps_intro keeps_images keeps_submit keeps_reading_writes)+)

lemma keeps_deliver: "keeps I (deliver E A d)"
proof -
  have finish: "keeps I (finish_reading E i v x)" for i v x
    unfolding finish_reading_def by (intro keeps_intro keeps_wallet_moves shop_beside money_beside)
  have "keeps I (tarot_processReading E A i)" "keeps I (palm_processReading E A i)" for i
    unfolding tarot_processReading_def palm_processReading_def start_reading_def request_image_def Let_def
    by (intro keeps_intro finish money_beside beside)+
  then have "keeps I (reading_process E A j)" for j
    unfolding reading_process_cases by (intro keeps_intro)
  moreover have "keeps I (reading_onFailed E j n m)" for j n m
    unfolding reading_onFailed_def Let_def by (intro keeps_intro keeps_wallet_moves shop_beside money_beside)
  ultimately show ?thesis by (cases d) simp_all
qed

end

text \<open>The wallet adjustments of the administration.\<close>

locale office_free = money_free + catalogue_free
begin

lemma keeps_adjust: "keeps I (adjustBalance E u a why actor)"
  unfolding adjustBalance_def ledger_create_def audit_record_def by (intro keeps_intro shop_beside money_beside log_beside; simp)

lemma keeps_wallet_controller: "keeps I (admin_wallet_controller E rq u)"
  unfolding admin_wallet_controller_def by (intro keeps_intro keeps_adjust)

lemma keeps_admin_readings: "keeps I (admin_readings_controller E rq u r)"
  by (cases r) (simp_all only: admin_readings_controller.simps, (intro keeps_intro keeps_audited keeps_reading_writes)+)

end

section \<open>Rewards and links\<close>

locale rewards_free = indifferent +
  assumes rewards_beside: "ignores I RewardSession" "ignores I RewardTransaction" "ignores I RewardProgress"
      "ignores I FlashOfferUnlock"
begin

lemma keeps_callback: "keeps I (processProviderCallback E vs n ps)"
  unfolding processProviderCallback_def registerCompletedSession_def settleSession_def completeSession_def upsertProgress_def
    grantFlashOffer_def rewards_logEvent_def Let_def
  by (intro keeps_intro rewards_beside beside)

lemma keeps_rewards_controller: "keeps I (rewards_controller E rq u r)"
proof -
  have new: "keeps I (createSession E u ty)" for u ty
    unfolding createSession_def assertFlashOfferDailyLimitNotExceeded_def rewards_logEvent_def
    by (intro keeps_intro rewards_beside beside)
  have simulate: "keeps I (simulateStubCompletion E vs u i)" for vs u i
    unfolding simulateStubCompletion_def by (intro keeps_intro keeps_callback)
  show ?thesis
    by (cases r) (simp_all only: rewards_controller.simps, (intro keeps_intro new simulate)+)
qed

end

locale links_free = indifferent +
  assumes links_beside: "ignores I ShareLink"
begin

lemma keeps_share_controller: "keeps I (reading_share_controller E u r)"
  by (cases r) (simp_all only: reading_share_controller.simps createShareLink_def revokeShareLink_def sharing_logEvent_def,
    (intro keeps_intro links_beside beside)+)

lemma keeps_share_job: "keeps I (generateImage E i)" "keeps I (share_onFailed i n m)"
  unfolding generateImage_def share_onFailed_def markImageReady_def markImageFailed_def Let_def
  by (intro keeps_intro links_beside SharingService.keeps_reads)+

end

section \<open>The whole interface\<close>

datatype access = Public | SignedIn | Administrator

fun access_of :: "endpoint \<Rightarrow> access" where
  "access_of Root = Public"
| "access_of Health = Public"
| "access_of Diagnostics = Public"
| "access_of (Auth r) = (if r = GET_me \<or> r = PATCH_password then SignedIn else Public)"
| "access_of (Catalogue _) = Public"
| "access_of CreditPackages = Public"
| "access_of (Shared _) = Public"
| "access_of WompiWebhook = Public"
| "access_of (RewardCallback _) = Public"
| "access_of (Users _) = SignedIn"
| "access_of TodaysCard = SignedIn"
| "access_of (Readings _) = SignedIn"
| "access_of (ReadingShare _) = SignedIn"
| "access_of (Rewards _) = SignedIn"
| "access_of (Wallets _) = SignedIn"
| "access_of (Orders _) = SignedIn"
| "access_of (Payments _) = SignedIn"
| "access_of _ = Administrator"

text \<open>What an invariant has to survive so that no request of a client breaks it, but for those about readings.\<close>

locale bystander = indifferent +
  assumes shares: "keeps I (reading_share_controller E u r2)"
    and rewards: "keeps I (rewards_controller E rq u r3)" "keeps I (rewards_callback E rq prov)"
    and orders: "keeps I (orders_controller E rq u r4)"
    and payments: "payment_provider P \<Longrightarrow> keeps I (payments_controller E P rq u r5)"
      "payment_provider P \<Longrightarrow> keeps I (wompi_webhook_controller E P rq)"
begin

lemma keeps_other_route:
  assumes "pf_env S = E" "payment_provider (pf_payments S)" "access_of ep \<noteq> Administrator"
    and "\<And>r. ep = Readings r \<Longrightarrow> keeps I (route_to S rq ep)"
  shows "keeps I (serve_request S rq ep)"
proof -
  have public: "keeps I app_controller" "keeps I (health_controller E)" "keeps I (diagnostics_controller E rq)"
    "keeps I (services_controller E r)" "keeps I (credit_packages_controller E)" "keeps I (wallet_controller E rq u r')" for r u r'
    by (cases r; cases r'; simp add: app_controller_def health_controller_def diagnostics_controller_def credit_packages_controller_def;
      intro keeps_intro)+
  have card: "keeps I (daily_card_controller E u)" for u
    unfolding daily_card_controller_def by (intro keeps_intro keeps_cards)
  have "keeps I (route_to S rq ep)"
  proof (cases "\<exists>r. ep = Readings r")
    case False
    with assms(3) show ?thesis
      by (cases ep) (simp_all add: assms(1), (intro keeps_intro public card shares rewards orders payments assms(2)
        keeps_auth_controller keeps_users_controller keeps_public_share)+)
  qed (use assms(4) in blast)
  then show ?thesis
    unfolding serve_request_def throttler_guard_def by (intro keeps_intro; simp add: keeps_intro)
qed

end

text \<open>What an invariant has to survive so that no request of a client breaks it, and none of an administrator.\<close>

locale client_invariant = bystander +
  assumes readings: "keeps I (readings_controller E rq u r1)"
begin

lemma keeps_client_route:
  assumes "pf_env S = E" "payment_provider (pf_payments S)" "access_of ep \<noteq> Administrator"
  shows "keeps I (serve_request S rq ep)"
  by (rule keeps_other_route [OF assms]) (simp add: assms(1) keeps_frames readings)

end

locale public_free = money_free + rewards_free + links_free

sublocale public_free \<subseteq> client_invariant E I
  by unfold_locales (fact keeps_readings_controller keeps_share_controller keeps_rewards_controller keeps_orders_controller
      keeps_payments_controller | simp add: rewards_callback_def keeps_callback keeps_intro)+

locale api_invariant = client_invariant +
  assumes office: "keeps I (admin_prompts_controller E A rq u q1)" "keeps I (admin_readings_controller E rq u q2)"
    "keeps I (admin_services_controller E rq u q3)" "keeps I (admin_wallet_controller E rq u)"
begin

lemma keeps_handle:
  assumes "pf_env S = E" "payment_provider (pf_payments S)" and "I (db w)" "handle S rq ep w = (res, w')"
  shows "I (db w')"
proof -
  have "keeps I (serve_request S rq ep)"
  proof (cases "access_of ep = Administrator")
    case True
    have "keeps I (route_to S rq ep)"
      using True by (cases ep) (simp_all add: assms(1) split: if_splits, (intro keeps_intro office)+)
    then show ?thesis
      unfolding serve_request_def throttler_guard_def by (intro keeps_intro; simp add: keeps_intro)
  qed (rule keeps_client_route [OF assms(1,2)])
  with assms(3,4) show ?thesis by (auto simp: handle_def split: prod.splits dest: keepsD_run)
qed

end

locale all_free = office_free + public_free

sublocale all_free \<subseteq> api_invariant E I
  by unfold_locales (fact keeps_prompts_controller keeps_admin_readings keeps_services_controller keeps_wallet_controller)+

end
