(* ===== verification/Bookkeeping.thy ===== *)
theory Bookkeeping
  imports Indifference Seed
begin

text \<open>
  The books of the platform: wallets, ledger, reservations, orders and payments agree, what is on offer has no negative
  price or amount, and every reservation is for a reading that has been submitted. Every request and every job keeps
  that, which is more than the invariants of the single components say: a reading that is removed takes its
  reservation and its name in the ledger along, so the ledger stays right because only drafts are removed.
\<close>

section \<open>The invariant\<close>

definition services_ok :: "database \<Rightarrow> bool" where
  "services_ok d = (\<forall>s \<in> set (services d). 0 \<le> s_creditCost s)"

definition offers_ok :: "database \<Rightarrow> bool" where
  "offers_ok d = (packages_ok d \<and> services_ok d)"

text \<open>Every reservation is for a reading that has been submitted, but for one that is being submitted.\<close>

definition submitted_reading :: "string \<Rightarrow> database \<Rightarrow> bool" where
  "submitted_reading rid d = (\<exists>x \<in> set (readings d). r_id x = rid \<and> r_status x \<noteq> DRAFT)"

definition charges_but :: "string option \<Rightarrow> database \<Rightarrow> bool" where
  "charges_but x d = (distinct (map r_id (readings d)) \<and>
     (\<forall>c \<in> set (creditReservations d). x = Some (cr_readingId c) \<or> submitted_reading (cr_readingId c) d))"

definition books_ok :: "env \<Rightarrow> database \<Rightarrow> bool" where
  "books_ok E d = (0 \<le> e_bonusCredits E \<and> money_inv d \<and> offers_ok d \<and> charges_but None d)"

lemma keeps_books:
  assumes "\<And>w r w'. books_ok E (db w) \<Longrightarrow> m w = (r, w') \<Longrightarrow> money_inv (db w')"
    and "keeps offers_ok m" "keeps (charges_but None) m"
  shows "keeps (books_ok E) m"
  using assms unfolding books_ok_def by (intro keepsI) (blast dest: keepsD_run)

lemma books_parts: "keeps money_inv m \<Longrightarrow> keeps offers_ok m \<Longrightarrow> keeps (charges_but None) m \<Longrightarrow> keeps (books_ok E) m"
  by (simp add: books_ok_def keeps_def)

lemma keeps_money: "keeps wallet_inv m \<Longrightarrow> keeps payment_inv m \<Longrightarrow> keeps money_inv m"
  by (simp add: money_inv_def keeps_def)

section \<open>The charges\<close>

lemma charges_ignores:
  "ignores (charges_but x) T" if "\<And>g d. readings (set_rows T g d) = readings d"
    "\<And>g d. creditReservations (set_rows T g d) = creditReservations d"
  using that by (simp add: ignores_def charges_but_def submitted_reading_def)

text \<open>A reading is written down once, and a submitted one never becomes a draft again.\<close>

lemma submitted_update:
  assumes "\<And>r. r_id (f r) = r_id r \<and> (r_status (f r) = DRAFT \<longrightarrow> r_status r = DRAFT)" "submitted_reading rid d"
  shows "submitted_reading rid (d\<lparr>readings := map (\<lambda>r. if P r then f r else r) (readings d)\<rparr>)"
proof -
  obtain x where "x \<in> set (readings d)" "r_id x = rid" "r_status x \<noteq> DRAFT"
    using assms(2) unfolding submitted_reading_def by blast
  then have "\<exists>y \<in> set (map (\<lambda>r. if P r then f r else r) (readings d)). r_id y = rid \<and> r_status y \<noteq> DRAFT"
    unfolding bex_map_update using assms(1) [of x] by (intro bexI [of _ x]) auto
  then show ?thesis by (simp add: submitted_reading_def del: set_map)
qed

lemma charges_update:
  assumes "\<And>r. r_id (f r) = r_id r \<and> (r_status (f r) = DRAFT \<longrightarrow> r_status r = DRAFT)" "charges_but x d"
  shows "charges_but x (d\<lparr>readings := map (\<lambda>r. if P r then f r else r) (readings d)\<rparr>)"
proof -
  have "map r_id (map (\<lambda>r. if P r then f r else r) (readings d)) = map r_id (readings d)"
    by (rule map_update_same) (simp add: assms(1))
  with assms(2) submitted_update [OF assms(1), where P = P] show ?thesis
    by (simp add: charges_but_def del: map_map) blast
qed

lemma charges_readings:
  "(\<And>r. r_id (f r) = r_id r \<and> (r_status (f r) = DRAFT \<longrightarrow> r_status r = DRAFT)) \<Longrightarrow> keeps (charges_but x) (update_row Reading P f)"
  "(\<And>r. r_id (f r) = r_id r \<and> (r_status (f r) = DRAFT \<longrightarrow> r_status r = DRAFT)) \<Longrightarrow> keeps (charges_but x) (update_many Reading P f)"
  using charges_update [of f x]
  by (simp_all add: keeps_def update_row_def update_many_def Reading_def split: option.split)

lemma charges_new_reading: "keeps (charges_but x) (create Reading r)"
proof -
  have "charges_but x (d\<lparr>readings := readings d @ [r]\<rparr>)" if "charges_but x d" "\<forall>y \<in> set (readings d). r_id r \<noteq> r_id y" for d
  proof -
    have "submitted_reading rid (d\<lparr>readings := readings d @ [r]\<rparr>)" if "submitted_reading rid d" for rid
      using that by (auto simp: submitted_reading_def)
    with that show ?thesis unfolding charges_but_def by (simp add: image_iff) blast
  qed
  then show ?thesis by (simp add: keeps_def create_def Reading_def list_ex_iff)
qed

lemma charges_reservations:
  "(\<And>c. cr_readingId (f c) = cr_readingId c) \<Longrightarrow> keeps (charges_but x) (update_row CreditReservation P f)"
  "(\<And>c. cr_readingId (f c) = cr_readingId c) \<Longrightarrow> keeps (charges_but x) (update_many CreditReservation P f)"
  "cr_readingId c = rid \<Longrightarrow> keeps (charges_but (Some rid)) (create CreditReservation c)"
proof -
  have "charges_but x (d\<lparr>creditReservations := map (\<lambda>c. if P c then f c else c) (creditReservations d)\<rparr>)"
    if inv: "charges_but x d" and f: "\<And>c. cr_readingId (f c) = cr_readingId c" for d
  proof -
    have "\<forall>c \<in> set (map (\<lambda>c. if P c then f c else c) (creditReservations d)). x = Some (cr_readingId c) \<or> submitted_reading (cr_readingId c) d"
      unfolding ball_map_update using inv f by (simp add: charges_but_def)
    with inv show ?thesis by (simp add: charges_but_def submitted_reading_def del: set_map)
  qed
  then show "keeps (charges_but x) (update_row CreditReservation P f)" "keeps (charges_but x) (update_many CreditReservation P f)"
    if "\<And>c. cr_readingId (f c) = cr_readingId c"
    using that by (simp_all add: keeps_def update_row_def update_many_def CreditReservation_def split: option.split)
  show "keeps (charges_but (Some rid)) (create CreditReservation c)" if "cr_readingId c = rid"
    using that by (simp add: keeps_def create_def CreditReservation_def charges_but_def submitted_reading_def)
qed

lemmas charges_intro = charges_readings charges_new_reading charges_reservations keeps_intro charges_ignores

lemma charges_settle:
  "keeps (charges_but x) (confirmConsumption E i)" "keeps (charges_but x) (releaseReservation E i)"
  unfolding confirmConsumption_def releaseReservation_def ledger_create_def
  by (intro charges_intro; simp add: table_defs)+

text \<open>Submission: reserving, then marking the reading.\<close>

lemma charges_reserve: "keeps (charges_but (Some rid)) (reserveCreditsForReading E u rid a)"
  unfolding reserveCreditsForReading_def ledger_create_def
  by (intro charges_intro; simp add: table_defs)

text \<open>From a state with \<open>I\<close>, what returns leads to one with \<open>J\<close>.\<close>

definition leads :: "(database \<Rightarrow> bool) \<Rightarrow> (world, 'a) prog \<Rightarrow> (database \<Rightarrow> bool) \<Rightarrow> bool" where
  "leads I m J = (\<forall>w x w'. I (db w) \<longrightarrow> m w = (Inr x, w') \<longrightarrow> J (db w'))"

lemma leads_await: "keeps I m \<Longrightarrow> (\<And>x. leads I (k x) J) \<Longrightarrow> leads I (await m k) J"
  unfolding leads_def await_Inr_iff by (metis keepsD_run)

lemma leads_andthen: "keeps I m \<Longrightarrow> leads I k J \<Longrightarrow> leads I (andthen m k) J"
  unfolding andthen_def by (rule leads_await)

lemma keeps_leads: "leads I m J \<Longrightarrow> (\<And>d. J' d \<Longrightarrow> I d) \<Longrightarrow> (\<And>d. J d \<Longrightarrow> J' d) \<Longrightarrow> keeps J' (transaction m)"
  by (rule keeps_transaction) (simp add: keeps_ok_def leads_def, blast)

definition mark_pending :: "env \<Rightarrow> string \<Rightarrow> (world, unit) prog" where
  "mark_pending E rid = await (date_now E) (\<lambda>now.
     andthen (update_row Reading (\<lambda>r. r_id r = rid) (\<lambda>r. r\<lparr>r_status := PENDING, r_submittedAt := Some now\<rparr>)) (ret ()))"

lemma charges_end: "leads (charges_but (Some rid)) (mark_pending E rid) (charges_but None)"
proof -
  have kept: "keeps (charges_but (Some rid)) (mark_pending E rid)"
    unfolding mark_pending_def by (intro charges_intro; simp)
  have marked: "submitted_reading rid (db w')" if "mark_pending E rid w = (Inr x, w')" for w x w'
    using pending_run [OF that [unfolded mark_pending_def]] by (auto simp: submitted_reading_def)
  have "charges_but None (db w')" if "charges_but (Some rid) (db w)" "mark_pending E rid w = (Inr x, w')" for w x w'
  proof -
    have "charges_but (Some rid) (db w')" "submitted_reading rid (db w')"
      using keepsD_run [OF kept that] marked [OF that(2)] by simp_all
    then show ?thesis by (auto simp: charges_but_def)
  qed
  then show ?thesis unfolding leads_def by blast
qed

lemma charges_charge: "keeps (charges_but None) (charge_palm E u rid s)" "keeps (charges_but None) (charge_tarot E u rid s ds)"
proof -
  have draws: "keeps (charges_but x) (for_each (create_draw E rid) ds)" for x
    unfolding create_draw_def by (intro charges_intro; simp add: table_defs)
  have unlock: "keeps (charges_but x) (tryConsumeUnlock u ty)" for x ty
    unfolding tryConsumeUnlock_def by (intro charges_intro; simp add: table_defs)
  show "keeps (charges_but None) (charge_palm E u rid s)"
    unfolding charge_palm_def mark_pending_def [symmetric]
    by (rule keeps_leads [where I = "charges_but (Some rid)" and J = "charges_but None"], intro leads_andthen charges_reserve charges_end)
      (auto simp: charges_but_def)
  show "keeps (charges_but None) (charge_tarot E u rid s ds)"
    unfolding charge_tarot_def mark_pending_def [symmetric]
    by (rule keeps_leads [where I = "charges_but (Some rid)" and J = "charges_but None"],
        intro leads_await leads_andthen charges_reserve charges_end draws keeps_if keeps_await unlock keeps_ret)
      (auto simp: charges_but_def)
qed

lemma submit_keeps:
  assumes "\<And>s. keeps I (charge_palm E u i s)" "\<And>s ds. keeps I (charge_tarot E u i s ds)"
  shows "keeps I (submit E u i)"
  unfolding submit_def submitPalmReading_def submitTarotReading_def submit_charged_def by (intro keeps_intro assms)

section \<open>What a submission costs\<close>

definition priced :: "database \<Rightarrow> bool" where
  "priced d = (services_ok d \<and> wallet_inv d)"

lemma keeps_found:
  assumes "\<And>d x. I d \<Longrightarrow> x \<in> set (rows T d) \<Longrightarrow> P x" "\<And>x. P x \<Longrightarrow> keeps I (k x)"
  shows "keeps I (await (find_or_throw T Q) k)"
proof (rule keepsI)
  fix w r w' assume I: "I (db w)" and run: "await (find_or_throw T Q) k w = (r, w')"
  show "I (db w')"
  proof (cases "find Q (rows T (db w))")
    case None
    with run I show ?thesis by (simp add: await_def find_or_throw_run)
  next
    case (Some x)
    with run have "k x w = (r, w')" by (simp add: await_def find_or_throw_run)
    with assms(2) [OF assms(1) [OF I]] find_SomeD [OF Some] I show ?thesis by (blast dest: keepsD_run)
  qed
qed

lemma services_ignores: "ignores services_ok T" if "\<And>g d. services (set_rows T g d) = services d"
  using that by (simp add: ignores_def services_ok_def)

lemma wallet_ignores:
  "ignores wallet_inv T" if "\<And>g d. wallets (set_rows T g d) = wallets d"
    "\<And>g d. walletTransactions (set_rows T g d) = walletTransactions d"
    "\<And>g d. creditReservations (set_rows T g d) = creditReservations d"
  using that by (simp add: ignores_def wallet_inv_def)

lemma reserve_priced: "0 \<le> a \<Longrightarrow> keeps_ok priced (reserveCreditsForReading E u rid a)"
proof -
  assume "0 \<le> a"
  moreover have "keeps services_ok (reserveCreditsForReading E u rid a)"
    unfolding reserveCreditsForReading_def ledger_create_def by (intro keeps_intro services_ignores; simp add: table_defs)
  ultimately show ?thesis
    using reserve_keeps_ok [of a E u rid] by (auto simp: keeps_ok_def priced_def dest: keepsD_run)
qed

lemma priced_ignores: "ignores services_ok T \<Longrightarrow> ignores wallet_inv T \<Longrightarrow> ignores priced T"
  by (simp add: ignores_def priced_def)

lemma charge_priced:
  assumes "0 \<le> s_creditCost s"
  shows "keeps priced (charge_palm E u rid s)" "keeps priced (charge_tarot E u rid s ds)"
proof -
  have mark: "keeps_ok priced (mark_pending E rid)"
    unfolding mark_pending_def
    by (rule keeps_imp_ok, intro keeps_intro priced_ignores services_ignores wallet_ignores; simp add: table_defs)
  have draws: "keeps_ok priced (for_each (create_draw E rid) ds)"
    unfolding create_draw_def
    by (rule keeps_imp_ok, intro keeps_intro priced_ignores services_ignores wallet_ignores; simp add: table_defs)
  have unlock: "keeps_ok priced (tryConsumeUnlock u ty)" for ty
    unfolding tryConsumeUnlock_def
    by (rule keeps_imp_ok, intro keeps_intro priced_ignores services_ignores wallet_ignores; simp add: table_defs)
  show "keeps priced (charge_palm E u rid s)"
    unfolding charge_palm_def mark_pending_def [symmetric]
    by (intro keeps_transaction keeps_ok_intro reserve_priced mark assms)
  have "keeps_ok priced (andthen (reserveCreditsForReading E u rid (if x then 0 else s_creditCost s))
      (andthen (for_each (create_draw E rid) ds) (mark_pending E rid)))" for x
    by (intro keeps_ok_intro reserve_priced mark draws) (simp add: assms)
  note rest = this this [of False, simplified]
  show "keeps priced (charge_tarot E u rid s ds)"
    unfolding charge_tarot_def mark_pending_def [symmetric] await_if await_assoc await_ret_left
    by (intro keeps_transaction keeps_ok_if keeps_ok_await unlock rest)
qed

lemma submit_priced: "keeps priced (submit E u i)"
  unfolding submit_def submitPalmReading_def submitTarotReading_def submit_charged_def
  by (intro keeps_intro keeps_found [where P = "\<lambda>s. 0 \<le> s_creditCost s"] charge_priced)
    (auto simp: priced_def services_ok_def Service_def)

section \<open>What is removed\<close>

lemma reading_delete_run:
  assumes "reading_delete rid w = (Inr x, w')"
  shows "readings (db w') = filter (\<lambda>r. r_id r \<noteq> rid) (readings (db w)) \<and>
    creditReservations (db w') = filter (\<lambda>c. cr_readingId c \<noteq> rid) (creditReservations (db w)) \<and>
    walletTransactions (db w') = map (\<lambda>t. if t_readingId t = Some rid then t\<lparr>t_readingId := None\<rparr> else t) (walletTransactions (db w)) \<and>
    wallets (db w') = wallets (db w) \<and> orders (db w') = orders (db w) \<and> payments (db w') = payments (db w)"
  using assms by (auto simp: reading_delete_def prog_inv db_inv delete_many_def table_defs)

text \<open>A draft has no reservation, so nothing of the books goes with it.\<close>

lemma draft_uncharged:
  assumes "charges_but None d" "x \<in> set (readings d)" "r_id x = rid" "r_status x = DRAFT" "wallet_inv d"
  shows "\<forall>c \<in> set (creditReservations d). cr_readingId c \<noteq> rid" "\<forall>t \<in> set (walletTransactions d). t_readingId t \<noteq> Some rid"
proof -
  show free: "\<forall>c \<in> set (creditReservations d). cr_readingId c \<noteq> rid"
  proof (intro ballI notI)
    fix c assume "c \<in> set (creditReservations d)" "cr_readingId c = rid"
    with assms(1) obtain y where "y \<in> set (readings d)" "r_id y = rid" "r_status y \<noteq> DRAFT"
      by (auto simp: charges_but_def submitted_reading_def)
    moreover from assms(1) have "distinct (map r_id (readings d))" by (simp add: charges_but_def)
    ultimately show False using assms(2-4) distinct_key_unique [of r_id "readings d" y x] by auto
  qed
  show "\<forall>t \<in> set (walletTransactions d). t_readingId t \<noteq> Some rid"
    using free assms(5) line_reading_reserved unfolding wallet_inv_def reservations_ok_def by blast
qed

lemma delete_keeps:
  assumes "charges_but None (db w)" "money_inv (db w)" "x \<in> set (readings (db w))" "r_id x = rid" "r_status x = DRAFT"
    and run: "reading_delete rid w = (Inr y, w')"
  shows "charges_but None (db w') \<and> money_inv (db w')"
proof -
  have wal: "wallet_inv (db w)" using assms(2) by (simp add: money_inv_def)
  note free = draft_uncharged [OF assms(1,3-5) wal]
  have same: "creditReservations (db w') = creditReservations (db w)" "walletTransactions (db w') = walletTransactions (db w)"
    using reading_delete_run [OF run] free by (auto simp: filter_id_conv intro: map_idI)
  have "submitted_reading i (db w')" if "submitted_reading i (db w)" "i \<noteq> rid" for i
    using that reading_delete_run [OF run] by (auto simp: submitted_reading_def)
  with assms(1) free(1) same reading_delete_run [OF run] have "charges_but None (db w')"
    by (auto simp: charges_but_def distinct_map_filter)
  moreover have "money_inv (db w')"
    using assms(2) reading_delete_run [OF run] same
    by (simp add: money_inv_def wallet_inv_def payment_inv_def purchases_def pays_out_def owners_def)
  ultimately show ?thesis by simp
qed

lemma remove_run:
  assumes "remove E u rid w = (r, w')"
  shows "db w' = db w \<or> (\<exists>x y w1. x \<in> set (readings (db w)) \<and> r_id x = rid \<and> r_status x = DRAFT \<and> db w1 = db w \<and>
    reading_delete rid w1 = (Inr y, w'))"
proof -
  have objects: "same db (delete_objects E ks)" for ks
    using same_from_keeps [of "\<lambda>d. d", OF keeps_delete_objects] by simp
  obtain z w0 where z: "findOwnedDraft u rid w = (z, w0)" by fastforce
  have w0: "db w0 = db w" using z same_detail(3) same_run by blast
  show ?thesis
  proof (cases z)
    case (Inl e)
    with z w0 assms show ?thesis by (simp add: remove_def andthen_def await_def)
  next
    case (Inr x)
    with z have x: "x \<in> set (readings (db w))" "r_id x = rid" "r_status x = DRAFT" and [simp]: "w0 = w"
      by (auto simp: findOwnedDraft_def await_def Reading_def split: option.splits if_splits dest!: find_SomeD)
    obtain e w1 where e: "delete_objects E (map pi_storageKey (filter (\<lambda>i. pi_readingId i = rid) (palmImages (db w)))) w = (e, w1)"
      by fastforce
    have w1: "db w1 = db w" using same_run [OF objects e] .
    have rest: "(case e of Inl e' \<Rightarrow> (Inl e', w1) | Inr (Some e') \<Rightarrow> (Inl e', w1) | Inr None \<Rightarrow> transaction (reading_delete rid) w1) = (r, w')"
      using assms z Inr e by (simp add: remove_def andthen_def await_def PalmImage_def split: sum.splits option.splits)
    show ?thesis
    proof (cases "e = Inr None")
      case True
      with rest have t: "transaction (reading_delete rid) w1 = (r, w')" by simp
      show ?thesis
      proof (cases r)
        case Inl
        with t w1 transaction_error_db show ?thesis by metis
      next
        case (Inr y)
        with t have "reading_delete rid w1 = (Inr y, w')" by (simp add: transaction_Inr_iff)
        with x w1 show ?thesis by blast
      qed
    next
      case False
      with rest w1 have "db w' = db w" by (auto split: sum.splits option.splits)
      then show ?thesis ..
    qed
  qed
qed

section \<open>Orders and payments\<close>

lemma charges_orders: "keeps (charges_but None) (orders_create E u c)" "keeps (charges_but None) (createCheckoutIntent E P u k)"
  unfolding orders_create_def createCheckoutIntent_def Let_def by (intro charges_intro; simp add: table_defs)+

lemma charges_settling: "keeps (charges_but None) (settle_if E t)"
  unfolding settle_if_def settle_payment_def approvePayment_def markPaymentTerminal_def creditPurchase_def ledger_create_def
  by (intro charges_intro; simp add: table_defs)

lemma settle_keeps_money:
  assumes "keeps money_inv m" "\<And>w t w'. m w = (Inr (Some t), w') \<Longrightarrow> task_ok (db w') t"
  shows "keeps money_inv (await m (settle_if E))"
proof (rule keepsI)
  fix w r w' assume inv: "money_inv (db w)" and run: "await m (settle_if E) w = (r, w')"
  obtain z w1 where z: "m w = (z, w1)" by fastforce
  have inv1: "money_inv (db w1)" using keepsD_run [OF assms(1) inv z] .
  show "money_inv (db w')"
  proof (cases "\<exists>t. z = Inr (Some t)")
    case True
    then obtain t where t: "z = Inr (Some t)" by blast
    with run z have "settle_payment E t w1 = (r, w')" by (simp add: await_def settle_if_def)
    with settle_payment_step [OF inv1] assms(2) [OF z [unfolded t]] show ?thesis by blast
  qed (use run z inv1 in \<open>auto simp: await_def settle_if_def split: sum.splits option.splits\<close>)
qed

lemma money_ignores:
  "ignores money_inv T" if "\<And>g d. wallets (set_rows T g d) = wallets d"
    "\<And>g d. walletTransactions (set_rows T g d) = walletTransactions d"
    "\<And>g d. creditReservations (set_rows T g d) = creditReservations d"
    "\<And>g d. orders (set_rows T g d) = orders d" "\<And>g d. payments (set_rows T g d) = payments d"
  using that by (simp add: ignores_def money_inv_def wallet_inv_def payment_inv_def purchases_def pays_out_def owners_def)

context payment_provider begin

lemma payments_keep_money: "keeps money_inv (handleWebhook E P body)" "keeps money_inv (confirmFromReturn E P u k t)"
proof -
  have "keeps money_inv (webhook_prepare E P body)"
    by (rule webhook_prepare_keeps) (rule money_ignores; simp add: table_defs)
  then show "keeps money_inv (handleWebhook E P body)"
    unfolding handleWebhook_def by (rule settle_keeps_money) (rule webhook_prepare_task)
  show "keeps money_inv (confirmFromReturn E P u k t)"
    unfolding confirmFromReturn_def by (rule settle_keeps_money [OF return_prepare_keeps]) (rule return_prepare_task)
qed

lemma charges_payments: "keeps (charges_but None) (handleWebhook E P body)" "keeps (charges_but None) (confirmFromReturn E P u k t)"
  unfolding handleWebhook_def confirmFromReturn_def
  by (intro keeps_intro webhook_prepare_keeps return_prepare_keeps charges_settling charges_ignores; simp add: table_defs)+

end

section \<open>The whole interface\<close>

text \<open>Nothing on offer changes but by an administrator, and then not to a negative price.\<close>

lemma offers_ignores:
  "ignores offers_ok T" if "\<And>g d. services (set_rows T g d) = services d" "\<And>g d. creditPackages (set_rows T g d) = creditPackages d"
  using that by (simp add: ignores_def offers_ok_def packages_ok_def services_ok_def)

lemma offers_service: "(\<And>n. upd_creditCost data = Some n \<Longrightarrow> 0 \<le> n) \<Longrightarrow> keeps offers_ok (updateService E i data)"
proof -
  assume price: "\<And>n. upd_creditCost data = Some n \<Longrightarrow> 0 \<le> n"
  have "offers_ok (d\<lparr>services := map (\<lambda>s. if P s then apply_update data now s else s) (services d)\<rparr>)" if "offers_ok d" for P now d
  proof -
    have "\<forall>s \<in> set (map (\<lambda>s. if P s then apply_update data now s else s) (services d)). 0 \<le> s_creditCost s"
      unfolding ball_map_update using that price
      by (auto simp: offers_ok_def services_ok_def apply_update_def split: option.split)
    with that show ?thesis by (simp add: offers_ok_def packages_ok_def services_ok_def del: set_map)
  qed
  then have written: "keeps offers_ok (update_row Service P (apply_update data now))" for P now
    by (simp add: keeps_def update_row_def Service_def split: option.split)
  show ?thesis unfolding updateService_def by (intro written keeps_intro)
qed

interpretation offers: all_free E offers_ok for E
proof unfold_locales
  show "keeps offers_ok (assignRole u ''USER'')" for u
    by (rule role_assigned_beside; rule offers_ignores; simp add: table_defs)
  show "keeps offers_ok (createWalletWithBonus E u)" for u
    by (rule wallet_opens_beside; rule offers_ignores; simp add: table_defs)
  show "keeps offers_ok (tryConsumeUnlock u ty)" for u ty
    unfolding tryConsumeUnlock_def by (intro keeps_intro offers_ignores; simp add: table_defs)
  show "keeps offers_ok (update_many FlashOfferUnlock P (\<lambda>f. f\<lparr>fo_consumedAt := Some t\<rparr>))"
    "keeps offers_ok (delete_many ShareLink Q)" for P t Q
    by (intro keeps_intro offers_ignores; simp add: table_defs)+
qed (fact offers_service | rule offers_ignores; simp add: table_defs)+

lemma books_ignores:
  "ignores (books_ok E) T" if "\<And>g d. wallets (set_rows T g d) = wallets d"
    "\<And>g d. walletTransactions (set_rows T g d) = walletTransactions d"
    "\<And>g d. creditReservations (set_rows T g d) = creditReservations d" "\<And>g d. readings (set_rows T g d) = readings d"
    "\<And>g d. orders (set_rows T g d) = orders d" "\<And>g d. payments (set_rows T g d) = payments d"
    "\<And>g d. services (set_rows T g d) = services d" "\<And>g d. creditPackages (set_rows T g d) = creditPackages d"
  using offers_ignores [of T] money_ignores [of T] charges_ignores [of T] that by (simp add: ignores_def books_ok_def)

lemma books_wallet: "keeps (books_ok E) (createWalletWithBonus E u)"
proof (rule keeps_books)
  fix w r w' assume inv: "books_ok E (db w)" and run: "createWalletWithBonus E u w = (r, w')"
  then have "keeps money_inv (createWalletWithBonus E u)"
    by (intro keeps_money create_wallet_keeps payment_wallet_ops) (simp add: books_ok_def)
  with inv run show "money_inv (db w')" unfolding books_ok_def by (blast intro: keepsD_run)
next
  show "keeps (charges_but None) (createWalletWithBonus E u)"
    by (rule wallet_opens_beside; rule charges_ignores; simp add: table_defs)
qed (fact offers.newcomer_wallet)

lemma books_service: "(\<And>n. upd_creditCost data = Some n \<Longrightarrow> 0 \<le> n) \<Longrightarrow> keeps (books_ok E) (updateService E' i data)"
proof (rule keeps_books)
  have "keeps money_inv (updateService E' i data)" "keeps (charges_but None) (updateService E' i data)"
    unfolding updateService_def by (intro keeps_intro money_ignores charges_ignores; simp add: table_defs)+
  then show "keeps (charges_but None) (updateService E' i data)"
    "books_ok E (db w) \<Longrightarrow> updateService E' i data w = (r, w') \<Longrightarrow> money_inv (db w')" for w r w'
    unfolding books_ok_def by (blast intro: keepsD_run)+
qed (rule offers_service)

interpretation books: rewards_free E "books_ok E" for E
proof unfold_locales
  show "keeps (books_ok E) (assignRole u ''USER'')" for u
    by (rule role_assigned_beside; rule books_ignores; simp add: table_defs)
  show "keeps (books_ok E) (tryConsumeUnlock u ty)" for u ty
    unfolding tryConsumeUnlock_def by (intro keeps_intro books_ignores; simp add: table_defs)
qed (fact books_wallet | rule books_ignores; simp add: table_defs)+

interpretation books: links_free E "books_ok E" for E
  by unfold_locales (rule books_ignores; simp add: table_defs)+

interpretation books: catalogue_free E "books_ok E" for E
  by unfold_locales (fact books_service | rule books_ignores; simp add: table_defs)+

text \<open>The readings: written down, submitted, tried again, removed and worked on.\<close>

lemma books_reading_row:
  "keeps (books_ok E) (create Reading r)"
  "(\<And>r. r_id (f r) = r_id r \<and> (r_status (f r) = DRAFT \<longrightarrow> r_status r = DRAFT)) \<Longrightarrow> keeps (books_ok E) (update_row Reading P f)"
  "(\<And>r. r_id (f r) = r_id r \<and> (r_status (f r) = DRAFT \<longrightarrow> r_status r = DRAFT)) \<Longrightarrow> keeps (books_ok E) (update_many Reading P f)"
proof -
  have "ignores money_inv Reading" "ignores offers_ok Reading"
    by (rule money_ignores offers_ignores; simp add: table_defs)+
  then have "keeps money_inv (create Reading r)" "keeps offers_ok (create Reading r)" "keeps money_inv (update_row Reading P f)"
    "keeps offers_ok (update_row Reading P f)" "keeps money_inv (update_many Reading P f)" "keeps offers_ok (update_many Reading P f)"
    by (simp_all add: keeps_create keeps_update_row keeps_update_many)
  then show "keeps (books_ok E) (create Reading r)"
    "(\<And>r. r_id (f r) = r_id r \<and> (r_status (f r) = DRAFT \<longrightarrow> r_status r = DRAFT)) \<Longrightarrow> keeps (books_ok E) (update_row Reading P f)"
    "(\<And>r. r_id (f r) = r_id r \<and> (r_status (f r) = DRAFT \<longrightarrow> r_status r = DRAFT)) \<Longrightarrow> keeps (books_ok E) (update_many Reading P f)"
    by (simp_all add: books_parts charges_new_reading charges_readings)
qed

lemma books_submit: "keeps (books_ok E) (submit E' u i)"
proof (rule keeps_books)
  have "keeps payment_inv (charge_palm E' u i s)" "keeps payment_inv (charge_tarot E' u i s ds)" for s ds
    unfolding charge_palm_def charge_tarot_def create_draw_def tryConsumeUnlock_def
    by (intro keeps_intro payment_wallet_ops; simp add: ignores_def payment_inv_def purchases_def pays_out_def owners_def table_defs)+
  then have "keeps payment_inv (submit E' u i)" by (rule submit_keeps)
  with submit_priced [of E' u i] show "money_inv (db w')" if "books_ok E (db w)" "submit E' u i w = (r, w')" for w r w'
    using that unfolding books_ok_def money_inv_def priced_def offers_ok_def keeps_def by (metis snd_conv)
qed (rule offers.keeps_submit submit_keeps charges_charge)+

lemma books_remove: "keeps (books_ok E) (remove E' u i)"
proof (rule keepsI)
  fix w r w' assume inv: "books_ok E (db w)" and run: "remove E' u i w = (r, w')"
  have offers: "offers_ok (db w')"
    using inv keepsD_run [OF offers.keeps_reading_writes(4) _ run] by (simp add: books_ok_def)
  from remove_run [OF run] consider "db w' = db w"
    | x y w1 where "x \<in> set (readings (db w))" "r_id x = i" "r_status x = DRAFT" "db w1 = db w" "reading_delete i w1 = (Inr y, w')"
    by blast
  then show "books_ok E (db w')"
  proof cases
    case 2
    with inv have "charges_but None (db w') \<and> money_inv (db w')"
      by (intro delete_keeps [where w = w1]) (simp_all add: books_ok_def)
    with inv offers show ?thesis by (simp add: books_ok_def)
  qed (use inv in simp)
qed

lemma books_readings:
  "keeps (books_ok E) (readings_create E' u c)" "keeps (books_ok E) (retry E' u i)" "keeps (books_ok E) (retryAsAdmin E' i)"
  unfolding readings_create_def retry_def retryAsAdmin_def performRetry_def tarotRetryJobId_def palmRetryJobId_def
  by (intro books_reading_row keeps_intro; simp)+

lemma books_settle: "keeps (books_ok E) (confirmConsumption E' i)" "keeps (books_ok E) (releaseReservation E' i)"
proof -
  have "keeps money_inv (confirmConsumption E' i)" "keeps money_inv (releaseReservation E' i)"
    by (intro keeps_money confirm_keeps release_keeps payment_wallet_ops)+
  then show "keeps (books_ok E) (confirmConsumption E' i)" "keeps (books_ok E) (releaseReservation E' i)"
    by (simp_all add: books_parts offers.keeps_wallet_moves charges_settle)
qed

lemma books_deliver: "keeps (books_ok E) (deliver E' A d)"
proof -
  have finish: "keeps (books_ok E) (finish_reading E' i v x)" for i v x
    unfolding finish_reading_def by (intro books_reading_row books_settle keeps_intro) (simp add: result_status_def)
  have "keeps (books_ok E) (tarot_processReading E' A i)" "keeps (books_ok E) (palm_processReading E' A i)" for i
    unfolding tarot_processReading_def palm_processReading_def start_reading_def request_image_def Let_def
    by (intro books_reading_row finish keeps_intro books.beside; simp)+
  then have "keeps (books_ok E) (reading_process E' A j)" for j
    unfolding reading_process_cases by (intro keeps_intro)
  moreover have "keeps (books_ok E) (reading_onFailed E' j n m)" for j n m
    unfolding reading_onFailed_def Let_def by (intro books_reading_row books_settle keeps_intro; simp)
  ultimately show ?thesis by (cases d) simp_all
qed

text \<open>The orders, the payments and the adjustments.\<close>

lemma books_orders: "keeps (books_ok E) (orders_create E' u c)" "keeps (books_ok E) (createCheckoutIntent E' P u k)"
proof -
  show "keeps (books_ok E) (orders_create E' u c)"
    by (rule keeps_books) (use orders_create_keeps_money in \<open>auto simp: books_ok_def offers_ok_def intro: charges_orders offers.keeps_orders\<close>)
  show "keeps (books_ok E) (createCheckoutIntent E' P u k)"
    by (rule keeps_books) (use checkout_keeps_money in \<open>auto simp: books_ok_def intro: charges_orders offers.keeps_orders\<close>)
qed

lemma books_payments:
  assumes "payment_provider P"
  shows "keeps (books_ok E) (handleWebhook E' P body)" "keeps (books_ok E) (confirmFromReturn E' P u k t)"
proof -
  have "keeps offers_ok (handleWebhook E' P body)" "keeps offers_ok (confirmFromReturn E' P u k t)"
    unfolding handleWebhook_def confirmFromReturn_def
    by (intro keeps_intro payment_provider.webhook_prepare_keeps [OF assms] payment_provider.return_prepare_keeps [OF assms]
        offers.keeps_settling offers.shop_beside)+
  then show "keeps (books_ok E) (handleWebhook E' P body)" "keeps (books_ok E) (confirmFromReturn E' P u k t)"
    by (simp_all add: books_parts payment_provider.payments_keep_money [OF assms] payment_provider.charges_payments [OF assms])
qed

lemma books_adjust: "keeps (books_ok E) (adjustBalance E' u a why actor)"
proof -
  have "keeps money_inv (adjustBalance E' u a why actor)"
    by (intro keeps_money adjust_keeps payment_wallet_ops)
  moreover have "keeps (charges_but None) (adjustBalance E' u a why actor)"
    unfolding adjustBalance_def ledger_create_def audit_record_def by (intro charges_intro; simp add: table_defs)
  ultimately show ?thesis
    by (simp add: books_parts offers.keeps_adjust)
qed

interpretation books: api_invariant E "books_ok E" for E
proof unfold_locales
  show "keeps (books_ok E) (readings_controller E rq u r1)" for rq u r1
    by (cases r1) (simp_all only: readings_controller.simps,
      (intro keeps_intro books.keeps_images books_submit books_readings books_remove)+)
  show "keeps (books_ok E) (orders_controller E rq u r4)" for rq u r4
    by (cases r4) (simp_all only: orders_controller.simps, (intro keeps_intro books_orders)+)
  show "keeps (books_ok E) (payments_controller E P rq u r5)" "keeps (books_ok E) (wompi_webhook_controller E P rq)"
    if "payment_provider P" for P rq u r5
  proof -
    show "keeps (books_ok E) (payments_controller E P rq u r5)"
      by (cases r5) (simp_all only: payments_controller.simps, (intro keeps_intro books_orders books_payments [OF that])+)
    show "keeps (books_ok E) (wompi_webhook_controller E P rq)"
      unfolding wompi_webhook_controller_def by (intro keeps_intro books_payments [OF that])
  qed
  show "keeps (books_ok E) (admin_readings_controller E rq u q2)" for rq u q2
    by (cases q2) (simp_all only: admin_readings_controller.simps, (intro keeps_intro books.keeps_audited books_readings)+)
  show "keeps (books_ok E) (admin_wallet_controller E rq u)" for rq u
    unfolding admin_wallet_controller_def by (intro keeps_intro books_adjust)
  show "keeps (books_ok E) (rewards_callback E rq prov)" for rq prov
    unfolding rewards_callback_def by (intro keeps_intro books.keeps_callback)
qed (fact books.keeps_share_controller books.keeps_rewards_controller books.keeps_prompts_controller books.keeps_services_controller)+

end
