(* ===== verification/ServerLaws.thy ===== *)
theory ServerLaws
  imports Indifference
begin

text \<open>
  What the interface guarantees whatever is sent to it: who may call what, that nobody but an administrator changes the
  catalogue, that no request makes an administrator, and that what administrators change is written down.
\<close>

section \<open>Sessions\<close>

text \<open>The request carries an access token of this user that is valid at some time, and the account is active.\<close>

definition signed_in :: "env \<Rightarrow> request \<Rightarrow> world \<Rightarrow> user \<Rightarrow> bool" where
  "signed_in E rq w u =
     (u \<in> set (users (db w)) \<and> u_status u = ACTIVE_USER \<and>
      (\<exists>token now. getCookie rq ACCESS_TOKEN_COOKIE = Some token \<and> e_verifyAccess E token now = Some (u_id u)))"

definition has_role :: "string \<Rightarrow> string \<Rightarrow> database \<Rightarrow> bool" where
  "has_role code userId d = (\<exists>x \<in> set (userRoles d). ur_userId x = userId \<and> (\<exists>r \<in> set (roles d). ro_id r = ur_roleId x \<and> ro_code r = code))"

fun may_call :: "access \<Rightarrow> env \<Rightarrow> request \<Rightarrow> world \<Rightarrow> bool" where
  "may_call Public E rq w = True"
| "may_call SignedIn E rq w = (\<exists>u. signed_in E rq w u)"
| "may_call Administrator E rq w = (\<exists>u. signed_in E rq w u \<and> has_role ''ADMIN'' (u_id u) (db w))"

text \<open>Nothing but the clock has been used.\<close>

definition idle :: "world \<Rightarrow> world \<Rightarrow> bool" where
  "idle w w' = (\<exists>n. w' = w\<lparr>ticks := n\<rparr>)"

lemma idle_refl [simp]: "idle w w" "idle w (w\<lparr>ticks := n\<rparr>)"
  unfolding idle_def by (rule exI [of _ "ticks w"], simp) blast

lemma idle_trans: "idle w w1 \<Longrightarrow> idle w1 w2 \<Longrightarrow> idle w w2"
  by (auto simp: idle_def)

lemma idle_db: "idle w w' \<Longrightarrow> db w' = db w"
  by (auto simp: idle_def)

lemma find_or_throw_pure: "find_or_throw T P w = (r, w') \<Longrightarrow> w' = w \<and> (\<forall>e. r = Inl e \<longrightarrow> e = RecordNotFound)"
  by (auto simp: find_or_throw_run split: option.splits)

lemma roles_found:
  assumes "map_each (\<lambda>x. find_or_throw Role (\<lambda>r. ro_id r = ur_roleId x)) xs w = (r, w')"
  shows "w' = w \<and> (\<forall>e. r = Inl e \<longrightarrow> e = RecordNotFound) \<and>
    (\<forall>rs. r = Inr rs \<longrightarrow> (\<forall>y \<in> set rs. y \<in> set (roles (db w)) \<and> (\<exists>x \<in> set xs. ro_id y = ur_roleId x)))"
  using assms
proof (induction xs arbitrary: r w')
  case (Cons x xs)
  let ?f = "\<lambda>x. find_or_throw Role (\<lambda>r. ro_id r = ur_roleId x)"
  obtain z w2 where z: "map_each ?f xs w = (z, w2)" by (cases "map_each ?f xs w")
  note rest = Cons.IH [OF z]
  show ?case
  proof (cases "find (\<lambda>r. ro_id r = ur_roleId x) (roles (db w))")
    case None
    then have "?f x w = (Inl RecordNotFound, w)" by (simp add: find_or_throw_run Role_def)
    with Cons.prems show ?thesis by (auto simp: await_def)
  next
    case (Some role)
    then have "?f x w = (Inr role, w)" by (simp add: find_or_throw_run Role_def)
    with Cons.prems z rest find_SomeD [OF Some] show ?thesis by (cases z) (auto simp: await_def)
  qed
qed simp

lemma find_user_found:
  assumes "find_user p w = (r, w')"
  shows "w' = w \<and> (\<forall>e. r = Inl e \<longrightarrow> e = RecordNotFound) \<and>
    (\<forall>u rs. r = Inr (Some (u, rs)) \<longrightarrow> u \<in> set (users (db w)) \<and> p u \<and> (\<forall>c \<in> ro_code ` set rs. has_role c (u_id u) (db w)))"
proof (cases "find p (users (db w))")
  case None
  with assms show ?thesis by (auto simp: find_user_def await_def User_def)
next
  case (Some u)
  let ?xs = "filter (\<lambda>x. ur_userId x = u_id u) (userRoles (db w))"
  obtain z w2 where z: "map_each (\<lambda>x. find_or_throw Role (\<lambda>r. ro_id r = ur_roleId x)) ?xs w = (z, w2)"
    by (cases "map_each (\<lambda>x. find_or_throw Role (\<lambda>r. ro_id r = ur_roleId x)) ?xs w")
  have "find_user p w = (case z of Inl e \<Rightarrow> (Inl e, w2) | Inr rs \<Rightarrow> (Inr (Some (u, rs)), w2))"
    using Some z by (simp add: find_user_def with_roles_def await_def User_def UserRole_def split: sum.split)
  moreover have "\<forall>rs. z = Inr rs \<longrightarrow> (\<forall>c \<in> ro_code ` set rs. has_role c (u_id u) (db w))"
    using roles_found [OF z] unfolding has_role_def by fastforce
  ultimately show ?thesis
    using assms roles_found [OF z] find_SomeD [OF Some] by (cases z) auto
qed

lemma jwt_run:
  assumes "jwt_canActivate E (getCookie rq ACCESS_TOKEN_COOKIE) w = (r, w')"
  shows "idle w w' \<and> (\<forall>e. r = Inl e \<longrightarrow> error_status e \<in> {401, 500}) \<and>
    (\<forall>a. r = Inr a \<longrightarrow> (\<exists>u. signed_in E rq w u \<and> aun_id a = u_id u \<and> (\<forall>c \<in> set (aun_roles a). has_role c (u_id u) (db w))))"
proof (cases "getCookie rq ACCESS_TOKEN_COOKIE")
  case None
  with assms show ?thesis by (auto simp: jwt_canActivate_def)
next
  case (Some token)
  let ?w1 = "w\<lparr>ticks := Suc (ticks w)\<rparr>" and ?now = "e_clock E (ticks w)"
  show ?thesis
  proof (cases "token = [] \<or> e_verifyAccess E token ?now = None")
    case True
    with assms Some show ?thesis by (auto simp: jwt_canActivate_def await_def split: if_splits)
  next
    case False
    then obtain sub where sub: "e_verifyAccess E token ?now = Some sub" "token \<noteq> []" by auto
    obtain z w2 where z: "find_user (\<lambda>u. u_id u = sub) ?w1 = (z, w2)" by (cases "find_user (\<lambda>u. u_id u = sub) ?w1")
    note found = find_user_found [OF z]
    show ?thesis
    proof (cases z)
      case (Inl e)
      with assms Some sub z found show ?thesis by (auto simp: jwt_canActivate_def findById_def await_def)
    next
      case (Inr y)
      with assms Some sub z found show ?thesis
        by (cases y) (auto simp: jwt_canActivate_def findById_def await_def signed_in_def split: if_splits,
          metis)
    qed
  qed
qed

section \<open>Who may call what\<close>

lemma with_session_run:
  assumes "with_session E rq k w = (r, w')"
  shows "(\<exists>u a w1. signed_in E rq w u \<and> aun_id a = u_id u \<and> (\<forall>c \<in> set (aun_roles a). has_role c (u_id u) (db w)) \<and>
      idle w w1 \<and> k a w1 = (r, w')) \<or> (idle w w' \<and> (\<exists>e. r = Inl e \<and> error_status e \<in> {401, 500}))"
proof -
  obtain z w1 where z: "jwt_canActivate E (getCookie rq ACCESS_TOKEN_COOKIE) w = (z, w1)"
    by (cases "jwt_canActivate E (getCookie rq ACCESS_TOKEN_COOKIE) w")
  show ?thesis
  proof (cases z)
    case (Inr a)
    with assms z have "k a w1 = (r, w')" by (simp add: with_session_def await_def)
    with jwt_run [OF z] Inr show ?thesis by blast
  qed (use assms z jwt_run [OF z] in \<open>auto simp: with_session_def await_def\<close>)
qed

lemma with_admin_run:
  assumes "with_admin E rq k w = (r, w')"
  shows "(\<exists>u a w1. signed_in E rq w u \<and> aun_id a = u_id u \<and> has_role ''ADMIN'' (u_id u) (db w) \<and> idle w w1 \<and> k a w1 = (r, w')) \<or>
    (idle w w' \<and> (\<exists>e. r = Inl e \<and> error_status e \<in> {401, 403, 500}))"
proof -
  from assms [unfolded with_admin_def, THEN with_session_run] consider
    u a w1 where "signed_in E rq w u" "aun_id a = u_id u" "\<forall>c \<in> set (aun_roles a). has_role c (u_id u) (db w)" "idle w w1"
      "andthen (roles_canActivate (Some [''ADMIN'']) (Some a)) (k a) w1 = (r, w')"
  | "idle w w'" "\<exists>e. r = Inl e \<and> error_status e \<in> {401, 500}" by blast
  then show ?thesis
  proof cases
    case 1
    show ?thesis
    proof (cases "''ADMIN'' \<in> set (aun_roles a)")
      case True
      with 1 have "k a w1 = (r, w')" "has_role ''ADMIN'' (u_id u) (db w)"
        by (auto simp: roles_canActivate_def andthen_def await_def)
      with 1 show ?thesis by blast
    next
      case False
      with 1 show ?thesis by (auto simp: roles_canActivate_def andthen_def await_def)
    qed
  qed blast
qed

lemma guard_run:
  assumes "\<not> may_call (access_of ep) (pf_env S) rq w" "route_to S rq ep w = (r, w')"
  shows "idle w w' \<and> (\<exists>e. r = Inl e \<and> error_status e \<in> {401, 403, 500})"
proof -
  consider k where "access_of ep = SignedIn" "route_to S rq ep = with_session (pf_env S) rq k"
    | k where "access_of ep = Administrator" "route_to S rq ep = with_admin (pf_env S) rq k"
    using assms(1)
  proof (cases ep)
    case (Auth x)
    with assms(1) that show ?thesis by (cases x) auto
  qed auto
  then show ?thesis
  proof cases
    case 1
    with assms with_session_run [of "pf_env S" rq k w r w'] show ?thesis by fastforce
  next
    case 2
    with assms with_admin_run [of "pf_env S" rq k w r w'] show ?thesis by fastforce
  qed
qed

lemma guard_rejects:
  assumes "\<not> may_call (access_of ep) (pf_env S) rq w" "handle S rq ep w = (res, w')"
  shows "rs_status res \<in> {401, 403, 429, 500} \<and> rs_body res = None \<and> rs_cookies res = [] \<and> idle w w'"
proof -
  let ?w1 = "w\<lparr>ticks := Suc (ticks w)\<rparr>"
  obtain r where r: "serve_request S rq ep w = (r, w')" and res: "res = respond ep r"
    using assms(2) by (auto simp: handle_def split: prod.splits)
  have guard: "throttler_guard S rq ep w = (Inl ThrottlerException, ?w1) \<or> throttler_guard S rq ep w = (Inr (), ?w1)"
    by (auto simp: throttler_guard_def await_def split: prod.split)
  have closed: "\<not> may_call (access_of ep) (pf_env S) rq ?w1"
    using assms(1) by (cases "access_of ep") (auto simp: signed_in_def)
  from guard r consider "r = Inl ThrottlerException" "w' = ?w1" | "route_to S rq ep ?w1 = (r, w')"
    by (auto simp: serve_request_def andthen_def await_def)
  then show ?thesis
  proof cases
    case 1
    then show ?thesis by (auto simp: res respond_def idle_def)
  next
    case 2
    from guard_run [OF closed 2] idle_trans [of w ?w1 w'] show ?thesis by (auto simp: res respond_def)
  qed
qed


text \<open>A small office: an administrator, a client, and one service.\<close>

definition account :: "string \<Rightarrow> user" where
  "account name = \<lparr>u_id = name, u_email = name @ ''@x'', u_name = name, u_passwordHash = ''pw#'', u_status = ACTIVE_USER,
     u_emailVerifiedAt = None, u_createdAt = 0, u_deletedAt = None\<rparr>"

definition office :: world where
  "office = empty_world\<lparr>db := empty_database\<lparr>users := [account ''adm'', account ''ana''],
     roles := [\<lparr>ro_id = ''r1'', ro_code = ''USER'', ro_name = []\<rparr>, \<lparr>ro_id = ''r2'', ro_code = ''ADMIN'', ro_name = []\<rparr>],
     userRoles := [\<lparr>ur_userId = ''adm'', ur_roleId = ''r2''\<rparr>, \<lparr>ur_userId = ''ana'', ur_roleId = ''r1''\<rparr>],
     services := [\<lparr>s_id = ''s'', s_code = ''TAROT_3'', s_name = [], s_description = None, s_creditCost = 3, s_isActive = True,
       s_createdAt = 0, s_updatedAt = 0\<rparr>]\<rparr>\<rparr>"

definition example_platform :: platform where
  "example_platform = \<lparr>pf_env = example_env, pf_payments = wompi example_env (\<lambda>_ _. HttpThrows) ''https://wompi'',
     pf_ai = AiOrchestrator.example_provider, pf_admits = (\<lambda>_ _ _ _ _. True)\<rparr>"

definition new_price_request :: "string \<Rightarrow> request" where
  "new_price_request token = \<lparr>rq_ip = ''1.2.3.4'', rq_cookies = [(ACCESS_TOKEN_COOKIE, token)],
     rq_body = Some (JObject [(''reason'', JString ''spring sale''), (''creditCost'', JNumber 2)]), rq_query = []\<rparr>"


section \<open>The catalogue\<close>

text \<open>What is on offer: services and their forms, the deck, the spreads, the prompts and the credit packages.\<close>

definition catalogue ::
  "database \<Rightarrow> service list \<times> serviceForm list \<times> tarotDeck list \<times> tarotCard list \<times> tarotSpread list \<times> spreadPosition list \<times>
     promptRow list \<times> promptVersion list \<times> creditPackage list" where
  "catalogue d = (services d, serviceForms d, tarotDecks d, tarotCards d, tarotSpreads d, spreadPositions d, prompts d,
     promptVersions d, creditPackages d)"

interpretation catalogue_fixed: public_free E "\<lambda>d. catalogue d = C" for E C
proof unfold_locales
  show "keeps (\<lambda>d. catalogue d = C) (assignRole u ''USER'')" for u
    by (rule role_assigned_beside) (simp add: ignores_def catalogue_def UserRole_def)
  show "keeps (\<lambda>d. catalogue d = C) (createWalletWithBonus E u)" for u
    by (rule wallet_opens_beside) (simp_all add: ignores_def catalogue_def table_defs)
  show "keeps (\<lambda>d. catalogue d = C) (tryConsumeUnlock u ty)" for u ty
    unfolding tryConsumeUnlock_def by (intro keeps_intro) (simp add: ignores_def catalogue_def table_defs)
  show "keeps (\<lambda>d. catalogue d = C) (update_many FlashOfferUnlock P (\<lambda>f. f\<lparr>fo_consumedAt := Some t\<rparr>))"
    "keeps (\<lambda>d. catalogue d = C) (delete_many ShareLink Q)" for P t Q
    by (intro keeps_intro; simp add: ignores_def catalogue_def table_defs)+
qed (simp_all add: ignores_def catalogue_def table_defs)

text \<open>The action under which a route of the administration is logged.\<close>

fun audit_action :: "endpoint \<Rightarrow> string option" where
  "audit_action (AdminPrompts POST_prompts) = Some ''prompt.create''"
| "audit_action (AdminPrompts (PATCH_prompt _)) = Some ''prompt.create_version''"
| "audit_action (AdminPrompts (POST_publish _)) = Some ''prompt.publish''"
| "audit_action (AdminReadings (POST_admin_retry _)) = Some ''reading.retry''"
| "audit_action (AdminServices (PATCH_service _)) = Some ''service.update''"
| "audit_action (AdminServices (POST_forms _)) = Some ''service.publish_form''"
| "audit_action AdminWallet = Some ''wallet.adjustment''"
| "audit_action _ = None"

lemma unlogged_routes:
  assumes "access_of ep = Administrator" "audit_action ep = None" "ignores I AIExecution"
  shows "keeps I (serve_request S rq ep)"
proof -
  have "keeps I (admin_prompts_controller E A rq u r)" if "audit_action (AdminPrompts r) = None" for E A u r
    using that by (cases r) (simp_all, (intro keeps_intro keeps_let assms(3))+)
  moreover have "keeps I (admin_readings_controller E rq u r)" if "audit_action (AdminReadings r) = None" for E u r
    using that by (cases r) (simp_all, (intro keeps_intro)+)
  moreover have "keeps I (admin_services_controller E rq u r)" if "audit_action (AdminServices r) = None" for E u r
    using that by (cases r) (simp_all, (intro keeps_intro)+)
  ultimately have "keeps I (route_to S rq ep)"
    using assms(1,2) by (cases ep) (auto split: if_splits intro!: keeps_intro)
  then show ?thesis
    unfolding serve_request_def throttler_guard_def by (intro keeps_intro; simp add: keeps_intro)
qed

text \<open>
  C10. Only a request of an administrator, to a route of the administration whose changes are logged, changes what is on
  offer.
\<close>

theorem only_admins_change_catalogue:
  assumes "handle S rq ep w = (res, w')" "pf_payments S = wompi (pf_env S) http apiUrl" "catalogue (db w') \<noteq> catalogue (db w)"
  shows "(\<exists>act. audit_action ep = Some act) \<and> (\<exists>u. signed_in (pf_env S) rq w u \<and> has_role ''ADMIN'' (u_id u) (db w))"
proof -
  have changed: "\<not> keeps (\<lambda>d. catalogue d = catalogue (db w)) (serve_request S rq ep)"
    using assms(1,3) by (auto simp: handle_def split: prod.splits dest: keepsD_run)
  with assms(2) have admin: "access_of ep = Administrator"
    using catalogue_fixed.keeps_client_route [OF refl, of S ep _ rq] wompi_provider.payment_provider_axioms by metis
  have "ignores (\<lambda>d. catalogue d = catalogue (db w)) AIExecution"
    by (simp add: ignores_def catalogue_def AIExecution_def)
  with changed admin have "audit_action ep \<noteq> None"
    using unlogged_routes by blast
  moreover have "may_call Administrator (pf_env S) rq w"
  proof (rule ccontr)
    assume "\<not> may_call Administrator (pf_env S) rq w"
    with admin guard_rejects [OF _ assms(1)] have "idle w w'" by simp
    with assms(3) show False by (simp add: idle_db)
  qed
  ultimately show ?thesis by auto
qed

lemma only_admins_change_catalogue_witness:
  "let w' = snd (handle example_platform (new_price_request ''a:adm'') (AdminServices (PATCH_service ''s'')) office) in
   map s_creditCost (services (db w')) = [2] \<and> (\<exists>u. signed_in example_env (new_price_request ''a:adm'') office u)"
proof -
  let ?x = "handle example_platform (new_price_request ''a:adm'') (AdminServices (PATCH_service ''s'')) office"
  have price: "map s_creditCost (services (db (snd ?x))) = [2]" "map s_creditCost (services (db office)) = [3]"
    by code_simp+
  then have "catalogue (db (snd ?x)) \<noteq> catalogue (db office)" by (auto simp: catalogue_def)
  from only_admins_change_catalogue [OF surjective_pairing _ this] price show ?thesis
    by (auto simp: example_platform_def Let_def)
qed

section \<open>Administrators\<close>

definition admins :: "database \<Rightarrow> string set" where
  "admins d = {u. has_role ''ADMIN'' u d}"

definition admins_are :: "string set \<Rightarrow> database \<Rightarrow> bool" where
  "admins_are A d = (distinct (map ro_id (roles d)) \<and> admins d = A)"

lemma admins_ignores:
  "ignores (admins_are A) T" if "\<And>g d. roles (set_rows T g d) = roles d" "\<And>g d. userRoles (set_rows T g d) = userRoles d"
  using that by (simp add: ignores_def admins_are_def admins_def has_role_def)

lemma member_no_admin: "keeps (admins_are A) (assignRole u ''USER'')"
proof (rule keepsI)
  fix w r w' assume inv: "admins_are A (db w)" and run: "assignRole u ''USER'' w = (r, w')"
  show "admins_are A (db w')"
  proof (cases "db w' = db w")
    case False
    then obtain x where x: "find (\<lambda>r. ro_code r = ''USER'') (roles (db w)) = Some x"
      and w': "db w' = (db w)\<lparr>userRoles := userRoles (db w) @ [\<lparr>ur_userId = u, ur_roleId = ro_id x\<rparr>]\<rparr>"
      using run by (auto simp: assignRole_def find_or_throw_run Role_def UserRole_def await_def andthen_def create_def
          split: option.splits if_splits)
    have "ro_code y \<noteq> ''ADMIN''" if "y \<in> set (roles (db w))" "ro_id y = ro_id x" for y
      using distinct_key_unique [of ro_id "roles (db w)" y x] that inv find_SomeD [OF x] by (auto simp: admins_are_def)
    then have "admins (db w') = admins (db w)"
      by (auto simp: w' admins_def has_role_def)
    with inv show ?thesis by (simp add: admins_are_def w')
  qed (use inv in \<open>simp add: admins_are_def admins_def\<close>)
qed

interpretation admins_fixed: all_free E "admins_are A" for E A
proof unfold_locales
  show "keeps (admins_are A) (assignRole u ''USER'')" for u
    by (rule member_no_admin)
  show "keeps (admins_are A) (createWalletWithBonus E u)" for u
    by (rule wallet_opens_beside; rule admins_ignores; simp add: table_defs)
  show "keeps (admins_are A) (tryConsumeUnlock u ty)" for u ty
    unfolding tryConsumeUnlock_def by (intro keeps_intro admins_ignores; simp add: table_defs)
  show "keeps (admins_are A) (update_many FlashOfferUnlock P (\<lambda>f. f\<lparr>fo_consumedAt := Some t\<rparr>))"
    "keeps (admins_are A) (delete_many ShareLink Q)" "keeps (admins_are A) (updateService E i data)" for P t Q i data
    unfolding updateService_def by (intro keeps_intro admins_ignores; simp add: table_defs)+
qed (rule admins_ignores; simp add: table_defs)+

text \<open>C8. No request, of whomever and to whatever route, makes an administrator or takes the role from one.\<close>

theorem no_request_makes_admin:
  assumes "handle S rq ep w = (res, w')" "pf_payments S = wompi (pf_env S) http apiUrl" "distinct (map ro_id (roles (db w)))"
  shows "has_role ''ADMIN'' u (db w') = has_role ''ADMIN'' u (db w)"
proof -
  have "admins_are (admins (db w)) (db w')"
    by (rule admins_fixed.keeps_handle [OF refl _ _ assms(1)])
      (simp_all add: assms(2,3) admins_are_def wompi_provider.payment_provider_axioms)
  then show ?thesis by (auto simp: admins_are_def admins_def)
qed

lemma no_request_makes_admin_witness:
  "\<not> has_role ''ADMIN'' ''ana'' (db (snd (handle example_platform (new_price_request ''a:ana'') AdminWallet office)))"
proof -
  have "distinct (map ro_id (roles (db office)))" by code_simp
  from no_request_makes_admin [OF surjective_pairing _ this, of example_platform] show ?thesis
    by (auto simp: example_platform_def has_role_def office_def)
qed

section \<open>The log of the administration\<close>

text \<open>A program that leaves the log alone, and one that adds exactly one entry, of which \<open>P\<close> holds, when it succeeds.\<close>

definition unlogged :: "(world, 'a) prog \<Rightarrow> bool" where
  "unlogged m = (\<forall>L. keeps (\<lambda>d. auditLogs d = L) m)"

definition logs :: "(auditLog \<Rightarrow> bool) \<Rightarrow> (world, 'a) prog \<Rightarrow> bool" where
  "logs P m = (\<forall>w x w'. m w = (Inr x, w') \<longrightarrow> (\<exists>l. auditLogs (db w') = auditLogs (db w) @ [l] \<and> P l))"

named_theorems logs_intro "rules that carry one entry of the log through a program"

lemma unloggedI: "(\<And>L. keeps (\<lambda>d. auditLogs d = L) m) \<Longrightarrow> unlogged m"
  by (simp add: unlogged_def)

lemma unlogged_run: "unlogged m \<Longrightarrow> m w = (r, w') \<Longrightarrow> auditLogs (db w') = auditLogs (db w)"
  by (auto simp: unlogged_def dest: keepsD_run)

lemma logs_run: "logs P m \<Longrightarrow> m w = (Inr x, w') \<Longrightarrow> \<exists>l. auditLogs (db w') = auditLogs (db w) @ [l] \<and> P l"
  by (simp add: logs_def)

lemma logs_after [logs_intro]: "unlogged m \<Longrightarrow> (\<And>x. logs P (k x)) \<Longrightarrow> logs P (await m k)"
  unfolding logs_def await_Inr_iff by (metis unlogged_run)

lemma logs_after' [logs_intro]: "unlogged m \<Longrightarrow> logs P k \<Longrightarrow> logs P (andthen m k)"
  unfolding andthen_def by (rule logs_after)

lemma logs_before: "logs P m \<Longrightarrow> logs P (andthen m (ret x))"
  by (auto simp: logs_def andthen_Inr_iff)

lemma logs_branch [logs_intro]:
  "logs P (throw e)" "(c \<Longrightarrow> logs P m) \<Longrightarrow> (\<not> c \<Longrightarrow> logs P k) \<Longrightarrow> logs P (if c then m else k)"
  "logs P k \<Longrightarrow> (\<And>y. logs P (h y)) \<Longrightarrow> logs P (case z of None \<Rightarrow> k | Some y \<Rightarrow> h y)" "logs P m \<Longrightarrow> logs P (transaction m)"
  by (auto simp: logs_def transaction_Inr_iff split: option.split)

lemma logs_entry: "logs (\<lambda>l. al_actorUserId l = Some a \<and> al_action l = act \<and> al_reason l = why) (audit_record E a act why tt ti md)"
  by (auto simp: logs_def audit_record_def prog_inv create_Inr_iff AuditLog_def)

interpretation log_fixed: public_free E "\<lambda>d. auditLogs d = L" for E L
proof unfold_locales
  show "keeps (\<lambda>d. auditLogs d = L) (assignRole u ''USER'')" for u
    by (rule role_assigned_beside) (simp add: ignores_def UserRole_def)
  show "keeps (\<lambda>d. auditLogs d = L) (createWalletWithBonus E u)" for u
    by (rule wallet_opens_beside) (simp_all add: ignores_def table_defs)
  show "keeps (\<lambda>d. auditLogs d = L) (tryConsumeUnlock u ty)" for u ty
    unfolding tryConsumeUnlock_def by (intro keeps_intro) (simp add: ignores_def table_defs)
  show "keeps (\<lambda>d. auditLogs d = L) (update_many FlashOfferUnlock P (\<lambda>f. f\<lparr>fo_consumedAt := Some t\<rparr>))"
    "keeps (\<lambda>d. auditLogs d = L) (delete_many ShareLink Q)" for P t Q
    by (intro keeps_intro; simp add: ignores_def table_defs)+
qed (simp_all add: ignores_def table_defs)

interpretation log_fixed: catalogue_writes E "\<lambda>d. auditLogs d = L" for E L
proof unfold_locales
  show "keeps (\<lambda>d. auditLogs d = L) (updateService E i data)" for i data
    unfolding updateService_def by (intro keeps_intro; simp add: ignores_def table_defs)
qed (simp_all add: ignores_def table_defs)

definition entry_of :: "string \<Rightarrow> string \<Rightarrow> auditLog \<Rightarrow> bool" where
  "entry_of actor act l = (al_actorUserId l = Some actor \<and> al_action l = act \<and> 3 \<le> length (al_reason l) \<and> length (al_reason l) \<le> 500)"

lemma logs_body [logs_intro]: "(\<And>obj. valid_for E dto obj \<Longrightarrow> logs P (k obj)) \<Longrightarrow> logs P (body_of E dto rq k)"
  unfolding logs_def body_of_def await_Inr_iff using pipe_run(1) by metis

lemma logs_reply [logs_intro]: "logs P m \<Longrightarrow> logs P (reply_with f m)"
  by (auto simp: logs_def reply_with_def await_Inr_iff)

lemma logs_weaken: "logs P m \<Longrightarrow> (\<And>l. P l \<Longrightarrow> Q l) \<Longrightarrow> logs Q m"
  unfolding logs_def by metis

lemma reason_length:
  assumes "valid_for E dto obj" "set reason_property \<subseteq> set dto"
  shows "3 \<le> length (text_of obj ''reason'') \<and> length (text_of obj ''reason'') \<le> 500"
proof -
  have "(''reason'', [IsString, MinLength 3, MaxLength 500]) \<in> set dto"
    using assms(2) by (simp add: reason_property_def)
  with assms(1) have "property_ok E [IsString, MinLength 3, MaxLength 500] (map_of obj ''reason'')"
    unfolding valid_for_def by blast
  then show ?thesis
    by (auto simp: property_ok_def text_of_def text_such_def split: option.splits json.splits)
qed

lemma logs_reason:
  assumes "valid_for E dto obj" "set reason_property \<subseteq> set dto"
  shows "logs (entry_of a act) (audit_record E' a act (text_of obj ''reason'') tt ti md)"
  by (rule logs_weaken [OF logs_entry]) (simp add: entry_of_def reason_length [OF assms])

lemma logs_audited:
  assumes "unlogged m" "valid_for E dto obj" "set reason_property \<subseteq> set dto"
  shows "logs (entry_of (aun_id a) act) (audited E' a act tt ti (text_of obj ''reason'') md f m)"
  unfolding audited_def by (intro logs_after assms(1) logs_before logs_reason [OF assms(2,3)])

lemma logs_adjust:
  assumes "valid_for E dto obj" "set reason_property \<subseteq> set dto"
  shows "logs (entry_of actor ''wallet.adjustment'') (adjustBalance E' u n (text_of obj ''reason'') actor)"
  unfolding adjustBalance_def ledger_create_def
  by (intro logs_intro logs_before logs_reason [OF assms] unloggedI keeps_intro log_fixed.shop_beside)

lemma logged_route:
  assumes "audit_action ep = Some act"
  obtains k where "route_to S rq ep = with_admin (pf_env S) rq k" "\<And>a. logs (entry_of (aun_id a) act) (k a)"
proof -
  note bodies = createPromptDto_def createPromptVersionDto_def publishPromptDto_def retryReadingDto_def updateServiceDto_def
    publishServiceFormDto_def adjustWalletDto_def
  have prompts: "logs (entry_of (aun_id a) act) (admin_prompts_controller E A rq a r)" if "audit_action (AdminPrompts r) = Some act" for E A a r
    using that by (cases r) (auto simp: bodies intro!: logs_intro logs_audited unloggedI log_fixed.keeps_prompt_writes)
  have readings: "logs (entry_of (aun_id a) act) (admin_readings_controller E rq a r)" if "audit_action (AdminReadings r) = Some act" for E a r
    using that by (cases r) (auto simp: bodies intro!: logs_intro logs_audited unloggedI log_fixed.keeps_reading_writes)
  have services: "logs (entry_of (aun_id a) act) (admin_services_controller E rq a r)" if "audit_action (AdminServices r) = Some act" for E a r
    using that by (cases r) (auto simp: bodies intro!: logs_intro logs_audited unloggedI log_fixed.keeps_service_writes)
  have wallet: "logs (entry_of (aun_id a) ''wallet.adjustment'') (admin_wallet_controller E rq a)" for E a
    by (auto simp: bodies admin_wallet_controller_def intro!: logs_intro logs_adjust)
  show thesis
    using assms that prompts readings services wallet by (cases ep) auto
qed

text \<open>
  C9. A change an administrator makes is logged: a successful request to a route with an action adds exactly one entry to
  the log, with the signed-in administrator, the action, and a reason of 3 to 500 characters.
\<close>

theorem admin_changes_logged:
  assumes "handle S rq ep w = (res, w')" "audit_action ep = Some act" "rs_body res \<noteq> None"
  shows "\<exists>u l. signed_in (pf_env S) rq w u \<and> has_role ''ADMIN'' (u_id u) (db w) \<and>
    auditLogs (db w') = auditLogs (db w) @ [l] \<and> entry_of (u_id u) act l"
proof -
  obtain p where "serve_request S rq ep w = (Inr p, w')"
    using assms(1,3) by (auto simp: handle_def respond_def split: prod.splits sum.splits)
  then obtain w1 where w1: "throttler_guard S rq ep w = (Inr (), w1)" and route: "route_to S rq ep w1 = (Inr p, w')"
    by (auto simp: serve_request_def prog_inv)
  have w1_eq: "w1 = w\<lparr>ticks := Suc (ticks w)\<rparr>"
    using w1 by (auto simp: throttler_guard_def await_def split: prod.splits if_splits)
  obtain k where k: "route_to S rq ep = with_admin (pf_env S) rq k" "\<And>a. logs (entry_of (aun_id a) act) (k a)"
    using logged_route [OF assms(2)] by metis
  from with_admin_run [OF route [unfolded k(1)]] obtain u a w2 where u: "signed_in (pf_env S) rq w1 u" "aun_id a = u_id u"
    "has_role ''ADMIN'' (u_id u) (db w1)" "idle w1 w2" "k a w2 = (Inr p, w')" by blast
  from logs_run [OF k(2) u(5)] u show ?thesis
    by (auto simp: w1_eq signed_in_def idle_db)
qed

lemma admin_changes_logged_witness:
  "\<exists>l. auditLogs (db (snd (handle example_platform (new_price_request ''a:adm'') (AdminServices (PATCH_service ''s'')) office))) = [l] \<and>
     al_action l = ''service.update''"
proof -
  let ?x = "handle example_platform (new_price_request ''a:adm'') (AdminServices (PATCH_service ''s'')) office"
  have "rs_status (fst ?x) = 200 \<and> rs_body (fst ?x) \<noteq> None \<and> auditLogs (db office) = []" by code_simp
  with admin_changes_logged [OF surjective_pairing, of "AdminServices (PATCH_service ''s'')" "''service.update''"
      example_platform "new_price_request ''a:adm''" office]
  show ?thesis by (auto simp: entry_of_def)
qed

end
