(* ===== verification/Platform.thy ===== *)
theory Platform
  imports Bookkeeping ServerLaws WalletProperties
begin

text \<open>
  The platform as a state machine: requests, jobs of the workers, the nightly cleaning and deployments come in any order,
  and between them the queue, the cache, the object storage and the clock may change. What holds in every reachable
  state follows by induction over the steps, from what the components keep.
\<close>

section \<open>The steps\<close>

inductive platform_step :: "platform \<Rightarrow> world \<Rightarrow> world \<Rightarrow> bool" for S where
  Request: "handle S rq ep w = (res, w') \<Longrightarrow> platform_step S w w'"
| ReadingJob: "deliver (pf_env S) (pf_ai S) d w = (r, w') \<Longrightarrow> platform_step S w w'"
| ImageJob: "validateImage (pf_env S) (pf_ai S) i w = (r, w') \<Longrightarrow> platform_step S w w'"
| ImageJobFailed: "image_onFailed i n m w = (r, w') \<Longrightarrow> platform_step S w w'"
| ShareJob: "generateImage (pf_env S) i w = (r, w') \<Longrightarrow> platform_step S w w'"
| ShareJobFailed: "share_onFailed i n m w = (r, w') \<Longrightarrow> platform_step S w w'"
| CleanUp: "deleteExpiredImages (pf_env S) w = (r', w') \<Longrightarrow> platform_step S w w'"
| Seeding: "seed_main sys (pf_env S) node w = (r, w') \<Longrightarrow> platform_step S w w'"
| Elsewhere: "db w' = db w \<Longrightarrow> platform_step S w w'"

inductive reachable :: "platform \<Rightarrow> world \<Rightarrow> bool" for S where
  Fresh: "db w = empty_database \<Longrightarrow> reachable S w"
| Step: "reachable S w \<Longrightarrow> platform_step S w w' \<Longrightarrow> reachable S w'"

inductive_cases platform_stepE: "platform_step S w w'"

locale platform_invariant = api_invariant +
  assumes deliveries: "keeps I (deliver E A d)"
    and share_jobs: "keeps I (generateImage E i)" "keeps I (share_onFailed i n m)"
    and seeding: "keeps I (seed_main sys E node)"
begin

lemma keeps_step:
  assumes "pf_env S = E" "payment_provider (pf_payments S)" "platform_step S w w'" "I (db w)"
  shows "I (db w')"
  using assms(3)
proof cases
  case (Request rq ep res)
  with keeps_handle [OF assms(1,2,4)] show ?thesis by blast
qed (use assms(1,4) in \<open>auto dest: keepsD_run [OF deliveries] keepsD_run [OF keeps_images(4)] keepsD_run [OF keeps_images(5)]
    keepsD_run [OF share_jobs(1)] keepsD_run [OF share_jobs(2)] keepsD_run [OF keeps_images(6)] keepsD_run [OF seeding]\<close>)

lemma holds_reachable:
  assumes "pf_env S = E" "payment_provider (pf_payments S)" "I empty_database" "reachable S w"
  shows "I (db w)"
  using assms(4) by induction (auto simp: assms(3) dest: keeps_step [OF assms(1,2)])

end

section \<open>Seeding\<close>

lemma keeps_for_each_in: "(\<And>x. x \<in> set xs \<Longrightarrow> keeps I (body x)) \<Longrightarrow> keeps I (for_each body xs)"
  by (induction xs) (auto intro: keeps_intro)

text \<open>What the seed writes besides prices and packages.\<close>

lemma keeps_seed:
  assumes "ignores I Role" "ignores I UserRole" "ignores I User" "ignores I ServiceForm" "ignores I TarotDeck" "ignores I TarotCard"
    "ignores I TarotSpread" "ignores I SpreadPosition" "ignores I Prompt" "ignores I PromptVersion"
    and "\<And>s. s \<in> set BASE_SERVICES \<Longrightarrow> keeps I (seed_service E s)" "\<And>p. p \<in> set CREDIT_PACKAGES \<Longrightarrow> keeps I (seed_package E p)"
  shows "keeps I (seed_main sys E node)"
proof -
  have services: "keeps I (seedServices E)"
    unfolding seedServices_def seed_form_def upsert_def by (intro keeps_for_each_in keeps_intro assms)
  have packages: "keeps I (seedCreditPackages E)"
    unfolding seedCreditPackages_def by (intro keeps_for_each_in keeps_intro assms)
  show ?thesis
    unfolding seed_main_def seedRoles_def seed_role_def seedTarotDeck_def seed_deck_def seed_card_def seedTarotSpreads_def
      seed_spread_def seed_position_def seedPrompts_def seedPrompt_def seed_prompt_row_def seed_version_def seedLocalDevUser_def
      seed_dev_user_def upsert_def
    by (intro keeps_intro services packages assms)
qed

lemma seed_data: "\<forall>s \<in> set BASE_SERVICES. 0 \<le> se_creditCost s" "\<forall>p \<in> set CREDIT_PACKAGES. 0 \<le> ck_credits p"
  by code_simp+

lemma offers_rows:
  "0 \<le> s_creditCost s \<Longrightarrow> keeps offers_ok (create Service s)"
  "0 \<le> cp_credits p \<Longrightarrow> keeps offers_ok (create CreditPackage p)"
  "(\<And>x. 0 \<le> s_creditCost (f x)) \<Longrightarrow> keeps offers_ok (update_row Service P f)"
  "(\<And>x. 0 \<le> cp_credits (g x)) \<Longrightarrow> keeps offers_ok (update_row CreditPackage Q g)"
  by (auto simp: keeps_def create_def update_row_def offers_ok_def services_ok_def packages_ok_def Service_def CreditPackage_def
      split: option.split)

lemma offers_seed: "s \<in> set BASE_SERVICES \<Longrightarrow> keeps offers_ok (seed_service E s)" "p \<in> set CREDIT_PACKAGES \<Longrightarrow> keeps offers_ok (seed_package E p)"
proof -
  note steps = keeps_await keeps_date_now keeps_random_uuid keeps_find_first keeps_case_option offers_rows
  show "keeps offers_ok (seed_service E s)" if "s \<in> set BASE_SERVICES"
    unfolding seed_service_def upsert_def await_assoc await_ret_left by (intro steps) (use that seed_data in simp_all)
  show "keeps offers_ok (seed_package E p)" if "p \<in> set CREDIT_PACKAGES"
    unfolding seed_package_def upsert_def await_assoc await_ret_left by (intro steps) (use that seed_data in simp_all)
qed

lemma seed_rows_beside:
  "ignores I Service \<Longrightarrow> keeps I (seed_service E s)" "ignores I CreditPackage \<Longrightarrow> keeps I (seed_package E p)"
  unfolding seed_service_def seed_package_def upsert_def by (intro keeps_intro; assumption)+

lemma books_seed: "keeps (books_ok E') (seed_main sys E node)"
proof (rule keeps_seed)
  have "ignores money_inv Service" "ignores (charges_but None) Service" "ignores money_inv CreditPackage" "ignores (charges_but None) CreditPackage"
    by (rule money_ignores charges_ignores; simp add: table_defs)+
  then show "s \<in> set BASE_SERVICES \<Longrightarrow> keeps (books_ok E') (seed_service E s)" "p \<in> set CREDIT_PACKAGES \<Longrightarrow> keeps (books_ok E') (seed_package E p)" for s p
    by (simp_all add: books_parts offers_seed seed_rows_beside)
qed (rule books_ignores; simp add: table_defs)+

interpretation books: platform_invariant E "books_ok E" for E
  by unfold_locales (fact books_deliver books.keeps_share_job books_seed)+

section \<open>Rewards\<close>

text \<open>Unlocks and offers never cost more advertisements than were watched, whatever was taken before.\<close>

abbreviation rewards_paid :: "database \<Rightarrow> bool" where
  "rewards_paid \<equiv> rewards_good (\<lambda>_ _. 0)"

lemma good_ignores_table:
  "ignores (rewards_good paid) T" if "\<And>g d. rewardSessions (set_rows T g d) = rewardSessions d"
    "\<And>g d. rewardTransactions (set_rows T g d) = rewardTransactions d" "\<And>g d. rewardProgresses (set_rows T g d) = rewardProgresses d"
    "\<And>g d. flashOfferUnlocks (set_rows T g d) = flashOfferUnlocks d"
  using that by (simp add: ignores_def rewards_good_def rewards_inv_def paid_for_def unique_rows_def ads_watched_def offers_of_def
      progress_of_def RewardSession_def RewardTransaction_def RewardProgress_def)

lemma paid_unlock: "keeps rewards_paid (tryConsumeUnlock u ty)"
proof (rule keepsI)
  fix w r w' assume "rewards_paid (db w)" "tryConsumeUnlock u ty w = (r, w')"
  from consume_good [OF this] have good: "rewards_good (\<lambda>v ty'. unlocked (ConsumeUnlock u ty) r v ty') (db w')" by simp
  have "paid_for (\<lambda>_ _. 0) (db w')"
    unfolding paid_for_def
  proof (intro allI conjI)
    fix v ty'
    have "0 \<le> REWARD_ADS_REQUIRED ty' * int (unlocked (ConsumeUnlock u ty) r v ty')"
      by (intro mult_nonneg_nonneg of_nat_0_le_iff order_less_imp_le required_pos)
    moreover have "0 \<le> progress_of v ty' (db w') \<and> REWARD_ADS_REQUIRED ty' * int (unlocked (ConsumeUnlock u ty) r v ty') +
        (if ty' = FLASH_OFFER_UNLOCK then REWARD_ADS_REQUIRED FLASH_OFFER_UNLOCK * int (offers_of v (db w')) else 0) +
        progress_of v ty' (db w') \<le> int (ads_watched v ty' (db w'))"
      using good unfolding rewards_good_def paid_for_def by blast
    ultimately show "0 \<le> progress_of v ty' (db w')" "REWARD_ADS_REQUIRED ty' * int 0 +
        (if ty' = FLASH_OFFER_UNLOCK then REWARD_ADS_REQUIRED FLASH_OFFER_UNLOCK * int (offers_of v (db w')) else 0) +
        progress_of v ty' (db w') \<le> int (ads_watched v ty' (db w'))"
      by linarith+
  qed
  with good show "rewards_paid (db w')" by (simp add: rewards_good_def)
qed

lemma paid_offer: "keeps rewards_paid (update_many FlashOfferUnlock P (\<lambda>f. f\<lparr>fo_consumedAt := Some t\<rparr>))"
proof -
  have "length (filter (\<lambda>f. fo_userId f = u) (map (\<lambda>f. if P f then f\<lparr>fo_consumedAt := Some t\<rparr> else f) fs)) =
      length (filter (\<lambda>f. fo_userId f = u) fs)" for u fs
    by (induction fs) auto
  then have "rewards_paid (d\<lparr>flashOfferUnlocks := map (\<lambda>f. if P f then f\<lparr>fo_consumedAt := Some t\<rparr> else f) (flashOfferUnlocks d)\<rparr>) =
      rewards_paid d" for d
    by (simp add: rewards_good_def rewards_inv_def paid_for_def unique_rows_def ads_watched_def offers_of_def progress_of_def
        RewardSession_def RewardTransaction_def RewardProgress_def)
  then show ?thesis by (simp add: keeps_def update_many_def FlashOfferUnlock_def)
qed

interpretation rewards: office_free E rewards_paid for E
proof unfold_locales
  show "keeps rewards_paid (assignRole u ''USER'')" for u
    by (rule role_assigned_beside; rule good_ignores_table; simp add: table_defs)
  show "keeps rewards_paid (createWalletWithBonus E u)" for u
    by (rule wallet_opens_beside; rule good_ignores_table; simp add: table_defs)
  show "keeps rewards_paid (updateService E i data)" "keeps rewards_paid (delete_many ShareLink Q)" for i data Q
    unfolding updateService_def by (intro keeps_intro good_ignores_table; simp add: table_defs)+
qed (fact paid_unlock paid_offer | rule good_ignores_table; simp add: table_defs)+

interpretation rewards: links_free E rewards_paid for E
  by unfold_locales (rule good_ignores_table; simp add: table_defs)+

interpretation rewards: platform_invariant E rewards_paid for E
proof unfold_locales
  show "keeps rewards_paid (rewards_controller E rq u r3)" for rq u r3
    by (cases r3) (simp_all only: rewards_controller.simps, (intro keeps_intro createSession_good simulate_good)+)
  show "keeps rewards_paid (rewards_callback E rq prov)" for rq prov
    unfolding rewards_callback_def by (intro keeps_intro callback_good)
  show "keeps rewards_paid (seed_main sys E node)" for sys node
    by (rule keeps_seed; (rule seed_rows_beside)?; rule good_ignores_table; simp add: table_defs)
qed (fact rewards.keeps_readings_controller rewards.keeps_share_controller rewards.keeps_orders_controller
    rewards.keeps_payments_controller rewards.keeps_prompts_controller rewards.keeps_admin_readings
    rewards.keeps_services_controller rewards.keeps_wallet_controller rewards.keeps_deliver rewards.keeps_share_job)+

section \<open>Links\<close>

lemma share_ignores_table: "ignores share_inv T" if "\<And>g d. shareLinks (set_rows T g d) = shareLinks d"
  using that by (simp add: ignores_def share_inv_def one_active_def unique_rows_def ShareLink_def)

lemma share_delete: "keeps share_inv (delete_many ShareLink Q)"
proof -
  have "length (filter (\<lambda>l. sl_readingId l = r \<and> sl_revokedAt l = None) (filter (\<lambda>l. \<not> Q l) ls)) \<le>
      length (filter (\<lambda>l. sl_readingId l = r \<and> sl_revokedAt l = None) ls)" for r ls
    by (induction ls) auto
  then show ?thesis
    by (auto simp: keeps_def delete_many_def share_inv_def one_active_def unique_rows_def ShareLink_def sorted_wrt_filter
        intro: order_trans)
qed

interpretation links: office_free E share_inv for E
proof unfold_locales
  show "keeps share_inv (assignRole u ''USER'')" for u
    by (rule role_assigned_beside; rule share_ignores_table; simp add: table_defs)
  show "keeps share_inv (createWalletWithBonus E u)" for u
    by (rule wallet_opens_beside; rule share_ignores_table; simp add: table_defs)
  show "keeps share_inv (tryConsumeUnlock u ty)" "keeps share_inv (updateService E i data)"
    "keeps share_inv (update_many FlashOfferUnlock P (\<lambda>f. f\<lparr>fo_consumedAt := Some t\<rparr>))" for u ty i data P t
    unfolding tryConsumeUnlock_def updateService_def by (intro keeps_intro share_ignores_table; simp add: table_defs)+
qed (fact share_delete | rule share_ignores_table; simp add: table_defs)+

interpretation links: rewards_free E share_inv for E
  by unfold_locales (rule share_ignores_table; simp add: table_defs)+

interpretation links: platform_invariant E share_inv for E
proof unfold_locales
  have revoke: "keeps share_inv (revokeShareLink E u i)" for u i
    by (rule keepsI) (rule revoke_run(1))
  show "keeps share_inv (reading_share_controller E u r2)" for u r2
    by (cases r2) (simp_all only: reading_share_controller.simps, (intro keeps_intro revoke)+)
  show "keeps share_inv (generateImage E i)" "keeps share_inv (share_onFailed i n m)" for i n m
    unfolding generateImage_def share_onFailed_def markImageReady_def markImageFailed_def Let_def
    by (intro keeps_image_update image_updates keeps_intro SharingService.keeps_reads)+
  show "keeps share_inv (rewards_callback E rq prov)" for rq prov
    unfolding rewards_callback_def by (intro keeps_intro links.keeps_callback)
  show "keeps share_inv (seed_main sys E node)" for sys node
    by (rule keeps_seed; (rule seed_rows_beside)?; rule share_ignores_table; simp add: table_defs)
qed (fact links.keeps_readings_controller links.keeps_rewards_controller links.keeps_orders_controller
    links.keeps_payments_controller links.keeps_prompts_controller links.keeps_admin_readings
    links.keeps_services_controller links.keeps_wallet_controller links.keeps_deliver)+

section \<open>Whatever happens\<close>

text \<open>The states that a platform with Wompi and a bonus that is not negative reaches.\<close>

lemma reachable_invariants:
  assumes "reachable S w" "pf_payments S = wompi (pf_env S) http apiUrl" "0 \<le> e_bonusCredits (pf_env S)"
  shows "wallet_inv (db w)" "payment_inv (db w)" "charges_but None (db w)" "rewards_paid (db w)" "share_inv (db w)"
proof -
  have provider: "payment_provider (pf_payments S)"
    using assms(2) wompi_provider.payment_provider_axioms by simp
  have "books_ok (pf_env S) empty_database"
    using assms(3) wallet_inv_empty by (simp add: books_ok_def money_inv_def offers_ok_def packages_ok_def services_ok_def
        charges_but_def payment_inv_def purchases_def empty_database_def empty_world_def)
  from books.holds_reachable [OF refl provider this assms(1)]
  show "wallet_inv (db w)" "payment_inv (db w)" "charges_but None (db w)" by (simp_all add: books_ok_def money_inv_def)
  have "rewards_paid empty_database" using rewards_good_empty by (simp add: empty_world_def)
  from rewards.holds_reachable [OF refl provider this assms(1)] show "rewards_paid (db w)" .
  have "share_inv empty_database" by (simp add: share_inv_def one_active_def unique_rows_def table_defs empty_database_def)
  from links.holds_reachable [OF refl provider this assms(1)] show "share_inv (db w)" .
qed

text \<open>
  C1. The books balance in every reachable state of the platform, whatever requests, jobs and deployments came before. No
  balance is negative and each is the sum of the lines of its ledger. Every purchase in the ledger is the only one of its
  order; the order is paid, it has an approved payment, its credits are the amount, and they went to the wallet of
  its buyer. Every reservation is for a reading that was submitted and still exists, and that reading has cost what was
  reserved, or nothing if the credits were given back.
\<close>

theorem books_balance:
  assumes "reachable S w" "pf_payments S = wompi (pf_env S) http apiUrl" "0 \<le> e_bonusCredits (pf_env S)" and d: "d = db w"
  shows "(\<forall>x \<in> set (wallets d). 0 \<le> w_balance x \<and> w_balance x = ledger_sum (w_id x) (walletTransactions d)) \<and>
    (\<forall>t \<in> set (purchases d). \<exists>oid. t_orderId t = Some oid \<and>
       filter (\<lambda>s. t_orderId s = Some oid) (purchases d) = [t] \<and>
       (\<exists>p \<in> set (payments d). \<exists>ord \<in> set (orders d). p_status p = PAY_APPROVED \<and> p_orderId p = oid \<and> o_id ord = oid \<and>
          o_status ord = ORD_PAID \<and> t_amount t = o_credits ord \<and> (t_walletId t, o_userId ord) \<in> owners d)) \<and>
    (\<forall>c \<in> set (creditReservations d). 0 \<le> cr_amount c \<and> submitted_reading (cr_readingId c) d \<and>
       charged (cr_readingId c) (walletTransactions d) = (if cr_status c = RES_RELEASED then 0 else cr_amount c))"
proof (intro conjI)
  note inv = reachable_invariants [OF assms(1-3), folded d]
  show "\<forall>x \<in> set (wallets d). 0 \<le> w_balance x \<and> w_balance x = ledger_sum (w_id x) (walletTransactions d)"
    using inv(1) unfolding wallet_inv_def money_ok_def by blast
  show "\<forall>c \<in> set (creditReservations d). 0 \<le> cr_amount c \<and> submitted_reading (cr_readingId c) d \<and>
      charged (cr_readingId c) (walletTransactions d) = (if cr_status c = RES_RELEASED then 0 else cr_amount c)"
    using inv(1,3) by (simp add: wallet_inv_def reservations_ok_def reservation_ok_def charges_but_def)
  show "\<forall>t \<in> set (purchases d). \<exists>oid. t_orderId t = Some oid \<and> filter (\<lambda>s. t_orderId s = Some oid) (purchases d) = [t] \<and>
      (\<exists>p \<in> set (payments d). \<exists>ord \<in> set (orders d). p_status p = PAY_APPROVED \<and> p_orderId p = oid \<and> o_id ord = oid \<and>
        o_status ord = ORD_PAID \<and> t_amount t = o_credits ord \<and> (t_walletId t, o_userId ord) \<in> owners d)"
  proof
    fix t assume t: "t \<in> set (purchases d)"
    then obtain oid where oid: "t_orderId t = Some oid" using payment_invD(5) [OF inv(2)] by blast
    have "t \<in> set (filter (\<lambda>s. t_orderId s = Some oid) (purchases d))" using t oid by simp
    with purchase_lines_unique [OF inv(1,2), of oid] have "filter (\<lambda>s. t_orderId s = Some oid) (purchases d) = [t]"
      by (cases "filter (\<lambda>s. t_orderId s = Some oid) (purchases d)") auto
    with oid purchase_paid [OF inv(1,2) t oid] show "\<exists>oid. t_orderId t = Some oid \<and>
        filter (\<lambda>s. t_orderId s = Some oid) (purchases d) = [t] \<and>
        (\<exists>p \<in> set (payments d). \<exists>ord \<in> set (orders d). p_status p = PAY_APPROVED \<and> p_orderId p = oid \<and> o_id ord = oid \<and>
          o_status ord = ORD_PAID \<and> t_amount t = o_credits ord \<and> (t_walletId t, o_userId ord) \<in> owners d)" by blast
  qed
qed

text \<open>A shop on its first day: deployed, then somebody registers.\<close>

definition first_request :: request where
  "first_request = \<lparr>rq_ip = ''1.2.3.4'', rq_cookies = [], rq_body = Some (JObject [(''name'', JString ''Ana''),
     (''email'', JString ''ana@x''), (''password'', JString ''password'')]), rq_query = []\<rparr>"

definition first_day :: world where
  "first_day = snd (handle example_platform first_request (Auth POST_register)
     (snd (seed_main (\<lambda>code. code) example_env None empty_world)))"

lemma example_shop:
  "pf_env example_platform = example_env" "0 \<le> e_bonusCredits (pf_env example_platform)"
  "pf_payments example_platform = wompi (pf_env example_platform) (\<lambda>_ _. HttpThrows) ''https://wompi''"
  by (simp_all add: example_platform_def example_env_def)

lemma first_day_reachable: "reachable example_platform first_day"
proof -
  have "reachable example_platform (snd (seed_main (\<lambda>code. code) example_env None empty_world))"
    by (rule Step [OF Fresh Seeding, where w = empty_world, OF _ surjective_pairing [of "seed_main _ (pf_env example_platform) _ _"],
        unfolded example_shop]) (simp add: empty_world_def)
  then show ?thesis
    unfolding first_day_def by (rule Step [OF _ Request]) (rule surjective_pairing)
qed

lemma books_balance_witness:
  "list_all (\<lambda>x. 0 \<le> w_balance x \<and> w_balance x = ledger_sum (w_id x) (walletTransactions (db first_day))) (wallets (db first_day))"
  using books_balance [OF first_day_reachable example_shop(3,2) refl] unfolding list_all_iff by blast



end
