(* ===== verification/Ownership.thy ===== *)
theory Ownership
  imports ServerLaws
begin

text \<open>
  Whose readings a request may touch: nobody's but those of the user who is signed in. The readings of another user are an
  invariant of every operation on readings, because each looks its reading up with the user's id first and
  then changes it by its own id, which is unique.
\<close>

section \<open>The readings of a user\<close>

definition readings_of :: "string \<Rightarrow> database \<Rightarrow> reading list" where
  "readings_of u d = filter (\<lambda>r. r_userId r = u) (readings d)"

text \<open>The readings of \<open>A\<close> are \<open>R\<close>, and ids are unique.\<close>

definition left_alone :: "string \<Rightarrow> reading list \<Rightarrow> database \<Rightarrow> bool" where
  "left_alone A R d = (distinct (map r_id (readings d)) \<and> readings_of A d = R)"

lemma left_alone_ignores: "ignores (left_alone A R) T" if "\<And>g d. readings (set_rows T g d) = readings d"
  using that by (simp add: ignores_def left_alone_def readings_of_def)

text \<open>A reading somebody else owns has another id than those of \<open>A\<close>.\<close>

definition foreign :: "reading list \<Rightarrow> string \<Rightarrow> bool" where
  "foreign R rid = (rid \<notin> r_id ` set R)"

lemma others_foreign:
  assumes "left_alone A R d" "x \<in> set (readings d)" "r_userId x \<noteq> A"
  shows "foreign R (r_id x)"
proof -
  have "y = x" if "y \<in> set (readings d)" "r_id y = r_id x" for y
    using that assms(1,2) distinct_key_unique [of r_id "readings d" y x] by (simp add: left_alone_def)
  with assms(3) have "\<forall>y \<in> set (readings_of A d). r_id y \<noteq> r_id x"
    unfolding readings_of_def by auto
  with assms(1) show ?thesis unfolding foreign_def left_alone_def by force
qed

lemma readings_of_update:
  assumes "foreign (readings_of A d) rid" "\<And>r. r_id (f r) = r_id r \<and> r_userId (f r) = r_userId r"
  shows "filter (\<lambda>r. r_userId r = A) (map (\<lambda>r. if r_id r = rid then f r else r) (readings d)) = readings_of A d"
proof -
  have "\<forall>r \<in> set (readings d). r_id r = rid \<longrightarrow> r_userId r \<noteq> A"
    using assms(1) by (auto simp: foreign_def readings_of_def)
  moreover have "filter (\<lambda>r. r_userId r = A) (map (\<lambda>r. if r_id r = rid then f r else r) xs) = filter (\<lambda>r. r_userId r = A) xs"
    if "\<forall>r \<in> set xs. r_id r = rid \<longrightarrow> r_userId r \<noteq> A" for xs
    using that by (induction xs) (auto simp: assms(2))
  ultimately show ?thesis unfolding readings_of_def by blast
qed

lemma left_alone_rows:
  "foreign R rid \<Longrightarrow> (\<And>r. r_id (f r) = r_id r \<and> r_userId (f r) = r_userId r) \<Longrightarrow>
     keeps (left_alone A R) (update_row Reading (\<lambda>r. r_id r = rid) f)"
  "foreign R rid \<Longrightarrow> keeps (left_alone A R) (delete_many Reading (\<lambda>r. r_id r = rid))"
  "r_userId x \<noteq> A \<Longrightarrow> keeps (left_alone A R) (create Reading x)"
proof -
  assume rid: "foreign R rid"
  show "keeps (left_alone A R) (update_row Reading (\<lambda>r. r_id r = rid) f)" if f: "\<And>r. r_id (f r) = r_id r \<and> r_userId (f r) = r_userId r"
  proof -
    have "left_alone A R (d\<lparr>readings := map (\<lambda>r. if r_id r = rid then f r else r) (readings d)\<rparr>)" if "left_alone A R d" for d
    proof -
      have "map r_id (map (\<lambda>r. if r_id r = rid then f r else r) (readings d)) = map r_id (readings d)"
        by (rule map_update_same) (simp add: f)
      with that readings_of_update [of A d rid f] rid f show ?thesis
        by (simp add: left_alone_def readings_of_def [of A "d\<lparr>readings := _\<rparr>"] del: map_map)
    qed
    then show ?thesis by (simp add: keeps_def update_row_def Reading_def split: option.split)
  qed
  have "filter (\<lambda>r. r_userId r = A \<and> r_id r \<noteq> rid) xs = filter (\<lambda>r. r_userId r = A) xs"
    if "filter (\<lambda>r. r_userId r = A) xs = R" for xs
    using rid that by (intro filter_cong) (auto simp: foreign_def)
  then show "keeps (left_alone A R) (delete_many Reading (\<lambda>r. r_id r = rid))"
    by (auto simp: keeps_def delete_many_def Reading_def left_alone_def readings_of_def distinct_map_filter conj_commute)
next
  show "keeps (left_alone A R) (create Reading x)" if "r_userId x \<noteq> A"
    using that by (auto simp: keeps_def create_def Reading_def left_alone_def readings_of_def list_ex_iff)
qed

section \<open>Looking a reading up\<close>

lemma keeps_found_own:
  assumes "u \<noteq> A" "\<And>x. foreign R (r_id x) \<Longrightarrow> r_id x = rid \<Longrightarrow> keeps (left_alone A R) (k (Some x))" "keeps (left_alone A R) (k None)"
  shows "keeps (left_alone A R) (await (find_first Reading (\<lambda>r. r_id r = rid \<and> r_userId r = u)) k)"
proof (rule keepsI)
  fix w r w' assume I: "left_alone A R (db w)" and run: "await (find_first Reading (\<lambda>r. r_id r = rid \<and> r_userId r = u)) k w = (r, w')"
  show "left_alone A R (db w')"
  proof (cases "find (\<lambda>r. r_id r = rid \<and> r_userId r = u) (readings (db w))")
    case None
    with run I assms(3) show ?thesis by (auto simp: await_def Reading_def dest: keepsD_run)
  next
    case (Some x)
    with find_SomeD [OF Some] others_foreign [OF I] assms(1) have "foreign R (r_id x)" "r_id x = rid" by auto
    with run I Some assms(2) [OF this] show ?thesis by (auto simp: await_def Reading_def dest: keepsD_run)
  qed
qed

lemma keeps_own_draft:
  assumes "u \<noteq> A" "\<And>x. foreign R rid \<Longrightarrow> r_id x = rid \<Longrightarrow> keeps (left_alone A R) (k x)"
  shows "keeps (left_alone A R) (await (findOwnedDraft u rid) k)"
  unfolding findOwnedDraft_def await_assoc
  by (rule keeps_found_own [OF assms(1)]) (simp_all add: keeps_throw await_if assms(2) keeps_if)

section \<open>What does not concern readings\<close>

interpretation alone: payments_free E "left_alone A R" for E A R
proof unfold_locales
  show "keeps (left_alone A R) (assignRole u ''USER'')" for u
    by (rule role_assigned_beside; rule left_alone_ignores; simp add: table_defs)
  show "keeps (left_alone A R) (createWalletWithBonus E u)" for u
    by (rule wallet_opens_beside; rule left_alone_ignores; simp add: table_defs)
  show "keeps (left_alone A R) (tryConsumeUnlock u ty)"
    "keeps (left_alone A R) (update_many FlashOfferUnlock P (\<lambda>f. f\<lparr>fo_consumedAt := Some t\<rparr>))" for u ty P t
    unfolding tryConsumeUnlock_def by (intro keeps_intro left_alone_ignores; simp add: table_defs)+
qed (rule left_alone_ignores; simp add: table_defs)+

interpretation alone: rewards_free E "left_alone A R" for E A R
  by unfold_locales (rule left_alone_ignores; simp add: table_defs)+

interpretation alone: links_free E "left_alone A R" for E A R
  by unfold_locales (rule left_alone_ignores; simp add: table_defs)+

interpretation alone: bystander E "left_alone A R" for E A R
  by unfold_locales (fact alone.keeps_share_controller alone.keeps_rewards_controller alone.keeps_orders_controller
      alone.keeps_payments_controller | simp add: rewards_callback_def alone.keeps_callback keeps_intro)+

section \<open>What concerns readings\<close>

lemmas alone_intro = keeps_own_draft left_alone_rows keeps_intro left_alone_ignores

lemma alone_submit:
  assumes "u \<noteq> A"
  shows "keeps (left_alone A R) (submit E u rid)"
proof -
  have "keeps (left_alone A R) (charge_palm E u rid s)" "keeps (left_alone A R) (charge_tarot E u rid s ds)"
    if "foreign R rid" for s ds
    unfolding charge_palm_def charge_tarot_def create_draw_def reserveCreditsForReading_def ledger_create_def tryConsumeUnlock_def
    by (intro left_alone_rows(1,2) [OF that] keeps_intro left_alone_ignores; simp add: table_defs)+
  then show ?thesis
    unfolding submit_def submitPalmReading_def submitTarotReading_def submit_charged_def
    by (intro keeps_own_draft [OF assms] keeps_intro)
qed

lemma alone_retry:
  assumes "u \<noteq> A"
  shows "keeps (left_alone A R) (retry E u rid)"
proof -
  have again: "keeps (left_alone A R) (performRetry E x s)" if "foreign R (r_id x)" for x s
    unfolding performRetry_def tarotRetryJobId_def palmRetryJobId_def by (intro left_alone_rows(1,2) [OF that] keeps_intro; simp)
  then show ?thesis
    unfolding retry_def by (intro keeps_found_own [OF assms]; simp; intro again keeps_intro; simp)
qed

lemma alone_remove:
  assumes "u \<noteq> A"
  shows "keeps (left_alone A R) (remove E u rid)"
proof -
  have "keeps (left_alone A R) (reading_delete rid)" if "foreign R rid"
    unfolding reading_delete_def by (intro left_alone_rows(1,2) [OF that] keeps_intro left_alone_ignores; simp add: table_defs)
  then show ?thesis
    unfolding remove_def andthen_def [of "findOwnedDraft u rid"] by (intro keeps_own_draft [OF assms] keeps_intro)
qed

lemma alone_readings:
  assumes "aun_id a \<noteq> A"
  shows "keeps (left_alone A R) (readings_controller E rq a r)"
proof -
  have new: "keeps (left_alone A R) (readings_create E (aun_id a) c)" for c
    unfolding readings_create_def by (intro left_alone_rows keeps_intro) (simp add: assms)
  then show ?thesis
    by (cases r) (simp_all only: readings_controller.simps,
      (intro new alone.keeps_images alone_submit [OF assms] alone_retry [OF assms] alone_remove [OF assms] keeps_intro)+)
qed

section \<open>Strangers\<close>

text \<open>
  C3. No request touches the readings of another user: unless it is signed by user \<open>A\<close> or goes to the administration, the
  readings of \<open>A\<close> are the same afterwards, in every column, and none was added or removed.
\<close>

theorem strangers_change_nothing:
  assumes "handle S rq ep w = (res, w')" "pf_payments S = wompi (pf_env S) http apiUrl" "access_of ep \<noteq> Administrator"
    and "distinct (map r_id (readings (db w)))" and stranger: "\<And>u. signed_in (pf_env S) rq w u \<Longrightarrow> u_id u \<noteq> A"
  shows "readings_of A (db w') = readings_of A (db w)"
proof -
  let ?I = "left_alone A (readings_of A (db w))"
  have I: "?I (db w)" using assms(4) by (simp add: left_alone_def)
  obtain r where r: "serve_request S rq ep w = (r, w')"
    using assms(1) by (auto simp: handle_def split: prod.splits)
  have "?I (db w')"
  proof (cases "\<exists>x. ep = Readings x")
    case False
    with assms(2,3) have "keeps ?I (serve_request S rq ep)"
      by (intro alone.keeps_other_route [OF refl]) (auto simp: wompi_provider.payment_provider_axioms)
    with I r show ?thesis by (blast dest: keepsD_run)
  next
    case True
    then obtain x where ep: "ep = Readings x" by blast
    let ?w1 = "w\<lparr>ticks := Suc (ticks w)\<rparr>"
    have "throttler_guard S rq ep w = (Inl ThrottlerException, ?w1) \<or> throttler_guard S rq ep w = (Inr (), ?w1)"
      by (auto simp: throttler_guard_def await_def split: prod.split)
    with r consider "w' = ?w1" | "route_to S rq ep ?w1 = (r, w')"
      by (auto simp: serve_request_def andthen_def await_def)
    then show ?thesis
    proof cases
      case 2
      then have "with_session (pf_env S) rq (\<lambda>u. readings_controller (pf_env S) rq u x) ?w1 = (r, w')" by (simp add: ep)
      from with_session_run [OF this] consider
        u a w2 where "signed_in (pf_env S) rq ?w1 u" "aun_id a = u_id u" "idle ?w1 w2" "readings_controller (pf_env S) rq a x w2 = (r, w')"
      | "idle ?w1 w'" by blast
      then show ?thesis
      proof cases
        case 1
        have "aun_id a \<noteq> A" using stranger 1(1,2) by (simp add: signed_in_def)
        from keepsD_run [OF alone_readings [OF this] _ 1(4)] I 1(3) show ?thesis by (simp add: idle_db)
      qed (use I in \<open>simp add: idle_db\<close>)
    qed (use I in simp)
  qed
  then show ?thesis by (simp add: left_alone_def)
qed

text \<open>Ana asks for Berta's reading to be removed.\<close>

definition drafts :: world where
  "drafts = office\<lparr>db := (db office)\<lparr>readings := [\<lparr>r_id = ''r'', r_userId = ''berta'', r_serviceId = ''s'', r_spreadId = None,
     r_promptVersionId = None, r_status = DRAFT, r_submittedAt = None, r_createdAt = 0\<rparr>]\<rparr>\<rparr>"

lemma strangers_change_nothing_witness:
  "length (readings_of ''berta'' (db (snd (handle example_platform (new_price_request ''a:ana'') (Readings (DELETE_reading ''r'')) drafts)))) = 1"
proof -
  have "u_id u \<noteq> ''berta''" if "signed_in (pf_env example_platform) (new_price_request ''a:ana'') drafts u" for u
    using that by (auto simp: signed_in_def example_platform_def example_env_def new_price_request_def getCookie_def)
  moreover have "pf_payments example_platform = wompi (pf_env example_platform) (\<lambda>_ _. HttpThrows) ''https://wompi''"
    by (simp add: example_platform_def)
  moreover have "distinct (map r_id (readings (db drafts)))" by (simp add: drafts_def)
  ultimately have "readings_of ''berta'' (db (snd (handle example_platform (new_price_request ''a:ana'') (Readings (DELETE_reading ''r'')) drafts))) =
      readings_of ''berta'' (db drafts)"
    using strangers_change_nothing [OF surjective_pairing, of example_platform _ _ "Readings (DELETE_reading ''r'')"] by simp
  then show ?thesis by (simp add: readings_of_def drafts_def)
qed

end
