(* ===== verification/Confidentiality.thy ===== *)
theory Confidentiality
  imports Ownership
begin

text \<open>
  Whose readings a reply shows: outside the administration only those of the user who is signed in. The rules of \<open>yields\<close>
  follow a handler to the replies it can give.
\<close>

section \<open>What a program can give\<close>

definition yields :: "('a \<Rightarrow> database \<Rightarrow> bool) \<Rightarrow> (world, 'a) prog \<Rightarrow> bool" where
  "yields Q m = (\<forall>w x w'. m w = (Inr x, w') \<longrightarrow> Q x (db w'))"

named_theorems yields_intro "what programs can give"

lemma yieldsD: "yields Q m \<Longrightarrow> m w = (Inr x, w') \<Longrightarrow> Q x (db w')"
  by (simp add: yields_def)

lemma yields_await [yields_intro]: "(\<And>x. yields Q (k x)) \<Longrightarrow> yields Q (await m k)"
  unfolding yields_def by (blast elim: await_InrE)

lemma yields_andthen [yields_intro]: "yields Q k \<Longrightarrow> yields Q (andthen m k)"
  unfolding andthen_def by (rule yields_await)

lemma yields_branch [yields_intro]:
  "yields Q (throw e)"
  "(c \<Longrightarrow> yields Q m) \<Longrightarrow> (\<not> c \<Longrightarrow> yields Q n) \<Longrightarrow> yields Q (if c then m else n)"
  "(x = None \<Longrightarrow> yields Q m) \<Longrightarrow> (\<And>y. x = Some y \<Longrightarrow> yields Q (k y)) \<Longrightarrow> yields Q (case x of None \<Rightarrow> m | Some y \<Rightarrow> k y)"
  "(\<And>a b. p = (a, b) \<Longrightarrow> yields Q (q a b)) \<Longrightarrow> yields Q (case p of (a, b) \<Rightarrow> q a b)"
  by (auto simp: yields_def split: option.split prod.split)

lemma yields_ret [yields_intro]: "(\<And>d. Q y d) \<Longrightarrow> yields Q (ret y)"
  by (auto simp: yields_def)

lemma yields_try [yields_intro]: "yields Q m \<Longrightarrow> (\<And>e. yields Q (h e)) \<Longrightarrow> yields Q (try_catch m h)"
  unfolding yields_def by (auto simp: try_catch_def split: prod.splits sum.splits)

section \<open>The readings in a reply\<close>

fun readings_in :: "payload \<Rightarrow> string list" where
  "readings_in (ReadingReply s) = [rsm_id s]"
| "readings_in (ReadingList ss) = map rsm_id ss"
| "readings_in (DetailReply d) = [rsm_id d]"
| "readings_in (ReadingPage p) = map ars_id (pg_items p)"
| "readings_in _ = []"

text \<open>A reply shows readings of \<open>u\<close> only.\<close>

definition shows_own :: "string \<Rightarrow> reply \<Rightarrow> database \<Rightarrow> bool" where
  "shows_own u r d = (case r of
       Reply p cs \<Rightarrow> set (readings_in p) \<subseteq> r_id ` set (readings_of u d)
     | Failed e cs \<Rightarrow> True)"

definition shows_none :: "reply \<Rightarrow> database \<Rightarrow> bool" where
  "shows_none r d = (case r of Reply p cs \<Rightarrow> readings_in p = [] | Failed e cs \<Rightarrow> True)"

lemma yields_reply [yields_intro]: "(\<And>x. readings_in (f x) = []) \<Longrightarrow> yields shows_none (reply_with f m)"
  unfolding reply_with_def by (intro yields_intro) (simp add: shows_none_def)

lemma yields_owned: "yields (\<lambda>x d. set (readings_in (f x)) \<subseteq> r_id ` set (readings_of u d)) m \<Longrightarrow> yields (shows_own u) (reply_with f m)"
  unfolding yields_def reply_with_def by (auto simp: await_Inr_iff shows_own_def)

lemma none_own: "yields shows_none m \<Longrightarrow> yields (shows_own u) m"
  unfolding yields_def shows_own_def shows_none_def by (fastforce split: reply.splits)

abbreviation of_user :: "string \<Rightarrow> 'a readingSummary_scheme \<Rightarrow> database \<Rightarrow> bool" where
  "of_user u x d \<equiv> rsm_id x \<in> r_id ` set (readings_of u d)"

lemma detail_own: "yields (of_user u) (findOneForUser E u i)"
  unfolding yields_def
proof (intro allI impI)
  fix w x w' assume run: "findOneForUser E u i w = (Inr x, w')"
  then obtain r where r: "find (\<lambda>r. r_id r = i \<and> r_userId r = u) (readings (db w)) = Some r" and d: "readings_detail E r w = (Inr x, w')"
    by (auto simp: findOneForUser_def await_Inr_iff Reading_def split: option.splits)
  from d have "rsm_id x = r_id r" by (auto simp: readings_detail_def await_Inr_iff toReadingDetail_def)
  moreover have "db w' = db w" by (rule same_run [OF same_detail(2) run])
  ultimately show "of_user u x (db w')" using find_SomeD [OF r] by (auto simp: readings_of_def intro!: rev_image_eqI [of r])
qed

lemma map_each_same:
  assumes "map_each f xs w = (Inr ys, w')" "\<And>x w y w'. f x w = (Inr y, w') \<Longrightarrow> g y = h x"
  shows "map g ys = map h xs"
  using assms(1) by (induction xs arbitrary: w ys) (auto simp: await_Inr_iff assms(2))

lemma list_own: "yields (\<lambda>ss d. set (readings_in (ReadingList ss)) \<subseteq> r_id ` set (readings_of u d)) (listForUser u)"
  unfolding yields_def
proof (intro allI impI)
  fix w ss w' assume run: "listForUser u w = (Inr ss, w')"
  let ?body = "\<lambda>r. await (find_or_throw Service (\<lambda>s. s_id s = r_serviceId r)) (\<lambda>s. ret (toReadingSummary r s))"
  have "map_each ?body (order_desc r_createdAt (readings_of u (db w))) w = (Inr ss, w')"
    using run by (simp add: listForUser_def await_def Reading_def readings_of_def)
  then have "map rsm_id ss = map r_id (order_desc r_createdAt (readings_of u (db w)))"
    by (rule map_each_same) (auto simp: await_Inr_iff toReadingSummary_def)
  from arg_cong [OF this, of set] have "set (map rsm_id ss) = r_id ` set (readings_of u (db w))"
    by (simp add: set_order_desc)
  moreover have "same db (listForUser u)" unfolding listForUser_def by (intro same_intro)
  from same_run [OF this run] have "db w' = db w" .
  ultimately show "set (readings_in (ReadingList ss)) \<subseteq> r_id ` set (readings_of u (db w'))" by simp
qed

lemma created_own: "yields (of_user u) (readings_create E u code)"
  unfolding yields_def
  by (auto simp: readings_create_def prog_inv create_Inr_iff Reading_def toReadingSummary_def readings_of_def image_iff
      split: option.splits)

lemma readings_own: "yields (shows_own (aun_id a)) (readings_controller E rq a r)"
proof -
  have submitted: "yields (of_user u) (submit E u i)" for u i
    unfolding submit_def submitPalmReading_def submitTarotReading_def submit_charged_def by (intro yields_intro detail_own)
  have "yields (of_user u) (retry E u i)" "yields (of_user u) (updateInputs E u i c)" for u i c
    unfolding retry_def updateInputs_def by (intro yields_intro detail_own)+
  note own = this detail_own list_own created_own submitted
  have wrap: "yields (\<lambda>x d. set (readings_in (DetailReply x)) \<subseteq> r_id ` set (readings_of u d)) m" if "yields (of_user u) m" for u m
    using that by (simp add: yields_def)
  have wrap': "yields (\<lambda>x d. set (readings_in (ReadingReply x)) \<subseteq> r_id ` set (readings_of u d)) m" if "yields (of_user u) m" for u m
    using that by (simp add: yields_def)
  show ?thesis
    by (cases r) (simp_all only: readings_controller.simps body_of_def,
      (intro yields_await yields_owned wrap wrap' own none_own [OF yields_reply] | simp)+)
qed

section \<open>All other replies\<close>

lemma controllers_show_none:
  "yields shows_none (auth_controller E rq r1)" "yields shows_none (users_controller E rq a r2)"
  "yields shows_none (reading_share_controller E a r3)" "yields shows_none (public_share_controller E r4)"
  "yields shows_none (wallet_controller E rq a r5)" "yields shows_none (orders_controller E rq a r6)"
  "yields shows_none (payments_controller E P rq a r7)" "yields shows_none (rewards_controller E rq a r8)"
  "yields shows_none (services_controller E r9)"
proof -
  show "yields shows_none (auth_controller E rq r1)"
    by (cases r1; simp only: auth_controller.simps body_of_def with_session_def session_reply_def; (intro yields_intro)?; simp add: shows_none_def)
  show "yields shows_none (users_controller E rq a r2)"
    by (cases r2; simp only: users_controller.simps body_of_def; (intro yields_intro)?; simp add: shows_none_def)
  show "yields shows_none (reading_share_controller E a r3)"
    by (cases r3; simp only: reading_share_controller.simps; (intro yields_intro)?; simp add: shows_none_def)
  show "yields shows_none (public_share_controller E r4)"
    by (cases r4; simp only: public_share_controller.simps; (intro yields_intro)?; simp add: shows_none_def)
  show "yields shows_none (wallet_controller E rq a r5)"
    by (cases r5; simp only: wallet_controller.simps query_of_def; (intro yields_intro)?; simp add: shows_none_def)
  show "yields shows_none (orders_controller E rq a r6)"
    by (cases r6; simp only: orders_controller.simps body_of_def; (intro yields_intro)?; simp add: shows_none_def)
  show "yields shows_none (payments_controller E P rq a r7)"
    by (cases r7; simp only: payments_controller.simps body_of_def; (intro yields_intro)?; simp add: shows_none_def)
  show "yields shows_none (rewards_controller E rq a r8)"
    by (cases r8; simp only: rewards_controller.simps body_of_def; (intro yields_intro)?; simp add: shows_none_def)
  show "yields shows_none (services_controller E r9)"
    by (cases r9; simp only: services_controller.simps; (intro yields_intro)?; simp add: shows_none_def)
qed

lemma others_show_none:
  "yields shows_none (wompi_webhook_controller E P rq)" "yields shows_none (rewards_callback E rq provider)"
  "yields shows_none (credit_packages_controller E)" "yields shows_none (daily_card_controller E a)"
  "yields shows_none app_controller" "yields shows_none (health_controller E)" "yields shows_none (diagnostics_controller E rq)"
  unfolding wompi_webhook_controller_def rewards_callback_def credit_packages_controller_def daily_card_controller_def
    app_controller_def health_controller_def diagnostics_controller_def body_of_def
  by (intro yields_intro; simp add: shows_none_def)+

lemma no_reading_shown:
  "access_of ep \<noteq> Administrator \<Longrightarrow> \<nexists>x. ep = Readings x \<Longrightarrow> yields shows_none (route_to S rq ep)"
  by (cases ep) (auto simp: with_session_def intro!: controllers_show_none others_show_none yields_await)

text \<open>
  C4. A reply shows nobody the readings of others: outside the administration every reading in it, alone or in a list, is one
  of the user who is signed in, and a reply to a request without a session, or to any route but those of the readings, shows none.
\<close>

theorem readings_shown_to_owner:
  assumes "handle S rq ep w = (res, w')" "rs_body res = Some p" "access_of ep \<noteq> Administrator" "i \<in> set (readings_in p)"
  shows "\<exists>u. signed_in (pf_env S) rq w u \<and> (\<exists>rd \<in> set (readings (db w')). r_id rd = i \<and> r_userId rd = u_id u)"
proof -
  let ?w1 = "w\<lparr>ticks := Suc (ticks w)\<rparr>"
  obtain cs where "serve_request S rq ep w = (Inr (Reply p cs), w')"
    using assms(1,2) by (auto simp: handle_def respond_def split: prod.splits sum.splits reply.splits)
  then have route: "route_to S rq ep ?w1 = (Inr (Reply p cs), w')"
    by (auto simp: serve_request_def andthen_def await_def throttler_guard_def split: prod.splits if_splits sum.splits)
  have "\<exists>x. ep = Readings x"
  proof (rule ccontr)
    assume "\<nexists>x. ep = Readings x"
    from yieldsD [OF no_reading_shown [OF assms(3) this] route] assms(4) show False by (simp add: shows_none_def)
  qed
  then obtain x where ep: "ep = Readings x" ..
  with route have "with_session (pf_env S) rq (\<lambda>u. readings_controller (pf_env S) rq u x) ?w1 = (Inr (Reply p cs), w')" by simp
  from with_session_run [OF this] obtain u a w2 where u: "signed_in (pf_env S) rq ?w1 u" "aun_id a = u_id u"
    and run: "readings_controller (pf_env S) rq a x w2 = (Inr (Reply p cs), w')" by blast
  from yieldsD [OF readings_own run] assms(4) u(2) have "i \<in> r_id ` set (readings_of (u_id u) (db w'))"
    by (auto simp: shows_own_def)
  moreover have "signed_in (pf_env S) rq w u" using u(1) by (auto simp: signed_in_def)
  ultimately show ?thesis by (auto simp: readings_of_def)
qed

text \<open>Ana and Berta have a draft each; Ana lists hers.\<close>

definition two_drafts :: world where
  "two_drafts = office\<lparr>db := (db office)\<lparr>readings :=
     [\<lparr>r_id = ''r'', r_userId = ''berta'', r_serviceId = ''s'', r_spreadId = None, r_promptVersionId = None, r_status = DRAFT,
        r_submittedAt = None, r_createdAt = 0\<rparr>,
      \<lparr>r_id = ''q'', r_userId = ''ana'', r_serviceId = ''s'', r_spreadId = None, r_promptVersionId = None, r_status = DRAFT,
        r_submittedAt = None, r_createdAt = 1\<rparr>]\<rparr>\<rparr>"

lemma readings_shown_to_owner_witness:
  "\<exists>p u. rs_body (fst (handle example_platform (new_price_request ''a:ana'') (Readings GET_readings) two_drafts)) = Some p \<and>
     readings_in p = [''q''] \<and> signed_in example_env (new_price_request ''a:ana'') two_drafts u"
proof -
  let ?x = "handle example_platform (new_price_request ''a:ana'') (Readings GET_readings) two_drafts"
  have "map_option readings_in (rs_body (fst ?x)) = Some [''q'']" by code_simp
  then obtain p where p: "rs_body (fst ?x) = Some p" "readings_in p = [''q'']" by auto
  from readings_shown_to_owner [OF surjective_pairing p(1), of "''q''"] p show ?thesis
    by (auto simp: example_platform_def)
qed

end
