(* ===== verification/Queues.thy ===== *)
theory Queues
  imports ReadingJobLaws ShareImage
begin

text \<open>
  The queues (\<open>src/queues/queues.module.ts\<close>) and whole runs of their jobs. As the documentation of BullMQ has it, a job runs
  until it returns or its attempts are used up, and every failure is reported to the worker (the event \<open>failed\<close>). The locale
  \<open>worker\<close> is what a worker owes such a run; the workers of readings, palm images and share images meet it. With the three attempts of the
  module a job of a reading always comes to an end that leaves no credits in between.
\<close>

section \<open>The configuration of the queues\<close>

definition DIAGNOSTICS_QUEUE :: string where "DIAGNOSTICS_QUEUE = ''diagnostics''"

definition READING_PROCESSING_QUEUE :: string where "READING_PROCESSING_QUEUE = ''reading-processing''"

definition IMAGE_ANALYSIS_QUEUE :: string where "IMAGE_ANALYSIS_QUEUE = ''image-analysis''"

definition CLEANUP_QUEUE :: string where "CLEANUP_QUEUE = ''cleanup''"

definition SHARE_IMAGE_QUEUE :: string where "SHARE_IMAGE_QUEUE = ''share-image''"

datatype backoff = Exponential int

record jobOptions =
  jo_attempts :: nat
  jo_backoff :: backoff
  jo_removeOnComplete :: nat
  jo_removeOnFail :: nat

definition QueuesModule :: "(string \<times> jobOptions) list" where
  "QueuesModule =
     [(DIAGNOSTICS_QUEUE,
         \<lparr>jo_attempts = 3, jo_backoff = Exponential 500, jo_removeOnComplete = 100, jo_removeOnFail = 100\<rparr>),
      (READING_PROCESSING_QUEUE,
         \<lparr>jo_attempts = 3, jo_backoff = Exponential 2000, jo_removeOnComplete = 100, jo_removeOnFail = 100\<rparr>),
      (IMAGE_ANALYSIS_QUEUE,
         \<lparr>jo_attempts = 3, jo_backoff = Exponential 2000, jo_removeOnComplete = 100, jo_removeOnFail = 100\<rparr>),
      (CLEANUP_QUEUE,
         \<lparr>jo_attempts = 3, jo_backoff = Exponential 2000, jo_removeOnComplete = 100, jo_removeOnFail = 100\<rparr>),
      (SHARE_IMAGE_QUEUE,
         \<lparr>jo_attempts = 3, jo_backoff = Exponential 2000, jo_removeOnComplete = 100, jo_removeOnFail = 100\<rparr>)]"

text \<open>\<open>job.opts.attempts\<close>: no call of \<open>add\<close> overrides the default of its queue.\<close>

definition attempts_of :: "job \<Rightarrow> nat option" where
  "attempts_of j = map_option jo_attempts (map_of QueuesModule (j_queue j))"

section \<open>The life of a job\<close>

text \<open>
  The attempts of a job: \<open>left\<close> of \<open>allowed\<close> remain. The process sees how many were made before it, \<open>onFailed\<close> also counts
  the one that failed. The result is that of the attempt that returned, or of the last \<open>onFailed\<close>.
\<close>

primrec run_attempts ::
  "(nat \<Rightarrow> (world, 'a) prog) \<Rightarrow> (nat \<Rightarrow> (world, unit) prog) \<Rightarrow> nat \<Rightarrow> nat \<Rightarrow> (world, unit) prog" where
  "run_attempts process onFailed allowed 0 = ret ()"
| "run_attempts process onFailed allowed (Suc k) = (\<lambda>w. case process (allowed - Suc k) w of
       (Inr _, w1) \<Rightarrow> (Inr (), w1)
     | (Inl e, w1) \<Rightarrow> (case onFailed (allowed - k) w1 of
           (r, w2) \<Rightarrow> if k = 0 then (r, w2) else run_attempts process onFailed allowed k w2))"

definition run_job ::
  "(nat \<Rightarrow> (world, 'a) prog) \<Rightarrow> (nat option \<Rightarrow> nat \<Rightarrow> (world, unit) prog) \<Rightarrow> job \<Rightarrow> (world, unit) prog" where
  "run_job process onFailed j =
     (let allowed = (case attempts_of j of None \<Rightarrow> 1 | Some n \<Rightarrow> n)
      in run_attempts process (onFailed (attempts_of j)) allowed allowed)"

definition run_reading_job :: "env \<Rightarrow> aiProvider \<Rightarrow> job \<Rightarrow> (world, unit) prog" where
  "run_reading_job E P j = run_job (\<lambda>_. reading_process E P j) (reading_onFailed E j) j"

definition run_image_job :: "env \<Rightarrow> aiProvider \<Rightarrow> job \<Rightarrow> (world, unit) prog" where
  "run_image_job E P j = run_job (\<lambda>_. validateImage E P (j_data j)) (image_onFailed (j_data j)) j"

definition run_share_job :: "env \<Rightarrow> job \<Rightarrow> (world, unit) prog" where
  "run_share_job E j = run_job (\<lambda>_. generateImage E (j_data j)) (share_onFailed (j_data j)) j"

section \<open>The contract of a worker\<close>

text \<open>\<open>ends I Q m\<close>: where \<open>I\<close> holds, \<open>m\<close> establishes \<open>Q\<close> when it returns and leaves \<open>I\<close> true when it throws.\<close>

definition ends :: "(world \<Rightarrow> bool) \<Rightarrow> (world \<Rightarrow> bool) \<Rightarrow> (world, 'a) prog \<Rightarrow> bool" where
  "ends I Q m = (\<forall>w. I w \<longrightarrow> (case m w of (Inl e, w') \<Rightarrow> I w' | (Inr x, w') \<Rightarrow> Q w'))"

named_theorems ends_intro "programs that establish their end or leave things as they were"

lemma endsI: "(\<And>w r w'. I w \<Longrightarrow> m w = (r, w') \<Longrightarrow> (case r of Inl e \<Rightarrow> I w' | Inr x \<Rightarrow> Q w')) \<Longrightarrow> ends I Q m"
  unfolding ends_def by (simp split: prod.split sum.split)

lemma endsD: "ends I Q m \<Longrightarrow> I w \<Longrightarrow> m w = (r, w') \<Longrightarrow> (case r of Inl e \<Rightarrow> I w' | Inr x \<Rightarrow> Q w')"
  unfolding ends_def by (auto split: prod.splits sum.splits)

lemma ends_await [ends_intro]:
  assumes "ends I I m" "\<And>x. ends I Q (k x)"
  shows "ends I Q (await m k)"
proof (rule endsI)
  fix w r w' assume I: "I w" and run: "await m k w = (r, w')"
  obtain x w1 where m: "m w = (x, w1)" by (cases "m w")
  with endsD [OF assms(1) I m] run endsD [OF assms(2)] show "case r of Inl e \<Rightarrow> I w' | Inr x \<Rightarrow> Q w'"
    by (cases x) (auto simp: await_def)
qed

lemma ends_andthen [ends_intro]: "ends I I m \<Longrightarrow> ends I Q k \<Longrightarrow> ends I Q (andthen m k)"
  unfolding andthen_def by (intro ends_await)

lemma ends_last:
  assumes "ends I Q m"
  shows "ends I Q (andthen m (ret ()))"
proof (rule endsI)
  fix w r w' assume I: "I w" and run: "andthen m (ret ()) w = (r, w')"
  obtain x w1 where m: "m w = (x, w1)" by (cases "m w")
  from endsD [OF assms I m] run m show "case r of Inl e \<Rightarrow> I w' | Inr x \<Rightarrow> Q w'"
    by (cases x) (auto simp: andthen_def await_def)
qed

lemma ends_branch [ends_intro]:
  "ends I Q (throw e)"
  "(c \<Longrightarrow> ends I Q m) \<Longrightarrow> (\<not> c \<Longrightarrow> ends I Q n) \<Longrightarrow> ends I Q (if c then m else n)"
  "(x = None \<Longrightarrow> ends I Q m) \<Longrightarrow> (\<And>y. x = Some y \<Longrightarrow> ends I Q (k y)) \<Longrightarrow> ends I Q (case x of None \<Rightarrow> m | Some y \<Rightarrow> k y)"
  by (auto simp: ends_def split: option.split)

text \<open>A program that leaves alone what \<open>I\<close> speaks of.\<close>

lemma ends_same:
  assumes "same f m" "\<And>w w'. f w' = f w \<Longrightarrow> I w' = I w"
  shows "ends I I m"
proof (rule endsI)
  fix w r w' assume I: "I w" and run: "m w = (r, w')"
  from assms(2) [OF same_run [OF assms(1) run]] I show "case r of Inl e \<Rightarrow> I w' | Inr x \<Rightarrow> I w'"
    by (cases r) simp_all
qed

text \<open>Looking up a row whose state \<open>I\<close> knows.\<close>

lemma ends_found:
  assumes "\<And>w. I w \<Longrightarrow> \<exists>x. find p (rows T (db w)) = Some x \<and> R x" "\<And>x. R x \<Longrightarrow> ends I Q (k (Some x))"
  shows "ends I Q (await (find_first T p) k)"
proof (rule endsI)
  fix w r w' assume I: "I w" and run: "await (find_first T p) k w = (r, w')"
  from assms(1) [OF I] obtain x where "find p (rows T (db w)) = Some x" "R x" by blast
  with run endsD [OF assms(2) I] show "case r of Inl e \<Rightarrow> I w' | Inr x \<Rightarrow> Q w'" by (simp add: await_def)
qed

text \<open>
  A worker: what is \<open>pending\<close> stays so through failures and early reports, and a run that returns or gives
  up has \<open>concluded\<close> it.
\<close>

locale worker =
  fixes process :: "nat \<Rightarrow> (world, 'a) prog" and onFailed :: "nat option \<Rightarrow> nat \<Rightarrow> (world, unit) prog"
    and is_pending :: "world \<Rightarrow> bool" and has_concluded :: "world \<Rightarrow> bool"
  assumes processes: "ends is_pending has_concluded (process n)"
    and waits: "n < m \<Longrightarrow> ends is_pending is_pending (onFailed (Some m) n)"
    and gives_up: "ends is_pending has_concluded (onFailed (Some m) m)"
begin

lemma attempts_conclude: "0 < k \<Longrightarrow> k \<le> m \<Longrightarrow> ends is_pending has_concluded (run_attempts process (onFailed (Some m)) m k)"
proof (induction k)
  case (Suc k)
  show ?case
  proof (rule endsI)
    fix w r w' assume w: "is_pending w" and run: "run_attempts process (onFailed (Some m)) m (Suc k) w = (r, w')"
    obtain x w1 where p: "process (m - Suc k) w = (x, w1)" by (cases "process (m - Suc k) w")
    note 1 = endsD [OF processes w p]
    show "case r of Inl e \<Rightarrow> is_pending w' | Inr x \<Rightarrow> has_concluded w'"
    proof (cases x)
      case (Inl e)
      obtain y w2 where f: "onFailed (Some m) (m - k) w1 = (y, w2)" by (cases "onFailed (Some m) (m - k) w1")
      from 1 Inl have w1: "is_pending w1" by simp
      show ?thesis
      proof (cases "k = 0")
        case True
        with run p f Inl have "onFailed (Some m) m w1 = (r, w')" by simp
        from endsD [OF gives_up w1 this] show ?thesis .
      next
        case False
        with Suc.prems have "m - k < m" by simp
        from endsD [OF waits [OF this] w1 f] have w2: "is_pending w2" by (cases y) simp_all
        from run p f Inl False have "run_attempts process (onFailed (Some m)) m k w2 = (r, w')" by simp
        from endsD [OF Suc.IH w2 this] False Suc.prems show ?thesis by simp
      qed
    qed (use 1 run p in auto)
  qed
qed simp

lemma job_concludes: "attempts_of j = Some m \<Longrightarrow> 0 < m \<Longrightarrow> ends is_pending has_concluded (run_job process onFailed j)"
  by (simp add: run_job_def attempts_conclude)

end

lemma three_attempts:
  "j_queue j = ''reading-processing'' \<Longrightarrow> attempts_of j = Some 3" "j_queue j = ''image-analysis'' \<Longrightarrow> attempts_of j = Some 3"
  "j_queue j = ''share-image'' \<Longrightarrow> attempts_of j = Some 3"
  by (simp_all add: attempts_of_def QueuesModule_def DIAGNOSTICS_QUEUE_def READING_PROCESSING_QUEUE_def
      IMAGE_ANALYSIS_QUEUE_def CLEANUP_QUEUE_def SHARE_IMAGE_QUEUE_def)

section \<open>A job of a reading comes to an end\<close>

text \<open>What the queue leaves behind: the reading is completed and paid for, or it has failed and the credits are back.\<close>

definition concluded :: "string \<Rightarrow> database \<Rightarrow> database \<Rightarrow> bool" where
  "concluded rid d d' =
     (held_by rid d' = None \<and>
      (\<exists>rd \<in> set (readings d'). r_id rd = rid \<and>
        (r_status rd = COMPLETED \<and> (\<forall>u. balance_of u d' = balance_of u d) \<and>
           (\<exists>ex \<in> set (aiExecutions d'). ai_readingId ex = Some rid \<and> ai_status ex = AI_COMPLETED \<and> ai_outputJson ex \<noteq> None) \<or>
         r_status rd = FAILED \<and> (\<forall>u. balance_of u d' = refunded u rid d))))"

lemma settled_concluded:
  assumes "settled rid d d'"
  shows "concluded rid d d'"
proof -
  obtain ex rd where held: "held_by rid d' = None" and ex: "aiExecutions d' = aiExecutions d @ [ex]" "ai_readingId ex = Some rid"
    and rd: "rd \<in> set (readings d')" "r_id rd = rid"
    and out: "if ai_status ex = AI_COMPLETED
          then r_status rd = COMPLETED \<and> ai_outputJson ex \<noteq> None \<and> (\<forall>u. balance_of u d' = balance_of u d)
          else r_status rd = FAILED \<and> ai_outputJson ex = None \<and> (\<forall>u. balance_of u d' = refunded u rid d)"
    using assms unfolding settled_def by (elim conjE exE) (rule that; assumption)
  have "ex \<in> set (aiExecutions d')" by (simp add: ex)
  show ?thesis
  proof (cases "ai_status ex = AI_COMPLETED")
    case True
    from out [unfolded if_P [OF True]] show ?thesis
      unfolding concluded_def using held rd ex(2) True \<open>ex \<in> set _\<close> by blast
  next
    case False
    from out [unfolded if_not_P [OF False]] show ?thesis
      unfolding concluded_def using held rd by blast
  qed
qed

lemma concluded_purse:
  assumes "concluded rid (db w1) d'" "purse w1 = purse w"
  shows "concluded rid (db w) d'"
  using assms(1) unfolding concluded_def purse_same(3,4) [OF assms(2)] .

text \<open>The money of the reading is where it was in the state \<open>v\<close>, and the reading is open.\<close>

definition reading_pending :: "string \<Rightarrow> world \<Rightarrow> world \<Rightarrow> bool" where
  "reading_pending rid v w \<longleftrightarrow> wallet_inv (db w) \<and> purse w = purse v \<and> open_reading rid (db w)"

lemma process_concludes:
  "ends (reading_pending (j_data j) v) (\<lambda>w. concluded (j_data j) (db v) (db w)) (reading_process E P j)"
proof (rule endsI)
  fix w r w' assume "reading_pending (j_data j) v w" and run: "reading_process E P j w = (r, w')"
  then have w: "wallet_inv (db w)" "purse w = purse v" "open_reading (j_data j) (db w)" by (simp_all add: reading_pending_def)
  show "case r of Inl e \<Rightarrow> reading_pending (j_data j) v w' | Inr x \<Rightarrow> concluded (j_data j) (db v) (db w')"
  proof (cases r)
    case (Inl e)
    with run w have "purse w' = purse w \<and> open_reading (j_data j) (db w')"
      using tarot_processor.fails [OF w(1,3)] palm_processor.fails [OF w(1,3)]
      by (auto simp: reading_process_cases split: if_splits)
    with w Inl show ?thesis using purse_same(1) [of w' w] by (simp add: reading_pending_def)
  next
    case (Inr x)
    obtain rd where "find (\<lambda>r. r_id r = j_data (job_of (Delivered j))) (readings (db w)) = Some rd" "r_status rd \<noteq> COMPLETED"
      using w(3) by (auto simp: open_reading_iff)
    from delivery_settles [OF w(1) this, of E P x w'] run Inr show ?thesis
      by (auto intro: concluded_purse [OF settled_concluded w(2)])
  qed
qed

text \<open>Giving up refunds the reading, or throws before it has changed anything.\<close>

lemma onFailed_concludes:
  "ends (reading_pending (j_data j) v) (\<lambda>w. concluded (j_data j) (db v) (db w)) (reading_onFailed E j (Some m) m)"
proof (rule endsI)
  fix w r w' assume pending: "reading_pending (j_data j) v w" and run: "reading_onFailed E j (Some m) m w = (r, w')"
  then have w: "wallet_inv (db w)" "purse w = purse v" "open_reading (j_data j) (db w)" by (simp_all add: reading_pending_def)
  show "case r of Inl e \<Rightarrow> reading_pending (j_data j) v w' | Inr x \<Rightarrow> concluded (j_data j) (db v) (db w')"
  proof (cases r)
    case (Inr x)
    let ?d = "DeliveryFailed j (Some m) m"
    obtain rd where rd: "find (\<lambda>r. r_id r = j_data (job_of ?d)) (readings (db w)) = Some rd" "r_status rd \<noteq> COMPLETED"
      using w(3) by (auto simp: open_reading_iff)
    from run Inr have "deliver E P ?d w = (Inr x, w')" for P by simp
    from delivery_settles [OF w(1) rd this] have "concluded (j_data j) (db w) (db w')" by (auto simp: concluded_def)
    with Inr show ?thesis by (auto intro: concluded_purse [OF _ w(2)])
  next
    case (Inl e)
    with run have "releaseReservation E (j_data j) w = (Inl e, w')"
      by (auto simp: reading_onFailed_def Let_def andthen_def await_def update_many_def Reading_def list_ex_iff
          split: prod.splits sum.splits if_splits)
    then have "db w' = db w" by (auto simp: releaseReservation_def dest: transaction_error_db)
    with Inl pending show ?thesis by (simp add: reading_pending_def purse_def)
  qed
qed

interpretation reading_worker: worker "\<lambda>_. reading_process E P j" "reading_onFailed E j" "reading_pending (j_data j) v"
  "\<lambda>w. concluded (j_data j) (db v) (db w)" for E P j v
proof
  show "ends (reading_pending (j_data j) v) (reading_pending (j_data j) v) (reading_onFailed E j (Some m) n)" if "n < m" for m n
    using that by (simp add: reading_onFailed_def Let_def ends_def)
qed (fact process_concludes onFailed_concludes)+


text \<open>A model that never answers: the example's reading fails and its three credits are back.\<close>

definition silent_provider :: aiProvider where
  "silent_provider = \<lparr>ap_name = ''silent'', ap_complete = (\<lambda>_ _. Inl None)\<rparr>"


section \<open>A job of an image comes to an end\<close>

definition image_of :: "(palmImageStatus \<Rightarrow> bool) \<Rightarrow> string \<Rightarrow> world \<Rightarrow> bool" where
  "image_of st i w = (case find (\<lambda>x. pi_id x = i) (palmImages (db w)) of None \<Rightarrow> False | Some x \<Rightarrow> st (pi_status x))"

abbreviation in_review :: "string \<Rightarrow> world \<Rightarrow> bool" where
  "in_review \<equiv> image_of (\<lambda>s. s = PENDING_REVIEW)"

abbreviation reviewed :: "string \<Rightarrow> world \<Rightarrow> bool" where
  "reviewed \<equiv> image_of (\<lambda>s. s = VALID \<or> s = INVALID)"

lemma ends_image_same: "same (\<lambda>w. palmImages (db w)) m \<Longrightarrow> ends (in_review i) (in_review i) m"
  by (rule ends_same [of "\<lambda>w. palmImages (db w)"]) (simp_all add: image_of_def)

lemma ends_image_update:
  assumes "\<And>x. pi_id (f x) = pi_id x \<and> (pi_status (f x) = VALID \<or> pi_status (f x) = INVALID)"
  shows "ends (in_review i) (reviewed i) (update_row PalmImage (\<lambda>x. pi_id x = i) f)"
    "ends (in_review i) (reviewed i) (update_many PalmImage (\<lambda>x. pi_id x = i \<and> pi_status x \<noteq> VALID) f)"
proof -
  have found: "find (\<lambda>x. pi_id x = i) (map (\<lambda>x. if Q x then f x else x) xs) =
      map_option (\<lambda>x. if Q x then f x else x) (find (\<lambda>x. pi_id x = i) xs)" for Q xs
    by (rule find_by_same_key) (simp add: assms)
  show "ends (in_review i) (reviewed i) (update_row PalmImage (\<lambda>x. pi_id x = i) f)"
    "ends (in_review i) (reviewed i) (update_many PalmImage (\<lambda>x. pi_id x = i \<and> pi_status x \<noteq> VALID) f)"
    by (auto simp: ends_def update_row_def update_many_def PalmImage_def image_of_def found assms
        dest: find_SomeD split: option.splits)
qed

interpretation image_worker: worker "\<lambda>_. validateImage E P i" "image_onFailed i" "in_review i" "reviewed i" for E P i
proof
  have quiet: "same (\<lambda>w. palmImages (db w)) (execute E P inp)" for inp
    by (rule same_from_keeps execute_keeps)+ (simp add: ignores_def AIExecution_def)
  show "ends (in_review i) (reviewed i) (validateImage E P i)" for n
    unfolding validateImage_def
    by (rule ends_found [where R = "\<lambda>x. pi_status x = PENDING_REVIEW"])
      (simp add: image_of_def PalmImage_def split: option.splits,
       simp only: option.case simp_thms if_False,
       (intro ends_last ends_image_update ends_await ends_branch ends_image_same quiet same_published same_through [OF same_db_download(1)];
         simp add: legibility_verdict_def)+)
  show "ends (in_review i) (in_review i) (image_onFailed i (Some m) n)" if "n < m" for m n
    using that by (simp add: image_onFailed_def Let_def ends_def)
  show "ends (in_review i) (reviewed i) (image_onFailed i (Some m) m)" for m
    by (simp add: image_onFailed_def Let_def ends_last ends_image_update)
qed

definition link_of :: "(shareImageStatus \<Rightarrow> bool) \<Rightarrow> string \<Rightarrow> world \<Rightarrow> bool" where
  "link_of st i w = (case find (\<lambda>x. sl_id x = i) (shareLinks (db w)) of
       None \<Rightarrow> False | Some x \<Rightarrow> sl_revokedAt x = None \<and> st (sl_imageStatus x))"

abbreviation link_waits :: "string \<Rightarrow> world \<Rightarrow> bool" where
  "link_waits \<equiv> link_of (\<lambda>s. s \<noteq> IMG_READY)"

abbreviation link_drawn :: "string \<Rightarrow> world \<Rightarrow> bool" where
  "link_drawn \<equiv> link_of (\<lambda>s. s \<noteq> IMG_PENDING)"

lemma ends_link_update:
  assumes "\<And>x. sl_id (f x) = sl_id x \<and> sl_revokedAt (f x) = sl_revokedAt x \<and> sl_imageStatus (f x) \<noteq> IMG_PENDING"
  shows "ends (link_waits i) (link_drawn i) (update_row ShareLink (\<lambda>x. sl_id x = i) f)"
    "ends (link_waits i) (link_drawn i) (update_many ShareLink (\<lambda>x. sl_id x = i \<and> sl_imageStatus x \<noteq> IMG_READY) f)"
proof -
  have found: "find (\<lambda>x. sl_id x = i) (map (\<lambda>x. if Q x then f x else x) xs) =
      map_option (\<lambda>x. if Q x then f x else x) (find (\<lambda>x. sl_id x = i) xs)" for Q xs
    by (rule find_by_same_key) (simp add: assms)
  show "ends (link_waits i) (link_drawn i) (update_row ShareLink (\<lambda>x. sl_id x = i) f)"
    "ends (link_waits i) (link_drawn i) (update_many ShareLink (\<lambda>x. sl_id x = i \<and> sl_imageStatus x \<noteq> IMG_READY) f)"
    by (auto simp: ends_def update_row_def update_many_def ShareLink_def link_of_def found assms
        dest: find_SomeD split: option.splits)
qed

interpretation share_worker: worker "\<lambda>_. generateImage E i" "share_onFailed i" "link_waits i" "link_drawn i" for E i
proof
  have sanitized: "same (\<lambda>w. shareLinks (db w)) (getSanitizedReadingData rid)" for rid
    unfolding getSanitizedReadingData_def by (intro same_intro)
  have stored: "same db (uploadObject E k b)" "same db (buildShareImageKey E rid)" for k b rid
    unfolding uploadObject_def buildShareImageKey_def storage_call_def by (intro same_intro same_modify; simp)+
  have quiet: "ends (link_waits i) (link_waits i) m" if "same (\<lambda>w. shareLinks (db w)) m" for m :: "(world, 'b) prog"
    using that by (rule ends_same [of "\<lambda>w. shareLinks (db w)"]) (simp_all add: link_of_def)
  show "ends (link_waits i) (link_drawn i) (generateImage E i)" for n
    unfolding generateImage_def
    by (rule ends_found [where R = "\<lambda>x. sl_revokedAt x = None"])
      (simp add: link_of_def ShareLink_def split: option.splits,
       simp only: option.case simp_thms if_False Let_def markImageReady_def,
       (intro ends_last ends_link_update ends_await ends_andthen ends_branch quiet sanitized same_through [OF stored(1)]
          same_through [OF stored(2)]; simp)+)
  show "ends (link_waits i) (link_waits i) (share_onFailed i (Some m) n)" if "n < m" for m n
    using that by (simp add: share_onFailed_def ends_def)
  show "ends (link_waits i) (link_drawn i) (share_onFailed i (Some m) m)" for m
    by (simp add: share_onFailed_def markImageFailed_def ends_last ends_link_update)
qed


text \<open>Both fail three times: the model does not answer, the reading of the link is not there.\<close>

definition waiting_example :: world where
  "waiting_example = empty_world\<lparr>bucket := (\<lambda>_. Some [0]), db := empty_database\<lparr>
     palmImages := [\<lparr>pi_id = ''i'', pi_readingId = ''r1'', pi_storageKey = ''k'', pi_status = PENDING_REVIEW, pi_mimeType = None,
       pi_sizeBytes = None, pi_widthPx = None, pi_heightPx = None, pi_validationError = None, pi_consentAt = None,
       pi_expiresAt = None, pi_deletedAt = None, pi_createdAt = 0\<rparr>],
     shareLinks := [\<lparr>sl_id = ''l'', sl_readingId = ''r1'', sl_imageKey = None, sl_imageStatus = IMG_PENDING,
       sl_revokedAt = None\<rparr>]\<rparr>\<rparr>"


end
