(* ===== verification/OpenAi.thy ===== *)
theory OpenAi
  imports AiOrchestrator
begin

text \<open>
  The provider of the model (\<open>src/ai/openai.provider.ts\<close>): what it sends to OpenAI and what it makes of the answer. The
  client of the SDK is a parameter: what the \<open>n\<close>-th call with a time limit gives, a completion or an error
  (\<open>Some\<close> message of an \<open>Error\<close>; an aborted call throws one), and the milliseconds it took.
\<close>

datatype contentPart = TextPart string | ImageUrlPart string

datatype chatMessage = SystemMessage string | UserMessage string | UserParts "contentPart list"

datatype responseFormat = JsonObject

record chatRequest =
  cq_model :: string
  cq_temperature :: "string option"
  cq_max_tokens :: "int option"
  cq_response_format :: responseFormat
  cq_messages :: "chatMessage list"

text \<open>The contents of the choices (a message may have none), and the tokens of prompt and completion.\<close>

record chatCompletion =
  cc_choices :: "string option list"
  cc_model :: string
  cc_usage :: "(int \<times> int) option"

type_synonym openAiClient = "nat \<Rightarrow> int \<Rightarrow> chatRequest \<Rightarrow> (string option + chatCompletion) \<times> int"

definition userContent :: "aiProviderRequest \<Rightarrow> chatMessage" where
  "userContent request = (case aq_images request of
       None \<Rightarrow> UserMessage (aq_userPrompt request)
     | Some imgs \<Rightarrow>
         if imgs = [] then UserMessage (aq_userPrompt request)
         else UserParts (TextPart (aq_userPrompt request) #
           map (\<lambda>i. ImageUrlPart (''data:'' @ im_mimeType i @ '';base64,'' @ im_base64 i)) imgs))"

definition chat_request :: "aiProviderRequest \<Rightarrow> chatRequest" where
  "chat_request request =
     \<lparr>cq_model = aq_model request, cq_temperature = aq_temperature request, cq_max_tokens = aq_maxOutputTokens request,
      cq_response_format = JsonObject, cq_messages = [SystemMessage (aq_systemPrompt request), userContent request]\<rparr>"

definition NO_CONTENT :: string where
  "NO_CONTENT = ''OpenAI no devolvi'' @ [CHR 0xF3] @ '' contenido.''"

definition openai_complete :: "openAiClient \<Rightarrow> nat \<Rightarrow> aiProviderRequest \<Rightarrow> string option + aiProviderResponse" where
  "openai_complete client n request = (case client n (aq_timeoutMs request) (chat_request request) of
       (Inl e, _) \<Rightarrow> Inl e
     | (Inr response, elapsed) \<Rightarrow>
         let content = (case cc_choices response of [] \<Rightarrow> None | c # _ \<Rightarrow> c) in
         if content = None \<or> content = Some [] then Inl (Some NO_CONTENT)
         else Inr \<lparr>ar_content = the content, ar_model = cc_model response,
           ar_tokensInput = (case cc_usage response of None \<Rightarrow> 0 | Some u \<Rightarrow> fst u),
           ar_tokensOutput = (case cc_usage response of None \<Rightarrow> 0 | Some u \<Rightarrow> snd u), ar_latencyMs = elapsed\<rparr>)"

definition OpenAiProvider :: "openAiClient \<Rightarrow> aiProvider" where
  "OpenAiProvider client = \<lparr>ap_name = ''openai'', ap_complete = openai_complete client\<rparr>"

section \<open>An outage\<close>

text \<open>A call that brings no answer: it throws, or its first choice has no content.\<close>

definition unanswered :: "openAiClient \<Rightarrow> nat \<Rightarrow> aiProviderRequest \<Rightarrow> bool" where
  "unanswered client n request = (case client n (aq_timeoutMs request) (chat_request request) of
       (Inl _, _) \<Rightarrow> True
     | (Inr response, _) \<Rightarrow> (case cc_choices response of [] \<Rightarrow> True | c # _ \<Rightarrow> c \<in> {None, Some []}))"

lemma unanswered_iff: "unanswered client n request \<longleftrightarrow> isl (openai_complete client n request)"
  by (auto simp: unanswered_def openai_complete_def Let_def split: prod.split sum.split list.split)

text \<open>The attempts go on while there is no answer, and end with the first one.\<close>

lemma attempts_answered:
  assumes "\<And>i. i < k \<Longrightarrow> isl (ap_complete P (aiCalls w + i) request)" "ap_complete P (aiCalls w + k) request = Inr response" "k < n"
  shows "attempts_left n P request e w = (Inr (Inr response), w\<lparr>aiCalls := aiCalls w + Suc k\<rparr>)"
  using assms
proof (induction k arbitrary: n e w)
  case 0
  then show ?case by (cases n) (simp_all add: await_def call_provider_def)
next
  case (Suc k)
  obtain m where n: "n = Suc m" using Suc.prems(3) by (cases n) auto
  obtain e' where e': "ap_complete P (aiCalls w) request = Inl e'" using Suc.prems(1) [of 0] by (auto simp: isl_def)
  let ?w = "w\<lparr>aiCalls := Suc (aiCalls w)\<rparr>"
  have "attempts_left m P request e' ?w = (Inr (Inr response), ?w\<lparr>aiCalls := aiCalls ?w + Suc k\<rparr>)"
    using Suc.prems(1) [of "Suc _"] Suc.prems(2,3) n by (intro Suc.IH) simp_all
  with n e' show ?case by (simp add: await_def call_provider_def)
qed

lemma attempts_unanswered:
  assumes "\<And>i. i < n \<Longrightarrow> isl (ap_complete P (aiCalls w + i) request)"
  shows "\<exists>e'. attempts_left n P request e w = (Inr (Inl e'), w\<lparr>aiCalls := aiCalls w + n\<rparr>)"
  using assms
proof (induction n arbitrary: e w)
  case (Suc n)
  obtain e' where e': "ap_complete P (aiCalls w) request = Inl e'" using Suc.prems [of 0] by (auto simp: isl_def)
  have "\<exists>e''. attempts_left n P request e' (w\<lparr>aiCalls := Suc (aiCalls w)\<rparr>) = (Inr (Inl e''), w\<lparr>aiCalls := Suc (aiCalls w) + n\<rparr>)"
    using Suc.IH [of "w\<lparr>aiCalls := Suc (aiCalls w)\<rparr>"] Suc.prems [of "Suc _"] by simp
  with e' show ?case by (simp add: await_def call_provider_def)
qed simp

text \<open>
  With OpenAI behind the orchestrator: when three calls in a row bring no answer, the request ends as a recorded failure of the
  provider \<open>openai\<close>, after exactly those three.
\<close>

lemma outage_recorded:
  assumes pv: "find (\<lambda>v. pv_id v = xi_promptVersionId inp) (promptVersions (db w)) = Some pv"
    and prompt: "find (\<lambda>p. pr_id p = pv_promptId pv) (prompts (db w)) = Some prompt"
    and schema: "js_get AI_TASK_SCHEMAS (pr_code prompt) \<noteq> Undefined" and calm: "\<not> detectHighRiskContent (xi_riskCheckText inp)"
    and out: "\<And>i request. i < 3 \<Longrightarrow> unanswered client (aiCalls w + i) request"
    and run: "execute E (OpenAiProvider client) inp w = (Inr res, w')"
  shows "xr_status res = AI_FAILED \<and> xr_errorMessage res = Some PROVIDER_FAILURE_MESSAGE \<and> aiCalls w' = aiCalls w + 3 \<and>
    (\<exists>ex. aiExecutions (db w') = aiExecutions (db w) @ [ex] \<and> ai_provider ex = ''openai'' \<and> ai_model ex = pv_model pv \<and>
       ai_tokensInput ex = None \<and> ai_costEstimate ex = None)"
proof -
  let ?P = "OpenAiProvider client"
  let ?req = "\<lparr>aq_systemPrompt = pv_systemPrompt pv, aq_userPrompt = interpolate (xi_variables inp) (pv_userPromptTemplate pv),
      aq_model = pv_model pv, aq_temperature = pv_temperature pv, aq_maxOutputTokens = pv_maxOutputTokens pv,
      aq_timeoutMs = AI_REQUEST_TIMEOUT_MS, aq_images = xi_images inp\<rparr>"
  have "isl (ap_complete ?P (aiCalls w + i) ?req)" if "i < 3" for i
    using out [OF that] by (simp add: OpenAiProvider_def unanswered_iff)
  from attempts_unanswered [of 3, OF this] obtain e where
    e: "attempts_left (AI_MAX_TECHNICAL_RETRIES + 1) ?P ?req None w = (Inr (Inl e), w\<lparr>aiCalls := aiCalls w + 3\<rparr>)"
    by (auto simp: AI_MAX_TECHNICAL_RETRIES_def)
  with run pv prompt schema calm obtain m ex where
    ex: "createExecution E ?P pv inp AI_FAILED (Some m) None None (w\<lparr>aiCalls := aiCalls w + 3\<rparr>) = (Inr ex, w')"
    and res: "res = failed_result ex PROVIDER_FAILURE_MESSAGE"
    by (auto simp: execute_def await_Inr_iff PromptVersion_def Prompt_def find_or_throw_run Let_def split: if_splits)
  have "ai_provider ex = ''openai'' \<and> ai_model ex = pv_model pv \<and> ai_tokensInput ex = None \<and> ai_costEstimate ex = None"
    using ex by (auto simp: createExecution_def prog_inv db_inv AIExecution_def OpenAiProvider_def)
  with createExecution_run [OF ex] res show ?thesis by (auto simp: failed_result_def)
qed

end
