(* ===== verification/MailLaws.thy ===== *)
theory MailLaws
  imports AuthLaws
begin

text \<open>
  The mails of an account from end to end: what goes out, and what the link in it does. The operations are those of
  theory \<open>AuthService\<close>, the rendering is that of theory \<open>Notifications\<close>.
\<close>

section \<open>A link by mail\<close>

definition uses_resend :: "env \<Rightarrow> bool" where
  "uses_resend E = (e_resendApiKey E \<noteq> None \<and> e_resendApiKey E \<noteq> Some [])"

lemma sendEmail_resend: "uses_resend E \<Longrightarrow> sendEmail E inp = resend_sendEmail E inp"
  by (auto simp: sendEmail_def uses_resend_def)

lemma sent_mail:
  assumes "uses_resend E" "sendEmail E inp w = (Inr (), w')"
  shows "w' = w\<lparr>mailCalls := Suc (mailCalls w), outbox := outbox w @
    [\<lparr>sm_from = e_emailFrom E, sm_to = m_to inp, sm_subject = m_subject inp, sm_html = mail_html inp\<rparr>]\<rparr>"
  using assms(2) unfolding sendEmail_resend [OF assms(1)] resend_sendEmail_run by (auto simp: Let_def split: option.splits)

text \<open>A new token is the only one with its hash, and the only one with its id.\<close>

lemma create_token_run:
  assumes "create_token E u purpose ttl w = (Inr raw, w')"
  shows "\<exists>v. vt_userId v = u \<and> vt_purpose v = purpose \<and> vt_tokenHash v = hashToken E raw \<and> vt_usedAt v = None \<and>
    vt_expiresAt v = e_clock E (ticks w) + ttl \<and> verificationTokens (db w') = verificationTokens (db w) @ [v] \<and>
    find (\<lambda>x. vt_tokenHash x = hashToken E raw) (verificationTokens (db w)) = None \<and>
    users (db w') = users (db w) \<and> outbox w' = outbox w"
  using assms
  by (auto simp: create_token_def generateOpaqueToken_def prog_inv create_Inr_iff VerificationToken_def list_ex_iff find_None_iff) metis

lemma verify_run:
  assumes "find (\<lambda>x. vt_tokenHash x = hashToken E raw) (verificationTokens (db w)) = Some v" "vt_purpose v = EMAIL_VERIFICATION"
    "vt_usedAt v = None" "e_clock E (ticks w) \<le> vt_expiresAt v" "x \<in> set (users (db w))" "u_id x = vt_userId v"
    and run: "verifyEmail E raw w = (r, w')"
  shows "\<exists>t s. users (db w') = map (\<lambda>y. if u_id y = vt_userId v then y\<lparr>u_emailVerifiedAt := Some t\<rparr> else y) (users (db w)) \<and>
    find (\<lambda>x. vt_tokenHash x = hashToken E raw) (verificationTokens (db w')) = Some (v\<lparr>vt_usedAt := Some s\<rparr>)"
proof -
  let ?w = "w\<lparr>ticks := Suc (ticks w)\<rparr>"
  let ?use = "\<lambda>x. if vt_id x = vt_id v then x\<lparr>vt_usedAt := Some (e_clock E (Suc (ticks w)))\<rparr> else x"
  let ?verify = "\<lambda>y. if u_id y = vt_userId v then y\<lparr>u_emailVerifiedAt := Some (e_clock E (Suc (Suc (ticks w))))\<rparr> else y"
  let ?w2 = "?w\<lparr>ticks := Suc (Suc (ticks ?w)), db := (db w)\<lparr>verificationTokens := map ?use (verificationTokens (db w)),
     users := map ?verify (users (db w))\<rparr>\<rparr>"
  have u: "usable_token E EMAIL_VERIFICATION raw ''verification link'' w = (Inr v, ?w)" using assms(1-4) by (simp add: usable_run)
  have t: "find (\<lambda>x. vt_id x = vt_id v) (verificationTokens (db w)) \<noteq> None" using find_SomeD [OF assms(1)] by (auto simp: find_None_iff)
  have y: "find (\<lambda>y. u_id y = vt_userId v) (users (db w)) \<noteq> None" using assms(5,6) by (auto simp: find_None_iff)
  from t y have tx: "\<exists>z. transaction (andthen (use_token E v)
           (await (date_now E) (\<lambda>now.
            update_row User (\<lambda>u. u_id u = vt_userId v) (\<lambda>u. u\<lparr>u_emailVerifiedAt := Some now\<rparr>)))) ?w = (Inr z, ?w2)"
    by (auto simp: transaction_def use_token_def andthen_def await_def update_row_def VerificationToken_def User_def)
  then obtain z where "transaction (andthen (use_token E v)
           (await (date_now E) (\<lambda>now.
            update_row User (\<lambda>u. u_id u = vt_userId v) (\<lambda>u. u\<lparr>u_emailVerifiedAt := Some now\<rparr>)))) ?w = (Inr z, ?w2)" ..
  with run u have "db w' = db ?w2"
    by (auto simp: verifyEmail_def andthen_def await_def findById_def dest!: find_user_run split: prod.splits sum.splits option.splits)
  moreover have "find (\<lambda>x. vt_tokenHash x = hashToken E raw) (map ?use (verificationTokens (db w))) =
      map_option ?use (find (\<lambda>x. vt_tokenHash x = hashToken E raw) (verificationTokens (db w)))"
    by (rule find_by_same_key) simp
  then have "find (\<lambda>x. vt_tokenHash x = hashToken E raw) (map ?use (verificationTokens (db w))) = Some (?use v)"
    by (simp only: assms(1) option.map)
  ultimately show ?thesis by auto
qed

text \<open>
  C40. The link in a verification mail verifies the account it was sent to, once: one mail went out, to the address of the
  account, greeting it by its escaped name, and until the token of its link expires that token verifies this account and no
  other; after that it is refused. Whatever the name is, it opens no tag and ends no attribute.
\<close>

theorem mailed_link_verifies:
  assumes "uses_resend E" "x \<in> set (users (db w))" "u_emailVerifiedAt x = None" "sendVerificationEmail E x w = (Inr (), w1)"
    and "e_clock E (ticks w1) \<le> e_clock E (ticks w) + EMAIL_VERIFICATION_TOKEN_TTL_MS"
  shows "\<exists>raw m t. outbox w1 = outbox w @ [m] \<and> sm_to m = u_email x \<and>
    sm_html m = verification_html (u_name x) (e_appUrl E @ ''/verify-email?token='' @ raw) \<and>
    set (escapeHtml (u_name x)) \<inter> {CHR ''<'', CHR ''>'', CHR 0x22} = {} \<and>
    (let w2 = snd (verifyEmail E raw w1) in
       users (db w2) = map (\<lambda>y. if u_id y = u_id x then y\<lparr>u_emailVerifiedAt := Some t\<rparr> else y) (users (db w)) \<and>
       verifyEmail E raw w2 = (Inl (UnauthorizedException ''verification link''), w2))"
proof -
  let ?mail = "\<lambda>raw. \<lparr>m_to = u_email x, m_subject = ''Verifica tu correo'', m_templateId = ''email-verification'',
    m_context = [(''name'', u_name x), (''verificationUrl'', e_appUrl E @ ''/verify-email?token='' @ raw)]\<rparr>"
  obtain raw w0 where token: "create_token E (u_id x) EMAIL_VERIFICATION EMAIL_VERIFICATION_TOKEN_TTL_MS w = (Inr raw, w0)"
    and mail: "sendEmail E (?mail raw) w0 = (Inr (), w1)"
    using assms(3,4) by (auto simp: sendVerificationEmail_def await_Inr_iff)
  note sent = sent_mail [OF assms(1) mail, unfolded verification_mail_html]
  from create_token_run [OF token] obtain v where v: "vt_userId v = u_id x" "vt_purpose v = EMAIL_VERIFICATION"
    "vt_tokenHash v = hashToken E raw" "vt_usedAt v = None" "vt_expiresAt v = e_clock E (ticks w) + EMAIL_VERIFICATION_TOKEN_TTL_MS"
    and tokens: "find (\<lambda>x. vt_tokenHash x = hashToken E raw) (verificationTokens (db w0)) = Some v"
    and w0: "users (db w0) = users (db w)" "outbox w0 = outbox w"
    by (auto simp: find_append)
  obtain r w2 where run: "verifyEmail E raw w1 = (r, w2)" by (cases "verifyEmail E raw w1")
  have "x \<in> set (users (db w1))" "find (\<lambda>x. vt_tokenHash x = hashToken E raw) (verificationTokens (db w1)) = Some v"
    using assms(2) w0 tokens by (simp_all add: sent)
  from verify_run [OF this(2) v(2,4) _ this(1) v(1) [symmetric] run] v(5) assms(5) obtain t s where
    "users (db w2) = map (\<lambda>y. if u_id y = u_id x then y\<lparr>u_emailVerifiedAt := Some t\<rparr> else y) (users (db w))"
    and "find (\<lambda>x. vt_tokenHash x = hashToken E raw) (verificationTokens (db w2)) = Some (v\<lparr>vt_usedAt := Some s\<rparr>)"
    by (auto simp: v(1) sent w0)
  moreover from this(2) have "verifyEmail E raw w2 = (Inl (UnauthorizedException ''verification link''), w2)"
    by (simp add: verifyEmail_def await_def usable_run)
  moreover have "set (escapeHtml (u_name x)) \<inter> {CHR ''<'', CHR ''>'', CHR 0x22} = {}"
    using escapeHtml_plain [of _ "u_name x"] by blast
  moreover have "outbox w1 = outbox w @ [\<lparr>sm_from = e_emailFrom E, sm_to = u_email x, sm_subject = ''Verifica tu correo'',
      sm_html = verification_html (u_name x) (e_appUrl E @ ''/verify-email?token='' @ raw)\<rparr>]"
    by (simp add: sent w0)
  ultimately show ?thesis
    by (intro exI [of _ raw] exI [of _ "last (outbox w1)"] exI [of _ t]) (simp add: run Let_def)
qed

text \<open>A name with markup in it.\<close>

definition mail_env :: env where
  "mail_env = example_env\<lparr>e_resendApiKey := Some ''re''\<rparr>"

definition newcomer :: user where
  "newcomer = \<lparr>u_id = ''ana'', u_email = ''ana@x'', u_name = ''<b>Ana'', u_passwordHash = ''pw#'', u_status = ACTIVE_USER,
     u_emailVerifiedAt = None, u_createdAt = 0, u_deletedAt = None\<rparr>"

definition newcomers :: world where
  "newcomers = empty_world\<lparr>db := empty_database\<lparr>users := [newcomer]\<rparr>\<rparr>"

lemma mailed_link_verifies_witness:
  "\<exists>raw t w1. sendVerificationEmail mail_env newcomer newcomers = (Inr (), w1) \<and> map sm_to (outbox w1) = [''ana@x''] \<and>
     map u_emailVerifiedAt (users (db (snd (verifyEmail mail_env raw w1)))) = [Some t]"
proof -
  have "fst (sendVerificationEmail mail_env newcomer newcomers) = Inr () \<and>
      ticks (snd (sendVerificationEmail mail_env newcomer newcomers)) = 1" by code_simp
  then obtain w1 where run: "sendVerificationEmail mail_env newcomer newcomers = (Inr (), w1)" "ticks w1 = 1"
    by (cases "sendVerificationEmail mail_env newcomer newcomers") auto
  have start: "uses_resend mail_env" "newcomer \<in> set (users (db newcomers))" "u_emailVerifiedAt newcomer = None"
    by (simp_all add: uses_resend_def mail_env_def newcomers_def newcomer_def)
  have "e_clock mail_env (ticks w1) \<le> e_clock mail_env (ticks newcomers) + EMAIL_VERIFICATION_TOKEN_TTL_MS"
    by (simp add: run(2) mail_env_def example_env_def newcomers_def empty_world_def EMAIL_VERIFICATION_TOKEN_TTL_MS_def)
  from mailed_link_verifies [OF start run(1) this] obtain raw m t where "outbox w1 = outbox newcomers @ [m]"
    "sm_to m = u_email newcomer" "users (db (snd (verifyEmail mail_env raw w1))) =
       map (\<lambda>y. if u_id y = u_id newcomer then y\<lparr>u_emailVerifiedAt := Some t\<rparr> else y) (users (db newcomers))"
    by (auto simp: Let_def)
  then have "map sm_to (outbox w1) = [''ana@x'']" "map u_emailVerifiedAt (users (db (snd (verifyEmail mail_env raw w1)))) = [Some t]"
    by (simp_all add: newcomers_def newcomer_def empty_world_def)
  with run(1) show ?thesis by (intro exI conjI)
qed

section \<open>Who has an account\<close>

text \<open>
  A forgotten password is answered alike for known and unknown addresses only while mails go out: when the provider
  refuses, a known address is answered with an error.
\<close>

lemma forgotten_password_tells:
  assumes "uses_resend E" "\<And>k m. e_resend E k m \<noteq> None" "forgotPassword E email w = (Inr (), w')"
    and "findByEmail email w = (Inr (Some (x, rs)), w1)"
  shows "u_status x \<noteq> ACTIVE_USER"
proof
  assume "u_status x = ACTIVE_USER"
  with assms(3,4) obtain inp w2 where "sendEmail E inp w2 = (Inr (), w')"
    by (auto simp: forgotPassword_def await_Inr_iff)
  then show False using assms(2) unfolding sendEmail_resend [OF assms(1)] resend_sendEmail_run
    by (auto simp: Let_def split: option.splits) (metis option.distinct(1))
qed

end
