(* ===== verification/Spec2Isabelle.thy ===== *)
theory Spec2Isabelle
  imports PaymentProperties DailyCard ShareImage ReadingProperties ReadingJobLaws AuthLaws AdminService EnvValidation WalletRefinement SeedLaws Platform Ownership Confidentiality Queues OpenAi MailLaws
begin

text \<open>
  A verification development for the API of TaroTria, a NestJS service over PostgreSQL, Redis and BullMQ that sells credits
  and spends them on tarot and palm readings written by a language model.

  The program. A client registers and gets a wallet with a bonus (\<open>src/auth\<close>, \<open>src/users\<close>, \<open>src/wallet\<close>), buys credits
  (\<open>src/credit-packages\<close>, \<open>src/orders\<close>, \<open>src/payments\<close>) or earns unlocks by watching advertisements (\<open>src/rewards\<close>),
  fills in a draft of a reading from the catalogue (\<open>src/services\<close>, \<open>src/tarot\<close>, \<open>src/storage\<close>) and submits it
  (\<open>src/readings\<close>). The submission reserves its price and queues a job (\<open>src/queues\<close>); a worker (\<open>src/jobs\<close>) asks the model
  (\<open>src/ai\<close>) and consumes or releases the reservation. A finished reading can be shared (\<open>src/sharing\<close>). Administrators
  (\<open>src/admin\<close>, \<open>src/audit\<close>) change catalogue and prompts; a seed (\<open>prisma\<close>) fills them.

  How it is written down. The schema is a record of tables (\<open>Schema\<close>), the world around it has the queue, the cache, the
  object storage, the mails sent and counters into the supplies of times, identifiers and random numbers (\<open>Tables\<close>).
  A method is a function from a world to an error or a result and the next world (\<open>Prelude\<close>: \<open>await\<close>, \<open>throw\<close>,
  \<open>try_catch\<close>); \<open>transaction\<close> takes the changes of the database back when it fails. What is not in \<open>src\<close> (PostgreSQL's own
  checks apart) is in the record \<open>env\<close>: SHA-256, HMAC, Argon2, the signing of tokens, \<open>JSON.parse\<close>, image headers, the
  mail API, the settings. Payment and AI providers are arguments. Definitions compute, so that every property with a
  hypothesis is also applied to a concrete world. Definitions keep the names of the source; where two classes
  use one name, or Isabelle has it, it has a prefix (\<open>readings_create\<close>, \<open>orders_create\<close>).

  The theories, by component.

    Shared: \<open>Prelude\<close>, \<open>Schema\<close> (\<open>prisma/schema.prisma\<close>), \<open>Tables\<close> (the Prisma calls and the calculus \<open>keeps\<close> for
    invariants), \<open>DateTime\<close> (\<open>toISOString\<close>), \<open>CacheService\<close>.

    Money: \<open>WalletService\<close> is the wallet with its ledger, \<open>WalletLaws\<close> its invariant and the contract \<open>credit_service\<close>,
    \<open>WalletProperties\<close> what each operation does, \<open>WalletRefinement\<close> the abstract accounts it implements.
    \<open>OrdersService\<close> has packages and orders; \<open>WompiProvider\<close> the payment provider, \<open>PaymentsService\<close> checkout, webhook and return,
    \<open>PaymentLaws\<close> the interleaved steps and their invariant, \<open>PaymentProperties\<close> what follows.

    Rewards: \<open>RewardsService\<close>, \<open>RewardLaws\<close>, \<open>RewardProperties\<close>, and \<open>DailyCard\<close>, which spends unlocks.

    Readings: \<open>TarotService\<close> (deck, draw), \<open>ServicesService\<close> (catalogue, forms, validator), \<open>StorageService\<close> (uploads, image
    checks, clean-up), \<open>ReadingsService\<close> with \<open>ReadingLaws\<close> and \<open>ReadingProperties\<close>; \<open>ReadingJobs\<close> and \<open>ReadingJobLaws\<close>
    (both processors, under the contract \<open>reading_processor\<close>), \<open>Queues\<close> (whole runs of jobs, under the contract \<open>worker\<close>).

    Language model: \<open>AiOrchestrator\<close>, \<open>OpenAi\<close>, \<open>PromptsService\<close>.

    Sharing: \<open>SharingService\<close>, \<open>ShareImage\<close>.

    Accounts: \<open>AuthService\<close>, \<open>AuthLaws\<close>, \<open>Notifications\<close> (mails), \<open>MailLaws\<close>, \<open>EnvValidation\<close> (the configuration).

    Catalogue: \<open>SeedData\<close>, \<open>Seed\<close>, \<open>SeedLaws\<close>.

    Interface: \<open>Requests\<close> (the classes of \<open>dto\<close> and the validation pipe), \<open>AdminService\<close> (metrics, listings, log), \<open>Http\<close> and
    \<open>AdminHttp\<close> (one function per controller), \<open>Server\<close> (rate limits, routes, responses).

    The whole: \<open>Indifference\<close> (which operations cannot touch which invariants), \<open>ServerLaws\<close> (who may do what),
    \<open>Ownership\<close> (whose readings a request may touch), \<open>Confidentiality\<close> (whose it shows), \<open>Bookkeeping\<close> and \<open>Platform\<close> (the state machine of requests, jobs
    and deployments, and what holds in all its states).

  What is shown, by groups of lemmas.

    Invariants of states: \<open>keeps I m\<close> says that a program preserves an invariant of the database; the rules in \<open>keeps_intro\<close> follow
    the structure of programs, and locales say what an invariant has to survive (\<open>indifferent\<close>, \<open>payments_free\<close>,
    \<open>rewards_free\<close>, \<open>links_free\<close>, \<open>bystander\<close>, \<open>api_invariant\<close>). From them: the books balance and rewards and links are sound in
    every reachable state; the catalogue, the administrators and other users' readings are out of reach.

    Interleavings: \<open>pay_step\<close> splits a payment between reading and settling; \<open>deliveries\<close> are arbitrary sequences of what a queue
    does; \<open>serve_auths\<close> are arbitrary requests between two uses of a token.

    Runs: \<open>same f m\<close> (a part of the world is left alone), \<open>ends I Q m\<close> (a program that returns establishes \<open>Q\<close>, one that
    throws keeps \<open>I\<close>), \<open>asks\<close> (what a processor does before it asks the model), \<open>yields\<close> (what a handler can reply), \<open>seeds\<close> (what a step of the seed adds).

    Refinement and equivalence: the wallet implements abstract accounts; the image types are those of the signatures;
    the shown image and the mails cannot be changed in structure by the texts in them.

  Bounds. The orchestrator calls the model at most three times, a queue makes three attempts (both numbers are the
  source's), the clean-up takes batches of fixed length. Every loop of the source runs over a list, so all
  definitions are total and no fuel is needed; \<open>digits\<close> and \<open>interpolate\<close> end by a measure. INTEGER columns are 32 bits wide: a value
  outside makes the statement fail (\<open>int4\<close>), as PostgreSQL does.

  Not modelled. The wiring of the modules and the start of the processes are declarations for NestJS. The texts of error messages
  (an error keeps its class and a tag), log lines except those of the mail providers, and error reporting leave no trace in the state
  that is modelled. The system prompts of the seed hold characters above 255 and are arguments. Times between two reads of
  the clock are arbitrary. Requests are atomic except where a theory splits them (\<open>PaymentLaws\<close>, and the
  second half of a callback in \<open>RewardProperties\<close>): transactions are serialised by PostgreSQL's row locks, and races between
  the separate statements of one handler are outside the properties. BullMQ, Redis and the storage are their documented
  interfaces. Migrations, scripts and tests are not part of the running program.
\<close>

end
